(* ===== verification/Prelude.thy ===== *)
theory Prelude
  imports Main "HOL-Library.Word"
begin

text \<open>
  Shared vocabulary of the development: the C integer types as words, little- and big-endian
  byte lists, the wrap-around clock comparison of the firmware, pointers that may be null,
  and the interface of a machine whose operations keep an invariant.
\<close>

unbundle bit_operations_syntax

type_synonym u8 = "8 word"
type_synonym u16 = "16 word"
type_synonym u32 = "32 word"
type_synonym u64 = "64 word"

named_theorems codec_simps \<open>definitions unfolded when a codec is evaluated or inverted\<close>
named_theorems keeps_inv \<open>operations of a component that keep its invariant\<close>

lemma word_nat_id: "of_nat (unat w) = (w :: 'a::len word)"
  by simp

lemma word_eq_of_nat: "unat w = n \<Longrightarrow> w = (of_nat n :: 'a::len word)"
  by auto

lemma unat_bound: "unat (w :: 'a::len word) < 2 ^ LENGTH('a)"
  by (rule unsigned_less)

lemma unat_of_nat_small: "n < 2 ^ LENGTH('a) \<Longrightarrow> unat (of_nat n :: 'a::len word) = n"
  by (simp add: unat_of_nat)

lemma div_mod_block:
  assumes "(r::nat) < m"
  shows "(q * m + r) div m = q" "(q * m + r) mod m = r"
  using assms by simp_all

lemma xor_cancel_right [simp]: "a XOR p = b XOR p \<longleftrightarrow> a = (b :: 'a::len word)"
  by (metis xor.assoc xor_self_eq xor.right_neutral)

lemma xor_cancel_left [simp]: "p XOR a = p XOR b \<longleftrightarrow> a = (b :: 'a::len word)"
  by (metis xor.commute xor_cancel_right)

lemma word_numeral_le_one [simp]:
  "numeral w \<le> (1 :: 'a::len word) \<longleftrightarrow> unat (numeral w :: 'a word) \<le> unat (1 :: 'a word)"
  "numeral w < (1 :: 'a::len word) \<longleftrightarrow> unat (numeral w :: 'a word) < unat (1 :: 'a word)"
  by (simp_all only: word_le_nat_alt word_less_nat_alt)

section \<open>Bytes\<close>

text \<open>Byte \<open>i\<close> of a word, least significant first: \<open>(w >> 8*i) & 0xff\<close>.\<close>

definition byte_of :: "nat \<Rightarrow> 'a::len word \<Rightarrow> u8" where
  "byte_of i w = ucast (drop_bit (8 * i) w)"

definition le_bytes :: "nat \<Rightarrow> 'a::len word \<Rightarrow> u8 list" where
  "le_bytes n w = map (\<lambda>i. byte_of i w) [0..<n]"

definition be_bytes :: "nat \<Rightarrow> 'a::len word \<Rightarrow> u8 list" where
  "be_bytes n w = map (\<lambda>i. byte_of (n - 1 - i) w) [0..<n]"

definition le16 :: "u8 \<Rightarrow> u8 \<Rightarrow> u16" where
  "le16 lo hi = ucast lo OR push_bit 8 (ucast hi)"

definition le32 :: "u8 \<Rightarrow> u8 \<Rightarrow> u8 \<Rightarrow> u8 \<Rightarrow> u32" where
  "le32 a b c d = ucast a OR push_bit 8 (ucast b) OR push_bit 16 (ucast c) OR push_bit 24 (ucast d)"

text \<open>The big-endian accumulation loop \<open>v = (v << 8) | b\<close> over a 64-bit accumulator.\<close>

definition be_value :: "u8 list \<Rightarrow> u64" where
  "be_value bs = foldl (\<lambda>v b. push_bit 8 v OR ucast b) 0 bs"

lemma length_le_bytes [simp]: "length (le_bytes n w) = n"
  by (simp add: le_bytes_def)

lemma length_be_bytes [simp]: "length (be_bytes n w) = n"
  by (simp add: be_bytes_def)

lemma nth_le_bytes [simp]: "i < n \<Longrightarrow> le_bytes n w ! i = byte_of i w"
  by (simp add: le_bytes_def)

lemma nth_be_bytes [simp]: "i < n \<Longrightarrow> be_bytes n w ! i = byte_of (n - 1 - i) w"
  by (simp add: be_bytes_def)

lemma bit_byte_of [simp]: "bit (byte_of i w) k \<longleftrightarrow> k < 8 \<and> bit w (8 * i + k)"
  by (auto simp: byte_of_def bit_simps)

lemma bit_word_over: "LENGTH('a) \<le> n \<Longrightarrow> \<not> bit (w :: 'a::len word) n"
  by (auto dest: bit_imp_le_length)

lemma le16_bytes [simp]: "le16 (byte_of 0 w) (byte_of (Suc 0) w) = w"
  by (rule bit_word_eqI) (auto simp: le16_def bit_simps)

lemma le32_bytes [simp]: "le32 (byte_of 0 w) (byte_of (Suc 0) w) (byte_of 2 w) (byte_of 3 w) = w"
proof (rule bit_word_eqI)
  fix n assume "n < LENGTH(32)"
  then consider "n < 8" | "8 \<le> n" "n < 16" | "16 \<le> n" "n < 24" | "24 \<le> n" "n < 32"
    by force
  then show "bit (le32 (byte_of 0 w) (byte_of (Suc 0) w) (byte_of 2 w) (byte_of 3 w)) n = bit w n"
    by cases (auto simp: le32_def bit_simps)
qed

lemma byte_of_le16 [simp]:
  "byte_of 0 (le16 a b) = a" "byte_of (Suc 0) (le16 a b) = b"
  by (rule bit_word_eqI, simp add: le16_def bit_simps bit_word_over)+

lemma le16_inject: "le16 a b = le16 c d \<longleftrightarrow> a = c \<and> b = d"
  by (metis byte_of_le16)

lemma byte_of_le32 [simp]:
  "byte_of 0 (le32 a b c d) = a" "byte_of (Suc 0) (le32 a b c d) = b"
  "byte_of 2 (le32 a b c d) = c" "byte_of 3 (le32 a b c d) = d"
  by (rule bit_word_eqI, simp add: le32_def bit_simps bit_word_over)+

lemma be_bytes_rev: "be_bytes n w = rev (le_bytes n w)"
  by (rule nth_equalityI) (simp_all add: rev_nth)

lemma le_bytes_Suc: "le_bytes (Suc n) w = le_bytes n w @ [byte_of n w]"
  by (simp add: le_bytes_def)

lemma le_bytes_list:
  "le_bytes 2 w = [byte_of 0 w, byte_of (Suc 0) w]"
  "le_bytes 4 w = [byte_of 0 w, byte_of (Suc 0) w, byte_of 2 w, byte_of 3 w]"
  by (simp_all add: le_bytes_def upt_rec numeral_2_eq_2 numeral_3_eq_3)

lemma be_value_foldl:
  "foldl (\<lambda>v b. push_bit 8 v OR ucast b) acc (rev (le_bytes n w)) =
     push_bit (8 * n) acc OR take_bit (8 * n) (w :: u64)"
proof (induction n arbitrary: acc)
  case 0
  show ?case by (simp add: le_bytes_def)
next
  case (Suc n)
  have "push_bit (8 * n) (ucast (byte_of n w)) OR take_bit (8 * n) w = take_bit (8 * Suc n) w"
    by (rule bit_word_eqI) (auto simp: bit_simps)
  then show ?case
    by (simp add: le_bytes_Suc Suc.IH push_bit_or push_bit_push_bit algebra_simps
        or.assoc)
qed

lemma be_value_be_bytes: "be_value (be_bytes n w) = take_bit (8 * n) w"
  by (simp add: be_value_def be_bytes_rev be_value_foldl)

section \<open>Pointers and lengths\<close>

text \<open>
  A \<open>const uint8_t*\<close> with its length is an optional byte list: \<open>None\<close> is the null
  pointer. \<open>short p n\<close> is the guard \<open>p == nullptr || length < n\<close>. An output buffer is
  \<open>Some capacity\<close> or \<open>None\<close> for the null pointer; an encoder returns the bytes it
  has written.
\<close>

type_synonym 'a ptr = "'a option"
type_synonym bytes = "u8 list"

definition short :: "bytes ptr \<Rightarrow> nat \<Rightarrow> bool" where
  "short p n = (case p of None \<Rightarrow> True | Some bs \<Rightarrow> length bs < n)"

definition no_room :: "nat ptr \<Rightarrow> nat \<Rightarrow> bool" where
  "no_room out n = (case out of None \<Rightarrow> True | Some cap \<Rightarrow> cap < n)"

lemma short_simps [simp]: "short None n" "short (Some bs) n = (length bs < n)"
  by (simp_all add: short_def)

lemma no_room_simps [simp]: "no_room None n" "no_room (Some cap) n = (cap < n)"
  by (simp_all add: no_room_def)

lemma not_shortE: "\<not> short p n \<Longrightarrow> (\<And>bs. p = Some bs \<Longrightarrow> n \<le> length bs \<Longrightarrow> R) \<Longrightarrow> R"
  by (cases p) auto

section \<open>The millisecond clock\<close>

text \<open>
  \<open>static_cast<int32_t>(now - due) >= 0\<close>: the firmware's deadline test on the wrapping
  32-bit clock. It is exact while the deadline is less than \<open>2^31\<close> ms away.
\<close>

definition time_reached :: "u32 \<Rightarrow> u32 \<Rightarrow> bool" where
  "time_reached now due = (0 \<le> sint (now - due))"

lemma time_reached_iff: "time_reached now due \<longleftrightarrow> unat (now - due) < 2 ^ 31"
proof -
  have "bit (uint x) 31 \<longleftrightarrow> 2 ^ 31 \<le> unat x" for x :: u32
  proof -
    have "uint x < 2 ^ 32" using uint_lt2p [of x] by simp
    with uint_ge_0 [of x] have "uint x div 2 ^ 31 = (if 2 ^ 31 \<le> uint x then 1 else 0)"
      by (auto intro: div_pos_pos_trivial int_div_pos_eq)
    then have "odd (uint x div 2 ^ 31) \<longleftrightarrow> 2 ^ 31 \<le> uint x" by simp
    then have "bit (uint x) 31 \<longleftrightarrow> 2 ^ 31 \<le> uint x"
      by (simp only: bit_iff_odd)
    also have "\<dots> \<longleftrightarrow> 2 ^ 31 \<le> unat x"
      using of_nat_le_iff [of "2 ^ 31" "unat x", where 'a = int] by simp
    finally show ?thesis .
  qed
  then show ?thesis
    by (simp add: time_reached_def sint_uint signed_take_bit_nonnegative_iff not_le)
qed

lemma time_reached_self [simp]: "time_reached t t"
  by (simp add: time_reached_def)

lemma deadline_exact:
  assumes "unat delay < 2 ^ 31" "elapsed < 2 ^ 31"
  shows "time_reached (start + of_nat elapsed) (start + delay) \<longleftrightarrow> unat delay \<le> elapsed"
proof -
  have e: "unat (of_nat elapsed :: u32) = elapsed"
    using assms(2) by (simp add: unat_of_nat)
  have "(start + of_nat elapsed) - (start + delay) = of_nat elapsed - delay"
    by (simp add: algebra_simps)
  then show ?thesis
    using assms by (auto simp: time_reached_iff unat_sub_if' e)
qed

section \<open>Machines that keep an invariant\<close>

text \<open>
  The contract shared by the stateful components: whatever operation is called, the
  invariant is kept; hence it is kept along every sequence of calls.
\<close>

locale step_machine =
  fixes step :: "'op \<Rightarrow> 's \<Rightarrow> 's"
    and inv :: "'s \<Rightarrow> bool"
  assumes step_inv: "inv s \<Longrightarrow> inv (step op s)"
begin

lemma run_inv: "inv s \<Longrightarrow> inv (fold step ops s)"
  by (induction ops arbitrary: s) (auto intro: step_inv)

end

end
