(* ===== verification/ModbusChannel.thy ===== *)
theory ModbusChannel
  imports Prelude
begin

text \<open>
  The data model of the Modbus side: \<^verbatim>\<open>include/modbus/ModbusChannel.h\<close>,
  \<^verbatim>\<open>Rs485Settings.h\<close> and \<^verbatim>\<open>ModbusMasterSettings.h\<close>.
  An \<^verbatim>\<open>enum class : uint8_t\<close> that the code fills by \<^verbatim>\<open>static_cast\<close> from a byte can
  hold every byte, and the code validates it afterwards; such a field is a \<open>u8\<close> here, with a
  datatype of the enumerators and the function to their codes beside it. Enumerations that are
  only ever assigned from enumerators are plain datatypes.
\<close>

section \<open>Channels\<close>

definition kCompatibilitySlotCount :: nat where "kCompatibilitySlotCount = 32"
definition kMaxChannelNameLength :: nat where "kMaxChannelNameLength = 16"

lemmas channel_consts [simp] = kCompatibilitySlotCount_def kMaxChannelNameLength_def

datatype WireDataType =
    Coil | Discrete | Input16AB | Input16BA
  | Input32ABCD | Input32BADC | Input32CDAB | Input32DCBA
  | Input32Upper16 | Input32Lower16
  | InputFloatABCD | InputFloatBADC | InputFloatCDAB | InputFloatDCBA
  | Hold16AB | Hold16BA
  | Hold32ABCD | Hold32BADC | Hold32CDAB | Hold32DCBA
  | Hold32Upper16 | Hold32Lower16
  | HoldFloatABCD | HoldFloatBADC | HoldFloatCDAB | HoldFloatDCBA
  | InputDoubleABCDEFGH | InputDoubleGHEFCDAB | InputDoubleBADCFEHG | InputDoubleHGFEDCBA
  | Input64ABCDEFGH | Input64GHEFCDAB | Input64BADCFEHG | Input64HGFEDCBA
  | HoldDoubleABCDEFGH | HoldDoubleGHEFCDAB | HoldDoubleBADCFEHG | HoldDoubleHGFEDCBA
  | Hold64ABCDEFGH | Hold64GHEFCDAB | Hold64BADCFEHG | Hold64HGFEDCBA

fun wire_code :: "WireDataType \<Rightarrow> u8" where
  "wire_code Coil = 0x00" | "wire_code Discrete = 0x01"
| "wire_code Input16AB = 0x02" | "wire_code Input16BA = 0x03"
| "wire_code Input32ABCD = 0x04" | "wire_code Input32BADC = 0x05"
| "wire_code Input32CDAB = 0x06" | "wire_code Input32DCBA = 0x07"
| "wire_code Input32Upper16 = 0x08" | "wire_code Input32Lower16 = 0x09"
| "wire_code InputFloatABCD = 0x0a" | "wire_code InputFloatBADC = 0x0b"
| "wire_code InputFloatCDAB = 0x0c" | "wire_code InputFloatDCBA = 0x0d"
| "wire_code Hold16AB = 0x0e" | "wire_code Hold16BA = 0x0f"
| "wire_code Hold32ABCD = 0x10" | "wire_code Hold32BADC = 0x11"
| "wire_code Hold32CDAB = 0x12" | "wire_code Hold32DCBA = 0x13"
| "wire_code Hold32Upper16 = 0x14" | "wire_code Hold32Lower16 = 0x15"
| "wire_code HoldFloatABCD = 0x16" | "wire_code HoldFloatBADC = 0x17"
| "wire_code HoldFloatCDAB = 0x18" | "wire_code HoldFloatDCBA = 0x19"
| "wire_code InputDoubleABCDEFGH = 0x1a" | "wire_code InputDoubleGHEFCDAB = 0x1b"
| "wire_code InputDoubleBADCFEHG = 0x1c" | "wire_code InputDoubleHGFEDCBA = 0x1d"
| "wire_code Input64ABCDEFGH = 0x1e" | "wire_code Input64GHEFCDAB = 0x1f"
| "wire_code Input64BADCFEHG = 0x20" | "wire_code Input64HGFEDCBA = 0x21"
| "wire_code HoldDoubleABCDEFGH = 0x22" | "wire_code HoldDoubleGHEFCDAB = 0x23"
| "wire_code HoldDoubleBADCFEHG = 0x24" | "wire_code HoldDoubleHGFEDCBA = 0x25"
| "wire_code Hold64ABCDEFGH = 0x26" | "wire_code Hold64GHEFCDAB = 0x27"
| "wire_code Hold64BADCFEHG = 0x28" | "wire_code Hold64HGFEDCBA = 0x29"

datatype UplinkDataType =
    UCoil | UDiscrete | UInput16 | UHold16 | UHold32 | UHoldFloat | UInput32 | UInputFloat
  | UInput32Upper16 | UInput32Lower16 | UHold32Upper16 | UHold32Lower16
  | UHold64 | UHoldDouble | UInput64 | UInputDouble

fun uplink_code :: "UplinkDataType \<Rightarrow> u8" where
  "uplink_code UCoil = 0x00" | "uplink_code UDiscrete = 0x01"
| "uplink_code UInput16 = 0x02" | "uplink_code UHold16 = 0x03"
| "uplink_code UHold32 = 0x04" | "uplink_code UHoldFloat = 0x05"
| "uplink_code UInput32 = 0x06" | "uplink_code UInputFloat = 0x07"
| "uplink_code UInput32Upper16 = 0x08" | "uplink_code UInput32Lower16 = 0x09"
| "uplink_code UHold32Upper16 = 0x0a" | "uplink_code UHold32Lower16 = 0x0b"
| "uplink_code UHold64 = 0x0c" | "uplink_code UHoldDouble = 0x0d"
| "uplink_code UInput64 = 0x0e" | "uplink_code UInputDouble = 0x0f"

text \<open>The name is the \<^verbatim>\<open>char name[17]\<close> array, terminator included.\<close>

record ChannelConfig =
  ch_slot :: u8
  ch_slaveId :: u8
  ch_address :: u16
  ch_dataType :: u8
  ch_quantity :: u8
  ch_signed :: bool
  ch_name :: bytes

definition default_channel :: ChannelConfig where
  "default_channel = \<lparr>ch_slot = 0, ch_slaveId = 1, ch_address = 0, ch_dataType = wire_code Coil,
     ch_quantity = 1, ch_signed = False, ch_name = replicate (kMaxChannelNameLength + 1) 0\<rparr>"

definition validWireDataType :: "u8 \<Rightarrow> bool" where
  "validWireDataType v = (v \<le> wire_code Hold64HGFEDCBA)"

definition validChannelConfig :: "ChannelConfig \<Rightarrow> bool" where
  "validChannelConfig c =
     (unat (ch_slot c) < kCompatibilitySlotCount \<and>
      1 \<le> ch_slaveId c \<and> ch_slaveId c \<le> 247 \<and>
      1 \<le> ch_quantity c \<and> ch_quantity c \<le> 2 \<and>
      validWireDataType (ch_dataType c))"

definition isBooleanType :: "u8 \<Rightarrow> bool" where
  "isBooleanType t = (t = wire_code Coil \<or> t = wire_code Discrete)"

definition isFloatingPointType :: "u8 \<Rightarrow> bool" where
  "isFloatingPointType raw =
     ((0x0a \<le> raw \<and> raw \<le> 0x0d) \<or> (0x16 \<le> raw \<and> raw \<le> 0x19) \<or>
      (0x1a \<le> raw \<and> raw \<le> 0x1d) \<or> (0x22 \<le> raw \<and> raw \<le> 0x25))"

definition uplinkDataType :: "u8 \<Rightarrow> UplinkDataType" where
  "uplinkDataType raw =
     (if raw = 0x00 then UCoil
      else if raw = 0x01 then UDiscrete
      else if 0x02 \<le> raw \<and> raw \<le> 0x03 then UInput16
      else if 0x04 \<le> raw \<and> raw \<le> 0x07 then UInput32
      else if raw = 0x08 then UInput32Upper16
      else if raw = 0x09 then UInput32Lower16
      else if 0x0a \<le> raw \<and> raw \<le> 0x0d then UInputFloat
      else if 0x0e \<le> raw \<and> raw \<le> 0x0f then UHold16
      else if 0x10 \<le> raw \<and> raw \<le> 0x13 then UHold32
      else if raw = 0x14 then UHold32Upper16
      else if raw = 0x15 then UHold32Lower16
      else if 0x16 \<le> raw \<and> raw \<le> 0x19 then UHoldFloat
      else if 0x1a \<le> raw \<and> raw \<le> 0x1d then UInputDouble
      else if 0x1e \<le> raw \<and> raw \<le> 0x21 then UInput64
      else if 0x22 \<le> raw \<and> raw \<le> 0x25 then UHoldDouble
      else UHold64)"

fun uplinkValueWidth :: "UplinkDataType \<Rightarrow> nat" where
  "uplinkValueWidth UCoil = 1" | "uplinkValueWidth UDiscrete = 1"
| "uplinkValueWidth UInput16 = 2" | "uplinkValueWidth UHold16 = 2"
| "uplinkValueWidth UHold32 = 4" | "uplinkValueWidth UHoldFloat = 4"
| "uplinkValueWidth UInput32 = 4" | "uplinkValueWidth UInputFloat = 4"
| "uplinkValueWidth UInput32Upper16 = 4" | "uplinkValueWidth UInput32Lower16 = 4"
| "uplinkValueWidth UHold32Upper16 = 4" | "uplinkValueWidth UHold32Lower16 = 4"
| "uplinkValueWidth UHold64 = 8" | "uplinkValueWidth UHoldDouble = 8"
| "uplinkValueWidth UInput64 = 8" | "uplinkValueWidth UInputDouble = 8"

definition uplinkSigned :: "ChannelConfig \<Rightarrow> bool" where
  "uplinkSigned c =
     (if isBooleanType (ch_dataType c) then False
      else if isFloatingPointType (ch_dataType c) then True
      else ch_signed c)"

text \<open>\<^verbatim>\<open>setChannelName(config, name, length)\<close>: the name is the \<open>length\<close> bytes read.\<close>

definition setChannelName :: "ChannelConfig \<Rightarrow> bytes ptr \<Rightarrow> ChannelConfig option" where
  "setChannelName c name =
     (case name of None \<Rightarrow> None
      | Some nm \<Rightarrow>
          if length nm > kMaxChannelNameLength then None
          else Some (c\<lparr>ch_name := nm @ replicate (kMaxChannelNameLength + 1 - length nm) 0\<rparr>))"

text \<open>C's \<^verbatim>\<open>strnlen\<close>.\<close>

definition strnlen :: "bytes \<Rightarrow> nat \<Rightarrow> nat" where
  "strnlen s n = length (takeWhile (\<lambda>b. b \<noteq> 0) (take n s))"

subsection \<open>Case analysis on wire types\<close>

lemma validWireDataType_wire_code [simp]: "validWireDataType (wire_code t)"
  by (cases t) (simp_all add: validWireDataType_def)

lemma wire_code_cases:
  assumes "validWireDataType v"
  obtains t where "v = wire_code t"
proof -
  have "unat v \<le> 41"
    using assms by (simp add: validWireDataType_def word_le_nat_alt)
  then have "unat v \<in> set [0..<42]" by auto
  then have "v \<in> set (map of_nat [0..<42])"
    by (metis (no_types, lifting) image_eqI list.set_map word_nat_id)
  moreover have "set (map of_nat [0..<42]) \<subseteq> range wire_code"
  proof -
    have "\<exists>ts. map of_nat [0..<42] = map wire_code ts"
      by (rule exI [of _ "[Coil, Discrete, Input16AB, Input16BA, Input32ABCD, Input32BADC, Input32CDAB, Input32DCBA,
       Input32Upper16, Input32Lower16, InputFloatABCD, InputFloatBADC, InputFloatCDAB,
       InputFloatDCBA, Hold16AB, Hold16BA, Hold32ABCD, Hold32BADC, Hold32CDAB, Hold32DCBA,
       Hold32Upper16, Hold32Lower16, HoldFloatABCD, HoldFloatBADC, HoldFloatCDAB, HoldFloatDCBA,
       InputDoubleABCDEFGH, InputDoubleGHEFCDAB, InputDoubleBADCFEHG, InputDoubleHGFEDCBA,
       Input64ABCDEFGH, Input64GHEFCDAB, Input64BADCFEHG, Input64HGFEDCBA,
       HoldDoubleABCDEFGH, HoldDoubleGHEFCDAB, HoldDoubleBADCFEHG, HoldDoubleHGFEDCBA,
       Hold64ABCDEFGH, Hold64GHEFCDAB, Hold64BADCFEHG, Hold64HGFEDCBA]"])
        (simp add: upt_rec)
    then obtain ts where eq: "map of_nat [0..<42] = map wire_code ts" ..
    have "set (map wire_code ts) \<subseteq> range wire_code" by auto
    then show ?thesis by (simp only: eq)
  qed
  ultimately show thesis using that by blast
qed

lemma validChannelConfigE:
  assumes "validChannelConfig c"
  obtains t where "ch_dataType c = wire_code t" "unat (ch_slot c) < 32"
    "1 \<le> ch_slaveId c" "ch_slaveId c \<le> 247" "ch_quantity c = 1 \<or> ch_quantity c = 2"
proof -
  have "ch_quantity c = 1 \<or> ch_quantity c = 2"
  proof -
    have "unat (ch_quantity c) = 1 \<or> unat (ch_quantity c) = 2"
      using assms by (auto simp: validChannelConfig_def word_le_nat_alt)
    then show ?thesis
      by (auto dest: word_eq_of_nat)
  qed
  moreover from assms obtain t where "ch_dataType c = wire_code t"
    by (auto simp: validChannelConfig_def elim: wire_code_cases)
  ultimately show thesis
    using assms that by (auto simp: validChannelConfig_def)
qed

lemma setChannelName_valid:
  "setChannelName c nm = Some c' \<Longrightarrow> validChannelConfig c' = validChannelConfig c"
  by (auto simp: setChannelName_def validChannelConfig_def split: option.splits if_splits)

lemma setChannelName_terminated:
  "setChannelName c nm = Some c' \<Longrightarrow>
     length (ch_name c') = kMaxChannelNameLength + 1 \<and> last (ch_name c') = 0"
  by (auto simp: setChannelName_def split: option.splits if_splits)

section \<open>RS485 line settings\<close>

datatype Rs485Parity = ParityNone | ParityEven | ParityOdd

fun parity_code :: "Rs485Parity \<Rightarrow> u8" where
  "parity_code ParityNone = 0x00" | "parity_code ParityEven = 0x01" | "parity_code ParityOdd = 0x02"

datatype Rs485StopBits = StopOne | StopTwo | StopOnePointFive

fun stop_code :: "Rs485StopBits \<Rightarrow> u8" where
  "stop_code StopOne = 0x01" | "stop_code StopTwo = 0x02" | "stop_code StopOnePointFive = 0x03"

record Rs485SerialSettings =
  rs_baudRate :: u32
  rs_dataBits :: u8
  rs_stopBits :: u8
  rs_parity :: u8

definition default_rs485 :: Rs485SerialSettings where
  "default_rs485 = \<lparr>rs_baudRate = 9600, rs_dataBits = 8, rs_stopBits = stop_code StopOne,
     rs_parity = parity_code ParityNone\<rparr>"

definition validRs485BaudRate :: "u32 \<Rightarrow> bool" where
  "validRs485BaudRate v =
     (v = 1200 \<or> v = 2400 \<or> v = 4800 \<or> v = 9600 \<or> v = 19200 \<or> v = 38400 \<or> v = 57600 \<or> v = 115200)"

definition validRs485SerialSettings :: "Rs485SerialSettings \<Rightarrow> bool" where
  "validRs485SerialSettings s =
     (if \<not> validRs485BaudRate (rs_baudRate s) then False
      else if rs_dataBits s < 7 \<or> rs_dataBits s > 9 then False
      else if rs_stopBits s < 1 \<or> rs_stopBits s > 3 then False
      else rs_parity s \<le> parity_code ParityOdd)"

definition esp32SupportsRs485SerialSettings :: "Rs485SerialSettings \<Rightarrow> bool" where
  "esp32SupportsRs485SerialSettings s =
     (if \<not> validRs485SerialSettings s then False
      else (rs_dataBits s = 7 \<or> rs_dataBits s = 8) \<and> rs_stopBits s \<noteq> stop_code StopOnePointFive)"

section \<open>Modbus master settings\<close>

datatype PassThroughMode = PtDisabled | PtActive | PtTwoWay

fun passthrough_code :: "PassThroughMode \<Rightarrow> u8" where
  "passthrough_code PtDisabled = 0x00"
| "passthrough_code PtActive = 0x10"
| "passthrough_code PtTwoWay = 0x11"

record ModbusMasterSettings =
  ms_executionIntervalMs :: u16
  ms_maxResponseTimeMs :: u16
  ms_maxRetryTimes :: u8
  ms_passThroughMode :: u8
  ms_passThroughPort :: u8

definition default_master :: ModbusMasterSettings where
  "default_master = \<lparr>ms_executionIntervalMs = 50, ms_maxResponseTimeMs = 500, ms_maxRetryTimes = 3,
     ms_passThroughMode = passthrough_code PtDisabled, ms_passThroughPort = 2\<rparr>"

definition validPassThroughPort :: "u8 \<Rightarrow> bool" where
  "validPassThroughPort port = ((2 \<le> port \<and> port \<le> 84) \<or> (86 \<le> port \<and> port \<le> 223))"

definition validPassThroughMode :: "u8 \<Rightarrow> bool" where
  "validPassThroughMode mode =
     (mode = passthrough_code PtDisabled \<or> mode = passthrough_code PtActive \<or>
      mode = passthrough_code PtTwoWay)"

definition validModbusMasterSettings :: "ModbusMasterSettings \<Rightarrow> bool" where
  "validModbusMasterSettings s =
     (10 \<le> ms_executionIntervalMs s \<and> ms_executionIntervalMs s \<le> 1000 \<and>
      10 \<le> ms_maxResponseTimeMs s \<and> ms_maxResponseTimeMs s \<le> 60000 \<and>
      ms_maxRetryTimes s \<le> 5 \<and>
      validPassThroughMode (ms_passThroughMode s) \<and>
      validPassThroughPort (ms_passThroughPort s))"

definition runtimeSupportsModbusMasterSettings :: "ModbusMasterSettings \<Rightarrow> bool" where
  "runtimeSupportsModbusMasterSettings s = validModbusMasterSettings s"

end
