(* ===== verification/SoftFloat.thy ===== *)
theory SoftFloat
  imports Prelude
begin

text \<open>
  The part of IEEE 754 binary arithmetic the firmware uses, on bit patterns: a \<^verbatim>\<open>float\<close> is
  a \<open>u32\<close>, a \<^verbatim>\<open>double\<close> a \<open>u64\<close>, exactly what \<^verbatim>\<open>memcpy\<close> to an integer shows. Conversions
  and subtraction round to nearest, ties to even; conversions of a NaN set the quiet bit.
\<close>

section \<open>Rounding\<close>

fun nlog2 :: "nat \<Rightarrow> nat" where
  "nlog2 n = (if n < 2 then 0 else Suc (nlog2 (n div 2)))"

declare nlog2.simps [simp del]

text \<open>\<open>n / 2^sh\<close>, rounded to nearest, ties to even.\<close>

definition rne :: "nat \<Rightarrow> nat \<Rightarrow> nat" where
  "rne n sh =
     (let q = n div 2 ^ sh; r = n mod 2 ^ sh
      in if 2 * r > 2 ^ sh \<or> (2 * r = 2 ^ sh \<and> odd q) then q + 1 else q)"

lemma nlog2_bounds: "0 < n \<Longrightarrow> 2 ^ nlog2 n \<le> n \<and> n < 2 * 2 ^ nlog2 n"
proof (induction n rule: nlog2.induct)
  case (1 n)
  show ?case
  proof (cases "n < 2")
    case True
    with "1.prems" have "n = 1" by simp
    then show ?thesis by (simp add: nlog2.simps)
  next
    case False
    with "1.IH" have "2 ^ nlog2 (n div 2) \<le> n div 2 \<and> n div 2 < 2 * 2 ^ nlog2 (n div 2)"
      by simp
    then have "2 * 2 ^ nlog2 (n div 2) \<le> n \<and> n < 2 * (2 * 2 ^ nlog2 (n div 2))"
      by linarith
    with False show ?thesis by (simp add: nlog2.simps [of n])
  qed
qed

lemma rne_exact [simp]: "rne (q * 2 ^ sh) sh = q"
  by (simp add: rne_def)

section \<open>Fields of a pattern\<close>

definition f64_sign :: "u64 \<Rightarrow> bool" where "f64_sign w = bit w 63"
definition f64_exp :: "u64 \<Rightarrow> nat" where "f64_exp w = unat w div 2 ^ 52 mod 2048"
definition f64_frac :: "u64 \<Rightarrow> nat" where "f64_frac w = unat w mod 2 ^ 52"

definition f64_isfinite :: "u64 \<Rightarrow> bool" where "f64_isfinite w = (f64_exp w \<noteq> 2047)"
definition f64_isnan :: "u64 \<Rightarrow> bool" where
  "f64_isnan w = (f64_exp w = 2047 \<and> f64_frac w \<noteq> 0)"

definition f32_isfinite :: "u32 \<Rightarrow> bool" where
  "f32_isfinite w = (unat w div 2 ^ 23 mod 256 \<noteq> 255)"

section \<open>Conversions between float and double\<close>

definition widen_mag :: "nat \<Rightarrow> nat \<Rightarrow> nat" where
  "widen_mag e f =
     (if e = 255 then 2047 * 2 ^ 52 + (if f = 0 then 0 else 2 ^ 51 + (f mod 2 ^ 22) * 2 ^ 29)
      else if e = 0 then
        (if f = 0 then 0
         else let k = nlog2 f in (k + 874) * 2 ^ 52 + (f - 2 ^ k) * 2 ^ (52 - k))
      else (e + 896) * 2 ^ 52 + f * 2 ^ 29)"

definition f64_of_f32 :: "u32 \<Rightarrow> u64" where
  "f64_of_f32 w =
     (let n = unat w
      in of_nat ((n div 2 ^ 31) * 2 ^ 63 + widen_mag (n div 2 ^ 23 mod 256) (n mod 2 ^ 23)))"

definition narrow_mag :: "nat \<Rightarrow> nat \<Rightarrow> nat" where
  "narrow_mag e f =
     (if e = 2047 then 255 * 2 ^ 23 + (if f = 0 then 0 else 2 ^ 22 + f div 2 ^ 29 mod 2 ^ 22)
      else
        let n = (if e = 0 then f else 2 ^ 52 + f); e' = max e 1
        in if 897 \<le> e' then min ((e' - 897) * 2 ^ 23 + rne n 29) (255 * 2 ^ 23)
           else rne n (29 + (897 - e')))"

definition f32_of_f64 :: "u64 \<Rightarrow> u32" where
  "f32_of_f64 w =
     (let n = unat w
      in of_nat ((n div 2 ^ 63) * 2 ^ 31 + narrow_mag (n div 2 ^ 52 mod 2048) (n mod 2 ^ 52)))"

definition f32_signalling :: "u32 \<Rightarrow> bool" where
  "f32_signalling w =
     (unat w div 2 ^ 23 mod 256 = 255 \<and> 0 < unat w mod 2 ^ 23 \<and> unat w mod 2 ^ 23 < 2 ^ 22)"

section \<open>Comparison, subtraction, integers\<close>

definition f64_key :: "u64 \<Rightarrow> int" where
  "f64_key w = (if f64_sign w then - int (unat w mod 2 ^ 63) else int (unat w mod 2 ^ 63))"

definition f64_lt :: "u64 \<Rightarrow> u64 \<Rightarrow> bool" where
  "f64_lt a b = (\<not> f64_isnan a \<and> \<not> f64_isnan b \<and> f64_key a < f64_key b)"

definition f64_le :: "u64 \<Rightarrow> u64 \<Rightarrow> bool" where
  "f64_le a b = (\<not> f64_isnan a \<and> \<not> f64_isnan b \<and> f64_key a \<le> f64_key b)"

text \<open>The pattern of \<open>n * 2^(sh0 - 1074)\<close>, rounded; infinity on overflow.\<close>

definition f64_pack :: "nat \<Rightarrow> nat \<Rightarrow> nat" where
  "f64_pack n sh0 =
     (if n = 0 then 0
      else let k = nlog2 n + sh0
           in if k < 53 then n * 2 ^ sh0
              else let sh = k - 52;
                       q = (if sh0 \<le> sh then rne n (sh - sh0) else n * 2 ^ (sh0 - sh))
                   in min (sh * 2 ^ 52 + q) (2047 * 2 ^ 52))"

definition f64_of_int :: "int \<Rightarrow> u64" where
  "f64_of_int v = of_nat ((if v < 0 then 2 ^ 63 else 0) + f64_pack (nat \<bar>v\<bar>) 1074)"

definition f64_significand :: "u64 \<Rightarrow> nat" where
  "f64_significand w = (if f64_exp w = 0 then f64_frac w else 2 ^ 52 + f64_frac w)"

text \<open>\<^verbatim>\<open>fabs(a - b)\<close>.\<close>

definition f64_abs_diff :: "u64 \<Rightarrow> u64 \<Rightarrow> u64" where
  "f64_abs_diff a b =
     (if f64_isnan a \<or> f64_isnan b \<or>
         (\<not> f64_isfinite a \<and> \<not> f64_isfinite b \<and> f64_sign a = f64_sign b)
      then 0x7ff8000000000000
      else if \<not> f64_isfinite a \<or> \<not> f64_isfinite b then 0x7ff0000000000000
      else
        let ea = max (f64_exp a) 1; eb = max (f64_exp b) 1; m = min ea eb;
            x = int (f64_significand a * 2 ^ (ea - m)); y = int (f64_significand b * 2 ^ (eb - m));
            x' = (if f64_sign a then - x else x); y' = (if f64_sign b then - y else y)
        in of_nat (f64_pack (nat \<bar>x' - y'\<bar>) (m - 1)))"

section \<open>Widening is exact\<close>

lemma div_mod_fields:
  assumes "F < 2 ^ 52" "E < 2048" "S < 2"
  shows "(S * 2 ^ 63 + (E * 2 ^ 52 + F)) div 2 ^ 63 = S"
    "(S * 2 ^ 63 + (E * 2 ^ 52 + F)) div 2 ^ 52 mod 2048 = E"
    "(S * 2 ^ 63 + (E * 2 ^ 52 + F)) mod 2 ^ 52 = (F :: nat)"
proof -
  have lt: "E * 2 ^ 52 + F < 2 ^ 63" using assms by simp
  then show "(S * 2 ^ 63 + (E * 2 ^ 52 + F)) div 2 ^ 63 = S" by simp
  have eq: "S * 2 ^ 63 + (E * 2 ^ 52 + F) = (S * 2048 + E) * 2 ^ 52 + F" by simp
  show "(S * 2 ^ 63 + (E * 2 ^ 52 + F)) div 2 ^ 52 mod 2048 = E"
    unfolding eq div_mod_block [OF assms(1)] by (rule div_mod_block [OF assms(2)])
  show "(S * 2 ^ 63 + (E * 2 ^ 52 + F)) mod 2 ^ 52 = F"
    unfolding eq by (rule div_mod_block [OF assms(1)])
qed

text \<open>Widened magnitudes split into an exponent and a fraction that narrow back.\<close>

lemma widen_mag_narrow:
  assumes "e < 256" "f < 2 ^ 23" "\<not> (e = 255 \<and> 0 < f \<and> f < 2 ^ 22)"
  shows "\<exists>E F. widen_mag e f = E * 2 ^ 52 + F \<and> E < 2048 \<and> F < 2 ^ 52 \<and>
    narrow_mag E F = e * 2 ^ 23 + f"
proof -
  consider "e = 255" | "e = 0" "f = 0" | "e = 0" "0 < f" | "0 < e" "e < 255"
    using assms(1) by linarith
  then show ?thesis
  proof cases
    case 1
    let ?F = "if f = 0 then 0 else 2 ^ 51 + (f mod 2 ^ 22) * 2 ^ 29 :: nat"
    have lt: "(f mod 2 ^ 22) * 2 ^ 29 < 2 ^ 51" by simp
    have f: "f \<noteq> 0 \<Longrightarrow> f = 2 ^ 22 + f mod 2 ^ 22"
      using assms 1 by (auto simp: mod_if)
    have m: "(2 ^ 51 + (f mod 2 ^ 22) * 2 ^ 29) div 2 ^ 29 mod 2 ^ 22 = f mod 2 ^ 22"
    proof -
      have "2 ^ 51 + (f mod 2 ^ 22) * 2 ^ 29 = (2 ^ 22 + f mod 2 ^ 22) * (2 ^ 29 :: nat)" by simp
      then show ?thesis by (simp only: nonzero_mult_div_cancel_right) simp
    qed
    have "narrow_mag 2047 ?F = e * 2 ^ 23 + f"
      using 1 f m by (simp add: narrow_mag_def del: power_numeral)
    moreover have "widen_mag e f = 2047 * 2 ^ 52 + ?F"
      using 1 by (simp add: widen_mag_def)
    moreover have "?F < 2 ^ 52" using lt by simp
    ultimately show ?thesis by (intro exI [of _ 2047] exI [of _ ?F]) simp
  next
    case 2
    then show ?thesis
      by (intro exI [of _ 0] exI [of _ 0]) (simp add: widen_mag_def narrow_mag_def rne_def)
  next
    case 3
    let ?k = "nlog2 f" and ?F = "(f - 2 ^ nlog2 f) * 2 ^ (52 - nlog2 f)"
    have b: "2 ^ ?k \<le> f" "f < 2 * 2 ^ ?k" using nlog2_bounds [OF 3(2)] by auto
    have k: "?k < 23"
    proof (rule ccontr)
      assume "\<not> ?k < 23"
      then have "(2::nat) ^ 23 \<le> 2 ^ ?k" by (intro power_increasing) auto
      with b assms(2) show False by linarith
    qed
    have p: "2 ^ ?k * 2 ^ (52 - ?k) = (2 ^ 52 :: nat)"
      using k by (simp flip: power_add)
    have fl: "?F < 2 ^ 52"
    proof -
      have "?F < 2 ^ ?k * 2 ^ (52 - ?k)" using b by (intro mult_strict_right_mono) auto
      then show ?thesis using p by simp
    qed
    have "2 ^ ?k * 2 ^ (52 - ?k) \<le> f * 2 ^ (52 - ?k)" using b(1) by (rule mult_right_mono) simp
    then have n: "2 ^ 52 + ?F = f * 2 ^ (52 - ?k)"
      unfolding diff_mult_distrib p by (rule le_add_diff_inverse)
    have sh: "29 + (897 - (?k + 874)) = 52 - ?k" using k by simp
    have "narrow_mag (?k + 874) ?F = f"
      using k n sh by (simp add: narrow_mag_def max_def del: power_numeral)
    then show ?thesis
      using 3 k fl by (intro exI [of _ "?k + 874"] exI [of _ ?F]) (simp add: widen_mag_def Let_def)
  next
    case 4
    have n: "2 ^ 52 + f * 2 ^ 29 = (2 ^ 23 + f) * 2 ^ 29" by simp
    have "narrow_mag (e + 896) (f * 2 ^ 29) = min ((e - 1) * 2 ^ 23 + (2 ^ 23 + f)) (255 * 2 ^ 23)"
      using 4 n by (simp add: narrow_mag_def max_def Let_def del: power_numeral)
    also have "\<dots> = e * 2 ^ 23 + f"
    proof -
      have "(e - 1) * 2 ^ 23 + (2 ^ 23 + f) = e * 2 ^ 23 + f"
        using 4 by (cases e) auto
      moreover have "e * 2 ^ 23 + f \<le> 255 * 2 ^ 23" using 4 assms(2) by simp
      ultimately show ?thesis by (simp only: min_def if_True)
    qed
    finally show ?thesis
      using 4 assms(2)
      by (intro exI [of _ "e + 896"] exI [of _ "f * 2 ^ 29"]) (simp add: widen_mag_def)
  qed
qed

lemma f32_of_f64_of_f32:
  assumes "\<not> f32_signalling w"
  shows "f32_of_f64 (f64_of_f32 w) = w"
proof -
  define n where "n = unat w"
  define s e f where "s = n div 2 ^ 31" and "e = n div 2 ^ 23 mod 256" and "f = n mod 2 ^ 23"
  have n: "n < 2 ^ 32" using unat_bound [of w] by (simp add: n_def)
  have s: "s < 2" using n by (simp add: s_def less_mult_imp_div_less)
  have split: "n = s * 2 ^ 31 + (e * 2 ^ 23 + f)"
  proof -
    have "n div 2 ^ 23 div 256 = s" by (simp add: s_def flip: div_mult2_eq)
    then have "n div 2 ^ 23 = s * 256 + e" by (simp add: e_def flip: mod_div_decomp)
      (metis div_mult_mod_eq)
    moreover have "n = n div 2 ^ 23 * 2 ^ 23 + f" by (simp add: f_def)
    ultimately have "n = (s * 256 + e) * 2 ^ 23 + f" by (simp only:)
    then show ?thesis by simp
  qed
  obtain E F where EF: "widen_mag e f = E * 2 ^ 52 + F" "E < 2048" "F < 2 ^ 52"
      "narrow_mag E F = e * 2 ^ 23 + f"
    using widen_mag_narrow [of e f] assms
    by (auto simp: f32_signalling_def e_def f_def n_def)
  have "s * 2 ^ 63 + (E * 2 ^ 52 + F) < 2 ^ LENGTH(64)"
    using s EF(2,3) by simp
  moreover have "f64_of_f32 w = of_nat (s * 2 ^ 63 + (E * 2 ^ 52 + F))"
    by (simp only: f64_of_f32_def Let_def n_def s_def e_def f_def flip: EF(1))
  ultimately have "unat (f64_of_f32 w) = s * 2 ^ 63 + (E * 2 ^ 52 + F)"
    by (simp only: unat_of_nat_small)
  then have "f32_of_f64 (f64_of_f32 w) = of_nat (s * 2 ^ 31 + (e * 2 ^ 23 + f))"
    using div_mod_fields [OF EF(3,2) s] EF(4) by (simp only: f32_of_f64_def Let_def)
  then show ?thesis by (simp only: split [symmetric] n_def word_nat_id)
qed

end
