(* ===== verification/Checksum.thy ===== *)
theory Checksum
  imports Prelude
begin

text \<open>
  Cyclic redundancy checks. The interface \<open>byte_crc\<close> says what the frame formats rely on:
  the register update is injective in the register and in the byte. Its client lemma is that
  a message with one altered byte never has the checksum of the original. The shift step
  shared by the CRC-16 of Modbus RTU and the CRC-32 of the history image provides it.
\<close>

locale byte_crc =
  fixes feed :: "'c \<Rightarrow> u8 \<Rightarrow> 'c"
  assumes feed_state: "feed s b = feed t b \<Longrightarrow> s = t"
    and feed_byte: "feed s a = feed s b \<Longrightarrow> a = b"
begin

lemma foldl_state: "foldl feed s xs = foldl feed t xs \<Longrightarrow> s = t"
  by (induction xs arbitrary: s t) (auto dest: feed_state)

lemma single_byte_detected:
  assumes "i < length xs" "b \<noteq> xs ! i"
  shows "foldl feed s (xs[i := b]) \<noteq> foldl feed s xs"
proof
  define pre where "pre = take i xs"
  define post where "post = drop (Suc i) xs"
  have xs: "xs = pre @ xs ! i # post" and ys: "xs[i := b] = pre @ b # post"
    using assms(1) by (simp_all add: pre_def post_def id_take_nth_drop upd_conv_take_nth_drop)
  assume "foldl feed s (xs[i := b]) = foldl feed s xs"
  then have "foldl feed (feed (foldl feed s pre) b) post =
      foldl feed (feed (foldl feed s pre) (xs ! i)) post"
    using xs ys by (metis foldl_Cons foldl_append)
  then have "feed (foldl feed s pre) b = feed (foldl feed s pre) (xs ! i)"
    by (rule foldl_state)
  then have "b = xs ! i" by (rule feed_byte)
  with assms(2) show False by contradiction
qed

end

text \<open>One shift of a reflected CRC register.\<close>

definition crc_shift :: "'a::len word \<Rightarrow> 'a word \<Rightarrow> 'a word" where
  "crc_shift poly c = (if bit c 0 then drop_bit 1 c XOR poly else drop_bit 1 c)"

lemma crc_shift_top:
  fixes c :: "'a::len word"
  assumes "bit poly (LENGTH('a) - 1)"
  shows "bit (crc_shift poly c) (LENGTH('a) - 1) = bit c 0"
  using assms by (auto simp: crc_shift_def bit_simps bit_word_over)

lemma crc_shift_inj:
  fixes c d :: "'a::len word"
  assumes top: "bit poly (LENGTH('a) - 1)" and eq: "crc_shift poly c = crc_shift poly d"
  shows "c = d"
proof (rule bit_word_eqI)
  fix n assume n: "n < LENGTH('a)"
  have b0: "bit c 0 = bit d 0"
    using eq by (metis crc_shift_top [OF top])
  then have "drop_bit 1 c = drop_bit 1 d"
    using eq by (auto simp: crc_shift_def split: if_splits)
  then have "bit (drop_bit 1 c) k = bit (drop_bit 1 d) k" for k by simp
  then have "bit c (Suc k) = bit d (Suc k)" for k by (simp add: bit_simps)
  with b0 show "bit c n = bit d n" by (cases n) auto
qed

lemma crc_shifts_inj:
  fixes c d :: "'a::len word"
  assumes "bit poly (LENGTH('a) - 1)"
  shows "(crc_shift poly ^^ k) c = (crc_shift poly ^^ k) d \<Longrightarrow> c = d"
  by (induction k) (auto dest: crc_shift_inj [OF assms])

definition crc_feed :: "'a::len word \<Rightarrow> 'a word \<Rightarrow> u8 \<Rightarrow> 'a word" where
  "crc_feed poly c b = (crc_shift poly ^^ 8) (c XOR ucast b)"

lemma byte_crc_feed:
  fixes poly :: "'a::len word"
  assumes "bit poly (LENGTH('a) - 1)" "8 \<le> LENGTH('a)"
  shows "byte_crc (crc_feed poly)"
proof
  show "crc_feed poly s b = crc_feed poly t b \<Longrightarrow> s = t" for s t b
    unfolding crc_feed_def by (drule crc_shifts_inj [OF assms(1)]) simp
  show "a = b" if "crc_feed poly s a = crc_feed poly s b" for s a b
  proof -
    have "s XOR ucast a = s XOR ucast b"
      using that unfolding crc_feed_def by (rule crc_shifts_inj [OF assms(1)])
    then have "(ucast a :: 'a word) = ucast b" by simp
    then have "(ucast (ucast a :: 'a word) :: u8) = ucast (ucast b :: 'a word)" by simp
    then show "a = b" using assms(2) by (simp add: ucast_down_ucast_id is_down)
  qed
qed

end
