(* ===== verification/ModbusRtuCodec.thy ===== *)
theory ModbusRtuCodec
  imports ModbusChannel SoftFloat Checksum
begin

text \<open>
  \<^verbatim>\<open>include/modbus/ModbusRtuCodec.h\<close>: Modbus RTU requests and responses. Out-parameters
  become results: a request builder returns the frame or its error status, the response
  decoders return the status with the exception code, or the decoded scalars. A
  \<^verbatim>\<open>double\<close> is its 64-bit pattern, an \<^verbatim>\<open>int64_t\<close> its two's complement word.
\<close>

datatype RtuDecodeStatus =
    RtuOk | RtuInvalidConfig | RtuBufferTooSmall | RtuTruncated | RtuCrcMismatch
  | RtuSlaveMismatch | RtuFunctionMismatch | RtuExceptionResponse | RtuLengthMismatch

datatype ScalarKind = KBoolean | KSignedInteger | KUnsignedInteger | KFloatingPoint

record DecodedScalar =
  sc_kind :: ScalarKind
  sc_boolean :: bool
  sc_signed :: u64
  sc_unsigned :: u64
  sc_floating :: u64

definition default_scalar :: DecodedScalar where
  "default_scalar = \<lparr>sc_kind = KUnsignedInteger, sc_boolean = False, sc_signed = 0,
     sc_unsigned = 0, sc_floating = 0\<rparr>"

definition kReadCoils :: u8 where "kReadCoils = 0x01"
definition kReadDiscreteInputs :: u8 where "kReadDiscreteInputs = 0x02"
definition kReadHoldingRegisters :: u8 where "kReadHoldingRegisters = 0x03"
definition kReadInputRegisters :: u8 where "kReadInputRegisters = 0x04"
definition kWriteSingleCoil :: u8 where "kWriteSingleCoil = 0x05"
definition kWriteSingleRegister :: u8 where "kWriteSingleRegister = 0x06"
definition kWriteMultipleRegisters :: u8 where "kWriteMultipleRegisters = 0x10"

lemmas function_codes [simp] =
  kReadCoils_def kReadDiscreteInputs_def kReadHoldingRegisters_def kReadInputRegisters_def
  kWriteSingleCoil_def kWriteSingleRegister_def kWriteMultipleRegisters_def

section \<open>CRC-16\<close>

definition crc16_bit :: "u16 \<Rightarrow> u16" where
  "crc16_bit crc =
     (let lsb = (crc AND 0x0001 \<noteq> 0); shifted = drop_bit 1 crc
      in if lsb then shifted XOR 0xA001 else shifted)"

definition crc16_byte :: "u16 \<Rightarrow> u8 \<Rightarrow> u16" where
  "crc16_byte crc b = (crc16_bit ^^ 8) (crc XOR ucast b)"

definition crc16 :: "bytes ptr \<Rightarrow> u16" where
  "crc16 data = (case data of None \<Rightarrow> 0xFFFF | Some bs \<Rightarrow> foldl crc16_byte 0xFFFF bs)"

text \<open>\<^verbatim>\<open>appendCrc\<close>: low byte first.\<close>

definition appendCrc :: "bytes \<Rightarrow> bytes" where
  "appendCrc frame =
     frame @ [byte_of 0 (crc16 (Some frame)), byte_of 1 (crc16 (Some frame))]"

section \<open>Types\<close>

definition functionCode :: "u8 \<Rightarrow> u8" where
  "functionCode raw =
     (if raw = wire_code Coil then kReadCoils
      else if raw = wire_code Discrete then kReadDiscreteInputs
      else if (0x02 \<le> raw \<and> raw \<le> 0x0d) \<or> (0x1a \<le> raw \<and> raw \<le> 0x21) then kReadInputRegisters
      else if (0x0e \<le> raw \<and> raw \<le> 0x19) \<or> (0x22 \<le> raw \<and> raw \<le> 0x29) then kReadHoldingRegisters
      else 0)"

definition registersPerValue :: "u8 \<Rightarrow> u8" where
  "registersPerValue raw =
     (if raw \<le> 0x03 \<or> (0x0e \<le> raw \<and> raw \<le> 0x0f) then 1
      else if (0x04 \<le> raw \<and> raw \<le> 0x0d) \<or> (0x10 \<le> raw \<and> raw \<le> 0x19) then 2
      else if 0x1a \<le> raw \<and> raw \<le> 0x29 then 4
      else 0)"

definition writableType :: "u8 \<Rightarrow> bool" where
  "writableType raw =
     (if raw = wire_code Coil then True
      else if raw = 0x0e \<or> raw = 0x0f then True
      else if 0x10 \<le> raw \<and> raw \<le> 0x13 then True
      else if 0x16 \<le> raw \<and> raw \<le> 0x19 then True
      else if 0x22 \<le> raw \<and> raw \<le> 0x29 then True
      else False)"

definition orderedWidth :: "u8 \<Rightarrow> nat" where
  "orderedWidth raw =
     (if (0x02 \<le> raw \<and> raw \<le> 0x03) \<or> (0x0e \<le> raw \<and> raw \<le> 0x0f) then 2
      else if (0x04 \<le> raw \<and> raw \<le> 0x07) \<or> (0x0a \<le> raw \<and> raw \<le> 0x0d) \<or>
              (0x10 \<le> raw \<and> raw \<le> 0x13) \<or> (0x16 \<le> raw \<and> raw \<le> 0x19) then 4
      else if 0x1a \<le> raw \<and> raw \<le> 0x29 then 8
      else 0)"

definition kOrders4 :: "nat list list" where
  "kOrders4 = [[0, 1, 2, 3], [1, 0, 3, 2], [2, 3, 0, 1], [3, 2, 1, 0]]"

definition kOrders8 :: "nat list list" where
  "kOrders8 = [[0, 1, 2, 3, 4, 5, 6, 7], [6, 7, 4, 5, 2, 3, 0, 1],
               [1, 0, 3, 2, 5, 4, 7, 6], [7, 6, 5, 4, 3, 2, 1, 0]]"

definition orderBytes :: "u8 \<Rightarrow> bytes \<Rightarrow> nat \<Rightarrow> bytes option" where
  "orderBytes rawType raw width =
     (if width = 2 then
        (let swapped = (rawType = 0x03 \<or> rawType = 0x0f)
         in Some [raw ! (if swapped then 1 else 0), raw ! (if swapped then 0 else 1)])
      else if width = 4 then
        (let base = (if 0x04 \<le> rawType \<and> rawType \<le> 0x07 then Some 0x04
                     else if 0x0a \<le> rawType \<and> rawType \<le> 0x0d then Some 0x0a
                     else if 0x10 \<le> rawType \<and> rawType \<le> 0x13 then Some 0x10
                     else if 0x16 \<le> rawType \<and> rawType \<le> 0x19 then Some 0x16
                     else None)
         in case base of None \<Rightarrow> None
            | Some b \<Rightarrow> Some (map (\<lambda>i. raw ! i) (kOrders4 ! unat (rawType - b))))
      else if width = 8 then
        (let variant = (if rawType \<le> 0x21 then (rawType - 0x1a) AND 0x03
                        else (rawType - 0x22) AND 0x03)
         in Some (map (\<lambda>i. raw ! i) (kOrders8 ! unat variant)))
      else None)"

definition readQuantity :: "ChannelConfig \<Rightarrow> u16" where
  "readQuantity c =
     (if \<not> validChannelConfig c then 0
      else if isBooleanType (ch_dataType c) then ucast (ch_quantity c)
      else let wordsPerValue = registersPerValue (ch_dataType c)
           in if wordsPerValue = 0 then 0 else ucast wordsPerValue * ucast (ch_quantity c))"

section \<open>Read requests\<close>

definition buildReadRequest :: "ChannelConfig \<Rightarrow> nat ptr \<Rightarrow> RtuDecodeStatus + bytes" where
  "buildReadRequest c out =
     (if \<not> validChannelConfig c then Inl RtuInvalidConfig
      else if no_room out 8 then Inl RtuBufferTooSmall
      else
        let function = functionCode (ch_dataType c); quantity = readQuantity c
        in if function = 0 \<or> quantity = 0 then Inl RtuInvalidConfig
           else if unat (ch_address c) + unat quantity > 0x10000 then Inl RtuInvalidConfig
           else Inr (appendCrc
             [ch_slaveId c, function, byte_of 1 (ch_address c), byte_of 0 (ch_address c),
              byte_of 1 quantity, byte_of 0 quantity]))"

section \<open>Register values\<close>

definition encodeInteger :: "ChannelConfig \<Rightarrow> DecodedScalar \<Rightarrow> nat \<Rightarrow> u64 option" where
  "encodeInteger c value bits =
     (if ch_signed c \<and> sc_kind value \<noteq> KSignedInteger then None
      else if \<not> ch_signed c \<and> sc_kind value \<noteq> KUnsignedInteger then None
      else
        let raw = (if ch_signed c then sc_signed value else sc_unsigned value)
        in if bits < 64 then
             let mask = push_bit bits 1 - 1
             in if ch_signed c \<and>
                   (sint (sc_signed value) < - (2 ^ (bits - 1)) \<or>
                    sint (sc_signed value) > 2 ^ (bits - 1) - 1) then None
                else if \<not> ch_signed c \<and> raw AND NOT mask \<noteq> 0 then None
                else Some (raw AND mask)
           else Some raw)"

definition encodeRegisterValue :: "ChannelConfig \<Rightarrow> DecodedScalar \<Rightarrow> nat \<Rightarrow> bytes option" where
  "encodeRegisterValue c value capacity =
     (let type = ch_dataType c; width = orderedWidth type
      in if width = 0 \<or> capacity < width then None
         else
           let canonical =
             (if isFloatingPointType type then
                (if sc_kind value \<noteq> KFloatingPoint then None
                 else if width = 4 then Some (be_bytes 4 (f32_of_f64 (sc_floating value)))
                 else if width = 8 then Some (be_bytes 8 (sc_floating value))
                 else None)
              else map_option (be_bytes width) (encodeInteger c value (8 * width)))
           in case canonical of None \<Rightarrow> None | Some bs \<Rightarrow> orderBytes type bs width)"

definition setInteger :: "ChannelConfig \<Rightarrow> u64 \<Rightarrow> nat \<Rightarrow> DecodedScalar" where
  "setInteger c raw widthBits =
     (if \<not> ch_signed c then default_scalar\<lparr>sc_kind := KUnsignedInteger, sc_unsigned := raw\<rparr>
      else default_scalar\<lparr>sc_kind := KSignedInteger, sc_signed :=
        (if 64 \<le> widthBits then raw
         else if \<not> bit raw (widthBits - 1) then raw
         else raw OR push_bit widthBits (- 1))\<rparr>)"

definition decodeRegisterValue :: "ChannelConfig \<Rightarrow> bytes \<Rightarrow> DecodedScalar option" where
  "decodeRegisterValue c raw =
     (let rawType = ch_dataType c
      in if rawType = 0x08 \<or> rawType = 0x09 \<or> rawType = 0x14 \<or> rawType = 0x15 then
           (if length raw \<noteq> 4 then None
            else let offset = (if rawType = 0x08 \<or> rawType = 0x14 then 0 else 2);
                     selected = le16 (raw ! (offset + 1)) (raw ! offset)
                 in Some (setInteger c (ucast selected) 16))
         else
           let width = orderedWidth rawType
           in if width = 0 \<or> length raw \<noteq> width then None
              else case orderBytes rawType raw width of None \<Rightarrow> None
                | Some ordered \<Rightarrow>
                    if isFloatingPointType rawType then
                      (if width = 4 then
                         Some (default_scalar\<lparr>sc_kind := KFloatingPoint, sc_floating :=
                           f64_of_f32 (le32 (ordered ! 3) (ordered ! 2) (ordered ! 1) (ordered ! 0))\<rparr>)
                       else if width = 8 then
                         Some (default_scalar\<lparr>sc_kind := KFloatingPoint, sc_floating := be_value ordered\<rparr>)
                       else None)
                    else Some (setInteger c (be_value ordered) (8 * width)))"

section \<open>Write requests\<close>

definition buildWriteRequest ::
    "ChannelConfig \<Rightarrow> u8 \<Rightarrow> DecodedScalar \<Rightarrow> nat ptr \<Rightarrow> RtuDecodeStatus + bytes" where
  "buildWriteRequest c valueIndex value out =
     (if \<not> validChannelConfig c \<or> valueIndex \<ge> ch_quantity c \<or> \<not> writableType (ch_dataType c)
      then Inl RtuInvalidConfig
      else case out of None \<Rightarrow> Inl RtuBufferTooSmall
      | Some capacity \<Rightarrow>
         if ch_dataType c = wire_code Coil then
           (if sc_kind value \<noteq> KBoolean \<or> capacity < 8 then Inl RtuInvalidConfig
            else
              let address = unat (ch_address c) + unat valueIndex
              in if address > 0xffff then Inl RtuInvalidConfig
                 else Inr (appendCrc
                   [ch_slaveId c, kWriteSingleCoil,
                    byte_of 1 (of_nat address :: u32), byte_of 0 (of_nat address :: u32),
                    if sc_boolean value then 0xff else 0x00, 0x00]))
         else
           let words = registersPerValue (ch_dataType c)
           in if words = 0 then Inl RtuInvalidConfig
              else
                let address = unat (ch_address c) + unat valueIndex * unat words
                in if address + unat words > 0x10000 then Inl RtuInvalidConfig
                   else case encodeRegisterValue c value 8 of
                     None \<Rightarrow> Inl RtuInvalidConfig
                   | Some wire \<Rightarrow>
                       if words = 1 then
                         (if capacity < 8 \<or> length wire \<noteq> 2 then Inl RtuBufferTooSmall
                          else Inr (appendCrc
                            [ch_slaveId c, kWriteSingleRegister,
                             byte_of 1 (of_nat address :: u32), byte_of 0 (of_nat address :: u32),
                             wire ! 0, wire ! 1]))
                       else if capacity < 9 + length wire then Inl RtuBufferTooSmall
                       else Inr (appendCrc
                         ([ch_slaveId c, kWriteMultipleRegisters,
                           byte_of 1 (of_nat address :: u32), byte_of 0 (of_nat address :: u32),
                           0x00, words, of_nat (length wire)] @ wire)))"

section \<open>Responses\<close>

text \<open>The CRC check shared by both decoders: the last two bytes against the rest.\<close>

definition crc_ok :: "bytes \<Rightarrow> bool" where
  "crc_ok frame =
     (let n = length frame
      in crc16 (Some (take (n - 2) frame)) = le16 (frame ! (n - 2)) (frame ! (n - 1)))"

definition decodeWriteResponse ::
    "ChannelConfig \<Rightarrow> u8 \<Rightarrow> bytes ptr \<Rightarrow> bytes ptr \<Rightarrow> RtuDecodeStatus \<times> u8" where
  "decodeWriteResponse c valueIndex req resp =
     (case (req, resp) of
        (Some request, Some response) \<Rightarrow>
          if \<not> validChannelConfig c \<or> valueIndex \<ge> ch_quantity c \<or> \<not> writableType (ch_dataType c)
          then (RtuInvalidConfig, 0)
          else if length response < 5 then (RtuTruncated, 0)
          else if \<not> crc_ok response then (RtuCrcMismatch, 0)
          else if response ! 0 \<noteq> ch_slaveId c then (RtuSlaveMismatch, 0)
          else
            let function = (if length request \<ge> 2 then request ! 1 else 0)
            in if response ! 1 = function OR 0x80 then
                 (if length response \<noteq> 5 then (RtuLengthMismatch, 0)
                  else (RtuExceptionResponse, response ! 2))
               else if response ! 1 \<noteq> function then (RtuFunctionMismatch, 0)
               else if function = kWriteSingleCoil \<or> function = kWriteSingleRegister then
                 (if length request \<noteq> 8 \<or> length response \<noteq> 8 then (RtuLengthMismatch, 0)
                  else if take 6 request = take 6 response then (RtuOk, 0)
                  else (RtuLengthMismatch, 0))
               else if function = kWriteMultipleRegisters then
                 (if length request < 11 \<or> length response \<noteq> 8 then (RtuLengthMismatch, 0)
                  else if take 6 request \<noteq> take 6 response then (RtuLengthMismatch, 0)
                  else (RtuOk, 0))
               else (RtuFunctionMismatch, 0)
      | _ \<Rightarrow> (RtuInvalidConfig, 0))"

text \<open>The value loop: booleans are single bits, register values fixed-size slices.\<close>

definition decodeBooleans :: "bytes \<Rightarrow> nat \<Rightarrow> DecodedScalar list" where
  "decodeBooleans data n =
     map (\<lambda>i. default_scalar\<lparr>sc_kind := KBoolean, sc_boolean := bit (data ! (i div 8)) (i mod 8)\<rparr>) [0..<n]"

fun decodeRegisters :: "ChannelConfig \<Rightarrow> nat \<Rightarrow> nat \<Rightarrow> bytes \<Rightarrow> DecodedScalar list option" where
  "decodeRegisters c width 0 data = Some []"
| "decodeRegisters c width (Suc n) data =
     (case decodeRegisterValue c (take width data) of
        None \<Rightarrow> None
      | Some v \<Rightarrow> map_option ((#) v) (decodeRegisters c width n (drop width data)))"

definition decodeReadResponse ::
    "ChannelConfig \<Rightarrow> bytes ptr \<Rightarrow> (RtuDecodeStatus \<times> u8) + DecodedScalar list" where
  "decodeReadResponse c p =
     (if \<not> validChannelConfig c then Inl (RtuInvalidConfig, 0)
      else if short p 5 then Inl (RtuTruncated, 0)
      else
        let frame = the p; type = ch_dataType c; expectedFunction = functionCode type
        in if \<not> crc_ok frame then Inl (RtuCrcMismatch, 0)
           else if frame ! 0 \<noteq> ch_slaveId c then Inl (RtuSlaveMismatch, 0)
           else if frame ! 1 = expectedFunction OR 0x80 then
             (if length frame \<noteq> 5 then Inl (RtuLengthMismatch, 0)
              else Inl (RtuExceptionResponse, frame ! 2))
           else if frame ! 1 \<noteq> expectedFunction then Inl (RtuFunctionMismatch, 0)
           else
             let quantity = unat (readQuantity c);
                 expectedDataBytes = (if isBooleanType type then (quantity + 7) div 8 else quantity * 2)
             in if unat (frame ! 2) \<noteq> expectedDataBytes \<or> length frame \<noteq> expectedDataBytes + 5
                then Inl (RtuLengthMismatch, 0)
                else
                  let data = take expectedDataBytes (drop 3 frame); n = unat (ch_quantity c)
                  in if isBooleanType type then Inr (decodeBooleans data n)
                     else case decodeRegisters c (unat (registersPerValue type) * 2) n data of
                       None \<Rightarrow> Inl (RtuInvalidConfig, 0)
                     | Some vs \<Rightarrow> Inr vs)"

section \<open>CRC facts\<close>

lemma crc16_bit_shift: "crc16_bit = crc_shift 0xA001"
proof
  fix c :: u16
  have "(c AND 1 \<noteq> 0) = bit c 0" by (simp add: and_one_eq bit_0 odd_iff_mod_2_eq_one)
  then show "crc16_bit c = crc_shift 0xA001 c"
    by (simp add: crc16_bit_def crc_shift_def Let_def)
qed

lemma crc16_byte_feed: "crc16_byte = crc_feed 0xA001"
  by (intro ext) (simp add: crc16_byte_def crc_feed_def crc16_bit_shift)

interpretation modbus_crc: byte_crc crc16_byte
  unfolding crc16_byte_feed by (rule byte_crc_feed) simp_all

lemma length_appendCrc [simp]: "length (appendCrc bs) = length bs + 2"
  by (simp add: appendCrc_def)

lemma nth_appendCrc [simp]: "i < length bs \<Longrightarrow> appendCrc bs ! i = bs ! i"
  by (simp add: appendCrc_def nth_append)

lemma take_appendCrc [simp]: "n \<le> length bs \<Longrightarrow> take n (appendCrc bs) = take n bs"
  by (simp add: appendCrc_def)

lemma crc_ok_appendCrc [simp]: "crc_ok (appendCrc bs)"
  by (simp add: crc_ok_def Let_def appendCrc_def nth_append)

lemma crc_ok_iff:
  assumes "2 \<le> length frame"
  shows "crc_ok frame \<longleftrightarrow> frame = appendCrc (take (length frame - 2) frame)"
proof -
  let ?n = "length frame"
  have "frame = take (?n - 2) frame @ [frame ! (?n - 2), frame ! (?n - 1)]"
  proof -
    have "drop (?n - 2) frame = [frame ! (?n - 2), frame ! (?n - 1)]"
      using assms by (intro nth_equalityI) (auto simp: less_Suc_eq numeral_2_eq_2)
    then show ?thesis by (metis append_take_drop_id)
  qed
  moreover have "(crc = le16 a b) = ([a, b] = [byte_of 0 crc, byte_of 1 crc])" for crc a b
    by (auto simp: le16_inject)
  ultimately show ?thesis
    unfolding crc_ok_def appendCrc_def Let_def
    by (metis same_append_eq)
qed

text \<open>One altered byte, in the payload or in the trailer, breaks the check.\<close>

lemma crc_ok_corrupted:
  assumes ok: "crc_ok frame" and len: "2 \<le> length frame"
    and i: "i < length frame" and b: "b \<noteq> frame ! i"
  shows "\<not> crc_ok (frame[i := b])"
proof
  assume bad: "crc_ok (frame[i := b])"
  define m where "m = length frame - 2"
  have f: "frame = appendCrc (take m frame)" using ok len by (simp add: m_def crc_ok_iff)
  have g: "frame[i := b] = appendCrc (take m (frame[i := b]))"
    using bad len by (simp add: m_def crc_ok_iff)
  show False
  proof (cases "i < m")
    case True
    have tl: "drop m frame = drop m (frame[i := b])" using True by simp
    have "drop m frame =
        [byte_of 0 (crc16 (Some (take m frame))), byte_of 1 (crc16 (Some (take m frame)))]"
      by (subst f) (use i m_def in \<open>simp add: appendCrc_def\<close>)
    moreover have "drop m (frame[i := b]) =
        [byte_of 0 (crc16 (Some (take m (frame[i := b])))),
         byte_of 1 (crc16 (Some (take m (frame[i := b]))))]"
      by (subst g) (use i m_def in \<open>simp add: appendCrc_def\<close>)
    ultimately have "crc16 (Some (take m frame)) = crc16 (Some (take m (frame[i := b])))"
      using tl by (metis One_nat_def le16_bytes list.inject)
    moreover have "take m (frame[i := b]) = (take m frame)[i := b]"
      using True by (simp add: take_update_swap)
    ultimately show False
      using modbus_crc.single_byte_detected [of i "take m frame" b, where s = "0xFFFF"] True i b
      by (simp add: crc16_def)
  next
    case False
    then have "take m (frame[i := b]) = take m frame" by simp
    with f g have "frame[i := b] = frame" by simp
    then show False using i b by (metis nth_list_update_eq)
  qed
qed

section \<open>Orders and register values\<close>

lemma length2E: "length xs = 2 \<Longrightarrow> (\<And>a b. xs = [a, b] \<Longrightarrow> R) \<Longrightarrow> R"
  by (auto simp: length_Suc_conv numeral_2_eq_2)

lemma length4E: "length xs = 4 \<Longrightarrow> (\<And>a b c d. xs = [a, b, c, d] \<Longrightarrow> R) \<Longrightarrow> R"
  by (auto simp: length_Suc_conv eval_nat_numeral)

lemma length8E:
  "length xs = 8 \<Longrightarrow> (\<And>a b c d e f g h. xs = [a, b, c, d, e, f, g, h] \<Longrightarrow> R) \<Longrightarrow> R"
  by (auto simp: length_Suc_conv eval_nat_numeral)

text \<open>
  For the types that have an order, ordering always succeeds on \<open>width\<close> bytes, keeps the
  length and is its own inverse: the same table serves encoding and decoding.
\<close>

lemma orderBytes_involution:
  assumes "orderedWidth (wire_code t) = w" "w \<noteq> 0" "length raw = w"
  shows "\<exists>xs. orderBytes (wire_code t) raw w = Some xs \<and> length xs = w \<and>
    orderBytes (wire_code t) xs w = Some raw"
proof -
  have "w = 2 \<or> w = 4 \<or> w = 8"
    using assms(1,2) by (auto simp: orderedWidth_def split: if_splits)
  then show ?thesis
  proof (elim disjE)
    assume w: "w = 2"
    with assms(3) obtain a b where "raw = [a, b]" by (auto elim: length2E)
    with w assms(1) show ?thesis
      by (cases t) (simp_all add: orderedWidth_def orderBytes_def Let_def)
  next
    assume w: "w = 4"
    with assms(3) obtain a b c d where "raw = [a, b, c, d]" by (auto elim: length4E)
    with w assms(1) show ?thesis
      by (cases t) (simp_all add: orderedWidth_def orderBytes_def Let_def kOrders4_def)
  next
    assume w: "w = 8"
    with assms(3) obtain a b c d e f g h where "raw = [a, b, c, d, e, f, g, h]"
      by (auto elim: length8E)
    with w assms(1) show ?thesis
      by (cases t) (simp_all add: orderedWidth_def orderBytes_def Let_def kOrders8_def)
  qed
qed

lemma orderedWidth_registers:
  "orderedWidth (wire_code t) \<noteq> 0 \<Longrightarrow>
     orderedWidth (wire_code t) = 2 * unat (registersPerValue (wire_code t))"
  by (cases t) (simp_all add: orderedWidth_def registersPerValue_def)

lemma writableType_ordered:
  "writableType (wire_code t) \<Longrightarrow> t \<noteq> Coil \<Longrightarrow> orderedWidth (wire_code t) \<noteq> 0"
  by (cases t) (simp_all add: writableType_def orderedWidth_def)

text \<open>What a register can carry of a scalar: its integer, or the float it rounds to.\<close>

definition registerValue :: "ChannelConfig \<Rightarrow> DecodedScalar \<Rightarrow> DecodedScalar" where
  "registerValue c v =
     (if isFloatingPointType (ch_dataType c) then
        default_scalar\<lparr>sc_kind := KFloatingPoint, sc_floating :=
          (if orderedWidth (ch_dataType c) = 4 then f64_of_f32 (f32_of_f64 (sc_floating v))
           else sc_floating v)\<rparr>
      else if ch_signed c then default_scalar\<lparr>sc_kind := KSignedInteger, sc_signed := sc_signed v\<rparr>
      else default_scalar\<lparr>sc_kind := KUnsignedInteger, sc_unsigned := sc_unsigned v\<rparr>)"

lemma sint_range_bits:
  fixes s :: u64
  assumes "- (2 ^ b) \<le> sint s" "sint s < 2 ^ b" "b \<le> n" "n < 64"
  shows "bit s n = bit s b"
proof -
  have e: "signed_take_bit b (sint s) = sint s"
    using assms(1,2) by (simp add: signed_take_bit_int_eq_self)
  have w: "bit (sint s) k = bit s k" if "k < 64" for k
    using that by (auto simp: bit_sint_iff)
  have "bit (sint s) n = bit (sint s) b"
    using assms(3) by (subst (1 2) e [symmetric]) (simp add: bit_signed_take_bit_iff)
  then show ?thesis using assms(3,4) by (simp only: w)
qed

lemma encodeInteger_setInteger:
  assumes "encodeInteger c v bits = Some raw" "0 < bits" "bits \<le> 64"
  shows "setInteger c (take_bit bits raw) bits =
    (if ch_signed c then default_scalar\<lparr>sc_kind := KSignedInteger, sc_signed := sc_signed v\<rparr>
     else default_scalar\<lparr>sc_kind := KUnsignedInteger, sc_unsigned := sc_unsigned v\<rparr>)"
proof (cases "bits = 64")
  case True
  have "take_bit 64 x = x" for x :: u64 by (rule bit_word_eqI) (simp add: bit_simps)
  with True assms(1) show ?thesis
    by (auto simp: encodeInteger_def setInteger_def Let_def split: if_splits)
next
  case False
  with assms(3) have lt: "bits < 64" by simp
  have mask: "push_bit bits 1 - 1 = (mask bits :: u64)" "2 ^ bits - 1 = (mask bits :: u64)"
    by (simp_all add: mask_eq_exp_minus_1 push_bit_of_1)
  show ?thesis
  proof (cases "ch_signed c")
    case True
    have "\<not> (sint (sc_signed v) < - (2 ^ (bits - 1)) \<or> sint (sc_signed v) > 2 ^ (bits - 1) - 1)"
      and "raw = sc_signed v AND mask bits"
      using assms(1) lt True unfolding encodeInteger_def Let_def mask(1)
      by (simp_all only: if_True if_False simp_thms option.inject option.distinct split: if_splits)
    then have raw: "raw = take_bit bits (sc_signed v)"
      and lo: "- (2 ^ (bits - 1)) \<le> sint (sc_signed v)" and hi: "sint (sc_signed v) < 2 ^ (bits - 1)"
      by (simp_all only: take_bit_eq_mask, linarith+)
    have ext: "bit (sc_signed v) n = bit (sc_signed v) (bits - 1)" if "bits \<le> n" "n < 64" for n
      by (rule sint_range_bits [OF lo hi]) (use that in simp_all)
    have "(if \<not> bit raw (bits - 1) then raw else raw OR push_bit bits (- 1)) = sc_signed v"
    proof (rule bit_word_eqI)
      fix n assume "n < LENGTH(64)"
      then show "bit (if \<not> bit raw (bits - 1) then raw else raw OR push_bit bits (- 1)) n
          = bit (sc_signed v) n"
        using assms(2) lt ext [of n] by (cases "bits \<le> n") (auto simp: raw bit_simps)
    qed
    moreover have "take_bit bits raw = raw" by (simp add: raw)
    ultimately show ?thesis using True lt by (auto simp: setInteger_def split: if_splits)
  next
    case False
    have keep: "take_bit bits u = u" if "u AND NOT (mask bits) = 0" for u :: u64
    proof (rule bit_word_eqI)
      fix n assume "n < LENGTH(64)"
      moreover have "\<not> bit (u AND NOT (mask bits)) n" using that by simp
      ultimately show "bit (take_bit bits u) n = bit u n" by (auto simp: bit_simps)
    qed
    have "sc_unsigned v AND NOT (mask bits) = 0" and "raw = sc_unsigned v AND mask bits"
      using assms(1) lt False unfolding encodeInteger_def Let_def mask(1)
      by (simp_all only: if_True if_False simp_thms option.inject option.distinct split: if_splits)
    then have "take_bit bits raw = sc_unsigned v"
      using keep by (simp flip: take_bit_eq_mask)
    then show ?thesis using False by (simp add: setInteger_def)
  qed
qed

lemma be_bytes4_le32:
  "le32 (be_bytes 4 w ! 3) (be_bytes 4 w ! 2) (be_bytes 4 w ! 1) (be_bytes 4 w ! 0) = (w :: u32)"
  by simp

lemma decode_encode_register:
  assumes valid: "validChannelConfig c" and enc: "encodeRegisterValue c v cap = Some w"
  shows "decodeRegisterValue c w = Some (registerValue c v)"
    and "length w = orderedWidth (ch_dataType c)"
proof -
  obtain t where t: "ch_dataType c = wire_code t" using valid by (rule validChannelConfigE)
  let ?w = "orderedWidth (wire_code t)"
  have w0: "?w \<noteq> 0" using enc t by (auto simp: encodeRegisterValue_def Let_def split: if_splits)
  have wc: "?w = 2 \<or> ?w = 4 \<or> ?w = 8"
    using w0 by (auto simp: orderedWidth_def split: if_splits)
  have special: "\<not> (wire_code t = 0x08 \<or> wire_code t = 0x09 \<or> wire_code t = 0x14 \<or> wire_code t = 0x15)"
    using w0 by (cases t) (simp_all add: orderedWidth_def)
  have fw: "isFloatingPointType (wire_code t) \<Longrightarrow> ?w = 4 \<or> ?w = 8"
    by (cases t) (simp_all add: orderedWidth_def isFloatingPointType_def)
  obtain bs where bs: "orderBytes (wire_code t) bs ?w = Some w" "length bs = ?w"
    and float4: "isFloatingPointType (wire_code t) \<Longrightarrow> ?w = 4 \<Longrightarrow>
      bs = be_bytes 4 (f32_of_f64 (sc_floating v))"
    and float8: "isFloatingPointType (wire_code t) \<Longrightarrow> ?w = 8 \<Longrightarrow> bs = be_bytes 8 (sc_floating v)"
    and ints: "\<not> isFloatingPointType (wire_code t) \<Longrightarrow>
      \<exists>raw. encodeInteger c v (8 * ?w) = Some raw \<and> bs = be_bytes ?w raw"
    using enc t w0 fw
    by (auto simp: encodeRegisterValue_def Let_def split: if_splits option.splits)
  have inverse: "orderBytes (wire_code t) w ?w = Some bs" and lw: "length w = ?w"
    using orderBytes_involution [OF refl w0 bs(2)] bs(1) by auto
  show "length w = orderedWidth (ch_dataType c)" using lw t by simp
  have "decodeRegisterValue c w =
      (if isFloatingPointType (wire_code t) then
         (if ?w = 4 then Some (default_scalar\<lparr>sc_kind := KFloatingPoint, sc_floating :=
            f64_of_f32 (le32 (bs ! 3) (bs ! 2) (bs ! 1) (bs ! 0))\<rparr>)
          else if ?w = 8 then
            Some (default_scalar\<lparr>sc_kind := KFloatingPoint, sc_floating := be_value bs\<rparr>)
          else None)
       else Some (setInteger c (be_value bs) (8 * ?w)))"
    using special w0 lw inverse t by (simp add: decodeRegisterValue_def Let_def)
  also have "\<dots> = Some (registerValue c v)"
  proof (cases "isFloatingPointType (wire_code t)")
    case True
    have "take_bit 64 (sc_floating v) = sc_floating v" by (rule bit_word_eqI) (simp add: bit_simps)
    with True fw float4 float8 t show ?thesis
      by (auto simp: registerValue_def be_bytes4_le32 be_value_be_bytes)
  next
    case False
    then obtain raw where raw: "encodeInteger c v (8 * ?w) = Some raw" "bs = be_bytes ?w raw"
      using ints by blast
    have "setInteger c (be_value bs) (8 * ?w) = registerValue c v"
      using encodeInteger_setInteger [OF raw(1)] wc False t
      by (auto simp: raw(2) be_value_be_bytes registerValue_def)
    with False show ?thesis by simp
  qed
  finally show "decodeRegisterValue c w = Some (registerValue c v)" .
qed

end
