(* ===== verification/ModbusRtuProperties.thy ===== *)
theory ModbusRtuProperties
  imports ModbusRtuCodec
begin

text \<open>
  What the RTU codec promises: its requests are well-formed and stay inside the channel's
  registers, register values survive encoding and decoding, a write is acknowledged by the
  echo of its request and by nothing else, and one corrupted byte is never taken for data.
\<close>

section \<open>Requests\<close>

lemma registersPerValue_pos: "registersPerValue (wire_code t) \<noteq> 0"
  by (cases t) (simp_all add: registersPerValue_def)

lemma registersPerValue_cases:
  "registersPerValue (wire_code t) = 1 \<or> registersPerValue (wire_code t) = 2 \<or>
   registersPerValue (wire_code t) = 4"
  by (cases t) (simp_all add: registersPerValue_def)

lemma functionCode_cases:
  "functionCode (wire_code t) \<in> {1, 2, 3, 4}"
  by (cases t) (simp_all add: functionCode_def)

lemma unat_readQuantity:
  assumes "validChannelConfig c"
  shows "unat (readQuantity c) = (if isBooleanType (ch_dataType c) then 1
      else unat (registersPerValue (ch_dataType c))) * unat (ch_quantity c)"
proof -
  obtain t where t: "ch_dataType c = wire_code t" "ch_quantity c = 1 \<or> ch_quantity c = 2"
    using assms by (rule validChannelConfigE)
  with registersPerValue_cases [of t] assms show ?thesis
    by (auto simp: readQuantity_def Let_def)
qed

lemma readQuantity_bounds:
  assumes "validChannelConfig c"
  shows "1 \<le> unat (readQuantity c)" "unat (readQuantity c) \<le> 8"
proof -
  obtain t where t: "ch_dataType c = wire_code t" "ch_quantity c = 1 \<or> ch_quantity c = 2"
    using assms by (rule validChannelConfigE)
  with registersPerValue_cases [of t] show "1 \<le> unat (readQuantity c)" "unat (readQuantity c) \<le> 8"
    by (auto simp: unat_readQuantity [OF assms])
qed

definition be16_at :: "bytes \<Rightarrow> nat \<Rightarrow> nat" where
  "be16_at f i = 256 * unat (f ! i) + unat (f ! (i + 1))"

lemma be16_bytes: "256 * unat (byte_of 1 (w :: u16)) + unat (byte_of 0 w) = unat w"
proof -
  have lt: "unat w < 65536" using unat_bound [of w] by simp
  then have "unat w div 256 < 256" "unat w mod 65536 = unat w"
    by (simp_all add: less_mult_imp_div_less)
  moreover from this have "unat (byte_of 1 w) = unat w div 256 mod 256"
    and "unat (byte_of 0 w) = unat w mod 256"
    unfolding byte_of_def unsigned_ucast_eq unsigned_drop_bit_eq
    by (simp_all add: drop_bit_eq_div take_bit_eq_mod)
  ultimately show ?thesis by simp
qed

lemma be32_low:
  assumes "n < 0x10000"
  shows "256 * unat (byte_of 1 (of_nat n :: u32)) + unat (byte_of 0 (of_nat n :: u32)) = n"
proof -
  have "byte_of 1 (of_nat n :: u32) = byte_of 1 (of_nat n :: u16)"
    and "byte_of 0 (of_nat n :: u32) = byte_of 0 (of_nat n :: u16)"
    by (rule bit_word_eqI; auto simp: bit_simps)+
  then show ?thesis using be16_bytes [of "of_nat n"] assms by (simp add: unat_of_nat)
qed

text \<open>
  A read request that is built is an eight-byte frame with a valid CRC that asks the
  channel's slave for exactly the registers (or bits) of its values, never past the end of the
  16-bit address space; and for a valid channel inside the address space it is always built.
\<close>

theorem readRequest_wellformed:
  assumes "validChannelConfig c" and "8 \<le> capacity"
  shows "if unat (ch_address c) + unat (readQuantity c) \<le> 0x10000
    then \<exists>f. buildReadRequest c (Some capacity) = Inr f \<and> length f = 8 \<and> crc_ok f \<and>
        f ! 0 = ch_slaveId c \<and> f ! 1 = functionCode (ch_dataType c) \<and> f ! 1 \<in> {1, 2, 3, 4} \<and>
        be16_at f 2 = unat (ch_address c) \<and>
        be16_at f 4 = (if isBooleanType (ch_dataType c) then 1
          else unat (registersPerValue (ch_dataType c))) * unat (ch_quantity c)
    else buildReadRequest c (Some capacity) = Inl RtuInvalidConfig"
proof -
  obtain t where t: "ch_dataType c = wire_code t"
    using assms(1) by (rule validChannelConfigE)
  have fc: "functionCode (ch_dataType c) \<in> {1, 2, 3, 4}" "functionCode (ch_dataType c) \<noteq> 0"
    using functionCode_cases [of t] t by auto
  have q: "readQuantity c \<noteq> 0" using readQuantity_bounds(1) [OF assms(1)] by auto
  show ?thesis
    unfolding unat_readQuantity [OF assms(1), symmetric]
    using assms fc q be16_bytes [of "ch_address c"] be16_bytes [of "readQuantity c"]
    by (simp add: buildReadRequest_def Let_def be16_at_def)
qed

lemma readRequest_wellformed_witness:
  "\<exists>f. buildReadRequest default_channel (Some 8) = Inr f \<and> length f = 8 \<and> crc_ok f \<and>
     f ! 0 = 1 \<and> f ! 1 = 1"
proof -
  have v: "validChannelConfig default_channel"
    by (simp add: default_channel_def validChannelConfig_def validWireDataType_def)
  have "unat (ch_address default_channel) + unat (readQuantity default_channel) \<le> 0x10000"
    by (simp add: default_channel_def readQuantity_def isBooleanType_def validChannelConfig_def
        validWireDataType_def)
  with readRequest_wellformed [OF v, of 8] show ?thesis
    by (auto simp: default_channel_def functionCode_def)
qed

section \<open>Writes\<close>

lemma encodeRegisterValue_length:
  "validChannelConfig c \<Longrightarrow> encodeRegisterValue c v cap = Some w \<Longrightarrow>
     length w = 2 * unat (registersPerValue (ch_dataType c))"
proof -
  assume valid: "validChannelConfig c" and enc: "encodeRegisterValue c v cap = Some w"
  obtain t where t: "ch_dataType c = wire_code t" using valid by (rule validChannelConfigE)
  have "orderedWidth (wire_code t) \<noteq> 0"
    using enc t by (auto simp: encodeRegisterValue_def Let_def split: if_splits)
  then show ?thesis
    using decode_encode_register(2) [OF valid enc] orderedWidth_registers [of t] t by simp
qed

text \<open>The shape of every write request that is built.\<close>

lemma buildWriteRequestE:
  assumes "buildWriteRequest c i v out = Inr req"
  obtains
    (coil) addr where "ch_dataType c = wire_code Coil" "sc_kind v = KBoolean"
      "addr = unat (ch_address c) + unat i" "addr \<le> 0xffff"
      "req = appendCrc [ch_slaveId c, kWriteSingleCoil, byte_of 1 (of_nat addr :: u32),
         byte_of 0 (of_nat addr :: u32), if sc_boolean v then 0xff else 0, 0]"
  | (single) addr w where "ch_dataType c \<noteq> wire_code Coil" "registersPerValue (ch_dataType c) = 1"
      "addr = unat (ch_address c) + unat i" "addr + 1 \<le> 0x10000"
      "encodeRegisterValue c v 8 = Some w" "length w = 2"
      "req = appendCrc [ch_slaveId c, kWriteSingleRegister, byte_of 1 (of_nat addr :: u32),
         byte_of 0 (of_nat addr :: u32), w ! 0, w ! 1]"
  | (multiple) addr w n where "ch_dataType c \<noteq> wire_code Coil" "n = registersPerValue (ch_dataType c)"
      "n = 2 \<or> n = 4" "addr = unat (ch_address c) + unat i * unat n"
      "addr + unat n \<le> 0x10000" "encodeRegisterValue c v 8 = Some w" "length w = 2 * unat n"
      "req = appendCrc ([ch_slaveId c, kWriteMultipleRegisters, byte_of 1 (of_nat addr :: u32),
         byte_of 0 (of_nat addr :: u32), 0, n, of_nat (length w)] @ w)"
proof -
  have valid: "validChannelConfig c"
    using assms by (auto simp: buildWriteRequest_def split: if_splits)
  then obtain t where t: "ch_dataType c = wire_code t" by (rule validChannelConfigE)
  show thesis
  proof (cases "ch_dataType c = wire_code Coil")
    case True
    then show thesis
      using assms coil
      by (auto simp: buildWriteRequest_def Let_def split: if_splits option.splits)
  next
    case False
    then obtain w where w: "encodeRegisterValue c v 8 = Some w"
      using assms
      by (auto simp: buildWriteRequest_def Let_def split: if_splits option.splits)
    note len = encodeRegisterValue_length [OF valid w]
    show thesis
      using registersPerValue_cases [of t] assms False w len t single [OF _ _ _ _ w]
        multiple [OF _ _ _ _ _ w]
      by (auto simp: buildWriteRequest_def Let_def split: if_splits option.splits)
  qed
qed

lemma buildWriteRequest_guards:
  "buildWriteRequest c i v out = Inr req \<Longrightarrow>
     validChannelConfig c \<and> i < ch_quantity c \<and> writableType (ch_dataType c)"
  by (auto simp: buildWriteRequest_def not_le split: if_splits)

lemma write_echo_iff:
  assumes "buildWriteRequest c i v out = Inr req"
  shows "decodeWriteResponse c i (Some req) (Some resp) = (RtuOk, e) \<longleftrightarrow>
    e = 0 \<and> resp = appendCrc (take 6 req)"
proof -
  have g: "validChannelConfig c" "\<not> ch_quantity c \<le> i" "writableType (ch_dataType c)"
    using buildWriteRequest_guards [OF assms] by auto
  have shape: "req ! 0 = ch_slaveId c \<and> 2 \<le> length req \<and> 6 \<le> length req \<and>
    ((req ! 1 = 5 \<or> req ! 1 = 6) \<and> length req = 8 \<or> req ! 1 = 0x10 \<and> 11 \<le> length req)"
    using assms by (cases rule: buildWriteRequestE) (auto simp: nth_append appendCrc_def)
  show ?thesis
  proof
    assume "e = 0 \<and> resp = appendCrc (take 6 req)"
    then show "decodeWriteResponse c i (Some req) (Some resp) = (RtuOk, e)"
      using g shape by (auto simp: decodeWriteResponse_def Let_def)
  next
    assume ok: "decodeWriteResponse c i (Some req) (Some resp) = (RtuOk, e)"
    then have "crc_ok resp" "length resp = 8" "take 6 resp = take 6 req" "e = 0"
      using g shape by (auto simp: decodeWriteResponse_def Let_def split: if_splits)
    then show "e = 0 \<and> resp = appendCrc (take 6 req)" by (simp add: crc_ok_iff)
  qed
qed

text \<open>
  A write is acknowledged by the echo of its first six bytes under a valid CRC, and by no
  other response.
\<close>

theorem write_acknowledged_iff:
  assumes "buildWriteRequest c i v out = Inr req"
  shows "decodeWriteResponse c i (Some req) (Some resp) = (RtuOk, e) \<longleftrightarrow>
    e = 0 \<and> resp = appendCrc (take 6 req)"
  using assms by (rule write_echo_iff)

text \<open>
  A 32-bit holding register pair of slave 9 at address 100, two values: the running example of
  the witnesses.
\<close>

definition sample_channel :: ChannelConfig where
  "sample_channel = default_channel\<lparr>ch_slaveId := 9, ch_address := 100,
     ch_dataType := wire_code Hold32CDAB, ch_quantity := 2, ch_signed := True\<rparr>"

definition sample_value :: DecodedScalar where
  "sample_value = default_scalar\<lparr>sc_kind := KSignedInteger, sc_signed := - 2\<rparr>"

lemmas sample_simps = sample_channel_def sample_value_def default_channel_def default_scalar_def

lemma sample_valid: "validChannelConfig sample_channel"
  by (simp add: sample_simps validChannelConfig_def validWireDataType_def)

lemma sample_wire: "encodeRegisterValue sample_channel sample_value 8 = Some [0xff, 0xfe, 0xff, 0xff]"
  by code_simp

lemma sample_request:
  assumes "13 \<le> capacity"
  shows "buildWriteRequest sample_channel 1 sample_value (Some capacity) =
    Inr (appendCrc [9, 0x10, 0, 102, 0, 2, 4, 0xff, 0xfe, 0xff, 0xff])"
proof -
  have "byte_of (Suc 0) (0x66 :: u32) = 0" "byte_of 0 (0x66 :: u32) = 0x66"
    by (simp_all add: byte_of_def)
  then show ?thesis
    using assms sample_valid sample_wire
    by (simp add: buildWriteRequest_def Let_def)
       (simp add: sample_simps writableType_def registersPerValue_def)
qed

lemma write_acknowledged_iff_witness:
  "decodeWriteResponse sample_channel 1
     (Some (appendCrc [9, 0x10, 0, 102, 0, 2, 4, 0xff, 0xfe, 0xff, 0xff]))
     (Some (appendCrc [9, 0x10, 0, 102, 0, 2])) = (RtuOk, 0)"
  by (simp add: write_acknowledged_iff [OF sample_request [of 17, simplified]])

text \<open>
  A write never leaves the channel: the registers (or the coil) it names lie inside the
  range that the channel's read request covers.
\<close>

theorem write_inside_channel:
  assumes "buildWriteRequest c i v out = Inr req"
  defines "count \<equiv> (if req ! 1 = kWriteMultipleRegisters then be16_at req 4 else 1)"
  shows "unat (ch_address c) \<le> be16_at req 2 \<and>
    be16_at req 2 + count \<le> unat (ch_address c) + unat (readQuantity c) \<and>
    be16_at req 2 + count \<le> 0x10000"
proof -
  have g: "validChannelConfig c" "i < ch_quantity c"
    using buildWriteRequest_guards [OF assms(1)] by auto
  then obtain t where t: "ch_dataType c = wire_code t" by (elim validChannelConfigE)
  have i: "unat i < unat (ch_quantity c)" using g(2) by (simp add: word_less_nat_alt)
  have count: "0 < unat (ch_quantity c)" using i by simp
  note q = unat_readQuantity [OF g(1)]
  show ?thesis
    using assms(1)
  proof (cases rule: buildWriteRequestE)
    case (coil addr)
    then show ?thesis
      using i q be32_low [of addr] by (simp add: count_def be16_at_def isBooleanType_def)
  next
    case (single addr w)
    moreover have "1 \<le> unat (readQuantity c) div unat (ch_quantity c)" using q count single(2) by simp
    ultimately show ?thesis
      using i q be32_low [of addr] by (simp add: count_def be16_at_def nth_append)
  next
    case (multiple addr w n)
    moreover have "\<not> isBooleanType (ch_dataType c)"
      using multiple by (auto simp: isBooleanType_def registersPerValue_def)
    moreover have "unat n * Suc (unat i) \<le> unat n * unat (ch_quantity c)"
      using i by (simp del: mult_Suc_right)
    ultimately show ?thesis
      using q be32_low [of addr] be16_bytes [of "ucast n"]
      by (auto simp: count_def be16_at_def appendCrc_def nth_append)
  qed
qed

lemma write_inside_channel_witness:
  "be16_at (appendCrc [9, 0x10, 0, 102, 0, 2, 4, 0xff, 0xfe, 0xff, 0xff]) 2 + 2 \<le>
     unat (ch_address sample_channel) + unat (readQuantity sample_channel)"
  using write_inside_channel [OF sample_request [of 17, simplified]] by (simp add: be16_at_def)

section \<open>Values\<close>

text \<open>The register bytes of a write request.\<close>

definition written_payload :: "bytes \<Rightarrow> bytes" where
  "written_payload req =
     (if req ! 1 = kWriteSingleRegister then [req ! 4, req ! 5]
      else drop 7 (take (length req - 2) req))"

text \<open>
  What is written is what a read returns: the bytes a register write carries decode, under
  the same channel, to the written value (rounded to single precision for a 32-bit float).
\<close>

theorem write_read_back:
  assumes "buildWriteRequest c i v out = Inr req" and "ch_dataType c \<noteq> wire_code Coil"
  shows "decodeRegisterValue c (written_payload req) = Some (registerValue c v)"
proof -
  have valid: "validChannelConfig c" using buildWriteRequest_guards [OF assms(1)] by simp
  from assms(1) show ?thesis
  proof (cases rule: buildWriteRequestE)
    case (coil addr)
    with assms(2) show ?thesis by simp
  next
    case (single addr w)
    then have "written_payload req = w"
      by (auto simp: written_payload_def elim: length2E)
    with decode_encode_register(1) [OF valid single(5)] show ?thesis by simp
  next
    case (multiple addr w n)
    then have "written_payload req = w"
      by (simp add: written_payload_def appendCrc_def nth_append)
    with decode_encode_register(1) [OF valid multiple(6)] show ?thesis by simp
  qed
qed

lemma write_read_back_witness:
  "decodeRegisterValue sample_channel [0xff, 0xfe, 0xff, 0xff] = Some sample_value"
proof -
  have "written_payload (appendCrc [9, 0x10, 0, 102, 0, 2, 4, 0xff, 0xfe, 0xff, 0xff]) =
      [0xff, 0xfe, 0xff, 0xff]"
    by (simp add: written_payload_def appendCrc_def)
  moreover have "registerValue sample_channel sample_value = sample_value"
    by (simp add: registerValue_def sample_simps isFloatingPointType_def)
  ultimately show ?thesis
    using write_read_back [OF sample_request [of 17, simplified]] by (simp add: sample_simps)
qed

text \<open>The register slices of a read response, one value after the other.\<close>

lemma decodeRegisters_encoded:
  assumes "validChannelConfig c"
    and "list_all2 (\<lambda>v w. encodeRegisterValue c v 8 = Some w) vs ws"
  shows "decodeRegisters c (2 * unat (registersPerValue (ch_dataType c))) (length vs) (concat ws) =
    Some (map (registerValue c) vs)"
  using assms(2)
proof (induction rule: list_all2_induct)
  case Nil
  show ?case by simp
next
  case (Cons v vs w ws)
  then show ?case
    using decode_encode_register(1) [OF assms(1) Cons(1)] encodeRegisterValue_length [OF assms(1) Cons(1)]
    by simp
qed

lemma length_concat_encoded:
  assumes "validChannelConfig c"
    and "list_all2 (\<lambda>v w. encodeRegisterValue c v 8 = Some w) vs ws"
  shows "length (concat ws) = 2 * unat (registersPerValue (ch_dataType c)) * length vs"
  using assms(2)
  by (induction rule: list_all2_induct)
     (auto simp: encodeRegisterValue_length [OF assms(1)] algebra_simps)

lemma take_drop_appendCrc:
  "m + n \<le> length bs \<Longrightarrow> take n (drop m (appendCrc bs)) = take n (drop m bs)"
  by (simp add: appendCrc_def)

lemma functionCode_exception:
  "functionCode (wire_code t) \<noteq> functionCode (wire_code t) OR 0x80"
  by (cases t) (simp_all add: functionCode_def)

lemma encodable_not_boolean:
  "encodeRegisterValue c v cap = Some w \<Longrightarrow> \<not> isBooleanType (ch_dataType c)"
  by (auto simp: encodeRegisterValue_def isBooleanType_def orderedWidth_def Let_def)

text \<open>What a slave answers with a payload, and how the decoder takes encoded values.\<close>

definition slave_answer :: "ChannelConfig \<Rightarrow> bytes \<Rightarrow> bytes" where
  "slave_answer c payload =
     appendCrc ([ch_slaveId c, functionCode (ch_dataType c), of_nat (length payload)] @ payload)"

lemma decodeReadResponse_encoded:
  assumes "validChannelConfig c" and "length vs = unat (ch_quantity c)"
    and "list_all2 (\<lambda>v w. encodeRegisterValue c v 8 = Some w) vs ws"
  shows "decodeReadResponse c (Some (slave_answer c (concat ws))) = Inr (map (registerValue c) vs)"
proof -
  obtain t where t: "ch_dataType c = wire_code t" "ch_quantity c = 1 \<or> ch_quantity c = 2"
    using assms(1) by (rule validChannelConfigE)
  have nb: "\<not> isBooleanType (ch_dataType c)"
    using assms(2,3) t(2) encodable_not_boolean
    by (cases rule: list.rel_cases [OF assms(3)]) auto
  let ?n = "length (concat ws)"
  have q: "?n = 2 * unat (readQuantity c)"
    using length_concat_encoded [OF assms(1,3)] assms(2) nb unat_readQuantity [OF assms(1)]
    by (simp add: algebra_simps)
  then have small: "unat (of_nat ?n :: u8) = ?n"
    using readQuantity_bounds(2) [OF assms(1)] by (intro unat_of_nat_small) simp
  show ?thesis
    using assms(1) nb small q functionCode_exception [of t] t(1)
      decodeRegisters_encoded [OF assms(1,3)] assms(2)
    by (simp add: decodeReadResponse_def slave_answer_def Let_def take_drop_appendCrc mult.commute)
qed

lemma sample_answer:
  "decodeReadResponse sample_channel
     (Some (slave_answer sample_channel [0xff, 0xfe, 0xff, 0xff, 0xff, 0xfe, 0xff, 0xff])) =
     Inr (map (registerValue sample_channel) [sample_value, sample_value])"
  using decodeReadResponse_encoded [OF sample_valid, of "[sample_value, sample_value]"
      "[[0xff, 0xfe, 0xff, 0xff], [0xff, 0xfe, 0xff, 0xff]]"]
  by (simp add: sample_wire) (simp add: sample_simps)

text \<open>
  Read round trip: when a slave answers a channel's read request with the encodings of one
  value per quantity, the decoder accepts the frame and returns those values in order.
\<close>

theorem read_response_roundtrip:
  assumes "validChannelConfig c" and "length vs = unat (ch_quantity c)"
    and "list_all2 (\<lambda>v w. encodeRegisterValue c v 8 = Some w) vs ws"
  shows "decodeReadResponse c (Some (slave_answer c (concat ws))) = Inr (map (registerValue c) vs)"
  using assms by (rule decodeReadResponse_encoded)

lemma read_response_roundtrip_witness:
  "decodeReadResponse sample_channel
     (Some (slave_answer sample_channel [0xff, 0xfe, 0xff, 0xff, 0xff, 0xfe, 0xff, 0xff])) =
     Inr [sample_value, sample_value]"
proof -
  have "registerValue sample_channel sample_value = sample_value"
    by (simp add: registerValue_def sample_simps isFloatingPointType_def)
  moreover have "list_all2 (\<lambda>v w. encodeRegisterValue sample_channel v 8 = Some w)
      [sample_value, sample_value] [[0xff, 0xfe, 0xff, 0xff], [0xff, 0xfe, 0xff, 0xff]]"
    by (simp add: sample_wire)
  ultimately show ?thesis
    using read_response_roundtrip [OF sample_valid, of "[sample_value, sample_value]"]
    by (fastforce simp: sample_simps)
qed

section \<open>Rejected responses\<close>

lemma read_response_accepted:
  assumes "decodeReadResponse c (Some frame) = Inr vs"
  shows "validChannelConfig c \<and> crc_ok frame \<and> frame ! 0 = ch_slaveId c \<and>
    frame ! 1 = functionCode (ch_dataType c) \<and> length frame = unat (frame ! 2) + 5 \<and>
    length vs = unat (ch_quantity c)"
proof -
  have len: "decodeRegisters c w n d = Some vs \<Longrightarrow> length vs = n" for w n d
    by (induction n arbitrary: vs d) (auto split: option.splits)
  show ?thesis
    using assms
    by (auto simp: decodeReadResponse_def Let_def decodeBooleans_def dest!: len
        split: if_splits option.splits)
qed

lemma read_response_exception:
  "decodeReadResponse c (Some frame) = Inl (RtuExceptionResponse, e) \<Longrightarrow>
     validChannelConfig c \<and> crc_ok frame \<and> length frame = 5 \<and> e = frame ! 2"
  by (auto simp: decodeReadResponse_def Let_def split: if_splits option.splits)

text \<open>
  C18. Any single corrupted byte of a response that would have been accepted (as data or as an
  exception) is reported as a CRC mismatch, whichever byte it is.
\<close>

theorem corrupted_response_rejected:
  assumes "(\<exists>vs. decodeReadResponse c (Some frame) = Inr vs) \<or>
      (\<exists>e. decodeReadResponse c (Some frame) = Inl (RtuExceptionResponse, e))"
    and "i < length frame" and "b \<noteq> frame ! i"
  shows "decodeReadResponse c (Some (frame[i := b])) = Inl (RtuCrcMismatch, 0)"
proof -
  have "validChannelConfig c" "crc_ok frame" "5 \<le> length frame"
    using assms(1) by (auto dest: read_response_accepted read_response_exception)
  moreover from this have "\<not> crc_ok (frame[i := b])"
    using assms(2,3) by (intro crc_ok_corrupted) simp_all
  ultimately show ?thesis by (simp add: decodeReadResponse_def)
qed

lemma corrupted_response_rejected_witness:
  "decodeReadResponse sample_channel
     (Some ((slave_answer sample_channel [0xff, 0xfe, 0xff, 0xff, 0xff, 0xfe, 0xff, 0xff])[4 := 0xfa])) =
     Inl (RtuCrcMismatch, 0)"
proof (rule corrupted_response_rejected)
  let ?w = "[0xff, 0xfe, 0xff, 0xff, 0xff, 0xfe, 0xff, 0xff]"
  show "(\<exists>vs. decodeReadResponse sample_channel (Some (slave_answer sample_channel ?w)) = Inr vs) \<or>
      (\<exists>e. decodeReadResponse sample_channel (Some (slave_answer sample_channel ?w)) =
        Inl (RtuExceptionResponse, e))"
    by (simp add: sample_answer)
qed (simp_all add: slave_answer_def)

end
