(* ===== verification/RtuPassive.thy ===== *)
theory RtuPassive
  imports Prelude
begin

text \<open>
  \<^verbatim>\<open>include/modbus/RtuPassiveFrameCollector.h\<close>: bytes overheard on the bus while no
  transaction runs are collected until the line has been idle for a gap. The template
  parameter \<^verbatim>\<open>Capacity\<close> is an argument; \<open>pc_buffer\<close> holds the first
  \<^verbatim>\<open>length_\<close> bytes of the buffer.
\<close>

datatype PassiveFrameResult = PassiveIdle | PassivePending | PassiveFrameReady | PassiveOverflow

record collector =
  pc_buffer :: bytes
  pc_lastByteAtUs :: u32
  pc_overflow :: bool

definition collector_reset :: collector where
  "collector_reset = \<lparr>pc_buffer = [], pc_lastByteAtUs = 0, pc_overflow = False\<rparr>"

definition collector_feed :: "nat \<Rightarrow> u8 \<Rightarrow> u32 \<Rightarrow> collector \<Rightarrow> bool \<times> collector" where
  "collector_feed capacity value nowUs c =
     (let c = c\<lparr>pc_lastByteAtUs := nowUs\<rparr>
      in if pc_overflow c then (False, c)
         else if length (pc_buffer c) \<ge> capacity then (False, c\<lparr>pc_overflow := True\<rparr>)
         else (True, c\<lparr>pc_buffer := pc_buffer c @ [value]\<rparr>))"

definition collector_poll ::
    "u32 \<Rightarrow> u32 \<Rightarrow> nat ptr \<Rightarrow> collector \<Rightarrow> PassiveFrameResult \<times> bytes \<times> collector" where
  "collector_poll nowUs idleGapUs out c =
     (if length (pc_buffer c) = 0 \<and> \<not> pc_overflow c then (PassiveIdle, [], c)
      else if pc_lastByteAtUs c \<noteq> 0 \<and> nowUs - pc_lastByteAtUs c < idleGapUs
      then (PassivePending, [], c)
      else if pc_overflow c then (PassiveOverflow, [], collector_reset)
      else if no_room out (length (pc_buffer c)) then (PassiveOverflow, [], collector_reset)
      else (PassiveFrameReady, pc_buffer c, collector_reset))"

definition collector_pending :: "collector \<Rightarrow> bool" where
  "collector_pending c = (length (pc_buffer c) \<noteq> 0 \<or> pc_overflow c)"

text \<open>Feeding a run of bytes, each with the clock at its arrival.\<close>

definition collector_feed_all :: "nat \<Rightarrow> (u8 \<times> u32) list \<Rightarrow> collector \<Rightarrow> collector" where
  "collector_feed_all capacity xs c = fold (\<lambda>(b, t) c. snd (collector_feed capacity b t c)) xs c"

section \<open>The collector keeps the run it was fed\<close>

text \<open>
  The abstract state is the run of bytes since the last reset; the collector holds its first
  \<open>capacity\<close> bytes and knows whether there were more.
\<close>

definition collects :: "nat \<Rightarrow> bytes \<Rightarrow> collector \<Rightarrow> bool" where
  "collects capacity run c =
     (pc_buffer c = take capacity run \<and> (pc_overflow c \<longleftrightarrow> capacity < length run))"

lemma collects_reset [simp]: "collects capacity [] collector_reset"
  by (simp add: collects_def collector_reset_def)

lemma collects_feed:
  "collects capacity run c \<Longrightarrow> collects capacity (run @ [b]) (snd (collector_feed capacity b t c))"
  by (auto simp: collects_def collector_feed_def Let_def)

lemma collects_feed_all:
  "collects capacity run c \<Longrightarrow>
     collects capacity (run @ map fst xs) (collector_feed_all capacity xs c)"
proof (induction xs arbitrary: run c)
  case Nil
  then show ?case by (simp add: collector_feed_all_def)
next
  case (Cons x xs)
  from collects_feed [OF Cons.prems, of "fst x" "snd x"]
  show ?case using Cons.IH by (fastforce simp: collector_feed_all_def split_def)
qed

lemma feed_all_last:
  "xs \<noteq> [] \<Longrightarrow> pc_lastByteAtUs (collector_feed_all capacity xs c) = snd (last xs)"
  by (induction xs rule: rev_induct)
     (auto simp: collector_feed_all_def collector_feed_def Let_def split_def)

text \<open>
  A passive frame is exactly the run of bytes heard since the previous frame: once the bus
  has been idle for the gap, a run that fits is delivered whole and unchanged, a longer one is
  reported as an overflow and never delivered truncated, and either way the collector starts
  afresh; before that, nothing is delivered and nothing is lost.
\<close>

theorem passive_frame_exact:
  assumes "xs \<noteq> []" and "snd (last xs) \<noteq> 0"
  shows "collector_poll now gap (Some room) (collector_feed_all capacity xs collector_reset) =
    (if now - snd (last xs) < gap
     then (PassivePending, [], collector_feed_all capacity xs collector_reset)
     else if length xs \<le> capacity \<and> length xs \<le> room
     then (PassiveFrameReady, map fst xs, collector_reset)
     else (PassiveOverflow, [], collector_reset))"
proof -
  let ?c = "collector_feed_all capacity xs collector_reset"
  have "collects capacity (map fst xs) ?c" "pc_lastByteAtUs ?c = snd (last xs)"
    using collects_feed_all [OF collects_reset, of capacity xs] feed_all_last [OF assms(1)]
    by simp_all
  then show ?thesis
    using assms(1,2) by (auto simp: collector_poll_def collects_def min_def)
qed

lemma passive_frame_exact_witness:
  "collector_poll 3000 1750 (Some 242)
     (collector_feed_all 242 [(9, 1000), (3, 1100)] collector_reset) =
     (PassiveFrameReady, [9, 3], collector_reset)"
  by (subst passive_frame_exact) simp_all

end
