(* ===== verification/ModbusRtuMaster.thy ===== *)
theory ModbusRtuMaster
  imports ModbusRtuProperties RtuPassive
begin

text \<open>
  \<^verbatim>\<open>include/modbus/ModbusRtuMaster.h\<close>: the half-duplex bus master. Its private fields are
  the record; the UART and the direction pin appear as the list of effects on them, oldest
  first, and the clocks and the bytes the UART holds are arguments of each call. A received byte
  is the \<^verbatim>\<open>int\<close> that \<^verbatim>\<open>serial_.read()\<close> returns (negative: nothing there), with the
  \<^verbatim>\<open>micros()\<close> at which it is read. The constants \<^verbatim>\<open>SERIAL_7N1\<close> to \<^verbatim>\<open>SERIAL_8O2\<close>
  belong to the Arduino core: they are a parameter.
\<close>

type_synonym serial_constants = "u8 \<Rightarrow> Rs485Parity \<Rightarrow> Rs485StopBits \<Rightarrow> u32"
type_synonym rx = "(int \<times> u32) list"

record RtuSerialConfig =
  sc_baudRate :: u32
  sc_serialMode :: u32
  sc_responseTimeoutMs :: u32
  sc_interFrameDelayUs :: u32

definition default_serial :: "serial_constants \<Rightarrow> RtuSerialConfig" where
  "default_serial SER = \<lparr>sc_baudRate = 9600, sc_serialMode = SER 8 ParityNone StopOne,
     sc_responseTimeoutMs = 500, sc_interFrameDelayUs = 0\<rparr>"

datatype RtuTransactionResult = TxIdle | TxPending | TxSuccess | TxFailure

datatype RtuTransactionKind = KindNone | KindRead | KindWrite | KindRaw

datatype BusEffect =
    PinOutput
  | Direction bool
  | DelayUs u32
  | Transmit bytes
  | FlushTx
  | DrainRx
  | UartBegin u32 u32 u32
  | UartEnd

definition makeRtuSerialConfig ::
    "serial_constants \<Rightarrow> Rs485SerialSettings \<Rightarrow> u32 \<Rightarrow> RtuSerialConfig option" where
  "makeRtuSerialConfig SER s responseTimeoutMs =
     (if \<not> esp32SupportsRs485SerialSettings s \<or> responseTimeoutMs = 0 then None
      else
        let parity = (if rs_parity s = parity_code ParityNone then ParityNone
                      else if rs_parity s = parity_code ParityEven then ParityEven else ParityOdd);
            serialMode =
              (if rs_dataBits s = 7 then
                 (if rs_stopBits s = stop_code StopOne then SER 7 parity StopOne
                  else if rs_stopBits s = stop_code StopTwo then SER 7 parity StopTwo else 0)
               else if rs_dataBits s = 8 then
                 (if rs_stopBits s = stop_code StopOne then SER 8 parity StopOne
                  else if rs_stopBits s = stop_code StopTwo then SER 8 parity StopTwo else 0)
               else 0)
        in if serialMode = 0 then None
           else Some ((default_serial SER)\<lparr>sc_baudRate := rs_baudRate s,
             sc_serialMode := serialMode, sc_responseTimeoutMs := responseTimeoutMs\<rparr>))"

record master =
  mm_config :: RtuSerialConfig
  mm_activeChannel :: ChannelConfig
  mm_activeValueIndex :: u8
  mm_activeRequest :: bytes
  mm_response :: bytes
  mm_expectedLength :: nat
  mm_startedAtMs :: u32
  mm_lastResponseByteAtUs :: u32
  mm_active :: bool
  mm_kind :: RtuTransactionKind
  mm_started :: bool
  mm_online :: bool
  mm_successful :: u32
  mm_failed :: u32
  mm_lastStatus :: RtuDecodeStatus
  mm_lastException :: u8
  mm_passive :: collector
  mm_effects :: "BusEffect list"

definition kResponseCapacity :: nat where "kResponseCapacity = 242"

definition initial_master :: "serial_constants \<Rightarrow> master" where
  "initial_master SER = \<lparr>mm_config = default_serial SER, mm_activeChannel = default_channel,
     mm_activeValueIndex = 0, mm_activeRequest = [], mm_response = [], mm_expectedLength = 0,
     mm_startedAtMs = 0, mm_lastResponseByteAtUs = 0, mm_active = False, mm_kind = KindNone,
     mm_started = False, mm_online = False, mm_successful = 0, mm_failed = 0,
     mm_lastStatus = RtuTruncated, mm_lastException = 0, mm_passive = collector_reset,
     mm_effects = []\<rparr>"

definition emit :: "BusEffect list \<Rightarrow> master \<Rightarrow> master" where
  "emit es m = m\<lparr>mm_effects := mm_effects m @ es\<rparr>"

section \<open>Timing\<close>

definition calculatedInterFrameDelayUs :: "master \<Rightarrow> u32" where
  "calculatedInterFrameDelayUs m =
     (let baud = sc_baudRate (mm_config m)
      in if baud = 0 then 0
         else if baud > 19200 then 1750
         else ucast ((38500000 + ucast baud - 1 :: u64) div ucast baud))"

definition txEnableGuardUs :: "master \<Rightarrow> u32" where
  "txEnableGuardUs m =
     (let baud = sc_baudRate (mm_config m)
      in if baud = 0 then 100
         else let oneBit = ucast ((1000000 + ucast baud - 1 :: u64) div ucast baud) :: u32
              in if oneBit < 10 then 10 else oneBit)"

definition interFrameGap :: "master \<Rightarrow> BusEffect list" where
  "interFrameGap m =
     (let gap = (if sc_interFrameDelayUs (mm_config m) \<noteq> 0 then sc_interFrameDelayUs (mm_config m)
                 else calculatedInterFrameDelayUs m)
      in if gap \<noteq> 0 then [DelayUs gap] else [])"

section \<open>Life cycle\<close>

definition fail_with :: "RtuDecodeStatus \<Rightarrow> master \<Rightarrow> master" where
  "fail_with status m = emit [Direction False]
     (m\<lparr>mm_lastStatus := status, mm_online := False, mm_failed := mm_failed m + 1\<rparr>)"

definition clear_transaction :: "master \<Rightarrow> master" where
  "clear_transaction m = m\<lparr>mm_active := False, mm_kind := KindNone, mm_response := [],
     mm_expectedLength := 0\<rparr>"

definition finishFailure :: "RtuDecodeStatus \<Rightarrow> master \<Rightarrow> master" where
  "finishFailure status m = fail_with status (clear_transaction m)"

definition succeed :: "master \<Rightarrow> master" where
  "succeed m = m\<lparr>mm_lastStatus := RtuOk, mm_online := True, mm_successful := mm_successful m + 1\<rparr>"

definition cancelTransaction :: "master \<Rightarrow> master" where
  "cancelTransaction m =
     (let m = emit [Direction False] (clear_transaction m);
          m = (if mm_started m then emit [DrainRx] m else m)
      in m\<lparr>mm_passive := collector_reset\<rparr>)"

definition master_begin :: "RtuSerialConfig \<Rightarrow> master \<Rightarrow> bool \<times> master" where
  "master_begin config m =
     (let m = m\<lparr>mm_config := config\<rparr>
      in if sc_baudRate config = 0 \<or> sc_responseTimeoutMs config = 0 then (False, m)
         else (True, (emit [PinOutput, Direction False,
           UartBegin (sc_baudRate config) (sc_serialMode config) (sc_responseTimeoutMs config)] m)
           \<lparr>mm_started := True\<rparr>))"

definition master_end :: "master \<Rightarrow> master" where
  "master_end m =
     (let m = cancelTransaction m;
          m = (if mm_started m then emit [UartEnd] m else m)
      in (emit [Direction False] m)\<lparr>mm_started := False\<rparr>)"

definition master_reconfigure :: "RtuSerialConfig \<Rightarrow> master \<Rightarrow> bool \<times> master" where
  "master_reconfigure config m = master_begin config (master_end m)"

section \<open>Starting a transaction\<close>

text \<open>
  The half-duplex transmission common to the three starts: drain, wait for the frame gap, drive
  the bus, write, flush, release the bus. \<open>sent\<close> is what \<^verbatim>\<open>serial_.write\<close> returns.
\<close>

definition transmit :: "bytes \<Rightarrow> master \<Rightarrow> master" where
  "transmit request m = emit ([DrainRx] @ interFrameGap m @
     [Direction True, DelayUs (txEnableGuardUs m), Transmit request, FlushTx,
      DelayUs (txEnableGuardUs m), Direction False]) m"

definition startRead :: "ChannelConfig \<Rightarrow> nat \<Rightarrow> u32 \<Rightarrow> master \<Rightarrow> bool \<times> master" where
  "startRead channel sent nowMs m =
     (let m = m\<lparr>mm_lastException := 0\<rparr>
      in if \<not> mm_started m \<or> mm_active m \<or> \<not> validChannelConfig channel then
           (False, if \<not> mm_active m then fail_with RtuInvalidConfig m else m)
         else case buildReadRequest channel (Some 8) of
           Inl status \<Rightarrow> (False, fail_with status m)
         | Inr request \<Rightarrow>
             let m = transmit request m
             in if sent \<noteq> length request then (False, fail_with RtuTruncated m)
                else (True, m\<lparr>mm_activeChannel := channel, mm_activeValueIndex := 0,
                  mm_activeRequest := request, mm_response := [], mm_expectedLength := 0,
                  mm_startedAtMs := nowMs, mm_kind := KindRead, mm_active := True\<rparr>))"

definition startWrite ::
    "ChannelConfig \<Rightarrow> u8 \<Rightarrow> DecodedScalar \<Rightarrow> nat \<Rightarrow> u32 \<Rightarrow> master \<Rightarrow> bool \<times> master" where
  "startWrite channel valueIndex value sent nowMs m =
     (let m = m\<lparr>mm_lastException := 0\<rparr>
      in if \<not> mm_started m \<or> mm_active m \<or> \<not> validChannelConfig channel then
           (False, if \<not> mm_active m then fail_with RtuInvalidConfig m else m)
         else case buildWriteRequest channel valueIndex value (Some 17) of
           Inl status \<Rightarrow> (False, fail_with status m)
         | Inr request \<Rightarrow>
             let m = transmit request m
             in if sent \<noteq> length request then (False, fail_with RtuTruncated m)
                else (True, m\<lparr>mm_activeChannel := channel, mm_activeValueIndex := valueIndex,
                  mm_activeRequest := request, mm_response := [], mm_expectedLength := 0,
                  mm_startedAtMs := nowMs, mm_kind := KindWrite, mm_active := True\<rparr>))"

definition startRaw :: "bytes ptr \<Rightarrow> nat \<Rightarrow> u32 \<Rightarrow> master \<Rightarrow> bool \<times> master" where
  "startRaw payload sent nowMs m =
     (let m = m\<lparr>mm_lastException := 0\<rparr>
      in case payload of
        None \<Rightarrow> (False, if \<not> mm_active m then fail_with RtuInvalidConfig m else m)
      | Some p \<Rightarrow>
          if \<not> mm_started m \<or> mm_active m \<or> length p = 0 \<or> length p > 242 then
            (False, if \<not> mm_active m then fail_with RtuInvalidConfig m else m)
          else
            let m = transmit p m
            in if sent \<noteq> length p then (False, fail_with RtuTruncated m)
               else (True, m\<lparr>mm_activeRequest := p, mm_response := [], mm_expectedLength := 0,
                 mm_startedAtMs := nowMs, mm_lastResponseByteAtUs := 0, mm_kind := KindRaw,
                 mm_active := True\<rparr>))"

section \<open>Polling a transaction\<close>

definition finishDecode :: "master \<Rightarrow> RtuTransactionResult \<times> DecodedScalar list \<times> master" where
  "finishDecode m =
     (let m0 = clear_transaction m
      in case decodeReadResponse (mm_activeChannel m) (Some (mm_response m)) of
        Inl (status, exceptionCode) \<Rightarrow>
          (TxFailure, [], fail_with status (m0\<lparr>mm_lastException := exceptionCode\<rparr>))
      | Inr vs \<Rightarrow> (TxSuccess, vs, succeed (m0\<lparr>mm_lastException := 0\<rparr>)))"

definition finishWriteDecode :: "master \<Rightarrow> RtuTransactionResult \<times> master" where
  "finishWriteDecode m =
     (let m0 = clear_transaction m;
          (status, exceptionCode) = decodeWriteResponse (mm_activeChannel m) (mm_activeValueIndex m)
             (Some (mm_activeRequest m)) (Some (mm_response m));
          m0 = m0\<lparr>mm_lastException := exceptionCode\<rparr>
      in if status \<noteq> RtuOk then (TxFailure, fail_with status m0) else (TxSuccess, succeed m0))"

definition timed_out :: "u32 \<Rightarrow> master \<Rightarrow> bool" where
  "timed_out nowMs m = (nowMs - mm_startedAtMs m \<ge> sc_responseTimeoutMs (mm_config m))"

text \<open>
  The receive loops. \<open>Inl\<close> is a return from inside the loop, \<open>Inr\<close> the state after it.
\<close>

definition noteReadByte :: "u8 \<Rightarrow> master \<Rightarrow> master" where
  "noteReadByte b m =
     (let r = mm_response m @ [b]; m = m\<lparr>mm_response := r\<rparr>
      in if length r = 2 \<and> r ! 1 AND 0x80 \<noteq> 0 then m\<lparr>mm_expectedLength := 5\<rparr>
         else if length r = 3 \<and> r ! 1 AND 0x80 = 0
         then m\<lparr>mm_expectedLength := unat (r ! 2) + 5\<rparr> else m)"

definition answerTooLong :: "master \<Rightarrow> bool" where
  "answerTooLong m =
     (length (mm_response m) = 3 \<and> mm_response m ! 1 AND 0x80 = 0 \<and>
      mm_expectedLength m > kResponseCapacity)"

definition answerComplete :: "master \<Rightarrow> bool" where
  "answerComplete m =
     (mm_expectedLength m \<noteq> 0 \<and> length (mm_response m) \<ge> mm_expectedLength m)"

fun readLoop :: "rx \<Rightarrow> master \<Rightarrow> (RtuTransactionResult \<times> DecodedScalar list \<times> master) + master" where
  "readLoop [] m = Inr m"
| "readLoop ((raw, _) # rx) m =
     (if raw < 0 then Inr m
      else if length (mm_response m) \<ge> kResponseCapacity then
        Inl (TxFailure, [], finishFailure RtuBufferTooSmall m)
      else
        let m = noteReadByte (word_of_int raw) m
        in if answerTooLong m then Inl (TxFailure, [], finishFailure RtuBufferTooSmall m)
           else if answerComplete m then Inl (finishDecode m)
           else readLoop rx m)"

definition pollRead ::
    "bool \<Rightarrow> rx \<Rightarrow> u32 \<Rightarrow> master \<Rightarrow> RtuTransactionResult \<times> DecodedScalar list \<times> master" where
  "pollRead values_null rx nowMs m =
     (if \<not> mm_active m then (TxIdle, [], m)
      else if mm_kind m \<noteq> KindRead then (TxFailure, [], m)
      else if values_null then (TxFailure, [], finishFailure RtuInvalidConfig m)
      else case readLoop rx m of
        Inl done' \<Rightarrow> done'
      | Inr m \<Rightarrow>
          if timed_out nowMs m then
            (if length (mm_response m) = 0 then (TxFailure, [], finishFailure RtuTruncated m)
             else finishDecode m)
          else (TxPending, [], m))"

definition noteWriteByte :: "u8 \<Rightarrow> master \<Rightarrow> master" where
  "noteWriteByte b m =
     (let r = mm_response m @ [b]; m = m\<lparr>mm_response := r\<rparr>
      in if length r = 2
         then m\<lparr>mm_expectedLength := (if r ! 1 AND 0x80 \<noteq> 0 then 5 else 8)\<rparr> else m)"

fun writeLoop :: "rx \<Rightarrow> master \<Rightarrow> (RtuTransactionResult \<times> master) + master" where
  "writeLoop [] m = Inr m"
| "writeLoop ((raw, _) # rx) m =
     (if raw < 0 then Inr m
      else if length (mm_response m) \<ge> kResponseCapacity then
        Inl (TxFailure, finishFailure RtuBufferTooSmall m)
      else
        let m = noteWriteByte (word_of_int raw) m
        in if answerComplete m then Inl (finishWriteDecode m) else writeLoop rx m)"

definition pollWrite :: "rx \<Rightarrow> u32 \<Rightarrow> master \<Rightarrow> RtuTransactionResult \<times> master" where
  "pollWrite rx nowMs m =
     (if \<not> mm_active m then (TxIdle, m)
      else if mm_kind m \<noteq> KindWrite then (TxFailure, m)
      else case writeLoop rx m of
        Inl done' \<Rightarrow> done'
      | Inr m \<Rightarrow>
          if timed_out nowMs m then
            (if length (mm_response m) = 0 then (TxFailure, finishFailure RtuTruncated m)
             else finishWriteDecode m)
          else (TxPending, m))"

fun rawLoop :: "rx \<Rightarrow> master \<Rightarrow> (RtuTransactionResult \<times> master) + master" where
  "rawLoop [] m = Inr m"
| "rawLoop ((raw, us) # rx) m =
     (if raw < 0 then Inr m
      else if length (mm_response m) \<ge> kResponseCapacity then
        Inl (TxFailure, finishFailure RtuBufferTooSmall m)
      else rawLoop rx (m\<lparr>mm_response := mm_response m @ [word_of_int raw],
        mm_lastResponseByteAtUs := us\<rparr>))"

definition pollRaw ::
    "nat ptr \<Rightarrow> rx \<Rightarrow> u32 \<Rightarrow> u32 \<Rightarrow> master \<Rightarrow> RtuTransactionResult \<times> bytes \<times> master" where
  "pollRaw out rx nowUs nowMs m =
     (if \<not> mm_active m then (TxIdle, [], m)
      else if mm_kind m \<noteq> KindRaw \<or> out = None then (TxFailure, [], m)
      else case rawLoop rx m of
        Inl (r, m) \<Rightarrow> (r, [], m)
      | Inr m \<Rightarrow>
          let idleComplete = (length (mm_response m) > 0 \<and> mm_lastResponseByteAtUs m \<noteq> 0 \<and>
                nowUs - mm_lastResponseByteAtUs m \<ge> calculatedInterFrameDelayUs m);
              timedOut = timed_out nowMs m
          in if \<not> idleComplete \<and> \<not> timedOut then (TxPending, [], m)
             else if length (mm_response m) = 0 then (TxFailure, [], finishFailure RtuTruncated m)
             else if no_room out (length (mm_response m))
             then (TxFailure, [], finishFailure RtuBufferTooSmall m)
             else (TxSuccess, mm_response m, succeed (clear_transaction m)))"

text \<open>
  \<^verbatim>\<open>read\<close>: the blocking helper. Each round of its loop meets the bytes and the clock of that
  moment; \<open>None\<close> means the listed moments were not enough.
\<close>

fun readRounds :: "(rx \<times> u32) list \<Rightarrow> master \<Rightarrow> (bool \<times> DecodedScalar list \<times> master) option" where
  "readRounds [] m = None"
| "readRounds ((rx, nowMs) # rounds) m =
     (let (result, vs, m) = pollRead False rx nowMs m
      in if result = TxSuccess then Some (True, vs, m)
         else if result = TxFailure \<or> result = TxIdle then Some (False, vs, m)
         else readRounds rounds m)"

definition read_blocking ::
    "ChannelConfig \<Rightarrow> nat \<Rightarrow> u32 \<Rightarrow> (rx \<times> u32) list \<Rightarrow> master \<Rightarrow>
       (bool \<times> DecodedScalar list \<times> master) option" where
  "read_blocking channel sent nowMs rounds m =
     (let (ok, m) = startRead channel sent nowMs m
      in if \<not> ok then Some (False, [], m) else readRounds rounds m)"

section \<open>Listening between transactions\<close>

fun passiveLoop :: "rx \<Rightarrow> collector \<Rightarrow> collector" where
  "passiveLoop [] c = c"
| "passiveLoop ((raw, us) # rx) c =
     (if raw < 0 then c
      else passiveLoop rx (snd (collector_feed kResponseCapacity (word_of_int raw) us c)))"

definition pollPassiveFrame ::
    "nat ptr \<Rightarrow> rx \<Rightarrow> u32 \<Rightarrow> master \<Rightarrow> PassiveFrameResult \<times> bytes \<times> master" where
  "pollPassiveFrame out rx nowUs m =
     (if \<not> mm_started m \<or> mm_active m then (PassiveIdle, [], m)
      else
        let (result, frame, c) = collector_poll nowUs (calculatedInterFrameDelayUs m) out
              (passiveLoop rx (mm_passive m))
        in (result, frame, m\<lparr>mm_passive := c\<rparr>))"

end
