(* ===== verification/ModbusMasterProperties.thy ===== *)
theory ModbusMasterProperties
  imports ModbusRtuMaster
begin

text \<open>
  The bus master keeps its bookkeeping consistent under every sequence of calls, drives the
  half-duplex bus only while it transmits, finishes every transaction, and delivers the values
  of a slave's answer however the bytes are cut into polls.
\<close>

section \<open>The invariant\<close>

text \<open>
  Walking through the effects: is the bus driven at the end, and was every frame sent while it
  was?
\<close>

fun bus_step :: "BusEffect \<Rightarrow> bool \<times> bool \<Rightarrow> bool \<times> bool" where
  "bus_step (Direction d) (driven, ok) = (d, ok)"
| "bus_step (Transmit f) (driven, ok) = (driven, ok \<and> driven)"
| "bus_step e s = s"

definition bus_quiet :: "BusEffect list \<Rightarrow> bool" where
  "bus_quiet es = (fold bus_step es (False, True) = (False, True))"

definition master_ok :: "master \<Rightarrow> bool" where
  "master_ok m =
     ((mm_active m \<longleftrightarrow> mm_kind m \<noteq> KindNone) \<and>
      (mm_active m \<longrightarrow> mm_started m) \<and>
      (\<not> mm_active m \<longrightarrow> mm_response m = [] \<and> mm_expectedLength m = 0) \<and>
      length (mm_response m) \<le> kResponseCapacity \<and>
      (mm_kind m = KindRead \<longrightarrow>
         buildReadRequest (mm_activeChannel m) (Some 8) = Inr (mm_activeRequest m)) \<and>
      (mm_kind m = KindWrite \<longrightarrow>
         (\<exists>v. buildWriteRequest (mm_activeChannel m) (mm_activeValueIndex m) v (Some 17) =
            Inr (mm_activeRequest m))) \<and>
      bus_quiet (mm_effects m))"

lemma bus_quiet_Nil [simp]: "bus_quiet []"
  by (simp add: bus_quiet_def)

lemma bus_quiet_append:
  "bus_quiet es \<Longrightarrow> bus_quiet (es @ fs) = bus_quiet fs"
  by (simp add: bus_quiet_def)

lemma master_ok_initial: "master_ok (initial_master SER)"
  by (simp add: master_ok_def initial_master_def)

lemma interFrameGap_quiet: "fold bus_step (interFrameGap m) s = s"
  by (simp add: interFrameGap_def Let_def)

lemma emit_simps [simp]:
  "mm_effects (emit es m) = mm_effects m @ es" "mm_active (emit es m) = mm_active m"
  "mm_kind (emit es m) = mm_kind m" "mm_started (emit es m) = mm_started m"
  "mm_response (emit es m) = mm_response m" "mm_expectedLength (emit es m) = mm_expectedLength m"
  "mm_activeChannel (emit es m) = mm_activeChannel m"
  "mm_activeRequest (emit es m) = mm_activeRequest m"
  "mm_activeValueIndex (emit es m) = mm_activeValueIndex m"
  "mm_successful (emit es m) = mm_successful m" "mm_online (emit es m) = mm_online m"
  "mm_config (emit es m) = mm_config m" "mm_startedAtMs (emit es m) = mm_startedAtMs m"
  by (simp_all add: emit_def)

lemma emit_ok: "master_ok m \<Longrightarrow> bus_quiet es \<Longrightarrow> master_ok (emit es m)"
  by (simp add: master_ok_def bus_quiet_append)

lemma transmit_ok: "master_ok m \<Longrightarrow> master_ok (transmit f m)"
  unfolding transmit_def
  by (rule emit_ok) (simp_all add: bus_quiet_def interFrameGap_quiet)

lemma clear_ok: "master_ok m \<Longrightarrow> master_ok (clear_transaction m)"
  by (simp add: master_ok_def clear_transaction_def)

lemma fail_ok: "master_ok m \<Longrightarrow> master_ok (fail_with s m)"
  unfolding fail_with_def by (rule emit_ok) (simp_all add: master_ok_def bus_quiet_def)

lemma finishFailure_ok: "master_ok m \<Longrightarrow> master_ok (finishFailure s m)"
  by (simp add: finishFailure_def fail_ok clear_ok)

lemma succeed_ok: "master_ok m \<Longrightarrow> master_ok (succeed m)"
  by (simp add: master_ok_def succeed_def)

lemma exception_ok: "master_ok m \<Longrightarrow> master_ok (m\<lparr>mm_lastException := e\<rparr>)"
  by (simp add: master_ok_def)

lemmas master_parts = emit_ok transmit_ok clear_ok fail_ok finishFailure_ok succeed_ok exception_ok

lemma cancel_ok: "master_ok m \<Longrightarrow> master_ok (cancelTransaction m)"
proof -
  assume "master_ok m"
  then have "master_ok (emit [Direction False] (clear_transaction m))"
    by (intro master_parts) (simp_all add: bus_quiet_def)
  then have "master_ok (let m' = emit [Direction False] (clear_transaction m)
      in if mm_started m' then emit [DrainRx] m' else m')"
    by (auto simp: Let_def bus_quiet_def intro!: emit_ok)
  then show ?thesis
    by (simp add: cancelTransaction_def Let_def master_ok_def)
qed

lemma begin_ok: "master_ok m \<Longrightarrow> master_ok (snd (master_begin config m))"
  by (auto simp: master_begin_def Let_def master_ok_def bus_quiet_append bus_quiet_def)

lemma cancel_inactive [simp]:
  "mm_active (cancelTransaction m) = False" "mm_kind (cancelTransaction m) = KindNone"
  by (simp_all add: cancelTransaction_def clear_transaction_def Let_def)

lemma end_ok: "master_ok m \<Longrightarrow> master_ok (master_end m)"
  using cancel_ok [of m]
  by (auto simp: master_end_def Let_def master_ok_def bus_quiet_append bus_quiet_def)

lemma startRead_ok: "master_ok m \<Longrightarrow> master_ok (snd (startRead c sent now m))"
  using transmit_ok [OF exception_ok, of m] 
  by (auto simp: startRead_def Let_def intro: master_parts split: sum.splits)
     (auto simp: master_ok_def transmit_def)

lemma startWrite_ok: "master_ok m \<Longrightarrow> master_ok (snd (startWrite c i v sent now m))"
  using transmit_ok [OF exception_ok, of m] 
  by (auto simp: startWrite_def Let_def intro: master_parts split: sum.splits)
     (auto simp: master_ok_def transmit_def)

lemma startRaw_ok: "master_ok m \<Longrightarrow> master_ok (snd (startRaw p sent now m))"
  using transmit_ok [OF exception_ok, of m] 
  by (auto simp: startRaw_def Let_def intro: master_parts split: option.splits)
     (auto simp: master_ok_def transmit_def)

lemma finishDecode_ok: "master_ok m \<Longrightarrow> master_ok (snd (snd (finishDecode m)))"
  by (auto simp: finishDecode_def Let_def intro!: master_parts split: sum.splits)

lemma finishWriteDecode_ok: "master_ok m \<Longrightarrow> master_ok (snd (finishWriteDecode m))"
  by (auto simp: finishWriteDecode_def Let_def intro!: master_parts split: prod.splits)

lemma response_ok:
  "master_ok m \<Longrightarrow> mm_active m \<Longrightarrow> length r \<le> kResponseCapacity \<Longrightarrow>
     master_ok (m\<lparr>mm_response := r\<rparr>)"
  "master_ok m \<Longrightarrow> mm_active m \<Longrightarrow> master_ok (m\<lparr>mm_expectedLength := n\<rparr>)"
  "master_ok m \<Longrightarrow> master_ok (m\<lparr>mm_lastResponseByteAtUs := us\<rparr>)"
  "master_ok m \<Longrightarrow> master_ok (m\<lparr>mm_passive := c\<rparr>)"
  by (simp_all add: master_ok_def)

lemma noteByte_ok:
  assumes "master_ok m" "mm_active m" "length (mm_response m) < kResponseCapacity"
  shows "master_ok (noteReadByte b m)" "mm_active (noteReadByte b m)"
    "master_ok (noteWriteByte b m)" "mm_active (noteWriteByte b m)"
  using assms by (auto simp: noteReadByte_def noteWriteByte_def Let_def intro!: response_ok)

lemma readLoop_ok:
  "master_ok m \<Longrightarrow> mm_active m \<Longrightarrow>
     case readLoop rx m of Inl d \<Rightarrow> master_ok (snd (snd d)) | Inr m' \<Rightarrow> master_ok m' \<and> mm_active m'"
  by (induction rx m rule: readLoop.induct)
     (auto simp: Let_def noteByte_ok intro!: finishFailure_ok finishDecode_ok split: sum.splits)

lemma writeLoop_ok:
  "master_ok m \<Longrightarrow> mm_active m \<Longrightarrow>
     case writeLoop rx m of Inl d \<Rightarrow> master_ok (snd d) | Inr m' \<Rightarrow> master_ok m' \<and> mm_active m'"
  by (induction rx m rule: writeLoop.induct)
     (auto simp: Let_def noteByte_ok intro!: finishFailure_ok finishWriteDecode_ok split: sum.splits)

lemma rawLoop_ok:
  "master_ok m \<Longrightarrow> mm_active m \<Longrightarrow>
     case rawLoop rx m of Inl d \<Rightarrow> master_ok (snd d) | Inr m' \<Rightarrow> master_ok m' \<and> mm_active m'"
proof (induction rx m rule: rawLoop.induct)
  case (2 raw us rx m)
  have "master_ok (m\<lparr>mm_response := r, mm_lastResponseByteAtUs := us\<rparr>)"
    if "length r \<le> kResponseCapacity" for r
    using 2 that by (intro response_ok) simp_all
  with 2 show ?case by (auto intro!: finishFailure_ok)
qed simp

lemma pollRead_ok: "master_ok m \<Longrightarrow> master_ok (snd (snd (pollRead nul rx now m)))"
  using readLoop_ok [of m rx]
  by (auto simp: pollRead_def intro!: finishFailure_ok finishDecode_ok split: sum.splits)

lemma pollWrite_ok: "master_ok m \<Longrightarrow> master_ok (snd (pollWrite rx now m))"
  using writeLoop_ok [of m rx]
  by (auto simp: pollWrite_def intro!: finishFailure_ok finishWriteDecode_ok split: sum.splits)

lemma pollRaw_ok: "master_ok m \<Longrightarrow> master_ok (snd (snd (pollRaw out rx us now m)))"
  using rawLoop_ok [of m rx]
  by (auto simp: pollRaw_def Let_def intro!: finishFailure_ok succeed_ok clear_ok
      split: sum.splits prod.splits)

lemma pollPassive_ok: "master_ok m \<Longrightarrow> master_ok (snd (snd (pollPassiveFrame out rx us m)))"
  by (auto simp: pollPassiveFrame_def Let_def intro!: response_ok split: prod.splits)

text \<open>Every call of the master's public interface, with what the environment supplies to it.\<close>

datatype MasterOp =
    OpBegin RtuSerialConfig | OpEnd | OpReconfigure RtuSerialConfig | OpCancel
  | OpStartRead ChannelConfig nat u32
  | OpStartWrite ChannelConfig u8 DecodedScalar nat u32
  | OpStartRaw "bytes ptr" nat u32
  | OpPollRead bool rx u32
  | OpPollWrite rx u32
  | OpPollRaw "nat ptr" rx u32 u32
  | OpPollPassive "nat ptr" rx u32

fun master_step :: "MasterOp \<Rightarrow> master \<Rightarrow> master" where
  "master_step (OpBegin config) m = snd (master_begin config m)"
| "master_step OpEnd m = master_end m"
| "master_step (OpReconfigure config) m = snd (master_reconfigure config m)"
| "master_step OpCancel m = cancelTransaction m"
| "master_step (OpStartRead c sent now) m = snd (startRead c sent now m)"
| "master_step (OpStartWrite c i v sent now) m = snd (startWrite c i v sent now m)"
| "master_step (OpStartRaw p sent now) m = snd (startRaw p sent now m)"
| "master_step (OpPollRead nul rx now) m = snd (snd (pollRead nul rx now m))"
| "master_step (OpPollWrite rx now) m = snd (pollWrite rx now m)"
| "master_step (OpPollRaw out rx us now) m = snd (snd (pollRaw out rx us now m))"
| "master_step (OpPollPassive out rx us) m = snd (snd (pollPassiveFrame out rx us m))"

interpretation bus_master: step_machine master_step master_ok
  by unfold_locales
     (rename_tac m op, case_tac op,
      auto simp: master_reconfigure_def intro: begin_ok end_ok cancel_ok startRead_ok startWrite_ok
        startRaw_ok pollRead_ok pollWrite_ok pollRaw_ok pollPassive_ok)

text \<open>
  C8. Whatever sequence of calls the firmware makes, with whatever bytes and clocks, the master's
  bookkeeping stays consistent: an active transaction belongs to a started port and carries the
  very request its channel encodes to, the 242-byte response buffer is never overrun, and the
  bus is driven during every transmission and released after it.
\<close>

theorem master_always_ok: "master_ok (fold master_step ops (initial_master SER))"
  by (rule bus_master.run_inv) (rule master_ok_initial)

section \<open>Delivery\<close>

text \<open>The bytes of a run of reads, and of a list of polls.\<close>

definition rx_bytes :: "rx \<Rightarrow> bytes" where
  "rx_bytes rx = map (\<lambda>x. word_of_int (fst x)) rx"

lemma rx_bytes_simps [simp]:
  "rx_bytes [] = []" "rx_bytes (x # rx) = word_of_int (fst x) # rx_bytes rx"
  "length (rx_bytes rx) = length rx"
  by (simp_all add: rx_bytes_def)

text \<open>The master after the first \<open>k\<close> bytes of the answer \<open>f\<close>.\<close>

definition receiving :: "bytes \<Rightarrow> nat \<Rightarrow> master \<Rightarrow> master" where
  "receiving f k m = m\<lparr>mm_response := take k f,
     mm_expectedLength := (if 3 \<le> k then length f else 0)\<rparr>"

text \<open>A frame whose header announces its own length: what the master waits for.\<close>

definition self_sized :: "bytes \<Rightarrow> bool" where
  "self_sized f = (5 \<le> length f \<and> length f \<le> kResponseCapacity \<and> f ! 1 AND 0x80 = 0 \<and>
     length f = unat (f ! 2) + 5)"

lemma receiving_byte:
  assumes "self_sized f" "k < length f"
  shows "noteReadByte (f ! k) (receiving f k m) = receiving f (Suc k) m"
  using assms
  by (auto simp: noteReadByte_def receiving_def self_sized_def Let_def take_Suc_conv_app_nth
      nth_append less_Suc_eq numeral_3_eq_3 numeral_2_eq_2 min_def)

lemma receiving_loop:
  assumes "self_sized f" "k < length f" "rx_bytes rx = take n (drop k f)"
    "\<forall>x \<in> set rx. 0 \<le> fst x"
  shows "readLoop rx (receiving f k m) =
    (if k + n < length f then Inr (receiving f (k + n) m)
     else Inl (finishDecode (receiving f (length f) m)))"
  using assms
proof (induction rx arbitrary: k n)
  case Nil
  then have "n = 0" by (cases n) (auto simp: drop_eq_Nil2)
  with Nil show ?case by simp
next
  case (Cons x rx)
  then obtain j where n: "n = Suc j" by (cases n) auto
  obtain raw us where x: "x = (raw, us)" by fastforce
  from Cons.prems(3) n Cons.prems(2) x have hd: "word_of_int raw = f ! k"
    and tl: "rx_bytes rx = take j (drop (Suc k) f)"
    by (simp_all add: Cons_nth_drop_Suc [symmetric])
  have step: "noteReadByte (f ! k) (receiving f k m) = receiving f (Suc k) m"
    using Cons.prems by (intro receiving_byte) simp_all
  have room: "length (mm_response (receiving f k m)) < kResponseCapacity"
    using Cons.prems by (simp add: receiving_def self_sized_def)
  have fits: "\<not> answerTooLong (receiving f (Suc k) m)"
    using Cons.prems by (auto simp: answerTooLong_def receiving_def self_sized_def)
  have full: "answerComplete (receiving f (Suc k) m) \<longleftrightarrow> Suc k = length f"
    using Cons.prems by (auto simp: answerComplete_def receiving_def self_sized_def)
  have loop: "readLoop (x # rx) (receiving f k m) =
      (if Suc k = length f then Inl (finishDecode (receiving f (Suc k) m))
       else readLoop rx (receiving f (Suc k) m))"
    using Cons.prems room fits by (simp add: Let_def x hd step full)
  show ?case
  proof (cases "Suc k = length f")
    case True
    with loop n show ?thesis by simp
  next
    case False
    with Cons.prems have "Suc k < length f" by simp
    with Cons.IH [OF Cons.prems(1) this tl] Cons.prems(4) loop n False show ?thesis by simp
  qed
qed

lemma receiving_rounds:
  assumes "self_sized f" "k < length f" "mm_active m" "mm_kind m = KindRead"
    "concat (map (\<lambda>p. rx_bytes (fst p)) rounds) = drop k f"
    "\<forall>(rx, now) \<in> set rounds. (\<forall>x \<in> set rx. 0 \<le> fst x) \<and> \<not> timed_out now m"
    "finishDecode (receiving f (length f) m) = (TxSuccess, vs, m')"
  shows "readRounds rounds (receiving f k m) = Some (True, vs, m')"
  using assms(2,5,6)
proof (induction rounds arbitrary: k)
  case Nil
  then show ?case by simp
next
  case (Cons round rounds)
  obtain rx now where r: "round = (rx, now)" by fastforce
  let ?n = "length rx"
  have bytes: "rx_bytes rx @ concat (map (\<lambda>p. rx_bytes (fst p)) rounds) = drop k f"
    using Cons.prems(2) r by simp
  have here: "rx_bytes rx = take ?n (drop k f)"
    by (subst bytes [symmetric]) simp
  have "concat (map (\<lambda>p. rx_bytes (fst p)) rounds) = drop ?n (drop k f)"
    by (subst bytes [symmetric]) simp
  then have later: "concat (map (\<lambda>p. rx_bytes (fst p)) rounds) = drop (k + ?n) f"
    by (simp add: add.commute)
  have active: "mm_active (receiving f j m)" "mm_kind (receiving f j m) = KindRead"
    "timed_out now (receiving f j m) = timed_out now m" for j
    using assms(3,4) by (simp_all add: receiving_def timed_out_def)
  have loop: "readLoop rx (receiving f k m) = (if k + ?n < length f then Inr (receiving f (k + ?n) m)
      else Inl (finishDecode (receiving f (length f) m)))"
    using assms(1) Cons.prems(1,3) here r by (intro receiving_loop) auto
  show ?case
  proof (cases "k + ?n < length f")
    case True
    with Cons.prems(3) r loop have "pollRead False rx now (receiving f k m) =
        (TxPending, [], receiving f (k + ?n) m)"
      by (simp add: pollRead_def active)
    with Cons.IH [OF True later] Cons.prems(3) r show ?thesis by simp
  next
    case False
    with loop have "pollRead False rx now (receiving f k m) = (TxSuccess, vs, m')"
      by (simp add: pollRead_def active assms(7))
    with r show ?thesis by simp
  qed
qed

lemma slave_answer_sized:
  assumes "validChannelConfig c" "length payload \<le> 200"
  shows "self_sized (slave_answer c payload)"
proof -
  obtain t where t: "ch_dataType c = wire_code t" using assms(1) by (rule validChannelConfigE)
  have "functionCode (wire_code t) AND 0x80 = 0" by (cases t) (simp_all add: functionCode_def)
  moreover have "unat (of_nat (length payload) :: u8) = length payload"
    using assms(2) by (intro unat_of_nat_small) simp
  ultimately show ?thesis
    using assms t by (simp add: self_sized_def slave_answer_def kResponseCapacity_def)
qed

lemma slave_answer_size:
  assumes "validChannelConfig c" "length vs = unat (ch_quantity c)"
    "list_all2 (\<lambda>v w. encodeRegisterValue c v 8 = Some w) vs ws"
  shows "length (concat ws) \<le> 16"
proof -
  obtain t where "ch_dataType c = wire_code t" "ch_quantity c = 1 \<or> ch_quantity c = 2"
    using assms(1) by (rule validChannelConfigE)
  with registersPerValue_cases [of t] assms(2) show ?thesis
    by (auto simp: length_concat_encoded [OF assms(1,3)])
qed

text \<open>
  C9. Delivery: when the slave answers with the encodings of one value per quantity, a read of
  the channel succeeds with exactly those values, no matter how the bytes of the answer are cut
  into polls, provided they arrive before the response timeout.
\<close>

theorem read_delivered:
  assumes "mm_started m" "\<not> mm_active m" "validChannelConfig c"
    "buildReadRequest c (Some 8) = Inr request"
    "length vs = unat (ch_quantity c)"
    "list_all2 (\<lambda>v w. encodeRegisterValue c v 8 = Some w) vs ws"
    "concat (map (\<lambda>p. rx_bytes (fst p)) rounds) = slave_answer c (concat ws)"
    "\<forall>(rx, now) \<in> set rounds. (\<forall>x \<in> set rx. 0 \<le> fst x) \<and>
       now - start < sc_responseTimeoutMs (mm_config m)"
  shows "\<exists>m'. read_blocking c (length request) start rounds m =
      Some (True, map (registerValue c) vs, m') \<and>
    mm_online m' \<and> \<not> mm_active m' \<and> mm_successful m' = mm_successful m + 1"
proof -
  let ?f = "slave_answer c (concat ws)"
  define m1 where "m1 = (transmit request (m\<lparr>mm_lastException := 0\<rparr>))\<lparr>mm_activeChannel := c,
    mm_activeValueIndex := 0, mm_activeRequest := request, mm_response := [],
    mm_expectedLength := 0, mm_startedAtMs := start, mm_kind := KindRead, mm_active := True\<rparr>"
  have sized: "self_sized ?f"
    using slave_answer_size [OF assms(3,5,6)] assms(3) by (intro slave_answer_sized) simp_all
  have m1: "receiving ?f 0 m1 = m1" "mm_active m1" "mm_kind m1 = KindRead" "mm_startedAtMs m1 = start"
    "mm_config m1 = mm_config m" "mm_activeChannel m1 = c" "mm_successful m1 = mm_successful m"
    by (simp_all add: m1_def receiving_def transmit_def)
  have start: "startRead c (length request) start m = (True, m1)"
    using assms(1-4) by (simp add: startRead_def m1_def Let_def)
  have finish: "finishDecode (receiving ?f (length ?f) m1) = (TxSuccess, map (registerValue c) vs,
      succeed ((clear_transaction (receiving ?f (length ?f) m1))\<lparr>mm_lastException := 0\<rparr>))"
    (is "_ = (_, _, ?m')")
    using decodeReadResponse_encoded [OF assms(3,5,6)] m1
    by (simp add: finishDecode_def receiving_def)
  have "readRounds rounds (receiving ?f 0 m1) = Some (True, map (registerValue c) vs, ?m')"
    using assms(7,8) sized m1
    by (intro receiving_rounds [OF sized _ _ _ _ _ finish])
       (auto simp: self_sized_def timed_out_def not_le)
  with start m1 show ?thesis
    by (simp add: read_blocking_def receiving_def succeed_def clear_transaction_def)
qed

section \<open>Every transaction ends\<close>

lemma finishes [simp]:
  "mm_active (snd (snd (finishDecode m))) = False" "fst (finishDecode m) \<noteq> TxPending"
  "fst (finishDecode m) \<noteq> TxIdle"
  "mm_active (snd (finishWriteDecode m)) = False" "fst (finishWriteDecode m) \<noteq> TxPending"
  "mm_active (finishFailure s m) = False" "mm_active (fail_with s m) = mm_active m"
  "mm_active (clear_transaction m) = False"
  by (auto simp: finishDecode_def finishWriteDecode_def finishFailure_def fail_with_def succeed_def
      clear_transaction_def Let_def split: sum.splits prod.splits)

lemma note_timing [simp]:
  "timed_out now (noteReadByte b m) = timed_out now m" "mm_active (noteReadByte b m) = mm_active m"
  "timed_out now (noteWriteByte b m) = timed_out now m"
  "mm_kind (noteReadByte b m) = mm_kind m" "mm_startedAtMs (noteReadByte b m) = mm_startedAtMs m"
  "mm_config (noteReadByte b m) = mm_config m"
  by (simp_all add: noteReadByte_def noteWriteByte_def timed_out_def Let_def)

lemma readLoop_ends:
  "case readLoop rx m of
     Inl d \<Rightarrow> fst d \<noteq> TxPending \<and> fst d \<noteq> TxIdle \<and> \<not> mm_active (snd (snd d))
   | Inr m' \<Rightarrow> timed_out now m' = timed_out now m \<and> mm_kind m' = mm_kind m \<and>
       mm_active m' = mm_active m"
  by (induction rx m rule: readLoop.induct) (auto simp: Let_def split: sum.splits)

lemma writeLoop_ends:
  "case writeLoop rx m of
     Inl d \<Rightarrow> fst d \<noteq> TxPending \<and> \<not> mm_active (snd d)
   | Inr m' \<Rightarrow> timed_out now m' = timed_out now m"
  by (induction rx m rule: writeLoop.induct) (auto simp: Let_def split: sum.splits)

lemma rawLoop_ends:
  "case rawLoop rx m of
     Inl d \<Rightarrow> fst d \<noteq> TxPending \<and> \<not> mm_active (snd d)
   | Inr m' \<Rightarrow> timed_out now m' = timed_out now m"
  by (induction rx m rule: rawLoop.induct) (auto simp: timed_out_def split: sum.splits)

lemma pollRead_ends:
  assumes "mm_active m" "mm_kind m = KindRead" "timed_out now m"
  shows "fst (pollRead nul rx now m) \<notin> {TxPending, TxIdle} \<and>
    \<not> mm_active (snd (snd (pollRead nul rx now m)))"
  using assms readLoop_ends [where rx = rx and m = m and now = now]
  by (auto simp: pollRead_def split: sum.splits)

text \<open>
  C17. No transaction hangs: the first poll at or after the response timeout ends the
  transaction, whatever kind it is and whatever has been received, with success or failure.
\<close>

theorem transaction_ends:
  assumes "mm_active m" "timed_out now m"
  shows "case mm_kind m of
      KindRead \<Rightarrow> fst (pollRead nul rx now m) \<noteq> TxPending \<and>
        \<not> mm_active (snd (snd (pollRead nul rx now m)))
    | KindWrite \<Rightarrow> fst (pollWrite rx now m) \<noteq> TxPending \<and> \<not> mm_active (snd (pollWrite rx now m))
    | KindRaw \<Rightarrow> fst (pollRaw (Some cap) rx us now m) \<noteq> TxPending \<and>
        \<not> mm_active (snd (snd (pollRaw (Some cap) rx us now m)))
    | KindNone \<Rightarrow> True"
proof (cases "mm_kind m")
  case KindRead
  with pollRead_ends [OF assms(1) _ assms(2), where nul = nul and rx = rx] show ?thesis by auto
next
  case KindWrite
  with assms writeLoop_ends [where rx = rx and m = m and now = now] show ?thesis
    by (auto simp: pollWrite_def split: sum.splits prod.splits)
next
  case KindRaw
  with assms rawLoop_ends [where rx = rx and m = m and now = now] show ?thesis
    by (auto simp: pollRaw_def Let_def succeed_def split: sum.splits prod.splits)
qed simp

text \<open>A started master with nothing in flight: 9600 baud, 500 ms.\<close>

definition sample_master :: master where
  "sample_master = snd (master_begin (default_serial (\<lambda>_ _ _. 1)) (initial_master (\<lambda>_ _ _. 1)))"

definition sample_payload :: bytes where
  "sample_payload = [0xff, 0xfe, 0xff, 0xff, 0xff, 0xfe, 0xff, 0xff]"

definition sample_rx :: "bytes \<Rightarrow> rx" where
  "sample_rx bs = map (\<lambda>b. (uint b, 1000)) bs"

lemma sample_rx_bytes [simp]: "rx_bytes (sample_rx bs) = bs"
  by (induction bs) (simp_all add: sample_rx_def)

lemma sample_master_simps:
  "mm_started sample_master" "\<not> mm_active sample_master"
  "sc_responseTimeoutMs (mm_config sample_master) = 500" "mm_successful sample_master = 0"
  by (simp_all add: sample_master_def master_begin_def initial_master_def default_serial_def emit_def)

lemma sample_read_request:
  "buildReadRequest sample_channel (Some 8) = Inr (appendCrc [9, 3, 0, 100, 0, 4])"
proof -
  have "byte_of (Suc 0) (100 :: u16) = 0" "byte_of 0 (100 :: u16) = 100"
    "byte_of (Suc 0) (4 :: u16) = 0" "byte_of 0 (4 :: u16) = 4"
    by (simp_all add: byte_of_def)
  then show ?thesis
    using sample_valid
    by (simp add: buildReadRequest_def Let_def readQuantity_def)
       (simp add: sample_simps functionCode_def isBooleanType_def registersPerValue_def)
qed

lemma read_delivered_witness:
  "\<exists>m'. read_blocking sample_channel 8 1000
      [(sample_rx (take 4 (slave_answer sample_channel sample_payload)), 1010), ([], 1020),
       (sample_rx (drop 4 (slave_answer sample_channel sample_payload)), 1030)] sample_master =
      Some (True, map (registerValue sample_channel) [sample_value, sample_value], m') \<and>
    mm_online m' \<and> \<not> mm_active m' \<and> mm_successful m' = 1"
proof -
  have ws: "list_all2 (\<lambda>v w. encodeRegisterValue sample_channel v 8 = Some w)
      [sample_value, sample_value] [[0xff, 0xfe, 0xff, 0xff], [0xff, 0xfe, 0xff, 0xff]]"
    by (simp add: sample_wire)
  have q: "length [sample_value, sample_value] = unat (ch_quantity sample_channel)"
    by (simp add: sample_simps)
  show ?thesis
    using read_delivered [OF sample_master_simps(1,2) sample_valid sample_read_request q ws, of
        "[(sample_rx (take 4 (slave_answer sample_channel sample_payload)), 1010), ([], 1020),
          (sample_rx (drop 4 (slave_answer sample_channel sample_payload)), 1030)]" 1000]
    by (simp add: sample_master_simps sample_payload_def) (simp add: sample_rx_def eval_nat_numeral)
qed

lemma transaction_ends_witness:
  "fst (pollRead False [] 600 (snd (startRead sample_channel 8 100 sample_master))) \<noteq> TxPending"
proof -
  let ?m = "snd (startRead sample_channel 8 100 sample_master)"
  have "mm_active ?m" "mm_kind ?m = KindRead" "timed_out 600 ?m"
    using sample_master_simps sample_read_request sample_valid
    by (simp_all add: startRead_def Let_def timed_out_def transmit_def)
  then show ?thesis
    using transaction_ends [of ?m 600, where nul = False and rx = "[]"] by simp
qed

section \<open>Blocking reads\<close>

lemma readRounds_ends:
  assumes "mm_active m" "mm_kind m = KindRead" "(rx, now) \<in> set rounds" "timed_out now m"
  shows "readRounds rounds m \<noteq> None"
  using assms
proof (induction rounds arbitrary: m)
  case Nil
  then show ?case by simp
next
  case (Cons round rounds)
  obtain rx1 now1 where r: "round = (rx1, now1)" by fastforce
  obtain res vs m1 where p: "pollRead False rx1 now1 m = (res, vs, m1)" by (metis prod_cases3)
  show ?case
  proof (cases "res = TxPending")
    case False
    with p r show ?thesis by (cases res) (simp_all add: Let_def)
  next
    case True
    then have "timed_out now m1 = timed_out now m \<and> mm_kind m1 = mm_kind m \<and> mm_active m1 = mm_active m"
      using p Cons.prems(1,2) readLoop_ends [where rx = rx1 and m = m and now = now]
      by (auto simp: pollRead_def split: sum.splits if_splits dest: arg_cong [where f = fst])
    moreover have "round \<noteq> (rx, now)"
      using True p r pollRead_ends [OF Cons.prems(1,2), where nul = False and rx = rx1 and now = now1]
        Cons.prems(4) by auto
    ultimately have "readRounds rounds m1 \<noteq> None"
      using Cons.prems by (intro Cons.IH) auto
    with True p r show ?thesis by (simp add: Let_def)
  qed
qed

text \<open>
  The blocking read returns: its loop, which has no other exit, ends by the first round whose
  clock is at the response timeout, whatever arrives.
\<close>

theorem blocking_read_returns:
  assumes "(rx, now) \<in> set rounds" "now - start \<ge> sc_responseTimeoutMs (mm_config m)"
  shows "\<exists>result. read_blocking c sent start rounds m = Some result"
proof -
  obtain ok m1 where s: "startRead c sent start m = (ok, m1)" by fastforce
  show ?thesis
  proof (cases ok)
    case False
    with s show ?thesis by (auto simp: read_blocking_def)
  next
    case True
    with s have "mm_active m1 \<and> mm_kind m1 = KindRead \<and> timed_out now m1"
      using assms(2)
      by (auto simp: startRead_def Let_def timed_out_def transmit_def split: if_splits sum.splits)
    with readRounds_ends assms(1) have "readRounds rounds m1 \<noteq> None" by blast
    with s True show ?thesis by (auto simp: read_blocking_def)
  qed
qed

lemma blocking_read_returns_witness:
  "\<exists>result. read_blocking sample_channel 8 100 [([], 200), ([], 600)] sample_master = Some result"
  using blocking_read_returns [where rx = "[]" and now = 600 and rounds = "[([], 200), ([], 600)]"
      and start = 100 and m = sample_master]
  by (simp add: sample_master_simps)

section \<open>Success is not invented\<close>

lemma finishWriteDecode_success:
  "fst (finishWriteDecode m) = TxSuccess \<Longrightarrow>
     \<exists>e. decodeWriteResponse (mm_activeChannel m) (mm_activeValueIndex m)
       (Some (mm_activeRequest m)) (Some (mm_response m)) = (RtuOk, e)"
  by (auto simp: finishWriteDecode_def Let_def split: prod.splits if_splits)

lemma note_fields [simp]:
  "mm_activeChannel (noteWriteByte b m) = mm_activeChannel m"
  "mm_activeRequest (noteWriteByte b m) = mm_activeRequest m"
  "mm_activeValueIndex (noteWriteByte b m) = mm_activeValueIndex m"
  "mm_response (noteWriteByte b m) = mm_response m @ [b]"
  by (simp_all add: noteWriteByte_def Let_def)

lemma writeLoop_received:
  "case writeLoop rx m of
     Inl d \<Rightarrow> fst d = TxSuccess \<longrightarrow>
       (\<exists>n e. decodeWriteResponse (mm_activeChannel m) (mm_activeValueIndex m)
         (Some (mm_activeRequest m)) (Some (mm_response m @ take n (rx_bytes rx))) = (RtuOk, e))
   | Inr m' \<Rightarrow> (\<exists>n. mm_response m' = mm_response m @ take n (rx_bytes rx)) \<and>
       mm_activeChannel m' = mm_activeChannel m \<and> mm_activeRequest m' = mm_activeRequest m \<and>
       mm_activeValueIndex m' = mm_activeValueIndex m"
proof (induction rx m rule: writeLoop.induct)
  case (2 raw us rx m)
  let ?b = "word_of_int raw" and ?m = "noteWriteByte (word_of_int raw) m"
  show ?case
  proof (cases "raw < 0 \<or> kResponseCapacity \<le> length (mm_response m)")
    case True
    then show ?thesis by (auto intro: exI [of _ 0])
  next
    case False
    note IH = 2 [OF _ _ refl]
    have more: "\<exists>k. take n (rx_bytes rx) = drop 1 (take k (?b # rx_bytes rx)) \<and> 0 < k" for n
      by (rule exI [of _ "Suc n"]) simp
    show ?thesis
    proof (cases "answerComplete ?m")
      case True
      then show ?thesis
        using False finishWriteDecode_success [of ?m] by (auto simp: Let_def intro: exI [of _ 1])
    next
      case nc: False
      then show ?thesis
        using False IH nc
        by (auto simp: Let_def split: sum.splits) (metis take_Suc_Cons)+
    qed
  qed
qed (auto intro: exI [of _ 0])

text \<open>
  C10. A write is reported as done only when the slave has echoed it: if a poll of a consistent
  master ends a write with success, the bytes received are the first six bytes of the request
  that was sent, under a valid CRC.
\<close>

theorem write_success_is_echo:
  assumes "master_ok m" "mm_kind m = KindWrite" "fst (pollWrite rx now m) = TxSuccess"
  shows "\<exists>n. mm_response m @ take n (rx_bytes rx) = appendCrc (take 6 (mm_activeRequest m))"
proof -
  obtain v where req: "buildWriteRequest (mm_activeChannel m) (mm_activeValueIndex m) v (Some 17) =
      Inr (mm_activeRequest m)" and active: "mm_active m"
    using assms(1,2) by (auto simp: master_ok_def)
  have "\<exists>n e. decodeWriteResponse (mm_activeChannel m) (mm_activeValueIndex m)
      (Some (mm_activeRequest m)) (Some (mm_response m @ take n (rx_bytes rx))) = (RtuOk, e)"
    using assms(2,3) active writeLoop_received [where rx = rx and m = m] finishWriteDecode_success
    by (auto simp: pollWrite_def split: sum.splits if_splits) metis+
  then show ?thesis using write_echo_iff [OF req] by blast
qed

lemma write_success_is_echo_witness:
  "\<exists>n. [] @ take n (appendCrc [9, 0x10, 0, 102, 0, 2]) =
     appendCrc (take 6 (appendCrc [9, 0x10, 0, 102, 0, 2, 4, 0xff, 0xfe, 0xff, 0xff]))"
proof -
  define m where "m = snd (startWrite sample_channel 1 sample_value 13 100 sample_master)"
  let ?rx = "sample_rx (appendCrc [9, 0x10, 0, 102, 0, 2])"
  have req: "buildWriteRequest sample_channel 1 sample_value (Some 17) =
      Inr (appendCrc [9, 0x10, 0, 102, 0, 2, 4, 0xff, 0xfe, 0xff, 0xff])"
    by (rule sample_request) simp
  have m: "mm_kind m = KindWrite" "mm_active m" "mm_response m = []" "mm_expectedLength m = 0"
    "mm_activeRequest m = appendCrc [9, 0x10, 0, 102, 0, 2, 4, 0xff, 0xfe, 0xff, 0xff]"
    "mm_activeChannel m = sample_channel" "mm_activeValueIndex m = 1"
    using sample_master_simps sample_valid req
    by (simp_all add: m_def startWrite_def Let_def transmit_def)
  have "master_ok m"
    unfolding m_def sample_master_def by (intro startWrite_ok begin_ok master_ok_initial)
  moreover have "fst (pollWrite ?rx 200 m) = TxSuccess"
  proof -
    have "decodeWriteResponse sample_channel 1
        (Some (appendCrc [9, 0x10, 0, 102, 0, 2, 4, 0xff, 0xfe, 0xff, 0xff]))
        (Some (appendCrc [9, 0x10, 0, 102, 0, 2])) = (RtuOk, 0)"
      by (simp add: write_echo_iff [OF req])
    then show ?thesis
      using m
      by (simp add: pollWrite_def sample_rx_def appendCrc_def noteWriteByte_def Let_def
          kResponseCapacity_def answerComplete_def finishWriteDecode_def)
  qed
  ultimately show ?thesis
    using write_success_is_echo [of m ?rx 200] m by simp
qed

end
