(* ===== verification/FPort85Codec.thy ===== *)
theory FPort85Codec
  imports ModbusChannel
begin

text \<open>
  \<^verbatim>\<open>include/lorawan/FPort85Codec.h\<close> and the decoder of \<^verbatim>\<open>FPort85ReportSettings.h\<close>:
  the LoRaWAN downlink commands and the uplink encoders. A decoder takes the payload pointer and
  returns the command with the number of bytes it consumed, or the status it rejects with.
  Commands without fields are the unit value.
\<close>

datatype DecodeStatus = DecodeOk | DecodeTruncated | DecodeUnsupported | DecodeInvalid
datatype EncodeStatus = EncodeOk | EncodeInvalid | EncodeBufferTooSmall

type_synonym 'c decoded = "DecodeStatus + 'c \<times> nat"
type_synonym encoded = "EncodeStatus + bytes"

section \<open>Commands\<close>

datatype ModbusChannelOperation = OpUpsert | OpRemove | OpSetName

record ModbusChannelCommand =
  mc_operation :: ModbusChannelOperation
  mc_channel :: ChannelConfig

datatype BasicControlCommand = Rejoin | Reboot

datatype HistoryQueryKind = TimePoint | TimeRange | StopQuery

record HistoryQueryCommand =
  hq_kind :: HistoryQueryKind
  hq_startUnix :: u32
  hq_endUnix :: u32

record DstSettingsCommand =
  dst_enabled :: bool
  dst_biasMinutes :: u8
  dst_startMonth :: u8
  dst_startWeek :: u8
  dst_startWeekday :: u8
  dst_startMinuteOfDay :: u16
  dst_endMonth :: u8
  dst_endWeek :: u8
  dst_endWeekday :: u8
  dst_endMinuteOfDay :: u16

datatype EnquiryKind = EnquirySerial | EnquiryModbus

fun enquiry_code :: "EnquiryKind \<Rightarrow> u8" where
  "enquiry_code EnquirySerial = 0x00" | "enquiry_code EnquiryModbus = 0x01"

datatype RuleStatusOperation = RuleEnable | RuleDisable | RuleDelete

fun rule_operation :: "u8 \<Rightarrow> RuleStatusOperation" where
  "rule_operation b = (if b = 0x01 then RuleEnable else if b = 0x02 then RuleDisable else RuleDelete)"

record RuleStatusCommand =
  rsc_ruleMask :: u16
  rsc_operation :: RuleStatusOperation

datatype RuleFrameSlot = SlotCondition | SlotAction1 | SlotAction2 | SlotAction3

text \<open>The frame pointer with its length is the list of the frame's bytes.\<close>

record RuleConfigurationCommand =
  rc_ruleId :: u8
  rc_enabled :: bool
  rc_slot :: RuleFrameSlot
  rc_subtype :: u8
  rc_frame :: bytes

record PeriodicValue =
  pv_slot :: u8
  pv_dataType :: UplinkDataType
  pv_signed :: bool
  pv_registerIndex :: u8
  pv_data :: "bytes ptr"

section \<open>Channel and type codes\<close>

definition kSystemChannel :: u8 where "kSystemChannel = 0xFF"
definition kModbusChannel :: u8 where "kModbusChannel = 0xF9"
definition kReportIntervalType :: u8 where "kReportIntervalType = 0x03"
definition kRejoinType :: u8 where "kRejoinType = 0x04"
definition kRebootType :: u8 where "kRebootType = 0x10"
definition kPeriodicReportEnquiryType :: u8 where "kPeriodicReportEnquiryType = 0x28"
definition kUtcTimezoneType :: u8 where "kUtcTimezoneType = 0xBD"
definition kLnsTimeSyncType :: u8 where "kLnsTimeSyncType = 0x4A"
definition kDstSettingsType :: u8 where "kDstSettingsType = 0x72"
definition kDataStorageType :: u8 where "kDataStorageType = 0x68"
definition kDataRetransmissionType :: u8 where "kDataRetransmissionType = 0x69"
definition kRetransmissionIntervalType :: u8 where "kRetransmissionIntervalType = 0x0D"
definition kRetrievabilityIntervalType :: u8 where "kRetrievabilityIntervalType = 0x0E"
definition kHistoryQueryChannel :: u8 where "kHistoryQueryChannel = 0xFD"
definition kHistoryReplyChannel :: u8 where "kHistoryReplyChannel = 0xFC"
definition kHistoryPointType :: u8 where "kHistoryPointType = 0x6B"
definition kHistoryRangeType :: u8 where "kHistoryRangeType = 0x6C"
definition kHistoryStopType :: u8 where "kHistoryStopType = 0x6D"
definition kRs485ConfigType :: u8 where "kRs485ConfigType = 0x78"
definition kModbusGlobalConfigType :: u8 where "kModbusGlobalConfigType = 0x79"
definition kRs485SettingsEnquiryType :: u8 where "kRs485SettingsEnquiryType = 0x7A"
definition kRuleStatusType :: u8 where "kRuleStatusType = 0x76"
definition kRuleEnquiryType :: u8 where "kRuleEnquiryType = 0x77"
definition kRuleConfigurationType :: u8 where "kRuleConfigurationType = 0x7D"
definition kModbusChannelConfigType :: u8 where "kModbusChannelConfigType = 0xEF"
definition kModbusChannelDataType :: u8 where "kModbusChannelDataType = 0x73"
definition kCollectionExceptionType :: u8 where "kCollectionExceptionType = 0x15"

lemmas fport_codes [simp] =
  kSystemChannel_def kModbusChannel_def kReportIntervalType_def kRejoinType_def kRebootType_def
  kPeriodicReportEnquiryType_def kUtcTimezoneType_def kLnsTimeSyncType_def kDstSettingsType_def
  kDataStorageType_def kDataRetransmissionType_def kRetransmissionIntervalType_def
  kRetrievabilityIntervalType_def kHistoryQueryChannel_def kHistoryReplyChannel_def
  kHistoryPointType_def kHistoryRangeType_def kHistoryStopType_def kRs485ConfigType_def
  kModbusGlobalConfigType_def kRs485SettingsEnquiryType_def kRuleStatusType_def
  kRuleEnquiryType_def kRuleConfigurationType_def kModbusChannelConfigType_def
  kModbusChannelDataType_def kCollectionExceptionType_def

text \<open>A command header is the pair of the channel id and the type.\<close>

definition readHeader :: "bytes ptr \<Rightarrow> (u8 \<times> u8) option" where
  "readHeader p = (if short p 2 then None else Some (the p ! 0, the p ! 1))"

definition isVerifiedCommandPrefix :: "u8 \<times> u8 \<Rightarrow> bool" where
  "isVerifiedCommandPrefix h =
     (let (channelId, type) = h
      in (channelId = kSystemChannel \<and> type = kReportIntervalType) \<or>
         (channelId = kSystemChannel \<and> type = kRejoinType) \<or>
         (channelId = kSystemChannel \<and> type = kRebootType) \<or>
         (channelId = kSystemChannel \<and> type = kPeriodicReportEnquiryType) \<or>
         (channelId = kSystemChannel \<and> type = kUtcTimezoneType) \<or>
         (channelId = kSystemChannel \<and> type = kLnsTimeSyncType) \<or>
         (channelId = kModbusChannel \<and> type = kDstSettingsType) \<or>
         (channelId = kSystemChannel \<and> type = kDataStorageType) \<or>
         (channelId = kSystemChannel \<and> type = kDataRetransmissionType) \<or>
         (channelId = kModbusChannel \<and> type = kRetransmissionIntervalType) \<or>
         (channelId = kModbusChannel \<and> type = kRetrievabilityIntervalType) \<or>
         (channelId = kHistoryQueryChannel \<and>
            (type = kHistoryPointType \<or> type = kHistoryRangeType \<or> type = kHistoryStopType)) \<or>
         (channelId = kModbusChannel \<and> type = kRs485ConfigType) \<or>
         (channelId = kModbusChannel \<and> type = kModbusGlobalConfigType) \<or>
         (channelId = kModbusChannel \<and> type = kRs485SettingsEnquiryType) \<or>
         (channelId = kModbusChannel \<and> type = kRuleStatusType) \<or>
         (channelId = kModbusChannel \<and> type = kRuleEnquiryType) \<or>
         (channelId = kModbusChannel \<and> type = kRuleConfigurationType) \<or>
         (channelId = kSystemChannel \<and> type = kModbusChannelConfigType))"

definition isVerifiedUplinkPrefix :: "u8 \<times> u8 \<Rightarrow> bool" where
  "isVerifiedUplinkPrefix h =
     (let (channelId, type) = h
      in (channelId = kModbusChannel \<and> type = kModbusChannelDataType) \<or>
         (channelId = kSystemChannel \<and> type = kCollectionExceptionType))"

section \<open>Decoders\<close>

definition readU32 :: "bytes \<Rightarrow> nat \<Rightarrow> u32" where
  "readU32 b i = le32 (b ! i) (b ! (i + 1)) (b ! (i + 2)) (b ! (i + 3))"

definition decodeBasicControlCommand :: "bytes ptr \<Rightarrow> BasicControlCommand decoded" where
  "decodeBasicControlCommand p =
     (if short p 3 then Inl DecodeTruncated
      else let b = the p
        in if b ! 0 \<noteq> kSystemChannel then Inl DecodeUnsupported
           else if b ! 2 \<noteq> 0xff then Inl DecodeInvalid
           else if b ! 1 = kRejoinType then Inr (Rejoin, 3)
           else if b ! 1 = kRebootType then Inr (Reboot, 3)
           else Inl DecodeUnsupported)"

definition decodePeriodicReportEnquiryCommand :: "bytes ptr \<Rightarrow> unit decoded" where
  "decodePeriodicReportEnquiryCommand p =
     (if short p 3 then Inl DecodeTruncated
      else let b = the p
        in if b ! 0 \<noteq> kSystemChannel \<or> b ! 1 \<noteq> kPeriodicReportEnquiryType then Inl DecodeUnsupported
           else if b ! 2 \<noteq> 0xff then Inl DecodeInvalid
           else Inr ((), 3))"

definition decodeUtcTimezoneCommand :: "bytes ptr \<Rightarrow> u16 decoded" where
  "decodeUtcTimezoneCommand p =
     (if short p 4 then Inl DecodeTruncated
      else let b = the p
        in if b ! 0 \<noteq> kSystemChannel \<or> b ! 1 \<noteq> kUtcTimezoneType then Inl DecodeUnsupported
           else let minutes = le16 (b ! 2) (b ! 3)
             in if sint minutes < - 720 \<or> sint minutes > 840 then Inl DecodeInvalid
                else Inr (minutes, 4))"

definition decodeLnsTimeSyncCommand :: "bytes ptr \<Rightarrow> unit decoded" where
  "decodeLnsTimeSyncCommand p =
     (if short p 3 then Inl DecodeTruncated
      else let b = the p
        in if b ! 0 \<noteq> kSystemChannel \<or> b ! 1 \<noteq> kLnsTimeSyncType then Inl DecodeUnsupported
           else if b ! 2 \<noteq> 0x00 then Inl DecodeInvalid
           else Inr ((), 3))"

definition decodeDstSettingsCommand :: "bytes ptr \<Rightarrow> DstSettingsCommand decoded" where
  "decodeDstSettingsCommand p =
     (if short p 11 then Inl DecodeTruncated
      else let b = the p
        in if b ! 0 \<noteq> kModbusChannel \<or> b ! 1 \<noteq> kDstSettingsType then Inl DecodeUnsupported
           else
             let c = \<lparr>dst_enabled = (b ! 2 AND 0x80 \<noteq> 0), dst_biasMinutes = b ! 2 AND 0x7f,
                   dst_startMonth = b ! 3, dst_startWeek = drop_bit 4 (b ! 4) AND 0x0f,
                   dst_startWeekday = b ! 4 AND 0x0f, dst_startMinuteOfDay = le16 (b ! 5) (b ! 6),
                   dst_endMonth = b ! 7, dst_endWeek = drop_bit 4 (b ! 8) AND 0x0f,
                   dst_endWeekday = b ! 8 AND 0x0f, dst_endMinuteOfDay = le16 (b ! 9) (b ! 10)\<rparr>
             in if dst_biasMinutes c > 120 then Inl DecodeInvalid
                else if dst_enabled c \<and>
                  (dst_biasMinutes c = 0 \<or>
                   dst_startMonth c < 1 \<or> dst_startMonth c > 12 \<or>
                   dst_startWeek c < 1 \<or> dst_startWeek c > 5 \<or>
                   dst_startWeekday c < 1 \<or> dst_startWeekday c > 7 \<or>
                   dst_startMinuteOfDay c > 1439 \<or>
                   dst_endMonth c < 1 \<or> dst_endMonth c > 12 \<or>
                   dst_endWeek c < 1 \<or> dst_endWeek c > 5 \<or>
                   dst_endWeekday c < 1 \<or> dst_endWeekday c > 7 \<or>
                   dst_endMinuteOfDay c > 1439)
                then Inl DecodeInvalid
                else Inr (c, 11))"

definition decodeHistoryToggleCommand :: "u8 \<Rightarrow> bytes ptr \<Rightarrow> bool decoded" where
  "decodeHistoryToggleCommand expectedType p =
     (if short p 3 then Inl DecodeTruncated
      else let b = the p
        in if b ! 0 \<noteq> kSystemChannel \<or> b ! 1 \<noteq> expectedType then Inl DecodeUnsupported
           else if expectedType \<noteq> kDataStorageType \<and> expectedType \<noteq> kDataRetransmissionType
           then Inl DecodeUnsupported
           else if b ! 2 > 0x01 then Inl DecodeInvalid
           else Inr (b ! 2 = 0x01, 3))"

definition decodeIntervalCommand :: "u8 \<Rightarrow> bytes ptr \<Rightarrow> u16 decoded" where
  "decodeIntervalCommand type p =
     (if short p 4 then Inl DecodeTruncated
      else let b = the p
        in if b ! 0 \<noteq> kModbusChannel \<or> b ! 1 \<noteq> type then Inl DecodeUnsupported
           else let seconds = le16 (b ! 2) (b ! 3)
             in if seconds < 30 \<or> seconds > 1200 then Inl DecodeInvalid
                else Inr (seconds, 4))"

definition decodeRetransmissionIntervalCommand :: "bytes ptr \<Rightarrow> u16 decoded" where
  "decodeRetransmissionIntervalCommand = decodeIntervalCommand kRetransmissionIntervalType"

definition decodeRetrievabilityIntervalCommand :: "bytes ptr \<Rightarrow> u16 decoded" where
  "decodeRetrievabilityIntervalCommand = decodeIntervalCommand kRetrievabilityIntervalType"

definition decodeHistoryQueryCommand :: "bytes ptr \<Rightarrow> HistoryQueryCommand decoded" where
  "decodeHistoryQueryCommand p =
     (if short p 3 then Inl DecodeTruncated
      else let b = the p
        in if b ! 0 \<noteq> kHistoryQueryChannel then Inl DecodeUnsupported
           else if b ! 1 = kHistoryPointType then
             (if length b < 6 then Inl DecodeTruncated
              else Inr (\<lparr>hq_kind = TimePoint, hq_startUnix = readU32 b 2, hq_endUnix = 0\<rparr>, 6))
           else if b ! 1 = kHistoryRangeType then
             (if length b < 10 then Inl DecodeTruncated
              else Inr (\<lparr>hq_kind = TimeRange, hq_startUnix = readU32 b 2,
                hq_endUnix = readU32 b 6\<rparr>, 10))
           else if b ! 1 = kHistoryStopType then
             (if b ! 2 \<noteq> 0xff then Inl DecodeInvalid
              else Inr (\<lparr>hq_kind = StopQuery, hq_startUnix = 0, hq_endUnix = 0\<rparr>, 3))
           else Inl DecodeUnsupported)"

definition decodeRuleStatusCommand :: "bytes ptr \<Rightarrow> RuleStatusCommand decoded" where
  "decodeRuleStatusCommand p =
     (if short p 5 then Inl DecodeTruncated
      else let b = the p
        in if b ! 0 \<noteq> kModbusChannel \<or> b ! 1 \<noteq> kRuleStatusType then Inl DecodeUnsupported
           else let mask = le16 (b ! 2) (b ! 3)
             in if mask = 0 then Inl DecodeInvalid
                else if b ! 4 < 0x01 \<or> b ! 4 > 0x03 then Inl DecodeInvalid
                else Inr (\<lparr>rsc_ruleMask = mask, rsc_operation = rule_operation (b ! 4)\<rparr>, 5))"

definition decodeRuleEnquiryCommand :: "bytes ptr \<Rightarrow> u8 decoded" where
  "decodeRuleEnquiryCommand p =
     (if short p 3 then Inl DecodeTruncated
      else let b = the p
        in if b ! 0 \<noteq> kModbusChannel \<or> b ! 1 \<noteq> kRuleEnquiryType then Inl DecodeUnsupported
           else if b ! 2 < 1 \<or> b ! 2 > 16 then Inl DecodeInvalid
           else Inr (b ! 2, 3))"

text \<open>
  The two switches of \<^verbatim>\<open>decodeRuleConfigurationCommand\<close>: the slot and the content length of
  a subtype, the length checked where the code checks it.
\<close>

definition ruleActionLength :: "u8 \<Rightarrow> bytes \<Rightarrow> DecodeStatus + nat" where
  "ruleActionLength actionKind b =
     (if actionKind = 0x00 then Inr 2
      else if actionKind = 0x01 then
        (if length b < 9 then Inl DecodeTruncated
         else if b ! 8 < 1 \<or> b ! 8 > 48 then Inl DecodeInvalid
         else Inr (7 + unat (b ! 8)))
      else if actionKind = 0x02 then Inl DecodeUnsupported
      else if actionKind = 0x03 then
        (if length b < 9 then Inl DecodeTruncated
         else if b ! 8 < 2 \<or> b ! 8 > 48 then Inl DecodeInvalid
         else Inr (7 + unat (b ! 8)))
      else if actionKind = 0x04 \<or> actionKind = 0x06 then Inr 6
      else if actionKind = 0x05 then Inr 7
      else Inl DecodeUnsupported)"

definition ruleContentLength :: "u8 \<Rightarrow> bytes \<Rightarrow> DecodeStatus + RuleFrameSlot \<times> nat" where
  "ruleContentLength subtype b =
     (if subtype = 0x11 then
        (if length b < 2 + 9 then Inl DecodeTruncated
         else if b ! 4 > 0x01 \<or> b ! 9 > 23 \<or> b ! 10 > 59 then Inl DecodeInvalid
         else Inr (SlotCondition, 9))
      else if subtype = 0x12 then
        (if length b < 2 + 20 then Inl DecodeTruncated
         else if b ! 4 < 1 \<or> b ! 4 > 32 then Inl DecodeInvalid
         else if b ! 5 AND 0x0f > 0x07 \<or> drop_bit 4 (b ! 5) AND 0x0f > 0x01 then Inl DecodeInvalid
         else Inr (SlotCondition, 20))
      else if subtype = 0x13 \<or> subtype = 0x14 then
        (if length b < 5 then Inl DecodeTruncated
         else if b ! 4 < 2 \<or> b ! 4 > 48 then Inl DecodeInvalid
         else if length b < 2 + (3 + unat (b ! 4)) then Inl DecodeTruncated
         else Inr (SlotCondition, 3 + unat (b ! 4)))
      else if subtype = 0x15 then Inl DecodeUnsupported
      else if subtype = 0x16 then Inr (SlotCondition, 2)
      else
        let actionGroup = subtype AND 0xf0; actionKind = subtype AND 0x0f;
            slot = (if actionGroup = 0x90 then Some SlotAction1
                    else if actionGroup = 0xa0 then Some SlotAction2
                    else if actionGroup = 0xb0 then Some SlotAction3 else None)
        in case slot of
             None \<Rightarrow> Inl DecodeUnsupported
           | Some s \<Rightarrow> (case ruleActionLength actionKind b of
               Inl e \<Rightarrow> Inl e
             | Inr n \<Rightarrow> if length b < 2 + n then Inl DecodeTruncated else Inr (s, n)))"

definition decodeRuleConfigurationCommand :: "bytes ptr \<Rightarrow> RuleConfigurationCommand decoded" where
  "decodeRuleConfigurationCommand p =
     (if short p 4 then Inl DecodeTruncated
      else let b = the p
        in if b ! 0 \<noteq> kModbusChannel \<or> b ! 1 \<noteq> kRuleConfigurationType then Inl DecodeUnsupported
           else
             let ruleField = b ! 2; ruleId = ruleField AND 0x7f; subtype = b ! 3
             in if ruleId < 1 \<or> ruleId > 16 then Inl DecodeInvalid
                else case ruleContentLength subtype b of
                  Inl e \<Rightarrow> Inl e
                | Inr (slot, contentLength) \<Rightarrow>
                    if contentLength = 0 \<or> contentLength > 55 \<or> length b < 2 + contentLength
                    then Inl DecodeInvalid
                    else Inr (\<lparr>rc_ruleId = ruleId, rc_enabled = (ruleField AND 0x80 \<noteq> 0),
                      rc_slot = slot, rc_subtype = subtype,
                      rc_frame = take (2 + contentLength) b\<rparr>, 2 + contentLength))"

definition decodeRs485SettingsCommand :: "bytes ptr \<Rightarrow> Rs485SerialSettings decoded" where
  "decodeRs485SettingsCommand p =
     (if short p 9 then Inl DecodeTruncated
      else let b = the p
        in if b ! 0 \<noteq> kModbusChannel \<or> b ! 1 \<noteq> kRs485ConfigType then Inl DecodeUnsupported
           else
             let settings = \<lparr>rs_baudRate = le32 (b ! 2) (b ! 3) (b ! 4) (b ! 5),
                   rs_dataBits = b ! 6, rs_stopBits = b ! 7, rs_parity = b ! 8\<rparr>
             in if \<not> validRs485SerialSettings settings then Inl DecodeInvalid
                else Inr (settings, 9))"

definition decodeModbusMasterSettingsCommand :: "bytes ptr \<Rightarrow> ModbusMasterSettings decoded" where
  "decodeModbusMasterSettingsCommand p =
     (if short p 9 then Inl DecodeTruncated
      else let b = the p
        in if b ! 0 \<noteq> kModbusChannel \<or> b ! 1 \<noteq> kModbusGlobalConfigType then Inl DecodeUnsupported
           else
             let settings = \<lparr>ms_executionIntervalMs = le16 (b ! 2) (b ! 3),
                   ms_maxResponseTimeMs = le16 (b ! 4) (b ! 5), ms_maxRetryTimes = b ! 6,
                   ms_passThroughMode = b ! 7, ms_passThroughPort = b ! 8\<rparr>
             in if \<not> validModbusMasterSettings settings then Inl DecodeInvalid
                else Inr (settings, 9))"

definition decodeRs485SettingsEnquiryCommand :: "bytes ptr \<Rightarrow> EnquiryKind decoded" where
  "decodeRs485SettingsEnquiryCommand p =
     (if short p 3 then Inl DecodeTruncated
      else let b = the p
        in if b ! 0 \<noteq> kModbusChannel \<or> b ! 1 \<noteq> kRs485SettingsEnquiryType then Inl DecodeUnsupported
           else if b ! 2 > enquiry_code EnquiryModbus then Inl DecodeInvalid
           else Inr (if b ! 2 = enquiry_code EnquirySerial then EnquirySerial else EnquiryModbus, 3))"

definition downlinkChannelIdToSlot :: "u8 \<Rightarrow> u8 option" where
  "downlinkChannelIdToSlot channelId =
     (if channelId < 1 \<or> unat channelId > kCompatibilitySlotCount then None
      else Some (channelId - 1))"

definition slotToDownlinkChannelId :: "u8 \<Rightarrow> u8" where
  "slotToDownlinkChannelId slot = (if unat slot < kCompatibilitySlotCount then slot + 1 else 0)"

definition decodeModbusChannelCommand :: "bytes ptr \<Rightarrow> ModbusChannelCommand decoded" where
  "decodeModbusChannelCommand p =
     (if short p 3 then Inl DecodeTruncated
      else let b = the p
        in if b ! 0 \<noteq> kSystemChannel \<or> b ! 1 \<noteq> kModbusChannelConfigType then Inl DecodeUnsupported
           else if b ! 2 = 0x01 then
             (if length b < 9 then Inl DecodeTruncated
              else case downlinkChannelIdToSlot (b ! 3) of
                None \<Rightarrow> Inl DecodeInvalid
              | Some slot \<Rightarrow>
                  if b ! 4 = 0 \<or> b ! 4 > 247 then Inl DecodeInvalid
                  else if \<not> validWireDataType (b ! 7) then Inl DecodeInvalid
                  else if b ! 8 AND 0xE0 \<noteq> 0 then Inl DecodeInvalid
                  else let quantity = b ! 8 AND 0x0F
                    in if quantity < 1 \<or> quantity > 2 then Inl DecodeInvalid
                       else let channel = default_channel\<lparr>ch_slot := slot, ch_slaveId := b ! 4,
                              ch_address := le16 (b ! 5) (b ! 6), ch_dataType := b ! 7,
                              ch_quantity := quantity, ch_signed := (b ! 8 AND 0x10 \<noteq> 0)\<rparr>
                         in if validChannelConfig channel
                            then Inr (\<lparr>mc_operation = OpUpsert, mc_channel = channel\<rparr>, 9)
                            else Inl DecodeInvalid)
           else if b ! 2 = 0x00 then
             (if length b < 4 then Inl DecodeTruncated
              else case downlinkChannelIdToSlot (b ! 3) of
                None \<Rightarrow> Inl DecodeInvalid
              | Some slot \<Rightarrow> Inr (\<lparr>mc_operation = OpRemove,
                  mc_channel = default_channel\<lparr>ch_slot := slot\<rparr>\<rparr>, 4))
           else if b ! 2 = 0x02 then
             (if length b < 5 then Inl DecodeTruncated
              else case downlinkChannelIdToSlot (b ! 3) of
                None \<Rightarrow> Inl DecodeInvalid
              | Some slot \<Rightarrow>
                  let nameLength = unat (b ! 4)
                  in if nameLength = 0 \<or> nameLength > kMaxChannelNameLength then Inl DecodeInvalid
                     else if length b < 5 + nameLength then Inl DecodeTruncated
                     else (case setChannelName (default_channel\<lparr>ch_slot := slot\<rparr>)
                            (Some (take nameLength (drop 5 b))) of
                       None \<Rightarrow> Inl DecodeInvalid
                     | Some channel \<Rightarrow>
                         Inr (\<lparr>mc_operation = OpSetName, mc_channel = channel\<rparr>, 5 + nameLength)))
           else Inl DecodeUnsupported)"

subsection \<open>Report interval\<close>

definition kMinReportIntervalSeconds :: u16 where "kMinReportIntervalSeconds = 60"
definition kMaxReportIntervalSeconds :: u16 where "kMaxReportIntervalSeconds = 1080 * 60"
definition kDefaultReportIntervalSeconds :: u16 where "kDefaultReportIntervalSeconds = 20 * 60"

definition validReportIntervalSeconds :: "u16 \<Rightarrow> bool" where
  "validReportIntervalSeconds seconds =
     (seconds \<ge> kMinReportIntervalSeconds \<and> seconds \<le> kMaxReportIntervalSeconds)"

definition decodeReportIntervalCommand :: "bytes ptr \<Rightarrow> (u16 \<times> nat) option" where
  "decodeReportIntervalCommand p =
     (if short p 4 then None
      else let b = the p
        in if b ! 0 \<noteq> 0xff \<or> b ! 1 \<noteq> 0x03 then None
           else let seconds = le16 (b ! 2) (b ! 3)
             in if \<not> validReportIntervalSeconds seconds then None else Some (seconds, 4))"

section \<open>Encoders\<close>

definition encodeHistoryQueryReply :: "u8 \<Rightarrow> u8 \<Rightarrow> nat ptr \<Rightarrow> encoded" where
  "encodeHistoryQueryReply queryType status out =
     (if queryType \<noteq> kHistoryPointType \<and> queryType \<noteq> kHistoryRangeType then Inl EncodeInvalid
      else if status > 0x02 then Inl EncodeInvalid
      else if no_room out 3 then Inl EncodeBufferTooSmall
      else Inr [kHistoryReplyChannel, queryType, status])"

definition encodeRs485SettingsEnquiryReply ::
    "EnquiryKind \<Rightarrow> Rs485SerialSettings \<Rightarrow> ModbusMasterSettings \<Rightarrow> nat ptr \<Rightarrow> encoded" where
  "encodeRs485SettingsEnquiryReply kind serial master out =
     (case out of None \<Rightarrow> Inl EncodeInvalid
      | Some capacity \<Rightarrow>
          if capacity < 13 then Inl EncodeBufferTooSmall
          else
            let reply = [0xF8, kRs485SettingsEnquiryType, enquiry_code kind, 0x00]
            in (case kind of
                 EnquirySerial \<Rightarrow>
                   if \<not> validRs485SerialSettings serial then Inl EncodeInvalid
                   else Inr (reply @ [kModbusChannel, kRs485ConfigType] @
                     le_bytes 4 (rs_baudRate serial) @
                     [rs_dataBits serial, rs_stopBits serial, rs_parity serial])
               | EnquiryModbus \<Rightarrow>
                   if \<not> validModbusMasterSettings master then Inl EncodeInvalid
                   else Inr (reply @ [kModbusChannel, kModbusGlobalConfigType] @
                     le_bytes 2 (ms_executionIntervalMs master) @
                     le_bytes 2 (ms_maxResponseTimeMs master) @
                     [ms_maxRetryTimes master, ms_passThroughMode master,
                      ms_passThroughPort master])))"

definition encodePeriodicValue :: "PeriodicValue \<Rightarrow> nat ptr \<Rightarrow> encoded" where
  "encodePeriodicValue v out =
     (case pv_data v of None \<Rightarrow> Inl EncodeInvalid
      | Some data \<Rightarrow>
          if unat (pv_slot v) \<ge> kCompatibilitySlotCount \<or> pv_registerIndex v > 1 then Inl EncodeInvalid
          else
            let expected = uplinkValueWidth (pv_dataType v)
            in if expected = 0 \<or> length data \<noteq> expected then Inl EncodeInvalid
               else if no_room out (4 + expected) then Inl EncodeBufferTooSmall
               else Inr ([kModbusChannel, kModbusChannelDataType, pv_slot v,
                 (if pv_signed v then 0x80 else 0) OR
                 (if pv_registerIndex v = 1 then 0x20 else 0) OR
                 (uplink_code (pv_dataType v) AND 0x1F)] @ data))"

definition encodeChannelValue :: "ChannelConfig \<Rightarrow> u8 \<Rightarrow> bytes ptr \<Rightarrow> nat ptr \<Rightarrow> encoded" where
  "encodeChannelValue channel registerIndex data out =
     (if \<not> validChannelConfig channel then Inl EncodeInvalid
      else encodePeriodicValue
        \<lparr>pv_slot = ch_slot channel, pv_dataType = uplinkDataType (ch_dataType channel),
         pv_signed = uplinkSigned channel, pv_registerIndex = registerIndex, pv_data = data\<rparr> out)"

definition encodeCollectionException :: "u8 \<Rightarrow> nat ptr \<Rightarrow> encoded" where
  "encodeCollectionException slot out =
     (if unat slot \<ge> kCompatibilitySlotCount then Inl EncodeInvalid
      else if no_room out 3 then Inl EncodeBufferTooSmall
      else Inr [kSystemChannel, kCollectionExceptionType, slot])"

end
