(* ===== verification/FPort85Commands.thy ===== *)
theory FPort85Commands
  imports FPort85Codec
begin

text \<open>
  The contract of a downlink decoder, as the command loop of the application relies on it: an
  accepted command starts with a verified header, takes at least three bytes and no more than
  there are, and depends on nothing but the bytes it consumes. Every decoder of
  \<^verbatim>\<open>FPort85Codec.h\<close> provides it.
\<close>

section \<open>The decoder contract\<close>

locale command_decoder =
  fixes decode :: "bytes ptr \<Rightarrow> 'c decoded"
  assumes null: "\<exists>e. decode None = Inl e"
    and consumed: "decode (Some bs) = Inr (c, n) \<Longrightarrow> 3 \<le> n \<and> n \<le> length bs"
    and verified: "decode (Some bs) = Inr (c, n) \<Longrightarrow> isVerifiedCommandPrefix (bs ! 0, bs ! 1)"
    and framed: "decode (Some bs) = Inr (c, n) \<Longrightarrow> n \<le> length ds \<Longrightarrow> take n ds = take n bs \<Longrightarrow>
      decode (Some ds) = Inr (c, n)"
begin

lemma exact: "decode (Some bs) = Inr (c, n) \<Longrightarrow> decode (Some (take n bs)) = Inr (c, n)"
proof -
  assume d: "decode (Some bs) = Inr (c, n)"
  with consumed [OF d] show ?thesis by (rule_tac framed [OF d]) simp_all
qed

lemma extended: "decode (Some bs) = Inr (c, n) \<Longrightarrow> decode (Some (bs @ suffix)) = Inr (c, n)"
proof -
  assume d: "decode (Some bs) = Inr (c, n)"
  with consumed [OF d] show ?thesis by (rule_tac framed [OF d]) simp_all
qed

lemma at_least_three: "length bs < 3 \<Longrightarrow> \<exists>e. decode (Some bs) = Inl e"
  using consumed [of bs] by (cases "decode (Some bs)") force+

text \<open>
  The stream loop: commands one after the other to the end of the payload, or nothing. Every
  round consumes bytes, so it ends.
\<close>

function stream :: "bytes \<Rightarrow> 'c list option" where
  "stream bs =
     (if bs = [] then Some []
      else case decode (Some bs) of
        Inl _ \<Rightarrow> None
      | Inr (c, n) \<Rightarrow> map_option ((#) c) (stream (drop n bs)))"
  by auto
termination
  by (relation "measure length") (use consumed in fastforce)+

declare stream.simps [simp del]

lemma stream_Nil [simp]: "stream [] = Some []"
  by (simp add: stream.simps)

lemma stream_step:
  "decode (Some bs) = Inr (c, n) \<Longrightarrow> stream bs = map_option ((#) c) (stream (drop n bs))"
  using consumed [of bs c n] by (subst stream.simps) auto

text \<open>Concatenated command frames are parsed into the commands, in order.\<close>

lemma stream_frames:
  "list_all2 (\<lambda>f c. decode (Some f) = Inr (c, length f)) fs cs \<Longrightarrow> stream (concat fs) = Some cs"
proof (induction rule: list_all2_induct)
  case (Cons f fs c cs)
  then have "decode (Some (f @ concat fs)) = Inr (c, length f)" by (intro extended)
  with Cons show ?case by (simp add: stream_step)
qed simp

lemma stream_bounded: "stream bs = Some cs \<Longrightarrow> 3 * length cs \<le> length bs"
proof (induction bs arbitrary: cs rule: stream.induct)
  case (1 bs)
  show ?case
  proof (cases "bs = []")
    case False
    with 1(2) obtain c n ds where d: "decode (Some bs) = Inr (c, n)" and s: "stream (drop n bs) = Some ds"
      and cs: "cs = c # ds"
      by (subst (asm) stream.simps) (auto split: sum.splits)
    have "3 * length ds \<le> length (drop n bs)" using 1(1) [OF False d refl s] .
    with consumed [OF d] cs show ?thesis by (simp add: le_diff_conv2)
  qed (use 1(2) in simp)
qed

end

section \<open>Every decoder keeps the contract\<close>

lemma frame_nth:
  "take n ds = take n (bs :: 'a list) \<Longrightarrow> i < n \<Longrightarrow> ds ! i = bs ! i"
  by (metis nth_take)

lemma command_decoderI:
  assumes "\<exists>e. decode None = Inl e"
    and "\<And>bs c n. decode (Some bs) = Inr (c, n) \<Longrightarrow>
      3 \<le> n \<and> n \<le> length bs \<and> isVerifiedCommandPrefix (bs ! 0, bs ! 1)"
    and "\<And>bs ds c n. decode (Some bs) = Inr (c, n) \<Longrightarrow> n \<le> length ds \<Longrightarrow> take n ds = take n bs \<Longrightarrow>
      (\<And>i. i < n \<Longrightarrow> ds ! i = bs ! i) \<Longrightarrow> decode (Some ds) = Inr (c, n)"
  shows "command_decoder decode"
proof
  fix bs ds c n
  show "\<exists>e. decode None = Inl e" by (rule assms(1))
  assume d: "decode (Some bs) = Inr (c, n)"
  with assms(2) show "3 \<le> n \<and> n \<le> length bs" "isVerifiedCommandPrefix (bs ! 0, bs ! 1)" by blast+
  assume "n \<le> length ds" "take n ds = take n bs"
  with d show "decode (Some ds) = Inr (c, n)" by (intro assms(3) [OF d]) (auto dest: frame_nth)
qed

lemmas decoder_proof = Let_def isVerifiedCommandPrefix_def

interpretation basicControl: command_decoder decodeBasicControlCommand
  by (rule command_decoderI)
     (auto simp: decodeBasicControlCommand_def decoder_proof split: if_splits)

interpretation periodicEnquiry: command_decoder decodePeriodicReportEnquiryCommand
  by (rule command_decoderI)
     (auto simp: decodePeriodicReportEnquiryCommand_def decoder_proof split: if_splits)

interpretation utcTimezone: command_decoder decodeUtcTimezoneCommand
  by (rule command_decoderI)
     (auto simp: decodeUtcTimezoneCommand_def decoder_proof split: if_splits)

interpretation lnsTimeSync: command_decoder decodeLnsTimeSyncCommand
  by (rule command_decoderI)
     (auto simp: decodeLnsTimeSyncCommand_def decoder_proof split: if_splits)

interpretation dstSettings: command_decoder decodeDstSettingsCommand
  by (rule command_decoderI)
     (auto simp: decodeDstSettingsCommand_def decoder_proof split: if_splits)

interpretation dataStorage: command_decoder "decodeHistoryToggleCommand kDataStorageType"
  by (rule command_decoderI)
     (auto simp: decodeHistoryToggleCommand_def decoder_proof split: if_splits)

interpretation dataRetransmission: command_decoder "decodeHistoryToggleCommand kDataRetransmissionType"
  by (rule command_decoderI)
     (auto simp: decodeHistoryToggleCommand_def decoder_proof split: if_splits)

interpretation retransmissionInterval: command_decoder decodeRetransmissionIntervalCommand
  by (rule command_decoderI)
     (auto simp: decodeRetransmissionIntervalCommand_def decodeIntervalCommand_def decoder_proof
       split: if_splits)

interpretation retrievabilityInterval: command_decoder decodeRetrievabilityIntervalCommand
  by (rule command_decoderI)
     (auto simp: decodeRetrievabilityIntervalCommand_def decodeIntervalCommand_def decoder_proof
       split: if_splits)

interpretation historyQuery: command_decoder decodeHistoryQueryCommand
  by (rule command_decoderI)
     (auto simp: decodeHistoryQueryCommand_def decoder_proof readU32_def split: if_splits)

interpretation ruleStatus: command_decoder decodeRuleStatusCommand
  by (rule command_decoderI)
     (auto simp: decodeRuleStatusCommand_def decoder_proof split: if_splits)

interpretation ruleEnquiry: command_decoder decodeRuleEnquiryCommand
  by (rule command_decoderI)
     (auto simp: decodeRuleEnquiryCommand_def decoder_proof split: if_splits)

interpretation rs485Settings: command_decoder decodeRs485SettingsCommand
  by (rule command_decoderI)
     (auto simp: decodeRs485SettingsCommand_def decoder_proof split: if_splits)

interpretation masterSettings: command_decoder decodeModbusMasterSettingsCommand
  by (rule command_decoderI)
     (auto simp: decodeModbusMasterSettingsCommand_def decoder_proof split: if_splits)

interpretation settingsEnquiry: command_decoder decodeRs485SettingsEnquiryCommand
  by (rule command_decoderI)
     (auto simp: decodeRs485SettingsEnquiryCommand_def decoder_proof split: if_splits)

lemma take_drop_frame: "take k (drop j xs) = drop j (take (j + k) xs)"
  by (simp add: take_drop add.commute)

lemma modbusChannel_shape:
  "decodeModbusChannelCommand (Some bs) = Inr (c, n) \<Longrightarrow>
     bs ! 0 = kSystemChannel \<and> bs ! 1 = kModbusChannelConfigType \<and> n \<le> length bs \<and>
     (bs ! 2 = 0x01 \<and> n = 9 \<or> bs ! 2 = 0x00 \<and> n = 4 \<or>
      bs ! 2 = 0x02 \<and> 5 < n \<and> n = 5 + unat (bs ! 4))"
  by (simp add: decodeModbusChannelCommand_def Let_def split: if_splits option.splits)

interpretation modbusChannel: command_decoder decodeModbusChannelCommand
proof (rule command_decoderI)
  show "\<exists>e. decodeModbusChannelCommand None = Inl e" by (simp add: decodeModbusChannelCommand_def)
next
  fix bs c n assume "decodeModbusChannelCommand (Some bs) = Inr (c, n)"
  from modbusChannel_shape [OF this]
  show "3 \<le> n \<and> n \<le> length bs \<and> isVerifiedCommandPrefix (bs ! 0, bs ! 1)"
    by (auto simp: isVerifiedCommandPrefix_def)
next
  fix bs ds :: bytes and c n
  assume d: "decodeModbusChannelCommand (Some bs) = Inr (c, n)" and len: "n \<le> length ds"
    and tk: "take n ds = take n bs" and nth: "\<And>i. i < n \<Longrightarrow> ds ! i = bs ! i"
  note shape = modbusChannel_shape [OF d]
  from shape have "decodeModbusChannelCommand (Some ds) = decodeModbusChannelCommand (Some bs)"
  proof (elim conjE disjE)
    assume "bs ! 2 = 0x01" "n = 9"
    with len nth shape show ?thesis
      by (cases "downlinkChannelIdToSlot (bs ! 3)") (simp_all add: decodeModbusChannelCommand_def Let_def)
  next
    assume "bs ! 2 = 0x00" "n = 4"
    with len nth shape show ?thesis
      by (simp add: decodeModbusChannelCommand_def)
  next
    assume b: "bs ! 2 = 0x02" "n = 5 + unat (bs ! 4)"
    then have "take (unat (bs ! 4)) (drop 5 ds) = take (unat (bs ! 4)) (drop 5 bs)"
      using tk by (simp add: take_drop_frame)
    with len nth shape b show ?thesis
      by (cases "downlinkChannelIdToSlot (bs ! 3)") (simp_all add: decodeModbusChannelCommand_def Let_def)
  qed
  with d show "decodeModbusChannelCommand (Some ds) = Inr (c, n)" by simp
qed

text \<open>
  The content length of a rule frame depends on its first bytes only, which are part of the
  frame it measures.
\<close>

lemma message_length: "\<not> 48 < (b :: u8) \<Longrightarrow> unat b \<le> 48"
  by (simp add: not_less word_le_nat_alt)

lemma ruleActionLength_framed:
  assumes "ruleActionLength k bs = Inr n" "length bs \<ge> 2 + n" "length ds \<ge> 2 + n"
    "\<And>i. i < 2 + n \<Longrightarrow> ds ! i = bs ! i"
  shows "ruleActionLength k ds = Inr n \<and> 2 \<le> n \<and> n \<le> 55"
  using assms by (auto simp: ruleActionLength_def message_length split: if_splits)

lemma ruleContentLength_framed:
  assumes "ruleContentLength t bs = Inr (s, n)" "length bs \<ge> 2 + n" "length ds \<ge> 2 + n"
    "4 \<le> length bs" "\<And>i. i < 2 + n \<Longrightarrow> ds ! i = bs ! i"
  shows "ruleContentLength t ds = Inr (s, n) \<and> 2 \<le> n \<and> n \<le> 55"
proof -
  consider "t = 0x11" | "t = 0x12" | "t = 0x13 \<or> t = 0x14" | "t = 0x15" | "t = 0x16"
    | (action) "t \<notin> {0x11, 0x12, 0x13, 0x14, 0x15, 0x16}" by blast
  then show ?thesis
  proof cases
    case 1
    with assms show ?thesis by (simp add: ruleContentLength_def split: if_splits)
  next
    case 2
    with assms show ?thesis by (simp add: ruleContentLength_def split: if_splits)
  next
    case 3
    then have eq: "ruleContentLength t xs = (if length xs < 5 then Inl DecodeTruncated
         else if xs ! 4 < 2 \<or> xs ! 4 > 48 then Inl DecodeInvalid
         else if length xs < 2 + (3 + unat (xs ! 4)) then Inl DecodeTruncated
         else Inr (SlotCondition, 3 + unat (xs ! 4)))" for xs
      by (elim disjE) (simp_all only: ruleContentLength_def, simp_all)
    from assms(1) have n: "s = SlotCondition" "n = 3 + unat (bs ! 4)" and b: "\<not> bs ! 4 < 2" "\<not> 48 < bs ! 4"
      by (simp_all add: eq split: if_splits)
    have "ds ! 4 = bs ! 4" by (rule assms(5)) (simp add: n)
    then show ?thesis
      using n b assms(3) message_length [OF b(2)] by (simp add: eq)
  next
    case 4
    with assms show ?thesis by (simp add: ruleContentLength_def)
  next
    case 5
    with assms show ?thesis by (simp add: ruleContentLength_def)
  next
    case action
    define slot where "slot = (if t AND 0xf0 = 0x90 then Some SlotAction1
      else if t AND 0xf0 = 0xa0 then Some SlotAction2
      else if t AND 0xf0 = 0xb0 then Some SlotAction3 else None)"
    have eq: "ruleContentLength t xs = (case slot of None \<Rightarrow> Inl DecodeUnsupported
       | Some s \<Rightarrow> (case ruleActionLength (t AND 0x0f) xs of Inl e \<Rightarrow> Inl e
         | Inr n \<Rightarrow> if length xs < 2 + n then Inl DecodeTruncated else Inr (s, n)))" for xs
      using action by (simp add: ruleContentLength_def slot_def Let_def)
    from assms(1) have "slot = Some s" and "ruleActionLength (t AND 0x0f) bs = Inr n"
      by (auto simp: eq split: option.splits sum.splits if_splits)
    with ruleActionLength_framed [of "t AND 0x0f" bs n ds] assms show ?thesis
      by (simp add: eq)
  qed
qed

lemma ruleConfiguration_shape:
  assumes "decodeRuleConfigurationCommand (Some bs) = Inr (c, n)"
  obtains k where "bs ! 0 = kModbusChannel" "bs ! 1 = kRuleConfigurationType" "4 \<le> length bs"
    "ruleContentLength (bs ! 3) bs = Inr (rc_slot c, k)" "n = 2 + k" "n \<le> length bs"
    "bs ! 2 AND 0x7f \<noteq> 0" "bs ! 2 AND 0x7f \<le> 16" "k \<noteq> 0" "k \<le> 55"
    "c = \<lparr>rc_ruleId = bs ! 2 AND 0x7f, rc_enabled = (bs ! 2 AND 0x80 \<noteq> 0), rc_slot = rc_slot c,
      rc_subtype = bs ! 3, rc_frame = take n bs\<rparr>"
  using assms that
  by (auto simp: decodeRuleConfigurationCommand_def Let_def not_less not_le
      split: if_splits sum.splits prod.splits)

interpretation ruleConfiguration: command_decoder decodeRuleConfigurationCommand
proof (rule command_decoderI)
  show "\<exists>e. decodeRuleConfigurationCommand None = Inl e"
    by (simp add: decodeRuleConfigurationCommand_def)
next
  fix bs c n assume d: "decodeRuleConfigurationCommand (Some bs) = Inr (c, n)"
  then obtain k where k: "bs ! 0 = kModbusChannel" "bs ! 1 = kRuleConfigurationType" "4 \<le> length bs"
    "ruleContentLength (bs ! 3) bs = Inr (rc_slot c, k)" "n = 2 + k" "n \<le> length bs"
    by (rule ruleConfiguration_shape)
  with ruleContentLength_framed [OF k(4) _ _ k(3), of bs]
  show "3 \<le> n \<and> n \<le> length bs \<and> isVerifiedCommandPrefix (bs ! 0, bs ! 1)"
    by (simp add: isVerifiedCommandPrefix_def)
next
  fix bs ds :: bytes and c n
  assume d: "decodeRuleConfigurationCommand (Some bs) = Inr (c, n)" and len: "n \<le> length ds"
    and tk: "take n ds = take n bs" and nth: "\<And>i. i < n \<Longrightarrow> ds ! i = bs ! i"
  from d obtain k where k: "bs ! 0 = kModbusChannel" "bs ! 1 = kRuleConfigurationType" "4 \<le> length bs"
    "ruleContentLength (bs ! 3) bs = Inr (rc_slot c, k)" "n = 2 + k" "n \<le> length bs"
    "bs ! 2 AND 0x7f \<noteq> 0" "bs ! 2 AND 0x7f \<le> 16" "k \<noteq> 0" "k \<le> 55"
    "c = \<lparr>rc_ruleId = bs ! 2 AND 0x7f, rc_enabled = (bs ! 2 AND 0x80 \<noteq> 0), rc_slot = rc_slot c,
      rc_subtype = bs ! 3, rc_frame = take n bs\<rparr>"
    by (rule ruleConfiguration_shape)
  have l: "ruleContentLength (bs ! 3) ds = Inr (rc_slot c, k)" "2 \<le> k"
    using ruleContentLength_framed [OF k(4) _ _ k(3), of ds] k(5,6) len nth by auto
  have "decodeRuleConfigurationCommand (Some ds) =
    Inr (\<lparr>rc_ruleId = bs ! 2 AND 0x7f, rc_enabled = (bs ! 2 AND 0x80 \<noteq> 0), rc_slot = rc_slot c,
      rc_subtype = bs ! 3, rc_frame = take n ds\<rparr>, n)"
    using k l len nth
    by (simp add: decodeRuleConfigurationCommand_def Let_def not_less [symmetric])
  then show "decodeRuleConfigurationCommand (Some ds) = Inr (c, n)" using k(11) tk by simp
qed

section \<open>What the commands carry\<close>

lemma slot_bound: "downlinkChannelIdToSlot i = Some s \<Longrightarrow> unat s < 32 \<and> slotToDownlinkChannelId s = i"
proof -
  assume a: "downlinkChannelIdToSlot i = Some s"
  then have i: "i \<noteq> 0" "unat i \<le> 32" and s: "s = i - 1"
    by (auto simp: downlinkChannelIdToSlot_def split: if_splits)
  from i(1) have "unat (i - 1) = unat i - 1" by (simp add: unat_minus_one)
  moreover have "0 < unat i" using i(1) by (simp add: unat_gt_0)
  ultimately show ?thesis using i s by (simp add: slotToDownlinkChannelId_def)
qed

text \<open>
  A rule frame is self-contained: it is the consumed prefix of the payload, 4 to 57 bytes long,
  it names a rule from 1 to 16, and decoding the stored frame again, whatever follows it, gives
  the same command.
\<close>

theorem rule_frame_self_contained:
  assumes "decodeRuleConfigurationCommand (Some bs) = Inr (c, n)"
  shows "rc_frame c = take n bs \<and> 4 \<le> n \<and> n \<le> 57 \<and> n \<le> length bs \<and>
    1 \<le> unat (rc_ruleId c) \<and> unat (rc_ruleId c) \<le> 16 \<and>
    decodeRuleConfigurationCommand (Some (rc_frame c @ suffix)) = Inr (c, n)"
proof -
  from assms obtain k where k: "4 \<le> length bs" "ruleContentLength (bs ! 3) bs = Inr (rc_slot c, k)"
    "n = 2 + k" "n \<le> length bs" "bs ! 2 AND 0x7f \<noteq> 0" "bs ! 2 AND 0x7f \<le> 16" "k \<le> 55"
    "c = \<lparr>rc_ruleId = bs ! 2 AND 0x7f, rc_enabled = (bs ! 2 AND 0x80 \<noteq> 0), rc_slot = rc_slot c,
      rc_subtype = bs ! 3, rc_frame = take n bs\<rparr>"
    by (rule ruleConfiguration_shape)
  have id: "rc_ruleId c = bs ! 2 AND 0x7f" "rc_frame c = take n bs" using k(8) by (metis RuleConfigurationCommand.select_convs)+
  moreover have "2 \<le> k" using ruleContentLength_framed [OF k(2) _ _ k(1), of bs] k(3,4) by simp
  moreover have "1 \<le> unat (rc_ruleId c)"
    using k(5) id(1) by (metis One_nat_def Suc_leI neq0_conv unat_eq_zero)
  moreover have "unat (rc_ruleId c) \<le> 16" using k(6) id(1) by (simp add: word_le_nat_alt)
  moreover have "decodeRuleConfigurationCommand (Some (take n bs @ suffix)) = Inr (c, n)"
    by (rule ruleConfiguration.extended, rule ruleConfiguration.exact, rule assms)
  ultimately show ?thesis using k(3,4,7) by simp
qed

lemma rule_frame_self_contained_witness:
  "decodeRuleConfigurationCommand (Some ([0xf9, 0x7d, 0x81, 0x90] @ [1, 2, 3])) =
     Inr (\<lparr>rc_ruleId = 1, rc_enabled = True, rc_slot = SlotAction1, rc_subtype = 0x90,
       rc_frame = [0xf9, 0x7d, 0x81, 0x90]\<rparr>, 4)"
proof -
  have "decodeRuleConfigurationCommand (Some [0xf9, 0x7d, 0x81, 0x90]) =
     Inr (\<lparr>rc_ruleId = 1, rc_enabled = True, rc_slot = SlotAction1, rc_subtype = 0x90,
       rc_frame = [0xf9, 0x7d, 0x81, 0x90]\<rparr>, 4)"
    by (simp add: decodeRuleConfigurationCommand_def ruleContentLength_def ruleActionLength_def)
  from rule_frame_self_contained [OF this, of "[1, 2, 3]"] show ?thesis by simp
qed

lemma settings_eta:
  "\<lparr>rs_baudRate = rs_baudRate s, rs_dataBits = rs_dataBits s, rs_stopBits = rs_stopBits s,
     rs_parity = rs_parity s\<rparr> = (s :: Rs485SerialSettings)"
  "\<lparr>ms_executionIntervalMs = ms_executionIntervalMs m, ms_maxResponseTimeMs = ms_maxResponseTimeMs m,
     ms_maxRetryTimes = ms_maxRetryTimes m, ms_passThroughMode = ms_passThroughMode m,
     ms_passThroughPort = ms_passThroughPort m\<rparr> = (m :: ModbusMasterSettings)"
  by simp_all

text \<open>
  What the gateway reports about its settings, it accepts as a command: the settings embedded
  in an enquiry reply decode to the very settings they were encoded from.
\<close>

theorem settings_reply_roundtrip:
  assumes "encodeRs485SettingsEnquiryReply kind serial master out = Inr reply"
  shows "length reply = 13 \<and>
    (case kind of
       EnquirySerial \<Rightarrow> decodeRs485SettingsCommand (Some (drop 4 reply)) = Inr (serial, 9)
     | EnquiryModbus \<Rightarrow> decodeModbusMasterSettingsCommand (Some (drop 4 reply)) = Inr (master, 9))"
  using assms
  by (cases kind)
     (auto simp: encodeRs485SettingsEnquiryReply_def Let_def le_bytes_list
       decodeRs485SettingsCommand_def decodeModbusMasterSettingsCommand_def settings_eta
       split: option.splits if_splits)

lemma settings_reply_roundtrip_witness:
  "decodeRs485SettingsCommand (Some [0xf9, 0x78, 0x80, 0x25, 0, 0, 8, 1, 0]) = Inr (default_rs485, 9)"
proof -
  have "encodeRs485SettingsEnquiryReply EnquirySerial default_rs485 default_master (Some 51) =
      Inr [0xf8, 0x7a, 0, 0, 0xf9, 0x78, 0x80, 0x25, 0, 0, 8, 1, 0]"
    by (simp add: encodeRs485SettingsEnquiryReply_def default_rs485_def validRs485SerialSettings_def
        validRs485BaudRate_def le_bytes_def byte_of_def upt_rec)
  from settings_reply_roundtrip [OF this] show ?thesis by simp
qed

text \<open>
  A decoded channel command is safe to apply: its slot is one of the 32, an upsert carries a
  valid channel, and a name fits its array and is terminated.
\<close>

theorem channel_command_valid:
  assumes "decodeModbusChannelCommand (Some bs) = Inr (c, n)"
  shows "unat (ch_slot (mc_channel c)) < 32 \<and>
    slotToDownlinkChannelId (ch_slot (mc_channel c)) = bs ! 3 \<and>
    (mc_operation c = OpUpsert \<longrightarrow> validChannelConfig (mc_channel c)) \<and>
    length (ch_name (mc_channel c)) = 17 \<and> last (ch_name (mc_channel c)) = 0"
proof -
  have name: "setChannelName (default_channel\<lparr>ch_slot := s\<rparr>) nm = Some ch \<Longrightarrow> ch_slot ch = s"
    for s and nm :: "bytes ptr" and ch :: ChannelConfig
    by (auto simp: setChannelName_def split: option.splits if_splits)
  show ?thesis
    using assms
    by (auto simp: decodeModbusChannelCommand_def Let_def name
        dest: slot_bound setChannelName_terminated split: if_splits option.splits)
       (simp_all add: default_channel_def)
qed

lemma channel_command_valid_witness:
  "unat (ch_slot (mc_channel \<lparr>mc_operation = OpRemove, mc_channel = default_channel\<lparr>ch_slot := 4\<rparr>\<rparr>)) < 32"
proof -
  have "decodeModbusChannelCommand (Some [0xff, 0xef, 0, 5]) =
      Inr (\<lparr>mc_operation = OpRemove, mc_channel = default_channel\<lparr>ch_slot := 4\<rparr>\<rparr>, 4)"
    by (simp add: decodeModbusChannelCommand_def downlinkChannelIdToSlot_def)
  from channel_command_valid [OF this] show ?thesis by simp
qed

section \<open>Uplink values\<close>

lemma uplink_code_bounded: "uplink_code t AND 0x1F = uplink_code t"
  by (cases t) simp_all

lemma uplink_code_inject: "uplink_code t = uplink_code u \<longleftrightarrow> t = u"
  by (cases t; cases u) simp_all

definition value_flags :: "PeriodicValue \<Rightarrow> u8" where
  "value_flags v = (if pv_signed v then 0x80 else 0) OR
     (if pv_registerIndex v = 1 then 0x20 else 0) OR (uplink_code (pv_dataType v) AND 0x1F)"

lemma value_flags_parts:
  "value_flags v AND 0x1F = uplink_code (pv_dataType v)"
  "(value_flags v AND 0x80 \<noteq> 0) = pv_signed v"
  "(value_flags v AND 0x20 \<noteq> 0) = (pv_registerIndex v = 1)"
  by (cases "pv_dataType v"; cases "pv_signed v"; cases "pv_registerIndex v = 1"; simp add: value_flags_def)+

text \<open>
  The network server can tell uplink values apart: two values with the same frame agree in
  slot, type, sign, register and data; and a frame is always four bytes plus its type's width.
\<close>

theorem periodic_value_injective:
  assumes "encodePeriodicValue v out = Inr frame" "encodePeriodicValue w out' = Inr frame"
  shows "v = w \<and> length frame = 4 + uplinkValueWidth (pv_dataType v)"
proof -
  have shape: "\<exists>data. pv_data v = Some data \<and> length data = uplinkValueWidth (pv_dataType v) \<and>
      (pv_registerIndex v = 0 \<or> pv_registerIndex v = 1) \<and>
      frame = [kModbusChannel, kModbusChannelDataType, pv_slot v, value_flags v] @ data"
    if "encodePeriodicValue v out = Inr frame" for v out
  proof -
    have "unat (pv_registerIndex v) \<le> 1 \<Longrightarrow> pv_registerIndex v = 0 \<or> pv_registerIndex v = 1"
      by (metis One_nat_def le_Suc_eq le_zero_eq unat_1 unat_eq_zero word_unat_eq_iff)
    with that show ?thesis
      by (auto simp: encodePeriodicValue_def Let_def value_flags_def not_less word_le_nat_alt
          split: option.splits if_splits)
  qed
  from shape [OF assms(1)] shape [OF assms(2)]
  have "pv_slot v = pv_slot w" "pv_data v = pv_data w" and f: "value_flags v = value_flags w"
    and r: "pv_registerIndex v = 0 \<or> pv_registerIndex v = 1" "pv_registerIndex w = 0 \<or> pv_registerIndex w = 1"
    by auto
  moreover from f have "pv_dataType v = pv_dataType w" "pv_signed v = pv_signed w"
    using value_flags_parts(1,2) [of v] value_flags_parts(1,2) [of w] uplink_code_inject by metis+
  moreover have "pv_registerIndex v = pv_registerIndex w"
    using f r value_flags_parts(3) [of v] value_flags_parts(3) [of w] by (metis zero_neq_one)
  moreover have "length frame = 4 + uplinkValueWidth (pv_dataType v)"
    using shape [OF assms(1)] by auto
  ultimately show ?thesis by simp
qed

lemma periodic_value_injective_witness:
  "length [0xf9, 0x73, 3, 0x02, 0x12, 0x34 :: u8] = 4 + uplinkValueWidth UInput16"
proof -
  have "encodePeriodicValue \<lparr>pv_slot = 3, pv_dataType = UInput16, pv_signed = False,
      pv_registerIndex = 0, pv_data = Some [0x12, 0x34]\<rparr> (Some 12) = Inr [0xf9, 0x73, 3, 0x02, 0x12, 0x34]"
    by (simp add: encodePeriodicValue_def)
  from periodic_value_injective [OF this this] show ?thesis by simp
qed

end
