(* ===== verification/FPort85Uplink.thy ===== *)
theory FPort85Uplink
  imports FPort85Codec ModbusRtuCodec
begin

text \<open>
  The uplink payloads: \<^verbatim>\<open>include/lorawan/FPort85ModbusUplink.h\<close> (poll results),
  \<^verbatim>\<open>FPort85Alarm.h\<close>, \<^verbatim>\<open>FPort85BasicInfo.h\<close> and the record encoder of
  \<^verbatim>\<open>FPort85History.h\<close>. Each encoder returns the bytes written or its status.
\<close>

section \<open>Poll results\<close>

definition encodeScalarBytes :: "ChannelConfig \<Rightarrow> DecodedScalar \<Rightarrow> nat ptr \<Rightarrow> encoded" where
  "encodeScalarBytes channel scalar out =
     (case out of None \<Rightarrow> Inl EncodeInvalid
      | Some capacity \<Rightarrow>
          if \<not> validChannelConfig channel then Inl EncodeInvalid
          else
            let type = ch_dataType channel; width = uplinkValueWidth (uplinkDataType type)
            in if width = 0 then Inl EncodeInvalid
               else if capacity < width then Inl EncodeBufferTooSmall
               else if isBooleanType type then
                 (if sc_kind scalar \<noteq> KBoolean \<or> width \<noteq> 1 then Inl EncodeInvalid
                  else Inr [if sc_boolean scalar then 1 else 0])
               else if isFloatingPointType type then
                 (if sc_kind scalar \<noteq> KFloatingPoint then Inl EncodeInvalid
                  else if width = 4 then Inr (le_bytes 4 (f32_of_f64 (sc_floating scalar)))
                  else if width = 8 then Inr (le_bytes 8 (sc_floating scalar))
                  else Inl EncodeInvalid)
               else if uplinkSigned channel then
                 (if sc_kind scalar \<noteq> KSignedInteger then Inl EncodeInvalid
                  else Inr (le_bytes width (sc_signed scalar)))
               else
                 (if sc_kind scalar \<noteq> KUnsignedInteger then Inl EncodeInvalid
                  else Inr (le_bytes width (sc_unsigned scalar))))"

text \<open>The loop over the values, from \<open>index\<close>, with the room left in the output.\<close>

fun encodeValueFrames ::
    "ChannelConfig \<Rightarrow> DecodedScalar list \<Rightarrow> nat \<Rightarrow> nat \<Rightarrow> nat \<Rightarrow> encoded" where
  "encodeValueFrames channel values index 0 room = Inr []"
| "encodeValueFrames channel values index (Suc remaining) room =
     (case encodeScalarBytes channel (values ! index) (Some 8) of
        Inl e \<Rightarrow> Inl e
      | Inr data \<Rightarrow> (case encodeChannelValue channel (of_nat index) (Some data) (Some room) of
          Inl e \<Rightarrow> Inl e
        | Inr frame \<Rightarrow> map_sum id ((@) frame)
            (encodeValueFrames channel values (Suc index) remaining (room - length frame))))"

definition encodePollSuccess ::
    "ChannelConfig \<Rightarrow> DecodedScalar list ptr \<Rightarrow> u8 \<Rightarrow> nat ptr \<Rightarrow> encoded" where
  "encodePollSuccess channel values valueCount out =
     (case (values, out) of
        (Some vs, Some capacity) \<Rightarrow>
          if \<not> validChannelConfig channel \<or> valueCount \<noteq> ch_quantity channel \<or>
             valueCount = 0 \<or> valueCount > 2 then Inl EncodeInvalid
          else encodeValueFrames channel vs 0 (unat valueCount) capacity
      | _ \<Rightarrow> Inl EncodeInvalid)"

definition encodePollFailure :: "ChannelConfig \<Rightarrow> nat ptr \<Rightarrow> encoded" where
  "encodePollFailure channel out =
     (if \<not> validChannelConfig channel then Inl EncodeInvalid
      else encodeCollectionException (ch_slot channel) out)"

section \<open>Alarms\<close>

datatype AlarmKind = AlarmThreshold | AlarmThresholdRelease | AlarmChange

fun alarm_code :: "AlarmKind \<Rightarrow> u8" where
  "alarm_code AlarmThreshold = 0x01"
| "alarm_code AlarmThresholdRelease = 0x02"
| "alarm_code AlarmChange = 0x03"

definition encodeAlarm ::
    "ChannelConfig \<Rightarrow> u8 \<Rightarrow> DecodedScalar \<Rightarrow> AlarmKind \<Rightarrow> u64 \<Rightarrow> nat ptr \<Rightarrow> encoded" where
  "encodeAlarm channel registerIndex value kind changeValue out =
     (case out of None \<Rightarrow> Inl EncodeInvalid
      | Some capacity \<Rightarrow>
          if \<not> validChannelConfig channel \<or> unat (ch_slot channel) \<ge> kCompatibilitySlotCount \<or>
             registerIndex \<ge> ch_quantity channel \<or> isBooleanType (ch_dataType channel)
          then Inl EncodeInvalid
          else case encodeScalarBytes channel value (Some 8) of
            Inl e \<Rightarrow> Inl e
          | Inr scalar \<Rightarrow>
              let baseLength = 4 + length scalar;
                  totalLength = (if kind = AlarmChange then baseLength + 11 else baseLength);
                  base = [kModbusChannel, kModbusChannelDataType,
                    push_bit 6 (alarm_code kind) OR (ch_slot channel AND 0x3f),
                    (if uplinkSigned channel then 0x80 else 0x00) OR
                    (if registerIndex = 1 then 0x20 else 0x00) OR
                    (uplink_code (uplinkDataType (ch_dataType channel)) AND 0x1f)] @ scalar
              in if capacity < totalLength then Inl EncodeBufferTooSmall
                 else if kind \<noteq> AlarmChange then Inr base
                 else Inr (base @ [kModbusChannel, 0x74,
                   (if registerIndex = 1 then 0x40 else 0x00) OR (ch_slot channel AND 0x3f)] @
                   le_bytes 8 changeValue))"

section \<open>Basic information\<close>

record BasicInfo =
  bi_serialNumber :: bytes
  bi_protocolVersion :: u8
  bi_tslMajor :: u8
  bi_tslMinor :: u8
  bi_hardwareMajor :: u8
  bi_hardwareMinor :: u8
  bi_softwareMajor :: u8
  bi_softwareMinor :: u8
  bi_deviceType :: u8

definition default_basicInfo :: BasicInfo where
  "default_basicInfo = \<lparr>bi_serialNumber = replicate 8 0, bi_protocolVersion = 0x01,
     bi_tslMajor = 0x01, bi_tslMinor = 0x00, bi_hardwareMajor = 0x04, bi_hardwareMinor = 0x20,
     bi_softwareMajor = 0x00, bi_softwareMinor = 0x00, bi_deviceType = 0x02\<rparr>"

definition encodeBasicInfo :: "BasicInfo \<Rightarrow> bool \<Rightarrow> nat ptr \<Rightarrow> encoded" where
  "encodeBasicInfo info includeResetEvent out =
     (let required = (if includeResetEvent then 34 else 31)
      in case out of None \<Rightarrow> Inl EncodeInvalid
         | Some capacity \<Rightarrow>
             if capacity < required then Inl EncodeBufferTooSmall
             else if bi_deviceType info > 0x03 then Inl EncodeInvalid
             else
               let bytes = [0xff, 0x0b, 0xff] @ [0xff, 0x01, bi_protocolVersion info] @
                     [0xff, 0xff, bi_tslMajor info, bi_tslMinor info] @
                     [0xff, 0x16] @ bi_serialNumber info @
                     [0xff, 0x09, bi_hardwareMajor info, bi_hardwareMinor info] @
                     [0xff, 0x0a, bi_softwareMajor info, bi_softwareMinor info] @
                     [0xff, 0x0f, bi_deviceType info] @
                     (if includeResetEvent then [0xff, 0xfe, 0xff] else [])
               in if length bytes = required then Inr bytes else Inl EncodeInvalid)"

section \<open>Historical records\<close>

definition kHistoricalModbusRecordLength :: nat where "kHistoricalModbusRecordLength = 25"

definition historyControl :: "ChannelConfig \<Rightarrow> bool \<Rightarrow> u16" where
  "historyControl channel success =
     (if uplinkSigned channel then 0x8000 else 0) OR
     push_bit 9 (ucast (ch_dataType channel) AND 0x3f) OR
     (if success then 0x0100 else 0) OR
     push_bit 6 (ucast (ch_quantity channel AND 0x03))"

text \<open>The value area: eight bytes per value, each filled from the start, zero elsewhere.\<close>

fun encodeHistoryValues ::
    "ChannelConfig \<Rightarrow> DecodedScalar list \<Rightarrow> nat \<Rightarrow> nat \<Rightarrow> encoded" where
  "encodeHistoryValues channel values index 0 = Inr []"
| "encodeHistoryValues channel values index (Suc remaining) =
     (case encodeScalarBytes channel (values ! index) (Some 8) of
        Inl e \<Rightarrow> Inl e
      | Inr data \<Rightarrow> map_sum id ((@) (data @ replicate (8 - length data) 0))
          (encodeHistoryValues channel values (Suc index) remaining))"

definition encodeModbusRecord ::
    "u32 \<Rightarrow> ChannelConfig \<Rightarrow> bool \<Rightarrow> DecodedScalar list ptr \<Rightarrow> u8 \<Rightarrow> nat ptr \<Rightarrow> encoded" where
  "encodeModbusRecord unixTimestamp channel success values valueCount out =
     (if out = None \<or> \<not> validChannelConfig channel then Inl EncodeInvalid
      else if no_room out kHistoricalModbusRecordLength then Inl EncodeBufferTooSmall
      else if success \<and>
        (values = None \<or> valueCount \<noteq> ch_quantity channel \<or> valueCount = 0 \<or> valueCount > 2)
      then Inl EncodeInvalid
      else if \<not> success \<and> valueCount \<noteq> 0 then Inl EncodeInvalid
      else
        let control = historyControl channel success;
            header = [0x21, 0xce] @ le_bytes 4 unixTimestamp @
              [ch_slot channel, byte_of 0 control, byte_of 1 control]
        in map_sum id (\<lambda>body. header @ body @ replicate (16 - length body) 0)
             (if success then encodeHistoryValues channel (the values) 0 (unat valueCount)
              else Inr []))"

definition record_timestamp :: "bytes \<Rightarrow> u32" where
  "record_timestamp payload = le32 (payload ! 2) (payload ! 3) (payload ! 4) (payload ! 5)"

end
