(* ===== verification/FPort85UplinkProperties.thy ===== *)
theory FPort85UplinkProperties
  imports FPort85Uplink FPort85Commands ModbusRtuProperties
begin

text \<open>
  What arrives at the network server: whatever the bus delivers can be reported, in full and
  without loss, and alarms and historical records have the layout their readers expect.
\<close>

section \<open>Sign extension\<close>

lemma be_value_snoc: "be_value (bs @ [b]) = push_bit 8 (be_value bs) OR ucast b"
  by (simp add: be_value_def)

lemma be_value_take: "take_bit (8 * length bs) (be_value bs) = be_value bs"
proof (induction bs rule: rev_induct)
  case Nil
  show ?case by (simp add: be_value_def)
next
  case (snoc b bs)
  show ?case
  proof (rule bit_word_eqI)
    fix n assume "n < LENGTH(64)"
    have "bit (be_value bs) (n - 8) \<Longrightarrow> n - 8 < 8 * length bs"
      by (metis bit_take_bit_iff snoc.IH)
    moreover have "bit (ucast b :: u64) n \<Longrightarrow> n < 8"
      by (auto simp: bit_simps dest: bit_imp_le_length)
    ultimately show "bit (take_bit (8 * length (bs @ [b])) (be_value (bs @ [b]))) n = bit (be_value (bs @ [b])) n"
      by (auto simp: be_value_snoc bit_simps)
  qed
qed

lemma take_bit_wider: "take_bit b x = (x :: u64) \<Longrightarrow> b \<le> B \<Longrightarrow> take_bit B x = x"
  by (metis min.absorb2 take_bit_take_bit)

definition sign_extend64 :: "nat \<Rightarrow> u64 \<Rightarrow> u64" where
  "sign_extend64 b x = (if \<not> bit x (b - 1) then x else x OR push_bit b (- 1))"

lemma bit_sign_extend64:
  assumes "take_bit b x = x" "0 < b" "b \<le> 64" "k < 64"
  shows "bit (sign_extend64 b x) k = bit x (min k (b - 1))"
proof -
  have short: "bit x j \<Longrightarrow> j < b" for j using assms(1) by (metis bit_take_bit_iff)
  show ?thesis
  proof (cases "k < b")
    case True
    with assms(2-4) show ?thesis by (auto simp: sign_extend64_def bit_simps min_def)
  next
    case False
    with short [of k] assms(2-4) show ?thesis
      by (auto simp: sign_extend64_def bit_simps min_def)
  qed
qed

lemma sign_extend64_take:
  assumes "take_bit b x = x" "0 < b" "b \<le> B" "B < 64"
  shows "sign_extend64 B (take_bit B (sign_extend64 b x)) = sign_extend64 b x"
proof (rule bit_word_eqI)
  fix k assume k: "k < LENGTH(64)"
  let ?s = "sign_extend64 b x"
  have "bit (sign_extend64 B (take_bit B ?s)) k = bit (take_bit B ?s) (min k (B - 1))"
    using k assms by (intro bit_sign_extend64) simp_all
  also have "\<dots> = bit ?s (min k (B - 1))" using assms by (simp add: bit_simps) linarith
  also have "\<dots> = bit x (min (min k (B - 1)) (b - 1))"
    using k assms by (intro bit_sign_extend64) simp_all
  also have "min (min k (B - 1)) (b - 1) = min k (b - 1)" using assms by simp
  also have "bit x (min k (b - 1)) = bit ?s k"
    using k assms by (intro bit_sign_extend64 [symmetric]) simp_all
  finally show "bit (sign_extend64 B (take_bit B ?s)) k = bit ?s k" .
qed

lemma setInteger_extend:
  "setInteger c x b =
     (if ch_signed c then default_scalar\<lparr>sc_kind := KSignedInteger,
        sc_signed := (if 64 \<le> b then x else sign_extend64 b x)\<rparr>
      else default_scalar\<lparr>sc_kind := KUnsignedInteger, sc_unsigned := x\<rparr>)"
  by (simp add: setInteger_def sign_extend64_def)

section \<open>Every polled value can be reported\<close>

definition polled_kind :: "ChannelConfig \<Rightarrow> ScalarKind" where
  "polled_kind c = (if isBooleanType (ch_dataType c) then KBoolean
     else if isFloatingPointType (ch_dataType c) then KFloatingPoint
     else if ch_signed c then KSignedInteger else KUnsignedInteger)"

lemma special_not_float:
  "\<not> isFloatingPointType 0x08" "\<not> isFloatingPointType 0x09"
  "\<not> isFloatingPointType 0x14" "\<not> isFloatingPointType 0x15"
  by (simp_all add: isFloatingPointType_def)

lemma decoded_kind:
  assumes "decodeRegisterValue c raw = Some v" "\<not> isBooleanType (ch_dataType c)"
  shows "sc_kind v = polled_kind c"
  using assms
  by (auto simp: decodeRegisterValue_def Let_def polled_kind_def setInteger_def default_scalar_def
      special_not_float split: if_splits option.splits)

lemma decodeRegisters_kind:
  "decodeRegisters c w n data = Some vs \<Longrightarrow> \<not> isBooleanType (ch_dataType c) \<Longrightarrow>
     length vs = n \<and> (\<forall>v \<in> set vs. sc_kind v = polled_kind c)"
  by (induction n arbitrary: data vs) (fastforce split: option.splits dest: decoded_kind)+

lemma polled_kinds:
  assumes "decodeReadResponse c (Some frame) = Inr vs"
  shows "validChannelConfig c \<and> length vs = unat (ch_quantity c) \<and>
    (\<forall>v \<in> set vs. sc_kind v = polled_kind c)"
  using assms
  by (auto simp: decodeReadResponse_def Let_def decodeBooleans_def polled_kind_def default_scalar_def
      dest!: decodeRegisters_kind split: if_splits option.splits)

definition uplink_width :: "ChannelConfig \<Rightarrow> nat" where
  "uplink_width c = uplinkValueWidth (uplinkDataType (ch_dataType c))"

lemma uplink_width_wire:
  "uplinkValueWidth (uplinkDataType (wire_code t)) =
     (if isBooleanType (wire_code t) then 1
      else if t \<in> {Input32Upper16, Input32Lower16, Hold32Upper16, Hold32Lower16} then 4
      else 2 * unat (registersPerValue (wire_code t)))"
  by (cases t) (simp_all add: uplinkDataType_def registersPerValue_def isBooleanType_def)

lemma uplink_width_bounds:
  assumes "validChannelConfig c"
  shows "uplink_width c \<in> {1, 2, 4, 8}" "uplink_width c = 1 \<longleftrightarrow> isBooleanType (ch_dataType c)"
    "isFloatingPointType (ch_dataType c) \<Longrightarrow> uplink_width c = 4 \<or> uplink_width c = 8"
proof -
  obtain t where t: "ch_dataType c = wire_code t" using assms by (rule validChannelConfigE)
  show "uplink_width c \<in> {1, 2, 4, 8}" "uplink_width c = 1 \<longleftrightarrow> isBooleanType (ch_dataType c)"
    "isFloatingPointType (ch_dataType c) \<Longrightarrow> uplink_width c = 4 \<or> uplink_width c = 8"
    unfolding uplink_width_def t
    by (cases t; simp add: uplinkDataType_def isBooleanType_def isFloatingPointType_def)+
qed

lemma encodeScalarBytes_ok:
  assumes "validChannelConfig c" "sc_kind v = polled_kind c"
  shows "\<exists>bs. encodeScalarBytes c v (Some 8) = Inr bs \<and> length bs = uplink_width c"
  using assms uplink_width_bounds [OF assms(1)]
  by (auto simp: encodeScalarBytes_def Let_def polled_kind_def uplinkSigned_def uplink_width_def
      split: if_splits)

lemma encodeChannelValue_ok:
  assumes "validChannelConfig c" "length data = uplink_width c" "i < 2" "4 + uplink_width c \<le> room"
  shows "\<exists>f. encodeChannelValue c (of_nat i) (Some data) (Some room) = Inr f \<and>
    length f = 4 + uplink_width c"
proof -
  have "(of_nat i :: u8) \<le> 1" using assms(3) by (auto simp: less_2_cases_iff)
  moreover have "unat (ch_slot c) < 32" using assms(1) by (simp add: validChannelConfig_def)
  ultimately show ?thesis
    using assms uplink_width_bounds(1) [OF assms(1)]
    by (auto simp: encodeChannelValue_def encodePeriodicValue_def Let_def uplink_width_def not_less)
qed

lemma encodeValueFrames_ok:
  assumes "validChannelConfig c" "\<forall>v \<in> set vs. sc_kind v = polled_kind c"
    "i + n \<le> length vs" "i + n \<le> 2" "n * (4 + uplink_width c) \<le> room"
  shows "\<exists>bs. encodeValueFrames c vs i n room = Inr bs \<and> length bs = n * (4 + uplink_width c)"
  using assms(3-5)
proof (induction n arbitrary: i room)
  case 0
  then show ?case by simp
next
  case (Suc n)
  have "sc_kind (vs ! i) = polled_kind c" using assms(2) Suc.prems(1) by (simp add: nth_mem)
  then obtain data where data: "encodeScalarBytes c (vs ! i) (Some 8) = Inr data"
    "length data = uplink_width c" using encodeScalarBytes_ok [OF assms(1)] by blast
  then obtain f where f: "encodeChannelValue c (of_nat i) (Some data) (Some room) = Inr f"
    "length f = 4 + uplink_width c"
    using encodeChannelValue_ok [OF assms(1) data(2), of i room] Suc.prems by auto
  obtain bs where "encodeValueFrames c vs (Suc i) n (room - length f) = Inr bs"
    "length bs = n * (4 + uplink_width c)"
    using Suc.IH [of "Suc i" "room - length f"] Suc.prems f(2) by (auto simp: le_diff_conv2)
  with data f show ?case by simp
qed

text \<open>
  Whatever the bus delivers can be reported: the values of an accepted read response encode
  into one uplink frame per value, within the 24 bytes the scheduler reserves for a channel.
\<close>

theorem poll_result_reportable:
  assumes "decodeReadResponse c (Some frame) = Inr vs"
  shows "\<exists>bs. encodePollSuccess c (Some vs) (of_nat (length vs)) (Some 24) = Inr bs \<and>
    length bs = length vs * (4 + uplink_width c) \<and> 1 \<le> length bs \<and> length bs \<le> 24"
proof -
  have k: "validChannelConfig c" "length vs = unat (ch_quantity c)"
    "\<forall>v \<in> set vs. sc_kind v = polled_kind c"
    using polled_kinds [OF assms] by auto
  from k(1) have q: "ch_quantity c = 1 \<or> ch_quantity c = 2" by (elim validChannelConfigE)
  have room: "length vs * (4 + uplink_width c) \<le> 24"
    using q k(2) uplink_width_bounds(1) [OF k(1)] by auto
  with encodeValueFrames_ok [OF k(1,3), of 0 "length vs" 24] k(2) q
  obtain bs where "encodeValueFrames c vs 0 (length vs) 24 = Inr bs"
    "length bs = length vs * (4 + uplink_width c)" by auto
  moreover have "(of_nat (length vs) :: u8) = ch_quantity c" using k(2) by simp
  ultimately show ?thesis using k q room by (auto simp: encodePollSuccess_def)
qed

lemma poll_result_reportable_witness:
  "\<exists>bs. encodePollSuccess sample_channel (Some (map (registerValue sample_channel) [sample_value, sample_value]))
     2 (Some 24) = Inr bs \<and> length bs \<le> 24"
  using poll_result_reportable [OF sample_answer] by auto

section \<open>Nothing is lost on the way\<close>

lemma f64_f32_f64: "f64_of_f32 (f32_of_f64 (f64_of_f32 w)) = f64_of_f32 w"
proof (cases "f32_signalling w")
  case False
  then show ?thesis by (simp add: f32_of_f64_of_f32)
next
  case True
  define n where "n = unat w"
  have n: "n div 2 ^ 23 mod 256 = 255" "0 < n mod 2 ^ 23" "n mod 2 ^ 23 < 2 ^ 22"
    using True by (simp_all add: f32_signalling_def n_def)
  have lt: "n < 2 ^ 32" using unat_bound [of w] by (simp add: n_def)
  have split: "n = (n div 2 ^ 23) * 2 ^ 23 + n mod 2 ^ 23" by simp
  have q: "(n + 2 ^ 22) div 2 ^ 23 = n div 2 ^ 23" "(n + 2 ^ 22) mod 2 ^ 23 = n mod 2 ^ 23 + 2 ^ 22"
    using div_mod_block [of "n mod 2 ^ 23 + 2 ^ 22" "2 ^ 23" "n div 2 ^ 23"] n(3) split by simp_all
  have e: "(2 :: nat) ^ 31 = 2 ^ 23 * 256" by simp
  have s: "(n + 2 ^ 22) div 2 ^ 31 = n div 2 ^ 31"
    by (simp only: e div_mult2_eq q(1))
  have "n div 2 ^ 23 < 512" using lt by (simp add: less_mult_imp_div_less)
  then have "n + 2 ^ 22 < 2 ^ 32"
    using q(1) div_less_iff_less_mult [of "2 ^ 23" "n + 2 ^ 22" 512] by simp
  then have u: "unat (w + 0x400000) = n + 2 ^ 22"
    by (simp add: n_def unat_word_ariths)
  have wide: "widen_mag 255 (f + 2 ^ 22) = widen_mag 255 f" if "0 < f" for f
    using that by (simp add: widen_mag_def)
  have eq: "f64_of_f32 (w + 0x400000) = f64_of_f32 w"
    unfolding f64_of_f32_def Let_def u
    by (simp only: n_def [symmetric] s q n(1) wide [OF n(2)])
  moreover have "\<not> f32_signalling (w + 0x400000)"
    unfolding f32_signalling_def u q by simp
  ultimately show ?thesis by (metis f32_of_f64_of_f32)
qed

lemma be_value_le_bytes: "be_value (rev (le_bytes n w)) = take_bit (8 * n) w"
  by (simp add: be_value_def be_value_foldl)

text \<open>How the network server reads the value bytes of an uplink frame.\<close>

definition uplink_value :: "ChannelConfig \<Rightarrow> bytes \<Rightarrow> DecodedScalar" where
  "uplink_value c bs =
     (if isBooleanType (ch_dataType c) then
        default_scalar\<lparr>sc_kind := KBoolean, sc_boolean := bs ! 0 \<noteq> 0\<rparr>
      else if isFloatingPointType (ch_dataType c) then
        default_scalar\<lparr>sc_kind := KFloatingPoint, sc_floating :=
          (if length bs = 4 then f64_of_f32 (le32 (bs ! 0) (bs ! 1) (bs ! 2) (bs ! 3))
           else be_value (rev bs))\<rparr>
      else setInteger c (be_value (rev bs)) (8 * length bs))"

lemma decodeRegisterValue_integer:
  assumes "validChannelConfig c" "decodeRegisterValue c raw = Some v"
    "\<not> isFloatingPointType (ch_dataType c)"
  shows "\<exists>x b. v = setInteger c x b \<and> take_bit b x = x \<and> 0 < b \<and> b \<le> 8 * uplink_width c"
proof -
  obtain t where t: "ch_dataType c = wire_code t" using assms(1) by (rule validChannelConfigE)
  show ?thesis
  proof (cases "t \<in> {Input32Upper16, Input32Lower16, Hold32Upper16, Hold32Lower16}")
    case True
    have half: "\<exists>x b. setInteger c (ucast s) 16 = setInteger c x b \<and> take_bit b x = x \<and> 0 < b \<and> b \<le> 32"
      for s :: u16
      by (rule exI [of _ "ucast s"], rule exI [of _ 16], simp, rule bit_word_eqI)
         (auto simp: bit_simps dest: bit_imp_le_length)
    with True assms(2) t show ?thesis
      by (auto simp: decodeRegisterValue_def Let_def uplink_width_def uplink_width_wire
          isBooleanType_def split: if_splits)
  next
    case False
    have no: "\<not> (wire_code t = 0x08 \<or> wire_code t = 0x09 \<or> wire_code t = 0x14 \<or> wire_code t = 0x15)"
      using False by (cases t) simp_all
    with assms(2,3) t obtain bs where bs: "orderedWidth (wire_code t) \<noteq> 0" "length raw = orderedWidth (wire_code t)"
      "orderBytes (wire_code t) raw (orderedWidth (wire_code t)) = Some bs"
      "v = setInteger c (be_value bs) (8 * orderedWidth (wire_code t))"
      by (auto simp: decodeRegisterValue_def Let_def split: if_splits option.splits)
    with orderBytes_involution [OF refl bs(1,2)] have len: "length bs = orderedWidth (wire_code t)"
      by auto
    have "\<not> isBooleanType (wire_code t)"
      using bs(1) by (cases t) (simp_all add: orderedWidth_def isBooleanType_def)
    then have w: "uplink_width c = orderedWidth (wire_code t)"
      using t False orderedWidth_registers [OF bs(1)] by (simp add: uplink_width_def uplink_width_wire)
    show ?thesis
      using bs(1,4) be_value_take [of bs] len w by (intro exI [of _ "be_value bs"] exI) auto
  qed
qed

lemma decodeRegisterValue_float:
  assumes "decodeRegisterValue c raw = Some v" "isFloatingPointType (ch_dataType c)"
    "validChannelConfig c"
  shows "v = default_scalar\<lparr>sc_kind := KFloatingPoint, sc_floating := sc_floating v\<rparr> \<and>
    (uplink_width c = 4 \<longrightarrow> (\<exists>w. sc_floating v = f64_of_f32 w))"
proof -
  obtain t where t: "ch_dataType c = wire_code t" using assms(3) by (rule validChannelConfigE)
  have "orderedWidth (wire_code t) = uplink_width c"
    using assms(2) t
    by (cases t) (simp_all add: orderedWidth_def isFloatingPointType_def uplink_width_def uplinkDataType_def)
  with assms t show ?thesis
    by (auto simp: decodeRegisterValue_def Let_def default_scalar_def special_not_float
        split: if_splits option.splits)
qed

text \<open>
  A polled register value survives the uplink: reading the bytes the gateway sends as the
  channel's uplink type (two's complement, IEEE) gives exactly the value decoded from the bus,
  also for the 16-bit halves that are sent widened to 32 bits, and for floats that went through
  double precision.
\<close>

theorem uplink_lossless:
  assumes "validChannelConfig c" "decodeRegisterValue c raw = Some v"
    "\<not> isBooleanType (ch_dataType c)"
  shows "\<exists>bs. encodeScalarBytes c v (Some 8) = Inr bs \<and> uplink_value c bs = v"
proof -
  note w = uplink_width_bounds [OF assms(1)]
  have kind: "sc_kind v = polled_kind c" using decoded_kind assms by blast
  show ?thesis
  proof (cases "isFloatingPointType (ch_dataType c)")
    case True
    note f = decodeRegisterValue_float [OF assms(2) True assms(1)]
    have "encodeScalarBytes c v (Some 8) = Inr (if uplink_width c = 4
        then le_bytes 4 (f32_of_f64 (sc_floating v)) else le_bytes 8 (sc_floating v))"
      using kind True assms(1,3) w
      by (auto simp: encodeScalarBytes_def Let_def polled_kind_def uplink_width_def split: if_splits)
    moreover have "take_bit 64 x = x" for x :: u64 by (rule bit_word_eqI) (simp add: bit_simps)
    moreover have "uplink_value c (if uplink_width c = 4 then le_bytes 4 (f32_of_f64 (sc_floating v))
        else le_bytes 8 (sc_floating v)) =
      default_scalar\<lparr>sc_kind := KFloatingPoint, sc_floating := sc_floating v\<rparr>"
      using True assms(3) f calculation(2)
      by (auto simp: uplink_value_def be_value_le_bytes f64_f32_f64)
    ultimately show ?thesis using f by auto
  next
    case False
    obtain x b where x: "v = setInteger c x b" "take_bit b x = x" "0 < b" "b \<le> 8 * uplink_width c"
      using decodeRegisterValue_integer [OF assms(1,2) False] by blast
    define r where "r = (if ch_signed c then sc_signed v else sc_unsigned v)"
    have enc: "encodeScalarBytes c v (Some 8) = Inr (le_bytes (uplink_width c) r)"
      using kind False assms(1,3) w
      by (auto simp: encodeScalarBytes_def Let_def polled_kind_def uplink_width_def uplinkSigned_def
          r_def split: if_splits)
    let ?B = "8 * uplink_width c"
    have full: "take_bit 64 y = y" for y :: u64 by (rule bit_word_eqI) (simp add: bit_simps)
    have "setInteger c (take_bit ?B r) ?B = v"
    proof (cases "ch_signed c")
      case True
      have r: "r = (if 64 \<le> b then x else sign_extend64 b x)"
        using True x(1) by (simp add: r_def setInteger_extend)
      show ?thesis
      proof (cases "?B = 64")
        case B: True
        then show ?thesis using True x(1) r full by (simp add: setInteger_extend)
      next
        case B: False
        with w(1) have "?B < 64" by auto
        with x(4) have "b < 64" by simp
        then show ?thesis
          using True x r \<open>?B < 64\<close> sign_extend64_take [OF x(2,3,4)] by (simp add: setInteger_extend)
      qed
    next
      case False
      from x(2,4) have "take_bit ?B x = x" by (rule take_bit_wider)
      then show ?thesis using False x(1) by (simp add: setInteger_extend r_def)
    qed
    then show ?thesis
      using enc assms(3) False by (simp add: uplink_value_def be_value_le_bytes)
  qed
qed

lemma uplink_lossless_witness:
  "\<exists>bs. encodeScalarBytes sample_channel (registerValue sample_channel sample_value) (Some 8) = Inr bs \<and>
     uplink_value sample_channel bs = registerValue sample_channel sample_value"
  using sample_valid decode_encode_register(1) [OF sample_valid sample_wire]
  by (rule uplink_lossless) (simp add: sample_channel_def isBooleanType_def)

section \<open>Historical records\<close>

lemma encodeHistoryValues_ok:
  assumes "validChannelConfig c" "\<forall>v \<in> set vs. sc_kind v = polled_kind c" "i + n \<le> length vs"
  shows "\<exists>bs. encodeHistoryValues c vs i n = Inr bs \<and> length bs = 8 * n"
  using assms(3)
proof (induction n arbitrary: i)
  case 0
  then show ?case by simp
next
  case (Suc n)
  have "sc_kind (vs ! i) = polled_kind c" using assms(2) Suc.prems by (simp add: nth_mem)
  then obtain data where "encodeScalarBytes c (vs ! i) (Some 8) = Inr data" "length data = uplink_width c"
    using encodeScalarBytes_ok [OF assms(1)] by blast
  moreover obtain bs where "encodeHistoryValues c vs (Suc i) n = Inr bs" "length bs = 8 * n"
    using Suc.IH [of "Suc i"] Suc.prems by auto
  ultimately show ?case using uplink_width_bounds(1) [OF assms(1)] by auto
qed

text \<open>A record as the history expects it: 25 bytes under the magic of a Modbus record.\<close>

definition history_record :: "bytes \<Rightarrow> bool" where
  "history_record r = (length r = kHistoricalModbusRecordLength \<and> r ! 0 = 0x21 \<and> r ! 1 = 0xce)"

lemma encodeModbusRecord_shape:
  assumes "encodeModbusRecord ts c success values n out = Inr r"
  shows "\<exists>body. r = [0x21, 0xce] @ le_bytes 4 ts @
    [ch_slot c, byte_of 0 (historyControl c success), byte_of 1 (historyControl c success)] @
    body @ replicate (16 - length body) 0"
  using assms
  by (cases "encodeHistoryValues c (the values) 0 (unat n)")
     (auto simp: encodeModbusRecord_def Let_def intro: exI [of _ "[]"] split: if_splits)

lemma historyControl_bits:
  assumes "validChannelConfig c"
  shows "bit (historyControl c success) 15 = uplinkSigned c"
    "bit (historyControl c success) 8 = success"
    "drop_bit 9 (historyControl c success) AND 0x3f = ucast (ch_dataType c)"
    "drop_bit 6 (historyControl c success) AND 0x03 = ucast (ch_quantity c)"
proof -
  obtain t where t: "ch_dataType c = wire_code t" "ch_quantity c = 1 \<or> ch_quantity c = 2"
    using assms by (rule validChannelConfigE)
  from t(2) show "bit (historyControl c success) 15 = uplinkSigned c"
    "bit (historyControl c success) 8 = success"
    "drop_bit 9 (historyControl c success) AND 0x3f = ucast (ch_dataType c)"
    "drop_bit 6 (historyControl c success) AND 0x03 = ucast (ch_quantity c)"
    unfolding t(1)
    by (cases t; cases "uplinkSigned c"; cases success; auto simp: historyControl_def t(1))+
qed

text \<open>
  Every outcome of a poll can be kept: a successful poll and a failed one both encode into a
  25-byte record under the record magic, from which time, slot, type, quantity, sign and outcome
  can be read back.
\<close>

theorem history_record_kept:
  assumes "validChannelConfig c" "kHistoricalModbusRecordLength \<le> capacity"
    and "if success then length vs = unat (ch_quantity c) \<and> (\<forall>v \<in> set vs. sc_kind v = polled_kind c)
      else vs = []"
  shows "\<exists>r. encodeModbusRecord ts c success (Some vs) (of_nat (length vs)) (Some capacity) = Inr r \<and>
    history_record r \<and> record_timestamp r = ts \<and> r ! 6 = ch_slot c \<and>
    (let control = le16 (r ! 7) (r ! 8)
     in bit control 15 = uplinkSigned c \<and> bit control 8 = success \<and>
        drop_bit 9 control AND 0x3f = ucast (ch_dataType c) \<and>
        drop_bit 6 control AND 0x03 = ucast (ch_quantity c))"
proof -
  have q: "ch_quantity c = 1 \<or> ch_quantity c = 2" using assms(1) by (rule validChannelConfigE)
  obtain body where body: "(if success then encodeHistoryValues c vs 0 (length vs) else Inr []) = Inr body"
    "length body \<le> 16"
    using assms(3) q encodeHistoryValues_ok [OF assms(1), of vs 0 "length vs"]
    by (cases success) auto
  have n: "success \<Longrightarrow> unat (of_nat (length vs) :: u8) = length vs"
    "success \<Longrightarrow> (of_nat (length vs) :: u8) = ch_quantity c"
    "\<not> success \<Longrightarrow> (of_nat (length vs) :: u8) = 0"
    using assms(3) by auto
  have "encodeModbusRecord ts c success (Some vs) (of_nat (length vs)) (Some capacity) =
      Inr ([0x21, 0xce] @ le_bytes 4 ts @
        [ch_slot c, byte_of 0 (historyControl c success), byte_of 1 (historyControl c success)] @
        body @ replicate (16 - length body) 0)"
    using assms(1,2) q n body(1)
    by (cases success) (auto simp: encodeModbusRecord_def Let_def)
  then show ?thesis
    using historyControl_bits [OF assms(1), of success] body(2)
    by (simp add: history_record_def record_timestamp_def le_bytes_list
        kHistoricalModbusRecordLength_def Let_def)
qed

lemma history_record_kept_witness:
  "\<exists>r. encodeModbusRecord 1700000000 sample_channel False (Some []) 0 (Some 25) = Inr r \<and>
     history_record r \<and> record_timestamp r = 1700000000"
  using history_record_kept [OF sample_valid, of 25 False "[]" 1700000000]
  by (auto simp: kHistoricalModbusRecordLength_def)

end
