(* ===== verification/History.thy ===== *)
theory History
  imports FPort85UplinkProperties Checksum
begin

text \<open>
  The history of poll results: the ring of \<^verbatim>\<open>include/lorawan/FPort85History.h\<close>, its
  flash image in \<^verbatim>\<open>include/history/HistoryImageCodec.h\<close> and the settings of
  \<^verbatim>\<open>HistorySettings.h\<close> and \<^verbatim>\<open>HistoryRetransmissionState.h\<close>. The template
  parameter \<^verbatim>\<open>Capacity\<close> is the argument \<open>cap\<close>; a record is its 25-byte payload.
\<close>

section \<open>The ring\<close>

record ring =
  hr_records :: "bytes list"
  hr_start :: nat
  hr_size :: nat

definition ring_empty :: "nat \<Rightarrow> ring" where
  "ring_empty cap = \<lparr>hr_records = replicate cap (replicate kHistoricalModbusRecordLength 0),
     hr_start = 0, hr_size = 0\<rparr>"

definition ring_clear :: "ring \<Rightarrow> ring" where
  "ring_clear r = r\<lparr>hr_start := 0, hr_size := 0\<rparr>"

definition ring_push :: "nat \<Rightarrow> bytes \<Rightarrow> ring \<Rightarrow> ring" where
  "ring_push cap rec r =
     (if hr_size r < cap
      then r\<lparr>hr_records := (hr_records r)[(hr_start r + hr_size r) mod cap := rec],
             hr_size := hr_size r + 1\<rparr>
      else r\<lparr>hr_records := (hr_records r)[hr_start r := rec],
             hr_start := (hr_start r + 1) mod cap\<rparr>)"

definition ring_oldest :: "nat \<Rightarrow> nat \<Rightarrow> ring \<Rightarrow> bytes option" where
  "ring_oldest cap index r =
     (if index \<ge> hr_size r then None else Some (hr_records r ! ((hr_start r + index) mod cap)))"

section \<open>The flash image\<close>

definition kPersistentHistoryCapacity :: nat where "kPersistentHistoryCapacity = 64"
definition kHeaderLength :: nat where "kHeaderLength = 12"

definition kImageLength :: "nat \<Rightarrow> nat" where
  "kImageLength cap = kHeaderLength + cap * kHistoricalModbusRecordLength + 4"

definition crc32_bit :: "u32 \<Rightarrow> u32" where
  "crc32_bit crc = drop_bit 1 crc XOR (0xedb88320 AND (- (crc AND 1)))"

definition crc32_byte :: "u32 \<Rightarrow> u8 \<Rightarrow> u32" where
  "crc32_byte crc b = (crc32_bit ^^ 8) (crc XOR ucast b)"

definition crc32 :: "bytes \<Rightarrow> u32" where
  "crc32 bs = NOT (foldl crc32_byte 0xffffffff bs)"

definition encodeImage :: "nat \<Rightarrow> ring \<Rightarrow> u32 \<Rightarrow> nat ptr \<Rightarrow> bytes option" where
  "encodeImage cap r generation out =
     (if no_room out (kImageLength cap) \<or> hr_size r > cap then None
      else
        let records = map (\<lambda>i. ring_oldest cap i r) [0..<hr_size r]
        in if None \<in> set records then None
           else
             let area = concat (map the records);
                 body = [0x4d, 0x42, 0x48, 1] @ le_bytes 4 generation @
                   le_bytes 2 (of_nat (hr_size r) :: u16) @ [0, 0] @ area @
                   replicate (cap * kHistoricalModbusRecordLength - length area) 0
             in Some (body @ le_bytes 4 (crc32 body)))"

text \<open>The loop over the \<open>count\<close> stored records.\<close>

fun decodeRecords :: "nat \<Rightarrow> nat \<Rightarrow> bytes \<Rightarrow> ring \<Rightarrow> ring option" where
  "decodeRecords cap 0 area r = Some r"
| "decodeRecords cap (Suc n) area r =
     (let rec = take kHistoricalModbusRecordLength area
      in if rec ! 0 \<noteq> 0x21 \<or> rec ! 1 \<noteq> 0xce then None
         else decodeRecords cap n (drop kHistoricalModbusRecordLength area) (ring_push cap rec r))"

definition decodeImage :: "nat \<Rightarrow> bytes ptr \<Rightarrow> (ring \<times> u32) option" where
  "decodeImage cap input =
     (case input of None \<Rightarrow> None
      | Some bs \<Rightarrow>
          if length bs \<noteq> kImageLength cap then None
          else if bs ! 0 \<noteq> 0x4d \<or> bs ! 1 \<noteq> 0x42 \<or> bs ! 2 \<noteq> 0x48 \<or> bs ! 3 \<noteq> 1 then None
          else
            let storedCrc = readU32 bs (kImageLength cap - 4);
                count = unat (le16 (bs ! 8) (bs ! 9))
            in if crc32 (take (kImageLength cap - 4) bs) \<noteq> storedCrc then None
               else if count > cap then None
               else map_option (\<lambda>r. (r, readU32 bs 4))
                 (decodeRecords cap count (drop kHeaderLength bs) (ring_empty cap)))"

section \<open>Settings\<close>

definition kDefaultRetransmissionIntervalSeconds :: u16 where
  "kDefaultRetransmissionIntervalSeconds = 600"
definition kDefaultRetrievabilityIntervalSeconds :: u16 where
  "kDefaultRetrievabilityIntervalSeconds = 60"

record HistorySettings =
  hs_storageEnabled :: bool
  hs_retransmissionEnabled :: bool
  hs_retransmissionIntervalSeconds :: u16
  hs_retrievabilityIntervalSeconds :: u16

definition default_history_settings :: HistorySettings where
  "default_history_settings = \<lparr>hs_storageEnabled = False, hs_retransmissionEnabled = False,
     hs_retransmissionIntervalSeconds = kDefaultRetransmissionIntervalSeconds,
     hs_retrievabilityIntervalSeconds = kDefaultRetrievabilityIntervalSeconds\<rparr>"

definition validHistorySettings :: "HistorySettings \<Rightarrow> bool" where
  "validHistorySettings s =
     (30 \<le> hs_retransmissionIntervalSeconds s \<and> hs_retransmissionIntervalSeconds s \<le> 1200 \<and>
      30 \<le> hs_retrievabilityIntervalSeconds s \<and> hs_retrievabilityIntervalSeconds s \<le> 1200)"

record RetransmissionState =
  rt_pending :: bool
  rt_lostAtUnix :: u32

definition default_retransmission :: RetransmissionState where
  "default_retransmission = \<lparr>rt_pending = False, rt_lostAtUnix = 0\<rparr>"

section \<open>A bounded log\<close>

text \<open>
  The abstract contract of the ring: pushing appends, and when the log is full the oldest entry
  goes. Its client fact: what is left is the tail of everything ever pushed.
\<close>

definition last_n :: "nat \<Rightarrow> 'e list \<Rightarrow> 'e list" where
  "last_n n xs = drop (length xs - n) xs"

lemma last_n_rev: "last_n n xs = rev (take n (rev xs))"
  by (simp add: last_n_def rev_take)

lemma last_n_append: "last_n n (last_n n xs @ ys) = last_n n (xs @ ys)"
  by (simp add: last_n_rev min_def)

lemma last_n_all [simp]: "length xs \<le> n \<Longrightarrow> last_n n xs = xs"
  by (simp add: last_n_def)

locale bounded_log =
  fixes cap :: nat
    and ok :: "'s \<Rightarrow> bool"
    and entries :: "'s \<Rightarrow> 'e list"
    and push :: "'e \<Rightarrow> 's \<Rightarrow> 's"
  assumes push_ok: "ok s \<Longrightarrow> ok (push e s)"
    and bounded: "ok s \<Longrightarrow> length (entries s) \<le> cap"
    and push_entries: "ok s \<Longrightarrow> entries (push e s) = last_n cap (entries s @ [e])"
begin

lemma push_all:
  "ok s \<Longrightarrow> ok (fold push es s) \<and> entries (fold push es s) = last_n cap (entries s @ es)"
  by (induction es arbitrary: s) (auto simp: bounded push_ok push_entries last_n_append)

end

definition ring_ok :: "nat \<Rightarrow> ring \<Rightarrow> bool" where
  "ring_ok cap r = (0 < cap \<and> length (hr_records r) = cap \<and> hr_start r < cap \<and> hr_size r \<le> cap)"

definition ring_list :: "nat \<Rightarrow> ring \<Rightarrow> bytes list" where
  "ring_list cap r = map (\<lambda>i. hr_records r ! ((hr_start r + i) mod cap)) [0..<hr_size r]"

lemma length_ring_list [simp]: "length (ring_list cap r) = hr_size r"
  by (simp add: ring_list_def)

lemma ring_oldest_list: "ring_oldest cap i r = (if i < hr_size r then Some (ring_list cap r ! i) else None)"
  by (simp add: ring_oldest_def ring_list_def)

lemma ring_empty_ok [simp]: "0 < cap \<Longrightarrow> ring_ok cap (ring_empty cap)"
  by (simp add: ring_ok_def ring_empty_def)

lemma ring_empty_list [simp]: "ring_list cap (ring_empty cap) = []"
  by (simp add: ring_list_def ring_empty_def)

lemma wrap_index: "s < cap \<Longrightarrow> i < cap \<Longrightarrow> (s + i) mod cap = (if s + i < cap then s + i else s + i - (cap :: nat))"
  by (simp add: mod_if)

lemma ring_push_ok: "ring_ok cap r \<Longrightarrow> ring_ok cap (ring_push cap e r)"
  by (auto simp: ring_ok_def ring_push_def)

lemma ring_push_list:
  assumes "ring_ok cap r"
  shows "ring_list cap (ring_push cap e r) = last_n cap (ring_list cap r @ [e])"
proof -
  have r: "0 < cap" "length (hr_records r) = cap" "hr_start r < cap" "hr_size r \<le> cap"
    using assms by (simp_all add: ring_ok_def)
  show ?thesis
  proof (cases "hr_size r < cap")
    case True
    have "ring_list cap (ring_push cap e r) = ring_list cap r @ [e]"
    proof (rule nth_equalityI)
      fix i assume "i < length (ring_list cap (ring_push cap e r))"
      then have i: "i \<le> hr_size r" using True by (simp add: ring_push_def)
      then show "ring_list cap (ring_push cap e r) ! i = (ring_list cap r @ [e]) ! i"
        using True r
        by (auto simp: ring_list_def ring_push_def nth_append wrap_index nth_list_update
            simp del: upt_Suc)
    qed (use True in \<open>simp add: ring_push_def\<close>)
    with True show ?thesis by simp
  next
    case False
    with r have full: "hr_size r = cap" by simp
    have "ring_list cap (ring_push cap e r) = tl (ring_list cap r @ [e])"
    proof (rule nth_equalityI)
      fix i assume "i < length (ring_list cap (ring_push cap e r))"
      then have i: "i < cap" using full by (simp add: ring_push_def)
      have idx: "((hr_start r + 1) mod cap + i) mod cap = (hr_start r + Suc i) mod cap"
        by (simp add: mod_add_left_eq)
      show "ring_list cap (ring_push cap e r) ! i = tl (ring_list cap r @ [e]) ! i"
      proof (cases "Suc i < cap")
        case True
        then have "(hr_start r + Suc i) mod cap \<noteq> hr_start r"
          using r wrap_index [of "hr_start r" cap "Suc i"] by (auto split: if_splits)
        moreover have "i < cap - Suc 0" using True by simp
        ultimately show ?thesis using True i full r idx
          by (simp add: ring_list_def ring_push_def nth_tl nth_append)
      next
        case False
        with i have "Suc i = cap" by simp
        then have "(hr_start r + Suc i) mod cap = hr_start r" using r by simp
        moreover have "\<not> i < cap - Suc 0" using \<open>Suc i = cap\<close> by simp
        ultimately show ?thesis using \<open>Suc i = cap\<close> i full r idx
          by (simp add: ring_list_def ring_push_def nth_tl nth_append)
      qed
    qed (use full in \<open>simp add: ring_push_def\<close>)
    moreover have "length (ring_list cap r) = cap" "0 < cap" using full r by simp_all
    ultimately show ?thesis
      by (cases "ring_list cap r") (auto simp: last_n_def Suc_diff_le simp del: length_ring_list)
  qed
qed

interpretation history_ring: bounded_log cap "ring_ok cap" "ring_list cap" "ring_push cap" for cap
  by unfold_locales (auto simp: ring_push_ok ring_push_list, simp add: ring_ok_def)

text \<open>
  C19. The ring remembers exactly the most recent records, oldest first: after any number of
  pushes to an empty ring it reads as the last records pushed, as many as fit.
\<close>

theorem ring_keeps_latest:
  assumes "0 < cap"
  shows "map (\<lambda>i. ring_oldest cap i (fold (ring_push cap) recs (ring_empty cap)))
      [0..<hr_size (fold (ring_push cap) recs (ring_empty cap))] =
    map Some (drop (length recs - cap) recs)"
proof -
  let ?r = "fold (ring_push cap) recs (ring_empty cap)"
  have l: "ring_list cap ?r = drop (length recs - cap) recs"
    using history_ring.push_all [of cap "ring_empty cap" recs] assms by (simp add: last_n_def)
  have "map (\<lambda>i. ring_oldest cap i ?r) [0..<hr_size ?r] = map Some (ring_list cap ?r)"
    by (rule nth_equalityI) (simp_all add: ring_oldest_list)
  then show ?thesis using l by simp
qed

lemma ring_keeps_latest_witness:
  "map (\<lambda>i. ring_oldest 2 i (fold (ring_push 2) [[1], [2], [3]] (ring_empty 2)))
     [0..<hr_size (fold (ring_push 2) [[1], [2], [3]] (ring_empty 2))] = [Some [2], Some [3]]"
  by (subst ring_keeps_latest) (simp_all add: numeral_2_eq_2)

section \<open>The image checksum\<close>

lemma crc32_bit_shift: "crc32_bit = crc_shift 0xedb88320"
proof
  fix c :: u32
  have "c AND 1 = (if bit c 0 then 1 else 0)"
    by (rule bit_word_eqI) (auto simp: bit_simps bit_1_iff intro: gr0I)
  then show "crc32_bit c = crc_shift 0xedb88320 c"
    by (simp add: crc32_bit_def crc_shift_def)
qed

lemma crc32_byte_feed: "crc32_byte = crc_feed 0xedb88320"
  by (intro ext) (simp add: crc32_byte_def crc_feed_def crc32_bit_shift)

interpretation image_crc: byte_crc crc32_byte
  unfolding crc32_byte_feed by (rule byte_crc_feed) simp_all

lemma readU32_le_bytes:
  assumes "length bs = n" shows "readU32 (bs @ le_bytes 4 w @ cs) n = w"
  using assms by (simp add: readU32_def le_bytes_list nth_append)

lemma byte_of_readU32: "k < 4 \<Longrightarrow> byte_of k (readU32 bs n) = bs ! (n + k)"
proof -
  assume "k < 4"
  then consider "k = 0" | "k = Suc 0" | "k = 2" | "k = 3" by linarith
  then show ?thesis by cases (simp_all add: readU32_def)
qed

text \<open>The trailing checksum of a body.\<close>

lemma crc_trailer_corrupted:
  assumes "4 \<le> length bs" "crc32 (take (length bs - 4) bs) = readU32 bs (length bs - 4)"
    "i < length bs" "b \<noteq> bs ! i"
  shows "crc32 (take (length bs - 4) (bs[i := b])) \<noteq> readU32 (bs[i := b]) (length bs - 4)"
proof -
  let ?n = "length bs - 4"
  show ?thesis
  proof (cases "i < ?n")
    case True
    have "crc32 ((take ?n bs)[i := b]) \<noteq> crc32 (take ?n bs)"
      using image_crc.single_byte_detected [of i "take ?n bs" b, where s = "0xffffffff"] True assms(4)
      by (simp add: crc32_def)
    moreover have "readU32 (bs[i := b]) ?n = readU32 bs ?n"
      using True assms(1) by (simp add: readU32_def)
    ultimately show ?thesis using True assms(2) by (simp add: take_update_swap)
  next
    case False
    define k where "k = i - ?n"
    have k: "i = ?n + k" "k < 4" using False assms(1,3) by (auto simp: k_def)
    have "byte_of k (readU32 (bs[i := b]) ?n) = b" "byte_of k (readU32 bs ?n) = bs ! i"
      using k assms(3) by (simp_all add: byte_of_readU32)
    then show ?thesis using False assms(2,4) by (metis take_update_cancel not_less)
  qed
qed

end
