(* ===== verification/HistoryProperties.thy ===== *)
theory HistoryProperties
  imports History
begin

text \<open>
  The flash image of the history: what is written is what is read back, and an image with a
  corrupted byte is refused.
\<close>

section \<open>Round trip\<close>

lemma history_record_length: "history_record x \<Longrightarrow> length x = kHistoricalModbusRecordLength"
  by (simp add: history_record_def)

lemma decodeRecords_concat:
  "\<forall>x \<in> set recs. history_record x \<Longrightarrow>
     decodeRecords cap (length recs) (concat recs @ suffix) r = Some (fold (ring_push cap) recs r)"
proof (induction recs arbitrary: r)
  case Nil
  then show ?case by simp
next
  case (Cons x recs)
  then have "length x = kHistoricalModbusRecordLength" "x ! 0 = 0x21" "x ! 1 = 0xce"
    by (auto simp: history_record_def)
  with Cons show ?case by (simp add: Let_def)
qed

lemma length_concat_records:
  "\<forall>x \<in> set recs. history_record x \<Longrightarrow>
     length (concat recs) = length recs * kHistoricalModbusRecordLength"
  by (induction recs) (auto simp: history_record_def)

text \<open>The bytes in front of the checksum.\<close>

definition image_body :: "nat \<Rightarrow> bytes list \<Rightarrow> u32 \<Rightarrow> bytes" where
  "image_body cap recs g = [0x4d, 0x42, 0x48, 1] @ le_bytes 4 g @
     le_bytes 2 (of_nat (length recs) :: u16) @ [0, 0] @ concat recs @
     replicate (cap * kHistoricalModbusRecordLength - length (concat recs)) 0"

lemma encodeImage_body:
  assumes "ring_ok cap r" "kImageLength cap \<le> capacity"
  shows "encodeImage cap r g (Some capacity) =
    Some (image_body cap (ring_list cap r) g @ le_bytes 4 (crc32 (image_body cap (ring_list cap r) g)))"
proof -
  have recs: "map (\<lambda>i. ring_oldest cap i r) [0..<hr_size r] = map Some (ring_list cap r)"
    by (rule nth_equalityI) (simp_all add: ring_oldest_list)
  show ?thesis
    using assms unfolding encodeImage_def recs
    by (simp add: Let_def image_body_def ring_ok_def o_def)
qed

lemma decodeImage_body:
  assumes "length recs \<le> cap" "\<forall>x \<in> set recs. history_record x" "0 < cap" "cap < 65536"
  shows "decodeImage cap (Some (image_body cap recs g @ le_bytes 4 (crc32 (image_body cap recs g)))) =
    Some (fold (ring_push cap) recs (ring_empty cap), g)"
proof -
  let ?body = "image_body cap recs g"
  let ?img = "?body @ le_bytes 4 (crc32 ?body)"
  have area: "length (concat recs) \<le> cap * kHistoricalModbusRecordLength"
    using assms(1) length_concat_records [OF assms(2)] by simp
  have len: "length ?body = kImageLength cap - 4" "length ?img = kImageLength cap"
    using area by (simp_all add: image_body_def kImageLength_def kHeaderLength_def)
  have count: "unat (of_nat (length recs) :: u16) = length recs"
    using assms(1,4) by (intro unat_of_nat_small) simp
  have head: "?img ! 0 = 0x4d" "?img ! 1 = 0x42" "?img ! 2 = 0x48" "?img ! 3 = 1"
    "readU32 ?img 4 = g" "le16 (?img ! 8) (?img ! 9) = of_nat (length recs)"
    by (simp_all add: image_body_def readU32_def le_bytes_list)
  have crc: "readU32 ?img (kImageLength cap - 4) = crc32 ?body"
    using readU32_le_bytes [OF len(1), of _ "[]"] by simp
  have rest: "drop kHeaderLength ?img = concat recs @
      (replicate (cap * kHistoricalModbusRecordLength - length (concat recs)) 0 @ le_bytes 4 (crc32 ?body))"
    by (simp add: image_body_def kHeaderLength_def le_bytes_list)
  have "take (kImageLength cap - 4) ?img = ?body"
    using len(1) by simp
  then show ?thesis
    unfolding decodeImage_def
    using len(2) head crc rest count assms(1) decodeRecords_concat [OF assms(2)]
    by (simp add: Let_def del: append_assoc)
qed

text \<open>
  Saving and loading the history changes nothing: the image of a ring of Modbus records
  decodes to a ring with the same records in the same order and the same generation.
\<close>

theorem image_roundtrip:
  assumes "ring_ok cap r" "\<forall>x \<in> set (ring_list cap r). history_record x" "cap < 65536"
    "kImageLength cap \<le> capacity"
  shows "\<exists>img r'. encodeImage cap r g (Some capacity) = Some img \<and>
    length img = kImageLength cap \<and> decodeImage cap (Some img) = Some (r', g) \<and>
    ring_ok cap r' \<and> ring_list cap r' = ring_list cap r"
proof -
  have c: "0 < cap" "length (ring_list cap r) \<le> cap" using assms(1) by (simp_all add: ring_ok_def)
  let ?body = "image_body cap (ring_list cap r) g"
  let ?r = "fold (ring_push cap) (ring_list cap r) (ring_empty cap)"
  have "ring_ok cap ?r" "ring_list cap ?r = ring_list cap r"
    using history_ring.push_all [OF ring_empty_ok [OF c(1)], of "ring_list cap r"] c by simp_all
  moreover have "length (?body @ le_bytes 4 (crc32 ?body)) = kImageLength cap"
    using length_concat_records [OF assms(2)] mult_le_mono1 [OF c(2), of kHistoricalModbusRecordLength]
    by (simp add: image_body_def kImageLength_def kHeaderLength_def kHistoricalModbusRecordLength_def)
  ultimately show ?thesis
    using encodeImage_body [OF assms(1,4)] decodeImage_body [OF c(2) assms(2) c(1) assms(3)]
    by blast
qed

definition sample_record :: bytes where
  "sample_record = [0x21, 0xce] @ replicate 23 7"

lemma sample_record_ok: "history_record sample_record"
  by (simp add: history_record_def sample_record_def kHistoricalModbusRecordLength_def)

lemma image_roundtrip_witness:
  "\<exists>img r'. encodeImage 64 (ring_push 64 sample_record (ring_empty 64)) 5 (Some 1616) = Some img \<and>
     decodeImage 64 (Some img) = Some (r', 5) \<and> ring_list 64 r' = [sample_record]"
proof -
  let ?r = "ring_push 64 sample_record (ring_empty 64)"
  have l: "ring_list 64 ?r = [sample_record]"
    by (simp add: ring_push_list ring_empty_ok)
  have "\<exists>img r'. encodeImage 64 ?r 5 (Some 1616) = Some img \<and> length img = kImageLength 64 \<and>
      decodeImage 64 (Some img) = Some (r', 5) \<and> ring_ok 64 r' \<and> ring_list 64 r' = ring_list 64 ?r"
  proof (rule image_roundtrip)
    show "\<forall>x \<in> set (ring_list 64 ?r). history_record x"
      by (simp add: l sample_record_ok)
  qed (simp_all add: ring_push_ok kImageLength_def kHeaderLength_def kHistoricalModbusRecordLength_def)
  then show ?thesis using l by auto
qed

section \<open>Corruption\<close>

lemma decodeImage_accepted:
  "decodeImage cap (Some img) = Some res \<Longrightarrow>
     length img = kImageLength cap \<and>
     crc32 (take (length img - 4) img) = readU32 img (length img - 4)"
  by (auto simp: decodeImage_def Let_def split: if_splits)

lemma decodeImage_crc_mismatch:
  "crc32 (take (length img - 4) img) \<noteq> readU32 img (length img - 4) \<Longrightarrow>
     decodeImage cap (Some img) = None"
  by (auto simp: decodeImage_def Let_def)

text \<open>
  C20. a history image with any single byte altered, in the header, the records, the padding or the
  checksum itself, is refused.
\<close>

theorem corrupted_image_refused:
  assumes "decodeImage cap (Some img) = Some (r, g)" "i < length img" "b \<noteq> img ! i"
  shows "decodeImage cap (Some (img[i := b])) = None"
proof (rule decodeImage_crc_mismatch)
  from decodeImage_accepted [OF assms(1)]
  have a: "4 \<le> length img" "crc32 (take (length img - 4) img) = readU32 img (length img - 4)"
    by (auto simp: kImageLength_def)
  show "crc32 (take (length (img[i := b]) - 4) (img[i := b])) \<noteq>
      readU32 (img[i := b]) (length (img[i := b]) - 4)"
    using crc_trailer_corrupted [OF a assms(2,3)] by simp
qed

lemma sample_image:
  "decodeImage 1 (Some (image_body 1 [sample_record] 3 @ le_bytes 4 (crc32 (image_body 1 [sample_record] 3)))) =
     Some (fold (ring_push 1) [sample_record] (ring_empty 1), 3)"
  by (rule decodeImage_body)
     (simp_all add: sample_record_ok)

lemma corrupted_image_refused_witness:
  "decodeImage 1 (Some ((image_body 1 [sample_record] 3 @
     le_bytes 4 (crc32 (image_body 1 [sample_record] 3)))[20 := 8])) = None"
  using sample_image
  by (rule corrupted_image_refused)
     (simp_all add: image_body_def sample_record_def nth_append kHistoricalModbusRecordLength_def)

end
