(* ===== verification/Stores.thy ===== *)
theory Stores
  imports History
begin

text \<open>
  The non-volatile stores: \<^verbatim>\<open>include/modbus/ModbusChannelStore.h\<close>,
  \<^verbatim>\<open>Rs485SettingsStore.h\<close>, \<^verbatim>\<open>ModbusMasterSettingsStore.h\<close>,
  \<^verbatim>\<open>include/lorawan/FPort85ReportSettingsStore.h\<close>, \<^verbatim>\<open>LoRaWanStateStore.h\<close>,
  \<^verbatim>\<open>include/history/HistorySettingsStore.h\<close>, \<^verbatim>\<open>HistoryRetransmissionStateStore.h\<close>
  and \<^verbatim>\<open>PersistentHistoryStore.h\<close>. The ESP32 \<^verbatim>\<open>Preferences\<close> library is a
  parameter: a record of its operations on an opaque storage state, with its documented
  behaviour as the hypothesis \<open>prefs_laws\<close> where a theorem needs it.
\<close>

section \<open>Preferences\<close>

datatype PrefValue =
  PvBool bool | PvU8 u8 | PvU16 u16 | PvI16 u16 | PvU32 u32 | PvBytes bytes | PvString string

fun pv_size :: "PrefValue \<Rightarrow> nat" where
  "pv_size (PvBool _) = 1" | "pv_size (PvU8 _) = 1" | "pv_size (PvU16 _) = 2"
| "pv_size (PvI16 _) = 2" | "pv_size (PvU32 _) = 4"
| "pv_size (PvBytes b) = length b" | "pv_size (PvString s) = length s"

record 's prefs =
  pf_get :: "'s \<Rightarrow> string \<Rightarrow> PrefValue option"
  pf_put :: "string \<Rightarrow> PrefValue \<Rightarrow> 's \<Rightarrow> nat \<times> 's"
  pf_remove :: "string \<Rightarrow> 's \<Rightarrow> bool \<times> 's"
  pf_clear :: "'s \<Rightarrow> bool \<times> 's"

text \<open>
  A write of a value that is not empty and that reports the full size has stored the value (the
  size reported for an empty value is that of a failure); a removal that reports success has
  removed the key; neither touches another key; clearing that reports success has emptied the
  namespace. Nothing is said of an operation that reports a failure. A signed short is its two's
  complement word.
\<close>

definition prefs_laws :: "'s prefs \<Rightarrow> bool" where
  "prefs_laws P =
     ((\<forall>k v s n s'. pf_put P k v s = (n, s') \<longrightarrow>
         (n = pv_size v \<longrightarrow> 0 < n \<longrightarrow> pf_get P s' k = Some v) \<and>
         (\<forall>j. j \<noteq> k \<longrightarrow> pf_get P s' j = pf_get P s j)) \<and>
      (\<forall>k s ok s'. pf_remove P k s = (ok, s') \<longrightarrow>
         (ok \<longrightarrow> pf_get P s' k = None) \<and>
         (\<forall>j. j \<noteq> k \<longrightarrow> pf_get P s' j = pf_get P s j)) \<and>
      (\<forall>s ok s'. pf_clear P s = (ok, s') \<longrightarrow> ok \<longrightarrow> (\<forall>k. pf_get P s' k = None)))"

text \<open>The typed accessors, with the default for an absent key.\<close>

definition pf_isKey :: "'s prefs \<Rightarrow> 's \<Rightarrow> string \<Rightarrow> bool" where
  "pf_isKey P s k = (pf_get P s k \<noteq> None)"

definition pf_getBytesLength :: "'s prefs \<Rightarrow> 's \<Rightarrow> string \<Rightarrow> nat" where
  "pf_getBytesLength P s k = (case pf_get P s k of Some (PvBytes b) \<Rightarrow> length b | _ \<Rightarrow> 0)"

definition pf_getBytes :: "'s prefs \<Rightarrow> 's \<Rightarrow> string \<Rightarrow> nat \<Rightarrow> bytes" where
  "pf_getBytes P s k capacity =
     (case pf_get P s k of Some (PvBytes b) \<Rightarrow> if length b \<le> capacity then b else [] | _ \<Rightarrow> [])"

definition pf_getBool :: "'s prefs \<Rightarrow> 's \<Rightarrow> string \<Rightarrow> bool \<Rightarrow> bool" where
  "pf_getBool P s k d = (case pf_get P s k of Some (PvBool b) \<Rightarrow> b | _ \<Rightarrow> d)"

definition pf_getUChar :: "'s prefs \<Rightarrow> 's \<Rightarrow> string \<Rightarrow> u8 \<Rightarrow> u8" where
  "pf_getUChar P s k d = (case pf_get P s k of Some (PvU8 b) \<Rightarrow> b | _ \<Rightarrow> d)"

definition pf_getUShort :: "'s prefs \<Rightarrow> 's \<Rightarrow> string \<Rightarrow> u16 \<Rightarrow> u16" where
  "pf_getUShort P s k d = (case pf_get P s k of Some (PvU16 b) \<Rightarrow> b | _ \<Rightarrow> d)"

definition pf_getUInt :: "'s prefs \<Rightarrow> 's \<Rightarrow> string \<Rightarrow> u32 \<Rightarrow> u32" where
  "pf_getUInt P s k d = (case pf_get P s k of Some (PvU32 b) \<Rightarrow> b | _ \<Rightarrow> d)"

definition pf_getShort :: "'s prefs \<Rightarrow> 's \<Rightarrow> string \<Rightarrow> u16 \<Rightarrow> u16" where
  "pf_getShort P s k d = (case pf_get P s k of Some (PvI16 b) \<Rightarrow> b | _ \<Rightarrow> d)"

definition pf_getString :: "'s prefs \<Rightarrow> 's \<Rightarrow> string \<Rightarrow> string \<Rightarrow> string" where
  "pf_getString P s k d = (case pf_get P s k of Some (PvString b) \<Rightarrow> b | _ \<Rightarrow> d)"

lemmas pf_typed = pf_getShort_def pf_getString_def pf_isKey_def pf_getBytesLength_def pf_getBytes_def pf_getBool_def pf_getUChar_def
  pf_getUShort_def pf_getUInt_def

text \<open>\<^verbatim>\<open>put(key, value) == size\<close>.\<close>

definition pf_store :: "'s prefs \<Rightarrow> string \<Rightarrow> PrefValue \<Rightarrow> 's \<Rightarrow> bool \<times> 's" where
  "pf_store P k v s = (let (n, s) = pf_put P k v s in (n = pv_size v, s))"

lemma pf_store_True:
  assumes "prefs_laws P" "pf_store P k v s = (True, s')" "0 < pv_size v"
  shows "pf_get P s' j = (if j = k then Some v else pf_get P s j)"
  using assms by (auto simp: pf_store_def prefs_laws_def split: prod.splits)

lemma pf_store_other:
  assumes "prefs_laws P" "pf_store P k v s = (ok, s')" "j \<noteq> k"
  shows "pf_get P s' j = pf_get P s j"
proof -
  obtain n where "pf_put P k v s = (n, s')" using assms(2) by (auto simp: pf_store_def split: prod.splits)
  with assms(1,3) show ?thesis unfolding prefs_laws_def by blast
qed

lemma pf_remove_law:
  assumes "prefs_laws P" "pf_remove P k s = (ok, s')"
  shows "ok \<Longrightarrow> pf_get P s' k = None" "j \<noteq> k \<Longrightarrow> pf_get P s' j = pf_get P s j"
  using assms unfolding prefs_laws_def by blast+

text \<open>A chain of writes that stops at the first failure, as the \<^verbatim>\<open>save\<close> functions do.\<close>

fun pf_store_all :: "'s prefs \<Rightarrow> (string \<times> PrefValue) list \<Rightarrow> 's \<Rightarrow> bool \<times> 's" where
  "pf_store_all P [] s = (True, s)"
| "pf_store_all P ((k, v) # kvs) s =
     (let (ok, s) = pf_store P k v s in if \<not> ok then (False, s) else pf_store_all P kvs s)"

lemma pf_store_all_True:
  assumes "prefs_laws P" "distinct (map fst kvs)" "\<forall>kv \<in> set kvs. 0 < pv_size (snd kv)"
  shows "pf_store_all P kvs s = (True, s') \<Longrightarrow>
    pf_get P s' j = (case map_of kvs j of Some v \<Rightarrow> Some v | None \<Rightarrow> pf_get P s j)"
  using assms(2,3)
proof (induction kvs arbitrary: s)
  case Nil
  then show ?case by simp
next
  case (Cons kv kvs)
  obtain k v where kv: "kv = (k, v)" by fastforce
  obtain ok s1 where s1: "pf_store P k v s = (ok, s1)" by fastforce
  with Cons.prems kv have "ok" and rest: "pf_store_all P kvs s1 = (True, s')"
    by (auto simp: Let_def split: if_splits)
  with s1 pf_store_True [OF assms(1), of k v s s1] Cons.prems(3) kv
  have "pf_get P s1 j = (if j = k then Some v else pf_get P s j)" by simp
  moreover have "map_of kvs k = None" using Cons.prems(2) kv by (auto simp: map_of_eq_None_iff)
  ultimately show ?case using Cons.IH [OF rest] Cons.prems(2,3) kv by (auto split: option.splits)
qed

text \<open>
  A chain of writes whose results are not looked at, as \<^verbatim>\<open>ConfigStore\<close> and \<^verbatim>\<open>SecurityStore\<close> write.
  Whether each of them took effect is a condition on the storage at the time of the chain: a write that
  reports the full size of a value that is not empty did.
\<close>

fun writes_stored :: "'s prefs \<Rightarrow> (string \<times> PrefValue) list \<Rightarrow> 's \<Rightarrow> bool" where
  "writes_stored P [] s = True"
| "writes_stored P ((k, v) # kvs) s =
     (let s' = snd (pf_put P k v s) in pf_get P s' k = Some v \<and> writes_stored P kvs s')"

lemma put_other: "prefs_laws P \<Longrightarrow> j \<noteq> k \<Longrightarrow> pf_get P (snd (pf_put P k v s)) j = pf_get P s j"
  unfolding prefs_laws_def by (metis prod.collapse)

lemma put_all:
  assumes "prefs_laws P" "writes_stored P kvs s" "distinct (map fst kvs)"
  shows "pf_get P (fold (\<lambda>(k, v) s. snd (pf_put P k v s)) kvs s) j =
    (case map_of kvs j of Some v \<Rightarrow> Some v | None \<Rightarrow> pf_get P s j)"
  using assms(2,3)
proof (induction kvs arbitrary: s)
  case (Cons kv kvs)
  obtain k v where kv: "kv = (k, v)" by fastforce
  have "map_of kvs k = None" using Cons.prems kv by (simp add: map_of_eq_None_iff)
  with Cons put_other [OF assms(1), of j k v s] show ?case by (auto simp: kv Let_def split: option.splits)
qed simp

lemma pf_clear_law: "prefs_laws P \<Longrightarrow> fst (pf_clear P s) \<Longrightarrow> pf_get P (snd (pf_clear P s)) k = None"
  unfolding prefs_laws_def by (metis prod.collapse)

section \<open>Modbus channels\<close>

definition slot_digits :: "nat \<Rightarrow> string" where
  "slot_digits n = [char_of (48 + n div 10), char_of (48 + n mod 10)]"

definition channel_key :: "nat \<Rightarrow> string" where
  "channel_key slot = CHR ''c'' # slot_digits slot"

definition kChannelRecordSize :: nat where "kChannelRecordSize = 23"
definition kChannelRecordVersion :: u8 where "kChannelRecordVersion = 1"

text \<open>
  The record array has 23 bytes and the name starts at byte 8: \<open>None\<close> is an access
  outside of the array, which C leaves undefined.
\<close>

definition encodeChannelRecord :: "ChannelConfig \<Rightarrow> bytes option" where
  "encodeChannelRecord c =
     (let nameLength = strnlen (ch_name c) kMaxChannelNameLength
      in if 8 + nameLength > kChannelRecordSize then None
         else Some ([kChannelRecordVersion, ch_slot c, ch_slaveId c, byte_of 0 (ch_address c),
            byte_of 1 (ch_address c), ch_dataType c,
            (ch_quantity c AND 0x0f) OR (if ch_signed c then 0x10 else 0x00), of_nat nameLength] @
           take nameLength (ch_name c) @ replicate (kChannelRecordSize - 8 - nameLength) 0))"

definition decodeChannelRecord :: "bytes \<Rightarrow> ChannelConfig option option" where
  "decodeChannelRecord r =
     (let nameLength = unat (r ! 7)
      in if r ! 0 \<noteq> kChannelRecordVersion \<or> \<not> validWireDataType (r ! 5) then Some None
         else if nameLength > kMaxChannelNameLength then Some None
         else if 8 + nameLength > kChannelRecordSize then None
         else Some (case setChannelName (default_channel\<lparr>ch_slot := r ! 1, ch_slaveId := r ! 2,
                ch_address := le16 (r ! 3) (r ! 4), ch_dataType := r ! 5,
                ch_quantity := r ! 6 AND 0x0f, ch_signed := (r ! 6 AND 0x10 \<noteq> 0)\<rparr>)
              (Some (take nameLength (drop 8 r))) of
           None \<Rightarrow> None
         | Some c \<Rightarrow> if validChannelConfig c then Some c else None))"

text \<open>
  \<^verbatim>\<open>load\<close>: the slots in turn; the channels found so far are returned also when it fails.
\<close>

fun loadChannels :: "'s prefs \<Rightarrow> 's \<Rightarrow> nat list \<Rightarrow> (bool \<times> ChannelConfig list) option" where
  "loadChannels P s [] = Some (True, [])"
| "loadChannels P s (slot # slots) =
     (let key = channel_key slot; n = pf_getBytesLength P s key
      in if n = 0 then loadChannels P s slots
         else if n \<noteq> kChannelRecordSize then Some (False, [])
         else
           let record = pf_getBytes P s key kChannelRecordSize
           in if length record \<noteq> kChannelRecordSize then Some (False, [])
              else (case decodeChannelRecord record of
                None \<Rightarrow> None
              | Some None \<Rightarrow> Some (False, [])
              | Some (Some c) \<Rightarrow>
                  if unat (ch_slot c) \<noteq> slot then Some (False, [])
                  else map_option (apsnd ((#) c)) (loadChannels P s slots)))"

definition channelStore_load :: "'s prefs \<Rightarrow> 's \<Rightarrow> (bool \<times> ChannelConfig list) option" where
  "channelStore_load P s = loadChannels P s [0..<kCompatibilitySlotCount]"

definition channelStore_save :: "'s prefs \<Rightarrow> ChannelConfig \<Rightarrow> 's \<Rightarrow> (bool \<times> 's) option" where
  "channelStore_save P c s =
     (if \<not> validChannelConfig c then Some (False, s)
      else map_option (\<lambda>record. pf_store P (channel_key (unat (ch_slot c))) (PvBytes record) s)
        (encodeChannelRecord c))"

definition channelStore_remove :: "'s prefs \<Rightarrow> u8 \<Rightarrow> 's \<Rightarrow> bool \<times> 's" where
  "channelStore_remove P slot s =
     (if unat slot \<ge> kCompatibilitySlotCount then (False, s)
      else if \<not> pf_isKey P s (channel_key (unat slot)) then (True, s)
      else pf_remove P (channel_key (unat slot)) s)"

section \<open>Line and master settings\<close>

definition rs485Store_load :: "'s prefs \<Rightarrow> 's \<Rightarrow> Rs485SerialSettings option" where
  "rs485Store_load P s =
     (let n = pf_getBytesLength P s ''serial''
      in if n = 0 then Some default_rs485
         else if n \<noteq> 8 then None
         else
           let r = pf_getBytes P s ''serial'' 8
           in if length r \<noteq> 8 \<or> r ! 0 \<noteq> 1 then None
              else let settings = \<lparr>rs_baudRate = le32 (r ! 1) (r ! 2) (r ! 3) (r ! 4),
                     rs_dataBits = r ! 5, rs_stopBits = r ! 6, rs_parity = r ! 7\<rparr>
                   in if validRs485SerialSettings settings then Some settings else None)"

definition rs485Store_save :: "'s prefs \<Rightarrow> Rs485SerialSettings \<Rightarrow> 's \<Rightarrow> bool \<times> 's" where
  "rs485Store_save P settings s =
     (if \<not> validRs485SerialSettings settings then (False, s)
      else pf_store P ''serial'' (PvBytes ([1] @ le_bytes 4 (rs_baudRate settings) @
        [rs_dataBits settings, rs_stopBits settings, rs_parity settings])) s)"

definition masterStore_load :: "'s prefs \<Rightarrow> 's \<Rightarrow> ModbusMasterSettings option" where
  "masterStore_load P s =
     (let n = pf_getBytesLength P s ''settings''
      in if n = 0 then Some default_master
         else if n \<noteq> 8 then None
         else
           let r = pf_getBytes P s ''settings'' 8
           in if length r \<noteq> 8 \<or> r ! 0 \<noteq> 1 then None
              else let settings = \<lparr>ms_executionIntervalMs = le16 (r ! 1) (r ! 2),
                     ms_maxResponseTimeMs = le16 (r ! 3) (r ! 4), ms_maxRetryTimes = r ! 5,
                     ms_passThroughMode = r ! 6, ms_passThroughPort = r ! 7\<rparr>
                   in if validModbusMasterSettings settings then Some settings else None)"

definition masterStore_save :: "'s prefs \<Rightarrow> ModbusMasterSettings \<Rightarrow> 's \<Rightarrow> bool \<times> 's" where
  "masterStore_save P settings s =
     (if \<not> validModbusMasterSettings settings then (False, s)
      else pf_store P ''settings'' (PvBytes ([1] @ le_bytes 2 (ms_executionIntervalMs settings) @
        le_bytes 2 (ms_maxResponseTimeMs settings) @
        [ms_maxRetryTimes settings, ms_passThroughMode settings, ms_passThroughPort settings])) s)"

definition reportStore_load :: "'s prefs \<Rightarrow> 's \<Rightarrow> u16 option" where
  "reportStore_load P s =
     (if \<not> pf_isKey P s ''lw_report_s'' then Some kDefaultReportIntervalSeconds
      else let seconds = pf_getUShort P s ''lw_report_s'' kDefaultReportIntervalSeconds
           in if validReportIntervalSeconds seconds then Some seconds else None)"

definition reportStore_save :: "'s prefs \<Rightarrow> u16 \<Rightarrow> 's \<Rightarrow> bool \<times> 's" where
  "reportStore_save P seconds s =
     (if \<not> validReportIntervalSeconds seconds then (False, s)
      else pf_store P ''lw_report_s'' (PvU16 seconds) s)"

section \<open>History settings and retransmission state\<close>

definition historySettings_load :: "'s prefs \<Rightarrow> 's \<Rightarrow> HistorySettings option" where
  "historySettings_load P s =
     (let settings = \<lparr>hs_storageEnabled = pf_getBool P s ''store'' False,
        hs_retransmissionEnabled = pf_getBool P s ''retrans'' False,
        hs_retransmissionIntervalSeconds =
          pf_getUShort P s ''retry_s'' kDefaultRetransmissionIntervalSeconds,
        hs_retrievabilityIntervalSeconds =
          pf_getUShort P s ''query_s'' kDefaultRetrievabilityIntervalSeconds\<rparr>
      in if validHistorySettings settings then Some settings else None)"

definition historySettings_save :: "'s prefs \<Rightarrow> HistorySettings \<Rightarrow> 's \<Rightarrow> bool \<times> 's" where
  "historySettings_save P h s =
     (if \<not> validHistorySettings h then (False, s)
      else pf_store_all P
        [(''store'', PvBool (hs_storageEnabled h)), (''retrans'', PvBool (hs_retransmissionEnabled h)),
         (''retry_s'', PvU16 (hs_retransmissionIntervalSeconds h)),
         (''query_s'', PvU16 (hs_retrievabilityIntervalSeconds h))] s)"

definition retransmission_load :: "'s prefs \<Rightarrow> 's \<Rightarrow> bool \<times> RetransmissionState" where
  "retransmission_load P s =
     (let pending = pf_getBool P s ''pending'' False;
          lostAt = (if pending then pf_getUInt P s ''lost_at'' 0 else 0)
      in (\<not> pending \<or> lostAt \<noteq> 0, \<lparr>rt_pending = pending, rt_lostAtUnix = lostAt\<rparr>))"

definition retransmission_save :: "'s prefs \<Rightarrow> RetransmissionState \<Rightarrow> 's \<Rightarrow> bool \<times> 's" where
  "retransmission_save P st s =
     (if rt_pending st \<and> rt_lostAtUnix st = 0 then (False, s)
      else pf_store_all P
        [(''pending'', PvBool (rt_pending st)),
         (''lost_at'', PvU32 (if rt_pending st then rt_lostAtUnix st else 0))] s)"

section \<open>The persistent history\<close>

definition newerGeneration :: "u32 \<Rightarrow> u32 \<Rightarrow> bool" where
  "newerGeneration a b = (0 < sint (a - b))"

definition history_loadKey :: "'s prefs \<Rightarrow> 's \<Rightarrow> string \<Rightarrow> (ring \<times> u32) option" where
  "history_loadKey P s key =
     (let n = pf_getBytesLength P s key; size = kImageLength kPersistentHistoryCapacity
      in if n = 0 then None
         else if n \<noteq> size then None
         else let bs = pf_getBytes P s key size
              in if length bs \<noteq> size then None
                 else decodeImage kPersistentHistoryCapacity (Some bs))"

text \<open>
  The result, the ring passed in as it is left, and the store's generation.
\<close>

definition history_load :: "'s prefs \<Rightarrow> 's \<Rightarrow> ring \<Rightarrow> bool \<times> ring \<times> u32" where
  "history_load P s r =
     (case (history_loadKey P s ''ring_a'', history_loadKey P s ''ring_b'') of
        (None, None) \<Rightarrow> (\<not> pf_isKey P s ''ring_a'' \<and> \<not> pf_isKey P s ''ring_b'',
          ring_clear r, 0)
      | (Some (a, ga), None) \<Rightarrow> (True, a, ga)
      | (None, Some (b, gb)) \<Rightarrow> (True, b, gb)
      | (Some (a, ga), Some (b, gb)) \<Rightarrow> if newerGeneration ga gb then (True, a, ga) else (True, b, gb))"

definition history_key :: "u32 \<Rightarrow> string" where
  "history_key generation = (if generation AND 1 = 0 then ''ring_a'' else ''ring_b'')"

text \<open>\<open>generation\<close> is the field \<^verbatim>\<open>generation_\<close>, returned updated.\<close>

definition history_save :: "'s prefs \<Rightarrow> ring \<Rightarrow> u32 \<Rightarrow> 's \<Rightarrow> bool \<times> u32 \<times> 's" where
  "history_save P r generation s =
     (let nextGeneration = generation + 1
      in case encodeImage kPersistentHistoryCapacity r nextGeneration
                (Some (kImageLength kPersistentHistoryCapacity)) of
           None \<Rightarrow> (False, generation, s)
         | Some img \<Rightarrow>
             let (ok, s) = pf_store P (history_key nextGeneration) (PvBytes img) s
             in if \<not> ok then (False, generation, s) else (True, nextGeneration, s))"

section \<open>The LoRaWAN state\<close>

record lorawan_state =
  ls_open :: bool
  ls_lastSession :: "bytes option"

definition fnv_prime :: u32 where "fnv_prime = 16777619"

definition mix :: "u32 \<Rightarrow> bytes \<Rightarrow> u32" where
  "mix hash value =
     (foldl (\<lambda>h b. (h XOR ucast b) * fnv_prime) hash value XOR 0xff) * fnv_prime"

definition lorawan_tag :: bytes where
  "lorawan_tag = map (\<lambda>c. of_nat (of_char c)) ''lorawan-state-v1''"

definition identityFingerprint :: "bytes \<Rightarrow> bytes \<Rightarrow> bytes \<Rightarrow> u32" where
  "identityFingerprint devEui joinEui appKey =
     mix (mix (mix (mix 2166136261 lorawan_tag) devEui) joinEui) appKey"

text \<open>
  RadioLib fixes the sizes of the nonces and session buffers: parameters \<open>nsize\<close>,
  \<open>ssize\<close>.
\<close>

definition lorawanState_load ::
    "'s prefs \<Rightarrow> nat \<Rightarrow> nat \<Rightarrow> u32 \<Rightarrow> 's \<Rightarrow> lorawan_state \<Rightarrow>
       bool \<times> bytes option \<times> bytes option \<times> lorawan_state" where
  "lorawanState_load P nsize ssize identity s st =
     (if \<not> ls_open st then (False, None, None, st)
      else if pf_getUInt P s ''lw_state_id'' 0 \<noteq> identity then (True, None, None, st)
      else
        let buffer = (\<lambda>key size. if pf_getBytesLength P s key = size
              then let b = pf_getBytes P s key size in if length b = size then Some b else None
              else None);
            nonces = buffer ''lw_nonces'' nsize; session = buffer ''lw_session'' ssize
        in (True, nonces, session, st\<lparr>ls_lastSession := session\<rparr>))"

definition ensureIdentity ::
    "'s prefs \<Rightarrow> u32 \<Rightarrow> 's \<Rightarrow> lorawan_state \<Rightarrow> bool \<times> 's \<times> lorawan_state" where
  "ensureIdentity P identity s st =
     (if pf_getUInt P s ''lw_state_id'' 0 = identity then (True, s, st)
      else
        let s = snd (pf_remove P ''lw_nonces'' s); s = snd (pf_remove P ''lw_session'' s);
            (ok, s) = pf_store P ''lw_state_id'' (PvU32 identity) s
        in (ok, s, st\<lparr>ls_lastSession := None\<rparr>))"

definition saveNonces ::
    "'s prefs \<Rightarrow> u32 \<Rightarrow> bytes ptr \<Rightarrow> 's \<Rightarrow> lorawan_state \<Rightarrow> bool \<times> 's \<times> lorawan_state" where
  "saveNonces P identity nonces s st =
     (if \<not> ls_open st \<or> nonces = None then (False, s, st)
      else
        let (ok, s, st) = ensureIdentity P identity s st
        in if \<not> ok then (False, s, st)
           else let (ok, s) = pf_store P ''lw_nonces'' (PvBytes (the nonces)) s in (ok, s, st))"

definition saveSessionIfChanged ::
    "'s prefs \<Rightarrow> u32 \<Rightarrow> bytes ptr \<Rightarrow> 's \<Rightarrow> lorawan_state \<Rightarrow> bool \<times> 's \<times> lorawan_state" where
  "saveSessionIfChanged P identity session s st =
     (if \<not> ls_open st \<or> session = None then (False, s, st)
      else if ls_lastSession st = session then (True, s, st)
      else
        let (ok, s, st) = ensureIdentity P identity s st
        in if \<not> ok then (False, s, st)
           else
             let (ok, s) = pf_store P ''lw_session'' (PvBytes (the session)) s
             in if \<not> ok then (False, s, st) else (True, s, st\<lparr>ls_lastSession := session\<rparr>))"

definition clearSession ::
    "'s prefs \<Rightarrow> u32 \<Rightarrow> 's \<Rightarrow> lorawan_state \<Rightarrow> bool \<times> 's \<times> lorawan_state" where
  "clearSession P identity s st =
     (if \<not> ls_open st then (False, s, st)
      else if pf_getUInt P s ''lw_state_id'' 0 \<noteq> identity then (True, s, st\<lparr>ls_lastSession := None\<rparr>)
      else if \<not> pf_isKey P s ''lw_session'' then (True, s, st\<lparr>ls_lastSession := None\<rparr>)
      else
        let (ok, s) = pf_remove P ''lw_session'' s
        in if \<not> ok then (False, s, st) else (True, s, st\<lparr>ls_lastSession := None\<rparr>))"

end
