(* ===== verification/StoreProperties.thy ===== *)
theory StoreProperties
  imports Stores HistoryProperties
begin

text \<open>
  What the stores promise over a storage that behaves as documented: saved settings are loaded
  back, the channel store is a map from slots to channels, a history save survives a power loss
  in the middle of it, and the LoRaWAN state of one identity is never handed to another.
\<close>

section \<open>A storage that fulfils the laws\<close>

definition map_prefs :: "(string \<Rightarrow> PrefValue option) prefs" where
  "map_prefs = \<lparr>pf_get = (\<lambda>s k. s k), pf_put = (\<lambda>k v s. (pv_size v, s(k \<mapsto> v))),
     pf_remove = (\<lambda>k s. (k \<in> dom s, s(k := None))), pf_clear = (\<lambda>_. (True, Map.empty))\<rparr>"

lemma map_prefs_laws: "prefs_laws map_prefs"
  by (auto simp: prefs_laws_def map_prefs_def)

lemma map_prefs_simps [simp]:
  "pf_get map_prefs s k = s k" "pf_store map_prefs k v s = (True, s(k \<mapsto> v))"
  "pf_remove map_prefs k s = (k \<in> dom s, s(k := None))"
  by (simp_all add: map_prefs_def pf_store_def)

lemma map_prefs_stores: "writes_stored map_prefs kvs s"
  by (induction kvs arbitrary: s) (auto simp: map_prefs_def Let_def)

section \<open>Channels\<close>

lemma char_of_digit:
  assumes "a < 10" "b < 10"
  shows "(char_of (48 + a :: nat) :: char) = char_of (48 + b) \<longleftrightarrow> a = b"
proof
  assume "(char_of (48 + a :: nat) :: char) = char_of (48 + b)"
  then have "(of_char (char_of (48 + a :: nat) :: char) :: nat) = of_char (char_of (48 + b) :: char)" by simp
  then show "a = b" using assms by simp
qed simp

lemma channel_key_inj:
  assumes "a < 32" "b < 32" "channel_key a = channel_key b"
  shows "a = b"
proof -
  have "a div 10 < 10" "b div 10 < 10" "a mod 10 < 10" "b mod 10 < 10" using assms(1,2) by auto
  then have "a div 10 = b div 10" "a mod 10 = b mod 10"
    using assms(3) char_of_digit by (auto simp: channel_key_def slot_digits_def)
  then show ?thesis by (metis div_mult_mod_eq)
qed

text \<open>A name as \<^verbatim>\<open>setChannelName\<close> writes it for a text without an embedded zero.\<close>

definition plain_name :: "ChannelConfig \<Rightarrow> bool" where
  "plain_name c = (\<exists>nm. length nm \<le> 16 \<and> 0 \<notin> set nm \<and> ch_name c = nm @ replicate (17 - length nm) 0)"

lemma strnlen_padded:
  assumes "length nm \<le> 16" "0 \<notin> set nm"
  shows "strnlen (nm @ replicate (17 - length nm) 0) 16 = length nm"
proof -
  have "take 16 (nm @ replicate (17 - length nm) 0) = nm @ replicate (16 - length nm) (0 :: u8)"
    using assms(1) by (simp add: min_def)
  moreover have "takeWhile (\<lambda>b. b \<noteq> 0) (nm @ replicate (16 - length nm) 0) = nm"
    using assms(2) by (subst takeWhile_append2) (auto simp: takeWhile_replicate)
  ultimately show ?thesis by (simp add: strnlen_def)
qed

lemma quantity_bits:
  "q = 1 \<or> q = 2 \<Longrightarrow> ((q :: u8) AND 0x0f OR (if s then 0x10 else 0)) AND 0x0f = q \<and>
     (((q AND 0x0f OR (if s then 0x10 else 0)) AND 0x10 \<noteq> 0) = s)"
  by auto

lemma channel_record_roundtrip:
  assumes "validChannelConfig c" "plain_name c" "strnlen (ch_name c) 16 \<le> 15"
  shows "\<exists>r. encodeChannelRecord c = Some r \<and> length r = 23 \<and> decodeChannelRecord r = Some (Some c)"
proof -
  obtain nm where nm: "length nm \<le> 15" "0 \<notin> set nm" "ch_name c = nm @ replicate (17 - length nm) 0"
    using assms(2,3) by (auto simp: plain_name_def strnlen_padded)
  obtain t where t: "ch_dataType c = wire_code t" "ch_quantity c = 1 \<or> ch_quantity c = 2"
    using assms(1) by (rule validChannelConfigE)
  have len: "unat (of_nat (length nm) :: u8) = length nm"
    using nm(1) by (intro unat_of_nat_small) simp
  have enc: "encodeChannelRecord c = Some ([1, ch_slot c, ch_slaveId c, byte_of 0 (ch_address c),
      byte_of 1 (ch_address c), ch_dataType c,
      (ch_quantity c AND 0x0f) OR (if ch_signed c then 0x10 else 0x00), of_nat (length nm)] @
      nm @ replicate (15 - length nm) 0)"
    using nm by (simp add: encodeChannelRecord_def strnlen_padded Let_def kChannelRecordSize_def
        kChannelRecordVersion_def)
  have "setChannelName (default_channel\<lparr>ch_slot := ch_slot c, ch_slaveId := ch_slaveId c,
      ch_address := ch_address c, ch_dataType := wire_code t, ch_quantity := ch_quantity c,
      ch_signed := ch_signed c\<rparr>) (Some nm) = Some c"
    using nm t(1) by (simp add: setChannelName_def default_channel_def)
  moreover note quantity_bits [OF t(2), of "ch_signed c"]
  ultimately show ?thesis
    using assms(1) nm(1) t(1) len
    by (simp add: enc decodeChannelRecord_def Let_def kChannelRecordVersion_def kChannelRecordSize_def)
qed

text \<open>
  The channel record is one byte too short: saving a channel whose name has the full 16
  characters that downlinks and the name setter allow writes past the 23-byte record, and a
  stored record that claims a 16-character name is read past its end.
\<close>

theorem full_length_name_overflows:
  assumes "setChannelName c (Some nm) = Some c'" "length nm = kMaxChannelNameLength" "0 \<notin> set nm"
    "validChannelConfig c"
  shows "channelStore_save P c' s = None \<and>
    (\<forall>r. r ! 0 = kChannelRecordVersion \<longrightarrow> validWireDataType (r ! 5) \<longrightarrow> r ! 7 = 16 \<longrightarrow>
       decodeChannelRecord r = None)"
proof -
  have "ch_name c' = nm @ replicate (17 - length nm) 0" "validChannelConfig c'"
    using assms by (auto simp: setChannelName_def validChannelConfig_def split: if_splits)
  with assms(2,3) show ?thesis
    using strnlen_padded [of nm]
    by (simp add: channelStore_save_def encodeChannelRecord_def decodeChannelRecord_def Let_def
        kChannelRecordSize_def)
qed

lemma full_length_name_overflows_witness:
  "channelStore_save map_prefs (default_channel\<lparr>ch_name := replicate 16 0x41 @ [0]\<rparr>) Map.empty = None"
proof -
  have "setChannelName default_channel (Some (replicate 16 0x41)) =
      Some (default_channel\<lparr>ch_name := replicate 16 0x41 @ [0]\<rparr>)"
    by (simp add: setChannelName_def)
  moreover have "validChannelConfig default_channel"
    by (simp add: validChannelConfig_def default_channel_def validWireDataType_def)
  ultimately show ?thesis
    using full_length_name_overflows [of default_channel "replicate 16 0x41" _ map_prefs Map.empty]
    by simp
qed

text \<open>The storage as a map from slots to channels.\<close>

definition stores :: "'s prefs \<Rightarrow> 's \<Rightarrow> (nat \<Rightarrow> ChannelConfig option) \<Rightarrow> bool" where
  "stores P s m = (\<forall>n < 32. case m n of
       None \<Rightarrow> pf_get P s (channel_key n) = None
     | Some c \<Rightarrow> unat (ch_slot c) = n \<and> validChannelConfig c \<and> plain_name c \<and>
         strnlen (ch_name c) 16 \<le> 15 \<and>
         pf_get P s (channel_key n) = map_option PvBytes (encodeChannelRecord c))"

lemma loadChannels_stores:
  assumes "stores P s m" "set slots \<subseteq> {..<32}"
  shows "loadChannels P s slots = Some (True, List.map_filter m slots)"
  using assms(2)
proof (induction slots)
  case Nil
  show ?case by (simp add: map_filter_simps)
next
  case (Cons n slots)
  then have n: "n < 32" and IH: "loadChannels P s slots = Some (True, List.map_filter m slots)" by auto
  show ?case
  proof (cases "m n")
    case None
    with assms(1) n have "pf_get P s (channel_key n) = None" by (auto simp: stores_def)
    with None IH show ?thesis by (simp add: pf_typed map_filter_simps)
  next
    case (Some c)
    with assms(1) n have c: "unat (ch_slot c) = n" "validChannelConfig c" "plain_name c"
      "strnlen (ch_name c) 16 \<le> 15" "pf_get P s (channel_key n) = map_option PvBytes (encodeChannelRecord c)"
      by (auto simp: stores_def)
    from channel_record_roundtrip [OF c(2-4)] obtain r where
      "encodeChannelRecord c = Some r" "length r = 23" "decodeChannelRecord r = Some (Some c)" by blast
    with c(1,5) Some IH show ?thesis
      by (simp add: pf_typed map_filter_simps kChannelRecordSize_def Let_def)
  qed
qed

lemma channel_saved:
  assumes "prefs_laws P" "stores P s m" "plain_name c" "strnlen (ch_name c) 16 \<le> 15"
    "channelStore_save P c s = Some (True, s')"
  shows "stores P s' (m(unat (ch_slot c) \<mapsto> c))"
proof -
  note c = assms(3-5)
  from c have v: "validChannelConfig c" by (auto simp: channelStore_save_def split: if_splits)
  then have slot: "unat (ch_slot c) < 32" by (simp add: validChannelConfig_def)
  obtain r where r: "encodeChannelRecord c = Some r" "length r = 23"
    using channel_record_roundtrip [OF v c(1,2)] by blast
  with c(3) v have "pf_store P (channel_key (unat (ch_slot c))) (PvBytes r) s = (True, s')"
    by (simp add: channelStore_save_def)
  then have g: "pf_get P s' j = (if j = channel_key (unat (ch_slot c)) then Some (PvBytes r) else pf_get P s j)" for j
    by (rule pf_store_True [OF assms(1)]) (simp add: r)
  show ?thesis
    unfolding stores_def
  proof (intro allI impI)
    fix n :: nat assume n: "n < 32"
    have "n \<noteq> unat (ch_slot c) \<Longrightarrow> channel_key n \<noteq> channel_key (unat (ch_slot c))"
      using channel_key_inj n slot by blast
    with assms(2) n c(1,2) v r show "case (m(unat (ch_slot c) \<mapsto> c)) n of
        None \<Rightarrow> pf_get P s' (channel_key n) = None
      | Some c \<Rightarrow> unat (ch_slot c) = n \<and> validChannelConfig c \<and> plain_name c \<and> strnlen (ch_name c) 16 \<le> 15 \<and>
          pf_get P s' (channel_key n) = map_option PvBytes (encodeChannelRecord c)"
      by (auto simp: stores_def g split: option.splits)
  qed
qed

lemma channel_removed:
  assumes "prefs_laws P" "stores P s m" "channelStore_remove P slot s = (True, s')"
  shows "stores P s' (m(unat slot := None))"
proof -
  note rm = assms(3)
  from rm have slot: "unat slot < 32" by (simp add: channelStore_remove_def split: if_splits)
  have g: "pf_get P s' (channel_key (unat slot)) = None \<and>
      (\<forall>j. j \<noteq> channel_key (unat slot) \<longrightarrow> pf_get P s' j = pf_get P s j)"
  proof (cases "pf_isKey P s (channel_key (unat slot))")
    case True
    with rm slot have "pf_remove P (channel_key (unat slot)) s = (True, s')"
      by (simp add: channelStore_remove_def)
    with pf_remove_law [OF assms(1) this] show ?thesis by simp
  next
    case False
    with rm slot show ?thesis by (simp add: channelStore_remove_def pf_isKey_def)
  qed
  show ?thesis
    unfolding stores_def
  proof (intro allI impI)
    fix n :: nat assume n: "n < 32"
    have "n \<noteq> unat slot \<Longrightarrow> channel_key n \<noteq> channel_key (unat slot)"
      using channel_key_inj n slot by blast
    with assms(2) n g show "case (m(unat slot := None)) n of
        None \<Rightarrow> pf_get P s' (channel_key n) = None
      | Some c \<Rightarrow> unat (ch_slot c) = n \<and> validChannelConfig c \<and> plain_name c \<and> strnlen (ch_name c) 16 \<le> 15 \<and>
          pf_get P s' (channel_key n) = map_option PvBytes (encodeChannelRecord c)"
      by (auto simp: stores_def split: option.splits)
  qed
qed

lemma channelStore_load_stores:
  "stores P s m \<Longrightarrow> channelStore_load P s = Some (True, List.map_filter m [0..<32])"
  unfolding channelStore_load_def by (simp add: loadChannels_stores atLeast0LessThan)

text \<open>
  C21. The channel store is a map from slots to channels: after a save or a removal that reports
  success, loading returns the channels of the updated map, in slot order, unchanged.
\<close>

theorem channel_store_refines_map:
  assumes "prefs_laws P" "stores P s m"
  shows "(\<forall>c s'. plain_name c \<longrightarrow> strnlen (ch_name c) 16 \<le> 15 \<longrightarrow>
       channelStore_save P c s = Some (True, s') \<longrightarrow>
       channelStore_load P s' = Some (True, List.map_filter (m(unat (ch_slot c) \<mapsto> c)) [0..<32])) \<and>
    (\<forall>slot s'. channelStore_remove P slot s = (True, s') \<longrightarrow>
       channelStore_load P s' = Some (True, List.map_filter (m(unat slot := None)) [0..<32]))"
  by (intro conjI allI impI channelStore_load_stores)
     (erule (2) channel_saved [OF assms], erule channel_removed [OF assms])

lemma channel_store_refines_map_witness:
  "channelStore_load map_prefs (snd (the (channelStore_save map_prefs default_channel Map.empty))) =
     Some (True, [default_channel])"
proof -
  have v: "validChannelConfig default_channel"
    by (simp add: validChannelConfig_def default_channel_def validWireDataType_def)
  have n: "plain_name default_channel" "strnlen (ch_name default_channel) 16 \<le> 15"
    unfolding plain_name_def
    by (rule exI [of _ "[]"]) (simp_all add: default_channel_def strnlen_def)
  obtain r where r: "encodeChannelRecord default_channel = Some r"
    using channel_record_roundtrip [OF v n] by blast
  have e: "stores map_prefs Map.empty Map.empty" by (simp add: stores_def)
  have saved: "channelStore_save map_prefs default_channel Map.empty =
      Some (True, Map.empty(channel_key 0 \<mapsto> PvBytes r))"
    using v r by (simp add: channelStore_save_def) (simp add: default_channel_def)
  have "channelStore_load map_prefs (Map.empty(channel_key 0 \<mapsto> PvBytes r)) =
      Some (True, List.map_filter (Map.empty(unat (ch_slot default_channel) \<mapsto> default_channel)) [0..<32])"
    using channel_store_refines_map [OF map_prefs_laws e] n saved by blast
  moreover have "List.map_filter (Map.empty(unat (ch_slot default_channel) \<mapsto> default_channel)) [0..<32] =
      [default_channel]"
    by (simp add: upt_rec map_filter_simps) (simp add: default_channel_def)
  ultimately show ?thesis using saved by simp
qed

section \<open>Settings\<close>

lemma history_settings_eta:
  "\<lparr>hs_storageEnabled = hs_storageEnabled h, hs_retransmissionEnabled = hs_retransmissionEnabled h,
     hs_retransmissionIntervalSeconds = hs_retransmissionIntervalSeconds h,
     hs_retrievabilityIntervalSeconds = hs_retrievabilityIntervalSeconds h\<rparr> = (h :: HistorySettings)"
  by simp

lemma line_saved:
  assumes "prefs_laws P" "rs485Store_save P line s = (True, s')"
  shows "validRs485SerialSettings line" "rs485Store_load P s' = Some line"
  using assms(2) pf_store_True [OF assms(1)]
  by (auto simp: rs485Store_save_def rs485Store_load_def pf_typed le_bytes_list settings_eta Let_def
      split: if_splits)

lemma master_saved:
  assumes "prefs_laws P" "masterStore_save P ms s = (True, s')"
  shows "validModbusMasterSettings ms" "masterStore_load P s' = Some ms"
  using assms(2) pf_store_True [OF assms(1)]
  by (auto simp: masterStore_save_def masterStore_load_def pf_typed le_bytes_list settings_eta Let_def
      split: if_splits)

lemma report_saved:
  assumes "prefs_laws P" "reportStore_save P seconds s = (True, s')"
  shows "validReportIntervalSeconds seconds" "reportStore_load P s' = Some seconds"
  using assms(2) pf_store_True [OF assms(1)]
  by (auto simp: reportStore_save_def reportStore_load_def pf_typed Let_def split: if_splits)

lemma history_settings_saved:
  assumes "prefs_laws P" "historySettings_save P hs s = (True, s')"
  shows "validHistorySettings hs" "historySettings_load P s' = Some hs"
proof -
  show v: "validHistorySettings hs" using assms(2) by (auto simp: historySettings_save_def split: if_splits)
  with assms(2) have "pf_store_all P
      [(''store'', PvBool (hs_storageEnabled hs)), (''retrans'', PvBool (hs_retransmissionEnabled hs)),
       (''retry_s'', PvU16 (hs_retransmissionIntervalSeconds hs)),
       (''query_s'', PvU16 (hs_retrievabilityIntervalSeconds hs))] s = (True, s')"
    by (simp add: historySettings_save_def)
  from pf_store_all_True [OF assms(1) _ _ this] v show "historySettings_load P s' = Some hs"
    by (simp add: historySettings_load_def pf_typed history_settings_eta Let_def)
qed

lemma retransmission_saved:
  assumes "prefs_laws P" "retransmission_save P rt s = (True, s')" "rt_pending rt \<or> rt_lostAtUnix rt = 0"
  shows "retransmission_load P s' = (True, rt)"
proof -
  have "pf_store_all P [(''pending'', PvBool (rt_pending rt)),
      (''lost_at'', PvU32 (if rt_pending rt then rt_lostAtUnix rt else 0))] s = (True, s')"
    and "\<not> (rt_pending rt \<and> rt_lostAtUnix rt = 0)"
    using assms(2) by (auto simp: retransmission_save_def split: if_splits)
  with pf_store_all_True [OF assms(1) _ _ this(1)] assms(3) show ?thesis
    by (auto simp: retransmission_load_def pf_typed)
qed

text \<open>
  Settings survive a restart: for the line, the master, the report interval, the history and
  the retransmission state, a save that reports success is loaded back unchanged, and nothing
  invalid is ever saved.
\<close>

theorem settings_survive_restart:
  assumes "prefs_laws P"
  shows "(rs485Store_save P line s = (True, s') \<longrightarrow>
      validRs485SerialSettings line \<and> rs485Store_load P s' = Some line) \<and>
    (masterStore_save P ms s = (True, s') \<longrightarrow>
      validModbusMasterSettings ms \<and> masterStore_load P s' = Some ms) \<and>
    (reportStore_save P seconds s = (True, s') \<longrightarrow>
      validReportIntervalSeconds seconds \<and> reportStore_load P s' = Some seconds) \<and>
    (historySettings_save P hs s = (True, s') \<longrightarrow>
      validHistorySettings hs \<and> historySettings_load P s' = Some hs) \<and>
    (retransmission_save P rt s = (True, s') \<longrightarrow> rt_pending rt \<or> rt_lostAtUnix rt = 0 \<longrightarrow>
      retransmission_load P s' = (True, rt))"
  using line_saved [OF assms] master_saved [OF assms] report_saved [OF assms]
    history_settings_saved [OF assms] retransmission_saved [OF assms] by simp

lemma settings_survive_restart_witness:
  "rs485Store_load map_prefs (snd (rs485Store_save map_prefs default_rs485 Map.empty)) = Some default_rs485"
proof -
  have "rs485Store_save map_prefs default_rs485 Map.empty =
      (True, snd (rs485Store_save map_prefs default_rs485 Map.empty))"
    by (simp add: rs485Store_save_def default_rs485_def validRs485SerialSettings_def
        validRs485BaudRate_def)
  then show ?thesis using settings_survive_restart [OF map_prefs_laws] by blast
qed

section \<open>The persistent history\<close>

lemma newer_next: "newerGeneration (g + 1) g" "\<not> newerGeneration g (g + 1)"
  by (simp_all add: newerGeneration_def)

lemma history_key_alternates: "history_key (g + 1) \<noteq> history_key g"
proof -
  have "(x AND 1 = 0) = even x" for x :: u32
    by (simp add: and_one_eq even_iff_mod_2_eq_zero)
  then show ?thesis by (simp add: history_key_def)
qed

lemma history_key_cases: "history_key g = ''ring_a'' \<or> history_key g = ''ring_b''"
  by (simp add: history_key_def)

text \<open>Loading when the current generation is intact and the other slot holds anything.\<close>

lemma history_load_slots:
  assumes "history_loadKey P s (history_key g) = Some (r, g)"
    and "history_loadKey P s (history_key (g + 1)) = None \<or>
      history_loadKey P s (history_key (g + 1)) = Some (r', g + 1)"
  shows "history_load P s r0 = (if history_loadKey P s (history_key (g + 1)) = None
    then (True, r, g) else (True, r', g + 1))"
proof -
  consider "history_key g = ''ring_a''" "history_key (g + 1) = ''ring_b''"
    | "history_key g = ''ring_b''" "history_key (g + 1) = ''ring_a''"
    using history_key_alternates [of g] history_key_cases [of g] history_key_cases [of "g + 1"] by metis
  then show ?thesis
    using assms newer_next [of g] by cases (auto simp: history_load_def)
qed

lemma history_load_older:
  assumes "history_loadKey P s (history_key g) = Some (r, g)"
    and "case history_loadKey P s (history_key (g + 1)) of None \<Rightarrow> True | Some (_, h) \<Rightarrow> h = g - 1"
  shows "history_load P s r0 = (True, r, g)"
proof -
  consider "history_key g = ''ring_a''" "history_key (g + 1) = ''ring_b''"
    | "history_key g = ''ring_b''" "history_key (g + 1) = ''ring_a''"
    using history_key_alternates [of g] history_key_cases [of g] history_key_cases [of "g + 1"] by metis
  then show ?thesis
    using assms newer_next [of "g - 1"]
    by cases (auto simp: history_load_def split: option.splits)
qed

text \<open>
  C22. A history save is durable and atomic: after a successful save, loading returns the saved
  records and the new generation; and if the write fails, leaving in the slot something that is no
  valid image or the still older generation, loading returns the previous ring.
\<close>

theorem history_save_atomic:
  assumes "prefs_laws P"
    and "history_loadKey P s (history_key g) = Some (old, g)"
    and "ring_ok kPersistentHistoryCapacity new"
    and "\<forall>x \<in> set (ring_list kPersistentHistoryCapacity new). history_record x"
    and "history_save P new g s = (ok, g', s')"
    and "\<not> ok \<Longrightarrow> case history_loadKey P s' (history_key (g + 1)) of None \<Rightarrow> True | Some (_, h) \<Rightarrow> h = g - 1"
  shows "\<exists>r. history_load P s' r0 = (True, r, g') \<and>
    (if ok then g' = g + 1 \<and>
       ring_list kPersistentHistoryCapacity r = ring_list kPersistentHistoryCapacity new
     else g' = g \<and> r = old)"
proof -
  let ?cap = kPersistentHistoryCapacity
  let ?body = "image_body ?cap (ring_list ?cap new) (g + 1)"
  let ?img = "?body @ le_bytes 4 (crc32 ?body)"
  have cap: "0 < ?cap" "?cap < 65536" by (simp_all add: kPersistentHistoryCapacity_def)
  have fits: "length (ring_list ?cap new) \<le> ?cap" using assms(3) by (simp add: ring_ok_def)
  have enc: "encodeImage ?cap new (g + 1) (Some (kImageLength ?cap)) = Some ?img"
    by (rule encodeImage_body [OF assms(3)]) simp
  note dec = decodeImage_body [OF fits assms(4) cap, of "g + 1"]
  have len: "length ?img = kImageLength ?cap" using decodeImage_accepted [OF dec] by simp
  obtain s1 where st: "pf_store P (history_key (g + 1)) (PvBytes ?img) s = (ok, s1)"
    and s1: "s1 = s'" "g' = (if ok then g + 1 else g)"
    using assms(5) enc by (auto simp: history_save_def Let_def split: prod.splits if_splits)
  have keep: "history_loadKey P s' (history_key g) = Some (old, g)"
  proof -
    have "pf_get P s' (history_key g) = pf_get P s (history_key g)"
      using pf_store_other [OF assms(1) st history_key_alternates [symmetric]] s1(1) by simp
    then have "history_loadKey P s' (history_key g) = history_loadKey P s (history_key g)"
      unfolding history_loadKey_def pf_getBytesLength_def pf_getBytes_def by (simp only:)
    with assms(2) show ?thesis by (rule trans [rotated])
  qed
  show ?thesis
  proof (cases ok)
    case False
    with history_load_older [OF keep] assms(6) s1(2) show ?thesis by simp
  next
    case True
    let ?r = "fold (ring_push ?cap) (ring_list ?cap new) (ring_empty ?cap)"
    have "pf_get P s' (history_key (g + 1)) = Some (PvBytes ?img)"
      using pf_store_True [OF assms(1)] st s1(1) True len
      by (auto simp: kImageLength_def)
    then have "history_loadKey P s' (history_key (g + 1)) = Some (?r, g + 1)"
      using dec len by (simp add: history_loadKey_def pf_typed kImageLength_def Let_def)
    moreover have "ring_list ?cap ?r = ring_list ?cap new"
      using history_ring.push_all [OF ring_empty_ok [OF cap(1)], of "ring_list ?cap new"] fits by simp
    ultimately show ?thesis
      using history_load_slots [OF keep, of ?r r0] True s1(2) by simp
  qed
qed

lemma history_save_atomic_witness:
  "\<exists>r. history_load map_prefs (snd (snd (history_save map_prefs
       (ring_push 64 sample_record (ring_empty 64)) 0
       (Map.empty(''ring_a'' \<mapsto> PvBytes (image_body 64 [] 0 @ le_bytes 4 (crc32 (image_body 64 [] 0)))))))) (ring_empty 64) =
     (True, r, 1) \<and> ring_list 64 r = [sample_record]"
proof -
  let ?old = "image_body 64 [] 0 @ le_bytes 4 (crc32 (image_body 64 [] 0))"
  let ?s = "Map.empty(''ring_a'' \<mapsto> PvBytes ?old)"
  let ?new = "ring_push 64 sample_record (ring_empty 64)"
  have cap: "kPersistentHistoryCapacity = 64" by (simp add: kPersistentHistoryCapacity_def)
  have dec: "decodeImage 64 (Some ?old) = Some (ring_empty 64, 0)"
    using decodeImage_body [of "[]" 64 0] by simp
  have len: "length ?old = kImageLength 64" using decodeImage_accepted [OF dec] by simp
  have cur: "history_loadKey map_prefs ?s (history_key 0) = Some (ring_empty 64, 0)"
    using dec len by (simp add: history_loadKey_def pf_typed history_key_def cap Let_def kImageLength_def)
  have l: "ring_list 64 ?new = [sample_record]" by (simp add: ring_push_list)
  obtain ok g' s' where sv: "history_save map_prefs ?new 0 ?s = (ok, g', s')" by (metis prod_cases3)
  have enc: "encodeImage 64 ?new 1 (Some (kImageLength 64)) \<noteq> None"
    using encodeImage_body [of 64 ?new "kImageLength 64" 1] by (simp add: ring_push_ok)
  then have ok: ok using sv by (auto simp: history_save_def cap Let_def split: option.splits)
  have "\<exists>r. history_load map_prefs s' (ring_empty 64) = (True, r, g') \<and> (if ok then g' = 0 + 1 \<and>
      ring_list kPersistentHistoryCapacity r = ring_list kPersistentHistoryCapacity ?new
    else g' = 0 \<and> r = ring_empty 64)"
    by (rule history_save_atomic [OF map_prefs_laws cur _ _ sv])
       (simp_all add: cap l sample_record_ok ring_push_ok ok)
  then show ?thesis using sv ok l by (auto simp: cap)
qed

section \<open>The LoRaWAN state\<close>

lemma ensureIdentity_isolates:
  assumes "prefs_laws P" "\<forall>k s. pf_get P (snd (pf_remove P k s)) k = None"
    and "ensureIdentity P identity s st = (True, s', st')"
  shows "pf_getUInt P s' ''lw_state_id'' 0 = identity \<and>
    (pf_getUInt P s ''lw_state_id'' 0 \<noteq> identity \<longrightarrow>
       pf_get P s' ''lw_nonces'' = None \<and> pf_get P s' ''lw_session'' = None) \<and>
    (pf_getUInt P s ''lw_state_id'' 0 = identity \<longrightarrow> s' = s)"
proof (cases "pf_getUInt P s ''lw_state_id'' 0 = identity")
  case True
  with assms(3) show ?thesis by (simp add: ensureIdentity_def)
next
  case False
  define s1 where "s1 = snd (pf_remove P ''lw_nonces'' s)"
  define s2 where "s2 = snd (pf_remove P ''lw_session'' s1)"
  have s3: "pf_store P ''lw_state_id'' (PvU32 identity) s2 = (True, s')"
    using assms(3) False by (auto simp: ensureIdentity_def s1_def s2_def Let_def split: prod.splits)
  have "pf_get P s2 ''lw_session'' = None" "pf_get P s1 ''lw_nonces'' = None"
    using assms(2) by (simp_all add: s1_def s2_def)
  moreover have "pf_get P s2 ''lw_nonces'' = pf_get P s1 ''lw_nonces''"
    unfolding s2_def by (rule pf_remove_law(2) [OF assms(1) surjective_pairing]) simp
  ultimately show ?thesis
    using pf_store_True [OF assms(1) s3] False by (simp add: pf_typed)
qed

text \<open>
  LoRaWAN state never crosses identities: once the join nonces of a new identity have been
  saved, loading for that identity yields those nonces and no session of an earlier identity, and
  loading for any other identity yields neither nonces nor session.
\<close>

theorem lorawan_state_isolated:
  assumes "prefs_laws P" "\<forall>k s. pf_get P (snd (pf_remove P k s)) k = None"
    and "ls_open st" "length nonces = nsize" "0 < nsize" "0 < ssize"
    and "pf_getUInt P s ''lw_state_id'' 0 \<noteq> identity"
    and "saveNonces P identity (Some nonces) s st = (True, s', st')"
  shows "fst (snd (lorawanState_load P nsize ssize identity s' st')) = Some nonces \<and>
    fst (snd (snd (lorawanState_load P nsize ssize identity s' st'))) = None \<and>
    (\<forall>other. other \<noteq> identity \<longrightarrow>
       fst (snd (lorawanState_load P nsize ssize other s' st')) = None \<and>
       fst (snd (snd (lorawanState_load P nsize ssize other s' st'))) = None)"
proof -
  obtain s1 st1 where e: "ensureIdentity P identity s st = (True, s1, st1)"
    and w: "pf_store P ''lw_nonces'' (PvBytes nonces) s1 = (True, s')" and st': "st' = st1"
    using assms(3,8) by (auto simp: saveNonces_def Let_def split: prod.splits if_splits)
  have "ls_open st1" using e assms(3) by (auto simp: ensureIdentity_def Let_def split: prod.splits if_splits)
  with ensureIdentity_isolates [OF assms(1,2) e] pf_store_True [OF assms(1) w] assms(4-7) st'
  show ?thesis
    by (auto simp: lorawanState_load_def pf_typed Let_def)
qed

lemma lorawan_state_isolated_witness:
  "fst (snd (lorawanState_load map_prefs 2 3 7
     (fst (snd (saveNonces map_prefs 7 (Some [1, 2]) Map.empty \<lparr>ls_open = True, ls_lastSession = None\<rparr>)))
     (snd (snd (saveNonces map_prefs 7 (Some [1, 2]) Map.empty \<lparr>ls_open = True, ls_lastSession = None\<rparr>))))) =
     Some [1, 2]"
proof -
  let ?st = "\<lparr>ls_open = True, ls_lastSession = None\<rparr>"
  obtain ok s' st' where sv: "saveNonces map_prefs 7 (Some [1, 2]) Map.empty ?st = (ok, s', st')"
    by (metis prod_cases3)
  then have "ok" by (simp add: saveNonces_def ensureIdentity_def pf_typed Let_def)
  with sv have t: "saveNonces map_prefs 7 (Some [1, 2]) Map.empty ?st = (True, s', st')" by simp
  have "fst (snd (lorawanState_load map_prefs 2 3 7 s' st')) = Some [1, 2]"
    using lorawan_state_isolated [OF map_prefs_laws _ _ _ _ _ _ t, where nsize = 2 and ssize = 3]
    by (simp add: pf_typed)
  with sv show ?thesis by simp
qed

end
