(* ===== verification/ReportScheduler.thy ===== *)
theory ReportScheduler
  imports FPort85Uplink
begin

text \<open>
  The periodic report: \<^verbatim>\<open>include/lorawan/FPort85ReportScheduler.h\<close>. A report is a snapshot of
  the last poll of every slot, sent as a sequence of packets; a packet stays pending, and is
  offered again after a failed transmission, until it is marked as sent.
\<close>

definition kCompatibilityReportPayloadLimit :: nat where "kCompatibilityReportPayloadLimit = 51"
definition kCompatibilityReportRetryMs :: u32 where "kCompatibilityReportRetryMs = 5000"

lemmas report_limits [simp] = kCompatibilityReportPayloadLimit_def

datatype ReportBuildStatus = NotDue | PacketReady | EmptyReport | EncodeError | BufferTooSmall

record Sample =
  sm_present :: bool
  sm_channel :: ChannelConfig
  sm_success :: bool
  sm_valueCount :: u8
  sm_values :: "DecodedScalar list"

definition default_sample :: Sample where
  "default_sample = \<lparr>sm_present = False, sm_channel = default_channel, sm_success = False,
     sm_valueCount = 0, sm_values = [default_scalar, default_scalar]\<rparr>"

text \<open>
  The settings are the interval in seconds. The pending payload is the list of its
  \<^verbatim>\<open>pendingLength_\<close> bytes; the slot cursors, at most 32, are natural numbers.
\<close>

record scheduler =
  rp_settings :: u16
  rp_samples :: "Sample list"
  rp_reportSamples :: "Sample list"
  rp_nextReportAtMs :: u32
  rp_retryAtMs :: u32
  rp_cursor :: nat
  rp_pendingNextCursor :: nat
  rp_reportInProgress :: bool
  rp_pending :: bool
  rp_immediateReportRequested :: bool
  rp_pendingPayload :: bytes

definition initial_scheduler :: scheduler where
  "initial_scheduler = \<lparr>rp_settings = kDefaultReportIntervalSeconds,
     rp_samples = replicate kCompatibilitySlotCount default_sample,
     rp_reportSamples = replicate kCompatibilitySlotCount default_sample,
     rp_nextReportAtMs = 0, rp_retryAtMs = 0, rp_cursor = 0, rp_pendingNextCursor = 0,
     rp_reportInProgress = False, rp_pending = False, rp_immediateReportRequested = False,
     rp_pendingPayload = []\<rparr>"

definition intervalMs :: "u16 \<Rightarrow> u32" where
  "intervalMs seconds = ucast seconds * 1000"

definition scheduler_begin :: "u16 \<Rightarrow> u32 \<Rightarrow> scheduler \<Rightarrow> scheduler" where
  "scheduler_begin settings nowMs s =
     (let settings' = (if validReportIntervalSeconds settings then settings
                       else kDefaultReportIntervalSeconds)
      in s\<lparr>rp_settings := settings', rp_nextReportAtMs := nowMs + intervalMs settings',
           rp_reportInProgress := False, rp_pending := False, rp_cursor := 0,
           rp_retryAtMs := 0, rp_immediateReportRequested := False\<rparr>)"

definition scheduler_applySettings :: "u16 \<Rightarrow> u32 \<Rightarrow> scheduler \<Rightarrow> bool \<times> scheduler" where
  "scheduler_applySettings settings nowMs s =
     (if \<not> validReportIntervalSeconds settings then (False, s)
      else (True, s\<lparr>rp_settings := settings, rp_nextReportAtMs := nowMs + intervalMs settings\<rparr>))"

definition requestImmediateReport :: "scheduler \<Rightarrow> scheduler" where
  "requestImmediateReport s = s\<lparr>rp_immediateReportRequested := True\<rparr>"

definition recordPoll ::
    "ChannelConfig \<Rightarrow> bool \<Rightarrow> DecodedScalar list ptr \<Rightarrow> u8 \<Rightarrow> scheduler \<Rightarrow> scheduler" where
  "recordPoll channel success values valueCount s =
     (if \<not> validChannelConfig channel \<or> unat (ch_slot channel) \<ge> kCompatibilitySlotCount then s
      else
        let i = unat (ch_slot channel);
            old = sm_values (rp_samples s ! i);
            stored = (case values of
                Some vs \<Rightarrow>
                  if success \<and> valueCount > 0
                  then (if valueCount > 1 then old[0 := vs ! 0, 1 := vs ! 1] else old[0 := vs ! 0])
                  else old
              | None \<Rightarrow> old)
        in s\<lparr>rp_samples := (rp_samples s)[i :=
             \<lparr>sm_present = True, sm_channel = channel, sm_success = success,
              sm_valueCount = (if success then valueCount else 0), sm_values = stored\<rparr>]\<rparr>)"

definition scheduler_clearSlot :: "u8 \<Rightarrow> scheduler \<Rightarrow> scheduler" where
  "scheduler_clearSlot slot s =
     (if unat slot \<ge> kCompatibilitySlotCount then s
      else s\<lparr>rp_samples := (rp_samples s)[unat slot := default_sample],
             rp_reportSamples := (rp_reportSamples s)[unat slot := default_sample]\<rparr>)"

definition encodeSample :: "Sample \<Rightarrow> encoded" where
  "encodeSample sample =
     (if sm_success sample
      then encodePollSuccess (sm_channel sample) (Some (sm_values sample)) (sm_valueCount sample)
             (Some 24)
      else encodePollFailure (sm_channel sample) (Some 24))"

text \<open>
  The packing loop of \<^verbatim>\<open>preparePacket\<close>: from slot \<open>scan\<close> with \<open>acc\<close> already packed, the packed
  bytes and the slot the next packet starts from, or the status it returns with.
\<close>

function fillPacket :: "Sample list \<Rightarrow> nat \<Rightarrow> bytes \<Rightarrow> ReportBuildStatus + bytes \<times> nat" where
  "fillPacket samples scan acc =
     (if scan < kCompatibilitySlotCount then
        if \<not> sm_present (samples ! scan) then fillPacket samples (scan + 1) acc
        else (case encodeSample (samples ! scan) of
            Inl _ \<Rightarrow> Inl EncodeError
          | Inr encoded \<Rightarrow>
              if encoded = [] then Inl EncodeError
              else if length acc + length encoded > kCompatibilityReportPayloadLimit then
                (if acc = [] then Inl BufferTooSmall else Inr (acc, scan))
              else fillPacket samples (scan + 1) (acc @ encoded))
      else Inr (acc, scan))"
  by pat_completeness auto
termination by (relation "measure (\<lambda>(_, scan, _). kCompatibilitySlotCount - scan)") auto

text \<open>Starting a report when it is due; \<open>None\<close> when it is not.\<close>

definition startReport :: "u32 \<Rightarrow> scheduler \<Rightarrow> scheduler option" where
  "startReport nowMs s =
     (if rp_reportInProgress s then Some s
      else
        let periodicDue = time_reached nowMs (rp_nextReportAtMs s)
        in if \<not> rp_immediateReportRequested s \<and> \<not> periodicDue then None
           else Some (s\<lparr>rp_reportSamples := rp_samples s, rp_reportInProgress := True,
             rp_cursor := 0, rp_immediateReportRequested := False,
             rp_nextReportAtMs := (if periodicDue then nowMs + intervalMs (rp_settings s)
                                   else rp_nextReportAtMs s)\<rparr>))"

definition preparePacket ::
    "u32 \<Rightarrow> nat ptr \<Rightarrow> scheduler \<Rightarrow> ReportBuildStatus \<times> bytes \<times> scheduler" where
  "preparePacket nowMs out s =
     (if no_room out kCompatibilityReportPayloadLimit then (BufferTooSmall, [], s)
      else if rp_pending s then
        (if \<not> time_reached nowMs (rp_retryAtMs s) then (NotDue, [], s)
         else (PacketReady, rp_pendingPayload s, s))
      else (case startReport nowMs s of
          None \<Rightarrow> (NotDue, [], s)
        | Some s \<Rightarrow> (case fillPacket (rp_reportSamples s) (rp_cursor s) [] of
            Inl e \<Rightarrow> (e, [], s)
          | Inr (payload, scan) \<Rightarrow>
              if payload = [] then
                (EmptyReport, [], s\<lparr>rp_reportInProgress := False, rp_cursor := 0\<rparr>)
              else (PacketReady, payload,
                s\<lparr>rp_pending := True, rp_pendingPayload := payload,
                  rp_pendingNextCursor := scan, rp_retryAtMs := nowMs\<rparr>))))"

definition markPacketSent :: "u32 \<Rightarrow> scheduler \<Rightarrow> scheduler" where
  "markPacketSent nowMs s =
     (if \<not> rp_pending s then s
      else
        let s1 = s\<lparr>rp_cursor := rp_pendingNextCursor s, rp_pending := False,
                   rp_pendingPayload := [], rp_retryAtMs := nowMs\<rparr>
        in if rp_cursor s1 \<ge> kCompatibilitySlotCount
           then s1\<lparr>rp_reportInProgress := False, rp_cursor := 0\<rparr> else s1)"

definition markPacketFailed :: "u32 \<Rightarrow> scheduler \<Rightarrow> scheduler" where
  "markPacketFailed nowMs s =
     (if \<not> rp_pending s then s
      else s\<lparr>rp_retryAtMs := nowMs + kCompatibilityReportRetryMs\<rparr>)"

definition abortReport :: "scheduler \<Rightarrow> scheduler" where
  "abortReport s = s\<lparr>rp_pending := False, rp_pendingPayload := [],
     rp_reportInProgress := False, rp_cursor := 0\<rparr>"

definition reportInProgress :: "scheduler \<Rightarrow> bool" where
  "reportInProgress s = (rp_reportInProgress s \<or> rp_pending s)"

end
