(* ===== verification/ReportProperties.thy ===== *)
theory ReportProperties
  imports ReportScheduler FPort85UplinkProperties
begin

text \<open>
  What the report scheduler promises: its invariant under every operation, the packets as an exact
  partition of the snapshots, and progress.
\<close>

section \<open>The operations and the invariant\<close>

datatype SchedulerOp =
  DoBegin u16 u32 | DoSettings u16 u32 | DoImmediate
| DoRecord ChannelConfig bool "DecodedScalar list ptr" u8 | DoClear u8
| DoPrepare u32 | DoSent u32 | DoFailed u32 | DoAbort

fun scheduler_step :: "SchedulerOp \<Rightarrow> scheduler \<Rightarrow> scheduler" where
  "scheduler_step (DoBegin settings now) s = scheduler_begin settings now s"
| "scheduler_step (DoSettings settings now) s = snd (scheduler_applySettings settings now s)"
| "scheduler_step DoImmediate s = requestImmediateReport s"
| "scheduler_step (DoRecord c success vs n) s = recordPoll c success vs n s"
| "scheduler_step (DoClear slot) s = scheduler_clearSlot slot s"
| "scheduler_step (DoPrepare now) s = snd (snd (preparePacket now (Some 51) s))"
| "scheduler_step (DoSent now) s = markPacketSent now s"
| "scheduler_step (DoFailed now) s = markPacketFailed now s"
| "scheduler_step DoAbort s = abortReport s"

definition scheduler_ok :: "scheduler \<Rightarrow> bool" where
  "scheduler_ok s =
     (length (rp_samples s) = 32 \<and> length (rp_reportSamples s) = 32 \<and>
      validReportIntervalSeconds (rp_settings s) \<and>
      rp_cursor s < 32 \<and> (\<not> rp_reportInProgress s \<longrightarrow> rp_cursor s = 0) \<and>
      (rp_pending s \<longrightarrow> rp_reportInProgress s \<and> rp_pendingPayload s \<noteq> [] \<and>
         length (rp_pendingPayload s) \<le> 51 \<and>
         rp_cursor s < rp_pendingNextCursor s \<and> rp_pendingNextCursor s \<le> 32))"

declare fillPacket.simps [simp del]

lemma fillPacket_bounds:
  assumes "fillPacket samples scan acc = Inr (payload, scan')" "length acc \<le> 51" "scan \<le> 32"
  shows "scan \<le> scan' \<and> scan' \<le> 32 \<and> length payload \<le> 51 \<and> (acc = [] \<longrightarrow> payload \<noteq> [] \<longrightarrow> scan < scan')"
  using assms
proof (induction samples scan acc rule: fillPacket.induct)
  case (1 samples scan acc)
  show ?case
    using "1.prems" "1.IH"
    by (subst (asm) fillPacket.simps) (fastforce split: if_splits sum.splits)
qed

lemma startReport_ok:
  "scheduler_ok s \<Longrightarrow> startReport now s = Some s' \<Longrightarrow>
     scheduler_ok s' \<and> rp_reportInProgress s' \<and> rp_pending s' = rp_pending s"
  by (auto simp: startReport_def Let_def scheduler_ok_def split: if_splits)

lemma preparePacket_ok:
  assumes "scheduler_ok s" "preparePacket now out s = (st, payload, s')"
  shows "scheduler_ok s'"
  using assms
  by (auto simp: preparePacket_def scheduler_ok_def startReport_def Let_def
      split: if_splits option.splits sum.splits dest!: fillPacket_bounds)

lemma scheduler_step_ok: "scheduler_ok s \<Longrightarrow> scheduler_ok (scheduler_step op s)"
proof (cases op)
  case (DoPrepare now)
  obtain st p s' where "preparePacket now (Some 51) s = (st, p, s')" by (metis prod_cases3)
  then show "scheduler_ok s \<Longrightarrow> ?thesis" using preparePacket_ok DoPrepare by simp
qed (auto simp: scheduler_ok_def scheduler_begin_def scheduler_applySettings_def Let_def
    requestImmediateReport_def recordPoll_def scheduler_clearSlot_def markPacketSent_def
    markPacketFailed_def abortReport_def validReportIntervalSeconds_def
    kDefaultReportIntervalSeconds_def kMinReportIntervalSeconds_def kMaxReportIntervalSeconds_def)

interpretation report_scheduler: step_machine scheduler_step scheduler_ok
  by unfold_locales (rule scheduler_step_ok)

lemma initial_scheduler_ok: "scheduler_ok initial_scheduler"
  by (simp add: scheduler_ok_def initial_scheduler_def validReportIntervalSeconds_def
      kDefaultReportIntervalSeconds_def kMinReportIntervalSeconds_def kMaxReportIntervalSeconds_def)

section \<open>Snapshots and what is left of them\<close>

definition sample_frame :: "Sample \<Rightarrow> bytes" where
  "sample_frame x = (if sm_present x then (case encodeSample x of Inr e \<Rightarrow> e | Inl _ \<Rightarrow> []) else [])"

definition sample_ok :: "Sample \<Rightarrow> bool" where
  "sample_ok x = (sm_present x \<longrightarrow> encodeSample x = Inr (sample_frame x) \<and>
     sample_frame x \<noteq> [] \<and> length (sample_frame x) \<le> 24)"

definition frames_from :: "Sample list \<Rightarrow> nat \<Rightarrow> bytes" where
  "frames_from samples k = concat (map sample_frame (drop k samples))"

definition remaining :: "scheduler \<Rightarrow> bytes" where
  "remaining s = (if rp_reportInProgress s then frames_from (rp_reportSamples s) (rp_cursor s) else [])"

definition report_ok :: "scheduler \<Rightarrow> bool" where
  "report_ok s = (scheduler_ok s \<and> (\<forall>x \<in> set (rp_samples s) \<union> set (rp_reportSamples s).
        sample_ok x \<and> length (sm_values x) = 2) \<and>
     (rp_pending s \<longrightarrow> remaining s = rp_pendingPayload s @
        frames_from (rp_reportSamples s) (rp_pendingNextCursor s)))"

lemma frames_from_step:
  "k < length samples \<Longrightarrow> frames_from samples k = sample_frame (samples ! k) @ frames_from samples (Suc k)"
  by (simp add: frames_from_def flip: Cons_nth_drop_Suc)

lemma frames_from_end [simp]: "length samples \<le> k \<Longrightarrow> frames_from samples k = []"
  by (simp add: frames_from_def)

lemma fillPacket_frames:
  assumes "length samples = 32" "\<And>x. x \<in> set samples \<Longrightarrow> sample_ok x" "scan \<le> 32" "length acc \<le> 51"
  shows "\<exists>payload scan'. fillPacket samples scan acc = Inr (payload, scan') \<and>
    payload @ frames_from samples scan' = acc @ frames_from samples scan \<and>
    (payload = [] \<longrightarrow> scan' = 32)"
  using assms
proof (induction samples scan acc rule: fillPacket.induct)
  case (1 samples scan acc)
  show ?case
  proof (cases "scan < 32")
    case False
    with "1.prems" show ?thesis by (subst fillPacket.simps) simp
  next
    case True
    let ?x = "samples ! scan"
    have ok: "sample_ok ?x" using True "1.prems" by simp
    have step: "frames_from samples scan = sample_frame ?x @ frames_from samples (Suc scan)"
      using True "1.prems" by (simp add: frames_from_step)
    show ?thesis
    proof (cases "sm_present ?x")
      case False
      then have "sample_frame ?x = []" by (simp add: sample_frame_def)
      with False True "1.IH"(1) "1.prems" step show ?thesis
        by (subst fillPacket.simps) simp
    next
      case p: True
      then have e: "encodeSample ?x = Inr (sample_frame ?x)" "sample_frame ?x \<noteq> []"
        "length (sample_frame ?x) \<le> 24"
        using ok by (simp_all add: sample_ok_def)
      show ?thesis
      proof (cases "length acc + length (sample_frame ?x) > 51")
        case True
        with e have "acc \<noteq> []" by auto
        with True \<open>scan < 32\<close> p e show ?thesis by (subst fillPacket.simps) simp
      next
        case False
        with "1.IH"(2) "1.prems" True p e step show ?thesis
          by (subst fillPacket.simps) simp
      qed
    qed
  qed
qed

text \<open>What a poll records can be encoded when the values it reports can.\<close>

lemma encodeValueFrames_cong:
  "(\<And>j. i \<le> j \<Longrightarrow> j < i + n \<Longrightarrow> vs ! j = ws ! j) \<Longrightarrow>
     encodeValueFrames c vs i n room = encodeValueFrames c ws i n room"
  by (induction n arbitrary: i room) (auto split: sum.splits)

lemma encodePollSuccess_cong:
  "(\<And>j. j < unat n \<Longrightarrow> vs ! j = ws ! j) \<Longrightarrow>
     encodePollSuccess c (Some vs) n out = encodePollSuccess c (Some ws) n out"
  by (auto simp: encodePollSuccess_def intro!: encodeValueFrames_cong split: option.splits)

lemma map_sum_Inr: "map_sum id g x = Inr e \<longleftrightarrow> (\<exists>y. x = Inr y \<and> e = g y)"
  by (cases x) auto

lemma encodeValueFrames_length:
  "encodeValueFrames c vs i n room = Inr e \<Longrightarrow> length e \<le> room \<and> 4 * n \<le> length e"
proof (induction n arbitrary: i room e)
  case (Suc n)
  then obtain d f e' where f: "encodeChannelValue c (of_nat i) (Some d) (Some room) = Inr f"
    and e': "encodeValueFrames c vs (Suc i) n (room - length f) = Inr e'" "e = f @ e'"
    by (auto simp: map_sum_Inr split: sum.splits)
  have "4 \<le> length f" "length f \<le> room"
    using f by (auto simp: encodeChannelValue_def encodePeriodicValue_def Let_def split: if_splits)
  with Suc.IH [OF e'(1)] e'(2) show ?case by auto
qed simp

lemma encodePollSuccess_length:
  assumes "encodePollSuccess c vs n (Some room) = Inr e"
  shows "0 < length e \<and> length e \<le> room"
proof -
  obtain ws where "0 < unat n" "encodeValueFrames c ws 0 (unat n) room = Inr e"
    using assms by (auto simp: encodePollSuccess_def unat_gt_0 split: option.splits if_splits)
  with encodeValueFrames_length [of c ws 0 "unat n" room e] show ?thesis by auto
qed

lemma failure_sample_ok: "validChannelConfig c \<Longrightarrow> \<not> sm_success x \<Longrightarrow> sm_channel x = c \<Longrightarrow> sample_ok x"
  by (auto simp: sample_ok_def sample_frame_def encodeSample_def encodePollFailure_def
      encodeCollectionException_def validChannelConfig_def)

lemma sample_okI: "encodeSample x = Inr e \<Longrightarrow> e \<noteq> [] \<Longrightarrow> length e \<le> 24 \<Longrightarrow> sample_ok x"
  by (simp add: sample_ok_def sample_frame_def)

definition recordable :: "ChannelConfig \<Rightarrow> bool \<Rightarrow> DecodedScalar list ptr \<Rightarrow> u8 \<Rightarrow> bool" where
  "recordable c success vs n =
     (validChannelConfig c \<longrightarrow> success \<longrightarrow> (\<exists>e. encodePollSuccess c vs n (Some 24) = Inr e))"

lemma recorded_sample_ok:
  assumes "recordable c success vs n" "validChannelConfig c" "length old = 2"
  shows "sample_ok \<lparr>sm_present = True, sm_channel = c, sm_success = success,
    sm_valueCount = (if success then n else 0),
    sm_values = (case vs of
        Some ws \<Rightarrow> if success \<and> n > 0
          then (if n > 1 then old[0 := ws ! 0, 1 := ws ! 1] else old[0 := ws ! 0]) else old
      | None \<Rightarrow> old)\<rparr>" (is "sample_ok ?x")
proof (cases success)
  case False
  with assms(2) show ?thesis by (intro failure_sample_ok) simp_all
next
  case True
  then obtain e where e: "encodePollSuccess c vs n (Some 24) = Inr e"
    using assms(1,2) by (auto simp: recordable_def)
  then obtain ws where ws: "vs = Some ws" "0 < n" "n \<le> 2"
    by (auto simp: encodePollSuccess_def word_gt_0 split: option.splits if_splits)
  have "sm_values ?x ! j = ws ! j" if "j < unat n" for j
  proof -
    have "unat n \<le> 2" using ws(3) by (simp add: word_le_nat_alt)
    with that have "j = 0 \<or> j = 1 \<and> 1 < n" by (auto simp: word_less_nat_alt)
    then show ?thesis using True ws assms(3) by auto
  qed
  then have "encodeSample ?x = Inr e"
    using e True ws(1) encodePollSuccess_cong [of n "sm_values ?x" ws c "Some 24"]
    by (simp add: encodeSample_def)
  with encodePollSuccess_length [OF e] show ?thesis by (intro sample_okI) auto
qed

section \<open>Reports are sent whole\<close>

text \<open>
  The operations that neither drop a report nor a slot, the bytes an operation acknowledges, and
  the snapshot it starts.
\<close>

fun sending :: "SchedulerOp \<Rightarrow> bool" where
  "sending (DoRecord c success vs n) = recordable c success vs n"
| "sending (DoBegin _ _) = False"
| "sending (DoClear _) = False"
| "sending DoAbort = False"
| "sending _ = True"

fun acked_by :: "SchedulerOp \<Rightarrow> scheduler \<Rightarrow> bytes" where
  "acked_by (DoSent now) s = (if rp_pending s then rp_pendingPayload s else [])"
| "acked_by _ s = []"

fun started_by :: "SchedulerOp \<Rightarrow> scheduler \<Rightarrow> bytes" where
  "started_by (DoPrepare now) s =
     (if \<not> rp_pending s \<and> \<not> rp_reportInProgress s \<and>
         (rp_immediateReportRequested s \<or> time_reached now (rp_nextReportAtMs s))
      then frames_from (rp_samples s) 0 else [])"
| "started_by _ s = []"

fun report_run :: "SchedulerOp list \<Rightarrow> scheduler \<Rightarrow> bytes \<times> bytes \<times> scheduler" where
  "report_run [] s = ([], [], s)"
| "report_run (op # ops) s =
     (case report_run ops (scheduler_step op s) of
        (acked, started, s') \<Rightarrow> (acked_by op s @ acked, started_by op s @ started, s'))"

lemma report_okD:
  "report_ok s \<Longrightarrow> scheduler_ok s"
  "report_ok s \<Longrightarrow> x \<in> set (rp_reportSamples s) \<Longrightarrow> sample_ok x"
  "report_ok s \<Longrightarrow> x \<in> set (rp_samples s) \<Longrightarrow> sample_ok x \<and> length (sm_values x) = 2"
  "report_ok s \<Longrightarrow> rp_pending s \<Longrightarrow> remaining s = rp_pendingPayload s @
     frames_from (rp_reportSamples s) (rp_pendingNextCursor s)"
  by (auto simp: report_ok_def)

lemma sample_values_kept: "report_ok s \<Longrightarrow> i < 32 \<Longrightarrow> length (sm_values (rp_samples s ! i)) = 2"
  by (simp add: report_ok_def scheduler_ok_def)

lemma record_step:
  assumes "report_ok s" "recordable c success vs n"
  shows "report_ok (recordPoll c success vs n s) \<and> remaining (recordPoll c success vs n s) = remaining s"
proof (cases "validChannelConfig c")
  case False
  with assms show ?thesis by (simp add: recordPoll_def)
next
  case True
  then have i: "unat (ch_slot c) < 32" by (simp add: validChannelConfig_def)
  have ok: "scheduler_ok (recordPoll c success vs n s)"
    using scheduler_step_ok [of s "DoRecord c success vs n"] assms(1) by (simp add: report_ok_def)
  show ?thesis
    using assms(1) ok i True recorded_sample_ok [OF assms(2) True sample_values_kept [OF assms(1) i]]
      sample_values_kept [OF assms(1) i]
    by (auto simp: report_ok_def recordPoll_def Let_def remaining_def frames_from_def
        dest!: set_update_subset_insert [THEN subsetD] split: option.splits)
qed

lemma prepare_step:
  assumes "report_ok s"
  shows "report_ok (scheduler_step (DoPrepare now) s) \<and>
    remaining (scheduler_step (DoPrepare now) s) = remaining s @ started_by (DoPrepare now) s"
proof (cases "rp_pending s \<or> startReport now s = None")
  case True
  then show ?thesis
    using assms by (auto simp: preparePacket_def startReport_def Let_def split: if_splits)
next
  case False
  then obtain s1 where s1: "startReport now s = Some s1" by auto
  have ok1: "scheduler_ok s1" "rp_reportInProgress s1" "\<not> rp_pending s1"
    using startReport_ok [OF report_okD(1) [OF assms] s1] False by auto
  have same: "rp_samples s1 = rp_samples s" "set (rp_reportSamples s1) \<subseteq> set (rp_samples s) \<union> set (rp_reportSamples s)"
    and rem: "remaining s1 = remaining s @ started_by (DoPrepare now) s"
    using s1 False by (auto simp: startReport_def Let_def remaining_def split: if_splits)
  have samples: "sample_ok x" if "x \<in> set (rp_reportSamples s1)" for x
    using that same assms by (auto simp: report_ok_def)
  have len: "length (rp_reportSamples s1) = 32" "rp_cursor s1 \<le> 32"
    using ok1(1) by (simp_all add: scheduler_ok_def)
  obtain p k where f: "fillPacket (rp_reportSamples s1) (rp_cursor s1) [] = Inr (p, k)"
    "p @ frames_from (rp_reportSamples s1) k = frames_from (rp_reportSamples s1) (rp_cursor s1)"
    "p = [] \<longrightarrow> k = 32"
    using fillPacket_frames [OF len(1) samples len(2), of "[]"] by auto
  have ok: "scheduler_ok (scheduler_step (DoPrepare now) s)"
    by (rule scheduler_step_ok [OF report_okD(1) [OF assms]])
  show ?thesis
  proof (cases "p = []")
    case True
    then show ?thesis
      using ok f len s1 False rem same assms ok1
      by (auto simp: preparePacket_def report_ok_def remaining_def)
  next
    case p: False
    then show ?thesis
      using ok f len s1 False rem same assms ok1
      by (auto simp: preparePacket_def report_ok_def remaining_def)
  qed
qed

lemma sent_step:
  assumes "report_ok s"
  shows "report_ok (markPacketSent now s) \<and>
    acked_by (DoSent now) s @ remaining (markPacketSent now s) = remaining s"
proof -
  have "scheduler_ok (markPacketSent now s)"
    using scheduler_step_ok [OF report_okD(1) [OF assms], of "DoSent now"] by simp
  with assms show ?thesis
    by (auto simp: report_ok_def markPacketSent_def Let_def remaining_def scheduler_ok_def)
qed

lemma sending_step:
  assumes "report_ok s" "sending op"
  shows "report_ok (scheduler_step op s) \<and>
    acked_by op s @ remaining (scheduler_step op s) = remaining s @ started_by op s"
proof (cases op)
  case (DoRecord c success vs n)
  with record_step [OF assms(1)] assms(2) show ?thesis by simp
next
  case (DoPrepare now)
  with prepare_step [OF assms(1)] show ?thesis by simp
next
  case (DoSent now)
  with sent_step [OF assms(1)] show ?thesis by simp
qed (use assms scheduler_step_ok [OF report_okD(1) [OF assms(1)], of op] in
  \<open>auto simp: report_ok_def remaining_def scheduler_applySettings_def requestImmediateReport_def
     markPacketFailed_def\<close>)

text \<open>
  C26. Reports are sent whole: however polls, failed transmissions, retries, immediate requests and
  settings changes interleave with the sending, the bytes of the acknowledged packets followed by
  what is still to be sent are exactly the snapshots taken when the reports started, every slot's
  frame once and in slot order.
\<close>

theorem reports_sent_whole:
  assumes "report_ok s" "\<And>op. op \<in> set ops \<Longrightarrow> sending op"
    and "report_run ops s = (acked, started, s')"
  shows "acked @ remaining s' = remaining s @ started \<and> report_ok s'"
  using assms
proof (induction ops arbitrary: s acked started)
  case Nil
  then show ?case by simp
next
  case (Cons op ops)
  obtain a st where r: "report_run ops (scheduler_step op s) = (a, st, s')"
    "acked = acked_by op s @ a" "started = started_by op s @ st"
    using Cons.prems(3) by (auto split: prod.splits)
  have step: "report_ok (scheduler_step op s)"
    "acked_by op s @ remaining (scheduler_step op s) = remaining s @ started_by op s"
    using sending_step [OF Cons.prems(1)] Cons.prems(2) by simp_all
  have "a @ remaining s' = remaining (scheduler_step op s) @ st \<and> report_ok s'"
    using Cons.IH [OF step(1) _ r(1)] Cons.prems(2) by simp
  with step(2) r(2,3) show ?case by (metis append.assoc)
qed

lemma initial_report_ok: "report_ok initial_scheduler"
  using initial_scheduler_ok
  by (simp add: report_ok_def) (simp add: initial_scheduler_def sample_ok_def default_sample_def)

definition sample_report_ops :: "SchedulerOp list" where
  "sample_report_ops =
     [DoRecord default_channel False None 0, DoImmediate, DoPrepare 10, DoFailed 20, DoSent 30]"

lemma reports_sent_whole_witness:
  "\<exists>s'. report_run sample_report_ops initial_scheduler = ([0xff, 0x15, 0], [0xff, 0x15, 0], s') \<and>
     remaining s' = []"
proof -
  let ?r = "report_run sample_report_ops initial_scheduler"
  have e: "fst ?r = [0xff, 0x15, 0] \<and> fst (snd ?r) = [0xff, 0x15, 0]"
    by code_simp
  have i: "remaining initial_scheduler = []"
    by (simp add: remaining_def initial_scheduler_def)
  obtain a b s' where r: "?r = (a, b, s')" by (metis prod_cases3)
  have "a @ remaining s' = remaining initial_scheduler @ b \<and> report_ok s'"
    by (rule reports_sent_whole [OF initial_report_ok _ r])
       (auto simp: sample_report_ops_def recordable_def)
  with e i r show ?thesis by auto
qed

text \<open>
  A report in progress cannot get stuck or outgrow its frame: whenever the retry time of a
  pending packet has come, or none is pending, preparing yields a packet of 1 to 51 bytes that is
  a prefix of what is left, or the report is complete; and acknowledging that packet removes
  exactly it.
\<close>

theorem report_progress:
  assumes "report_ok s" "rp_reportInProgress s" "rp_pending s \<longrightarrow> time_reached now (rp_retryAtMs s)"
    and "preparePacket now (Some cap) s = (st, p, s')" "51 \<le> cap"
  shows "if remaining s = [] then st = EmptyReport \<and> \<not> reportInProgress s'
    else st = PacketReady \<and> 1 \<le> length p \<and> length p \<le> 51 \<and>
      remaining s = p @ remaining (markPacketSent now' s') \<and>
      length (remaining (markPacketSent now' s')) < length (remaining s)"
proof -
  have prep: "preparePacket now (Some 51) s = (st, p, s')"
    using assms(4,5) by (simp add: preparePacket_def)
  have s': "report_ok s'" "remaining s' = remaining s"
    using prepare_step [OF assms(1), of now] prep assms(2) by simp_all
  have sent: "acked_by (DoSent now') s' @ remaining (markPacketSent now' s') = remaining s"
    using sent_step [OF s'(1)] s'(2) by simp
  show ?thesis
  proof (cases "rp_pending s")
    case True
    then have "st = PacketReady" "p = rp_pendingPayload s" "s' = s"
      using prep assms(3) by (auto simp: preparePacket_def)
    moreover have "p \<noteq> []" "length p \<le> 51"
      using report_okD(1) [OF assms(1)] True calculation by (simp_all add: scheduler_ok_def)
    ultimately show ?thesis using True by (auto simp: Suc_le_eq simp flip: sent)
  next
    case False
    have len: "length (rp_reportSamples s) = 32" "rp_cursor s \<le> 32"
      using report_okD(1) [OF assms(1)] by (simp_all add: scheduler_ok_def)
    obtain q k where f: "fillPacket (rp_reportSamples s) (rp_cursor s) [] = Inr (q, k)"
      "q @ frames_from (rp_reportSamples s) k = remaining s" "q = [] \<longrightarrow> k = 32"
      using fillPacket_frames [OF len(1) report_okD(2) [OF assms(1)] len(2), of "[]"] assms(2)
      by (auto simp: remaining_def)
    have "length q \<le> 51" using fillPacket_bounds [OF f(1)] len by simp
    with f False assms(2) prep sent len show ?thesis
      by (cases "q = []")
         (auto simp: preparePacket_def startReport_def reportInProgress_def Suc_le_eq simp flip: sent)
  qed
qed

definition sample_started :: scheduler where
  "sample_started = snd (snd (report_run
     [DoRecord default_channel False None 0, DoImmediate, DoPrepare 10] initial_scheduler))"

lemma report_progress_witness:
  "\<exists>p s'. preparePacket 10 (Some 242) sample_started = (PacketReady, p, s') \<and>
     1 \<le> length p \<and> length p \<le> 51 \<and> remaining (markPacketSent 20 s') = []"
proof -
  have e: "remaining sample_started = [0xff, 0x15, 0] \<and> rp_reportInProgress sample_started \<and>
      time_reached 10 (rp_retryAtMs sample_started) \<and>
      remaining (markPacketSent 20 (snd (snd (preparePacket 10 (Some 242) sample_started)))) = []"
    by code_simp
  have ok: "report_ok sample_started"
  proof -
    have "report_ok (fold scheduler_step ops s)" if "report_ok s" "\<forall>op \<in> set ops. sending op" for ops s
      using that by (induction ops arbitrary: s) (auto dest: sending_step)
    from this [OF initial_report_ok, of "[DoRecord default_channel False None 0, DoImmediate, DoPrepare 10]"]
    show ?thesis by (simp add: sample_started_def recordable_def)
  qed
  obtain st p s' where r: "preparePacket 10 (Some 242) sample_started = (st, p, s')" by (metis prod_cases3)
  show ?thesis
    using report_progress [OF ok _ _ r, of 20] e r by simp
qed

end
