(* ===== verification/LocalTime.thy ===== *)
theory LocalTime
  imports Prelude "HOL-Library.Signed_Division"
begin

text \<open>
  Local time: \<^verbatim>\<open>include/time/TimeSettings.h\<close> and \<^verbatim>\<open>include/time/LocalTime.h\<close>. Fields of the
  settings keep their width. The calendar arithmetic is on \<open>int\<close>: its C types are 64-bit, 32-bit
  signed and 32-bit unsigned integers. The day number is cut to 32 bits as the code does, which keeps every
  later value of it within its type as long as \<^verbatim>\<open>z - 146096\<close> is one (days from 5.8 million years
  before to as many after 1970). Signed division truncates (\<open>sdiv\<close>, \<open>smod\<close>), and the two unsigned
  constants \<^verbatim>\<open>static_cast<unsigned>(-3)\<close> and \<^verbatim>\<open>static_cast<unsigned>(-9)\<close> wrap around.
\<close>

section \<open>Settings\<close>

record DstTransition =
  dt_month :: u8
  dt_week :: u8
  dt_weekday :: u8
  dt_minuteOfDay :: u16

record DstSettings =
  ds_enabled :: bool
  ds_biasMinutes :: u8
  ds_start :: DstTransition
  ds_end :: DstTransition

text \<open>The offset is a signed 16-bit integer, in two's complement.\<close>

record TimeSettings =
  ts_utcOffsetMinutes :: u16
  ts_dst :: DstSettings

definition default_transition :: DstTransition where
  "default_transition = \<lparr>dt_month = 0, dt_week = 0, dt_weekday = 0, dt_minuteOfDay = 0\<rparr>"

definition default_time_settings :: TimeSettings where
  "default_time_settings = \<lparr>ts_utcOffsetMinutes = 0, ts_dst = \<lparr>ds_enabled = False,
     ds_biasMinutes = 0, ds_start = default_transition, ds_end = default_transition\<rparr>\<rparr>"

definition validUtcOffsetMinutes :: "u16 \<Rightarrow> bool" where
  "validUtcOffsetMinutes minutes = (-720 \<le> sint minutes \<and> sint minutes \<le> 840)"

definition validDstTransition :: "DstTransition \<Rightarrow> bool" where
  "validDstTransition t =
     (dt_month t \<ge> 1 \<and> dt_month t \<le> 12 \<and> dt_week t \<ge> 1 \<and> dt_week t \<le> 5 \<and>
      dt_weekday t \<ge> 1 \<and> dt_weekday t \<le> 7 \<and> dt_minuteOfDay t \<le> 1439)"

definition validDstSettings :: "DstSettings \<Rightarrow> bool" where
  "validDstSettings s =
     (if \<not> ds_enabled s then ds_biasMinutes s \<le> 120
      else ds_biasMinutes s \<ge> 1 \<and> ds_biasMinutes s \<le> 120 \<and>
        validDstTransition (ds_start s) \<and> validDstTransition (ds_end s))"

section \<open>The calendar\<close>

record LocalDateTime =
  ld_year :: int
  ld_month :: int
  ld_day :: int
  ld_weekday :: int
  ld_hour :: int
  ld_minute :: int

definition daysFromCivil :: "int \<Rightarrow> int \<Rightarrow> int \<Rightarrow> int" where
  "daysFromCivil year month day =
     (let year = year - (if month \<le> 2 then 1 else 0);
          era = (if year \<ge> 0 then year else year - 399) sdiv 400;
          yoe = year - era * 400;
          doy = (153 * ((month + (if month > 2 then 2 ^ 32 - 3 else 9)) mod 2 ^ 32) + 2) div 5 + day - 1;
          doe = yoe * 365 + yoe div 4 - yoe div 100 + doy
      in era * 146097 + doe - 719468)"

definition leapYear :: "int \<Rightarrow> bool" where
  "leapYear year = (year smod 4 = 0 \<and> year smod 100 \<noteq> 0 \<or> year smod 400 = 0)"

definition daysInMonth :: "int \<Rightarrow> int \<Rightarrow> int" where
  "daysInMonth year month =
     (if month = 2 \<and> leapYear year then 29
      else if 1 \<le> month \<and> month \<le> 12
      then [31, 28, 31, 30, 31, 30, 31, 31, 30, 31, 30, 31] ! nat (month - 1)
      else 0)"

definition isoWeekday :: "int \<Rightarrow> int \<Rightarrow> int \<Rightarrow> int" where
  "isoWeekday year month day =
     (let days = daysFromCivil year month day;
          value = (days + 3) smod 7
      in (if value < 0 then value + 7 else value) + 1)"

definition transitionDayOfMonth :: "int \<Rightarrow> DstTransition \<Rightarrow> int" where
  "transitionDayOfMonth year t =
     (let dim = daysInMonth year (uint (dt_month t))
      in if dim = 0 \<or> \<not> validDstTransition t then 0
         else if dt_week t < 5 then
           (let firstWeekday = isoWeekday year (uint (dt_month t)) 1;
                delta = (7 + uint (dt_weekday t) - firstWeekday) smod 7;
                day = 1 + delta + (uint (dt_week t) - 1) * 7
            in if day \<le> dim then day else 0)
         else
           (let lastWeekday = isoWeekday year (uint (dt_month t)) dim;
                delta = (7 + lastWeekday - uint (dt_weekday t)) smod 7
            in dim - delta))"

text \<open>\<open>None\<close> is the result \<^verbatim>\<open>INT64_MIN\<close>.\<close>

definition localSecondsForTransition :: "int \<Rightarrow> DstTransition \<Rightarrow> int option" where
  "localSecondsForTransition year t =
     (let day = transitionDayOfMonth year t
      in if day = 0 then None
         else Some (daysFromCivil year (uint (dt_month t)) day * 86400 + uint (dt_minuteOfDay t) * 60))"

definition dateTimeFromEpoch :: "int \<Rightarrow> LocalDateTime" where
  "dateTimeFromEpoch seconds =
     (let days0 = seconds sdiv 86400; sod0 = seconds smod 86400;
          (days, sod) = (if sod0 < 0 then (days0 - 1, sod0 + 86400) else (days0, sod0));
          z = sint (word_of_int (days + 719468) :: 32 word);
          era = (if z \<ge> 0 then z else z - 146096) sdiv 146097;
          doe = z - era * 146097;
          yoe = (doe - doe div 1460 + doe div 36524 - doe div 146096) div 365;
          doy = doe - (365 * yoe + yoe div 4 - yoe div 100);
          mp = (5 * doy + 2) div 153;
          day = doy - (153 * mp + 2) div 5 + 1;
          month = (mp + (if mp < 10 then 3 else 2 ^ 32 - 9)) mod 2 ^ 32;
          year = yoe + era * 400 + (if month \<le> 2 then 1 else 0)
      in \<lparr>ld_year = year, ld_month = month, ld_day = day, ld_weekday = isoWeekday year month day,
          ld_hour = sod sdiv 3600, ld_minute = (sod smod 3600) sdiv 60\<rparr>)"

definition dstActiveForStandardLocalSeconds :: "int \<Rightarrow> TimeSettings \<Rightarrow> bool" where
  "dstActiveForStandardLocalSeconds standardLocalSeconds settings =
     (let dst = ts_dst settings
      in if \<not> ds_enabled dst \<or> \<not> validDstSettings dst then False
         else
           let standard = dateTimeFromEpoch standardLocalSeconds
           in case (localSecondsForTransition (ld_year standard) (ds_start dst),
                    localSecondsForTransition (ld_year standard) (ds_end dst)) of
                (Some start, Some end0) \<Rightarrow>
                  let end = end0 - uint (ds_biasMinutes dst) * 60
                  in if start < end
                     then standardLocalSeconds \<ge> start \<and> standardLocalSeconds < end
                     else standardLocalSeconds \<ge> start \<or> standardLocalSeconds < end
              | _ \<Rightarrow> False)"

definition localDateTime :: "u32 \<Rightarrow> TimeSettings \<Rightarrow> LocalDateTime" where
  "localDateTime unixSeconds settings =
     (let localSeconds = uint unixSeconds + sint (ts_utcOffsetMinutes settings) * 60
      in dateTimeFromEpoch
           (if dstActiveForStandardLocalSeconds localSeconds settings
            then localSeconds + uint (ds_biasMinutes (ts_dst settings)) * 60 else localSeconds))"

end
