(* ===== verification/TimeProperties.thy ===== *)
theory TimeProperties
  imports LocalTime
begin

text \<open>
  The calendar is right: dates and day numbers correspond exactly, an instant has its date as far as its
  day number fits the 32 bits it is cut to, and a daylight saving transition falls on the weekday and the
  week its rule names.
\<close>

section \<open>Truncating division\<close>

lemma sdiv_nonneg: "0 \<le> (a :: int) \<Longrightarrow> 0 < n \<Longrightarrow> a sdiv n = a div n"
  by (cases "a = 0") (simp_all add: signed_divide_int_def)

lemma smod_nonneg: "0 \<le> (a :: int) \<Longrightarrow> 0 < n \<Longrightarrow> a smod n = a mod n"
  by (cases "a = 0") (simp_all add: signed_modulo_int_def)

lemma sdiv_neg: "(a :: int) < 0 \<Longrightarrow> 0 < n \<Longrightarrow> a sdiv n = - ((- a) div n)"
  by (simp add: signed_divide_int_def)

lemma smod_eq: "(a :: int) smod n = a - (a sdiv n) * n"
  by (simp add: minus_sdiv_mult_eq_smod)

text \<open>The idiom for a floor division by a truncating one.\<close>

lemma sdiv_floor:
  assumes "0 < (n :: int)"
  shows "(if a \<ge> 0 then a else a - (n - 1)) sdiv n = a div n"
proof (cases "a \<ge> 0")
  case False
  have "- (a - (n - 1)) = - (a div n) * n + (n - 1 - a mod n)"
    using div_mult_mod_eq [of a n] by (simp add: algebra_simps)
  moreover have "0 \<le> n - 1 - a mod n" "n - 1 - a mod n < n"
    using pos_mod_bound [OF assms, of a] pos_mod_sign [OF assms, of a] by linarith+
  ultimately have "(- (a - (n - 1))) div n = - (a div n)"
    by (intro int_div_pos_eq [of _ _ _ "n - 1 - a mod n"]) (simp_all add: mult.commute)
  then show ?thesis using False assms by (simp add: sdiv_neg)
qed (use assms in \<open>simp add: sdiv_nonneg\<close>)

lemma smod_floor:
  assumes "0 < (n :: int)"
  shows "(if a smod n < 0 then (a sdiv n - 1, a smod n + n) else (a sdiv n, a smod n)) = (a div n, a mod n)"
proof (cases "0 \<le> a")
  case False
  then have q: "a sdiv n = - ((- a) div n)" and m: "a smod n = - ((- a) mod n)"
    using assms by (auto simp: sdiv_neg smod_eq minus_div_mult_eq_mod [symmetric])
  have b: "0 \<le> (- a) mod n" "(- a) mod n < n" using assms by simp_all
  show ?thesis
  proof (cases "(- a) mod n = 0")
    case True
    then have "n dvd a" by (simp add: mod_eq_0_iff_dvd)
    with q m True assms show ?thesis by (auto simp: dvd_neg_div)
  next
    case False
    with zdiv_zminus1_eq_if [of n "- a"] zmod_zminus1_eq_if [of "- a" n] assms b
    show ?thesis by (simp add: q m)
  qed
qed (use assms in \<open>simp add: sdiv_nonneg smod_nonneg not_less\<close>)

lemma smod_zero_iff: "0 < (n :: int) \<Longrightarrow> a smod n = 0 \<longleftrightarrow> a mod n = 0"
  by (auto simp: signed_modulo_int_def mod_eq_0_iff_dvd sgn_0_0)

lemma leapYear_iff: "leapYear y \<longleftrightarrow> y mod 4 = 0 \<and> y mod 100 \<noteq> 0 \<or> y mod 400 = 0"
  by (simp add: leapYear_def smod_zero_iff)

lemma mod_next:
  assumes "0 < (n :: int)"
  shows "(a + 1) mod n = 0 \<longleftrightarrow> a mod n = n - 1"
proof -
  have "(a + 1) mod n = (a mod n + 1) mod n" by (simp add: mod_add_left_eq)
  moreover have "0 \<le> a mod n" "a mod n < n" using assms by simp_all
  ultimately show ?thesis by (cases "a mod n = n - 1") simp_all
qed

lemma leap_in_era:
  assumes "0 \<le> yoe" "yoe \<le> 399"
  shows "leapYear (era * 400 + yoe + 1) \<longleftrightarrow> yoe mod 4 = 3 \<and> (yoe mod 100 \<noteq> 99 \<or> yoe = 399)"
proof -
  have "(era * 400 + yoe) mod n = yoe mod n" if "n dvd 400" for n
    using mod_mod_cancel [OF that, of "era * 400 + yoe"] mod_mod_cancel [OF that, of yoe] by simp
  moreover have "yoe mod 4 = 3" if "yoe = 399" using that by simp
  ultimately show ?thesis using assms by (auto simp: leapYear_iff mod_next)
qed

section \<open>Years within an era\<close>

lemma century_split:
  assumes "A = y div 100" "B = y mod 100 div 4" "C = (y :: int) mod 4"
  shows "y = 100 * A + 4 * B + C" "y div 4 = 25 * A + B" "y mod 100 = 4 * B + C"
    "0 \<le> B" "B \<le> 24" "0 \<le> C" "C \<le> 3"
proof -
  define w where "w = y mod 100"
  have w: "y = 100 * A + w" "0 \<le> w" "w < 100" using assms(1) by (simp_all add: w_def)
  have "C = w mod 4" using assms(3) by (simp add: w_def mod_mod_cancel)
  then have C: "w = 4 * B + C" "0 \<le> C" "C < 4" using assms(2) by (simp_all add: w_def)
  show "y = 100 * A + 4 * B + C" using w(1) C(1) by linarith
  show "y div 4 = 25 * A + B" by (rule int_div_pos_eq [of _ _ _ C]) (use w C in simp_all)
  show "y mod 100 = 4 * B + C" using C(1) by (simp add: w_def)
  show "0 \<le> B" "B \<le> 24" "0 \<le> C" "C \<le> 3" using w C by linarith+
qed

lemma year_of_era:
  assumes "0 \<le> yoe" "yoe \<le> 399" "0 \<le> doy" "doy \<le> 365"
    and "doy = 365 \<longrightarrow> yoe mod 4 = 3 \<and> (yoe mod 100 \<noteq> 99 \<or> yoe = 399)"
    and "doe = yoe * 365 + yoe div 4 - yoe div 100 + (doy :: int)"
  shows "(doe - doe div 1460 + doe div 36524 - doe div 146096) div 365 = yoe"
    "0 \<le> doe" "doe < 146097"
proof -
  define c q r where "c = yoe div 100" and "q = yoe mod 100 div 4" and "r = yoe mod 4"
  have y: "yoe = 100 * c + 4 * q + r" "yoe div 4 = 25 * c + q" "yoe mod 100 = 4 * q + r"
    by (rule century_split [OF c_def q_def r_def])+
  have b: "0 \<le> c" "c \<le> 3" "0 \<le> q" "q \<le> 24" "0 \<le> r" "r \<le> 3"
    using assms(1,2) century_split(4-7) [OF c_def q_def r_def] by (simp_all add: c_def)
  define s where "s = 1461 * q + 365 * r + doy"
  have doe: "doe = 36524 * c + s"
    using assms(6) by (simp only: y(2) c_def [symmetric]) (simp add: s_def y(1))
  have s: "0 \<le> s" "s \<le> 36524" using b assms(3,4) by (simp_all add: s_def)
  have full: "c = 3" if "s = 36524"
  proof -
    note lin = that [unfolded s_def] b assms(3,4)
    have "q = 24" "r = 3" "doy = 365" using lin by linarith+
    with assms(5) y have "yoe = 399" by simp
    then show ?thesis by (simp add: c_def)
  qed
  have d3: "doe div 36524 = (if s = 36524 then c + 1 else c)"
    using s by (auto simp: doe intro!: int_div_pos_eq)
  have d4: "doe div 146096 = (if s = 36524 then 1 else 0)"
  proof (cases "s = 36524")
    case False
    then have "36524 * c + s < 146096" using s b by linarith
    with False s b show ?thesis by (simp add: doe)
  qed (use full doe in simp)
  define t where "t = 24 * c + q + 365 * r + doy"
  have "doe = (25 * c + q) * 1460 + t" by (simp add: doe s_def t_def)
  then have d1: "doe div 1460 = 25 * c + q + t div 1460"
    by simp
  have t: "0 \<le> t" "t < 2920" using b assms(3,4) by (auto simp: t_def)
  have "0 \<le> doy - t div 1460 \<and> doy - t div 1460 \<le> 364"
  proof (cases "t < 1460")
    case True
    moreover have "doy \<noteq> 365"
      using True assms(5) b by (auto simp: t_def r_def [symmetric])
    ultimately show ?thesis using t assms(3,4) by simp
  next
    case False
    then have "t div 1460 = 1" using t by (intro int_div_pos_eq [of _ _ _ "t - 1460"]) auto
    moreover have "1 \<le> doy" using False b by (simp add: t_def)
    ultimately show ?thesis using assms(4) by simp
  qed
  moreover have "doe - doe div 1460 + doe div 36524 - doe div 146096 = yoe * 365 + (doy - t div 1460)"
  proof -
    have "doe div 36524 - doe div 146096 = c" using d3 d4 by simp
    moreover have "doe = 36524 * c + 1461 * q + 365 * r + doy" using doe by (simp add: s_def)
    ultimately show ?thesis using d1 y(1) by linarith
  qed
  ultimately show "(doe - doe div 1460 + doe div 36524 - doe div 146096) div 365 = yoe"
    by (intro int_div_pos_eq) auto
  show "0 \<le> doe" "doe < 146097" using doe s b by auto
qed

section \<open>Dates and day numbers\<close>

definition valid_date :: "int \<Rightarrow> int \<Rightarrow> int \<Rightarrow> bool" where
  "valid_date year month day =
     (1 \<le> month \<and> month \<le> 12 \<and> 1 \<le> day \<and> day \<le> daysInMonth year month)"

lemma month_cases:
  assumes "1 \<le> (m :: int)" "m \<le> 12"
  obtains "m = 1" | "m = 2" | "m = 3" | "m = 4" | "m = 5" | "m = 6" | "m = 7" | "m = 8" | "m = 9"
    | "m = 10" | "m = 11" | "m = 12"
proof -
  have "m = 1 \<or> m = 2 \<or> m = 3 \<or> m = 4 \<or> m = 5 \<or> m = 6 \<or> m = 7 \<or> m = 8 \<or> m = 9 \<or> m = 10 \<or>
      m = 11 \<or> m = 12"
    using assms by presburger
  then show ?thesis using that by blast
qed

text \<open>The year that starts in March, its month and the day in it.\<close>

lemma day_of_year:
  assumes "valid_date y m d"
  shows "\<exists>mp. 0 \<le> mp \<and> mp \<le> 11 \<and>
    (m + (if m > 2 then 2 ^ 32 - 3 else 9)) mod 2 ^ 32 = mp \<and>
    (mp + (if mp < 10 then 3 else 2 ^ 32 - 9)) mod 2 ^ 32 = m \<and>
    0 \<le> (153 * mp + 2) div 5 + d - 1 \<and> (153 * mp + 2) div 5 + d - 1 \<le> 365 \<and>
    ((153 * mp + 2) div 5 + d - 1 = 365 \<longrightarrow> m = 2 \<and> leapYear y) \<and>
    (5 * ((153 * mp + 2) div 5 + d - 1) + 2) div 153 = mp"
proof -
  have m: "1 \<le> m" "m \<le> 12" and d: "1 \<le> d" "d \<le> daysInMonth y m"
    using assms by (auto simp: valid_date_def)
  from m show ?thesis
    by (cases rule: month_cases;
        use d in \<open>auto simp: daysInMonth_def eval_nat_numeral int_div_pos_eq split: if_splits\<close>)
qed

lemma seconds_split:
  assumes "0 \<le> sod" "sod < (86400 :: int)"
  shows "(if (days * 86400 + sod) smod 86400 < 0
      then ((days * 86400 + sod) sdiv 86400 - 1, (days * 86400 + sod) smod 86400 + 86400)
      else ((days * 86400 + sod) sdiv 86400, (days * 86400 + sod) smod 86400)) = (days, sod)"
  using smod_floor [of 86400 "days * 86400 + sod"] assms by simp

text \<open>The days of which the number, counted from the first of March of the year 0, fits 32 bits with an era to spare.\<close>

definition day_in_range :: "int \<Rightarrow> bool" where
  "day_in_range days = (146096 - 2 ^ 31 \<le> days + 719468 \<and> days + 719468 < 2 ^ 31)"

lemma narrowed_day: "day_in_range days \<Longrightarrow> sint (word_of_int (days + 719468) :: 32 word) = days + 719468"
  unfolding day_in_range_def sint_sbintrunc' by (rule signed_take_bit_int_eq_self) simp_all

text \<open>Every time stamp of 32 bits is on such a day, with every offset and bias of the settings.\<close>

lemma clock_in_range:
  assumes "0 \<le> bias" "bias \<le> 255 * 60"
  shows "day_in_range ((uint (u :: u32) + sint (off :: u16) * 60 + bias) div 86400)"
proof -
  define p q s where "p = uint u" and "q = sint off" and "s = uint u + sint off * 60 + bias"
  have "0 \<le> p" "p < 4294967296" unfolding p_def using uint_lt2p [of u] by simp_all
  moreover have "- 32768 \<le> q" "q < 32768" unfolding q_def using sint_ge [of off] sint_lt [of off] by simp_all
  moreover have "s = p + q * 60 + bias" by (simp add: p_def q_def s_def)
  ultimately have "- (2 ^ 40) \<le> s" "s < 2 ^ 40" using assms by simp_all
  then have "- (2 ^ 40) div 86400 \<le> s div 86400" "s div 86400 \<le> 2 ^ 40 div 86400"
    by (simp_all only: zdiv_mono1 less_imp_le)
  then show ?thesis by (simp add: day_in_range_def s_def)
qed

lemma dateTimeFromEpoch_civil:
  assumes "valid_date y m d" "0 \<le> sod" "sod < 86400" "day_in_range (daysFromCivil y m d)"
  shows "dateTimeFromEpoch (daysFromCivil y m d * 86400 + sod) =
    \<lparr>ld_year = y, ld_month = m, ld_day = d, ld_weekday = isoWeekday y m d,
     ld_hour = sod div 3600, ld_minute = sod mod 3600 div 60\<rparr>"
proof -
  obtain mp where mp: "0 \<le> mp" "mp \<le> 11"
      "(m + (if m > 2 then 2 ^ 32 - 3 else 9)) mod 2 ^ 32 = mp"
      "(mp + (if mp < 10 then 3 else 2 ^ 32 - 9)) mod 2 ^ 32 = m"
    and doy: "0 \<le> (153 * mp + 2) div 5 + d - 1" "(153 * mp + 2) div 5 + d - 1 \<le> 365"
      "(153 * mp + 2) div 5 + d - 1 = 365 \<longrightarrow> m = 2 \<and> leapYear y"
      "(5 * ((153 * mp + 2) div 5 + d - 1) + 2) div 153 = mp"
    using day_of_year [OF assms(1)] by blast
  define yy doy yoe doe where "yy = y - (if m \<le> 2 then 1 else 0)"
    and "doy = (153 * mp + 2) div 5 + d - 1" and "yoe = yy mod 400"
    and "doe = yoe * 365 + yoe div 4 - yoe div 100 + doy"
  note doy = doy [folded doy_def]
  have era: "(if yy \<ge> 0 then yy else yy - 399) sdiv 400 = yy div 400"
    using sdiv_floor [of 400 yy] by (cases "0 \<le> yy") simp_all
  have yoe: "yy - yy div 400 * 400 = yoe" by (simp add: yoe_def minus_div_mult_eq_mod)
  have days: "daysFromCivil y m d = yy div 400 * 146097 + doe - 719468"
    unfolding daysFromCivil_def Let_def yy_def [symmetric] era yoe mp(3) doe_def doy_def ..
  have yb: "0 \<le> yoe" "yoe \<le> 399" unfolding yoe_def by simp_all
  have "yy + 1 = yy div 400 * 400 + yoe + 1" by (simp add: yoe_def)
  then have leap: "doy = 365 \<longrightarrow> yoe mod 4 = 3 \<and> (yoe mod 100 \<noteq> 99 \<or> yoe = 399)"
    using doy(3) leap_in_era [OF yb, of "yy div 400"] by (auto simp: yy_def)
  note ye = year_of_era [OF yb doy(1,2) leap doe_def]
  let ?z = "yy div 400 * 146097 + doe"
  have zera: "(if ?z \<ge> 0 then ?z else ?z - 146096) sdiv 146097 = yy div 400"
    using sdiv_floor [of 146097 ?z] ye(2,3) by (cases "0 \<le> ?z") simp_all
  have undo: "doe - (365 * yoe + yoe div 4 - yoe div 100) = doy" by (simp add: doe_def)
  have day: "doy - (153 * mp + 2) div 5 + 1 = d" by (simp add: doy_def)
  have year: "yoe + yy div 400 * 400 + (if m \<le> 2 then 1 else 0) = y"
    using div_mult_mod_eq [of yy 400] by (simp add: yoe_def yy_def split: if_splits)
  have z: "daysFromCivil y m d + 719468 = ?z" by (simp add: days)
  have narrow: "sint (word_of_int (daysFromCivil y m d + 719468) :: 32 word) = ?z"
    using narrowed_day [OF assms(4)] z by simp
  have clock: "sod sdiv 3600 = sod div 3600" "sod smod 3600 sdiv 60 = sod mod 3600 div 60"
    using assms(2) by (simp_all add: sdiv_nonneg smod_nonneg)
  show ?thesis
    unfolding dateTimeFromEpoch_def Let_def seconds_split [OF assms(2,3)] prod.case narrow zera
      add_diff_cancel_left' ye(1) undo doy(4) day mp(4) year clock ..
qed

section \<open>Every instant has its date\<close>

lemma min_split:
  fixes a n k :: int
  assumes "0 \<le> a" "0 < n" "a \<le> n * (k + 1)" "0 \<le> k" "q = min k (a div n)"
  shows "0 \<le> q" "q \<le> k" "0 \<le> a - n * q" "a - n * q \<le> n" "a - n * q = n \<longrightarrow> a = n * (k + 1)"
    "a - n * q = n \<longrightarrow> q = k"
proof -
  have m: "a = n * (a div n) + a mod n" "0 \<le> a mod n" "a mod n < n" using assms(2) by simp_all
  show "0 \<le> q" "q \<le> k" using assms(1,2,4,5) by (simp_all add: pos_imp_zdiv_nonneg_iff)
  have "0 \<le> a - n * q \<and> a - n * q \<le> n \<and> (a - n * q = n \<longrightarrow> a = n * (k + 1) \<and> q = k)"
  proof (cases "a div n \<le> k")
    case True
    then have "q = a div n" using assms(5) by simp
    then have "a - n * q = a mod n" by (simp add: minus_mult_div_eq_mod)
    then show ?thesis using m by simp
  next
    case False
    then have "n * (k + 1) \<le> n * (a div n)" using assms(2) by (intro mult_left_mono) auto
    then have a: "a = n * (k + 1)" using m assms(3) by linarith
    moreover have "q = k" using False assms(5) by simp
    ultimately show ?thesis using assms(2) by (simp add: algebra_simps)
  qed
  then show "0 \<le> a - n * q" "a - n * q \<le> n" "a - n * q = n \<longrightarrow> a = n * (k + 1)"
    "a - n * q = n \<longrightarrow> q = k" by blast+
qed

lemma doe_split:
  assumes "0 \<le> doe" "doe < (146097 :: int)"
  shows "\<exists>yoe doy. 0 \<le> yoe \<and> yoe \<le> 399 \<and> 0 \<le> doy \<and> doy \<le> 365 \<and>
    (doy = 365 \<longrightarrow> yoe mod 4 = 3 \<and> (yoe mod 100 \<noteq> 99 \<or> yoe = 399)) \<and>
    doe = yoe * 365 + yoe div 4 - yoe div 100 + doy"
proof -
  define c where "c = min 3 (doe div 36524)"
  define s where "s = doe - 36524 * c"
  have c: "0 \<le> c" "c \<le> 3" and s: "0 \<le> s" "s \<le> 36524" "s = 36524 \<longrightarrow> c = 3"
    using min_split [OF assms(1) _ _ _ c_def] assms by (simp_all add: s_def)
  define q where "q = min 24 (s div 1461)"
  define u where "u = s - 1461 * q"
  note su = min_split [OF s(1) _ _ _ q_def, folded u_def]
  have q: "0 \<le> q" "q \<le> 24" and u0: "0 \<le> u" "u \<le> 1461" "u = 1461 \<longrightarrow> s = 36525"
    using su s(2) by simp_all
  then have u: "0 \<le> u" "u \<le> 1460" using s(2) by linarith+
  have u24: "q = 24 \<longrightarrow> u = 1460 \<longrightarrow> c = 3" using s(3) by (simp add: u_def)
  define r where "r = min 3 (u div 365)"
  define doy where "doy = u - 365 * r"
  note ur = min_split [OF u(1) _ _ _ r_def, folded doy_def]
  have r: "0 \<le> r" "r \<le> 3" and doy: "0 \<le> doy" "doy \<le> 365" "doy = 365 \<longrightarrow> r = 3 \<and> u = 1460"
    using ur u(2) by simp_all
  let ?yoe = "100 * c + (4 * q + r)"
  have y: "?yoe div 100 = c" "?yoe mod 100 = 4 * q + r" using q r by simp_all
  have e: "?yoe = (25 * c + q) * 4 + r" by simp
  have y4: "?yoe div 4 = 25 * c + q" "?yoe mod 4 = r"
    unfolding e using r by (simp, simp only: mod_mult_self3, simp)
  show ?thesis
  proof (intro exI conjI)
    show "doy = 365 \<longrightarrow> ?yoe mod 4 = 3 \<and> (?yoe mod 100 \<noteq> 99 \<or> ?yoe = 399)"
      using doy(3) u24 q r y y4 by auto
    show "doe = ?yoe * 365 + ?yoe div 4 - ?yoe div 100 + doy"
      unfolding y y4 by (simp add: doy_def u_def s_def)
  qed (use c q r doy in auto)
qed

text \<open>The months of the year that starts in March.\<close>

lemma doy_split:
  assumes "0 \<le> doy" "doy \<le> 365" "doy = 365 \<longrightarrow> leapYear (y + 1)"
  shows "\<exists>m d. valid_date (y + (if m \<le> 2 then 1 else 0)) m d \<and>
    doy = (153 * ((m + (if m > 2 then 2 ^ 32 - 3 else 9)) mod 2 ^ 32) + 2) div 5 + d - 1"
proof -
  define mp where "mp = (5 * doy + 2) div 153"
  have b: "153 * mp \<le> 5 * doy + 2" "5 * doy + 2 < 153 * mp + 153"
    using pos_mod_bound [of 153 "5 * doy + 2"] pos_mod_sign [of 153 "5 * doy + 2"]
      div_mult_mod_eq [of "5 * doy + 2" 153] unfolding mp_def by linarith+
  have "1 \<le> mp + 1" "mp + 1 \<le> 12" using b assms(1,2) by linarith+
  then have "valid_date (y + (if (if mp < 10 then mp + 3 else mp - 9) \<le> 2 then 1 else 0))
      (if mp < 10 then mp + 3 else mp - 9) (doy - (153 * mp + 2) div 5 + 1) \<and>
    doy = (153 * (((if mp < 10 then mp + 3 else mp - 9) +
      (if (if mp < 10 then mp + 3 else mp - 9) > 2 then 2 ^ 32 - 3 else 9)) mod 2 ^ 32) + 2) div 5 +
      (doy - (153 * mp + 2) div 5 + 1) - 1"
    by (cases rule: month_cases;
        use b assms in \<open>auto simp: valid_date_def daysInMonth_def eval_nat_numeral\<close>)
  then show ?thesis by (intro exI)
qed

lemma every_day:
  obtains y m d where "valid_date y m d" "daysFromCivil y m d = n"
proof -
  define era where "era = (n + 719468) div 146097"
  have doe: "0 \<le> (n + 719468) mod 146097" "(n + 719468) mod 146097 < 146097" by simp_all
  obtain yoe doy where yd: "0 \<le> yoe" "yoe \<le> 399" "0 \<le> doy" "doy \<le> 365"
      "doy = 365 \<longrightarrow> yoe mod 4 = 3 \<and> (yoe mod 100 \<noteq> 99 \<or> yoe = 399)"
      "(n + 719468) mod 146097 = yoe * 365 + yoe div 4 - yoe div 100 + doy"
    using doe_split [OF doe] by blast
  define yy where "yy = era * 400 + yoe"
  have e: "yy div 400 = era" "yy - era * 400 = yoe" using yd(1,2) by (simp_all add: yy_def)
  have "doy = 365 \<longrightarrow> leapYear (yy + 1)"
    unfolding yy_def leap_in_era [OF yd(1,2)] by (rule yd(5))
  from doy_split [OF yd(3,4) this] obtain m d where
    md: "valid_date (yy + (if m \<le> 2 then 1 else 0)) m d"
      "doy = (153 * ((m + (if m > 2 then 2 ^ 32 - 3 else 9)) mod 2 ^ 32) + 2) div 5 + d - 1"
    by blast
  define y where "y = yy + (if m \<le> 2 then 1 else 0)"
  have yy: "y - (if m \<le> 2 then 1 else 0) = yy" by (simp add: y_def)
  have era: "(if yy \<ge> 0 then yy else yy - 399) sdiv 400 = era"
    using sdiv_floor [of 400 yy] e(1) by (cases "0 \<le> yy") simp_all
  have "daysFromCivil y m d = era * 146097 + (n + 719468) mod 146097 - 719468"
    unfolding daysFromCivil_def Let_def yy era e(2) md(2) [symmetric] yd(6) ..
  also have "\<dots> = n" using div_mult_mod_eq [of "n + 719468" 146097] by (simp add: era_def)
  finally show ?thesis using that md(1) by (simp add: y_def)
qed

lemma isoWeekday_mod: "isoWeekday y m d = (daysFromCivil y m d + 3) mod 7 + 1"
  using smod_floor [of 7 "daysFromCivil y m d + 3"] by (auto simp: isoWeekday_def Let_def split: if_splits)

text \<open>
  C27. The conversion of a time stamp to a date is right at every instant whose day number fits the
  32 bits it is cut to, from 5.8 million years before to as many after 1970, and so at every instant of
  the 32-bit clock: the result is a calendar date with its time of day, it is the only date with that day
  number, and the seconds are recovered from it up to the dropped second of the minute.
\<close>

theorem date_of_instant:
  assumes "146096 - 2 ^ 31 \<le> t div 86400 + 719468" "t div 86400 + 719468 < 2 ^ 31"
  shows "case dateTimeFromEpoch t of x \<Rightarrow>
     {(y, m, d). valid_date y m d \<and> daysFromCivil y m d = t div 86400} =
       {(ld_year x, ld_month x, ld_day x)} \<and>
     ld_weekday x = (t div 86400 + 3) mod 7 + 1 \<and>
     0 \<le> ld_hour x \<and> ld_hour x < 24 \<and> 0 \<le> ld_minute x \<and> ld_minute x < 60 \<and>
     t = daysFromCivil (ld_year x) (ld_month x) (ld_day x) * 86400 + ld_hour x * 3600 +
       ld_minute x * 60 + t mod 60"
proof -
  let ?sod = "t mod 86400"
  obtain y m d where ymd: "valid_date y m d" "daysFromCivil y m d = t div 86400"
    by (rule every_day)
  have sod: "0 \<le> ?sod" "?sod < 86400" by simp_all
  have date: "dateTimeFromEpoch t = \<lparr>ld_year = y', ld_month = m', ld_day = d',
      ld_weekday = isoWeekday y' m' d', ld_hour = ?sod div 3600, ld_minute = ?sod mod 3600 div 60\<rparr>"
    if "valid_date y' m' d'" "daysFromCivil y' m' d' = t div 86400" for y' m' d'
    using dateTimeFromEpoch_civil [OF that(1) sod] assms that(2) by (simp add: day_in_range_def)
  have only: "y' = y \<and> m' = m \<and> d' = d"
    if "valid_date y' m' d'" "daysFromCivil y' m' d' = t div 86400" for y' m' d'
    using date [OF that] date [OF ymd] by simp
  have unique: "{(y, m, d). valid_date y m d \<and> daysFromCivil y m d = t div 86400} = {(y, m, d)}"
    (is "?D = _")
  proof (intro subset_antisym subsetI)
    fix x assume "x \<in> ?D"
    with only show "x \<in> {(y, m, d)}" by (cases x) blast
  qed (use ymd in simp)
  have m: "?sod mod 3600 mod 60 = t mod 60" by (simp add: mod_mod_cancel)
  have secs: "t div 86400 * 86400 + ?sod div 3600 * 3600 + ?sod mod 3600 div 60 * 60 + t mod 60 = t"
    unfolding m [symmetric] by (simp only: add.assoc div_mult_mod_eq)
  have "?sod div 3600 < 24" "?sod mod 3600 div 60 < 60"
    using sod by (simp_all add: div_less_iff_less_mult)
  moreover have "0 \<le> ?sod div 3600" "0 \<le> ?sod mod 3600 div 60"
    by (simp_all add: pos_imp_zdiv_nonneg_iff)
  ultimately show ?thesis
    unfolding date [OF ymd] using unique sod
    by (simp only: LocalDateTime.simps isoWeekday_mod ymd(2) secs simp_thms)
qed

lemma date_of_instant_witness:
  "ld_weekday (dateTimeFromEpoch 951829200) = 2 \<and> ld_hour (dateTimeFromEpoch 951829200) < 24 \<and>
   ld_weekday (dateTimeFromEpoch (- 1)) = 3"
  using date_of_instant [of 951829200] date_of_instant [of "- 1"] by simp

section \<open>Days follow each other\<close>

definition next_date :: "int \<Rightarrow> int \<Rightarrow> int \<Rightarrow> int \<times> int \<times> int" where
  "next_date year month day =
     (if day < daysInMonth year month then (year, month, day + 1)
      else if month < 12 then (year, month + 1, 1) else (year + 1, 1, 1))"

definition march_days :: "int \<Rightarrow> int" where
  "march_days yy = 365 * yy + yy div 4 - yy div 100 + yy div 400"

lemma daysFromCivil_march:
  "daysFromCivil y m d = march_days (y - (if m \<le> 2 then 1 else 0)) +
     (153 * ((m + (if m > 2 then 2 ^ 32 - 3 else 9)) mod 2 ^ 32) + 2) div 5 + d - 1 - 719468"
proof -
  define yy where "yy = y - (if m \<le> 2 then 1 else 0)"
  define era where "era = yy div 400"
  have era: "(if yy \<ge> 0 then yy else yy - 399) sdiv 400 = era"
    using sdiv_floor [of 400 yy] by (cases "0 \<le> yy") (simp_all add: era_def)
  have "(yy - era * 400) div 4 = yy div 4 - era * 100" "(yy - era * 400) div 100 = yy div 100 - era * 4"
    using div_mult_self1 [of 4 yy "- (era * 100)"] div_mult_self1 [of 100 yy "- (era * 4)"]
    by (simp_all add: algebra_simps)
  then have "era * 146097 + ((yy - era * 400) * 365 + (yy - era * 400) div 4 - (yy - era * 400) div 100 + x) =
      march_days yy + x" for x
    by (simp add: march_days_def era_def [symmetric])
  from this [of "(153 * ((m + (if m > 2 then 2 ^ 32 - 3 else 9)) mod 2 ^ 32) + 2) div 5 + d - 1"]
  show ?thesis
    unfolding daysFromCivil_def Let_def yy_def [symmetric] era by linarith
qed

lemma daysInMonth_bounds: "1 \<le> m \<Longrightarrow> m \<le> 12 \<Longrightarrow> 28 \<le> daysInMonth y m"
  by (elim month_cases) (auto simp: daysInMonth_def eval_nat_numeral)

definition month_offset :: "int \<Rightarrow> int" where
  "month_offset m = [306, 337, 0, 31, 61, 92, 122, 153, 184, 214, 245, 275] ! nat (m - 1)"

lemma daysFromCivil_offset:
  assumes "1 \<le> m" "m \<le> 12"
  shows "daysFromCivil y m d =
    march_days (y - (if m \<le> 2 then 1 else 0)) + month_offset m + d - 1 - 719468"
proof -
  have "(153 * ((m + (if m > 2 then 2 ^ 32 - 3 else 9)) mod 2 ^ 32) + 2) div 5 = month_offset m"
    using assms by (elim month_cases; simp add: month_offset_def eval_nat_numeral)
  then show ?thesis by (simp only: daysFromCivil_march)
qed

lemma month_end:
  assumes "1 \<le> m" "m < 12"
  shows "month_offset (m + 1) + (if m = 2 then 366 else 0) =
    month_offset m + daysInMonth y m + (if m = 2 \<and> \<not> leapYear y then 1 else 0)"
proof -
  have "1 \<le> m" "m \<le> 12" using assms by simp_all
  then show ?thesis
    using assms(2) by (elim month_cases; simp add: month_offset_def daysInMonth_def eval_nat_numeral)
qed

lemma div_next:
  assumes n: "0 < (n :: int)"
  shows "(a + 1) div n = a div n + (if (a + 1) mod n = 0 then 1 else 0)"
proof (cases "a mod n = n - 1")
  case True
  then have "a = n * (a div n) + (n - 1)" using mult_div_mod_eq [of n a] by simp
  then have "a + 1 = n * (a div n + 1)" unfolding distrib_left by linarith
  then show ?thesis using n by simp
next
  case False
  have "a + 1 = n * (a div n) + (a mod n + 1)" using mult_div_mod_eq [of n a] by simp
  moreover have "0 \<le> a mod n" "a mod n < n" using n by simp_all
  ultimately have "(a + 1) div n = a div n"
    by (intro int_div_pos_eq [of _ _ _ "a mod n + 1"]) (use n False pos_mod_bound [OF n, of a] in linarith)+
  then show ?thesis using n False by (simp add: mod_next)
qed

lemma march_days_next: "march_days (yy + 1) = march_days yy + 365 + (if leapYear (yy + 1) then 1 else 0)"
proof -
  have "n dvd (yy + 1)" if "k dvd (yy + 1)" "n dvd k" for n k using that by (rule dvd_trans [rotated])
  from this [of 400 100] this [of 100 4]
  have "(if leapYear (yy + 1) then 1 else 0 :: int) = (if (yy + 1) mod 4 = 0 then 1 else 0) -
      (if (yy + 1) mod 100 = 0 then 1 else 0) + (if (yy + 1) mod 400 = 0 then 1 else 0)"
    unfolding leapYear_iff mod_eq_0_iff_dvd by simp
  then show ?thesis
    by (simp only: march_days_def div_next [of 4] div_next [of 100] div_next [of 400]
        zero_less_numeral) (simp only: algebra_simps)
qed

text \<open>
  Day numbers count days: the epoch is day 0, a Thursday, and the day after any date, over the
  end of months, leap Februaries and years, has the next number and the next weekday.
\<close>

theorem days_follow:
  assumes "valid_date y m d"
  shows "daysFromCivil 1970 1 1 = 0 \<and> isoWeekday 1970 1 1 = 4 \<and>
    (case next_date y m d of (y', m', d') \<Rightarrow> valid_date y' m' d' \<and>
       daysFromCivil y' m' d' = daysFromCivil y m d + 1 \<and>
       isoWeekday y' m' d' = isoWeekday y m d mod 7 + 1)"
proof -
  have m: "1 \<le> m" "m \<le> 12" and d: "1 \<le> d" "d \<le> daysInMonth y m"
    using assms by (auto simp: valid_date_def)
  have feb: "march_days y = march_days (y - 1) + 365 + (if leapYear y then 1 else 0)"
    using march_days_next [of "y - 1"] by simp
  have next_day: "case next_date y m d of (y', m', d') \<Rightarrow> valid_date y' m' d' \<and>
       daysFromCivil y' m' d' = daysFromCivil y m d + 1"
  proof -
    consider "d < daysInMonth y m" | "d = daysInMonth y m" "m < 12" | "d = daysInMonth y m" "m = 12"
      using m d by linarith
    then show ?thesis
    proof cases
      case 1
      then show ?thesis using m d by (simp add: next_date_def valid_date_def daysFromCivil_offset)
    next
      case 2
      then show ?thesis
        using m month_end [OF m(1) 2(2), of y] feb daysInMonth_bounds [of "m + 1" y]
        by (auto simp: next_date_def valid_date_def daysFromCivil_offset split: if_splits)
    next
      case 3
      then show ?thesis
        using d by (simp add: next_date_def valid_date_def daysFromCivil_offset month_offset_def
            daysInMonth_def eval_nat_numeral)
    qed
  qed
  moreover have "(n + 1 + 3) mod 7 = ((n + 3) mod 7 + 1) mod 7" for n :: int
    by (simp add: mod_simps ac_simps)
  moreover have "daysFromCivil 1970 1 1 = 0" by (simp add: daysFromCivil_march march_days_def)
  ultimately show ?thesis
    by (auto simp: isoWeekday_mod split: prod.splits)
qed

lemma days_follow_witness: "daysFromCivil 2024 3 1 = daysFromCivil 2024 2 29 + 1"
  using days_follow [of 2024 2 29]
  by (simp add: valid_date_def next_date_def daysInMonth_def leapYear_iff)

section \<open>Daylight saving\<close>

lemma isoWeekday_shift: "isoWeekday y m (d + k) = (isoWeekday y m d - 1 + k) mod 7 + 1"
  by (simp add: isoWeekday_mod daysFromCivil_march mod_simps algebra_simps)

text \<open>
  A daylight saving rule means the day it says: in every year, the transition day of a valid
  rule is a day of that month, it falls on the rule's weekday, and it is the first to fourth such
  day of the month, or the last for week five.
\<close>

theorem transition_day_right:
  assumes "validDstTransition t"
  shows "case transitionDayOfMonth year t of day \<Rightarrow>
    valid_date year (uint (dt_month t)) day \<and>
    isoWeekday year (uint (dt_month t)) day = uint (dt_weekday t) \<and>
    (if dt_week t < 5 then 7 * (uint (dt_week t) - 1) < day \<and> day \<le> 7 * uint (dt_week t)
     else daysInMonth year (uint (dt_month t)) - 7 < day)"
proof -
  define m where "m = uint (dt_month t)"
  define w where "w = uint (dt_weekday t)"
  define k where "k = uint (dt_week t)"
  have v: "1 \<le> m" "m \<le> 12" "1 \<le> w" "w \<le> 7" "1 \<le> k" "k \<le> 5"
    using assms by (simp_all add: validDstTransition_def m_def w_def k_def word_le_def)
  have k5: "dt_week t < 5 \<longleftrightarrow> k < 5" by (simp add: k_def word_less_def)
  define dim where "dim = daysInMonth year m"
  have dim: "28 \<le> dim" using daysInMonth_bounds v by (simp add: dim_def)
  have wd: "1 \<le> isoWeekday y m' d" "isoWeekday y m' d \<le> 7" for y m' d
    using pos_mod_bound [of 7 "daysFromCivil y m' d + 3"] by (simp_all add: isoWeekday_mod)
  show ?thesis
  proof (cases "k < 5")
    case True
    define first where "first = isoWeekday year m 1"
    define delta where "delta = (7 + w - first) mod 7"
    have f: "1 \<le> first" "first \<le> 7" using wd by (simp_all add: first_def)
    have de: "0 \<le> delta" "delta \<le> 6" by (simp_all add: delta_def)
    have tr: "transitionDayOfMonth year t = 1 + delta + (k - 1) * 7"
      using True k5 dim de v assms f
      by (simp add: transitionDayOfMonth_def Let_def smod_nonneg m_def [symmetric] w_def [symmetric]
          k_def [symmetric] dim_def [symmetric] first_def [symmetric] delta_def [symmetric])
    have "isoWeekday year m (1 + (delta + (k - 1) * 7)) = (first - 1 + (delta + (k - 1) * 7)) mod 7 + 1"
      by (simp only: isoWeekday_shift first_def)
    also have "\<dots> = ((first - 1 + delta) + (k - 1) * 7) mod 7 + 1" by (simp only: add.assoc)
    also have "\<dots> = (first - 1 + delta) mod 7 + 1" by (simp only: mod_mult_self1)
    also have "\<dots> = (first - 1 + (7 + w - first)) mod 7 + 1"
      by (simp only: delta_def mod_add_right_eq)
    also have "\<dots> = (w - 1 + 7) mod 7 + 1" by (simp add: algebra_simps)
    also have "\<dots> = w" unfolding mod_add_self2 using v by simp
    finally show ?thesis
      using tr True k5 de v dim
      by (simp add: valid_date_def m_def [symmetric] w_def [symmetric] k_def [symmetric]
          dim_def [symmetric] add.assoc)
  next
    case False
    define last where "last = isoWeekday year m dim"
    define delta where "delta = (7 + last - w) mod 7"
    have f: "1 \<le> last" "last \<le> 7" using wd by (simp_all add: last_def)
    have de: "0 \<le> delta" "delta \<le> 6" by (simp_all add: delta_def)
    have tr: "transitionDayOfMonth year t = dim - delta"
      using False k5 dim de v assms f
      by (simp add: transitionDayOfMonth_def Let_def smod_nonneg m_def [symmetric] w_def [symmetric]
          k_def [symmetric] dim_def [symmetric] last_def [symmetric] delta_def [symmetric])
    have "isoWeekday year m (dim + (- delta)) = (last - 1 + (- delta)) mod 7 + 1"
      by (simp only: isoWeekday_shift last_def)
    also have "\<dots> = (last - 1 - (7 + last - w)) mod 7 + 1"
      by (simp only: delta_def mod_diff_right_eq add_uminus_conv_diff)
    also have "\<dots> = (w - 1 + (- 2) * 7 + 7) mod 7 + 1" by (simp add: algebra_simps)
    also have "\<dots> = w" unfolding mod_add_self2 mod_mult_self1 using v by simp
    finally show ?thesis
      using tr False k5 de v dim
      by (simp add: valid_date_def m_def [symmetric] w_def [symmetric] k_def [symmetric]
          dim_def [symmetric])
  qed
qed

text \<open>The European rule: from the last Sunday of March; 31 March in 2024.\<close>

lemma transition_day_right_witness:
  "isoWeekday 2024 3 (transitionDayOfMonth 2024
     \<lparr>dt_month = 3, dt_week = 5, dt_weekday = 7, dt_minuteOfDay = 120\<rparr>) = 7"
  using transition_day_right [of "\<lparr>dt_month = 3, dt_week = 5, dt_weekday = 7, dt_minuteOfDay = 120\<rparr>" 2024]
  by (simp add: validDstTransition_def)

end
