(* ===== verification/Rules.thy ===== *)
theory Rules
  imports Stores
begin

text \<open>
  The rules and their storage: \<^verbatim>\<open>include/rules/RuleState.h\<close> and \<^verbatim>\<open>RuleStore.h\<close>. A rule is
  a condition frame and three action frames, kept as they came in the downlinks.
\<close>

definition kRuleCount :: nat where "kRuleCount = 16"
definition kRuleFrameSlots :: nat where "kRuleFrameSlots = 4"
definition kMaxRuleFrameLength :: nat where "kMaxRuleFrameLength = 58"

lemmas rule_limits [simp] = kRuleCount_def kRuleFrameSlots_def kMaxRuleFrameLength_def

section \<open>State\<close>

text \<open>The data of a frame is its array of 58 bytes, of which the first \<open>sf_length\<close> count.\<close>

record StoredFrame =
  sf_length :: u8
  sf_data :: bytes

definition empty_frame :: StoredFrame where
  "empty_frame = \<lparr>sf_length = 0, sf_data = replicate kMaxRuleFrameLength 0\<rparr>"

definition frame_set :: "bytes ptr \<Rightarrow> StoredFrame \<Rightarrow> bool \<times> StoredFrame" where
  "frame_set source f =
     (case source of None \<Rightarrow> (False, f)
      | Some bs \<Rightarrow>
          if length bs < 4 \<or> length bs > kMaxRuleFrameLength then (False, f)
          else (True, \<lparr>sf_length = of_nat (length bs), sf_data = bs @ drop (length bs) (sf_data f)\<rparr>))"

definition frame_clear :: "StoredFrame \<Rightarrow> StoredFrame" where
  "frame_clear f = \<lparr>sf_length = 0, sf_data = replicate (length (sf_data f)) 0\<rparr>"

definition frame_present :: "StoredFrame \<Rightarrow> bool" where
  "frame_present f = (sf_length f \<noteq> 0)"

record RuleRecord =
  rr_enabled :: bool
  rr_frames :: "StoredFrame list"

definition empty_rule :: RuleRecord where
  "empty_rule = \<lparr>rr_enabled = False, rr_frames = replicate kRuleFrameSlots empty_frame\<rparr>"

definition rule_configured :: "RuleRecord \<Rightarrow> bool" where
  "rule_configured r = list_ex frame_present (rr_frames r)"

definition rule_clear :: "RuleRecord \<Rightarrow> RuleRecord" where
  "rule_clear r = \<lparr>rr_enabled = False, rr_frames = map frame_clear (rr_frames r)\<rparr>"

type_synonym RuleState = "RuleRecord list"

definition initial_rules :: RuleState where
  "initial_rules = replicate kRuleCount empty_rule"

text \<open>\<^verbatim>\<open>rule(ruleId)\<close>: \<open>None\<close> is the null pointer.\<close>

definition rule :: "u8 \<Rightarrow> RuleState \<Rightarrow> RuleRecord option" where
  "rule ruleId st = (if ruleId < 1 \<or> unat ruleId > kRuleCount then None else Some (st ! (unat ruleId - 1)))"

definition applyMask :: "u16 \<Rightarrow> u8 \<Rightarrow> RuleState \<Rightarrow> bool \<times> RuleState" where
  "applyMask ruleMask operation st =
     (if ruleMask = 0 \<or> operation < 1 \<or> operation > 3 then (False, st)
      else (True, map (\<lambda>(n, r).
          if ruleMask AND push_bit n 1 = 0 then r
          else if operation = 1 then r\<lparr>rr_enabled := True\<rparr>
          else if operation = 2 then r\<lparr>rr_enabled := False\<rparr>
          else rule_clear r) (enumerate 0 st)))"

section \<open>Storage\<close>

definition rule_key :: "nat \<Rightarrow> string" where
  "rule_key ruleId = CHR ''r'' # slot_digits ruleId"

text \<open>
  The store writes the object representation of a \<^verbatim>\<open>RuleRecord\<close>: all its members are single
  bytes, so it is the flag followed by the frames, each its length and its data, without padding.
  A flag byte is read as true when it is not zero.
\<close>

definition kRuleRecordSize :: nat where
  "kRuleRecordSize = 1 + kRuleFrameSlots * (1 + kMaxRuleFrameLength)"

definition rule_image :: "RuleRecord \<Rightarrow> bytes" where
  "rule_image r = (if rr_enabled r then 1 else 0) #
     concat (map (\<lambda>f. sf_length f # sf_data f) (rr_frames r))"

fun image_frames :: "nat \<Rightarrow> bytes \<Rightarrow> StoredFrame list" where
  "image_frames 0 bs = []"
| "image_frames (Suc n) bs =
     \<lparr>sf_length = hd bs, sf_data = take kMaxRuleFrameLength (tl bs)\<rparr> #
       image_frames n (drop kMaxRuleFrameLength (tl bs))"

definition image_rule :: "bytes \<Rightarrow> RuleRecord" where
  "image_rule bs = \<lparr>rr_enabled = (hd bs \<noteq> 0), rr_frames = image_frames kRuleFrameSlots (tl bs)\<rparr>"

text \<open>The loop of \<^verbatim>\<open>load\<close> over the remaining ids; the state as far as it has been loaded.\<close>

fun loadRules :: "'s prefs \<Rightarrow> 's \<Rightarrow> nat list \<Rightarrow> RuleState \<Rightarrow> bool \<times> RuleState" where
  "loadRules P s [] st = (True, st)"
| "loadRules P s (k # ids) st =
     (let n = pf_getBytesLength P s (rule_key k)
      in if n = 0 then loadRules P s ids st
         else if n \<noteq> kRuleRecordSize then (False, st)
         else
           let bs = pf_getBytes P s (rule_key k) kRuleRecordSize
           in if length bs \<noteq> kRuleRecordSize then (False, st)
              else
                let r = image_rule bs; st = st[k - 1 := r]
                in if list_ex (\<lambda>f. unat (sf_length f) > kMaxRuleFrameLength) (rr_frames r)
                   then (False, st) else loadRules P s ids st)"

definition ruleStore_load :: "'s prefs \<Rightarrow> 's \<Rightarrow> bool \<times> RuleState" where
  "ruleStore_load P s = loadRules P s [1..<Suc kRuleCount] initial_rules"

definition ruleStore_saveRule :: "'s prefs \<Rightarrow> u8 \<Rightarrow> RuleRecord \<Rightarrow> 's \<Rightarrow> bool \<times> 's" where
  "ruleStore_saveRule P ruleId r s =
     (if ruleId < 1 \<or> unat ruleId > kRuleCount then (False, s)
      else pf_store P (rule_key (unat ruleId)) (PvBytes (rule_image r)) s)"

definition ruleStore_removeRule :: "'s prefs \<Rightarrow> u8 \<Rightarrow> 's \<Rightarrow> bool \<times> 's" where
  "ruleStore_removeRule P ruleId s =
     (if ruleId < 1 \<or> unat ruleId > kRuleCount then (False, s)
      else pf_remove P (rule_key (unat ruleId)) s)"

end
