(* ===== verification/RuleExecution.thy ===== *)
theory RuleExecution
  imports Rules LocalTime ModbusRtuCodec
begin

text \<open>
  Conditions and actions of the rules: \<^verbatim>\<open>include/rules/RuleExecution.h\<close>. Floating-point values
  are IEEE bit patterns compared by the operations of \<open>SoftFloat\<close>.
\<close>

section \<open>Time, restart and message conditions\<close>

text \<open>The prefix tests shared by the conditions: a present frame of subtype \<open>n\<close>.\<close>

definition frame_subtype :: "StoredFrame \<Rightarrow> u8 \<Rightarrow> bool" where
  "frame_subtype f n = (sf_data f ! 0 = 0xf9 \<and> sf_data f ! 1 = 0x7d \<and> sf_data f ! 3 = n)"

definition readU32Le :: "bytes \<Rightarrow> nat \<Rightarrow> u32" where
  "readU32Le bs i = le32 (bs ! i) (bs ! (i + 1)) (bs ! (i + 2)) (bs ! (i + 3))"

definition matchesTimeCondition :: "StoredFrame \<Rightarrow> LocalDateTime \<Rightarrow> bool" where
  "matchesTimeCondition f t =
     (let d = sf_data f
      in if \<not> frame_present f \<or> sf_length f \<noteq> 11 \<or> \<not> frame_subtype f 0x11 then False
         else if d ! 4 > 1 \<or> d ! 9 > 23 \<or> d ! 10 > 59 then False
         else if ld_hour t \<noteq> uint (d ! 9) \<or> ld_minute t \<noteq> uint (d ! 10) then False
         else
           let days = readU32Le d 5
           in if d ! 4 = 0 then
                (if ld_weekday t < 1 \<or> ld_weekday t > 7 then False
                 else days AND push_bit (nat (ld_weekday t - 1)) 1 \<noteq> 0)
              else
                (if ld_day t < 1 \<or> ld_day t > 31 then False
                 else days AND push_bit (nat (ld_day t - 1)) 1 \<noteq> 0))"

definition isDeviceRestartCondition :: "StoredFrame \<Rightarrow> bool" where
  "isDeviceRestartCondition f = (frame_present f \<and> sf_length f = 4 \<and> frame_subtype f 0x16)"

definition allowedServerMessageByte :: "u8 \<Rightarrow> bool" where
  "allowedServerMessageByte v =
     ((v \<ge> 0x41 \<and> v \<le> 0x5a) \<or> (v \<ge> 0x61 \<and> v \<le> 0x7a) \<or> (v \<ge> 0x30 \<and> v \<le> 0x39) \<or>
      v = 0x2c \<or> v = 0x2e \<or> v = 0x20 \<or> v = 0x21)"

definition validServerMessage :: "bytes ptr \<Rightarrow> bool" where
  "validServerMessage p = (case p of None \<Rightarrow> False
     | Some bs \<Rightarrow> 2 \<le> length bs \<and> length bs \<le> 48 \<and> list_all allowedServerMessageByte bs)"

definition frame_text_is :: "StoredFrame \<Rightarrow> bytes \<Rightarrow> bool" where
  "frame_text_is f bs =
     (let expectedLength = unat (sf_data f ! 4)
      in expectedLength = length bs \<and> unat (sf_length f) = 5 + expectedLength \<and>
         take (length bs) (drop 5 (sf_data f)) = bs)"

definition matchesServerMessageCondition :: "StoredFrame \<Rightarrow> bytes ptr \<Rightarrow> bool" where
  "matchesServerMessageCondition f p =
     (if \<not> validServerMessage p \<or> \<not> frame_present f \<or> sf_length f < 7 \<or> \<not> frame_subtype f 0x14
      then False else frame_text_is f (the p))"

definition matchesRs485CommandCondition :: "StoredFrame \<Rightarrow> bytes ptr \<Rightarrow> bool" where
  "matchesRs485CommandCondition f p = (case p of None \<Rightarrow> False
     | Some bs \<Rightarrow>
         if length bs < 2 \<or> length bs > 48 \<or> \<not> frame_present f \<or> sf_length f < 7 \<or>
            \<not> frame_subtype f 0x13
         then False else frame_text_is f bs)"

section \<open>Actions\<close>

datatype ExecutableAction =
  ActNone | ServerMessage | UploadData | RawRs485 | UploadAlarm | ActReboot | ActUnsupported

record ActionPlan =
  ap_action :: ExecutableAction
  ap_delayMs :: u32
  ap_payload :: "bytes ptr"
  ap_payloadLength :: u8
  ap_thresholdReleaseEnabled :: bool

definition default_plan :: ActionPlan where
  "default_plan = \<lparr>ap_action = ActNone, ap_delayMs = 0, ap_payload = None, ap_payloadLength = 0,
     ap_thresholdReleaseEnabled = False\<rparr>"

definition message_action ::
    "ExecutableAction \<Rightarrow> u8 \<Rightarrow> StoredFrame \<Rightarrow> ActionPlan \<Rightarrow> ActionPlan" where
  "message_action a least f plan =
     (let messageLength = sf_data f ! 8
      in if messageLength < least \<or> messageLength > 48 \<or> unat (sf_length f) \<noteq> 9 + unat messageLength
         then plan\<lparr>ap_action := ActUnsupported\<rparr>
         else plan\<lparr>ap_action := a,
           ap_payload := Some (take (unat messageLength) (drop 9 (sf_data f))),
           ap_payloadLength := messageLength\<rparr>)"

definition decodeExecutableAction :: "StoredFrame \<Rightarrow> ActionPlan" where
  "decodeExecutableAction f =
     (let d = sf_data f; n = sf_length f
      in if \<not> frame_present f \<or> n < 4 \<or> d ! 0 \<noteq> 0xf9 \<or> d ! 1 \<noteq> 0x7d then default_plan
         else
           let actionKind = d ! 3 AND 0x0f
           in if actionKind = 0x00 then default_plan
              else if n < 8 then default_plan\<lparr>ap_action := ActUnsupported\<rparr>
              else
                let plan = default_plan\<lparr>ap_delayMs := readU32Le d 4\<rparr>
                in if ap_delayMs plan > 86400000 then plan\<lparr>ap_action := ActUnsupported\<rparr>
                   else if actionKind = 0x01 \<and> n \<ge> 10 then message_action ServerMessage 1 f plan
                   else if actionKind = 0x03 \<and> n \<ge> 11 then message_action RawRs485 2 f plan
                   else if actionKind = 0x04 \<and> n = 8 then plan\<lparr>ap_action := UploadData\<rparr>
                   else if actionKind = 0x05 \<and> n = 9 then
                     (if d ! 8 > 0x01 then plan\<lparr>ap_action := ActUnsupported\<rparr>
                      else plan\<lparr>ap_action := UploadAlarm,
                        ap_thresholdReleaseEnabled := (d ! 8 = 0x01)\<rparr>)
                   else if actionKind = 0x06 \<and> n = 8 then plan\<lparr>ap_action := ActReboot\<rparr>
                   else plan\<lparr>ap_action := ActUnsupported\<rparr>)"

section \<open>Channel conditions\<close>

datatype ChannelThresholdMode =
  FalseValue | TrueValue | Below | Above | Within | ChangeRecent | ChangeInterval

record ChannelConditionPlan =
  cp_channelId :: u8
  cp_continueMode :: u8
  cp_mode :: ChannelThresholdMode
  cp_continueTimeMs :: u32
  cp_lockTimeMs :: u32
  cp_minimum :: u32
  cp_maximum :: u32
  cp_changeIntervalMs :: u32

record ChannelConditionRuntime =
  cr_active :: bool
  cr_firedForActive :: bool
  cr_activeSinceMs :: u32
  cr_lockedUntilMs :: u32
  cr_havePrevious :: bool
  cr_previousValue :: u64
  cr_previousAtMs :: u32

definition initial_runtime :: ChannelConditionRuntime where
  "initial_runtime = \<lparr>cr_active = False, cr_firedForActive = False, cr_activeSinceMs = 0,
     cr_lockedUntilMs = 0, cr_havePrevious = False, cr_previousValue = 0, cr_previousAtMs = 0\<rparr>"

definition threshold_mode :: "u8 \<Rightarrow> ChannelThresholdMode option" where
  "threshold_mode n =
     (if n = 0 then Some FalseValue else if n = 1 then Some TrueValue
      else if n = 2 then Some Below else if n = 3 then Some Above
      else if n = 4 then Some Within else if n = 6 then Some ChangeRecent
      else if n = 7 then Some ChangeInterval else None)"

text \<open>
  \<open>None\<close> is the result false. (The code leaves the plan passed in partly written when a limit at
  the end fails; its callers do not use it then.)
\<close>

definition decodeChannelCondition :: "StoredFrame \<Rightarrow> ChannelConditionPlan option" where
  "decodeChannelCondition f =
     (let d = sf_data f
      in if \<not> frame_present f \<or> sf_length f \<noteq> 22 \<or> \<not> frame_subtype f 0x12 then None
         else
           let channelId = d ! 4; continueMode = drop_bit 4 (d ! 5) AND 0x0f
           in case threshold_mode (d ! 5 AND 0x0f) of
                None \<Rightarrow> None
              | Some mode \<Rightarrow>
                  if channelId < 1 \<or> channelId > 32 \<or> continueMode > 1 then None
                  else
                    let interval = (mode = ChangeInterval);
                        plan = \<lparr>cp_channelId = channelId, cp_continueMode = continueMode,
                          cp_mode = mode, cp_continueTimeMs = readU32Le d 6,
                          cp_lockTimeMs = readU32Le d 10,
                          cp_minimum = (if interval then 0 else readU32Le d 14),
                          cp_maximum = readU32Le d 18,
                          cp_changeIntervalMs = (if interval then readU32Le d 14 else 0)\<rparr>
                    in if cp_continueTimeMs plan > 86400000 \<or> cp_lockTimeMs plan > 86400000 then None
                       else if cp_changeIntervalMs plan > 86400000 \<or>
                               \<not> f32_isfinite (cp_minimum plan) \<or> \<not> f32_isfinite (cp_maximum plan)
                       then None else Some plan)"

definition scalarToDouble :: "DecodedScalar \<Rightarrow> u64 option" where
  "scalarToDouble scalar = (case sc_kind scalar of
       KBoolean \<Rightarrow> Some (if sc_boolean scalar then 0x3ff0000000000000 else 0)
     | KSignedInteger \<Rightarrow> Some (f64_of_int (sint (sc_signed scalar)))
     | KUnsignedInteger \<Rightarrow> Some (f64_of_int (uint (sc_unsigned scalar)))
     | KFloatingPoint \<Rightarrow>
         if \<not> f64_isfinite (sc_floating scalar) then None else Some (sc_floating scalar))"

definition thresholdPredicate :: "ChannelConditionPlan \<Rightarrow> DecodedScalar \<Rightarrow> bool" where
  "thresholdPredicate plan scalar = (case scalarToDouble scalar of
       None \<Rightarrow> False
     | Some value \<Rightarrow> (case cp_mode plan of
         FalseValue \<Rightarrow> sc_kind scalar = KBoolean \<and> \<not> sc_boolean scalar
       | TrueValue \<Rightarrow> sc_kind scalar = KBoolean \<and> sc_boolean scalar
       | Below \<Rightarrow> f64_lt value (f64_of_f32 (cp_minimum plan))
       | Above \<Rightarrow> f64_lt (f64_of_f32 (cp_maximum plan)) value
       | Within \<Rightarrow> f64_le (f64_of_f32 (cp_minimum plan)) value \<and>
                   f64_le value (f64_of_f32 (cp_maximum plan))
       | _ \<Rightarrow> False))"

definition changed_enough :: "ChannelConditionPlan \<Rightarrow> u64 \<Rightarrow> ChannelConditionRuntime \<Rightarrow> bool" where
  "changed_enough plan value r =
     f64_le (f64_of_f32 (cp_maximum plan)) (f64_abs_diff value (cr_previousValue r))"

text \<open>The rest of \<^verbatim>\<open>evaluateChannelCondition\<close>, for the threshold modes.\<close>

definition evaluateThreshold ::
    "ChannelConditionPlan \<Rightarrow> bool \<Rightarrow> u32 \<Rightarrow> ChannelConditionRuntime \<Rightarrow> bool \<times> ChannelConditionRuntime" where
  "evaluateThreshold plan predicate nowMs r =
     (if \<not> time_reached nowMs (cr_lockedUntilMs r) then
        (False, if \<not> predicate then r\<lparr>cr_active := False, cr_firedForActive := False\<rparr> else r)
      else if \<not> predicate then
        (let off = r\<lparr>cr_active := False, cr_firedForActive := False\<rparr>
         in if cr_active r \<and> \<not> cr_firedForActive r \<and> cp_continueMode plan = 0 \<and>
               cp_continueTimeMs plan > 0 \<and> nowMs - cr_activeSinceMs r < cp_continueTimeMs plan
            then (True, off\<lparr>cr_lockedUntilMs := nowMs + cp_lockTimeMs plan\<rparr>)
            else (False, off))
      else
        let r = (if \<not> cr_active r
                 then r\<lparr>cr_active := True, cr_activeSinceMs := nowMs, cr_firedForActive := False\<rparr>
                 else r)
        in if cr_firedForActive r then (False, r)
           else if cp_continueTimeMs plan = 0 \<or>
                   (cp_continueMode plan = 1 \<and>
                    nowMs - cr_activeSinceMs r \<ge> cp_continueTimeMs plan)
           then (True, r\<lparr>cr_firedForActive := True, cr_lockedUntilMs := nowMs + cp_lockTimeMs plan\<rparr>)
           else (False, r))"

definition evaluateChannelCondition ::
    "ChannelConditionPlan \<Rightarrow> DecodedScalar \<Rightarrow> u32 \<Rightarrow> ChannelConditionRuntime \<Rightarrow>
       bool \<times> ChannelConditionRuntime" where
  "evaluateChannelCondition plan scalar nowMs r =
     (case scalarToDouble scalar of
        None \<Rightarrow> (False, r)
      | Some value \<Rightarrow>
          let seen = r\<lparr>cr_previousValue := value, cr_previousAtMs := nowMs, cr_havePrevious := True\<rparr>
          in if cp_mode plan = ChangeRecent then
               (let fire = (cr_havePrevious r \<and> time_reached nowMs (cr_lockedUntilMs r) \<and>
                            changed_enough plan value r)
                in (fire, if fire then seen\<lparr>cr_lockedUntilMs := nowMs + cp_lockTimeMs plan\<rparr> else seen))
             else if cp_mode plan = ChangeInterval then
               (if \<not> cr_havePrevious r then (False, seen)
                else if nowMs - cr_previousAtMs r < cp_changeIntervalMs plan then (False, r)
                else
                  let fire = (time_reached nowMs (cr_lockedUntilMs r) \<and> changed_enough plan value r)
                  in (fire, if fire then seen\<lparr>cr_lockedUntilMs := nowMs + cp_lockTimeMs plan\<rparr> else seen))
             else evaluateThreshold plan (thresholdPredicate plan scalar) nowMs r)"

definition localMinuteKey :: "LocalDateTime \<Rightarrow> u32" where
  "localMinuteKey t =
     push_bit 25 (word_of_int (ld_year t - 2000) AND 0x7f) OR
     push_bit 21 (word_of_int (ld_month t) AND 0x0f) OR
     push_bit 16 (word_of_int (ld_day t) AND 0x1f) OR
     push_bit 11 (word_of_int (ld_hour t) AND 0x1f) OR
     push_bit 5 (word_of_int (ld_minute t) AND 0x3f)"

end
