(* ===== verification/RuleProperties.thy ===== *)
theory RuleProperties
  imports RuleExecution StoreProperties
begin

text \<open>
  What the rules promise: an accepted action is decoded as its frame says, a condition fires on
  the rising edges of its predicate and not within its lock time, and stored rules come back.
\<close>

section \<open>Conditions over time\<close>

fun evaluate_all ::
    "ChannelConditionPlan \<Rightarrow> (DecodedScalar \<times> u32) list \<Rightarrow> ChannelConditionRuntime \<Rightarrow> bool list" where
  "evaluate_all plan [] r = []"
| "evaluate_all plan ((scalar, now) # evs) r =
     (case evaluateChannelCondition plan scalar now r of
        (fire, r') \<Rightarrow> fire # evaluate_all plan evs r')"

lemma evaluate_locked:
  assumes "\<not> time_reached now (cr_lockedUntilMs r)" "evaluateChannelCondition plan scalar now r = (fire, r')"
  shows "\<not> fire \<and> cr_lockedUntilMs r' = cr_lockedUntilMs r"
  using assms
  by (auto simp: evaluateChannelCondition_def evaluateThreshold_def Let_def split: option.splits if_splits)

lemma evaluate_fires:
  assumes "evaluateChannelCondition plan scalar now r = (True, r')"
  shows "cr_lockedUntilMs r' = now + cp_lockTimeMs plan"
  using assms
  by (auto simp: evaluateChannelCondition_def evaluateThreshold_def Let_def split: option.splits if_splits)

lemma evaluate_all_locked:
  assumes "\<And>v t. (v, t) \<in> set evs \<Longrightarrow> \<not> time_reached t (cr_lockedUntilMs r)"
  shows "evaluate_all plan evs r = replicate (length evs) False"
  using assms
proof (induction evs arbitrary: r)
  case (Cons ev evs)
  obtain v t fire r' where ev: "ev = (v, t)" "evaluateChannelCondition plan v t r = (fire, r')"
    by (metis prod.exhaust)
  have "\<not> time_reached t (cr_lockedUntilMs r)" using Cons.prems [of v t] ev(1) by simp
  then have "\<not> fire \<and> cr_lockedUntilMs r' = cr_lockedUntilMs r"
    using evaluate_locked ev(2) by blast
  moreover have "\<not> time_reached t' (cr_lockedUntilMs r)" if "(v', t') \<in> set evs" for v' t'
    using Cons.prems that by (meson list.set_intros(2))
  ultimately show ?case using ev Cons.IH [of r'] by simp
qed simp

text \<open>
  The lock time of a channel condition is respected in every mode: once it has fired, no value
  arriving within the lock time fires it again, however often and with whatever values.
\<close>

theorem rule_lock_respected:
  assumes "decodeChannelCondition f = Some plan"
    and "evaluateChannelCondition plan scalar now r = (True, r')"
    and "\<And>v t. (v, t) \<in> set evs \<Longrightarrow> t - now < cp_lockTimeMs plan"
  shows "evaluate_all plan evs r' = replicate (length evs) False"
proof (rule evaluate_all_locked)
  fix v t assume "(v, t) \<in> set evs"
  then have t: "t - now < cp_lockTimeMs plan" by (rule assms(3))
  have lock: "cp_lockTimeMs plan \<le> 86400000"
    using assms(1) by (auto simp: decodeChannelCondition_def Let_def split: if_splits option.splits)
  have "unat (t - (now + cp_lockTimeMs plan)) = 2 ^ 32 - unat (cp_lockTimeMs plan) + unat (t - now)"
    using t unat_sub_if' [of "t - now" "cp_lockTimeMs plan"] unat_bound [of "cp_lockTimeMs plan"]
    by (simp add: word_less_nat_alt diff_diff_eq)
  moreover have "unat (cp_lockTimeMs plan) \<le> 86400000" using lock by (simp add: word_le_nat_alt)
  ultimately show "\<not> time_reached t (cr_lockedUntilMs r')"
    by (simp add: evaluate_fires [OF assms(2)] time_reached_iff not_less)
qed

definition bool_value :: "bool \<Rightarrow> DecodedScalar" where
  "bool_value b = default_scalar\<lparr>sc_kind := KBoolean, sc_boolean := b\<rparr>"

text \<open>Channel 1 is true; lock time 1000 ms.\<close>

definition sample_condition :: StoredFrame where
  "sample_condition = \<lparr>sf_length = 22, sf_data = [0xf9, 0x7d, 0x81, 0x12, 1, 0x01, 0, 0, 0, 0,
     0xe8, 3, 0, 0, 0, 0, 0, 0, 0, 0, 0, 0] @ replicate 36 0\<rparr>"

lemma rule_lock_respected_witness:
  "\<exists>plan r'. decodeChannelCondition sample_condition = Some plan \<and>
     evaluateChannelCondition plan (bool_value True) 10 initial_runtime = (True, r') \<and>
     evaluate_all plan [(bool_value False, 20), (bool_value True, 30)] r' = [False, False]"
proof -
  obtain plan where plan: "decodeChannelCondition sample_condition = Some plan"
    and p: "cp_mode plan = TrueValue" "cp_continueTimeMs plan = 0" "cp_lockTimeMs plan = 1000"
    by (simp add: decodeChannelCondition_def sample_condition_def frame_present_def frame_subtype_def
        threshold_mode_def Let_def readU32Le_def le32_def f32_isfinite_def)
  obtain r' where r': "evaluateChannelCondition plan (bool_value True) 10 initial_runtime = (True, r')"
    using p by (simp add: evaluateChannelCondition_def evaluateThreshold_def thresholdPredicate_def
        scalarToDouble_def bool_value_def initial_runtime_def time_reached_iff Let_def)
  have "evaluate_all plan [(bool_value False, 20), (bool_value True, 30)] r' =
      replicate (length [(bool_value False, 20 :: u32), (bool_value True, 30)]) False"
    by (rule rule_lock_respected [OF plan r']) (use p in auto)
  with plan r' show ?thesis by simp
qed

text \<open>
  The lock deadline has no validity flag: a condition that has not fired in the first 2^31 ms
  of uptime (24.8 days) compares against the initial deadline 0, counts as locked, and cannot fire
  for the next 2^31 ms, whatever values arrive.
\<close>

theorem rule_dead_zone:
  assumes "\<And>v t. (v, t) \<in> set evs \<Longrightarrow> 0x80000000 \<le> t"
  shows "evaluate_all plan evs initial_runtime = replicate (length evs) False"
proof (rule evaluate_all_locked)
  fix v t assume "(v, t) \<in> set evs"
  then have "0x80000000 \<le> t" by (rule assms)
  then show "\<not> time_reached t (cr_lockedUntilMs initial_runtime)"
    by (simp add: time_reached_iff initial_runtime_def word_le_nat_alt not_less)
qed

lemma rule_dead_zone_witness:
  "\<forall>plan. evaluate_all plan [(bool_value False, 0x80000000), (bool_value True, 0x80000010)]
     initial_runtime = [False, False]"
proof
  fix plan
  have "evaluate_all plan [(bool_value False, 0x80000000), (bool_value True, 0x80000010)] initial_runtime =
      replicate (length [(bool_value False, 0x80000000 :: u32), (bool_value True, 0x80000010)]) False"
    by (rule rule_dead_zone) auto
  then show "evaluate_all plan [(bool_value False, 0x80000000), (bool_value True, 0x80000010)]
      initial_runtime = [False, False]" by simp
qed

fun rising_edges :: "bool \<Rightarrow> bool list \<Rightarrow> bool list" where
  "rising_edges previous [] = []"
| "rising_edges previous (p # ps) = (p \<and> \<not> previous) # rising_edges p ps"

lemma evaluate_edges:
  assumes "cp_mode plan \<notin> {ChangeRecent, ChangeInterval}" "cp_continueTimeMs plan = 0"
    "cp_lockTimeMs plan = 0"
    and "sorted (k # map snd evs)" "\<And>v e. (v, e) \<in> set evs \<Longrightarrow> e < 2 ^ 31 \<and> scalarToDouble v \<noteq> None"
    and "cr_lockedUntilMs r = of_nat k" "cr_active r = cr_firedForActive r"
  shows "evaluate_all plan (map (\<lambda>(v, e). (v, of_nat e)) evs) r =
    rising_edges (cr_active r) (map (thresholdPredicate plan \<circ> fst) evs)"
  using assms(4-7)
proof (induction evs arbitrary: r k)
  case (Cons ev evs)
  obtain v e where ev: "ev = (v, e)" by fastforce
  have e: "e < 2 ^ 31" "k \<le> e" "scalarToDouble v \<noteq> None" using Cons.prems(1,2) ev by auto
  have reached: "time_reached (of_nat e) (cr_lockedUntilMs r)"
    using deadline_exact [of 0 "e - k" "of_nat k"] e Cons.prems(3)
    by (simp add: of_nat_diff)
  obtain fire r' where r': "evaluateChannelCondition plan v (of_nat e) r = (fire, r')" by fastforce
  have step: "fire = (thresholdPredicate plan v \<and> \<not> cr_active r)"
    "cr_active r' = thresholdPredicate plan v" "cr_firedForActive r' = thresholdPredicate plan v"
    "cr_lockedUntilMs r' = of_nat k \<or> cr_lockedUntilMs r' = of_nat e"
    using r' e(3) reached assms(1-3) Cons.prems(3,4)
    by (auto simp: evaluateChannelCondition_def evaluateThreshold_def Let_def split: if_splits)
  have s: "sorted (k # map snd evs)" "sorted (e # map snd evs)" using Cons.prems(1) ev by auto
  have rest: "e' < 2 ^ 31 \<and> scalarToDouble v' \<noteq> None" if "(v', e') \<in> set evs" for v' e'
    using Cons.prems(2) that by (meson list.set_intros(2))
  have "cr_active r' = cr_firedForActive r'" using step(2,3) by simp
  then have "evaluate_all plan (map (\<lambda>(v, e). (v, of_nat e)) evs) r' =
      rising_edges (cr_active r') (map (thresholdPredicate plan \<circ> fst) evs)"
    using step(4) Cons.IH [OF s(1) rest] Cons.IH [OF s(2) rest] by blast
  with r' ev step(1,2) show ?case by (simp add: o_def)
qed simp

text \<open>
  C28. In the first 24 days of uptime a threshold condition without lock and hold time is an edge
  detector: over any samples that are numbers or truth values and that arrive in order within the first
  2^31 ms after the start, it fires exactly where the threshold becomes fulfilled. After that time a
  condition that has never fired counts as locked.
\<close>

theorem rule_fires_on_edges:
  assumes "cp_mode plan \<notin> {ChangeRecent, ChangeInterval}" "cp_continueTimeMs plan = 0"
    "cp_lockTimeMs plan = 0" "sorted (map snd evs)"
    and "\<And>v e. (v, e) \<in> set evs \<Longrightarrow> e < 2 ^ 31 \<and> scalarToDouble v \<noteq> None"
  shows "evaluate_all plan (map (\<lambda>(v, e). (v, of_nat e)) evs) initial_runtime =
    rising_edges False (map (thresholdPredicate plan \<circ> fst) evs)"
  using evaluate_edges [OF assms(1-3), of 0 evs initial_runtime] assms(4,5)
  by (simp add: initial_runtime_def)

definition edge_plan :: ChannelConditionPlan where
  "edge_plan = \<lparr>cp_channelId = 1, cp_continueMode = 0, cp_mode = TrueValue, cp_continueTimeMs = 0,
     cp_lockTimeMs = 0, cp_minimum = 0, cp_maximum = 0, cp_changeIntervalMs = 0\<rparr>"

lemma rule_fires_on_edges_witness:
  "evaluate_all edge_plan (map (\<lambda>(v, e). (v, of_nat e))
     [(bool_value True, 0), (bool_value True, 5), (bool_value False, 7), (bool_value True, 9)])
     initial_runtime = [True, False, False, True]"
proof -
  have s: "scalarToDouble (bool_value b) \<noteq> None" for b
    by (simp add: scalarToDouble_def bool_value_def)
  have p: "thresholdPredicate edge_plan (bool_value b) = b" for b
    by (simp add: thresholdPredicate_def scalarToDouble_def bool_value_def edge_plan_def)
  show ?thesis
    by (subst rule_fires_on_edges) (use s in \<open>auto simp: p, simp_all add: edge_plan_def\<close>)
qed

section \<open>Actions\<close>

text \<open>
  Every action frame the downlink decoder accepts is decoded for execution as it says: stored and read
  again it yields exactly its action and delay, with its message text unchanged; only a delay of more than
  a day or an undefined release flag makes it unsupported.
\<close>

lemma accepted_action_decoded:
  assumes "decodeRuleConfigurationCommand (Some bs) = Inr (c, n)" "rc_slot c \<noteq> SlotCondition"
    and "frame_set (Some (rc_frame c)) f = (True, f')"
  shows "case decodeExecutableAction f' of plan \<Rightarrow> case rc_subtype c AND 0x0f of kind \<Rightarrow>
    ap_action plan =
      (if kind = 0 then ActNone
       else if 86400000 < readU32Le bs 4 \<or> kind = 5 \<and> 1 < bs ! 8 then ActUnsupported
       else if kind = 1 then ServerMessage else if kind = 3 then RawRs485
       else if kind = 4 then UploadData else if kind = 5 then UploadAlarm else ActReboot) \<and>
    ap_payload plan =
      (if ap_action plan \<in> {ServerMessage, RawRs485} then Some (drop 9 (rc_frame c)) else None) \<and>
    (kind \<noteq> 0 \<longrightarrow> ap_delayMs plan = readU32Le bs 4) \<and>
    (ap_payload plan \<noteq> None \<longrightarrow> unat (ap_payloadLength plan) = length (drop 9 (rc_frame c)) \<and> length (drop 9 (rc_frame c)) \<le> 48)"
proof -
  have n: "length (rc_frame c) \<ge> 4" "length (rc_frame c) \<le> 58"
    and f': "sf_length f' = of_nat (length (rc_frame c))"
      "sf_data f' = rc_frame c @ drop (length (rc_frame c)) (sf_data f)"
    using assms(3) by (auto simp: frame_set_def split: if_splits)
  obtain m where b: "\<not> length bs < 4" "bs ! 0 = 0xf9" "bs ! 1 = 0x7d" "rc_subtype c = bs ! 3"
      "ruleContentLength (bs ! 3) bs = Inr (rc_slot c, m)" "2 + m \<le> length bs"
      "rc_frame c = take (2 + m) bs"
    using assms(1) by (auto simp: decodeRuleConfigurationCommand_def Let_def split: if_splits sum.splits)
  have len: "length (rc_frame c) = 2 + m" using b by simp
  have d: "sf_data f' ! i = bs ! i" if "i < 2 + m" for i
    using that len b(7) by (simp add: f' nth_append)
  have m: "ruleActionLength (bs ! 3 AND 0x0f) bs = Inr m"
    using b(5) assms(2)
    by (auto simp: ruleContentLength_def Let_def split: if_splits sum.splits option.splits)
  have sl: "unat (sf_length f') = 2 + m" "2 + m \<le> 58" "4 \<le> 2 + m"
    using n len unat_of_nat_small [of "2 + m", where 'a = 8] by (simp_all add: f')
  then have present: "frame_present f'" "\<not> sf_length f' < 4"
    by (auto simp: frame_present_def word_less_nat_alt)
  define kind where "kind = bs ! 3 AND 0x0f"
  have word_len: "sf_length f' < w \<longleftrightarrow> 2 + m < unat w" "w \<le> sf_length f' \<longleftrightarrow> unat w \<le> 2 + m"
      "sf_length f' = w \<longleftrightarrow> 2 + m = unat w" for w
    using sl(1) by (auto simp: word_less_nat_alt word_le_nat_alt intro: word_unat_eq_iff [THEN iffD2])
  have head: "sf_data f' ! 0 = 0xf9" "sf_data f' ! Suc 0 = 0x7d" "sf_data f' ! 3 AND 0x0f = kind"
    using d sl(3) b(2,3) by (simp_all add: kind_def)
  note byte8 = word_less_nat_alt [of _ "bs ! 8"] word_less_nat_alt [of "bs ! 8"]
  have delay: "readU32Le (sf_data f') 4 = readU32Le bs 4" if "6 \<le> m"
    using d that by (simp add: readU32Le_def)
  have msg: "take (unat (bs ! 8)) (drop 9 (sf_data f')) = drop 9 (rc_frame c)" if "m = 7 + unat (bs ! 8)"
    using that len by (simp add: f')
  have d8: "sf_data f' ! 8 = bs ! 8" if "7 \<le> m" using d that by simp
  consider "kind = 0" "m = 2" | "kind = 1" "m = 7 + unat (bs ! 8)" "1 \<le> unat (bs ! 8)" "unat (bs ! 8) \<le> 48"
    | "kind = 3" "m = 7 + unat (bs ! 8)" "2 \<le> unat (bs ! 8)" "unat (bs ! 8) \<le> 48"
    | "kind = 4" "m = 6" | "kind = 5" "m = 7" | "kind = 6" "m = 6"
    using m by (auto simp: ruleActionLength_def kind_def [symmetric] byte8 Suc_le_eq unat_gt_0 not_less
        split: if_splits)
  then show ?thesis
    unfolding b(4) kind_def [symmetric]
    by cases (auto simp: decodeExecutableAction_def Let_def present head word_len default_plan_def delay
        message_action_def d8 msg sl(1) len byte8 Suc_le_eq unat_gt_0 not_less)
qed

definition sample_action :: bytes where
  "sample_action = [0xf9, 0x7d, 0x81, 0x93, 0xe8, 3, 0, 0, 2, 0x41, 0x42]"

section \<open>Rules survive a restart\<close>

definition rule_ok :: "RuleRecord \<Rightarrow> bool" where
  "rule_ok r = (length (rr_frames r) = 4 \<and>
     (\<forall>f \<in> set (rr_frames r). length (sf_data f) = 58 \<and> unat (sf_length f) \<le> 58))"

lemma image_frames_concat:
  assumes "\<forall>f \<in> set fs. length (sf_data f) = 58"
  shows "image_frames (length fs) (concat (map (\<lambda>f. sf_length f # sf_data f) fs)) = fs"
  using assms by (induction fs) simp_all

lemma rule_image_roundtrip:
  assumes "rule_ok r"
  shows "image_rule (rule_image r) = r \<and> length (rule_image r) = kRuleRecordSize"
proof -
  have 4: "length (rr_frames r) = 4" and d: "\<forall>f \<in> set (rr_frames r). length (sf_data f) = 58"
    using assms by (simp_all add: rule_ok_def)
  have "length (concat (map (\<lambda>f. sf_length f # sf_data f) fs)) = 59 * length fs"
    if "\<forall>f \<in> set fs. length (sf_data f) = 58" for fs
    using that by (induction fs) simp_all
  from this [OF d] image_frames_concat [OF d] 4 show ?thesis
    by (simp add: image_rule_def rule_image_def kRuleRecordSize_def)
qed

lemma rule_key_inj:
  assumes "a < 100" "b < 100" "rule_key a = rule_key b"
  shows "a = b"
proof -
  have "a div 10 < 10" "b div 10 < 10" "a mod 10 < 10" "b mod 10 < 10" using assms(1,2) by auto
  then have "a div 10 = b div 10" "a mod 10 = b mod 10"
    using assms(3) char_of_digit by (auto simp: rule_key_def slot_digits_def)
  then show ?thesis by (metis div_mult_mod_eq)
qed

text \<open>The storage holds the state: a rule never stored is the empty one.\<close>

definition holds_rules :: "'s prefs \<Rightarrow> 's \<Rightarrow> RuleState \<Rightarrow> bool" where
  "holds_rules P s st = (length st = 16 \<and> (\<forall>k < 16. rule_ok (st ! k) \<and>
     (pf_get P s (rule_key (Suc k)) = Some (PvBytes (rule_image (st ! k))) \<or>
      pf_get P s (rule_key (Suc k)) = None \<and> st ! k = empty_rule)))"

lemma loadRules_holds:
  assumes "holds_rules P s st"
  shows "k \<le> 16 \<Longrightarrow> loadRules P s [Suc k..<17] (take k st @ replicate (16 - k) empty_rule) = (True, st)"
proof (induction "16 - k" arbitrary: k)
  case 0
  then show ?case using assms by (simp add: holds_rules_def)
next
  case (Suc n)
  then have k: "k < 16" by simp
  then have st: "length st = 16" "rule_ok (st ! k)"
    and g: "pf_get P s (rule_key (Suc k)) = Some (PvBytes (rule_image (st ! k))) \<or>
      pf_get P s (rule_key (Suc k)) = None \<and> st ! k = empty_rule"
    using assms by (auto simp: holds_rules_def)
  have step: "(take k st @ replicate (16 - k) empty_rule)[k := st ! k] =
      take (Suc k) st @ replicate (16 - Suc k) empty_rule"
    using k st(1) by (simp add: list_update_append take_Suc_conv_app_nth Suc_diff_Suc [symmetric])
  have upt: "[Suc k..<17] = Suc k # [Suc (Suc k)..<17]" using k by (simp add: upt_conv_Cons)
  have IH: "loadRules P s [Suc (Suc k)..<17] (take (Suc k) st @ replicate (16 - Suc k) empty_rule) = (True, st)"
    using Suc.hyps Suc.prems k by (intro Suc.hyps(1)) simp_all
  have frames: "\<not> list_ex (\<lambda>f. unat (sf_length f) > kMaxRuleFrameLength) (rr_frames (st ! k))"
    using st(2) by (auto simp: rule_ok_def list_ex_iff)
  note img = rule_image_roundtrip [OF st(2)]
  from g show ?case
  proof
    assume e: "pf_get P s (rule_key (Suc k)) = Some (PvBytes (rule_image (st ! k)))"
    have "0 < kRuleRecordSize" by (simp add: kRuleRecordSize_def)
    with e img frames IH step show ?thesis
      unfolding upt by (simp add: pf_getBytesLength_def pf_getBytes_def Let_def)
  next
    assume e: "pf_get P s (rule_key (Suc k)) = None \<and> st ! k = empty_rule"
    have "take (Suc k) st @ replicate (16 - Suc k) empty_rule = take k st @ replicate (16 - k) empty_rule"
      using k st(1) e by (simp add: take_Suc_conv_app_nth Suc_diff_Suc [symmetric])
    with e IH show ?thesis
      unfolding upt by (simp add: pf_getBytesLength_def)
  qed
qed

lemma ruleStore_load_holds: "holds_rules P s st \<Longrightarrow> ruleStore_load P s = (True, st)"
  using loadRules_holds [of P s st 0]
  by (simp add: ruleStore_load_def initial_rules_def del: upt_Suc)

lemma rule_saved:
  assumes "prefs_laws P" "holds_rules P s st" "rule_ok r" "ruleStore_saveRule P ruleId r s = (True, s')"
  shows "holds_rules P s' (st[unat ruleId - 1 := r])"
proof -
  note r = assms(3) and sv = assms(4)
  from sv have id: "1 \<le> unat ruleId" "unat ruleId \<le> 16"
    and w: "pf_store P (rule_key (unat ruleId)) (PvBytes (rule_image r)) s = (True, s')"
    by (auto simp: ruleStore_saveRule_def word_less_nat_alt split: if_splits)
  have "0 < pv_size (PvBytes (rule_image r))"
    using rule_image_roundtrip [OF r] by (simp add: kRuleRecordSize_def)
  note g = pf_store_True [OF assms(1) w this]
  have other: "rule_key (Suc k) \<noteq> rule_key (unat ruleId)" if "k < 16" "k \<noteq> unat ruleId - 1" for k
    using rule_key_inj [of "Suc k" "unat ruleId"] that id by fastforce
  show ?thesis
    using assms(2) id r other unfolding holds_rules_def
    by (auto simp: g nth_list_update)
qed

lemma rule_removed:
  assumes "prefs_laws P" "holds_rules P s st" "ruleStore_removeRule P ruleId s = (True, s')"
  shows "holds_rules P s' (st[unat ruleId - 1 := empty_rule])"
proof -
  note rm = assms(3)
  from rm have id: "1 \<le> unat ruleId" "unat ruleId \<le> 16"
    and w: "pf_remove P (rule_key (unat ruleId)) s = (True, s')"
    by (auto simp: ruleStore_removeRule_def word_less_nat_alt split: if_splits)
  note g = pf_remove_law [OF assms(1) w]
  have other: "rule_key (Suc k) \<noteq> rule_key (unat ruleId)" if "k < 16" "k \<noteq> unat ruleId - 1" for k
    using rule_key_inj [of "Suc k" "unat ruleId"] that id by fastforce
  have "rule_ok empty_rule" by (simp add: rule_ok_def empty_rule_def empty_frame_def)
  then show ?thesis
    using assms(2) id other g unfolding holds_rules_def
    by (auto simp: nth_list_update)
qed

text \<open>
  The rule store is the array of rules: after a rule has been saved or removed with success,
  loading returns the array with that rule replaced, or empty, and every other rule unchanged.
\<close>

theorem rules_survive_restart:
  assumes "prefs_laws P" "holds_rules P s st"
  shows "(\<forall>r s'. rule_ok r \<longrightarrow> ruleStore_saveRule P ruleId r s = (True, s') \<longrightarrow>
      ruleStore_load P s' = (True, st[unat ruleId - 1 := r])) \<and>
    (\<forall>s'. ruleStore_removeRule P ruleId s = (True, s') \<longrightarrow>
      ruleStore_load P s' = (True, st[unat ruleId - 1 := empty_rule]))"
  by (intro conjI allI impI ruleStore_load_holds)
     (erule (1) rule_saved [OF assms], erule rule_removed [OF assms])

lemma rules_survive_restart_witness:
  "ruleStore_load map_prefs (snd (ruleStore_saveRule map_prefs 3 (empty_rule\<lparr>rr_enabled := True\<rparr>) Map.empty)) =
     (True, initial_rules[2 := empty_rule\<lparr>rr_enabled := True\<rparr>])"
proof -
  have "rule_ok empty_rule" by (simp add: rule_ok_def empty_rule_def empty_frame_def)
  then have "holds_rules map_prefs Map.empty initial_rules"
    by (simp add: holds_rules_def initial_rules_def)
  from rules_survive_restart [OF map_prefs_laws this, of 3] \<open>rule_ok empty_rule\<close> show ?thesis
    by (simp add: ruleStore_saveRule_def rule_ok_def)
qed

end
