(* ===== verification/HistoryTransfer.thy ===== *)
theory HistoryTransfer
  imports ReportScheduler Stores
begin

text \<open>
  The history handlers of \<^verbatim>\<open>include/core/Application.h\<close>: taking snapshots of the polled
  channels, noting the loss of the network, retransmitting what was recorded since, and answering
  history queries. The transport is \<^verbatim>\<open>include/core/Transport.h\<close> as its callers see it: a
  connection flag and, for every send to come, whether it is accepted. Clocks are arguments.
  Diagnostic counters, which nothing but the status pages reads, are not modelled, and a send is
  taken to return before the next downlink is handled.
\<close>

section \<open>The transport\<close>

record transport =
  tp_connected :: bool
  tp_answers :: "bool list"
  tp_sent :: "(u8 \<times> bytes) list"

definition kCompatibilityFPort :: u8 where "kCompatibilityFPort = 85"

text \<open>\<open>tp_sent\<close> is the log of the accepted envelopes; a send beyond the known answers is refused.\<close>

definition transport_send :: "u8 \<Rightarrow> bytes \<Rightarrow> transport \<Rightarrow> bool \<times> transport" where
  "transport_send endpoint payload t = (case tp_answers t of
       [] \<Rightarrow> (False, t)
     | accepted # later \<Rightarrow>
         (accepted, t\<lparr>tp_answers := later,
            tp_sent := (if accepted then tp_sent t @ [(endpoint, payload)] else tp_sent t)\<rparr>))"

section \<open>State\<close>

text \<open>
  The history part of the application. The three namespaces of the non-volatile storage are
  \<open>hp_settingsNs\<close>, \<open>hp_dataNs\<close> and \<open>hp_retxNs\<close>; the history samples have the shape of the
  scheduler's; the records found by a query are a list whose length is the count.
\<close>

record 's history_part =
  hp_settings :: HistorySettings
  hp_ring :: ring
  hp_generation :: u32
  hp_samples :: "Sample list"
  hp_nextSnapshotAtMs :: u32
  hp_retx :: RetransmissionState
  hp_snapshot :: ring
  hp_cursor :: nat
  hp_cursorInitialized :: bool
  hp_nextRetransmissionAtMs :: u32
  hp_networkInitialized :: bool
  hp_wasConnected :: bool
  hp_queryRecords :: "bytes list"
  hp_queryCursor :: nat
  hp_queryActive :: bool
  hp_nextQueryAtMs :: u32
  hp_settingsNs :: 's
  hp_dataNs :: 's
  hp_retxNs :: 's

text \<open>The records of a ring from an index on, oldest first.\<close>

definition ring_from :: "nat \<Rightarrow> ring \<Rightarrow> bytes list" where
  "ring_from i r = List.map_filter (\<lambda>k. ring_oldest kPersistentHistoryCapacity k r) [i..<hr_size r]"

section \<open>Snapshots\<close>

text \<open>A poll result is kept for the next snapshot.\<close>

definition captureHistorySample ::
    "ChannelConfig \<Rightarrow> bool \<Rightarrow> DecodedScalar list \<Rightarrow> u8 \<Rightarrow> 's history_part \<Rightarrow> 's history_part" where
  "captureHistorySample channel success values valueCount h =
     (if unat (ch_slot channel) \<ge> kCompatibilitySlotCount then h
      else
        let i = unat (ch_slot channel); old = sm_values (hp_samples h ! i);
            stored = (if success \<and> valueCount > 0
                      then (if valueCount > 1 then old[0 := values ! 0, 1 := values ! 1]
                            else old[0 := values ! 0])
                      else old)
        in h\<lparr>hp_samples := (hp_samples h)[i :=
             \<lparr>sm_present = True, sm_channel = channel, sm_success = success,
              sm_valueCount = (if success then valueCount else 0), sm_values = stored\<rparr>]\<rparr>)"

text \<open>The records of the samples, in slot order; a sample that cannot be encoded is passed over.\<close>

definition snapshot_record :: "u32 \<Rightarrow> Sample \<Rightarrow> bytes option" where
  "snapshot_record unixNow x =
     (if \<not> sm_present x then None
      else case encodeModbusRecord unixNow (sm_channel x) (sm_success x)
                  (if sm_success x then Some (sm_values x) else None) (sm_valueCount x)
                  (Some kHistoricalModbusRecordLength) of
             Inl _ \<Rightarrow> None
           | Inr rec \<Rightarrow> if length rec \<noteq> kHistoricalModbusRecordLength then None else Some rec)"

definition processHistoryStorage ::
    "'s prefs \<Rightarrow> u32 \<Rightarrow> int \<Rightarrow> u16 \<Rightarrow> 's history_part \<Rightarrow> 's history_part" where
  "processHistoryStorage P nowMs unixNow reportSeconds h =
     (if \<not> hs_storageEnabled (hp_settings h) then h
      else if \<not> time_reached nowMs (hp_nextSnapshotAtMs h) then h
      else
        let h = h\<lparr>hp_nextSnapshotAtMs := nowMs + intervalMs reportSeconds\<rparr>
        in if unixNow \<le> 0 then h
           else
             let records = List.map_filter (snapshot_record (word_of_int unixNow)) (hp_samples h);
                 updated = fold (ring_push kPersistentHistoryCapacity) records (hp_ring h)
             in if records = [] then h
                else case history_save P updated (hp_generation h) (hp_dataNs h) of
                  (ok, generation, ns) \<Rightarrow>
                    let h = h\<lparr>hp_generation := generation, hp_dataNs := ns\<rparr>
                    in if \<not> ok then h else h\<lparr>hp_ring := updated\<rparr>)"

section \<open>The network\<close>

definition processHistoryNetworkState ::
    "'s prefs \<Rightarrow> bool \<Rightarrow> u32 \<Rightarrow> int \<Rightarrow> 's history_part \<Rightarrow> 's history_part" where
  "processHistoryNetworkState P connected nowMs unixNow h =
     (if \<not> hp_networkInitialized h then
        (let h = h\<lparr>hp_networkInitialized := True, hp_wasConnected := connected\<rparr>
         in if connected \<and> rt_pending (hp_retx h)
            then h\<lparr>hp_cursorInitialized := False, hp_nextRetransmissionAtMs := nowMs\<rparr> else h)
      else
        let h' =
          (if hp_wasConnected h \<and> \<not> connected \<and> hs_storageEnabled (hp_settings h) \<and>
              hs_retransmissionEnabled (hp_settings h) then
             (if unixNow > 0 then
                (let updated = \<lparr>rt_pending = True, rt_lostAtUnix = word_of_int unixNow\<rparr>;
                     (ok, ns) = retransmission_save P updated (hp_retxNs h);
                     h = h\<lparr>hp_retxNs := ns\<rparr>
                 in if ok then h\<lparr>hp_retx := updated, hp_cursorInitialized := False\<rparr> else h)
              else h)
           else if \<not> hp_wasConnected h \<and> connected \<and> rt_pending (hp_retx h)
           then h\<lparr>hp_cursorInitialized := False, hp_nextRetransmissionAtMs := nowMs\<rparr>
           else h)
        in h'\<lparr>hp_wasConnected := connected\<rparr>)"

section \<open>Retransmission\<close>

text \<open>
  The packing loop shared by retransmission and queries: as many records as fit, and their number.
\<close>

fun packRecords :: "bytes list \<Rightarrow> bytes \<Rightarrow> nat \<Rightarrow> bytes \<times> nat" where
  "packRecords [] written recordsAdded = (written, recordsAdded)"
| "packRecords (r # rs) written recordsAdded =
     (if length written + kHistoricalModbusRecordLength > kCompatibilityReportPayloadLimit
      then (written, recordsAdded)
      else packRecords rs (written @ r) (recordsAdded + 1))"

text \<open>The first index of the snapshot with a record of at least that time.\<close>

definition firstSince :: "u32 \<Rightarrow> ring \<Rightarrow> nat" where
  "firstSince lostAtUnix r =
     length (takeWhile (\<lambda>i. case ring_oldest kPersistentHistoryCapacity i r of
         Some x \<Rightarrow> \<not> record_timestamp x \<ge> lostAtUnix | None \<Rightarrow> True) [0..<hr_size r])"

definition initRetransmissionCursor :: "'s history_part \<Rightarrow> 's history_part" where
  "initRetransmissionCursor h =
     (if hp_cursorInitialized h then h
      else h\<lparr>hp_snapshot := hp_ring h,
             hp_cursor := firstSince (rt_lostAtUnix (hp_retx h)) (hp_ring h),
             hp_cursorInitialized := True\<rparr>)"

text \<open>Saving the cleared state; the cursor is only reset when that succeeds.\<close>

definition finishRetransmission :: "'s prefs \<Rightarrow> 's history_part \<Rightarrow> bool \<times> 's history_part" where
  "finishRetransmission P h =
     (let (ok, ns) = retransmission_save P default_retransmission (hp_retxNs h);
          h = h\<lparr>hp_retxNs := ns\<rparr>
      in if ok then (True, h\<lparr>hp_retx := default_retransmission, hp_cursorInitialized := False\<rparr>)
         else (False, h))"

definition retryAt :: "u32 \<Rightarrow> 's history_part \<Rightarrow> u32" where
  "retryAt nowMs h = nowMs + intervalMs (hs_retransmissionIntervalSeconds (hp_settings h))"

definition processHistoryRetransmission ::
    "'s prefs \<Rightarrow> u32 \<Rightarrow> transport \<Rightarrow> 's history_part \<Rightarrow> bool \<times> transport \<times> 's history_part" where
  "processHistoryRetransmission P nowMs t h =
     (if \<not> hs_storageEnabled (hp_settings h) \<or> \<not> hs_retransmissionEnabled (hp_settings h) \<or>
         \<not> rt_pending (hp_retx h) \<or> \<not> tp_connected t then (False, t, h)
      else if \<not> time_reached nowMs (hp_nextRetransmissionAtMs h) then (False, t, h)
      else
        let h = initRetransmissionCursor h;
            later = h\<lparr>hp_nextRetransmissionAtMs := retryAt nowMs h\<rparr>
        in if hp_cursor h \<ge> hr_size (hp_snapshot h) then
             (let (ok, h') = finishRetransmission P h
              in if ok then (False, t, h')
                 else (True, t, h'\<lparr>hp_nextRetransmissionAtMs := retryAt nowMs h'\<rparr>))
           else
             let (payload, recordsAdded) = packRecords (ring_from (hp_cursor h) (hp_snapshot h)) [] 0
             in if recordsAdded = 0 \<or> payload = [] then (True, t, later)
                else
                  let (ok, t) = transport_send kCompatibilityFPort payload t
                  in if \<not> ok then (True, t, later)
                     else
                       let h = later\<lparr>hp_cursor := hp_cursor h + recordsAdded\<rparr>
                       in (True, t,
                           if hp_cursor h \<ge> hr_size (hp_snapshot h)
                           then snd (finishRetransmission P h) else h))"

section \<open>Queries\<close>

definition sendHistoryQueryReply :: "u8 \<Rightarrow> u8 \<Rightarrow> transport \<Rightarrow> bool \<times> transport" where
  "sendHistoryQueryReply queryType status t =
     (case encodeHistoryQueryReply queryType status (Some 3) of
        Inl _ \<Rightarrow> (False, t)
      | Inr payload \<Rightarrow>
          if payload = [] then (False, t) else transport_send kCompatibilityFPort payload t)"

text \<open>The search for the time stamp closest to a time, within the tolerance, the oldest first.\<close>

fun closestTimestamp :: "u32 \<Rightarrow> nat \<Rightarrow> bytes list \<Rightarrow> (u32 \<times> nat) option \<Rightarrow> (u32 \<times> nat) option" where
  "closestTimestamp start tolerance [] found = found"
| "closestTimestamp start tolerance (r # rs) found =
     (let ts = record_timestamp r;
          distance = (if ts \<ge> start then unat (ts - start) else unat (start - ts))
      in closestTimestamp start tolerance rs
           (if distance \<le> tolerance \<and> (case found of None \<Rightarrow> True | Some (_, best) \<Rightarrow> distance < best)
            then Some (ts, distance) else found))"

definition queryRecords :: "HistoryQueryCommand \<Rightarrow> u16 \<Rightarrow> ring \<Rightarrow> bytes list" where
  "queryRecords command reportSeconds r =
     take kPersistentHistoryCapacity
       (if hq_kind command = TimePoint then
          (case closestTimestamp (hq_startUnix command) (unat reportSeconds) (ring_from 0 r) None of
             None \<Rightarrow> []
           | Some (ts, _) \<Rightarrow> filter (\<lambda>x. record_timestamp x = ts) (ring_from 0 r))
        else filter (\<lambda>x. record_timestamp x \<ge> hq_startUnix command \<and>
                         record_timestamp x \<le> hq_endUnix command) (ring_from 0 r))"

definition applyHistoryQueryCommand ::
    "HistoryQueryCommand \<Rightarrow> u32 \<Rightarrow> u16 \<Rightarrow> transport \<Rightarrow> 's history_part \<Rightarrow>
       bool \<times> transport \<times> 's history_part" where
  "applyHistoryQueryCommand command nowMs reportSeconds t h =
     (if hq_kind command = StopQuery then
        (True, t, h\<lparr>hp_queryActive := False, hp_queryRecords := [], hp_queryCursor := 0\<rparr>)
      else
        let replyType = (if hq_kind command = TimePoint then kHistoryPointType else kHistoryRangeType)
        in if hq_kind command = TimeRange \<and> hq_startUnix command > hq_endUnix command then
             (let (ok, t) = sendHistoryQueryReply replyType 0x01 t
              in (ok, t, h\<lparr>hp_queryActive := False\<rparr>))
           else
             let records = queryRecords command reportSeconds (hp_ring h);
                 h = h\<lparr>hp_queryRecords := records, hp_queryCursor := 0\<rparr>
             in if records = [] then
                  (let (ok, t) = sendHistoryQueryReply replyType 0x02 t
                   in (ok, t, h\<lparr>hp_queryActive := False\<rparr>))
                else
                  let (ok, t) = sendHistoryQueryReply replyType 0x00 t
                  in if \<not> ok then (False, t, h\<lparr>hp_queryActive := False, hp_queryRecords := []\<rparr>)
                     else (True, t, h\<lparr>hp_queryActive := True,
                       hp_nextQueryAtMs := nowMs +
                         intervalMs (hs_retrievabilityIntervalSeconds (hp_settings h))\<rparr>))"

definition processHistoryQuery ::
    "u32 \<Rightarrow> transport \<Rightarrow> 's history_part \<Rightarrow> bool \<times> transport \<times> 's history_part" where
  "processHistoryQuery nowMs t h =
     (if \<not> hp_queryActive h \<or> \<not> tp_connected t then (False, t, h)
      else if \<not> time_reached nowMs (hp_nextQueryAtMs h) then (False, t, h)
      else
        let (payload, recordsAdded) = packRecords (drop (hp_queryCursor h) (hp_queryRecords h)) [] 0
        in if recordsAdded = 0 then (False, t, h\<lparr>hp_queryActive := False\<rparr>)
           else
             let h = h\<lparr>hp_nextQueryAtMs := nowMs +
                   intervalMs (hs_retrievabilityIntervalSeconds (hp_settings h))\<rparr>;
                 (ok, t) = transport_send kCompatibilityFPort payload t
             in if \<not> ok then (True, t, h)
                else
                  let h = h\<lparr>hp_queryCursor := hp_queryCursor h + recordsAdded\<rparr>
                  in (True, t,
                      if hp_queryCursor h \<ge> length (hp_queryRecords h)
                      then h\<lparr>hp_queryActive := False, hp_queryRecords := [], hp_queryCursor := 0\<rparr>
                      else h))"

section \<open>Settings\<close>

text \<open>
  The two toggles share their code but for the flag; switching off drops a pending retransmission.
\<close>

definition dropPendingRetransmission :: "'s prefs \<Rightarrow> bool \<Rightarrow> 's history_part \<Rightarrow> bool \<times> 's history_part" where
  "dropPendingRetransmission P enabled h =
     (if \<not> enabled \<and> rt_pending (hp_retx h) then finishRetransmission P h else (True, h))"

definition saveHistorySettings ::
    "'s prefs \<Rightarrow> HistorySettings \<Rightarrow> 's history_part \<Rightarrow> bool \<times> 's history_part" where
  "saveHistorySettings P updated h =
     (let (ok, ns) = historySettings_save P updated (hp_settingsNs h);
          h = h\<lparr>hp_settingsNs := ns\<rparr>
      in if ok then (True, h\<lparr>hp_settings := updated\<rparr>) else (False, h))"

definition applyHistoryStorageCommand ::
    "'s prefs \<Rightarrow> bool \<Rightarrow> 's history_part \<Rightarrow> bool \<times> 's history_part" where
  "applyHistoryStorageCommand P enabled h =
     (let (ok, h) = saveHistorySettings P ((hp_settings h)\<lparr>hs_storageEnabled := enabled\<rparr>) h
      in if \<not> ok then (False, h) else dropPendingRetransmission P enabled h)"

definition applyHistoryRetransmissionCommand ::
    "'s prefs \<Rightarrow> bool \<Rightarrow> 's history_part \<Rightarrow> bool \<times> 's history_part" where
  "applyHistoryRetransmissionCommand P enabled h =
     (let (ok, h) = saveHistorySettings P ((hp_settings h)\<lparr>hs_retransmissionEnabled := enabled\<rparr>) h
      in if \<not> ok then (False, h) else dropPendingRetransmission P enabled h)"

definition applyRetrievabilityIntervalCommand ::
    "'s prefs \<Rightarrow> u16 \<Rightarrow> 's history_part \<Rightarrow> bool \<times> 's history_part" where
  "applyRetrievabilityIntervalCommand P seconds h =
     (let updated = (hp_settings h)\<lparr>hs_retrievabilityIntervalSeconds := seconds\<rparr>
      in if \<not> validHistorySettings updated then (False, h) else saveHistorySettings P updated h)"

definition applyRetransmissionIntervalCommand ::
    "'s prefs \<Rightarrow> u16 \<Rightarrow> 's history_part \<Rightarrow> bool \<times> 's history_part" where
  "applyRetransmissionIntervalCommand P seconds h =
     (let updated = (hp_settings h)\<lparr>hs_retransmissionIntervalSeconds := seconds\<rparr>
      in if \<not> validHistorySettings updated then (False, h) else saveHistorySettings P updated h)"

end
