(* ===== verification/TransferProperties.thy ===== *)
theory TransferProperties
  imports HistoryTransfer StoreProperties
begin

text \<open>
  What the history handlers promise: as long as no turn of the loop finds the network lost, a
  retransmission sends every record since the loss exactly once, in order, whatever sends and writes
  fail on the way; and a query finds exactly the records it asks for. A turn that finds the network lost
  replaces the time of the loss, and one that finds it back starts the retransmission again, so across
  such turns records are repeated or left out.
\<close>

section \<open>Packing\<close>

lemma packRecords_spec:
  assumes "\<And>x. x \<in> set rs \<Longrightarrow> length x = 25"
    and "packRecords rs acc n = (payload, m)" "length acc \<le> 51"
  shows "\<exists>k. m = n + k \<and> k \<le> length rs \<and> payload = acc @ concat (take k rs) \<and> length payload \<le> 51 \<and>
    (rs \<noteq> [] \<longrightarrow> length acc \<le> 26 \<longrightarrow> 0 < k)"
  using assms
proof (induction rs arbitrary: acc n)
  case Nil
  then show ?case by simp
next
  case (Cons r rs)
  have r: "length r = 25" and rs: "\<And>x. x \<in> set rs \<Longrightarrow> length x = 25" using Cons.prems(1) by auto
  show ?case
  proof (cases "length acc + 25 > 51")
    case True
    with Cons.prems show ?thesis by (simp add: kHistoricalModbusRecordLength_def)
  next
    case False
    then have "packRecords rs (acc @ r) (n + 1) = (payload, m)"
      using Cons.prems(2) by (simp add: kHistoricalModbusRecordLength_def)
    from Cons.IH [OF rs this] False r obtain k where
      "m = n + 1 + k" "k \<le> length rs" "payload = acc @ r @ concat (take k rs)" "length payload \<le> 51"
      by auto
    then show ?thesis by (intro exI [of _ "Suc k"]) simp
  qed
qed

lemma map_filter_total: "(\<And>x. x \<in> set xs \<Longrightarrow> f x = Some (g x)) \<Longrightarrow> List.map_filter f xs = map g xs"
  by (induction xs) (auto simp: List.map_filter_simps)

lemma map_nth_drop: "map (nth xs) [i..<length xs] = drop i xs"
  by (rule nth_equalityI) auto

lemma ring_from_list:
  "ring_from i r = drop i (ring_list kPersistentHistoryCapacity r)"
proof -
  have "ring_from i r = map (nth (ring_list kPersistentHistoryCapacity r)) [i..<hr_size r]"
    unfolding ring_from_def
    by (rule map_filter_total) (simp add: ring_oldest_list)
  then show ?thesis
    using map_nth_drop [of "ring_list kPersistentHistoryCapacity r" i] by simp
qed

lemma firstSince_list:
  "drop (firstSince lost r) (ring_list kPersistentHistoryCapacity r) =
     dropWhile (\<lambda>x. record_timestamp x < lost) (ring_list kPersistentHistoryCapacity r)"
proof -
  let ?l = "ring_list kPersistentHistoryCapacity r" and ?P = "\<lambda>x. record_timestamp x < lost"
  have "firstSince lost r = length (takeWhile (?P \<circ> nth ?l) [0..<hr_size r])"
    unfolding firstSince_def
    by (intro arg_cong [where f = length] takeWhile_cong) (auto simp: ring_oldest_list not_le)
  also have "\<dots> = length (takeWhile ?P (map (nth ?l) [0..<hr_size r]))"
    by (simp only: takeWhile_map length_map)
  also have "map (nth ?l) [0..<hr_size r] = ?l"
    using map_nth [of ?l] by simp
  finally show ?thesis by (simp add: dropWhile_eq_drop)
qed


section \<open>Runs of the loop\<close>

text \<open>
  What happens to a transfer in progress: the loop looks at the state of the network and calls the
  handler of the transfer at some time, the radio will accept or refuse the next sends, the network comes
  and goes, and new snapshots are recorded.
\<close>

datatype TransferOp = Handle u32 | Network u32 int | Answers "bool list" | Connection bool | Snapshot u32 int u16

type_synonym 's handler = "u32 \<Rightarrow> transport \<Rightarrow> 's history_part \<Rightarrow> bool \<times> transport \<times> 's history_part"

fun transfer_step ::
    "'s prefs \<Rightarrow> 's handler \<Rightarrow> TransferOp \<Rightarrow> transport \<times> 's history_part \<Rightarrow> transport \<times> 's history_part" where
  "transfer_step P handler (Handle nowMs) (t, h) = snd (handler nowMs t h)"
| "transfer_step P handler (Network nowMs unixNow) (t, h) =
     (t, processHistoryNetworkState P (tp_connected t) nowMs unixNow h)"
| "transfer_step P handler (Answers xs) (t, h) = (t\<lparr>tp_answers := tp_answers t @ xs\<rparr>, h)"
| "transfer_step P handler (Connection c) (t, h) = (t\<lparr>tp_connected := c\<rparr>, h)"
| "transfer_step P handler (Snapshot nowMs unixNow seconds) (t, h) =
     (t, processHistoryStorage P nowMs unixNow seconds h)"

lemma processHistoryStorage_frame [simp]:
  "hp_retx (processHistoryStorage P n u s h) = hp_retx h"
  "hp_snapshot (processHistoryStorage P n u s h) = hp_snapshot h"
  "hp_cursor (processHistoryStorage P n u s h) = hp_cursor h"
  "hp_cursorInitialized (processHistoryStorage P n u s h) = hp_cursorInitialized h"
  "hp_queryRecords (processHistoryStorage P n u s h) = hp_queryRecords h"
  "hp_queryCursor (processHistoryStorage P n u s h) = hp_queryCursor h"
  "hp_queryActive (processHistoryStorage P n u s h) = hp_queryActive h"
  "hp_networkInitialized (processHistoryStorage P n u s h) = hp_networkInitialized h"
  "hp_wasConnected (processHistoryStorage P n u s h) = hp_wasConnected h"
  by (simp_all add: processHistoryStorage_def Let_def split: prod.splits)

lemma processHistoryNetworkState_frame [simp]:
  "hp_queryRecords (processHistoryNetworkState P c n u h) = hp_queryRecords h"
  "hp_queryCursor (processHistoryNetworkState P c n u h) = hp_queryCursor h"
  "hp_queryActive (processHistoryNetworkState P c n u h) = hp_queryActive h"
  by (simp_all add: processHistoryNetworkState_def Let_def split: prod.splits)

text \<open>A run in which every turn that looks at the network finds it: losses between two turns may happen.\<close>

fun network_found :: "bool \<Rightarrow> TransferOp list \<Rightarrow> bool" where
  "network_found up [] = True"
| "network_found up (Connection c # ops) = network_found c ops"
| "network_found up (Network nowMs unixNow # ops) = (up \<and> network_found up ops)"
| "network_found up (op # ops) = network_found up ops"

definition payloads :: "transport \<Rightarrow> bytes" where
  "payloads t = concat (map snd (tp_sent t))"

definition sent_fits :: "transport \<Rightarrow> bool" where
  "sent_fits t = (\<forall>(port, payload) \<in> set (tp_sent t). port = kCompatibilityFPort \<and> length payload \<le> 51)"

lemma transport_send_cases:
  assumes "transport_send port payload t = (ok, t')"
  shows "tp_sent t' = (if ok then tp_sent t @ [(port, payload)] else tp_sent t)"
    "tp_connected t' = tp_connected t"
  using assms by (auto simp: transport_send_def split: list.splits if_splits)

lemma send_payloads:
  assumes "transport_send kCompatibilityFPort payload t = (ok, t')" "sent_fits t" "length payload \<le> 51"
  shows "sent_fits t'" "payloads t' = (if ok then payloads t @ payload else payloads t)"
  using transport_send_cases [OF assms(1)] assms(2,3) by (auto simp: sent_fits_def payloads_def)

section \<open>Retransmission\<close>

definition retransmission_inv :: "bytes \<Rightarrow> transport \<times> 's history_part \<Rightarrow> bool" where
  "retransmission_inv goal th = (case th of (t, h) \<Rightarrow>
     sent_fits t \<and> hp_networkInitialized h \<and> hp_wasConnected h \<and>
     (\<forall>x \<in> set (ring_list kPersistentHistoryCapacity (hp_snapshot h)). length x = 25) \<and>
     (if rt_pending (hp_retx h)
      then hp_cursorInitialized h \<and>
        payloads t @ concat (drop (hp_cursor h) (ring_list kPersistentHistoryCapacity (hp_snapshot h))) = goal
      else payloads t = goal))"

lemma finishRetransmission_cases:
  "finishRetransmission P h = (ok, h') \<Longrightarrow>
     hp_snapshot h' = hp_snapshot h \<and> hp_cursor h' = hp_cursor h \<and>
     hp_networkInitialized h' = hp_networkInitialized h \<and> hp_wasConnected h' = hp_wasConnected h \<and>
     (if ok then \<not> rt_pending (hp_retx h')
      else hp_retx h' = hp_retx h \<and> hp_cursorInitialized h' = hp_cursorInitialized h)"
  by (auto simp: finishRetransmission_def default_retransmission_def Let_def split: prod.splits if_splits)

lemma finish_keeps:
  assumes "retransmission_inv goal (t, h)" "rt_pending (hp_retx h)"
    "hp_cursor h \<ge> hr_size (hp_snapshot h)" "finishRetransmission P h = (ok, h')"
  shows "retransmission_inv goal (t, h')"
  using assms(1-3) finishRetransmission_cases [OF assms(4)]
  by (auto simp: retransmission_inv_def split: if_splits)

lemma finish_keeps_snd:
  assumes "retransmission_inv goal (t, h)" "rt_pending (hp_retx h)"
    "hp_cursor h \<ge> hr_size (hp_snapshot h)"
  shows "retransmission_inv goal (t, snd (finishRetransmission P h))"
  using finish_keeps [OF assms] by (metis prod.collapse)

lemma retransmission_inv_time [simp]:
  "retransmission_inv goal (t, h\<lparr>hp_nextRetransmissionAtMs := x\<rparr>) = retransmission_inv goal (t, h)"
  by (simp add: retransmission_inv_def)

lemma retransmission_sent:
  assumes "retransmission_inv goal (t, h)" "rt_pending (hp_retx h)"
    "packRecords (ring_from (hp_cursor h) (hp_snapshot h)) [] 0 = (payload, n)"
    "transport_send kCompatibilityFPort payload t = (ok, t')"
  shows "retransmission_inv goal (t', if ok then h\<lparr>hp_cursor := hp_cursor h + n\<rparr> else h)"
proof -
  let ?l = "ring_list kPersistentHistoryCapacity (hp_snapshot h)"
  have "\<And>x. x \<in> set (drop (hp_cursor h) ?l) \<Longrightarrow> length x = 25"
    using assms(1) in_set_dropD [of _ "hp_cursor h" ?l] by (auto simp: retransmission_inv_def)
  from packRecords_spec [OF this assms(3) [unfolded ring_from_list]] obtain
    p: "payload = concat (take n (drop (hp_cursor h) ?l))" "length payload \<le> 51"
    by auto
  have split: "concat (drop (hp_cursor h) ?l) = payload @ concat (drop (hp_cursor h + n) ?l)"
    unfolding p(1) concat_append [symmetric]
    using append_take_drop_id [of n "drop (hp_cursor h) ?l"] by (simp add: add.commute)
  show ?thesis
    using assms(1,2) send_payloads [OF assms(4) _ p(2)] split
    by (auto simp: retransmission_inv_def)
qed

lemma retransmission_handled:
  assumes "retransmission_inv goal (t, h)"
  shows "retransmission_inv goal (snd (processHistoryRetransmission P nowMs t h))"
proof (cases "rt_pending (hp_retx h)")
  case False
  then show ?thesis using assms by (simp add: processHistoryRetransmission_def)
next
  case True
  then have init: "initRetransmissionCursor h = h"
    using assms by (simp add: retransmission_inv_def initRetransmissionCursor_def)
  obtain payload n where pack:
    "packRecords (ring_from (hp_cursor h) (hp_snapshot h)) [] 0 = (payload, n)" by fastforce
  obtain ok t' where send: "transport_send kCompatibilityFPort payload t = (ok, t')" by fastforce
  obtain saved h' where fin: "finishRetransmission P h = (saved, h')" by fastforce
  note sent = retransmission_sent [OF assms True pack send]
  have last: "retransmission_inv goal
      (t', snd (finishRetransmission P (h\<lparr>hp_nextRetransmissionAtMs := w, hp_cursor := hp_cursor h + n\<rparr>)))"
    if "ok" "hp_cursor h + n \<ge> hr_size (hp_snapshot h)" for w
    by (rule finish_keeps_snd) (use sent that True in \<open>simp_all add: retransmission_inv_def\<close>)
  show ?thesis
    using assms sent last finish_keeps [OF assms True _ fin]
    by (auto simp: processHistoryRetransmission_def init pack send fin Let_def retransmission_inv_def
        simp del: packRecords.simps)
qed


text \<open>A turn that finds the network as the turn before did changes nothing.\<close>

lemma network_steady:
  "hp_networkInitialized h \<Longrightarrow> hp_wasConnected h \<Longrightarrow> processHistoryNetworkState P True nowMs unixNow h = h"
  by (simp add: processHistoryNetworkState_def)

lemma handler_connection: "tp_connected (fst (snd (processHistoryRetransmission P nowMs t h))) = tp_connected t"
  by (auto simp: processHistoryRetransmission_def Let_def transport_send_cases(2) split: prod.splits)

lemma retransmission_step:
  assumes "retransmission_inv goal (t, h)" "network_found (tp_connected t) (op # ops)"
    "transfer_step P (processHistoryRetransmission P) op (t, h) = (t', h')"
  shows "retransmission_inv goal (t', h') \<and> network_found (tp_connected t') ops"
proof (cases op)
  case (Handle nowMs)
  then show ?thesis
    using assms retransmission_handled [OF assms(1), of P nowMs] handler_connection [of P nowMs t h] by simp
next
  case (Network nowMs unixNow)
  with assms have "processHistoryNetworkState P (tp_connected t) nowMs unixNow h = h"
    by (auto simp: retransmission_inv_def intro: network_steady)
  then show ?thesis using assms Network by auto
qed (use assms in \<open>auto simp: retransmission_inv_def sent_fits_def payloads_def\<close>)

lemma retransmission_run:
  "retransmission_inv goal (t, h) \<Longrightarrow> network_found (tp_connected t) ops \<Longrightarrow>
     retransmission_inv goal (fold (transfer_step P (processHistoryRetransmission P)) ops (t, h))"
proof (induction ops arbitrary: t h)
  case (Cons op ops)
  obtain t' h' where step: "transfer_step P (processHistoryRetransmission P) op (t, h) = (t', h')" by fastforce
  from retransmission_step [OF Cons.prems step] Cons.IH [of t' h'] show ?case by (simp add: step)
qed simp

definition retransmission_left :: "'s history_part \<Rightarrow> bytes" where
  "retransmission_left h = (if rt_pending (hp_retx h)
     then concat (drop (hp_cursor h) (ring_list kPersistentHistoryCapacity (hp_snapshot h))) else [])"

text \<open>
  C24. Within a connection a retransmission neither loses nor repeats a record. The device has looked at the
  network and found it, and as long as every turn of the loop that looks at it finds it again, whatever sends
  the radio refuses, whatever is recorded meanwhile and whether or not the flash accepts the final state, the
  payloads sent so far, in order and each small enough for the radio, followed by the records still to send
  are the records of the history from the first one recorded at or after the loss of the network; and the
  handler only stops pending when nothing is left. The settings stay and the device is not restarted.
  Nothing is said beyond a turn that finds the network lost: it replaces the time of the loss.
\<close>

theorem retransmission_exact:
  assumes "rt_pending (hp_retx h)" "\<not> hp_cursorInitialized h" "tp_sent t = []"
    and "hp_networkInitialized h" "hp_wasConnected h" "network_found (tp_connected t) ops"
    and "\<forall>x \<in> set (ring_list kPersistentHistoryCapacity (hp_ring h)). history_record x"
    and "fold (transfer_step P (processHistoryRetransmission P)) ops (t, initRetransmissionCursor h) = (t', h')"
  shows "sent_fits t' \<and>
    payloads t' @ retransmission_left h' =
      concat (dropWhile (\<lambda>x. record_timestamp x < rt_lostAtUnix (hp_retx h))
        (ring_list kPersistentHistoryCapacity (hp_ring h)))"
proof -
  let ?goal = "concat (dropWhile (\<lambda>x. record_timestamp x < rt_lostAtUnix (hp_retx h))
        (ring_list kPersistentHistoryCapacity (hp_ring h)))"
  have "retransmission_inv ?goal (t, initRetransmissionCursor h)"
    using assms(1-5,7)
    by (auto simp: retransmission_inv_def initRetransmissionCursor_def sent_fits_def payloads_def
        firstSince_list history_record_def kHistoricalModbusRecordLength_def)
  from retransmission_run [OF this assms(6), of P] show ?thesis
    unfolding assms(8) by (auto simp: retransmission_inv_def retransmission_left_def split: if_splits)
qed


definition lost_history :: "(string \<Rightarrow> PrefValue option) history_part" where
  "lost_history = \<lparr>hp_settings = default_history_settings\<lparr>hs_storageEnabled := True, hs_retransmissionEnabled := True\<rparr>,
     hp_ring = ring_push 64 sample_record (ring_empty 64), hp_generation = 0, hp_samples = [],
     hp_nextSnapshotAtMs = 0, hp_retx = \<lparr>rt_pending = True, rt_lostAtUnix = 5\<rparr>,
     hp_snapshot = ring_empty 64, hp_cursor = 0, hp_cursorInitialized = False,
     hp_nextRetransmissionAtMs = 0, hp_networkInitialized = True, hp_wasConnected = True,
     hp_queryRecords = [], hp_queryCursor = 0, hp_queryActive = False, hp_nextQueryAtMs = 0,
     hp_settingsNs = Map.empty, hp_dataNs = Map.empty, hp_retxNs = Map.empty\<rparr>"

lemma lost_history_ring: "ring_list kPersistentHistoryCapacity (hp_ring lost_history) = [sample_record]"
  by (simp add: lost_history_def kPersistentHistoryCapacity_def ring_push_list ring_empty_ok)

lemma retransmission_exact_witness:
  "case fold (transfer_step map_prefs (processHistoryRetransmission map_prefs))
       [Network 0 1700000000, Answers [False, True], Handle 0, Snapshot 10 1700000000 60, Network 20 1700000000, Handle 3600000]
       (\<lparr>tp_connected = True, tp_answers = [], tp_sent = []\<rparr>, initRetransmissionCursor lost_history) of
     (t', h') \<Rightarrow> sent_fits t' \<and> payloads t' @ retransmission_left h' = sample_record"
proof -
  obtain t' h' where run: "fold (transfer_step map_prefs (processHistoryRetransmission map_prefs))
       [Network 0 1700000000, Answers [False, True], Handle 0, Snapshot 10 1700000000 60, Network 20 1700000000, Handle 3600000]
       (\<lparr>tp_connected = True, tp_answers = [], tp_sent = []\<rparr>, initRetransmissionCursor lost_history) = (t', h')"
    by fastforce
  have l: "rt_pending (hp_retx lost_history)" "\<not> hp_cursorInitialized lost_history"
    "hp_networkInitialized lost_history" "hp_wasConnected lost_history" "rt_lostAtUnix (hp_retx lost_history) = 5"
    by (simp_all add: lost_history_def)
  have ts: "\<not> record_timestamp sample_record < 5"
    by code_simp
  show ?thesis
    using retransmission_exact [OF l(1,2) _ l(3,4) _ _ run] ts
    unfolding run by (simp add: lost_history_ring l(5) sample_record_ok)
qed

section \<open>Queries\<close>

text \<open>The records a query asks for, in the order they were recorded.\<close>

definition time_distance :: "u32 \<Rightarrow> bytes \<Rightarrow> nat" where
  "time_distance start x = nat \<bar>int (unat (record_timestamp x)) - int (unat start)\<bar>"

definition closest_time :: "u32 \<Rightarrow> nat \<Rightarrow> bytes list \<Rightarrow> u32 option" where
  "closest_time start tolerance rs =
     (let near = filter (\<lambda>x. time_distance start x \<le> tolerance) rs;
          best = Min (time_distance start ` set near)
      in if near = [] then None
         else Some (record_timestamp (hd (filter (\<lambda>x. time_distance start x = best) near))))"

definition asked_records :: "HistoryQueryCommand \<Rightarrow> u16 \<Rightarrow> bytes list \<Rightarrow> bytes list" where
  "asked_records command tolerance rs =
     (if hq_kind command = TimePoint
      then filter (\<lambda>x. closest_time (hq_startUnix command) (unat tolerance) rs = Some (record_timestamp x)) rs
      else filter (\<lambda>x. record_timestamp x \<in> {hq_startUnix command .. hq_endUnix command}) rs)"

lemma time_distance_unat:
  "(if record_timestamp x \<ge> start then unat (record_timestamp x - start)
    else unat (start - record_timestamp x)) = time_distance start x"
  by (simp add: time_distance_def unat_sub_if_size word_le_nat_alt del: of_nat_unat)
     (auto simp del: of_nat_unat)

definition closer :: "u32 \<Rightarrow> nat \<Rightarrow> bytes \<Rightarrow> (u32 \<times> nat) option \<Rightarrow> (u32 \<times> nat) option" where
  "closer start tolerance x found =
     (if time_distance start x \<le> tolerance \<and>
         (case found of None \<Rightarrow> True | Some (_, best) \<Rightarrow> time_distance start x < best)
      then Some (record_timestamp x, time_distance start x) else found)"

lemma closestTimestamp_fold:
  "closestTimestamp start tolerance rs found = fold (closer start tolerance) rs found"
  by (induction rs arbitrary: found)
     (simp, simp only: closestTimestamp.simps Let_def time_distance_unat closer_def fold_simps)

lemma closestTimestamp_spec:
  "closestTimestamp start tolerance rs None =
     (let near = filter (\<lambda>x. time_distance start x \<le> tolerance) rs;
          best = Min (time_distance start ` set near)
      in if near = [] then None
         else Some (record_timestamp (hd (filter (\<lambda>x. time_distance start x = best) near)), best))"
proof (induction rs rule: rev_induct)
  case Nil
  then show ?case by simp
next
  case (snoc x rs)
  let ?d = "time_distance start" and ?near = "filter (\<lambda>x. time_distance start x \<le> tolerance) rs"
  let ?m = "Min (?d ` set ?near)"
  have step: "closestTimestamp start tolerance (rs @ [x]) None =
      closer start tolerance x (closestTimestamp start tolerance rs None)"
    by (simp add: closestTimestamp_fold)
  show ?case
  proof (cases "?near = []")
    case True
    then show ?thesis by (auto simp: step snoc.IH closer_def)
  next
    case False
    then have mem: "?m \<in> ?d ` set ?near" by (intro Min_in) (auto simp: filter_empty_conv)
    then have some: "filter (\<lambda>x. ?d x = ?m) ?near \<noteq> []" by (auto simp: filter_empty_conv)
    have none: "filter (\<lambda>y. ?d y = ?d x) ?near = []" if "?d x < ?m"
    proof -
      have "\<forall>y \<in> set ?near. ?m \<le> ?d y" by simp
      then have "\<forall>y \<in> set ?near. ?d y \<noteq> ?d x" using that by (metis linorder_not_less)
      then show ?thesis by (simp only: filter_empty_conv)
    qed
    have new: "Min (?d ` set (?near @ [x])) = min (?d x) ?m"
      using False by (simp, subst Min_insert) (auto simp: filter_empty_conv)
    show ?thesis
      unfolding step snoc.IH
      using False some none new
      by (auto simp: closer_def Let_def min_def simp del: filter_filter)
  qed
qed


lemma queryRecords_asked:
  assumes "length rs \<le> 64" "ring_from 0 r = rs"
  shows "queryRecords command seconds r = asked_records command seconds rs"
proof -
  have short: "take kPersistentHistoryCapacity (filter Q rs) = filter Q rs" for Q
    using le_trans [OF length_filter_le assms(1)]
    by (simp add: kPersistentHistoryCapacity_def)
  show ?thesis
    unfolding queryRecords_def asked_records_def assms(2) closestTimestamp_spec closest_time_def
    by (auto simp: short Let_def eq_commute conj_commute simp del: filter_filter split del: if_split
        split: if_splits)
qed

definition query_left :: "'s history_part \<Rightarrow> bytes" where
  "query_left h = (if hp_queryActive h then concat (drop (hp_queryCursor h) (hp_queryRecords h)) else [])"

definition query_inv :: "bytes \<Rightarrow> transport \<times> 's history_part \<Rightarrow> bool" where
  "query_inv goal th = (case th of (t, h) \<Rightarrow>
     sent_fits t \<and> (\<forall>x \<in> set (hp_queryRecords h). length x = 25) \<and>
     (hp_queryActive h \<longrightarrow> hp_queryCursor h < length (hp_queryRecords h)) \<and>
     payloads t @ query_left h = goal)"

lemma query_handled:
  assumes "query_inv goal (t, h)"
  shows "query_inv goal (snd (processHistoryQuery nowMs t h))"
proof (cases "hp_queryActive h")
  case False
  then show ?thesis using assms by (simp add: processHistoryQuery_def)
next
  case True
  let ?rest = "drop (hp_queryCursor h) (hp_queryRecords h)"
  obtain payload n where pack: "packRecords ?rest [] 0 = (payload, n)" by fastforce
  obtain ok t' where send: "transport_send kCompatibilityFPort payload t = (ok, t')" by fastforce
  have "\<And>x. x \<in> set ?rest \<Longrightarrow> length x = 25"
    using assms in_set_dropD [of _ "hp_queryCursor h" "hp_queryRecords h"] by (auto simp: query_inv_def)
  from packRecords_spec [OF this pack] obtain
    p: "payload = concat (take n ?rest)" "length payload \<le> 51" "n \<le> length ?rest" "?rest \<noteq> [] \<longrightarrow> 0 < n"
    by auto
  have split: "concat ?rest = payload @ concat (drop (hp_queryCursor h + n) (hp_queryRecords h))"
    unfolding p(1) concat_append [symmetric]
    using append_take_drop_id [of n ?rest] by (simp add: add.commute)
  have n: "n \<noteq> 0" using assms True p(4) by (auto simp: query_inv_def)
  show ?thesis
    using assms True send_payloads [OF send _ p(2)] split n
    by (auto simp: processHistoryQuery_def pack send Let_def query_inv_def query_left_def
        simp del: packRecords.simps)
qed

lemma query_step:
  "query_inv goal th \<Longrightarrow> query_inv goal (transfer_step P processHistoryQuery op th)"
  by (cases th; cases op)
     (auto simp: query_handled, auto simp: query_inv_def query_left_def sent_fits_def payloads_def)

interpretation history_query: step_machine
  "transfer_step P processHistoryQuery" "query_inv goal" for P goal
  by unfold_locales (rule query_step)

text \<open>
  C25. An accepted history query is answered exactly: after the positive reply, whatever sends are
  refused and whatever is recorded meanwhile, the payloads sent followed by what is still to send
  are the records the query asks for: for a range, those of the history within it; for a point in
  time, those whose time stamp is the closest within the report interval.
\<close>

theorem query_answered:
  assumes "ring_ok kPersistentHistoryCapacity (hp_ring h0)"
    and "\<forall>x \<in> set (ring_list kPersistentHistoryCapacity (hp_ring h0)). history_record x"
    and "hq_kind command \<noteq> StopQuery" "tp_sent t0 = []"
    and "applyHistoryQueryCommand command nowMs seconds t0 h0 = (ok, t, h)" "hp_queryActive h"
    and "fold (transfer_step P processHistoryQuery) ops (t, h) = (t', h')"
  shows "sent_fits t' \<and> (\<exists>kind. payloads t' @ query_left h' = [0xfc, kind, 0] @
    concat (asked_records command seconds (ring_list kPersistentHistoryCapacity (hp_ring h0))))"
proof -
  let ?rs = "asked_records command seconds (ring_list kPersistentHistoryCapacity (hp_ring h0))"
  have "length (ring_list kPersistentHistoryCapacity (hp_ring h0)) \<le> 64"
    using assms(1) by (simp add: ring_ok_def kPersistentHistoryCapacity_def)
  then have asked: "queryRecords command seconds (hp_ring h0) = ?rs"
    by (rule queryRecords_asked) (simp add: ring_from_list)
  let ?kind = "if hq_kind command = TimePoint then kHistoryPointType else kHistoryRangeType"
  have reply: "encodeHistoryQueryReply ?kind 0 (Some 3) = Inr [0xfc, ?kind, 0]"
    by (simp add: encodeHistoryQueryReply_def no_room_def kHistoryReplyChannel_def)
  have lens: "\<forall>x \<in> set ?rs. length x = 25"
    using assms(2) by (auto simp: asked_records_def history_record_def kHistoricalModbusRecordLength_def)
  obtain s t1 where send: "transport_send kCompatibilityFPort [0xfc, ?kind, 0] t0 = (s, t1)" by fastforce
  have "sent_fits t0" "payloads t0 = []" using assms(4) by (simp_all add: sent_fits_def payloads_def)
  note sent = send_payloads [OF send this(1)] this(2)
  have go: "t = t1" "s" "hp_queryRecords h = ?rs" "hp_queryCursor h = 0" "?rs \<noteq> []"
    using assms(3,5,6)
    by (auto simp: applyHistoryQueryCommand_def sendHistoryQueryReply_def reply asked send Let_def
        split: if_splits prod.splits)
  have "query_inv ([0xfc, ?kind, 0] @ concat ?rs) (t, h)"
    using assms(6) lens sent go by (simp add: query_inv_def query_left_def)
  from history_query.run_inv [OF this, of P ops] show ?thesis
    unfolding assms(7) query_inv_def by auto
qed


definition whole_range :: HistoryQueryCommand where
  "whole_range = \<lparr>hq_kind = TimeRange, hq_startUnix = 0, hq_endUnix = 0xffffffff\<rparr>"

lemma whole_range_asked: "asked_records whole_range 60 [sample_record] = [sample_record]"
proof -
  have "record_timestamp sample_record \<le> 0xffffffff" by code_simp
  then show ?thesis by (simp add: asked_records_def whole_range_def)
qed

lemma query_answered_witness:
  "\<exists>ok t h. applyHistoryQueryCommand whole_range 100 60
       \<lparr>tp_connected = True, tp_answers = [True], tp_sent = []\<rparr> lost_history = (ok, t, h) \<and> hp_queryActive h \<and>
     (case fold (transfer_step map_prefs processHistoryQuery) [Answers [False, True], Handle 3600100] (t, h) of
        (t', h') \<Rightarrow> sent_fits t' \<and>
          (\<exists>kind. payloads t' @ query_left h' = [0xfc, kind, 0] @ sample_record))"
proof -
  let ?t = "\<lparr>tp_connected = True, tp_answers = [True], tp_sent = []\<rparr>"
  obtain ok t h where apply_eq: "applyHistoryQueryCommand whole_range 100 60 ?t lost_history = (ok, t, h)"
    using prod_cases3 by blast
  obtain t' h' where run: "fold (transfer_step map_prefs processHistoryQuery)
      [Answers [False, True], Handle 3600100] (t, h) = (t', h')" by fastforce
  have ring: "ring_ok kPersistentHistoryCapacity (hp_ring lost_history)"
    by (simp add: lost_history_def kPersistentHistoryCapacity_def ring_push_ok)
  have "queryRecords whole_range 60 (hp_ring lost_history) = [sample_record]"
    using queryRecords_asked [of "[sample_record]" "hp_ring lost_history" whole_range 60]
    by (simp add: ring_from_list lost_history_ring whole_range_asked)
  then have active: "hp_queryActive h"
    using apply_eq
    by (auto simp: applyHistoryQueryCommand_def sendHistoryQueryReply_def encodeHistoryQueryReply_def
        no_room_def transport_send_def Let_def whole_range_def)
  have "sent_fits t' \<and> (\<exists>kind. payloads t' @ query_left h' = [0xfc, kind, 0] @ sample_record)"
    using query_answered [OF ring _ _ _ apply_eq active run] sample_record_ok
    unfolding lost_history_ring whole_range_asked by (simp add: whole_range_def)
  then show ?thesis using apply_eq active run
    by (intro exI [of _ ok] exI [of _ t] exI [of _ h]) (simp only: prod.case simp_thms)
qed

end
