(* ===== verification/Buses.thy ===== *)
theory Buses
  imports ModbusChannel
begin

text \<open>
  The core registries and buses under \<^verbatim>\<open>include/core\<close>: \<^verbatim>\<open>EventBus.h\<close>,
  \<^verbatim>\<open>CommandBus.h\<close>, \<^verbatim>\<open>ChannelRegistry.h\<close> with the bindings of
  \<^verbatim>\<open>DataSource.h\<close>, and \<^verbatim>\<open>CapabilityRegistry.h\<close>. The template parameter
  \<^verbatim>\<open>Capacity\<close> is the argument \<open>cap\<close>. A C string handed in is the list of its bytes up to
  the terminator, \<open>None\<close> the null pointer; a stored text is the whole array.
\<close>

section \<open>Events\<close>

datatype EventSeverity = SevInfo | SevWarning | SevError

definition kEventSourceLength :: nat where "kEventSourceLength = 32"
definition kEventTypeLength :: nat where "kEventTypeLength = 32"
definition kEventDetailLength :: nat where "kEventDetailLength = 128"

record EventRecord =
  ev_sequence :: u64
  ev_timestampUnix :: u32
  ev_severity :: EventSeverity
  ev_source :: bytes
  ev_type :: bytes
  ev_detail :: bytes

definition default_event :: EventRecord where
  "default_event = \<lparr>ev_sequence = 0, ev_timestampUnix = 0, ev_severity = SevInfo,
     ev_source = replicate kEventSourceLength 0, ev_type = replicate kEventTypeLength 0,
     ev_detail = replicate kEventDetailLength 0\<rparr>"

definition setEventText :: "nat \<Rightarrow> bytes ptr \<Rightarrow> bytes option" where
  "setEventText capacity input = (case input of None \<Rightarrow> None | Some s \<Rightarrow>
     if capacity = 0 then None
     else let n = strnlen (s @ [0]) capacity
       in if n = 0 \<or> n \<ge> capacity then None
          else Some (take n s @ replicate (capacity - n) 0))"

record event_bus =
  eb_records :: "EventRecord list"
  eb_count :: nat
  eb_latestSequence :: u64

definition eventBus_empty :: "nat \<Rightarrow> event_bus" where
  "eventBus_empty cap =
     \<lparr>eb_records = replicate cap default_event, eb_count = 0, eb_latestSequence = 0\<rparr>"

record event_input =
  ei_source :: "bytes ptr"
  ei_type :: "bytes ptr"
  ei_severity :: EventSeverity
  ei_timestampUnix :: u32
  ei_detail :: "bytes ptr"

text \<open>The texts of a new record; \<open>None\<close> where \<^verbatim>\<open>emit\<close> refuses one.\<close>

definition event_texts :: "event_input \<Rightarrow> EventRecord option" where
  "event_texts e =
     (case (setEventText kEventSourceLength (ei_source e), setEventText kEventTypeLength (ei_type e)) of
        (Some src, Some typ) \<Rightarrow>
          (let rec = default_event\<lparr>ev_source := src, ev_type := typ\<rparr>
           in case ei_detail e of
                None \<Rightarrow> Some rec
              | Some d \<Rightarrow>
                  if strnlen (d @ [0]) 1 = 0 then Some rec
                  else (case setEventText kEventDetailLength (Some d) of
                      None \<Rightarrow> None | Some detail \<Rightarrow> Some (rec\<lparr>ev_detail := detail\<rparr>)))
      | _ \<Rightarrow> None)"

definition eventBus_emit :: "nat \<Rightarrow> event_input \<Rightarrow> event_bus \<Rightarrow> bool \<times> event_bus" where
  "eventBus_emit cap e b =
     (case event_texts e of
        None \<Rightarrow> (False, b)
      | Some rec \<Rightarrow>
          let latest = eb_latestSequence b + 1;
              rec = rec\<lparr>ev_sequence := latest, ev_timestampUnix := ei_timestampUnix e,
                        ev_severity := ei_severity e\<rparr>
          in (True, b\<lparr>eb_latestSequence := latest,
                eb_records := (eb_records b)[unat (latest - 1) mod cap := rec],
                eb_count := (if eb_count b < cap then eb_count b + 1 else eb_count b)\<rparr>))"

definition oldestSequence :: "event_bus \<Rightarrow> u64" where
  "oldestSequence b =
     (if eb_count b = 0 then 0 else eb_latestSequence b - of_nat (eb_count b) + 1)"

definition missedSince :: "u64 \<Rightarrow> event_bus \<Rightarrow> u64" where
  "missedSince cursor b =
     (if eb_count b = 0 then 0
      else let oldest = oldestSequence b; wanted = cursor + 1
           in if wanted < oldest then oldest - wanted else 0)"

definition eventBus_read :: "nat \<Rightarrow> u64 \<Rightarrow> event_bus \<Rightarrow> EventRecord option" where
  "eventBus_read cap sequence b =
     (let oldest = oldestSequence b
      in if sequence = 0 \<or> oldest = 0 \<or> sequence < oldest \<or> sequence > eb_latestSequence b then None
         else let stored = eb_records b ! (unat (sequence - 1) mod cap)
           in if ev_sequence stored \<noteq> sequence then None else Some stored)"

text \<open>The new cursor and the record, when there is one.\<close>

definition eventBus_next :: "nat \<Rightarrow> u64 \<Rightarrow> event_bus \<Rightarrow> (u64 \<times> EventRecord) option" where
  "eventBus_next cap cursor b =
     (if eb_count b = 0 then None
      else
        let oldest = oldestSequence b;
            target = (if cursor + 1 < oldest then oldest else cursor + 1)
        in if target > eb_latestSequence b then None
           else (case eventBus_read cap target b of None \<Rightarrow> None | Some rec \<Rightarrow> Some (target, rec)))"

definition eventBus_clear :: "event_bus \<Rightarrow> event_bus" where
  "eventBus_clear b = eventBus_empty (length (eb_records b))"

section \<open>Commands\<close>

datatype CommandValueType = CvBoolean | CvInt64 | CvUInt64 | CvFloat64 | CvText

definition kCommandOriginLength :: nat where "kCommandOriginLength = 16"
definition kCommandTextLength :: nat where "kCommandTextLength = 96"

record ChannelWriteCommand =
  cw_sequence :: u64
  cw_channelId :: u16
  cw_valueType :: CommandValueType
  cw_booleanValue :: bool
  cw_intValue :: u64
  cw_uintValue :: u64
  cw_floatValue :: u64
  cw_textValue :: bytes
  cw_origin :: bytes

definition default_command :: ChannelWriteCommand where
  "default_command = \<lparr>cw_sequence = 0, cw_channelId = 0, cw_valueType = CvFloat64,
     cw_booleanValue = False, cw_intValue = 0, cw_uintValue = 0, cw_floatValue = 0,
     cw_textValue = replicate kCommandTextLength 0, cw_origin = replicate kCommandOriginLength 0\<rparr>"

definition validCommandText :: "bytes ptr \<Rightarrow> nat \<Rightarrow> bool \<Rightarrow> bool" where
  "validCommandText input capacity allowEmpty = (case input of None \<Rightarrow> False | Some s \<Rightarrow>
     capacity \<noteq> 0 \<and> (let n = strnlen (s @ [0]) capacity in (allowEmpty \<or> n > 0) \<and> n < capacity))"

definition setCommandText :: "nat \<Rightarrow> bytes ptr \<Rightarrow> bool \<Rightarrow> bytes option" where
  "setCommandText capacity input allowEmpty = (case input of None \<Rightarrow> None | Some s \<Rightarrow>
     if capacity = 0 then None
     else let n = strnlen (s @ [0]) capacity
       in if \<not> allowEmpty \<and> n = 0 \<or> n \<ge> capacity then None
          else Some (take n s @ replicate (capacity - n) 0))"

record command_bus =
  cb_queue :: "ChannelWriteCommand list"
  cb_head :: nat
  cb_tail :: nat
  cb_count :: nat
  cb_latestSequence :: u64

definition commandBus_empty :: "nat \<Rightarrow> command_bus" where
  "commandBus_empty cap = \<lparr>cb_queue = replicate cap default_command, cb_head = 0, cb_tail = 0,
     cb_count = 0, cb_latestSequence = 0\<rparr>"

definition commandBus_enqueue ::
    "nat \<Rightarrow> ChannelWriteCommand \<Rightarrow> command_bus \<Rightarrow> bool \<times> command_bus" where
  "commandBus_enqueue cap command b =
     (if cb_count b \<ge> cap \<or> cw_channelId command = 0 \<or>
         \<not> validCommandText (Some (cw_origin command)) kCommandOriginLength False then (False, b)
      else
        let latest = cb_latestSequence b + 1
        in (True, b\<lparr>cb_latestSequence := latest,
              cb_queue := (cb_queue b)[cb_tail b := command\<lparr>cw_sequence := latest\<rparr>],
              cb_tail := (cb_tail b + 1) mod cap, cb_count := cb_count b + 1\<rparr>))"

definition commandBus_dequeue :: "nat \<Rightarrow> command_bus \<Rightarrow> ChannelWriteCommand option \<times> command_bus" where
  "commandBus_dequeue cap b =
     (if cb_count b = 0 then (None, b)
      else (Some (cb_queue b ! cb_head b),
            b\<lparr>cb_queue := (cb_queue b)[cb_head b := default_command],
              cb_head := (cb_head b + 1) mod cap, cb_count := cb_count b - 1\<rparr>))"

definition commandBus_clear :: "command_bus \<Rightarrow> command_bus" where
  "commandBus_clear b = b\<lparr>cb_queue := replicate (length (cb_queue b)) default_command,
     cb_head := 0, cb_tail := 0, cb_count := 0\<rparr>"

section \<open>Channels and capabilities\<close>

record ChannelBinding =
  bd_channelId :: u16
  bd_sourceId :: string
  bd_pointId :: string
  bd_unit :: string
  bd_scale :: u64
  bd_offset :: u64
  bd_enabled :: bool
  bd_writable :: bool
  bd_compatibilityMapped :: bool
  bd_compatibilitySlot :: u8

definition default_binding :: ChannelBinding where
  "default_binding = \<lparr>bd_channelId = 0, bd_sourceId = [], bd_pointId = [], bd_unit = [],
     bd_scale = 0x3ff0000000000000, bd_offset = 0, bd_enabled = True, bd_writable = False,
     bd_compatibilityMapped = False, bd_compatibilitySlot = 0\<rparr>"

definition kRegistryCompatibilitySlots :: u8 where "kRegistryCompatibilitySlots = 32"

datatype BindingError =
  ChannelIdZero | MissingSourceBinding | InvalidCompatibilitySlot | CompatibilitySlotInUse

text \<open>The first element with a property is replaced; the loops stop there.\<close>

fun replace_first :: "('a \<Rightarrow> bool) \<Rightarrow> 'a \<Rightarrow> 'a list \<Rightarrow> 'a list option" where
  "replace_first p y [] = None"
| "replace_first p y (x # xs) =
     (if p x then Some (y # xs) else map_option (Cons x) (replace_first p y xs))"

fun erase_first :: "('a \<Rightarrow> bool) \<Rightarrow> 'a list \<Rightarrow> 'a list option" where
  "erase_first p [] = None"
| "erase_first p (x # xs) = (if p x then Some xs else map_option (Cons x) (erase_first p xs))"

definition registry_upsert :: "ChannelBinding \<Rightarrow> ChannelBinding list \<Rightarrow> BindingError + ChannelBinding list" where
  "registry_upsert binding channels =
     (if bd_channelId binding = 0 then Inl ChannelIdZero
      else if bd_sourceId binding = [] \<or> bd_pointId binding = [] then Inl MissingSourceBinding
      else if bd_compatibilityMapped binding \<and> bd_compatibilitySlot binding \<ge> kRegistryCompatibilitySlots
      then Inl InvalidCompatibilitySlot
      else if bd_compatibilityMapped binding \<and>
        (\<exists>current \<in> set channels. bd_compatibilityMapped current \<and>
           bd_compatibilitySlot current = bd_compatibilitySlot binding \<and>
           bd_channelId current \<noteq> bd_channelId binding) then Inl CompatibilitySlotInUse
      else case replace_first (\<lambda>c. bd_channelId c = bd_channelId binding) binding channels of
        Some channels' \<Rightarrow> Inr channels'
      | None \<Rightarrow> Inr (channels @ [binding]))"

definition registry_remove :: "u16 \<Rightarrow> ChannelBinding list \<Rightarrow> bool \<times> ChannelBinding list" where
  "registry_remove channelId channels =
     (case erase_first (\<lambda>c. bd_channelId c = channelId) channels of
        Some rest \<Rightarrow> (True, rest) | None \<Rightarrow> (False, channels))"

definition removeCompatibilitySlot :: "u8 \<Rightarrow> ChannelBinding list \<Rightarrow> bool \<times> ChannelBinding list" where
  "removeCompatibilitySlot slot channels =
     (case erase_first (\<lambda>c. bd_compatibilityMapped c \<and> bd_compatibilitySlot c = slot) channels of
        Some rest \<Rightarrow> (True, rest) | None \<Rightarrow> (False, channels))"

definition registry_find :: "u16 \<Rightarrow> ChannelBinding list \<Rightarrow> ChannelBinding option" where
  "registry_find channelId = find (\<lambda>c. bd_channelId c = channelId)"

definition findCompatibilitySlot :: "u8 \<Rightarrow> ChannelBinding list \<Rightarrow> ChannelBinding option" where
  "findCompatibilitySlot slot = find (\<lambda>c. bd_compatibilityMapped c \<and> bd_compatibilitySlot c = slot)"

definition compatibilityDownlinkIdToSlot :: "u8 \<Rightarrow> u8 option" where
  "compatibilityDownlinkIdToSlot channelId =
     (if channelId < 1 \<or> channelId > kRegistryCompatibilitySlots then None else Some (channelId - 1))"

definition compatibilityUplinkSlotValid :: "u8 \<Rightarrow> bool" where
  "compatibilityUplinkSlotValid slot = (slot < kRegistryCompatibilitySlots)"

definition capability_has :: "string \<Rightarrow> string list \<Rightarrow> bool" where
  "capability_has capability capabilities = (\<exists>item \<in> set capabilities. item = capability)"

definition capability_add :: "string \<Rightarrow> string list \<Rightarrow> bool \<times> string list" where
  "capability_add capability capabilities =
     (if capability_has capability capabilities then (False, capabilities)
      else (True, capabilities @ [capability]))"

end
