(* ===== verification/BusProperties.thy ===== *)
theory BusProperties
  imports Buses
begin

text \<open>
  The buses and the registry keep their contracts: a reader of the event bus sees every event that
  is still kept, once and in order, and learns how many it missed; the command bus is a bounded
  queue; and the channel registry never holds two bindings of one id or one slot.
\<close>

section \<open>The event bus\<close>

text \<open>The log behind the bus: the accepted events, numbered from 1.\<close>

definition event_log :: "event_input list \<Rightarrow> EventRecord list" where
  "event_log es = map (\<lambda>(i, e, rec). rec\<lparr>ev_sequence := of_nat (i + 1),
       ev_timestampUnix := ei_timestampUnix e, ev_severity := ei_severity e\<rparr>)
     (enumerate 0 (List.map_filter (\<lambda>e. map_option (Pair e) (event_texts e)) es))"

text \<open>Reading on until there is nothing new.\<close>

fun drain :: "nat \<Rightarrow> nat \<Rightarrow> u64 \<Rightarrow> event_bus \<Rightarrow> EventRecord list" where
  "drain cap 0 cursor b = []"
| "drain cap (Suc n) cursor b =
     (case eventBus_next cap cursor b of None \<Rightarrow> [] | Some (c, rec) \<Rightarrow> rec # drain cap n c b)"

definition bus_holds :: "nat \<Rightarrow> EventRecord list \<Rightarrow> event_bus \<Rightarrow> bool" where
  "bus_holds cap l b =
     (0 < cap \<and> length l < 2 ^ 64 - 1 \<and> length (eb_records b) = cap \<and>
      eb_latestSequence b = of_nat (length l) \<and> eb_count b = min cap (length l) \<and>
      (\<forall>i < length l. ev_sequence (l ! i) = of_nat (i + 1)) \<and>
      (\<forall>i < length l. length l \<le> i + cap \<longrightarrow> eb_records b ! (i mod cap) = l ! i))"

lemma unat_u64: "n < 2 ^ 64 \<Longrightarrow> unat (of_nat n :: u64) = n"
  by (simp add: unat_of_nat)

lemma u64_less: "i < 2 ^ 64 \<Longrightarrow> j < 2 ^ 64 \<Longrightarrow> (of_nat i :: u64) < of_nat j \<longleftrightarrow> i < j"
  by (simp add: word_less_nat_alt unat_u64)

lemma bus_holds_empty: "0 < cap \<Longrightarrow> bus_holds cap [] (eventBus_empty cap)"
  by (simp add: bus_holds_def eventBus_empty_def)

lemma mod_apart:
  assumes "(i :: nat) < n" "n < i + cap"
  shows "i mod cap \<noteq> n mod cap"
proof
  assume "i mod cap = n mod cap"
  then have "cap dvd n - i" using mod_eq_dvd_iff_nat [of i n cap] assms(1) by simp
  then show False using dvd_imp_le [of cap "n - i"] assms by simp
qed

lemma event_log_snoc:
  "event_log (es @ [e]) = (case event_texts e of None \<Rightarrow> event_log es
     | Some rec \<Rightarrow> event_log es @ [rec\<lparr>ev_sequence := of_nat (length (event_log es)) + 1,
         ev_timestampUnix := ei_timestampUnix e, ev_severity := ei_severity e\<rparr>])"
  by (auto simp: event_log_def List.map_filter_def enumerate_append_eq split: option.splits)

lemma bus_holds_emit:
  assumes "bus_holds cap l b" "length l < 2 ^ 64 - 2" "event_texts e = Some rec"
  shows "bus_holds cap (l @ [rec\<lparr>ev_sequence := of_nat (length l) + 1,
      ev_timestampUnix := ei_timestampUnix e, ev_severity := ei_severity e\<rparr>]) (snd (eventBus_emit cap e b))"
    (is "bus_holds cap (l @ [?new]) _")
proof -
  let ?n = "length l"
  note h = assms(1) [unfolded bus_holds_def]
  have latest: "eb_latestSequence b = of_nat ?n" using h by simp
  have slot: "unat (of_nat ?n :: u64) = ?n" using assms(2) by (intro unat_u64) simp
  have b': "snd (eventBus_emit cap e b) = b\<lparr>eb_latestSequence := of_nat ?n + 1,
      eb_records := (eb_records b)[?n mod cap := ?new],
      eb_count := (if eb_count b < cap then eb_count b + 1 else eb_count b)\<rparr>"
    by (simp add: eventBus_emit_def assms(3) Let_def latest slot)
  have "\<forall>i < length (l @ [?new]). length (l @ [?new]) \<le> i + cap \<longrightarrow>
      eb_records (snd (eventBus_emit cap e b)) ! (i mod cap) = (l @ [?new]) ! i"
  proof (intro allI impI)
    fix i assume i: "i < length (l @ [?new])" "length (l @ [?new]) \<le> i + cap"
    show "eb_records (snd (eventBus_emit cap e b)) ! (i mod cap) = (l @ [?new]) ! i"
    proof (cases "i = ?n")
      case True
      then show ?thesis using h by (simp add: b')
    next
      case False
      then have "i < ?n" "?n < i + cap" using i by auto
      then show ?thesis using h mod_apart [of i ?n cap] by (simp add: b' nth_append)
    qed
  qed
  moreover have "\<forall>i < length (l @ [?new]). ev_sequence ((l @ [?new]) ! i) = of_nat (i + 1)"
    using h by (auto simp: nth_append less_Suc_eq)
  moreover have "eb_count (snd (eventBus_emit cap e b)) = min cap (length (l @ [?new]))"
    using h by (auto simp: b')
  ultimately show ?thesis
    using h assms(2) unfolding bus_holds_def by (simp add: b')
qed


lemma bus_holds_emit_all:
  assumes "0 < cap" "length es < 2 ^ 64 - 1"
  shows "bus_holds cap (event_log es) (fold (\<lambda>e b. snd (eventBus_emit cap e b)) es (eventBus_empty cap)) \<and>
    length (event_log es) \<le> length es"
  using assms(2)
proof (induction es rule: rev_induct)
  case Nil
  then show ?case using assms(1) by (simp add: bus_holds_empty event_log_def List.map_filter_simps)
next
  case (snoc e es)
  then have IH: "bus_holds cap (event_log es) (fold (\<lambda>e b. snd (eventBus_emit cap e b)) es (eventBus_empty cap))"
    "length (event_log es) \<le> length es" by simp_all
  show ?case
  proof (cases "event_texts e")
    case None
    with IH show ?thesis by (simp add: event_log_snoc eventBus_emit_def)
  next
    case (Some rec)
    have "length (event_log es) < 2 ^ 64 - 2" using IH(2) snoc.prems by simp
    from bus_holds_emit [OF IH(1) this Some] show ?thesis
      using IH(2) by (simp add: event_log_snoc Some)
  qed
qed

lemma oldest_held:
  assumes "bus_holds cap l b"
  shows "oldestSequence b = (if l = [] then 0 else of_nat (length l - cap + 1))"
proof -
  have "(of_nat (length l) :: u64) - of_nat (min cap (length l)) + 1 = of_nat (length l - cap + 1)"
    by (simp add: min_def)
  then show ?thesis
    using assms by (auto simp: bus_holds_def oldestSequence_def min_def simp del: of_nat_add of_nat_Suc)
qed

lemma read_held:
  assumes "bus_holds cap l b" "t < length l" "length l - cap \<le> t"
  shows "eventBus_read cap (of_nat (t + 1)) b = Some (l ! t)"
proof -
  note h = assms(1) [unfolded bus_holds_def]
  have small: "length l < 2 ^ 64" "length l - cap + 1 < 2 ^ 64" "t + 1 < 2 ^ 64" using h assms(2) by auto
  have "(of_nat (t + 1) :: u64) \<noteq> 0" "(of_nat (length l - cap + 1) :: u64) \<noteq> 0"
    using small unat_u64 [of "t + 1"] unat_u64 [of "length l - cap + 1"]
    by (auto simp del: of_nat_add simp: unat_eq_0 [symmetric])
  moreover have "\<not> (of_nat (t + 1) :: u64) < of_nat (length l - cap + 1)"
    "\<not> (of_nat (length l) :: u64) < of_nat (t + 1)"
    using small assms(2,3) less_Suc_eq_le by (auto simp: u64_less simp del: of_nat_add of_nat_Suc)
  moreover have "unat (of_nat (t + 1) - 1 :: u64) = t" using small(3) by (simp add: unat_u64)
  moreover have "eb_records b ! (t mod cap) = l ! t" "ev_sequence (l ! t) = of_nat (t + 1)"
    using h assms(2,3) by auto
  moreover have "l \<noteq> []" using assms(2) by auto
  ultimately show ?thesis
    using h by (simp add: eventBus_read_def oldest_held [OF assms(1)] Let_def del: of_nat_add of_nat_Suc)
qed

lemma next_held:
  assumes "bus_holds cap l b" "c \<le> length l"
  shows "eventBus_next cap (of_nat c) b =
    (let t = max c (length l - cap)
     in if t < length l then Some (of_nat (t + 1), l ! t) else None)"
proof (cases "l = []")
  case True
  then show ?thesis using assms by (simp add: eventBus_next_def bus_holds_def)
next
  case False
  note h = assms(1) [unfolded bus_holds_def]
  define t where "t = max c (length l - cap)"
  have small: "length l < 2 ^ 64" "c + 1 < 2 ^ 64" "length l - cap + 1 < 2 ^ 64" "t + 1 < 2 ^ 64"
    using h assms(2) by (auto simp: t_def)
  have less: "(of_nat i :: u64) < of_nat j \<longleftrightarrow> i < j" if "i < 2 ^ 64" "j < 2 ^ 64" for i j
    using that by (rule u64_less)
  have plus: "(of_nat c :: u64) + 1 = of_nat (c + 1)" by simp
  have target: "(if (of_nat c :: u64) + 1 < oldestSequence b then oldestSequence b else of_nat c + 1) =
      of_nat (t + 1)"
    unfolding oldest_held [OF assms(1)] plus using False small
    by (simp add: less t_def max_def del: of_nat_add of_nat_Suc)
  have "eventBus_read cap (of_nat (t + 1)) b = Some (l ! t)" if "t < length l"
    using that by (intro read_held [OF assms(1)]) (simp_all add: t_def)
  moreover have "(of_nat (length l) :: u64) < of_nat (t + 1) \<longleftrightarrow> \<not> t < length l"
    using small by (subst less) auto
  moreover have "(eb_count b = 0) = False" using h False by (cases l) auto
  moreover have "eb_latestSequence b = of_nat (length l)" using h by simp
  ultimately show ?thesis
    unfolding eventBus_next_def Let_def target t_def [symmetric] by (auto simp del: of_nat_add of_nat_Suc)
qed

lemma drain_held:
  assumes "bus_holds cap l b" "c \<le> length l" "length l - c \<le> n"
  shows "drain cap n (of_nat c) b = drop (max c (length l - cap)) l"
  using assms(2,3)
proof (induction n arbitrary: c)
  case 0
  then show ?case by simp
next
  case (Suc n)
  define t where "t = max c (length l - cap)"
  show ?case
  proof (cases "t < length l")
    case False
    then show ?thesis
      using next_held [OF assms(1) Suc.prems(1)] by (simp add: Let_def t_def [symmetric])
  next
    case True
    have "drain cap n (of_nat (t + 1)) b = drop (max (t + 1) (length l - cap)) l"
      using True Suc.prems by (intro Suc.IH) (auto simp: t_def)
    moreover have "max (t + 1) (length l - cap) = Suc t" by (simp add: t_def)
    ultimately have "drain cap n (of_nat (t + 1)) b = drop (Suc t) l" by simp
    then show ?thesis
      using next_held [OF assms(1) Suc.prems(1)] True Cons_nth_drop_Suc [OF True]
      by (simp add: Let_def t_def [symmetric] del: of_nat_add of_nat_Suc)
  qed
qed

lemma missed_held:
  assumes "bus_holds cap l b" "c < 2 ^ 64 - 1"
  shows "missedSince (of_nat c) b = of_nat (length l - cap - c)"
proof (cases "l = []")
  case True
  then show ?thesis using assms(1) by (simp add: missedSince_def bus_holds_def)
next
  case False
  note h = assms(1) [unfolded bus_holds_def]
  have "(of_nat (c + 1) :: u64) < of_nat (length l - cap + 1) \<longleftrightarrow> c < length l - cap"
    using assms(2) h by (subst u64_less) auto
  moreover have "eb_count b \<noteq> 0" using h False by auto
  moreover have "(of_nat c :: u64) + 1 = of_nat (c + 1)" by simp
  ultimately show ?thesis
    using False by (auto simp: missedSince_def Let_def oldest_held [OF assms(1)] simp del: of_nat_add of_nat_Suc)
      (simp add: of_nat_diff)
qed

text \<open>
  Readers of the event bus lose nothing silently: after any attempts to emit events, a reader
  that has read up to some event and reads on gets every later accepted event that is still kept,
  each once and in order, and the number of those it can no longer get is what
  missedSince tells it.
\<close>

theorem events_delivered:
  assumes "0 < cap" "length es < 2 ^ 64 - 1" "c \<le> length (event_log es)"
    and "b = fold (\<lambda>e b. snd (eventBus_emit cap e b)) es (eventBus_empty cap)"
  shows "drain cap (length es) (of_nat c) b = drop (max c (length (event_log es) - cap)) (event_log es) \<and>
    missedSince (of_nat c) b = of_nat (length (event_log es) - cap - c)"
proof -
  let ?l = "event_log es"
  have h: "bus_holds cap ?l b" "length ?l \<le> length es"
    using bus_holds_emit_all [OF assms(1,2)] assms(4) by simp_all
  have "missedSince (of_nat c) b = of_nat (length ?l - cap - c)"
    using missed_held [OF h(1)] assms(2,3) h(2) by simp
  then show ?thesis using drain_held [OF h(1) assms(3)] h(2) by simp
qed


definition sample_events :: "event_input list" where
  "sample_events = map (\<lambda>n. \<lparr>ei_source = Some [115], ei_type = Some [98], ei_severity = SevInfo,
     ei_timestampUnix = n, ei_detail = Some []\<rparr>) [7, 8, 9]"

lemma events_delivered_witness:
  "map ev_timestampUnix (drain 2 3 (of_nat 0)
     (fold (\<lambda>e b. snd (eventBus_emit 2 e b)) sample_events (eventBus_empty 2))) = [8, 9]"
proof -
  have log: "length (event_log sample_events) = 3" "map ev_timestampUnix (event_log sample_events) = [7, 8, 9]"
    by code_simp+
  have "length sample_events = 3" by (simp add: sample_events_def)
  then have "drain 2 3 (of_nat 0) (fold (\<lambda>e b. snd (eventBus_emit 2 e b)) sample_events (eventBus_empty 2)) =
      drop 1 (event_log sample_events)"
    using events_delivered [of 2 sample_events 0 "fold (\<lambda>e b. snd (eventBus_emit 2 e b)) sample_events (eventBus_empty 2)"]
    by (simp add: log(1))
  then show ?thesis by (simp add: drop_map [symmetric] log(2))
qed

section \<open>The command bus\<close>

datatype CommandOp = Enqueue ChannelWriteCommand | Dequeue

text \<open>What a caller sees of an operation.\<close>

datatype CommandAnswer = Queued bool | Taken "ChannelWriteCommand option"

fun command_step :: "nat \<Rightarrow> CommandOp \<Rightarrow> command_bus \<Rightarrow> CommandAnswer \<times> command_bus" where
  "command_step cap (Enqueue c) b = map_prod Queued id (commandBus_enqueue cap c b)"
| "command_step cap Dequeue b = map_prod Taken id (commandBus_dequeue cap b)"

text \<open>The abstract queue: the waiting commands, oldest first, and the number of the last one.\<close>

fun queue_step :: "nat \<Rightarrow> CommandOp \<Rightarrow> ChannelWriteCommand list \<times> u64 \<Rightarrow>
    CommandAnswer \<times> ChannelWriteCommand list \<times> u64" where
  "queue_step cap (Enqueue c) (q, n) =
     (if length q < cap \<and> cw_channelId c \<noteq> 0 \<and>
         validCommandText (Some (cw_origin c)) kCommandOriginLength False
      then (Queued True, q @ [c\<lparr>cw_sequence := n + 1\<rparr>], n + 1) else (Queued False, q, n))"
| "queue_step cap Dequeue ([], n) = (Taken None, [], n)"
| "queue_step cap Dequeue (c # q, n) = (Taken (Some c), q, n)"

fun answers :: "('op \<Rightarrow> 's \<Rightarrow> 'a \<times> 's) \<Rightarrow> 'op list \<Rightarrow> 's \<Rightarrow> 'a list" where
  "answers step [] s = []"
| "answers step (op # ops) s = (let (a, s) = step op s in a # answers step ops s)"

definition bus_queue :: "nat \<Rightarrow> command_bus \<Rightarrow> ChannelWriteCommand list" where
  "bus_queue cap b = map (\<lambda>i. cb_queue b ! ((cb_head b + i) mod cap)) [0..<cb_count b]"

definition command_bus_ok :: "nat \<Rightarrow> command_bus \<Rightarrow> bool" where
  "command_bus_ok cap b = (0 < cap \<and> length (cb_queue b) = cap \<and> cb_head b < cap \<and>
     cb_count b \<le> cap \<and> cb_tail b = (cb_head b + cb_count b) mod cap)"

definition bus_abs :: "nat \<Rightarrow> command_bus \<Rightarrow> ChannelWriteCommand list \<times> u64" where
  "bus_abs cap b = (bus_queue cap b, cb_latestSequence b)"

text \<open>
  The contract of an implementation that simulates an abstract machine: it answers the same.
\<close>

locale simulation =
  fixes step :: "'op \<Rightarrow> 's \<Rightarrow> 'a \<times> 's"
    and spec :: "'op \<Rightarrow> 't \<Rightarrow> 'a \<times> 't"
    and ok :: "'s \<Rightarrow> bool"
    and abs :: "'s \<Rightarrow> 't"
  assumes step_ok: "ok s \<Longrightarrow> ok (snd (step op s))"
    and step_abs: "ok s \<Longrightarrow> spec op (abs s) = (fst (step op s), abs (snd (step op s)))"
begin

lemma same_answers: "ok s \<Longrightarrow> answers step ops s = answers spec ops (abs s)"
  by (induction ops arbitrary: s) (simp_all add: step_abs step_ok case_prod_beta Let_def)

end

lemma mod_eq_small: "(a :: nat) < cap \<Longrightarrow> b < cap \<Longrightarrow> (h + a) mod cap = (h + b) mod cap \<Longrightarrow> a = b"
proof -
  assume a: "a < cap" "b < cap" "(h + a) mod cap = (h + b) mod cap"
  show "a = b"
  proof (rule ccontr)
    assume "a \<noteq> b"
    then consider "h + a < h + b" "h + b < (h + a) + cap" | "h + b < h + a" "h + a < (h + b) + cap"
      using a(1,2) by linarith
    then show False using mod_apart a(3) by cases metis+
  qed
qed

lemma enqueue_queue:
  assumes "command_bus_ok cap b" "cb_count b < cap"
  shows "bus_queue cap (b\<lparr>cb_latestSequence := n, cb_queue := (cb_queue b)[cb_tail b := c],
      cb_tail := (cb_tail b + 1) mod cap, cb_count := cb_count b + 1\<rparr>) = bus_queue cap b @ [c]"
proof -
  have "cb_tail b \<noteq> (cb_head b + i) mod cap" if "i < cb_count b" for i
    using that assms mod_eq_small [of i cap "cb_count b" "cb_head b"] by (auto simp: command_bus_ok_def)
  moreover have "cb_tail b = (cb_head b + cb_count b) mod cap" "cb_tail b < length (cb_queue b)"
    using assms(1) by (auto simp: command_bus_ok_def)
  ultimately show ?thesis by (simp add: bus_queue_def)
qed

lemma dequeue_queue:
  assumes "command_bus_ok cap b" "cb_count b \<noteq> 0"
  shows "bus_queue cap b = cb_queue b ! cb_head b #
    bus_queue cap (b\<lparr>cb_queue := (cb_queue b)[cb_head b := d], cb_head := (cb_head b + 1) mod cap,
      cb_count := cb_count b - 1\<rparr>)"
proof -
  have head: "cb_head b mod cap = cb_head b" using assms(1) by (simp add: command_bus_ok_def)
  have "cb_head b \<noteq> (cb_head b + Suc i) mod cap" if "i < cb_count b - 1" for i
  proof -
    have "Suc i < cap" "0 < cap" using that assms(1) by (auto simp: command_bus_ok_def)
    with mod_eq_small [of "Suc i" cap 0 "cb_head b"] head show ?thesis by auto
  qed
  then have "map (\<lambda>i. cb_queue b ! ((cb_head b + Suc i) mod cap)) [0..<cb_count b - 1] =
      map (\<lambda>i. (cb_queue b)[cb_head b := d] ! (((cb_head b + 1) mod cap + i) mod cap)) [0..<cb_count b - 1]"
    by (intro map_cong) (auto simp: mod_add_left_eq)
  moreover have "[0..<cb_count b] = 0 # map Suc [0..<cb_count b - 1]"
    using assms(2) by (simp add: map_Suc_upt upt_conv_Cons)
  ultimately show ?thesis
    by (simp add: bus_queue_def head o_def)
qed

lemma command_step_ok: "command_bus_ok cap b \<Longrightarrow> command_bus_ok cap (snd (command_step cap op b))"
proof (cases op)
  case Dequeue
  assume ok: "command_bus_ok cap b"
  have "(cb_head b + Suc n) mod cap = ((cb_head b + 1) mod cap + n) mod cap" for n
    by (simp add: mod_add_left_eq)
  then show ?thesis
    using ok by (cases "cb_count b") (auto simp: Dequeue command_bus_ok_def commandBus_dequeue_def)
qed (auto simp: command_bus_ok_def commandBus_enqueue_def Let_def mod_Suc_eq)

lemma command_step_abs:
  assumes "command_bus_ok cap b"
  shows "queue_step cap op (bus_abs cap b) =
    (fst (command_step cap op b), bus_abs cap (snd (command_step cap op b)))"
proof (cases op)
  case (Enqueue c)
  have "length (bus_queue cap b) = cb_count b" by (simp add: bus_queue_def)
  then show ?thesis
    using enqueue_queue [OF assms] by (auto simp: Enqueue bus_abs_def commandBus_enqueue_def Let_def)
next
  case Dequeue
  show ?thesis
  proof (cases "cb_count b = 0")
    case True
    then show ?thesis by (simp add: Dequeue bus_abs_def commandBus_dequeue_def bus_queue_def)
  next
    case False
    then show ?thesis
      using dequeue_queue [OF assms False, of default_command]
      by (simp add: Dequeue bus_abs_def commandBus_dequeue_def)
  qed
qed

interpretation command_queue: simulation "command_step cap" "queue_step cap" "command_bus_ok cap" "bus_abs cap" for cap
  by unfold_locales (simp_all only: command_step_ok command_step_abs)

text \<open>
  The command bus is a bounded queue: for every sequence of calls it answers as a list would to
  which accepted commands are appended, numbered on, and from which the oldest is taken; a command
  is refused exactly when the queue is full, its channel is zero or its origin is no valid text.
\<close>

theorem command_bus_is_queue:
  assumes "0 < cap"
  shows "answers (command_step cap) ops (commandBus_empty cap) = answers (queue_step cap) ops ([], 0)"
proof -
  have "command_bus_ok cap (commandBus_empty cap)" "bus_abs cap (commandBus_empty cap) = ([], 0)"
    using assms by (simp_all add: command_bus_ok_def commandBus_empty_def bus_abs_def bus_queue_def)
  then show ?thesis using command_queue.same_answers [of cap "commandBus_empty cap" ops] by simp
qed

lemma command_bus_is_queue_witness:
  "answers (command_step 1) [Dequeue, Enqueue default_command, Dequeue] (commandBus_empty 1) =
     [Taken None, Queued False, Taken None]"
  by (subst command_bus_is_queue) (simp_all add: default_command_def)


section \<open>The channel registry\<close>

datatype RegistryOp = Upsert ChannelBinding | RemoveId u16 | RemoveSlot u8

fun registry_step :: "RegistryOp \<Rightarrow> ChannelBinding list \<Rightarrow> ChannelBinding list" where
  "registry_step (Upsert b) cs = (case registry_upsert b cs of Inl _ \<Rightarrow> cs | Inr cs' \<Rightarrow> cs')"
| "registry_step (RemoveId i) cs = snd (registry_remove i cs)"
| "registry_step (RemoveSlot s) cs = snd (removeCompatibilitySlot s cs)"

text \<open>At most one binding has a given id, and at most one mapped binding a given slot.\<close>

definition mapped_slots :: "ChannelBinding list \<Rightarrow> u8 list" where
  "mapped_slots cs = map bd_compatibilitySlot (filter bd_compatibilityMapped cs)"

definition binding_ok :: "ChannelBinding \<Rightarrow> bool" where
  "binding_ok b = (bd_channelId b \<noteq> 0 \<and> bd_sourceId b \<noteq> [] \<and> bd_pointId b \<noteq> [] \<and>
     (bd_compatibilityMapped b \<longrightarrow> bd_compatibilitySlot b < kRegistryCompatibilitySlots))"

definition registry_ok :: "ChannelBinding list \<Rightarrow> bool" where
  "registry_ok cs = (distinct (map bd_channelId cs) \<and> distinct (mapped_slots cs) \<and>
     (\<forall>b \<in> set cs. binding_ok b))"

lemma erase_first_split:
  "erase_first p xs = Some ys \<Longrightarrow> \<exists>as x bs. xs = as @ x # bs \<and> ys = as @ bs"
  by (induction xs arbitrary: ys) (auto split: if_splits, metis append_Nil, metis append_Cons)

lemma replace_first_split:
  "replace_first p y xs = Some ys \<Longrightarrow> \<exists>as x bs. xs = as @ x # bs \<and> p x \<and> ys = as @ y # bs"
  by (induction xs arbitrary: ys) (auto split: if_splits, metis append_Nil, metis append_Cons)

lemma replace_first_None: "replace_first p y xs = None \<longleftrightarrow> (\<forall>x \<in> set xs. \<not> p x)"
  by (induction xs) auto

lemma registry_ok_erase: "registry_ok cs \<Longrightarrow> erase_first p cs = Some cs' \<Longrightarrow> registry_ok cs'"
  using erase_first_split [of p cs cs'] by (auto simp: registry_ok_def mapped_slots_def split: if_splits)

lemma registry_ok_upsert:
  assumes "registry_ok cs" "registry_upsert b cs = Inr cs'"
  shows "registry_ok cs'"
proof -
  have guards: "binding_ok b"
    "\<forall>c \<in> set cs. bd_compatibilityMapped b \<and> bd_compatibilityMapped c \<and>
       bd_channelId c \<noteq> bd_channelId b \<longrightarrow> bd_compatibilitySlot b \<noteq> bd_compatibilitySlot c"
    and step: "(case replace_first (\<lambda>c. bd_channelId c = bd_channelId b) b cs of
        Some cs' \<Rightarrow> cs' | None \<Rightarrow> cs @ [b]) = cs'"
    using assms(2) by (auto simp: registry_upsert_def binding_ok_def not_le split: if_splits option.splits)
  show ?thesis
  proof (cases "replace_first (\<lambda>c. bd_channelId c = bd_channelId b) b cs")
    case None
    then have new: "\<forall>c \<in> set cs. bd_channelId c \<noteq> bd_channelId b" by (simp add: replace_first_None)
    have "cs' = cs @ [b]" using step None by simp
    then show ?thesis
      using assms(1) guards new by (auto simp: registry_ok_def mapped_slots_def)
  next
    case (Some cs'')
    from replace_first_split [OF this] obtain as x bs where
      s: "cs = as @ x # bs" "bd_channelId x = bd_channelId b" "cs'' = as @ b # bs" by auto
    have others: "bd_channelId c \<noteq> bd_channelId b" if "c \<in> set as \<union> set bs" for c
      using assms(1) that s(2) unfolding s(1) registry_ok_def by (auto simp: rev_image_eqI)
    have "cs' = as @ b # bs" using step Some s(3) by simp
    then show ?thesis
      using assms(1) guards others s(2) unfolding s(1)
      by (auto simp: registry_ok_def mapped_slots_def split: if_splits)
  qed
qed

lemma registry_step_ok: "registry_ok cs \<Longrightarrow> registry_ok (registry_step op cs)"
  by (cases op) (auto simp: registry_remove_def removeCompatibilitySlot_def
      intro: registry_ok_erase registry_ok_upsert split: sum.splits option.splits)

interpretation registry: step_machine registry_step registry_ok
  by unfold_locales (rule registry_step_ok)

text \<open>
  The channel registry is a table: whatever is bound and unbound, every binding is complete, no
  two have the same channel id, and no two mapped ones the same compatibility slot, so that looking
  up an id or a slot finds the only binding there is.
\<close>

theorem registry_unique:
  "registry_ok (fold registry_step ops [])"
  by (rule registry.run_inv) (simp add: registry_ok_def mapped_slots_def)


definition sample_binding :: ChannelBinding where
  "sample_binding = default_binding\<lparr>bd_channelId := 1, bd_sourceId := ''modbus'',
     bd_pointId := ''compat/1'', bd_compatibilityMapped := True\<rparr>"

lemma registry_refuses_second_slot:
  "registry_upsert (sample_binding\<lparr>bd_channelId := 2\<rparr>) [sample_binding] = Inl CompatibilitySlotInUse"
  by (simp add: registry_upsert_def sample_binding_def default_binding_def kRegistryCompatibilitySlots_def)

end
