(* ===== verification/ModbusComponent.thy ===== *)
theory ModbusComponent
  imports ModbusMasterProperties Buses
begin

text \<open>
  The Modbus component of \<^verbatim>\<open>include/components/Components.h\<close>, with the component modes of
  \<^verbatim>\<open>include/core/ComponentModes.h\<close> and the data points of \<^verbatim>\<open>DataSource.h\<close>: the
  channel table, the value cache, the polling loop with its retries, the one-place queues for raw
  requests and writes, and the mailboxes the application empties. Within one call the clock
  is read once. A fixed array with its length field is the list of the bytes in use.
\<close>

section \<open>Data\<close>

datatype VictronMode = VictronDisabled | VictronEnabled
datatype LoRaMode = LoRaDisabled | LoRaLoRaWAN | LoRaMeshtastic
datatype ModbusMode = ModbusDisabled | ModbusMaster | ModbusSlave
datatype GnssMode = GnssDisabled | GnssEnabled

datatype DataType = DtBoolean | DtInt64 | DtUInt64 | DtFloat64 | DtText

record DataValue =
  dv_type :: DataType
  dv_valid :: bool
  dv_booleanValue :: bool
  dv_intValue :: u64
  dv_uintValue :: u64
  dv_floatValue :: u64
  dv_textValue :: string

definition default_value :: DataValue where
  "default_value = \<lparr>dv_type = DtFloat64, dv_valid = False, dv_booleanValue = False, dv_intValue = 0,
     dv_uintValue = 0, dv_floatValue = 0, dv_textValue = []\<rparr>"

record DataPointDescriptor =
  dp_id :: string
  dp_unit :: string
  dp_type :: DataType
  dp_readable :: bool
  dp_writable :: bool

definition default_descriptor :: DataPointDescriptor where
  "default_descriptor = \<lparr>dp_id = [], dp_unit = [], dp_type = DtFloat64, dp_readable = True,
     dp_writable = False\<rparr>"

record PollCompletion =
  po_channel :: ChannelConfig
  po_success :: bool
  po_valueCount :: u8
  po_values :: "DecodedScalar list"
  po_status :: RtuDecodeStatus
  po_exceptionCode :: u8
  po_completedAtMs :: u32

definition default_completion :: PollCompletion where
  "default_completion = \<lparr>po_channel = default_channel, po_success = False, po_valueCount = 0,
     po_values = replicate 2 default_scalar, po_status = RtuTruncated, po_exceptionCode = 0,
     po_completedAtMs = 0\<rparr>"

datatype RawRequestOrigin = OriginPassThrough | OriginRule

record RawCompletion =
  rw_origin :: RawRequestOrigin
  rw_success :: bool
  rw_payload :: bytes
  rw_completedAtMs :: u32

definition default_rawCompletion :: RawCompletion where
  "default_rawCompletion = \<lparr>rw_origin = OriginPassThrough, rw_success = False, rw_payload = [],
     rw_completedAtMs = 0\<rparr>"

record PassiveFrame =
  pv_payload :: bytes
  pv_completedAtMs :: u32

definition default_passiveFrame :: PassiveFrame where
  "default_passiveFrame = \<lparr>pv_payload = [], pv_completedAtMs = 0\<rparr>"

record PendingRaw =
  pr_origin :: RawRequestOrigin
  pr_queued :: bool
  pr_payload :: bytes

definition default_pendingRaw :: PendingRaw where
  "default_pendingRaw = \<lparr>pr_origin = OriginPassThrough, pr_queued = False, pr_payload = []\<rparr>"

record PendingWrite =
  pw_queued :: bool
  pw_channel :: ChannelConfig
  pw_registerIndex :: u8
  pw_value :: DecodedScalar

definition default_pendingWrite :: PendingWrite where
  "default_pendingWrite = \<lparr>pw_queued = False, pw_channel = default_channel, pw_registerIndex = 0,
     pw_value = default_scalar\<rparr>"

record PollCache =
  ca_valid :: bool
  ca_valueCount :: u8
  ca_values :: "DecodedScalar list"
  ca_updatedAtMs :: u32
  ca_lastStatus :: RtuDecodeStatus
  ca_lastExceptionCode :: u8

definition default_cache :: PollCache where
  "default_cache = \<lparr>ca_valid = False, ca_valueCount = 0, ca_values = replicate 2 default_scalar,
     ca_updatedAtMs = 0, ca_lastStatus = RtuTruncated, ca_lastExceptionCode = 0\<rparr>"

definition kRawCapacity :: nat where "kRawCapacity = 242"

record modbus_component =
  mc_mode :: ModbusMode
  mc_active :: bool
  mc_rs485Settings :: Rs485SerialSettings
  mc_masterSettings :: ModbusMasterSettings
  mc_serialConfig :: RtuSerialConfig
  mc_rtu :: master
  mc_channels :: "ChannelConfig list"
  mc_cache :: "PollCache list"
  mc_completedPoll :: PollCompletion
  mc_rawCompletion :: RawCompletion
  mc_passiveFrame :: PassiveFrame
  mc_pendingRaw :: PendingRaw
  mc_activeRaw :: PendingRaw
  mc_pendingWrite :: PendingWrite
  mc_activeWrite :: PendingWrite
  mc_pollCompletionPending :: bool
  mc_rawCompletionPending :: bool
  mc_passiveFramePending :: bool
  mc_rawInFlight :: bool
  mc_writeInFlight :: bool
  mc_pollChannelIndex :: nat
  mc_pollRetryCount :: u8
  mc_nextPollAtMs :: u32
  mc_successfulWrites :: u32
  mc_failedWrites :: u32
  mc_passiveFramesReceived :: u32
  mc_passiveFrameOverflows :: u32

definition initial_component :: "serial_constants \<Rightarrow> modbus_component" where
  "initial_component SER = \<lparr>mc_mode = ModbusDisabled, mc_active = False,
     mc_rs485Settings = default_rs485, mc_masterSettings = default_master,
     mc_serialConfig = default_serial SER, mc_rtu = initial_master SER, mc_channels = [],
     mc_cache = replicate kCompatibilitySlotCount default_cache,
     mc_completedPoll = default_completion, mc_rawCompletion = default_rawCompletion,
     mc_passiveFrame = default_passiveFrame, mc_pendingRaw = default_pendingRaw,
     mc_activeRaw = default_pendingRaw, mc_pendingWrite = default_pendingWrite,
     mc_activeWrite = default_pendingWrite, mc_pollCompletionPending = False,
     mc_rawCompletionPending = False, mc_passiveFramePending = False, mc_rawInFlight = False,
     mc_writeInFlight = False, mc_pollChannelIndex = 0, mc_pollRetryCount = 0, mc_nextPollAtMs = 0,
     mc_successfulWrites = 0, mc_failedWrites = 0, mc_passiveFramesReceived = 0,
     mc_passiveFrameOverflows = 0\<rparr>"

section \<open>Configuration\<close>

definition component_setMode :: "ModbusMode \<Rightarrow> modbus_component \<Rightarrow> modbus_component" where
  "component_setMode mode c = c\<lparr>mc_mode := mode, mc_active := False\<rparr>"

definition clearPendingWrite :: "modbus_component \<Rightarrow> modbus_component" where
  "clearPendingWrite c = c\<lparr>mc_pendingWrite := default_pendingWrite,
     mc_activeWrite := default_pendingWrite, mc_writeInFlight := False,
     mc_pendingRaw := default_pendingRaw, mc_activeRaw := default_pendingRaw,
     mc_rawInFlight := False, mc_rawCompletionPending := False, mc_passiveFramePending := False,
     mc_passiveFrame := default_passiveFrame\<rparr>"

text \<open>The reconfiguration of a running bus, shared by the two settings operations.\<close>

definition reconfigure_bus :: "RtuSerialConfig \<Rightarrow> modbus_component \<Rightarrow> bool \<times> modbus_component" where
  "reconfigure_bus config c =
     (if mc_mode c = ModbusMaster \<and> mc_active c then
        (let (ok, m) = master_reconfigure config (mc_rtu c) in (ok, c\<lparr>mc_rtu := m\<rparr>))
      else (True, c))"

definition applyRs485SerialSettings ::
    "serial_constants \<Rightarrow> u32 \<Rightarrow> Rs485SerialSettings \<Rightarrow> modbus_component \<Rightarrow> bool \<times> modbus_component" where
  "applyRs485SerialSettings SER nowMs settings c =
     (case makeRtuSerialConfig SER settings (ucast (ms_maxResponseTimeMs (mc_masterSettings c))) of
        None \<Rightarrow> (False, c)
      | Some config \<Rightarrow>
          let (ok, c) = reconfigure_bus config c
          in if \<not> ok then (False, c)
             else (True, (clearPendingWrite (c\<lparr>mc_rs485Settings := settings,
               mc_serialConfig := config, mc_pollRetryCount := 0\<rparr>))\<lparr>mc_nextPollAtMs := nowMs\<rparr>))"

definition applyModbusMasterSettings ::
    "serial_constants \<Rightarrow> u32 \<Rightarrow> ModbusMasterSettings \<Rightarrow> modbus_component \<Rightarrow> bool \<times> modbus_component" where
  "applyModbusMasterSettings SER nowMs settings c =
     (if \<not> runtimeSupportsModbusMasterSettings settings then (False, c)
      else case makeRtuSerialConfig SER (mc_rs485Settings c) (ucast (ms_maxResponseTimeMs settings)) of
        None \<Rightarrow> (False, c)
      | Some config \<Rightarrow>
          let (ok, c) = reconfigure_bus config c
          in if \<not> ok then (False, c)
             else (True, (clearPendingWrite (c\<lparr>mc_masterSettings := settings,
               mc_serialConfig := config, mc_pollRetryCount := 0\<rparr>))\<lparr>mc_nextPollAtMs := nowMs\<rparr>))"

definition add_capabilities :: "string list \<Rightarrow> string list \<Rightarrow> string list" where
  "add_capabilities names capabilities = fold (\<lambda>n cs. snd (capability_add n cs)) names capabilities"

definition component_begin ::
    "u32 \<Rightarrow> modbus_component \<Rightarrow> string list \<Rightarrow> bool \<times> modbus_component \<times> string list" where
  "component_begin nowMs c capabilities =
     (case mc_mode c of
        ModbusMaster \<Rightarrow>
          let capabilities = add_capabilities [''source.modbus'', ''modbus.master'', ''modbus.rtu'',
                ''modbus.read'', ''modbus.write'', ''modbus.raw'', ''modbus.polling'',
                ''modbus.compatibility-channels''] capabilities;
              (ok, m) = master_begin (mc_serialConfig c) (mc_rtu c);
              c = c\<lparr>mc_rtu := m\<rparr>
          in if \<not> ok then (False, c, capabilities)
             else (True, c\<lparr>mc_active := True, mc_nextPollAtMs := nowMs\<rparr>, capabilities)
      | ModbusSlave \<Rightarrow> (True, c\<lparr>mc_active := True\<rparr>,
          add_capabilities [''modbus.slave'', ''modbus.virtual-registers''] capabilities)
      | ModbusDisabled \<Rightarrow> (True, c, capabilities))"

section \<open>Channels\<close>

text \<open>The common start of the two operations on the channel table.\<close>

definition interruptBus :: "modbus_component \<Rightarrow> modbus_component" where
  "interruptBus c = clearPendingWrite
     (if mm_active (mc_rtu c)
      then c\<lparr>mc_rtu := cancelTransaction (mc_rtu c), mc_pollRetryCount := 0\<rparr> else c)"

definition upsertChannel :: "ChannelConfig \<Rightarrow> modbus_component \<Rightarrow> bool \<times> modbus_component" where
  "upsertChannel config c =
     (if \<not> validChannelConfig config then (False, c)
      else
        let c = interruptBus c;
            channels = (case replace_first (\<lambda>x. ch_slot x = ch_slot config) config (mc_channels c) of
                 Some channels \<Rightarrow> channels | None \<Rightarrow> mc_channels c @ [config])
        in (True, c\<lparr>mc_cache := (mc_cache c)[unat (ch_slot config) := default_cache],
                    mc_channels := channels\<rparr>))"

definition removeChannel :: "u8 \<Rightarrow> modbus_component \<Rightarrow> bool \<times> modbus_component" where
  "removeChannel slot c =
     (let c = interruptBus c
      in case erase_first (\<lambda>x. ch_slot x = slot) (mc_channels c) of
           None \<Rightarrow> (False, c)
         | Some channels \<Rightarrow>
             (True, c\<lparr>mc_channels := channels,
                mc_cache := (mc_cache c)[unat slot := default_cache],
                mc_pollCompletionPending := (if mc_pollCompletionPending c \<and>
                  ch_slot (po_channel (mc_completedPoll c)) = slot then False
                  else mc_pollCompletionPending c),
                mc_pollChannelIndex := (if mc_pollChannelIndex c \<ge> length channels then 0
                  else mc_pollChannelIndex c),
                mc_pollRetryCount := 0\<rparr>))"

definition channelForSlot :: "u8 \<Rightarrow> modbus_component \<Rightarrow> ChannelConfig option" where
  "channelForSlot slot c = find (\<lambda>x. ch_slot x = slot) (mc_channels c)"

definition component_setChannelName ::
    "u8 \<Rightarrow> bytes ptr \<Rightarrow> modbus_component \<Rightarrow> bool \<times> modbus_component" where
  "component_setChannelName slot name c =
     (case channelForSlot slot c of
        None \<Rightarrow> (False, c)
      | Some config \<Rightarrow>
          (case setChannelName config name of
             None \<Rightarrow> (False, c)
           | Some renamed \<Rightarrow>
               (True, c\<lparr>mc_channels :=
                  the (replace_first (\<lambda>x. ch_slot x = slot) renamed (mc_channels c))\<rparr>)))"

text \<open>\<^verbatim>\<open>%u\<close> of \<^verbatim>\<open>snprintf\<close>.\<close>

fun decimal :: "nat \<Rightarrow> string" where
  "decimal n = (if n < 10 then [char_of (48 + n)] else decimal (n div 10) @ [char_of (48 + n mod 10)])"

declare decimal.simps [simp del]

definition pointIdForSlot :: "u8 \<Rightarrow> u8 \<Rightarrow> string" where
  "pointIdForSlot slot registerIndex =
     (if registerIndex = 0 then ''compat/'' @ decimal (unat slot + 1)
      else ''compat/'' @ decimal (unat slot + 1) @ ''/'' @ decimal (unat registerIndex + 1))"

section \<open>Poll results\<close>

definition publishPollCompletion ::
    "u32 \<Rightarrow> ChannelConfig \<Rightarrow> bool \<Rightarrow> DecodedScalar list \<Rightarrow> u8 \<Rightarrow> modbus_component \<Rightarrow> modbus_component" where
  "publishPollCompletion nowMs channel success values valueCount c =
     (let vs = po_values default_completion;
          vs = (if success \<and> valueCount > 0
                then (if valueCount > 1 then vs[0 := values ! 0, 1 := values ! 1] else vs[0 := values ! 0])
                else vs)
      in c\<lparr>mc_completedPoll := \<lparr>po_channel = channel, po_success = success,
             po_valueCount = (if success then valueCount else 0), po_values = vs,
             po_status = (if success then RtuOk else mm_lastStatus (mc_rtu c)),
             po_exceptionCode = (if success then 0 else mm_lastException (mc_rtu c)),
             po_completedAtMs = nowMs\<rparr>,
           mc_pollCompletionPending := True\<rparr>)"

definition advancePollChannel :: "modbus_component \<Rightarrow> modbus_component" where
  "advancePollChannel c = c\<lparr>mc_pollChannelIndex :=
     (if mc_channels c = [] then 0 else (mc_pollChannelIndex c + 1) mod length (mc_channels c))\<rparr>"

definition finishPollAttempt ::
    "u32 \<Rightarrow> ChannelConfig \<Rightarrow> bool \<Rightarrow> DecodedScalar list \<Rightarrow> u8 \<Rightarrow> modbus_component \<Rightarrow> modbus_component" where
  "finishPollAttempt nowMs channel success values valueCount c =
     (let i = unat (ch_slot channel); cached = mc_cache c ! i
      in if success then
           let vs = (ca_values cached)[0 := values ! 0];
               vs = (if valueCount > 1 then vs[1 := values ! 1] else vs);
               c = c\<lparr>mc_cache := (mc_cache c)[i := \<lparr>ca_valid = True, ca_valueCount = valueCount,
                     ca_values = vs, ca_updatedAtMs = nowMs, ca_lastStatus = RtuOk,
                     ca_lastExceptionCode = 0\<rparr>]\<rparr>;
               c = publishPollCompletion nowMs channel True values valueCount c
           in advancePollChannel (c\<lparr>mc_pollRetryCount := 0\<rparr>)
         else
           let cached = cached\<lparr>ca_lastStatus := mm_lastStatus (mc_rtu c),
                 ca_lastExceptionCode := mm_lastException (mc_rtu c)\<rparr>
           in if mc_pollRetryCount c < ms_maxRetryTimes (mc_masterSettings c)
              then c\<lparr>mc_cache := (mc_cache c)[i := cached],
                     mc_pollRetryCount := mc_pollRetryCount c + 1\<rparr>
              else
                let c = c\<lparr>mc_cache := (mc_cache c)[i := cached\<lparr>ca_valid := False, ca_valueCount := 0\<rparr>]\<rparr>;
                    c = publishPollCompletion nowMs channel False [] 0 c
                in advancePollChannel (c\<lparr>mc_pollRetryCount := 0\<rparr>))"

definition applySuccessfulWriteToCache :: "u32 \<Rightarrow> PendingWrite \<Rightarrow> modbus_component \<Rightarrow> modbus_component" where
  "applySuccessfulWriteToCache nowMs write c =
     (if unat (ch_slot (pw_channel write)) \<ge> kCompatibilitySlotCount \<or> pw_registerIndex write \<ge> 2 then c
      else
        let i = unat (ch_slot (pw_channel write)); cached = mc_cache c ! i
        in if \<not> ca_valid cached \<or> ca_valueCount cached \<noteq> ch_quantity (pw_channel write)
           then c\<lparr>mc_cache := (mc_cache c)[i := cached\<lparr>ca_valid := False, ca_valueCount := 0\<rparr>]\<rparr>
           else c\<lparr>mc_cache := (mc_cache c)[i := cached\<lparr>
                  ca_values := (ca_values cached)[unat (pw_registerIndex write) := pw_value write],
                  ca_updatedAtMs := nowMs, ca_lastStatus := RtuOk, ca_lastExceptionCode := 0\<rparr>]\<rparr>)"


section \<open>The loop\<close>

text \<open>
  A transaction in progress is polled; its end is delivered to the mailbox, the cache or the write
  counters. \<open>None\<close> stands for the return while it is pending.
\<close>

definition pollRawTransaction :: "rx \<Rightarrow> u32 \<Rightarrow> u32 \<Rightarrow> modbus_component \<Rightarrow> modbus_component" where
  "pollRawTransaction rx nowUs nowMs c =
     (let (result, response, m) = pollRaw (Some kRawCapacity) rx nowUs nowMs (mc_rtu c);
          c = c\<lparr>mc_rtu := m\<rparr>
      in if result = TxPending then c
         else c\<lparr>mc_rawCompletion := \<lparr>rw_origin = pr_origin (mc_activeRaw c),
                  rw_success = (result = TxSuccess),
                  rw_payload = (if result = TxSuccess then response else []),
                  rw_completedAtMs = nowMs\<rparr>,
                mc_rawCompletionPending := True, mc_rawInFlight := False,
                mc_nextPollAtMs := nowMs\<rparr>)"

definition pollWriteTransaction :: "rx \<Rightarrow> u32 \<Rightarrow> modbus_component \<Rightarrow> modbus_component" where
  "pollWriteTransaction rx nowMs c =
     (let (result, m) = pollWrite rx nowMs (mc_rtu c);
          c = c\<lparr>mc_rtu := m\<rparr>
      in if result = TxPending then c
         else
           let c = (if mc_writeInFlight c then
                      (let c = (if result = TxSuccess
                                then (applySuccessfulWriteToCache nowMs (mc_activeWrite c) c)
                                  \<lparr>mc_successfulWrites := mc_successfulWrites c + 1\<rparr>
                                else c\<lparr>mc_failedWrites := mc_failedWrites c + 1\<rparr>)
                       in c\<lparr>mc_writeInFlight := False\<rparr>)
                    else c)
           in c\<lparr>mc_nextPollAtMs := nowMs\<rparr>)"

definition afterInterval :: "u32 \<Rightarrow> modbus_component \<Rightarrow> modbus_component" where
  "afterInterval nowMs c =
     c\<lparr>mc_nextPollAtMs := nowMs + ucast (ms_executionIntervalMs (mc_masterSettings c))\<rparr>"

text \<open>The index of the next channel to poll, brought back into range.\<close>

definition clampPollIndex :: "modbus_component \<Rightarrow> modbus_component" where
  "clampPollIndex c = c\<lparr>mc_pollChannelIndex :=
     (if mc_pollChannelIndex c \<ge> length (mc_channels c) then 0 else mc_pollChannelIndex c)\<rparr>"

definition pollReadTransaction :: "rx \<Rightarrow> u32 \<Rightarrow> modbus_component \<Rightarrow> modbus_component" where
  "pollReadTransaction rx nowMs c =
     (let (result, values, m) = pollRead False rx nowMs (mc_rtu c);
          c = c\<lparr>mc_rtu := m\<rparr>
      in if result = TxPending then c
         else if result = TxIdle then afterInterval nowMs (c\<lparr>mc_pollRetryCount := 0\<rparr>)
         else if mc_channels c = [] then c
         else
           let c = clampPollIndex c; channel = mc_channels c ! mc_pollChannelIndex c
           in afterInterval nowMs (finishPollAttempt nowMs channel (result = TxSuccess) values
                (of_nat (length values)) c))"

definition pollTransaction :: "rx \<Rightarrow> u32 \<Rightarrow> u32 \<Rightarrow> modbus_component \<Rightarrow> modbus_component" where
  "pollTransaction rx nowUs nowMs c =
     (if mm_kind (mc_rtu c) = KindRaw then pollRawTransaction rx nowUs nowMs c
      else if mm_kind (mc_rtu c) = KindWrite then pollWriteTransaction rx nowMs c
      else pollReadTransaction rx nowMs c)"

text \<open>Listening: the flag tells whether the loop returns here.\<close>

definition listenPassive :: "rx \<Rightarrow> u32 \<Rightarrow> u32 \<Rightarrow> modbus_component \<Rightarrow> bool \<times> modbus_component" where
  "listenPassive rx nowUs nowMs c =
     (let (result, frame, m) = pollPassiveFrame (Some kRawCapacity) rx nowUs (mc_rtu c);
          c = c\<lparr>mc_rtu := m\<rparr>
      in if result = PassiveFrameReady then
           (True, c\<lparr>mc_passiveFrame := \<lparr>pv_payload = frame, pv_completedAtMs = nowMs\<rparr>,
              mc_passiveFramePending := True,
              mc_passiveFramesReceived := mc_passiveFramesReceived c + 1, mc_nextPollAtMs := nowMs\<rparr>)
         else if result = PassiveOverflow then
           (True, c\<lparr>mc_passiveFrameOverflows := mc_passiveFrameOverflows c + 1,
              mc_nextPollAtMs := nowMs\<rparr>)
         else (result = PassivePending \<or> collector_pending (mm_passive m), c))"

text \<open>
  Starting the next transaction: a raw request first, then, unless the bus is passed through both
  ways, a write, then the poll that is due. \<open>sent\<close> is what the serial port reports as written.
\<close>

definition startQueuedRaw :: "nat \<Rightarrow> u32 \<Rightarrow> modbus_component \<Rightarrow> modbus_component" where
  "startQueuedRaw sent nowMs c =
     (let raw = mc_pendingRaw c;
          (ok, m) = startRaw (Some (pr_payload raw)) sent nowMs (mc_rtu c);
          c = c\<lparr>mc_activeRaw := raw, mc_pendingRaw := raw\<lparr>pr_queued := False\<rparr>, mc_rtu := m\<rparr>
      in if \<not> ok then
           c\<lparr>mc_rawCompletion := default_rawCompletion\<lparr>rw_origin := pr_origin raw,
               rw_completedAtMs := nowMs\<rparr>,
             mc_rawCompletionPending := True, mc_rawInFlight := False\<rparr>
         else c\<lparr>mc_rawInFlight := True\<rparr>)"

definition startQueuedWrite :: "nat \<Rightarrow> u32 \<Rightarrow> modbus_component \<Rightarrow> modbus_component" where
  "startQueuedWrite sent nowMs c =
     (let write = mc_pendingWrite c;
          (ok, m) = startWrite (pw_channel write) (pw_registerIndex write) (pw_value write)
            sent nowMs (mc_rtu c);
          c = c\<lparr>mc_activeWrite := write, mc_pendingWrite := write\<lparr>pw_queued := False\<rparr>, mc_rtu := m\<rparr>
      in if \<not> ok then c\<lparr>mc_failedWrites := mc_failedWrites c + 1, mc_writeInFlight := False,
             mc_nextPollAtMs := nowMs\<rparr>
         else c\<lparr>mc_writeInFlight := True\<rparr>)"

definition startDuePoll :: "nat \<Rightarrow> u32 \<Rightarrow> modbus_component \<Rightarrow> modbus_component" where
  "startDuePoll sent nowMs c =
     (if mc_channels c = [] then c
      else if \<not> time_reached nowMs (mc_nextPollAtMs c) then c
      else
        let c = clampPollIndex c; channel = mc_channels c ! mc_pollChannelIndex c;
            (ok, m) = startRead channel sent nowMs (mc_rtu c); c = c\<lparr>mc_rtu := m\<rparr>
        in if \<not> ok then afterInterval nowMs (finishPollAttempt nowMs channel False [] 0 c) else c)"

definition component_loop :: "nat \<Rightarrow> rx \<Rightarrow> u32 \<Rightarrow> u32 \<Rightarrow> modbus_component \<Rightarrow> modbus_component" where
  "component_loop sent rx nowUs nowMs c =
     (if mc_mode c \<noteq> ModbusMaster \<or> \<not> mc_active c then c
      else if mm_active (mc_rtu c) then pollTransaction rx nowUs nowMs c
      else
        let (done', c) = listenPassive rx nowUs nowMs c
        in if done' then c
           else if pr_queued (mc_pendingRaw c) then startQueuedRaw sent nowMs c
           else if ms_passThroughMode (mc_masterSettings c) = passthrough_code PtTwoWay then c
           else if pw_queued (mc_pendingWrite c) then startQueuedWrite sent nowMs c
           else startDuePoll sent nowMs c)"

section \<open>Queues and mailboxes\<close>

definition queueRawRequestInternal ::
    "bytes ptr \<Rightarrow> RawRequestOrigin \<Rightarrow> modbus_component \<Rightarrow> bool \<times> modbus_component" where
  "queueRawRequestInternal payload origin c =
     (case payload of None \<Rightarrow> (False, c) | Some p \<Rightarrow>
        if mc_mode c \<noteq> ModbusMaster \<or> \<not> mc_active c \<or> length p = 0 \<or> length p > kRawCapacity \<or>
           pr_queued (mc_pendingRaw c) \<or> mc_rawInFlight c then (False, c)
        else (True, c\<lparr>mc_pendingRaw := \<lparr>pr_origin = origin, pr_queued = True, pr_payload = p\<rparr>\<rparr>))"

definition queueRawRequest :: "bytes ptr \<Rightarrow> modbus_component \<Rightarrow> bool \<times> modbus_component" where
  "queueRawRequest payload c =
     (if ms_passThroughMode (mc_masterSettings c) = passthrough_code PtDisabled then (False, c)
      else queueRawRequestInternal payload OriginPassThrough c)"

definition queueRuleRawRequest :: "bytes ptr \<Rightarrow> modbus_component \<Rightarrow> bool \<times> modbus_component" where
  "queueRuleRawRequest payload c = queueRawRequestInternal payload OriginRule c"

definition takeRawCompletion :: "modbus_component \<Rightarrow> RawCompletion option \<times> modbus_component" where
  "takeRawCompletion c = (if \<not> mc_rawCompletionPending c then (None, c)
     else (Some (mc_rawCompletion c), c\<lparr>mc_rawCompletionPending := False\<rparr>))"

definition takePassiveFrame :: "modbus_component \<Rightarrow> PassiveFrame option \<times> modbus_component" where
  "takePassiveFrame c = (if \<not> mc_passiveFramePending c then (None, c)
     else (Some (mc_passiveFrame c), c\<lparr>mc_passiveFramePending := False\<rparr>))"

definition takeCompletedPoll :: "modbus_component \<Rightarrow> PollCompletion option \<times> modbus_component" where
  "takeCompletedPoll c = (if \<not> mc_pollCompletionPending c then (None, c)
     else (Some (mc_completedPoll c), c\<lparr>mc_pollCompletionPending := False\<rparr>))"

definition component_online :: "modbus_component \<Rightarrow> bool" where
  "component_online c = (mc_mode c = ModbusMaster \<and> mc_active c \<and> mm_online (mc_rtu c))"

definition hasValidCache :: "u8 \<Rightarrow> modbus_component \<Rightarrow> bool" where
  "hasValidCache slot c = (unat slot < kCompatibilitySlotCount \<and> ca_valid (mc_cache c ! unat slot))"

definition cacheAgeMs :: "u32 \<Rightarrow> u8 \<Rightarrow> modbus_component \<Rightarrow> u32" where
  "cacheAgeMs nowMs slot c =
     (if \<not> hasValidCache slot c then 0 else nowMs - ca_updatedAtMs (mc_cache c ! unat slot))"

section \<open>Data points\<close>

definition pointCount :: "modbus_component \<Rightarrow> nat" where
  "pointCount c = sum_list (map (\<lambda>x. unat (ch_quantity x)) (mc_channels c))"

definition component_points :: "modbus_component \<Rightarrow> (ChannelConfig \<times> u8) list" where
  "component_points c =
     concat (map (\<lambda>x. map (\<lambda>r. (x, of_nat r)) [0..<unat (ch_quantity x)]) (mc_channels c))"

definition describePoint :: "nat \<Rightarrow> modbus_component \<Rightarrow> DataPointDescriptor option" where
  "describePoint index c =
     (if index \<ge> length (component_points c) then None
      else
        let (channel, registerIndex) = component_points c ! index;
            readable = (mc_mode c = ModbusMaster \<and>
              ms_passThroughMode (mc_masterSettings c) \<noteq> passthrough_code PtTwoWay)
        in Some \<lparr>dp_id = pointIdForSlot (ch_slot channel) registerIndex, dp_unit = [],
             dp_type = (if isBooleanType (ch_dataType channel) then DtBoolean
                        else if isFloatingPointType (ch_dataType channel) then DtFloat64
                        else if uplinkSigned channel then DtInt64 else DtUInt64),
             dp_readable = readable, dp_writable = (readable \<and> writableType (ch_dataType channel))\<rparr>)"

fun parseDigits :: "string \<Rightarrow> nat \<Rightarrow> nat option" where
  "parseDigits [] parsed = Some parsed"
| "parseDigits (ch # cs) parsed =
     (if (of_char ch :: nat) < 48 \<or> (of_char ch :: nat) > 57 then None
      else let parsed = parsed * 10 + (of_char ch - 48)
        in if parsed > 65535 then None else parseDigits cs parsed)"

definition parsePositiveNumber :: "string \<Rightarrow> u16 option" where
  "parsePositiveNumber value =
     (if value = [] then None
      else case parseDigits value 0 of None \<Rightarrow> None
        | Some parsed \<Rightarrow> if parsed = 0 then None else Some (of_nat parsed))"

text \<open>The part before the first slash, and what follows it.\<close>

definition split_slash :: "string \<Rightarrow> string \<times> string option" where
  "split_slash s = (takeWhile (\<lambda>ch. ch \<noteq> CHR ''/'') s,
     case dropWhile (\<lambda>ch. ch \<noteq> CHR ''/'') s of [] \<Rightarrow> None | _ # rest \<Rightarrow> Some rest)"

definition parsePointId :: "string \<Rightarrow> (u8 \<times> u8) option" where
  "parsePointId pointId =
     (if take 7 pointId \<noteq> ''compat/'' then None
      else
        let (channelPart, registerPart) = split_slash (drop 7 pointId)
        in case parsePositiveNumber channelPart of None \<Rightarrow> None
          | Some channelNumber \<Rightarrow>
              if unat channelNumber > kCompatibilitySlotCount then None
              else case registerPart of
                None \<Rightarrow> Some (ucast (channelNumber - 1), 0)
              | Some r \<Rightarrow>
                  if CHR ''/'' \<in> set r then None
                  else (case parsePositiveNumber r of None \<Rightarrow> None
                    | Some registerNumber \<Rightarrow>
                        if registerNumber > 2 then None
                        else Some (ucast (channelNumber - 1), ucast (registerNumber - 1))))"

definition scalar_value :: "DecodedScalar \<Rightarrow> DataValue" where
  "scalar_value scalar =
     (let value = default_value\<lparr>dv_valid := True\<rparr>
      in case sc_kind scalar of
        KBoolean \<Rightarrow> value\<lparr>dv_type := DtBoolean, dv_booleanValue := sc_boolean scalar\<rparr>
      | KSignedInteger \<Rightarrow> value\<lparr>dv_type := DtInt64, dv_intValue := sc_signed scalar\<rparr>
      | KUnsignedInteger \<Rightarrow> value\<lparr>dv_type := DtUInt64, dv_uintValue := sc_unsigned scalar\<rparr>
      | KFloatingPoint \<Rightarrow> value\<lparr>dv_type := DtFloat64, dv_floatValue := sc_floating scalar\<rparr>)"

definition readPoint :: "string \<Rightarrow> modbus_component \<Rightarrow> DataValue option" where
  "readPoint pointId c =
     (if mc_mode c \<noteq> ModbusMaster \<or> \<not> mc_active c \<or>
         ms_passThroughMode (mc_masterSettings c) = passthrough_code PtTwoWay then None
      else case parsePointId pointId of None \<Rightarrow> None
        | Some (slot, registerIndex) \<Rightarrow>
            (case channelForSlot slot c of None \<Rightarrow> None
             | Some channel \<Rightarrow>
                 if registerIndex \<ge> ch_quantity channel then None
                 else
                   let cached = mc_cache c ! unat slot
                   in if \<not> ca_valid cached \<or> registerIndex \<ge> ca_valueCount cached then None
                      else Some (scalar_value (ca_values cached ! unat registerIndex))))"

definition dataValueToScalar :: "ChannelConfig \<Rightarrow> DataValue \<Rightarrow> DecodedScalar option" where
  "dataValueToScalar channel input =
     (if ch_dataType channel = wire_code Coil then
        (if dv_type input \<noteq> DtBoolean then None
         else Some (default_scalar\<lparr>sc_kind := KBoolean, sc_boolean := dv_booleanValue input\<rparr>))
      else if isFloatingPointType (ch_dataType channel) then
        (if dv_type input \<noteq> DtFloat64 then None
         else Some (default_scalar\<lparr>sc_kind := KFloatingPoint, sc_floating := dv_floatValue input\<rparr>))
      else if uplinkSigned channel then
        (if dv_type input \<noteq> DtInt64 then None
         else Some (default_scalar\<lparr>sc_kind := KSignedInteger, sc_signed := dv_intValue input\<rparr>))
      else if dv_type input \<noteq> DtUInt64 then None
      else Some (default_scalar\<lparr>sc_kind := KUnsignedInteger, sc_unsigned := dv_uintValue input\<rparr>))"

definition writePoint :: "string \<Rightarrow> DataValue \<Rightarrow> modbus_component \<Rightarrow> bool \<times> modbus_component" where
  "writePoint pointId value c =
     (if mc_mode c \<noteq> ModbusMaster \<or> \<not> mc_active c \<or> \<not> dv_valid value \<or>
         ms_passThroughMode (mc_masterSettings c) = passthrough_code PtTwoWay \<or>
         pw_queued (mc_pendingWrite c) \<or> mc_writeInFlight c then (False, c)
      else case parsePointId pointId of None \<Rightarrow> (False, c)
        | Some (slot, registerIndex) \<Rightarrow>
            (case channelForSlot slot c of None \<Rightarrow> (False, c)
             | Some channel \<Rightarrow>
                 if registerIndex \<ge> ch_quantity channel \<or> \<not> writableType (ch_dataType channel)
                 then (False, c)
                 else case dataValueToScalar channel value of None \<Rightarrow> (False, c)
                   | Some scalar \<Rightarrow>
                       (case buildWriteRequest channel registerIndex scalar (Some 17) of
                          Inl _ \<Rightarrow> (False, c)
                        | Inr _ \<Rightarrow> (True, c\<lparr>mc_pendingWrite := \<lparr>pw_queued = True,
                            pw_channel = channel, pw_registerIndex = registerIndex,
                            pw_value = scalar\<rparr>\<rparr>))))"

end
