(* ===== verification/ComponentProperties.thy ===== *)
theory ComponentProperties
  imports ModbusComponent BusProperties
begin

text \<open>
  What the Modbus component promises the application: whatever is configured, queued and received,
  the transaction on the bus is the one its bookkeeping says, a valid cache entry belongs to a channel
  that is still configured, what waits in a mailbox fits its buffer, and a point id is parsed back to its
  channel and value.
\<close>

section \<open>The transactions of the bus master\<close>

lemma readLoop_tx:
  "case readLoop rx m of
     Inl (r, vs, m') \<Rightarrow> r = TxSuccess \<longrightarrow> length vs = unat (ch_quantity (mm_activeChannel m))
   | Inr m' \<Rightarrow> mm_activeChannel m' = mm_activeChannel m"
proof (induction rx m rule: readLoop.induct)
  case (2 raw us rx m)
  have noted: "mm_activeChannel (noteReadByte b m) = mm_activeChannel m" for b
    by (simp add: noteReadByte_def Let_def)
  have fin: "case finishDecode m of (r, vs, m') \<Rightarrow>
      r = TxSuccess \<longrightarrow> length vs = unat (ch_quantity (mm_activeChannel m))" for m
    by (auto simp: finishDecode_def Let_def dest!: read_response_accepted split: sum.splits)
  show ?case
    using 2 fin [of "noteReadByte (word_of_int raw) m"]
    by (auto simp: Let_def noted split: sum.splits prod.splits)
qed simp

lemma finishDecode_tx:
  "finishDecode m = (r, vs, m') \<Longrightarrow> \<not> mm_active m' \<and> r \<noteq> TxPending \<and> r \<noteq> TxIdle \<and>
     (r = TxSuccess \<longrightarrow> length vs = unat (ch_quantity (mm_activeChannel m)))"
  using finishes [where m = m]
  by (auto simp: finishDecode_def Let_def dest!: read_response_accepted split: sum.splits)

lemma finishWriteDecode_tx: "finishWriteDecode m = (r, m') \<Longrightarrow> \<not> mm_active m' \<and> r \<noteq> TxPending"
  using finishes(4,5) [where m = m] by simp

text \<open>\<open>idle_master\<close>: no transaction; \<open>same_transaction\<close>: the one that was there.\<close>

definition idle_master :: "master \<Rightarrow> bool" where
  "idle_master m = (master_ok m \<and> \<not> mm_active m \<and> mm_kind m = KindNone)"

definition same_transaction :: "master \<Rightarrow> master \<Rightarrow> bool" where
  "same_transaction m m' = (master_ok m' \<and> mm_active m' = mm_active m \<and> mm_kind m' = mm_kind m \<and>
     mm_activeChannel m' = mm_activeChannel m \<and> mm_activeValueIndex m' = mm_activeValueIndex m)"

lemma idle_masterI: "master_ok m \<Longrightarrow> \<not> mm_active m \<Longrightarrow> idle_master m"
  by (auto simp: idle_master_def master_ok_def)

lemma active_kind: "master_ok m \<Longrightarrow> mm_active m = (mm_kind m \<noteq> KindNone)"
  by (simp add: master_ok_def)

lemma loops_keep:
  "readLoop rx m = Inr m' \<Longrightarrow> mm_activeValueIndex m' = mm_activeValueIndex m"
  "writeLoop rx m = Inr m' \<Longrightarrow> mm_active m' = mm_active m \<and> mm_kind m' = mm_kind m \<and>
     mm_activeChannel m' = mm_activeChannel m \<and> mm_activeValueIndex m' = mm_activeValueIndex m"
  "rawLoop rx m = Inr m' \<Longrightarrow> mm_active m' = mm_active m \<and> mm_kind m' = mm_kind m \<and>
     mm_activeChannel m' = mm_activeChannel m \<and> mm_activeValueIndex m' = mm_activeValueIndex m"
proof -
  show "readLoop rx m = Inr m' \<Longrightarrow> mm_activeValueIndex m' = mm_activeValueIndex m"
    by (induction rx m rule: readLoop.induct)
      (auto simp: Let_def noteReadByte_def split: if_splits)
  show "writeLoop rx m = Inr m' \<Longrightarrow> mm_active m' = mm_active m \<and> mm_kind m' = mm_kind m \<and>
     mm_activeChannel m' = mm_activeChannel m \<and> mm_activeValueIndex m' = mm_activeValueIndex m"
    by (induction rx m rule: writeLoop.induct)
      (auto simp: Let_def noteWriteByte_def split: if_splits)
  show "rawLoop rx m = Inr m' \<Longrightarrow> mm_active m' = mm_active m \<and> mm_kind m' = mm_kind m \<and>
     mm_activeChannel m' = mm_activeChannel m \<and> mm_activeValueIndex m' = mm_activeValueIndex m"
    by (induction rx m rule: rawLoop.induct) (auto split: if_splits)
qed

lemma pollRead_tx:
  assumes "master_ok m" "mm_kind m = KindRead" "pollRead False rx now m = (r, vs, m')"
  shows "if r = TxPending then same_transaction m m'
    else idle_master m' \<and> r \<noteq> TxIdle \<and>
      (r = TxSuccess \<longrightarrow> length vs = unat (ch_quantity (mm_activeChannel m)))"
proof -
  have ok: "master_ok m'" using pollRead_ok [OF assms(1), of False rx now] assms(3) by simp
  have active: "mm_active m" using assms(1,2) by (simp add: active_kind)
  note tx = readLoop_tx [where rx = rx and m = m] and ends = readLoop_ends [where rx = rx and m = m]
  show ?thesis
  proof (cases "readLoop rx m")
    case (Inl d)
    with assms(3) active assms(2) tx ends ok show ?thesis
      by (auto simp: pollRead_def idle_masterI)
  next
    case (Inr m1)
    with assms(3) active assms(2) tx ends ok loops_keep(1) [OF Inr] show ?thesis
      by (auto simp: pollRead_def same_transaction_def intro!: idle_masterI
          dest: finishDecode_tx split: if_splits)
  qed
qed

lemma pollWrite_tx:
  assumes "master_ok m" "mm_kind m = KindWrite" "pollWrite rx now m = (r, m')"
  shows "if r = TxPending then same_transaction m m' else idle_master m'"
proof -
  have ok: "master_ok m'" using pollWrite_ok [OF assms(1), of rx now] assms(3) by simp
  have active: "mm_active m" using assms(1,2) by (simp add: active_kind)
  show ?thesis
  proof (cases "writeLoop rx m")
    case (Inl d)
    with assms(3) active assms(2) writeLoop_ends [where rx = rx and m = m] ok show ?thesis
      by (auto simp: pollWrite_def idle_masterI)
  next
    case (Inr m1)
    with assms(3) active assms(2) ok loops_keep(2) [OF Inr] show ?thesis
      by (auto simp: pollWrite_def same_transaction_def intro!: idle_masterI
          dest: finishWriteDecode_tx split: if_splits)
  qed
qed

lemma pollRaw_tx:
  assumes "master_ok m" "mm_kind m = KindRaw" "pollRaw (Some n) rx us now m = (r, p, m')"
  shows "if r = TxPending then same_transaction m m' else idle_master m'"
proof -
  have ok: "master_ok m'" using pollRaw_ok [OF assms(1), of "Some n" rx us now] assms(3) by simp
  have active: "mm_active m" using assms(1,2) by (simp add: active_kind)
  show ?thesis
  proof (cases "rawLoop rx m")
    case (Inl d)
    with assms(3) active assms(2) rawLoop_ends [where rx = rx and m = m] ok show ?thesis
      by (cases d) (auto simp: pollRaw_def idle_masterI)
  next
    case (Inr m1)
    with assms(3) active assms(2) ok loops_keep(3) [OF Inr] show ?thesis
      using finishes [where m = m1]
      by (auto simp: pollRaw_def same_transaction_def Let_def succeed_def
          intro!: idle_masterI split: if_splits)
  qed
qed

lemma passive_tx:
  assumes "master_ok m" "pollPassiveFrame out rx us m = (r, f, m')"
  shows "same_transaction m m'"
  using assms pollPassive_ok [OF assms(1), of out rx us]
  by (auto simp: pollPassiveFrame_def same_transaction_def Let_def split: if_splits prod.splits)

lemma transmit_active [simp]: "mm_active (transmit f m) = mm_active m" "mm_kind (transmit f m) = mm_kind m"
  by (simp_all add: transmit_def)

lemma start_tx:
  assumes "idle_master m"
  shows "startRead c sent now m = (ok, m') \<Longrightarrow> if ok then master_ok m' \<and> mm_kind m' = KindRead \<and>
      mm_activeChannel m' = c else idle_master m'"
    "startWrite c i v sent now m = (ok, m') \<Longrightarrow> if ok then master_ok m' \<and> mm_kind m' = KindWrite \<and>
      mm_activeChannel m' = c \<and> mm_activeValueIndex m' = i else idle_master m'"
    "startRaw p sent now m = (ok, m') \<Longrightarrow> if ok then master_ok m' \<and> mm_kind m' = KindRaw else idle_master m'"
proof -
  have m: "master_ok m" "\<not> mm_active m" using assms by (simp_all add: idle_master_def)
  show "startRead c sent now m = (ok, m') \<Longrightarrow> if ok then master_ok m' \<and> mm_kind m' = KindRead \<and>
      mm_activeChannel m' = c else idle_master m'"
    using m startRead_ok [OF m(1), of c sent now]
    by (auto simp: startRead_def Let_def intro!: idle_masterI split: if_splits sum.splits)
  show "startWrite c i v sent now m = (ok, m') \<Longrightarrow> if ok then master_ok m' \<and> mm_kind m' = KindWrite \<and>
      mm_activeChannel m' = c \<and> mm_activeValueIndex m' = i else idle_master m'"
    using m startWrite_ok [OF m(1), of c i v sent now]
    by (auto simp: startWrite_def Let_def intro!: idle_masterI split: if_splits sum.splits)
  show "startRaw p sent now m = (ok, m') \<Longrightarrow> if ok then master_ok m' \<and> mm_kind m' = KindRaw else idle_master m'"
    using m startRaw_ok [OF m(1), of p sent now]
    by (auto simp: startRaw_def Let_def intro!: idle_masterI split: if_splits option.splits)
qed

lemma cancel_tx: "master_ok m \<Longrightarrow> idle_master (cancelTransaction m)"
  by (rule idle_masterI) (simp_all add: cancel_ok)

lemma reconfigure_tx:
  assumes "master_ok m" "master_reconfigure config m = (ok, m')"
  shows "idle_master m'"
proof -
  have "\<not> mm_active (master_end m)" by (simp add: master_end_def Let_def)
  moreover have "mm_active (snd (master_begin config m)) = mm_active m" for m
    by (simp add: master_begin_def Let_def)
  ultimately have "\<not> mm_active m'" using assms(2) unfolding master_reconfigure_def by (metis snd_conv)
  moreover have "master_ok m'"
    using begin_ok [OF end_ok [OF assms(1)], of config] assms(2) by (simp add: master_reconfigure_def)
  ultimately show ?thesis by (rule idle_masterI [rotated])
qed


section \<open>Tables with a key\<close>

lemma replace_first_nth:
  "replace_first p y xs = Some ys \<Longrightarrow> \<exists>k < length xs. p (xs ! k) \<and> ys = xs[k := y]"
proof (induction xs arbitrary: ys)
  case (Cons x xs)
  show ?case
  proof (cases "p x")
    case True
    with Cons.prems show ?thesis by (intro exI [of _ 0]) auto
  next
    case False
    with Cons obtain zs k where "replace_first p y xs = Some zs" "ys = x # zs" "k < length xs"
      "p (xs ! k)" "zs = xs[k := y]" by fastforce
    then show ?thesis by (intro exI [of _ "Suc k"]) auto
  qed
qed simp

lemma keyed_update:
  assumes "distinct (map f xs)" "k < length xs" "f (xs ! k) = f y"
  shows "map f (xs[k := y]) = map f xs" "set (xs[k := y]) = insert y {x \<in> set xs. f x \<noteq> f y}"
proof -
  have keys: "map f (xs[k := y]) = (map f xs)[k := f (xs ! k)]" by (simp add: map_update assms(3))
  then show "map f (xs[k := y]) = map f xs" using assms(2) list_update_id [of "map f xs" k] by simp
  have other: "f (xs ! i) \<noteq> f y" if "i < length xs" "i \<noteq> k" for i
    using assms that nth_eq_iff_index_eq [OF assms(1), of i k] by auto
  show "set (xs[k := y]) = insert y {x \<in> set xs. f x \<noteq> f y}"
  proof (intro set_eqI iffI)
    fix z assume "z \<in> set (xs[k := y])"
    then obtain i where "i < length xs" "z = xs[k := y] ! i" by (auto simp: in_set_conv_nth)
    then show "z \<in> insert y {x \<in> set xs. f x \<noteq> f y}"
      using other by (cases "i = k") auto
  next
    fix z assume z: "z \<in> insert y {x \<in> set xs. f x \<noteq> f y}"
    show "z \<in> set (xs[k := y])"
    proof (cases "z = y")
      case True
      then show ?thesis using set_update_memI [OF assms(2), of y] by simp
    next
      case False
      with z obtain i where i: "i < length xs" "z = xs ! i" "f z \<noteq> f y" by (auto simp: in_set_conv_nth)
      then have "i \<noteq> k" using assms(3) by auto
      then show ?thesis using i by (metis length_list_update nth_list_update_neq nth_mem)
    qed
  qed
qed

lemma keyed_erase:
  assumes "distinct (map f xs)" "erase_first (\<lambda>x. f x = a) xs = Some ys"
  shows "distinct (map f ys)" "set ys = {x \<in> set xs. f x \<noteq> a}" "length ys < length xs"
  using assms
proof (induction xs arbitrary: ys)
  case (Cons x xs)
  {
    case 1
    with Cons.IH(1,2) show ?case by (auto split: if_splits)
  next
    case 2
    with Cons.IH(2) show ?case by (auto simp: image_iff split: if_splits)
  next
    case 3
    with Cons.IH(3) show ?case by (auto split: if_splits)
  }
qed simp_all

section \<open>The invariant\<close>

text \<open>Renaming a channel changes nothing the bus sees.\<close>

definition same_channel :: "ChannelConfig \<Rightarrow> ChannelConfig \<Rightarrow> bool" where
  "same_channel a b = (a\<lparr>ch_name := []\<rparr> = b\<lparr>ch_name := []\<rparr>)"

lemma same_channel_fields:
  "same_channel a b \<Longrightarrow> ch_slot a = ch_slot b \<and> ch_quantity a = ch_quantity b \<and> ch_dataType a = ch_dataType b"
  by (cases a; cases b) (simp add: same_channel_def)

lemma same_channel_refl [simp]: "same_channel a a"
  by (simp add: same_channel_def)

lemma same_channel_trans: "same_channel a b \<Longrightarrow> same_channel b c \<Longrightarrow> same_channel a c"
  by (simp add: same_channel_def)

lemma setChannelName_same: "setChannelName c n = Some c' \<Longrightarrow> same_channel c' c"
  by (cases c) (auto simp: setChannelName_def same_channel_def split: option.splits if_splits)

definition table_ok :: "ChannelConfig list \<Rightarrow> bool" where
  "table_ok xs = (distinct (map ch_slot xs) \<and> (\<forall>x \<in> set xs. validChannelConfig x))"

definition cache_ok :: "ChannelConfig list \<Rightarrow> PollCache list \<Rightarrow> bool" where
  "cache_ok xs cache = (length cache = kCompatibilitySlotCount \<and>
     (\<forall>i < kCompatibilitySlotCount. length (ca_values (cache ! i)) = 2 \<and>
        (ca_valid (cache ! i) \<longrightarrow>
          (\<exists>x \<in> set xs. unat (ch_slot x) = i \<and> ca_valueCount (cache ! i) = ch_quantity x))))"

definition write_ok :: "ChannelConfig list \<Rightarrow> PendingWrite \<Rightarrow> bool" where
  "write_ok xs w =
     ((\<exists>x \<in> set xs. same_channel x (pw_channel w)) \<and>
      pw_registerIndex w < ch_quantity (pw_channel w) \<and> writableType (ch_dataType (pw_channel w)) \<and>
      (\<exists>request. buildWriteRequest (pw_channel w) (pw_registerIndex w) (pw_value w) (Some 17) = Inr request))"

definition bus_ok :: "modbus_component \<Rightarrow> bool" where
  "bus_ok c = (let m = mc_rtu c in
     master_ok m \<and> (mm_active m \<longrightarrow> mc_mode c = ModbusMaster \<and> mc_active c) \<and>
     (mm_kind m = KindRead \<longrightarrow> mc_pollChannelIndex c < length (mc_channels c) \<and>
        same_channel (mc_channels c ! mc_pollChannelIndex c) (mm_activeChannel m)) \<and>
     (mc_writeInFlight c \<longleftrightarrow> mm_kind m = KindWrite) \<and> (mc_rawInFlight c \<longleftrightarrow> mm_kind m = KindRaw) \<and>
     (mm_kind m = KindWrite \<longrightarrow> write_ok (mc_channels c) (mc_activeWrite c) \<and>
        mm_activeChannel m = pw_channel (mc_activeWrite c) \<and>
        mm_activeValueIndex m = pw_registerIndex (mc_activeWrite c)))"

definition queues_ok :: "modbus_component \<Rightarrow> bool" where
  "queues_ok c =
     ((pr_queued (mc_pendingRaw c) \<longrightarrow> pr_payload (mc_pendingRaw c) \<noteq> [] \<and>
        length (pr_payload (mc_pendingRaw c)) \<le> kRawCapacity) \<and>
      (pw_queued (mc_pendingWrite c) \<longrightarrow> write_ok (mc_channels c) (mc_pendingWrite c)))"

text \<open>
  The table holds valid channels, one per slot; a valid cache entry belongs to a channel of the
  table and has its number of values; a read in progress is of the channel at the poll index; the
  flags tell which kind of transaction is in progress; what waits in the queues can be sent.
\<close>

definition bookkeeping_ok :: "modbus_component \<Rightarrow> bool" where
  "bookkeeping_ok c = (table_ok (mc_channels c) \<and> cache_ok (mc_channels c) (mc_cache c) \<and>
     bus_ok c \<and> queues_ok c)"

definition quiet :: "modbus_component \<Rightarrow> bool" where
  "quiet c = (idle_master (mc_rtu c) \<and> \<not> mc_writeInFlight c \<and> \<not> mc_rawInFlight c \<and>
     \<not> pr_queued (mc_pendingRaw c) \<and> \<not> pw_queued (mc_pendingWrite c))"

lemma quiet_ok:
  "quiet c \<Longrightarrow> bookkeeping_ok c = (table_ok (mc_channels c) \<and> cache_ok (mc_channels c) (mc_cache c))"
  by (auto simp: bookkeeping_ok_def quiet_def bus_ok_def queues_ok_def idle_master_def Let_def)

lemmas ok_defs = bookkeeping_ok_def bus_ok_def queues_ok_def Let_def

lemma bookkeeping_okD:
  assumes "bookkeeping_ok c"
  shows "master_ok (mc_rtu c)" "table_ok (mc_channels c)" "cache_ok (mc_channels c) (mc_cache c)"
  using assms by (simp_all add: ok_defs)

lemma interruptBus_quiet:
  assumes "bookkeeping_ok c"
  shows "quiet (interruptBus c)" "mc_channels (interruptBus c) = mc_channels c"
    "mc_cache (interruptBus c) = mc_cache c" "mc_pollChannelIndex (interruptBus c) = mc_pollChannelIndex c"
  using bookkeeping_okD(1) [OF assms]
  by (auto simp: interruptBus_def clearPendingWrite_def quiet_def default_pendingRaw_def
      default_pendingWrite_def intro: cancel_tx idle_masterI)

lemma cache_ok_mono:
  assumes "cache_ok xs cache" "i < kCompatibilitySlotCount"
    and "\<And>x. x \<in> set xs \<Longrightarrow> unat (ch_slot x) \<noteq> i \<Longrightarrow> \<exists>y \<in> set ys. ch_slot y = ch_slot x \<and> ch_quantity y = ch_quantity x"
    and "length (ca_values e) = 2"
    and "ca_valid e \<Longrightarrow> \<exists>y \<in> set ys. unat (ch_slot y) = i \<and> ca_valueCount e = ch_quantity y"
  shows "cache_ok ys (cache[i := e])"
proof -
  have "length (ca_values (cache[i := e] ! j)) = 2 \<and> (ca_valid (cache[i := e] ! j) \<longrightarrow>
      (\<exists>y \<in> set ys. unat (ch_slot y) = j \<and> ca_valueCount (cache[i := e] ! j) = ch_quantity y))"
    if "j < kCompatibilitySlotCount" for j
  proof (cases "j = i")
    case True
    then show ?thesis using assms(1,2,4,5) by (simp add: cache_ok_def)
  next
    case False
    then show ?thesis
      using assms(1) that assms(3) by (auto simp: cache_ok_def) metis
  qed
  then show ?thesis using assms(1) by (simp add: cache_ok_def)
qed

lemma default_cache_ok [simp]: "length (ca_values default_cache) = 2" "\<not> ca_valid default_cache"
  by (simp_all add: default_cache_def)

lemma valid_slot: "validChannelConfig x \<Longrightarrow> unat (ch_slot x) < kCompatibilitySlotCount"
  by (simp add: validChannelConfig_def)

lemma upsertChannel_ok:
  assumes "bookkeeping_ok c"
  shows "bookkeeping_ok (snd (upsertChannel config c))"
proof (cases "validChannelConfig config")
  case False
  then show ?thesis using assms by (simp add: upsertChannel_def)
next
  case True
  note q = interruptBus_quiet [OF assms] and t = bookkeeping_okD [OF assms]
  define ys where "ys = (case replace_first (\<lambda>x. ch_slot x = ch_slot config) config (mc_channels c) of
      Some channels \<Rightarrow> channels | None \<Rightarrow> mc_channels c @ [config])"
  have ys: "distinct (map ch_slot ys)" "set ys = insert config {x \<in> set (mc_channels c). ch_slot x \<noteq> ch_slot config}"
  proof -
    have d: "distinct (map ch_slot (mc_channels c))" using t(2) by (simp add: table_ok_def)
    have "distinct (map ch_slot ys) \<and>
        set ys = insert config {x \<in> set (mc_channels c). ch_slot x \<noteq> ch_slot config}"
    proof (cases "replace_first (\<lambda>x. ch_slot x = ch_slot config) config (mc_channels c)")
      case None
      then have "\<forall>x \<in> set (mc_channels c). ch_slot x \<noteq> ch_slot config" by (simp add: replace_first_None)
      then show ?thesis using d None by (auto simp: ys_def)
    next
      case (Some zs)
      from replace_first_nth [OF this] obtain k where "k < length (mc_channels c)"
        "ch_slot (mc_channels c ! k) = ch_slot config" "zs = (mc_channels c)[k := config]" by auto
      then show ?thesis using d keyed_update [OF d, of k config] Some by (simp add: ys_def)
    qed
    then show "distinct (map ch_slot ys)"
      "set ys = insert config {x \<in> set (mc_channels c). ch_slot x \<noteq> ch_slot config}" by simp_all
  qed
  have "table_ok ys" using t(2) True ys by (simp add: table_ok_def)
  moreover have "cache_ok ys ((mc_cache c)[unat (ch_slot config) := default_cache])"
    using t(3) by (rule cache_ok_mono) (use valid_slot [OF True] in \<open>auto simp: ys(2)\<close>)
  moreover have up: "snd (upsertChannel config c) = (interruptBus c)
      \<lparr>mc_cache := (mc_cache c)[unat (ch_slot config) := default_cache], mc_channels := ys\<rparr>"
    unfolding upsertChannel_def Let_def q(2,3) ys_def using True by simp
  moreover have "quiet (snd (upsertChannel config c))"
    using q(1) unfolding up by (simp add: quiet_def)
  ultimately show ?thesis by (simp add: quiet_ok)
qed


lemma removeChannel_ok:
  assumes "bookkeeping_ok c"
  shows "bookkeeping_ok (snd (removeChannel slot c))"
proof -
  note q = interruptBus_quiet [OF assms] and t = bookkeeping_okD [OF assms]
  show ?thesis
  proof (cases "erase_first (\<lambda>x. ch_slot x = slot) (mc_channels c)")
    case None
    then show ?thesis using q t by (simp add: removeChannel_def Let_def quiet_ok)
  next
    case (Some ys)
    have d: "distinct (map ch_slot (mc_channels c))" using t(2) by (simp add: table_ok_def)
    note ys = keyed_erase [OF d Some]
    have "table_ok ys" using t(2) ys by (auto simp: table_ok_def)
    moreover have "cache_ok ys ((mc_cache c)[unat slot := default_cache])"
    proof (cases "unat slot < kCompatibilitySlotCount")
      case True
      with t(3) show ?thesis
        by (rule cache_ok_mono) (auto simp: ys(2))
    next
      case False
      then have "(mc_cache c)[unat slot := default_cache] = mc_cache c"
        using t(3) by (simp add: cache_ok_def list_update_beyond)
      moreover have "set ys = set (mc_channels c)"
        using False t(2) valid_slot by (auto simp: ys(2) table_ok_def)
      ultimately show ?thesis using t(3) by (simp add: cache_ok_def)
    qed
    moreover have "quiet (snd (removeChannel slot c))"
      using q(1,2) Some by (simp add: removeChannel_def Let_def quiet_def)
    ultimately show ?thesis
      using q(2,3) Some by (subst quiet_ok) (simp_all add: removeChannel_def Let_def)
  qed
qed

text \<open>Operations that touch neither the bus, the table nor the cache.\<close>

lemma mailbox_ok:
  assumes "bookkeeping_ok c"
  shows "bookkeeping_ok (snd (takeRawCompletion c))" "bookkeeping_ok (snd (takePassiveFrame c))"
    "bookkeeping_ok (snd (takeCompletedPoll c))" "bookkeeping_ok (c\<lparr>mc_nextPollAtMs := w\<rparr>)"
    "bookkeeping_ok (snd (queueRawRequest p c))" "bookkeeping_ok (snd (queueRuleRawRequest p c))"
  using assms
  by (auto simp: takeRawCompletion_def takePassiveFrame_def takeCompletedPoll_def queueRawRequest_def
      queueRuleRawRequest_def queueRawRequestInternal_def ok_defs split: option.splits)

lemma makeRtuSerialConfig_usable:
  assumes "makeRtuSerialConfig SER s r = Some config"
  shows "sc_baudRate config \<noteq> 0" "sc_responseTimeoutMs config \<noteq> 0"
  using assms
  by (auto simp: makeRtuSerialConfig_def Let_def esp32SupportsRs485SerialSettings_def
      validRs485SerialSettings_def validRs485BaudRate_def split: if_splits)

lemma reconfigured:
  assumes "bookkeeping_ok c" "makeRtuSerialConfig SER s r = Some config" "reconfigure_bus config c = (ok, c')"
  shows "ok" "idle_master (mc_rtu c')" "mc_channels c' = mc_channels c" "mc_cache c' = mc_cache c"
proof -
  note t = bookkeeping_okD [OF assms(1)]
  show "ok" using makeRtuSerialConfig_usable [OF assms(2)] assms(3)
    by (auto simp: reconfigure_bus_def master_reconfigure_def master_begin_def Let_def split: if_splits)
  show "idle_master (mc_rtu c')"
  proof (cases "mc_mode c = ModbusMaster \<and> mc_active c")
    case True
    then show ?thesis using assms(3) reconfigure_tx [OF t(1)]
      by (auto simp: reconfigure_bus_def split: prod.splits)
  next
    case False
    then show ?thesis using assms(1,3) by (auto simp: reconfigure_bus_def ok_defs intro: idle_masterI)
  qed
  show "mc_channels c' = mc_channels c" "mc_cache c' = mc_cache c"
    using assms(3) by (auto simp: reconfigure_bus_def Let_def split: if_splits prod.splits)
qed

lemma clearPendingWrite_ok:
  assumes "idle_master (mc_rtu c)" "table_ok (mc_channels c)" "cache_ok (mc_channels c) (mc_cache c)"
  shows "bookkeeping_ok (clearPendingWrite c)"
proof -
  have "quiet (clearPendingWrite c)"
    using assms(1) by (simp add: quiet_def clearPendingWrite_def default_pendingRaw_def default_pendingWrite_def)
  then show ?thesis using assms(2,3) by (subst quiet_ok) (simp_all add: clearPendingWrite_def)
qed

lemma settings_ok:
  assumes "bookkeeping_ok c"
  shows "bookkeeping_ok (snd (applyRs485SerialSettings SER now s c))"
    "bookkeeping_ok (snd (applyModbusMasterSettings SER now ms c))"
proof -
  note t = bookkeeping_okD [OF assms]
  have step: "bookkeeping_ok (clearPendingWrite c''\<lparr>mc_nextPollAtMs := now\<rparr>)"
    if "makeRtuSerialConfig SER s r = Some config" "reconfigure_bus config c = (ok, c')"
      "mc_rtu c'' = mc_rtu c'" "mc_channels c'' = mc_channels c'" "mc_cache c'' = mc_cache c'"
    for s r config ok c' c''
    using reconfigured [OF assms that(1,2)] that(3-5) t by (intro mailbox_ok clearPendingWrite_ok) simp_all
  show "bookkeeping_ok (snd (applyRs485SerialSettings SER now s c))"
  proof (cases "makeRtuSerialConfig SER s (ucast (ms_maxResponseTimeMs (mc_masterSettings c)))")
    case None
    then show ?thesis using assms by (simp add: applyRs485SerialSettings_def)
  next
    case (Some config)
    obtain ok c' where r: "reconfigure_bus config c = (ok, c')" by fastforce
    show ?thesis using reconfigured(1) [OF assms Some r] step [OF Some r]
      by (simp add: applyRs485SerialSettings_def Some r Let_def)
  qed
  show "bookkeeping_ok (snd (applyModbusMasterSettings SER now ms c))"
  proof (cases "makeRtuSerialConfig SER (mc_rs485Settings c) (ucast (ms_maxResponseTimeMs ms))")
    case None
    then show ?thesis using assms by (simp add: applyModbusMasterSettings_def)
  next
    case (Some config)
    obtain ok c' where r: "reconfigure_bus config c = (ok, c')" by fastforce
    show ?thesis using reconfigured(1) [OF assms Some r] step [OF Some r] assms
      by (simp add: applyModbusMasterSettings_def Some r Let_def)
  qed
qed

lemma begin_component_ok:
  assumes "bookkeeping_ok c"
  shows "bookkeeping_ok (fst (snd (component_begin now c caps)))"
proof -
  obtain ok m where m: "master_begin (mc_serialConfig c) (mc_rtu c) = (ok, m)" by fastforce
  have "master_ok m" using begin_ok [OF bookkeeping_okD(1) [OF assms]] m by (metis snd_conv)
  moreover have "mm_active m = mm_active (mc_rtu c)" "mm_kind m = mm_kind (mc_rtu c)"
    "mm_activeChannel m = mm_activeChannel (mc_rtu c)"
    "mm_activeValueIndex m = mm_activeValueIndex (mc_rtu c)"
    using m by (auto simp: master_begin_def Let_def split: if_splits)
  ultimately show ?thesis
    using assms by (cases "mc_mode c") (auto simp: component_begin_def m ok_defs)
qed

lemma renamed_ok:
  assumes "bookkeeping_ok c" "table_ok ys" "length ys = length (mc_channels c)"
    and "\<And>i. i < length (mc_channels c) \<Longrightarrow> same_channel (ys ! i) (mc_channels c ! i)"
  shows "bookkeeping_ok (c\<lparr>mc_channels := ys\<rparr>)"
proof -
  note t = bookkeeping_okD [OF assms(1)]
  have partner: "\<exists>y \<in> set ys. same_channel y x" if "x \<in> set (mc_channels c)" for x
    using that assms(3,4) by (metis in_set_conv_nth)
  have cached: "cache_ok ys (mc_cache c)"
  proof -
    have "\<exists>y \<in> set ys. unat (ch_slot y) = i \<and> n = ch_quantity y"
      if "\<exists>x \<in> set (mc_channels c). unat (ch_slot x) = i \<and> n = ch_quantity x" for i n
      using that partner by (auto dest!: same_channel_fields) (metis same_channel_fields)
    then show ?thesis using t(3) by (auto simp: cache_ok_def)
  qed
  have writes: "write_ok ys w" if "write_ok (mc_channels c) w" for w
    using that partner same_channel_trans unfolding write_ok_def by blast
  have moves: "same_channel (ys ! i) d"
    if "same_channel (mc_channels c ! i) d" "i < length (mc_channels c)" for i d
    using that assms(4) same_channel_trans by blast
  have "bus_ok (c\<lparr>mc_channels := ys\<rparr>)"
    using assms(1) writes [of "mc_activeWrite c"] moves [of "mc_pollChannelIndex c" "mm_activeChannel (mc_rtu c)"]
    by (cases "mm_kind (mc_rtu c)") (simp_all add: bookkeeping_ok_def bus_ok_def Let_def assms(3))
  moreover have "queues_ok (c\<lparr>mc_channels := ys\<rparr>)"
    using assms(1) writes [of "mc_pendingWrite c"] by (auto simp: bookkeeping_ok_def queues_ok_def)
  ultimately show ?thesis using assms(2) cached by (simp add: bookkeeping_ok_def)
qed

lemma rename_ok:
  assumes "bookkeeping_ok c"
  shows "bookkeeping_ok (snd (component_setChannelName slot name c))"
proof (cases "channelForSlot slot c")
  case None
  then show ?thesis using assms by (simp add: component_setChannelName_def)
next
  case (Some config)
  show ?thesis
  proof (cases "setChannelName config name")
    case None
    then show ?thesis using Some assms by (simp add: component_setChannelName_def)
  next
    case (Some renamed)
    note t = bookkeeping_okD [OF assms]
    have d: "distinct (map ch_slot (mc_channels c))" using t(2) by (simp add: table_ok_def)
    have config: "config \<in> set (mc_channels c)" "ch_slot config = slot"
      using \<open>channelForSlot slot c = Some config\<close> by (auto simp: channelForSlot_def find_Some_iff)
    have same: "same_channel renamed config" using Some by (rule setChannelName_same)
    then have rs: "ch_slot renamed = slot" "ch_quantity renamed = ch_quantity config"
      using config(2) same_channel_fields by auto
    obtain ys where ys: "replace_first (\<lambda>x. ch_slot x = slot) renamed (mc_channels c) = Some ys"
      using config replace_first_None [of "\<lambda>x. ch_slot x = slot" renamed "mc_channels c"] by fastforce
    from replace_first_nth [OF this] obtain k where k: "k < length (mc_channels c)"
      "ch_slot (mc_channels c ! k) = slot" "ys = (mc_channels c)[k := renamed]" by auto
    have ck: "mc_channels c ! k = config"
      using d k(1,2) config by (metis distinct_map inj_on_eq_iff nth_mem)
    have nths: "same_channel (ys ! i) (mc_channels c ! i)" if "i < length (mc_channels c)" for i
      using that k same ck by (cases "i = k") simp_all
    have len: "length ys = length (mc_channels c)" using k(3) by simp
    note keyed = keyed_update [OF d k(1), of renamed, folded k(3)]
    have "table_ok ys" using t(2) keyed rs k(2) same config
      by (auto simp: table_ok_def validChannelConfig_def same_channel_def)
         (metis ChannelConfig.ext_inject ChannelConfig.surjective ChannelConfig.update_convs(7))+
    moreover have "snd (component_setChannelName slot name c) = c\<lparr>mc_channels := ys\<rparr>"
      by (simp add: component_setChannelName_def \<open>channelForSlot slot c = Some config\<close> Some ys)
    ultimately show ?thesis
      using renamed_ok [OF assms \<open>table_ok ys\<close> len nths] by simp
  qed
qed

section \<open>The loop keeps the invariant\<close>

lemma idle_ok:
  "idle_master (mc_rtu c) \<Longrightarrow> bookkeeping_ok c =
     (table_ok (mc_channels c) \<and> cache_ok (mc_channels c) (mc_cache c) \<and> queues_ok c \<and>
      \<not> mc_writeInFlight c \<and> \<not> mc_rawInFlight c)"
  by (auto simp: bookkeeping_ok_def bus_ok_def idle_master_def Let_def)

lemma same_transaction_ok:
  "bookkeeping_ok c \<Longrightarrow> same_transaction (mc_rtu c) m \<Longrightarrow> bookkeeping_ok (c\<lparr>mc_rtu := m\<rparr>)"
  by (simp add: ok_defs same_transaction_def)

lemma cache_ok_update:
  assumes "cache_ok xs cache" "length (ca_values e) = 2"
    and "ca_valid e \<Longrightarrow> \<exists>x \<in> set xs. unat (ch_slot x) = i \<and> ca_valueCount e = ch_quantity x"
  shows "cache_ok xs (cache[i := e])"
  using assms by (cases "i < kCompatibilitySlotCount") (auto simp: cache_ok_def nth_list_update list_update_beyond)

lemma cached_lengths: "cache_ok xs cache \<Longrightarrow> i < kCompatibilitySlotCount \<Longrightarrow> length (ca_values (cache ! i)) = 2"
  by (simp add: cache_ok_def)

lemma finishPollAttempt_ok:
  assumes "bookkeeping_ok c" "idle_master (mc_rtu c)" "channel \<in> set (mc_channels c)"
    and "success \<Longrightarrow> valueCount = ch_quantity channel"
  shows "bookkeeping_ok (afterInterval nowMs (finishPollAttempt nowMs channel success values valueCount c))"
proof -
  note t = bookkeeping_okD [OF assms(1)]
  let ?i = "unat (ch_slot channel)"
  have i: "?i < kCompatibilitySlotCount" using t(2) assms(3) valid_slot by (auto simp: table_ok_def)
  have known: "ca_valid (mc_cache c ! ?i) \<Longrightarrow>
      \<exists>x \<in> set (mc_channels c). unat (ch_slot x) = ?i \<and> ca_valueCount (mc_cache c ! ?i) = ch_quantity x"
    using t(3) i by (simp add: cache_ok_def)
  have upd: "cache_ok (mc_channels c) ((mc_cache c)[?i := e])"
    if "length (ca_values e) = 2" "ca_valid e \<Longrightarrow>
      \<exists>x \<in> set (mc_channels c). unat (ch_slot x) = ?i \<and> ca_valueCount e = ch_quantity x" for e
    using t(3) that by (rule cache_ok_update)
  show ?thesis
  proof (cases success)
    case True
    then show ?thesis
      using assms t(2) cached_lengths [OF t(3) i]
      by (simp add: idle_ok finishPollAttempt_def publishPollCompletion_def advancePollChannel_def
          afterInterval_def Let_def queues_ok_def) (intro conjI impI upd; auto)
  next
    case False
    then show ?thesis
      using assms t(2) cached_lengths [OF t(3) i] known
      by (simp add: idle_ok finishPollAttempt_def publishPollCompletion_def advancePollChannel_def
          afterInterval_def Let_def queues_ok_def) (intro conjI impI upd; auto)
  qed
qed

lemma written_cache_ok:
  assumes "cache_ok (mc_channels c) (mc_cache c)"
  shows "cache_ok (mc_channels c) (mc_cache (applySuccessfulWriteToCache nowMs w c))"
proof (cases "unat (ch_slot (pw_channel w)) \<ge> kCompatibilitySlotCount \<or> pw_registerIndex w \<ge> 2")
  case True
  then show ?thesis using assms by (simp add: applySuccessfulWriteToCache_def)
next
  case False
  then have i: "unat (ch_slot (pw_channel w)) < kCompatibilitySlotCount" by simp
  have "ca_valid (mc_cache c ! unat (ch_slot (pw_channel w))) \<Longrightarrow>
      \<exists>x \<in> set (mc_channels c). unat (ch_slot x) = unat (ch_slot (pw_channel w)) \<and>
        ca_valueCount (mc_cache c ! unat (ch_slot (pw_channel w))) = ch_quantity x"
    using assms i by (simp add: cache_ok_def)
  then show ?thesis
    using False cached_lengths [OF assms i]
    by (auto simp: applySuccessfulWriteToCache_def Let_def intro!: cache_ok_update [OF assms])
qed

lemma written_keeps [simp]:
  "mc_channels (applySuccessfulWriteToCache t w c) = mc_channels c"
  "mc_rtu (applySuccessfulWriteToCache t w c) = mc_rtu c"
  "mc_pendingRaw (applySuccessfulWriteToCache t w c) = mc_pendingRaw c"
  "mc_pendingWrite (applySuccessfulWriteToCache t w c) = mc_pendingWrite c"
  "mc_rawInFlight (applySuccessfulWriteToCache t w c) = mc_rawInFlight c"
  by (simp_all add: applySuccessfulWriteToCache_def Let_def)

lemma pollTransaction_ok:
  assumes "bookkeeping_ok c" "mm_active (mc_rtu c)"
  shows "bookkeeping_ok (pollTransaction rx nowUs nowMs c)"
proof -
  note t = bookkeeping_okD [OF assms(1)]
  have busy: "mm_kind (mc_rtu c) \<noteq> KindNone" using assms(2) t(1) by (simp add: active_kind)
  have done_ok: "bookkeeping_ok (c'\<lparr>mc_rtu := m\<rparr>)"
    if "idle_master m" "table_ok (mc_channels c')" "cache_ok (mc_channels c') (mc_cache c')" "queues_ok c'"
      "\<not> mc_writeInFlight c'" "\<not> mc_rawInFlight c'" for m c'
    using that by (simp add: idle_ok queues_ok_def)
  show ?thesis
  proof (cases "mm_kind (mc_rtu c)")
    case KindRaw
    obtain r p m where m: "pollRaw (Some kRawCapacity) rx nowUs nowMs (mc_rtu c) = (r, p, m)"
      by (metis prod_cases3)
    show ?thesis
    proof (cases "r = TxPending")
      case True
      then show ?thesis using pollRaw_tx [OF t(1) KindRaw m] assms(1) KindRaw
        by (simp add: pollTransaction_def pollRawTransaction_def m same_transaction_ok)
    next
      case False
      then show ?thesis
        using pollRaw_tx [OF t(1) KindRaw m] assms(1) KindRaw t
        by (simp add: pollTransaction_def pollRawTransaction_def m Let_def ok_defs idle_master_def)
    qed
  next
    case KindWrite
    obtain r m where m: "pollWrite rx nowMs (mc_rtu c) = (r, m)" by fastforce
    show ?thesis
    proof (cases "r = TxPending")
      case True
      then show ?thesis using pollWrite_tx [OF t(1) KindWrite m] assms(1) KindWrite
        by (simp add: pollTransaction_def pollWriteTransaction_def m same_transaction_ok)
    next
      case False
      have "cache_ok (mc_channels c) (mc_cache (applySuccessfulWriteToCache nowMs w (c\<lparr>mc_rtu := m\<rparr>)))" for w
        using written_cache_ok [of "c\<lparr>mc_rtu := m\<rparr>"] t(3) by simp
      then show ?thesis
        using pollWrite_tx [OF t(1) KindWrite m] assms(1) KindWrite t False
        by (simp add: pollTransaction_def pollWriteTransaction_def m Let_def ok_defs idle_master_def)
    qed
  next
    case KindRead
    obtain r vs m where m: "pollRead False rx nowMs (mc_rtu c) = (r, vs, m)" by (metis prod_cases3)
    have flags: "\<not> mc_writeInFlight c" "\<not> mc_rawInFlight c" "queues_ok c"
      "mc_pollChannelIndex c < length (mc_channels c)"
      "ch_quantity (mc_channels c ! mc_pollChannelIndex c) = ch_quantity (mm_activeChannel (mc_rtu c))"
      using assms(1) KindRead same_channel_fields by (auto simp: bookkeeping_ok_def bus_ok_def Let_def)
    show ?thesis
    proof (cases "r = TxPending")
      case True
      then show ?thesis using pollRead_tx [OF t(1) KindRead m] assms(1) KindRead
        by (simp add: pollTransaction_def pollReadTransaction_def m same_transaction_ok)
    next
      case False
      with pollRead_tx [OF t(1) KindRead m] have i: "idle_master m" "r \<noteq> TxIdle"
        "r = TxSuccess \<Longrightarrow> length vs = unat (ch_quantity (mm_activeChannel (mc_rtu c)))" by simp_all
      have "bookkeeping_ok (c\<lparr>mc_rtu := m\<rparr>)" using i(1) t flags by (intro done_ok) auto
      then have "bookkeeping_ok (afterInterval nowMs (finishPollAttempt nowMs
          (mc_channels c ! mc_pollChannelIndex c) (r = TxSuccess) vs (of_nat (length vs)) (c\<lparr>mc_rtu := m\<rparr>)))"
        by (rule finishPollAttempt_ok) (use i flags in auto)
      moreover have "mc_channels c \<noteq> []" using flags(4) by auto
      ultimately show ?thesis using False i(2) flags(4) KindRead
        by (simp add: pollTransaction_def pollReadTransaction_def m clampPollIndex_def Let_def)
    qed
  qed (use busy in simp)
qed

lemma starts_ok:
  assumes "bookkeeping_ok c" "idle_master (mc_rtu c)" "mc_mode c = ModbusMaster" "mc_active c"
  shows "pr_queued (mc_pendingRaw c) \<Longrightarrow> bookkeeping_ok (startQueuedRaw sent nowMs c)"
    "pw_queued (mc_pendingWrite c) \<Longrightarrow> bookkeeping_ok (startQueuedWrite sent nowMs c)"
    "bookkeeping_ok (startDuePoll sent nowMs c)"
proof -
  note t = bookkeeping_okD [OF assms(1)] and parts = assms(1) [unfolded idle_ok [OF assms(2)]]
  show "bookkeeping_ok (startQueuedRaw sent nowMs c)" if "pr_queued (mc_pendingRaw c)"
  proof -
    obtain ok m where m: "startRaw (Some (pr_payload (mc_pendingRaw c))) sent nowMs (mc_rtu c) = (ok, m)"
      by fastforce
    from start_tx(3) [OF assms(2) m] show ?thesis
      using parts assms(3,4)
      by (cases ok) (auto simp: startQueuedRaw_def m Let_def ok_defs idle_master_def active_kind)
  qed
  show "bookkeeping_ok (startQueuedWrite sent nowMs c)" if "pw_queued (mc_pendingWrite c)"
  proof -
    obtain ok m where m: "startWrite (pw_channel (mc_pendingWrite c)) (pw_registerIndex (mc_pendingWrite c))
        (pw_value (mc_pendingWrite c)) sent nowMs (mc_rtu c) = (ok, m)" by fastforce
    from start_tx(2) [OF assms(2) m] show ?thesis
      using parts assms(3,4) that
      by (cases ok) (auto simp: startQueuedWrite_def m Let_def ok_defs idle_master_def active_kind)
  qed
  show "bookkeeping_ok (startDuePoll sent nowMs c)"
  proof (cases "mc_channels c = [] \<or> \<not> time_reached nowMs (mc_nextPollAtMs c)")
    case True
    then show ?thesis using assms(1) by (auto simp: startDuePoll_def)
  next
    case False
    define i where "i = (if mc_pollChannelIndex c \<ge> length (mc_channels c) then 0 else mc_pollChannelIndex c)"
    have i: "i < length (mc_channels c)" using False by (simp add: i_def not_le)
    have clamp: "clampPollIndex c = c\<lparr>mc_pollChannelIndex := i\<rparr>" by (simp add: clampPollIndex_def i_def)
    obtain ok m where m: "startRead (mc_channels c ! i) sent nowMs (mc_rtu c) = (ok, m)" by fastforce
    let ?c = "c\<lparr>mc_pollChannelIndex := i, mc_rtu := m\<rparr>"
    show ?thesis
    proof (cases ok)
      case True
      with start_tx(1) [OF assms(2) m] have "bookkeeping_ok ?c"
        using parts assms(3,4) i by (simp add: ok_defs active_kind)
      then show ?thesis using False True by (simp add: startDuePoll_def clamp m Let_def)
    next
      case nok: False
      with start_tx(1) [OF assms(2) m] have "idle_master m" by simp
      then have "bookkeeping_ok ?c" using parts by (simp add: idle_ok queues_ok_def)
      then have "bookkeeping_ok (afterInterval nowMs
          (finishPollAttempt nowMs (mc_channels c ! i) False [] 0 ?c))"
        by (rule finishPollAttempt_ok) (use \<open>idle_master m\<close> i in auto)
      then show ?thesis using False nok by (simp add: startDuePoll_def clamp m Let_def)
    qed
  qed
qed

lemma component_ok_mailboxes [simp]:
  "bookkeeping_ok (c\<lparr>mc_passiveFrame := f\<rparr>) = bookkeeping_ok c"
  "bookkeeping_ok (c\<lparr>mc_passiveFramePending := p\<rparr>) = bookkeeping_ok c"
  "bookkeeping_ok (c\<lparr>mc_passiveFramesReceived := n\<rparr>) = bookkeeping_ok c"
  "bookkeeping_ok (c\<lparr>mc_passiveFrameOverflows := n\<rparr>) = bookkeeping_ok c"
  "bookkeeping_ok (c\<lparr>mc_nextPollAtMs := n\<rparr>) = bookkeeping_ok c"
  by (simp_all add: ok_defs)

lemma listen_keeps:
  assumes "bookkeeping_ok (c\<lparr>mc_rtu := m\<rparr>)"
    "pollPassiveFrame (Some kRawCapacity) rx nowUs (mc_rtu c) = (r, f, m)"
    "listenPassive rx nowUs nowMs c = (d, c')"
  shows "bookkeeping_ok c' \<and> (\<not> d \<longrightarrow> c' = c\<lparr>mc_rtu := m\<rparr>)"
proof (cases "r = PassiveFrameReady \<or> r = PassiveOverflow")
  case True
  then show ?thesis
    using assms(1,3) by (auto simp: listenPassive_def assms(2) Let_def)
next
  case False
  then show ?thesis using assms(1,3) by (auto simp: listenPassive_def assms(2) Let_def)
qed

lemma component_loop_ok:
  assumes "bookkeeping_ok c"
  shows "bookkeeping_ok (component_loop sent rx nowUs nowMs c)"
proof (cases "mc_mode c = ModbusMaster \<and> mc_active c")
  case False
  then show ?thesis using assms by (auto simp: component_loop_def)
next
  case True
  show ?thesis
  proof (cases "mm_active (mc_rtu c)")
    case active: True
    then show ?thesis using True pollTransaction_ok [OF assms active] by (simp add: component_loop_def)
  next
    case False
    note t = bookkeeping_okD [OF assms]
    obtain r f m where m: "pollPassiveFrame (Some kRawCapacity) rx nowUs (mc_rtu c) = (r, f, m)"
      by (metis prod_cases3)
    note same = passive_tx [OF t(1) m]
    have idle: "idle_master m" using same False by (auto simp: same_transaction_def intro: idle_masterI)
    have ok: "bookkeeping_ok (c\<lparr>mc_rtu := m\<rparr>)" using assms same by (rule same_transaction_ok)
    obtain d c' where heard: "listenPassive rx nowUs nowMs c = (d, c')" by fastforce
    have kept: "bookkeeping_ok c'" "\<not> d \<Longrightarrow> c' = c\<lparr>mc_rtu := m\<rparr>"
      using listen_keeps [OF ok m heard] by simp_all
    show ?thesis
    proof (cases d)
      case True
      with \<open>mc_mode c = ModbusMaster \<and> mc_active c\<close> False kept(1) heard show ?thesis
        by (simp add: component_loop_def)
    next
      case listening: False
      note starts_ok [OF kept(1), of sent nowMs]
      with True False heard kept listening idle show ?thesis
        by (simp add: component_loop_def)
    qed
  qed
qed

text \<open>What \<^verbatim>\<open>writePoint\<close> accepts is a write that can be sent to the channel of the point.\<close>

lemma writePoint_accepts:
  assumes "writePoint pointId value c = (True, c')"
  shows "\<exists>channel r scalar. channelForSlot (ch_slot channel) c = Some channel \<and>
    r < ch_quantity channel \<and> writableType (ch_dataType channel) \<and>
    (\<exists>request. buildWriteRequest channel r scalar (Some 17) = Inr request) \<and>
    parsePointId pointId = Some (ch_slot channel, r) \<and> dataValueToScalar channel value = Some scalar \<and>
    c' = c\<lparr>mc_pendingWrite := \<lparr>pw_queued = True, pw_channel = channel, pw_registerIndex = r,
      pw_value = scalar\<rparr>\<rparr>"
proof -
  have "channelForSlot slot c = Some x \<Longrightarrow> ch_slot x = slot" for slot x
    by (auto simp: channelForSlot_def find_Some_iff)
  then show ?thesis
    using assms
    by (fastforce simp: writePoint_def not_le split: option.splits prod.splits sum.splits if_splits)
qed

lemma writePoint_refuses: "writePoint pointId value c = (False, c') \<Longrightarrow> c' = c"
  by (auto simp: writePoint_def split: option.splits prod.splits sum.splits if_splits)

lemma queued_write_ok:
  "bookkeeping_ok c \<Longrightarrow> write_ok (mc_channels c) w \<Longrightarrow> bookkeeping_ok (c\<lparr>mc_pendingWrite := w\<rparr>)"
  by (simp add: ok_defs)

lemma writePoint_ok:
  assumes "bookkeeping_ok c"
  shows "bookkeeping_ok (snd (writePoint pointId v c))"
proof (cases "writePoint pointId v c")
  case (Pair accepted c')
  have stored: "channelForSlot slot c = Some x \<Longrightarrow> \<exists>y \<in> set (mc_channels c). same_channel y x" for slot x
    by (intro bexI [of _ x]) (auto simp: channelForSlot_def find_Some_iff)
  show ?thesis
    using Pair assms writePoint_accepts [of pointId v c c'] writePoint_refuses [of pointId v c c']
    by (cases accepted) (auto intro!: queued_write_ok intro: stored simp: write_ok_def)
qed

section \<open>The mailboxes\<close>

text \<open>
  What waits to be taken fits its buffer: a raw answer and a frame heard on the bus the 242 bytes, a
  failed answer being empty; a completed poll has its two values and counts at most them.
\<close>

definition poll_mail_ok :: "PollCompletion \<Rightarrow> bool" where
  "poll_mail_ok p = (length (po_values p) = 2 \<and> unat (po_valueCount p) \<le> 2 \<and> (\<not> po_success p \<longrightarrow> po_valueCount p = 0))"

definition mail_ok :: "modbus_component \<Rightarrow> bool" where
  "mail_ok c = (length (rw_payload (mc_rawCompletion c)) \<le> kRawCapacity \<and>
     (\<not> rw_success (mc_rawCompletion c) \<longrightarrow> rw_payload (mc_rawCompletion c) = []) \<and>
     length (pv_payload (mc_passiveFrame c)) \<le> kRawCapacity \<and> poll_mail_ok (mc_completedPoll c))"

definition same_mail :: "modbus_component \<Rightarrow> modbus_component \<Rightarrow> bool" where
  "same_mail c c' = (mc_rawCompletion c' = mc_rawCompletion c \<and> mc_passiveFrame c' = mc_passiveFrame c \<and>
     mc_completedPoll c' = mc_completedPoll c)"

lemma same_mail_ok: "same_mail c c' \<Longrightarrow> mail_ok c \<Longrightarrow> mail_ok c'"
  by (simp add: same_mail_def mail_ok_def)

lemma mail_ok_frame [simp]:
  "mail_ok (c\<lparr>mc_rtu := m\<rparr>) = mail_ok c" "mail_ok (afterInterval t c) = mail_ok c" "mail_ok (clampPollIndex c) = mail_ok c"
  "mail_ok (component_setMode mode c) = mail_ok c"
  by (simp_all add: mail_ok_def afterInterval_def clampPollIndex_def component_setMode_def Let_def)

lemma mail_ok_initial: "mail_ok (initial_component SER)"
  by (simp add: mail_ok_def poll_mail_ok_def initial_component_def default_rawCompletion_def default_passiveFrame_def
      default_completion_def)

lemma poll_results_bounded:
  "pollRaw (Some n) rx us ms m = (r, payload, m') \<Longrightarrow> length payload \<le> n"
  "pollPassiveFrame (Some n) rx us m = (r', frame, m') \<Longrightarrow> length frame \<le> n"
  by (auto simp: pollRaw_def pollPassiveFrame_def collector_poll_def Let_def split: if_splits sum.splits prod.splits)

lemma configuration_mail:
  assumes "mail_ok c"
  shows "mail_ok (snd (upsertChannel x c))" "mail_ok (snd (removeChannel slot c))"
    "mail_ok (snd (applyRs485SerialSettings SER t s c))" "mail_ok (snd (applyModbusMasterSettings SER t ms c))"
    "mail_ok (fst (snd (component_begin t c caps)))" "mail_ok (snd (queueRawRequest p c))"
    "mail_ok (snd (queueRuleRawRequest p c))" "mail_ok (snd (takeRawCompletion c))"
    "mail_ok (snd (takePassiveFrame c))" "mail_ok (snd (takeCompletedPoll c))" "mail_ok (snd (writePoint pt v c))"
    "mail_ok (snd (component_setChannelName slot nm c))"
  using assms
  by (auto simp: mail_ok_def upsertChannel_def removeChannel_def interruptBus_def clearPendingWrite_def
      applyRs485SerialSettings_def applyModbusMasterSettings_def reconfigure_bus_def component_begin_def
      queueRawRequest_def queueRuleRawRequest_def queueRawRequestInternal_def takeRawCompletion_def
      takePassiveFrame_def takeCompletedPoll_def writePoint_def default_passiveFrame_def component_setChannelName_def
      Let_def split: option.splits prod.splits ModbusMode.splits sum.splits)

lemma attempt_mail: "unat n \<le> 2 \<Longrightarrow> mail_ok c \<Longrightarrow> mail_ok (finishPollAttempt t ch ok vs n c)"
  by (simp add: mail_ok_def poll_mail_ok_def finishPollAttempt_def publishPollCompletion_def advancePollChannel_def
      default_completion_def Let_def)

text \<open>A read is of a channel of the table, so its answer has one or two values.\<close>

lemma read_values_bounded:
  assumes "bookkeeping_ok c" "mm_kind (mc_rtu c) = KindRead" "pollRead False rx ms (mc_rtu c) = (r, vs, m)" "r = TxSuccess"
  shows "length vs \<le> 2"
proof -
  note t = bookkeeping_okD [OF assms(1)]
  have "mc_pollChannelIndex c < length (mc_channels c)"
    "ch_quantity (mc_channels c ! mc_pollChannelIndex c) = ch_quantity (mm_activeChannel (mc_rtu c))"
    using assms(1,2) same_channel_fields by (auto simp: bookkeeping_ok_def bus_ok_def Let_def)
  moreover have "validChannelConfig (mc_channels c ! mc_pollChannelIndex c)" if "mc_pollChannelIndex c < length (mc_channels c)"
    using t(2) nth_mem [OF that] unfolding table_ok_def by blast
  ultimately have "ch_quantity (mm_activeChannel (mc_rtu c)) \<le> 2" by (simp add: validChannelConfig_def)
  then show ?thesis
    using pollRead_tx [OF t(1) assms(2,3)] assms(4) by (simp add: word_le_nat_alt)
qed

lemma pollTransaction_mail:
  assumes "bookkeeping_ok c" "mm_active (mc_rtu c)" "mail_ok c"
  shows "mail_ok (pollTransaction rx us ms c)"
proof -
  have raw: "mail_ok (pollRawTransaction rx us ms c)"
    using assms(3) poll_results_bounded(1) [where n = kRawCapacity and rx = rx and us = us and ms = ms and m = "mc_rtu c"]
    by (auto simp: pollRawTransaction_def mail_ok_def Let_def split: prod.splits)
  have "same_mail c (pollWriteTransaction rx ms c)"
    by (simp add: pollWriteTransaction_def same_mail_def applySuccessfulWriteToCache_def Let_def split: prod.splits)
  note written = same_mail_ok [OF this assms(3)]
  have read: "mail_ok (pollReadTransaction rx ms c)" if k: "mm_kind (mc_rtu c) = KindRead"
  proof -
    obtain r vs m where m: "pollRead False rx ms (mc_rtu c) = (r, vs, m)" by (metis prod_cases3)
    have "mail_ok (finishPollAttempt ms ch (r = TxSuccess) vs (of_nat (length vs)) d)" if "mail_ok d" for ch d
    proof (cases "r = TxSuccess")
      case True
      then have "unat (of_nat (length vs) :: u8) \<le> 2"
        using read_values_bounded [OF assms(1) k m] by (simp add: unat_of_nat_small)
      then show ?thesis using that by (rule attempt_mail)
    next
      case False
      then show ?thesis
        using that by (simp add: mail_ok_def poll_mail_ok_def finishPollAttempt_def publishPollCompletion_def
            advancePollChannel_def default_completion_def Let_def)
    qed
    moreover have "mail_ok (c\<lparr>mc_rtu := m, mc_pollRetryCount := 0\<rparr>)" using assms(3) by (simp add: mail_ok_def)
    ultimately show ?thesis using assms(3) by (simp add: pollReadTransaction_def m Let_def)
  qed
  have "mm_kind (mc_rtu c) \<noteq> KindNone" using assms(1,2) bookkeeping_okD(1) by (simp add: active_kind)
  then show ?thesis using raw written read by (cases "mm_kind (mc_rtu c)") (simp_all add: pollTransaction_def)
qed

lemma component_loop_mail:
  assumes "bookkeeping_ok c" "mail_ok c"
  shows "mail_ok (component_loop sent rx us ms c)"
proof -
  have raw: "mail_ok c \<Longrightarrow> mail_ok (startQueuedRaw sent ms c)" for c
    by (simp add: startQueuedRaw_def mail_ok_def default_rawCompletion_def Let_def split: prod.splits)
  have "same_mail c (startQueuedWrite sent ms c)" for c
    by (simp add: startQueuedWrite_def same_mail_def Let_def split: prod.splits)
  note written = same_mail_ok [OF this]
  have poll: "mail_ok c \<Longrightarrow> mail_ok (startDuePoll sent ms c)" for c
    using attempt_mail [of 0] by (simp add: startDuePoll_def Let_def split: prod.splits)
  have "listenPassive rx us ms c = (d, c') \<Longrightarrow> mail_ok c'" for d c'
    using assms(2) poll_results_bounded(2) [where n = kRawCapacity and rx = rx and us = us and m = "mc_rtu c"]
    by (auto simp: listenPassive_def mail_ok_def Let_def split: prod.splits if_splits)
  then show ?thesis
    using assms pollTransaction_mail [OF assms(1) _ assms(2)] raw written poll
    by (auto simp: component_loop_def split: prod.splits)
qed

text \<open>The invariant: the bookkeeping and the mailboxes.\<close>

definition component_ok :: "modbus_component \<Rightarrow> bool" where
  "component_ok c = (bookkeeping_ok c \<and> mail_ok c)"

datatype ComponentOp =
    CmBegin u32 "string list"
  | CmRs485 u32 Rs485SerialSettings
  | CmMaster u32 ModbusMasterSettings
  | CmUpsert ChannelConfig
  | CmRemove u8
  | CmRename u8 "bytes ptr"
  | CmLoop nat rx u32 u32
  | CmQueueRaw "bytes ptr"
  | CmQueueRule "bytes ptr"
  | CmTakeRaw | CmTakePassive | CmTakePoll
  | CmWrite string DataValue

fun component_step :: "serial_constants \<Rightarrow> ComponentOp \<Rightarrow> modbus_component \<Rightarrow> modbus_component" where
  "component_step SER (CmBegin t caps) c = fst (snd (component_begin t c caps))"
| "component_step SER (CmRs485 t s) c = snd (applyRs485SerialSettings SER t s c)"
| "component_step SER (CmMaster t s) c = snd (applyModbusMasterSettings SER t s c)"
| "component_step SER (CmUpsert x) c = snd (upsertChannel x c)"
| "component_step SER (CmRemove slot) c = snd (removeChannel slot c)"
| "component_step SER (CmRename slot nm) c = snd (component_setChannelName slot nm c)"
| "component_step SER (CmLoop sent rx us ms) c = component_loop sent rx us ms c"
| "component_step SER (CmQueueRaw p) c = snd (queueRawRequest p c)"
| "component_step SER (CmQueueRule p) c = snd (queueRuleRawRequest p c)"
| "component_step SER CmTakeRaw c = snd (takeRawCompletion c)"
| "component_step SER CmTakePassive c = snd (takePassiveFrame c)"
| "component_step SER CmTakePoll c = snd (takeCompletedPoll c)"
| "component_step SER (CmWrite p v) c = snd (writePoint p v c)"

lemma component_step_ok: "component_ok c \<Longrightarrow> component_ok (component_step SER op c)"
  by (cases op) (simp_all add: component_ok_def begin_component_ok settings_ok upsertChannel_ok removeChannel_ok rename_ok
      component_loop_ok mailbox_ok writePoint_ok configuration_mail component_loop_mail)

interpretation component: step_machine "component_step SER" component_ok for SER
  by unfold_locales (rule component_step_ok)

lemma bookkeeping_ok_initial: "bookkeeping_ok (component_setMode mode (initial_component SER))"
  by (simp add: component_setMode_def initial_component_def ok_defs master_ok_initial table_ok_def
      cache_ok_def default_pendingRaw_def default_pendingWrite_def)
     (simp add: initial_master_def default_cache_def)

text \<open>
  C30. The bookkeeping and the mailboxes of the Modbus component: from a fresh component in any mode,
  whatever is configured, renamed, removed, queued, written, received or taken in whatever order, the
  channel table holds valid channels with one per slot; a valid cache entry belongs to a channel of the
  table and has its number of values; the in-flight flags tell which kind of transaction the bus master
  runs, a read being of the channel at the poll index; whatever waits in a queue can be sent; and what
  waits in a mailbox fits its buffer, raw answers and heard frames 242 bytes, completed polls two values.
\<close>

theorem component_always_ok:
  "component_ok (fold (component_step SER) ops (component_setMode mode (initial_component SER)))"
  by (rule component.run_inv) (simp add: component_ok_def bookkeeping_ok_initial mail_ok_initial)

section \<open>Point ids\<close>

lemma parseDigits_snoc:
  "parseDigits xs a = Some b \<Longrightarrow> d < 10 \<Longrightarrow> b * 10 + d \<le> 65535 \<Longrightarrow>
     parseDigits (xs @ [char_of (48 + d)]) a = Some (b * 10 + d)"
  by (induction xs arbitrary: a) (auto simp: Let_def split: if_splits)

lemma parseDigits_decimal: "n \<le> 65535 \<Longrightarrow> parseDigits (decimal n) 0 = Some n"
proof (induction n rule: decimal.induct)
  case (1 n)
  show ?case
  proof (cases "n < 10")
    case True
    then show ?thesis using parseDigits_snoc [of "[]" 0 0 n] by (simp add: decimal.simps [of n])
  next
    case False
    with 1 have "parseDigits (decimal (n div 10)) 0 = Some (n div 10)" by simp
    from parseDigits_snoc [OF this, of "n mod 10"] 1(2) False show ?thesis
      by (simp add: decimal.simps [of n])
  qed
qed

lemma decimal_no_slash: "CHR ''/'' \<notin> set (decimal n)"
proof (induction n rule: decimal.induct)
  case (1 n)
  have "CHR ''/'' \<noteq> char_of (48 + d)" if "d < 10" for d :: nat
  proof
    assume "CHR ''/'' = char_of (48 + d)"
    then have "of_char (CHR ''/'') = (of_char (char_of (48 + d)) :: nat)" by simp
    then show False using that by simp
  qed
  with 1 show ?case by (simp add: decimal.simps [of n])
qed

lemma decimal_nonempty [simp]: "decimal n \<noteq> []"
  by (simp add: decimal.simps [of n])

lemma parsePositive_decimal: "0 < n \<Longrightarrow> n \<le> 65535 \<Longrightarrow> parsePositiveNumber (decimal n) = Some (of_nat n)"
  by (simp add: parsePositiveNumber_def parseDigits_decimal)

lemma scan_to_slash:
  "CHR ''/'' \<notin> set xs \<Longrightarrow> takeWhile (\<lambda>ch. ch \<noteq> CHR ''/'') (xs @ ys) = xs @ takeWhile (\<lambda>ch. ch \<noteq> CHR ''/'') ys"
  "CHR ''/'' \<notin> set xs \<Longrightarrow> dropWhile (\<lambda>ch. ch \<noteq> CHR ''/'') (xs @ ys) = dropWhile (\<lambda>ch. ch \<noteq> CHR ''/'') ys"
  by (induction xs) auto

lemma split_slash_decimal:
  "split_slash (decimal n) = (decimal n, None)" "split_slash (decimal n @ CHR ''/'' # ys) = (decimal n, Some ys)"
  using scan_to_slash [OF decimal_no_slash, of n "[]"] scan_to_slash [OF decimal_no_slash, of n "CHR ''/'' # ys"]
  by (simp_all add: split_slash_def del: takeWhile_eq_all_conv dropWhile_eq_Nil_conv)

lemma digit_chars: "char_of (48 :: nat) = CHR ''0''" "char_of (49 :: nat) = CHR ''1''" "char_of (50 :: nat) = CHR ''2''"
  by (simp_all add: char_of_eq_iff)

lemma point_id_parsed:
  assumes "unat slot < kCompatibilitySlotCount" "r < 2"
  shows "parsePointId (pointIdForSlot slot r) = Some (slot, r)"
proof -
  define n where "n = unat slot + 1"
  have "parsePositiveNumber (decimal n) = Some (of_nat n)"
    unfolding n_def using assms(1) by (intro parsePositive_decimal) simp_all
  moreover have "unat (of_nat n :: u16) \<le> kCompatibilitySlotCount"
    unfolding n_def using assms(1) by (subst unat_of_nat_small) simp_all
  moreover have "(ucast (of_nat n - 1 :: u16) :: u8) = slot"
    unfolding n_def by (simp add: bit_eq_iff bit_simps)
  moreover have "parsePositiveNumber (decimal 2) = Some 2" by (subst parsePositive_decimal) simp_all
  moreover have "r = 0 \<or> r = 1" using assms(2) by unat_arith
  moreover have "pointIdForSlot slot 0 = ''compat/'' @ decimal n"
    "pointIdForSlot slot 1 = ''compat/'' @ decimal n @ ''/'' @ decimal 2"
    by (simp_all add: pointIdForSlot_def n_def flip: numeral_2_eq_2)
  ultimately show ?thesis
    by (elim disjE) (simp_all add: parsePointId_def split_slash_decimal decimal_no_slash del: channel_consts)
qed

text \<open>
  Point ids round trip: the id describePoint gives to a value of a channel is parsed back
  to that channel's slot and that value's index by readPoint and writePoint.
\<close>

theorem point_id_roundtrip:
  assumes "unat slot < kCompatibilitySlotCount" "r < 2"
  shows "parsePointId (pointIdForSlot slot r) = Some (slot, r)"
  using assms by (rule point_id_parsed)

lemma point_id_roundtrip_witness: "parsePointId ''compat/10/2'' = Some (9, 1)"
  using point_id_roundtrip [of 9 1]
  by (simp add: pointIdForSlot_def decimal.simps digit_chars)

end
