(* ===== verification/ComponentPolling.thy ===== *)
theory ComponentPolling
  imports ComponentProperties
begin

text \<open>
  A poll from end to end: from the loop call that puts the request of a due channel on the bus, over
  the calls that receive the slave's answer, to the values the application reads by point id.
\<close>

definition component_rounds :: "(rx \<times> u32 \<times> u32) list \<Rightarrow> modbus_component \<Rightarrow> modbus_component" where
  "component_rounds rounds c = fold (\<lambda>(rx, us, ms). component_loop 0 rx us ms) rounds c"

lemma component_rounds_simps [simp]:
  "component_rounds [] c = c"
  "component_rounds ((rx, us, ms) # rounds) c = component_rounds rounds (component_loop 0 rx us ms c)"
  by (simp_all add: component_rounds_def)

definition round_bytes :: "(rx \<times> u32 \<times> u32) list \<Rightarrow> bytes" where
  "round_bytes rounds = concat (map (\<lambda>r. rx_bytes (fst r)) rounds)"

lemma round_bytes_simps [simp]:
  "round_bytes [] = []" "round_bytes (r # rounds) = rx_bytes (fst r) @ round_bytes rounds"
  by (simp_all add: round_bytes_def)

text \<open>A bus at rest: nothing in progress, heard or queued, and a channel whose turn has come.\<close>

definition poll_due :: "u32 \<Rightarrow> modbus_component \<Rightarrow> bool" where
  "poll_due nowMs c =
     (mc_mode c = ModbusMaster \<and> mc_active c \<and> mm_started (mc_rtu c) \<and> \<not> mm_active (mc_rtu c) \<and>
      mm_passive (mc_rtu c) = collector_reset \<and> \<not> pr_queued (mc_pendingRaw c) \<and>
      \<not> pw_queued (mc_pendingWrite c) \<and>
      ms_passThroughMode (mc_masterSettings c) \<noteq> passthrough_code PtTwoWay \<and>
      time_reached nowMs (mc_nextPollAtMs c) \<and> mc_pollChannelIndex c < length (mc_channels c))"

lemma collector_silent [simp]:
  "collector_poll now gap out collector_reset = (PassiveIdle, [], collector_reset)"
  "\<not> collector_pending collector_reset"
  by (simp_all add: collector_poll_def collector_reset_def collector_pending_def)

lemma poll_starts:
  assumes "poll_due start c" "channel = mc_channels c ! mc_pollChannelIndex c" "validChannelConfig channel"
    "buildReadRequest channel (Some 8) = Inr request"
  obtains m where "component_loop (length request) [] us start c = c\<lparr>mc_rtu := m\<rparr>"
    "mm_active m" "mm_kind m = KindRead" "mm_activeChannel m = channel" "mm_response m = []"
    "mm_expectedLength m = 0" "mm_startedAtMs m = start" "mm_config m = mm_config (mc_rtu c)"
proof -
  note due = assms(1) [unfolded poll_due_def]
  define m0 where "m0 = (mc_rtu c)\<lparr>mm_passive := collector_reset\<rparr>"
  obtain ok m where m: "startRead channel (length request) start m0 = (ok, m)" by fastforce
  have "mm_started m0" "\<not> mm_active m0" using due by (simp_all add: m0_def)
  then have facts: "ok" "mm_active m" "mm_kind m = KindRead" "mm_activeChannel m = channel"
    "mm_response m = []" "mm_expectedLength m = 0" "mm_startedAtMs m = start"
    "mm_config m = mm_config (mc_rtu c)"
    using m assms(3,4) by (auto simp: startRead_def Let_def m0_def transmit_def emit_def)
  have heard: "listenPassive [] us start c = (False, c\<lparr>mc_rtu := m0\<rparr>)"
    using due by (simp add: listenPassive_def pollPassiveFrame_def m0_def)
  have "mc_channels c \<noteq> []" using due by auto
  then have "startDuePoll (length request) start (c\<lparr>mc_rtu := m0\<rparr>) = c\<lparr>mc_rtu := m\<rparr>"
    using due assms(2) m facts(1) by (simp add: startDuePoll_def clampPollIndex_def Let_def)
  then have "component_loop (length request) [] us start c = c\<lparr>mc_rtu := m\<rparr>"
    using due heard by (simp add: component_loop_def)
  then show thesis using facts that by blast
qed

lemma poll_receives:
  assumes "self_sized f" "mm_active m" "mm_kind m = KindRead" "mc_mode c = ModbusMaster" "mc_active c"
    "mc_pollChannelIndex c < length (mc_channels c)" "k < length f"
    "round_bytes rounds = drop k f" "rounds \<noteq> []" "fst (last rounds) \<noteq> []"
    "\<forall>(rx, us, ms) \<in> set rounds. (\<forall>x \<in> set rx. 0 \<le> fst x) \<and> \<not> timed_out ms m"
    "finishDecode (receiving f (length f) m) = (TxSuccess, vs, m')"
  shows "\<exists>ms. component_rounds rounds (c\<lparr>mc_rtu := receiving f k m\<rparr>) =
    afterInterval ms (finishPollAttempt ms (mc_channels c ! mc_pollChannelIndex c) True vs
      (of_nat (length vs)) (c\<lparr>mc_rtu := m'\<rparr>))"
  using assms(7-11)
proof (induction rounds arbitrary: k)
  case (Cons round rounds)
  obtain rx us ms where r: "round = (rx, us, ms)" by (metis prod_cases3)
  let ?c = "c\<lparr>mc_rtu := receiving f k m\<rparr>" and ?n = "length rx"
  have bytes: "rx_bytes rx @ round_bytes rounds = drop k f" using Cons.prems(2) r by simp
  have here: "rx_bytes rx = take ?n (drop k f)" by (subst bytes [symmetric]) simp
  have later: "round_bytes rounds = drop (k + ?n) f"
    using arg_cong [OF bytes, of "drop ?n"] by (simp add: add.commute)
  have busy: "mm_active (receiving f j m)" "mm_kind (receiving f j m) = KindRead"
    "timed_out ms (receiving f j m) = timed_out ms m" for j
    using assms(2,3) by (simp_all add: receiving_def timed_out_def)
  have loop: "readLoop rx (receiving f k m) = (if k + ?n < length f then Inr (receiving f (k + ?n) m)
      else Inl (finishDecode (receiving f (length f) m)))"
    using assms(1) Cons.prems(1,5) here r by (intro receiving_loop) auto
  have turn: "component_loop 0 rx us ms ?c = pollReadTransaction rx ms ?c"
    using assms(4,5) busy by (simp add: component_loop_def pollTransaction_def)
  show ?case
  proof (cases "rounds = []")
    case True
    then have "length f \<le> k + ?n" using later by simp
    then have "pollRead False rx ms (receiving f k m) = (TxSuccess, vs, m')"
      using loop by (simp add: pollRead_def busy assms(12))
    moreover have "mc_channels c \<noteq> []" using assms(6) by auto
    ultimately show ?thesis
      using assms(6) True r turn by (auto simp: pollReadTransaction_def clampPollIndex_def Let_def)
  next
    case False
    then have "round_bytes rounds \<noteq> []"
      using Cons.prems(4) last_in_set [OF False] by (auto simp: round_bytes_def rx_bytes_def)
    then have more: "k + ?n < length f" using later by simp
    have "pollRead False rx ms (receiving f k m) = (TxPending, [], receiving f (k + ?n) m)"
      using loop more Cons.prems(5) r by (simp add: pollRead_def busy)
    then have "component_loop 0 rx us ms ?c = c\<lparr>mc_rtu := receiving f (k + ?n) m\<rparr>"
      using turn by (simp add: pollReadTransaction_def)
    then show ?thesis using Cons.IH [OF more later] Cons.prems(4,5) r False by simp
  qed
qed simp

lemma find_key:
  "distinct (map f xs) \<Longrightarrow> x \<in> set xs \<Longrightarrow> find (\<lambda>y. f y = f x) xs = Some x"
  by (induction xs) (auto simp: image_iff)

text \<open>What a successful attempt leaves in the cache and in the mailbox.\<close>

lemma finished_poll:
  assumes "length (ca_values (mc_cache c ! unat (ch_slot channel))) = 2"
    "unat (ch_slot channel) < length (mc_cache c)" "length vs = 1 \<or> length vs = 2"
  shows "let c' = afterInterval ms (finishPollAttempt ms channel True vs (of_nat (length vs)) c);
      e = mc_cache c' ! unat (ch_slot channel)
    in ca_valid e \<and> ca_valueCount e = of_nat (length vs) \<and> take (length vs) (ca_values e) = vs \<and>
       mc_channels c' = mc_channels c \<and> mc_mode c' = mc_mode c \<and> mc_active c' = mc_active c \<and>
       mc_masterSettings c' = mc_masterSettings c"
proof -
  obtain x y where xy: "ca_values (mc_cache c ! unat (ch_slot channel)) = [x, y]"
    using assms(1) by (auto simp: length_Suc_conv numeral_2_eq_2)
  from assms(3) consider v where "vs = [v]" | v w where "vs = [v, w]"
    by (auto simp: length_Suc_conv numeral_2_eq_2)
  then show ?thesis
    using assms(2) xy
    by cases (simp_all add: afterInterval_def finishPollAttempt_def publishPollCompletion_def
        advancePollChannel_def Let_def)
qed

lemma read_after_success:
  assumes "table_ok (mc_channels c)" "cache_ok (mc_channels c) (mc_cache c)" "mc_mode c = ModbusMaster"
    "mc_active c" "ms_passThroughMode (mc_masterSettings c) \<noteq> passthrough_code PtTwoWay"
    "channel \<in> set (mc_channels c)" "length vs = unat (ch_quantity channel)" "i < length vs"
  shows "readPoint (pointIdForSlot (ch_slot channel) (of_nat i))
      (afterInterval ms (finishPollAttempt ms channel True vs (of_nat (length vs)) c)) =
    Some (scalar_value (vs ! i))"
proof -
  have valid: "validChannelConfig channel" using assms(1,6) by (simp add: table_ok_def)
  then have slot: "unat (ch_slot channel) < kCompatibilitySlotCount" by (rule valid_slot)
  have q: "length vs = 1 \<or> length vs = 2"
    using valid assms(7) by (elim validChannelConfigE) auto
  have "find (\<lambda>x. ch_slot x = ch_slot channel) (mc_channels c) = Some channel"
    using assms(1,6) by (intro find_key) (simp_all add: table_ok_def)
  moreover have "parsePointId (pointIdForSlot (ch_slot channel) (of_nat i)) = Some (ch_slot channel, of_nat i)"
    using slot q assms(8) by (intro point_id_parsed) (auto simp: less_Suc_eq numeral_2_eq_2)
  moreover define c' where "c' = afterInterval ms (finishPollAttempt ms channel True vs (of_nat (length vs)) c)"
  moreover define e where "e = mc_cache c' ! unat (ch_slot channel)"
  moreover have "ca_valid e \<and> ca_valueCount e = of_nat (length vs) \<and> take (length vs) (ca_values e) = vs \<and>
      mc_channels c' = mc_channels c \<and> mc_mode c' = mc_mode c \<and> mc_active c' = mc_active c \<and>
      mc_masterSettings c' = mc_masterSettings c"
    using finished_poll [of c channel vs ms] cached_lengths [OF assms(2) slot] assms(2) slot q
    by (simp add: cache_ok_def c'_def e_def Let_def)
  moreover have "ca_values e ! i = vs ! i"
    using calculation(5) assms(8) by (metis nth_take)
  moreover have i: "unat (of_nat i :: u8) = i" using q assms(8) by (intro unat_of_nat_small) auto
  moreover have "of_nat (length vs) = ch_quantity channel" by (simp add: assms(7))
  moreover have "of_nat i < ch_quantity channel" using assms(7,8) by (simp add: word_less_nat_alt i)
  ultimately show ?thesis
    using assms(3-5) by (simp add: readPoint_def channelForSlot_def Let_def not_le)
qed

text \<open>
  C31. A poll delivers: when the turn of a channel has come on a quiet bus and the slave answers the
  request with the encodings of one value per quantity, cut into loop calls in any way but before
  the response timeout, then after the call that receives the last byte each of the values is what
  readPoint returns for its point id.
\<close>

theorem polled_value_readable:
  assumes "bookkeeping_ok c" "poll_due start c" "channel = mc_channels c ! mc_pollChannelIndex c"
    "buildReadRequest channel (Some 8) = Inr request" "length vs = unat (ch_quantity channel)"
    "list_all2 (\<lambda>v w. encodeRegisterValue channel v 8 = Some w) vs ws"
    "round_bytes rounds = slave_answer channel (concat ws)" "fst (last rounds) \<noteq> []"
    "\<forall>(rx, us, ms) \<in> set rounds. (\<forall>x \<in> set rx. 0 \<le> fst x) \<and>
       ms - start < sc_responseTimeoutMs (mm_config (mc_rtu c))"
    "i < length vs"
  shows "readPoint (pointIdForSlot (ch_slot channel) (of_nat i))
      (component_rounds rounds (component_loop (length request) [] us start c)) =
    Some (scalar_value (registerValue channel (vs ! i)))"
proof -
  let ?f = "slave_answer channel (concat ws)"
  note t = bookkeeping_okD [OF assms(1)] and due = assms(2) [unfolded poll_due_def]
  have member: "channel \<in> set (mc_channels c)" using due assms(3) by simp
  then have valid: "validChannelConfig channel" using t(2) by (simp add: table_ok_def)
  obtain m where m: "component_loop (length request) [] us start c = c\<lparr>mc_rtu := m\<rparr>"
    "mm_active m" "mm_kind m = KindRead" "mm_activeChannel m = channel" "mm_response m = []"
    "mm_expectedLength m = 0" "mm_startedAtMs m = start" "mm_config m = mm_config (mc_rtu c)"
    using poll_starts [OF assms(2,3) valid assms(4)] by blast
  have sized: "self_sized ?f"
    using slave_answer_size [OF valid assms(5,6)] valid by (intro slave_answer_sized) simp_all
  obtain m' where finish: "finishDecode (receiving ?f (length ?f) m) =
      (TxSuccess, map (registerValue channel) vs, m')"
    using decodeReadResponse_encoded [OF valid assms(5,6)] m(4) by (simp add: finishDecode_def receiving_def Let_def)
  have fresh: "receiving ?f 0 m = m" using m(5,6) by (simp add: receiving_def)
  have some: "rounds \<noteq> []" "0 < length ?f" using assms(7) sized by (auto simp: self_sized_def)
  have timing: "\<forall>(rx, us, ms) \<in> set rounds. (\<forall>x \<in> set rx. 0 \<le> fst x) \<and> \<not> timed_out ms m"
    using assms(9) m(7,8) by (auto simp: timed_out_def not_le)
  obtain ms where "component_rounds rounds (c\<lparr>mc_rtu := m\<rparr>) =
      afterInterval ms (finishPollAttempt ms channel True (map (registerValue channel) vs)
        (of_nat (length vs)) (c\<lparr>mc_rtu := m'\<rparr>))"
    using poll_receives [OF sized m(2,3), of c 0 rounds, OF _ _ _ some(2) _ some(1) assms(8) timing finish]
      assms(3,7) due fresh by auto
  then show ?thesis
    using read_after_success [of "c\<lparr>mc_rtu := m'\<rparr>" channel "map (registerValue channel) vs" i ms]
      t due member assms(5,10) m(1) by simp
qed

definition sample_component :: modbus_component where
  "sample_component = (component_setMode ModbusMaster (initial_component (\<lambda>_ _ _. 1)))
     \<lparr>mc_active := True, mc_channels := [sample_channel], mc_rtu := sample_master\<rparr>"

lemma sample_component_due: "bookkeeping_ok sample_component" "poll_due 1000 sample_component"
proof -
  have "idle_master sample_master"
    by (intro idle_masterI) (simp_all add: sample_master_simps, simp add: sample_master_def begin_ok master_ok_initial)
  then show "bookkeeping_ok sample_component"
    by (simp add: sample_component_def idle_ok component_setMode_def initial_component_def table_ok_def
        sample_valid queues_ok_def default_pendingRaw_def default_pendingWrite_def cache_ok_def)
  show "poll_due 1000 sample_component"
    by (simp add: poll_due_def sample_component_def component_setMode_def initial_component_def
        sample_master_simps time_reached_iff default_pendingRaw_def default_pendingWrite_def)
       (simp add: sample_master_def master_begin_def initial_master_def emit_def default_serial_def default_master_def)
qed

lemma polled_value_readable_witness:
  "readPoint ''compat/1/2'' (component_rounds
      [(sample_rx (take 4 (slave_answer sample_channel sample_payload)), 1, 1010), ([], 2, 1020),
       (sample_rx (drop 4 (slave_answer sample_channel sample_payload)), 3, 1030)]
      (component_loop 8 [] 0 1000 sample_component)) =
    Some (scalar_value (registerValue sample_channel sample_value))"
proof -
  have c: "mc_channels sample_component ! mc_pollChannelIndex sample_component = sample_channel"
    "mm_config (mc_rtu sample_component) = mm_config sample_master"
    by (simp_all add: sample_component_def component_setMode_def initial_component_def)
  have ws: "list_all2 (\<lambda>v w. encodeRegisterValue sample_channel v 8 = Some w)
      [sample_value, sample_value] [[0xff, 0xfe, 0xff, 0xff], [0xff, 0xfe, 0xff, 0xff]]"
    by (simp add: sample_wire)
  have q: "length [sample_value, sample_value] = unat (ch_quantity sample_channel)"
    by (simp add: sample_simps)
  have "pointIdForSlot (ch_slot sample_channel) (of_nat 1) = ''compat/1/2''"
    by (simp add: sample_simps pointIdForSlot_def decimal.simps digit_chars)
  moreover have "length (slave_answer sample_channel sample_payload) = 13"
    by (simp add: slave_answer_def sample_payload_def)
  ultimately show ?thesis
    using polled_value_readable [OF sample_component_due c(1) [symmetric] sample_read_request q ws, where i = 1
        and us = 0 and rounds = "[(sample_rx (take 4 (slave_answer sample_channel sample_payload)), 1, 1010),
          ([], 2, 1020), (sample_rx (drop 4 (slave_answer sample_channel sample_payload)), 3, 1030)]"]
    by (simp add: c sample_master_simps sample_payload_def) (simp add: sample_rx_def eval_nat_numeral)
qed

end
