(* ===== verification/TimeStore.thy ===== *)
theory TimeStore
  imports Stores LocalTime
begin

text \<open>
  The stored time settings: \<^verbatim>\<open>include/time/TimeSettingsStore.h\<close>, over the \<^verbatim>\<open>Preferences\<close>
  parameter of \<open>Stores\<close>.
\<close>

definition timeStore_load :: "'s prefs \<Rightarrow> 's \<Rightarrow> TimeSettings option" where
  "timeStore_load P s =
     (if \<not> pf_isKey P s ''utc_min'' then Some default_time_settings
      else
        let settings = \<lparr>ts_utcOffsetMinutes = pf_getShort P s ''utc_min'' 0,
              ts_dst = \<lparr>ds_enabled = pf_getBool P s ''dst_en'' False,
                ds_biasMinutes = pf_getUChar P s ''dst_bias'' 0,
                ds_start = \<lparr>dt_month = pf_getUChar P s ''dst_sm'' 0,
                  dt_week = pf_getUChar P s ''dst_sw'' 0, dt_weekday = pf_getUChar P s ''dst_sd'' 0,
                  dt_minuteOfDay = pf_getUShort P s ''dst_st'' 0\<rparr>,
                ds_end = \<lparr>dt_month = pf_getUChar P s ''dst_em'' 0,
                  dt_week = pf_getUChar P s ''dst_ew'' 0, dt_weekday = pf_getUChar P s ''dst_ed'' 0,
                  dt_minuteOfDay = pf_getUShort P s ''dst_et'' 0\<rparr>\<rparr>\<rparr>
        in if \<not> validUtcOffsetMinutes (ts_utcOffsetMinutes settings) then None
           else if validDstSettings (ts_dst settings) then Some settings else None)"

definition time_entries :: "TimeSettings \<Rightarrow> (string \<times> PrefValue) list" where
  "time_entries t =
     (let d = ts_dst t
      in [(''utc_min'', PvI16 (ts_utcOffsetMinutes t)), (''dst_en'', PvBool (ds_enabled d)),
          (''dst_bias'', PvU8 (ds_biasMinutes d)), (''dst_sm'', PvU8 (dt_month (ds_start d))),
          (''dst_sw'', PvU8 (dt_week (ds_start d))), (''dst_sd'', PvU8 (dt_weekday (ds_start d))),
          (''dst_st'', PvU16 (dt_minuteOfDay (ds_start d))), (''dst_em'', PvU8 (dt_month (ds_end d))),
          (''dst_ew'', PvU8 (dt_week (ds_end d))), (''dst_ed'', PvU8 (dt_weekday (ds_end d))),
          (''dst_et'', PvU16 (dt_minuteOfDay (ds_end d)))])"

definition timeStore_save :: "'s prefs \<Rightarrow> TimeSettings \<Rightarrow> 's \<Rightarrow> bool \<times> 's" where
  "timeStore_save P t s =
     (if \<not> validUtcOffsetMinutes (ts_utcOffsetMinutes t) \<or> \<not> validDstSettings (ts_dst t) then (False, s)
      else pf_store_all P (time_entries t) s)"

lemma time_settings_eta:
  "\<lparr>dt_month = dt_month tr, dt_week = dt_week tr, dt_weekday = dt_weekday tr,
     dt_minuteOfDay = dt_minuteOfDay tr\<rparr> = (tr :: DstTransition)"
  "\<lparr>ds_enabled = ds_enabled d, ds_biasMinutes = ds_biasMinutes d, ds_start = ds_start d,
     ds_end = ds_end d\<rparr> = (d :: DstSettings)"
  by simp_all

lemma timeStore_saved:
  assumes "prefs_laws P" "timeStore_save P t s = (True, s')"
  shows "timeStore_load P s' = Some t"
proof -
  have valid: "validUtcOffsetMinutes (ts_utcOffsetMinutes t)" "validDstSettings (ts_dst t)"
    and stored: "pf_store_all P (time_entries t) s = (True, s')"
    using assms(2) by (auto simp: timeStore_save_def split: if_splits)
  have "distinct (map fst (time_entries t))" "\<forall>kv \<in> set (time_entries t). 0 < pv_size (snd kv)"
    by (simp_all add: time_entries_def Let_def)
  from pf_store_all_True [OF assms(1) this stored]
  have get: "pf_get P s' j = (case map_of (time_entries t) j of Some v \<Rightarrow> Some v | None \<Rightarrow> pf_get P s j)" for j .
  show ?thesis
    using valid by (simp add: timeStore_load_def pf_typed get time_entries_def Let_def time_settings_eta)
qed

text \<open>An empty namespace gives the defaults.\<close>

lemma timeStore_fresh: "pf_get P s ''utc_min'' = None \<Longrightarrow> timeStore_load P s = Some default_time_settings"
  by (simp add: timeStore_load_def pf_isKey_def)

end
