(* ===== verification/ApplicationState.thy ===== *)
theory ApplicationState
  imports ModbusComponent FPort85Commands HistoryTransfer RuleExecution TimeStore
begin

text \<open>
  The state of \<^verbatim>\<open>include/core/Application.h\<close> and the parts of the LoRa component it talks to. The
  members of the class that nothing but the status pages reads (the counters) are left out; the
  namespaces of the non-volatile storage are the fields ending in \<open>Ns\<close>. A handler that reads a clock
  takes the reading as an argument: \<open>nowMs\<close> is \<^verbatim>\<open>millis()\<close>, \<open>unixNow\<close> is \<^verbatim>\<open>time(nullptr)\<close>.
\<close>

section \<open>State\<close>

record ScheduledRuleAction =
  sa_pending :: bool
  sa_action :: ExecutableAction
  sa_dueAtMs :: u32
  sa_ruleId :: u8
  sa_actionSlot :: u8
  sa_payload :: bytes
  sa_alarmContextValid :: bool
  sa_alarmChannel :: ChannelConfig
  sa_alarmValue :: DecodedScalar
  sa_alarmKind :: AlarmKind
  sa_alarmChangeValue :: u64

definition no_action :: ScheduledRuleAction where
  "no_action = \<lparr>sa_pending = False, sa_action = ActNone, sa_dueAtMs = 0, sa_ruleId = 0,
     sa_actionSlot = 0, sa_payload = [], sa_alarmContextValid = False,
     sa_alarmChannel = default_channel, sa_alarmValue = default_scalar,
     sa_alarmKind = AlarmThreshold, sa_alarmChangeValue = 0\<rparr>"

text \<open>
  The LoRa component as the application sees it: the transport, whether it is active and its radio
  ready, whether the radio's storage works, and the two requests its loop will take up.
\<close>

record lora_link =
  lk_transport :: transport
  lk_active :: bool
  lk_radioReady :: bool
  lk_persistenceHealthy :: bool
  lk_rejoinRequested :: bool
  lk_timeSyncRequested :: bool

record 's application =
  ga_modbusMode :: ModbusMode
  ga_loraMode :: LoRaMode
  ga_classC :: bool
  ga_link :: lora_link
  ga_modbus :: modbus_component
  ga_scheduler :: scheduler
  ga_history :: "'s history_part"
  ga_rules :: RuleState
  ga_time :: TimeSettings
  ga_channels :: "ChannelBinding list"
  ga_events :: event_bus
  ga_commands :: command_bus
  ga_ruleReplyFrames :: "StoredFrame list"
  ga_ruleReplyCursor :: nat
  ga_scheduled :: "ScheduledRuleAction list"
  ga_lastRuleMinuteKey :: "u32 list"
  ga_channelRuleRuntime :: "ChannelConditionRuntime list"
  ga_twoWayFramePending :: bool
  ga_twoWayFrame :: bytes
  ga_connectionInitialized :: bool
  ga_wasConnected :: bool
  ga_basicInfoPending :: bool
  ga_resetEventPending :: bool
  ga_ruleBootEvaluationPending :: bool
  ga_rebootRequested :: bool
  ga_channelNs :: 's
  ga_rs485Ns :: 's
  ga_masterNs :: 's
  ga_reportNs :: 's
  ga_timeNs :: 's
  ga_ruleNs :: 's

definition kScheduledActions :: nat where "kScheduledActions = kRuleCount * 3 * 2"
definition kEventCapacity :: nat where "kEventCapacity = 32"
definition kCommandCapacity :: nat where "kCommandCapacity = 16"

text \<open>The members as they are constructed, over given namespaces.\<close>

definition initial_history :: "'s \<Rightarrow> 's \<Rightarrow> 's \<Rightarrow> 's history_part" where
  "initial_history settingsNs dataNs retxNs = \<lparr>hp_settings = default_history_settings,
     hp_ring = ring_empty kPersistentHistoryCapacity, hp_generation = 0,
     hp_samples = replicate kCompatibilitySlotCount default_sample, hp_nextSnapshotAtMs = 0,
     hp_retx = default_retransmission, hp_snapshot = ring_empty kPersistentHistoryCapacity,
     hp_cursor = 0, hp_cursorInitialized = False, hp_nextRetransmissionAtMs = 0,
     hp_networkInitialized = False, hp_wasConnected = False, hp_queryRecords = [],
     hp_queryCursor = 0, hp_queryActive = False, hp_nextQueryAtMs = 0, hp_settingsNs = settingsNs,
     hp_dataNs = dataNs, hp_retxNs = retxNs\<rparr>"

definition initial_link :: lora_link where
  "initial_link = \<lparr>lk_transport = \<lparr>tp_connected = False, tp_answers = [], tp_sent = []\<rparr>,
     lk_active = False, lk_radioReady = False, lk_persistenceHealthy = False,
     lk_rejoinRequested = False, lk_timeSyncRequested = False\<rparr>"

definition initial_application :: "serial_constants \<Rightarrow> ModbusMode \<Rightarrow> LoRaMode \<Rightarrow> 's \<Rightarrow> 's application" where
  "initial_application SER modbusMode loraMode ns = \<lparr>ga_modbusMode = modbusMode, ga_loraMode = loraMode,
     ga_classC = True, ga_link = initial_link, ga_modbus = initial_component SER,
     ga_scheduler = initial_scheduler, ga_history = initial_history ns ns ns, ga_rules = initial_rules,
     ga_time = default_time_settings, ga_channels = [], ga_events = eventBus_empty kEventCapacity,
     ga_commands = commandBus_empty kCommandCapacity, ga_ruleReplyFrames = [], ga_ruleReplyCursor = 0,
     ga_scheduled = replicate kScheduledActions no_action,
     ga_lastRuleMinuteKey = replicate kRuleCount 0,
     ga_channelRuleRuntime = replicate kRuleCount initial_runtime, ga_twoWayFramePending = False,
     ga_twoWayFrame = [], ga_connectionInitialized = False, ga_wasConnected = False,
     ga_basicInfoPending = False, ga_resetEventPending = True, ga_ruleBootEvaluationPending = False,
     ga_rebootRequested = False, ga_channelNs = ns, ga_rs485Ns = ns, ga_masterNs = ns,
     ga_reportNs = ns, ga_timeNs = ns, ga_ruleNs = ns\<rparr>"

section \<open>The link\<close>

abbreviation lora_connected :: "'s application \<Rightarrow> bool" where
  "lora_connected a \<equiv> tp_connected (lk_transport (ga_link a))"

definition app_send :: "u8 \<Rightarrow> bytes \<Rightarrow> 's application \<Rightarrow> bool \<times> 's application" where
  "app_send endpoint payload a =
     (let (ok, t) = transport_send endpoint payload (lk_transport (ga_link a))
      in (ok, a\<lparr>ga_link := (ga_link a)\<lparr>lk_transport := t\<rparr>\<rparr>))"

definition requestRejoin :: "lora_link \<Rightarrow> bool \<times> lora_link" where
  "requestRejoin l =
     (if \<not> lk_active l then (False, l)
      else if \<not> lk_radioReady l \<or> \<not> lk_persistenceHealthy l then (False, l)
      else (True, l\<lparr>lk_rejoinRequested := True\<rparr>))"

text \<open>A transport is connected when the component is active and the radio has joined.\<close>

definition requestNetworkTimeSync :: "lora_link \<Rightarrow> bool \<times> lora_link" where
  "requestNetworkTimeSync l =
     (if \<not> tp_connected (lk_transport l) \<or> \<not> lk_persistenceHealthy l then (False, l)
      else (True, l\<lparr>lk_timeSyncRequested := True\<rparr>))"

section \<open>Events\<close>

definition currentEventTimestamp :: "int \<Rightarrow> u32" where
  "currentEventTimestamp unixNow =
     (if unixNow \<le> 0 \<or> unixNow > 2 ^ 32 - 1 then 0 else word_of_int unixNow)"

text \<open>A C string literal as its bytes.\<close>

definition text_bytes :: "string \<Rightarrow> bytes" where
  "text_bytes s = map of_char s"

definition emitCoreEvent ::
    "int \<Rightarrow> string \<Rightarrow> string \<Rightarrow> EventSeverity \<Rightarrow> string \<Rightarrow> 's application \<Rightarrow> 's application" where
  "emitCoreEvent unixNow src typ severity detail a =
     a\<lparr>ga_events := snd (eventBus_emit kEventCapacity
         \<lparr>ei_source = Some (text_bytes src), ei_type = Some (text_bytes typ), ei_severity = severity,
          ei_timestampUnix = currentEventTimestamp unixNow, ei_detail = Some (text_bytes detail)\<rparr>
         (ga_events a))\<rparr>"

end
