(* ===== verification/ApplicationRules.thy ===== *)
theory ApplicationRules
  imports ApplicationState
begin

text \<open>
  How \<^verbatim>\<open>include/core/Application.h\<close> runs the rules: scheduling the actions of a rule that is
  triggered, executing what is due, cancelling what belongs to a disabled rule, the triggers (time,
  restart, channel values, frames heard on the bus) and the replies to rule commands.
\<close>

section \<open>Scheduling\<close>

definition cancelScheduledRuleActions :: "u8 \<Rightarrow> 's application \<Rightarrow> 's application" where
  "cancelScheduledRuleActions ruleId a =
     a\<lparr>ga_scheduled := map (\<lambda>x. if sa_pending x \<and> sa_ruleId x = ruleId then no_action else x)
        (ga_scheduled a)\<rparr>"

text \<open>
  What an action plan makes of its slot. The alarm context is the channel and the value; \<open>None\<close> for
  the null pointers of the callers that have none.
\<close>

definition scheduledAction ::
    "u32 \<Rightarrow> u8 \<Rightarrow> nat \<Rightarrow> ActionPlan \<Rightarrow> (ChannelConfig \<times> DecodedScalar) option \<Rightarrow> AlarmKind \<Rightarrow> u64 \<Rightarrow>
       bool \<Rightarrow> ScheduledRuleAction \<Rightarrow> ScheduledRuleAction" where
  "scheduledAction nowMs ruleId actionIndex plan alarm kind change releaseOnly old =
     (let x = old\<lparr>sa_pending := True, sa_action := ap_action plan,
            sa_dueAtMs := nowMs + ap_delayMs plan, sa_ruleId := ruleId,
            sa_actionSlot := of_nat actionIndex\<rparr>
      in if ap_action plan = UploadAlarm then
           (case alarm of None \<Rightarrow> no_action
            | Some (channel, value) \<Rightarrow>
                if releaseOnly \<and> \<not> ap_thresholdReleaseEnabled plan then no_action
                else x\<lparr>sa_alarmContextValid := True, sa_alarmChannel := channel, sa_alarmValue := value,
                  sa_alarmKind := (if releaseOnly then AlarmThresholdRelease else kind),
                  sa_alarmChangeValue := change\<rparr>)
         else if ap_action plan = RawRs485 \<or> ap_action plan = ServerMessage then
           (case ap_payload plan of None \<Rightarrow> no_action
            | Some payload \<Rightarrow>
                if ap_payloadLength plan < 2 \<or> ap_payloadLength plan > 48 then no_action
                else x\<lparr>sa_payload := take (unat (ap_payloadLength plan)) payload\<rparr>)
         else x)"

definition scheduleAction ::
    "u32 \<Rightarrow> u8 \<Rightarrow> (ChannelConfig \<times> DecodedScalar) option \<Rightarrow> AlarmKind \<Rightarrow> u64 \<Rightarrow> bool \<Rightarrow>
       nat \<times> StoredFrame \<Rightarrow> ScheduledRuleAction list \<Rightarrow> ScheduledRuleAction list" where
  "scheduleAction nowMs ruleId alarm kind change releaseOnly entry xs =
     (let (actionIndex, frame) = entry; plan = decodeExecutableAction frame
      in if ap_action plan = ActNone then xs
         else if releaseOnly \<and> ap_action plan \<noteq> UploadAlarm then xs
         else if ap_action plan = ActUnsupported then xs
         else
           let baseSlot = (unat ruleId - 1) * 3 + actionIndex;
               slot = (if releaseOnly then baseSlot + kRuleCount * 3 else baseSlot)
           in xs[slot := scheduledAction nowMs ruleId actionIndex plan alarm kind change releaseOnly
                (xs ! slot)])"

definition scheduleRuleActions ::
    "u32 \<Rightarrow> int \<Rightarrow> u8 \<Rightarrow> RuleRecord \<Rightarrow> (ChannelConfig \<times> DecodedScalar) option \<Rightarrow> AlarmKind \<Rightarrow> u64 \<Rightarrow>
       bool \<Rightarrow> 's application \<Rightarrow> 's application" where
  "scheduleRuleActions nowMs unixNow ruleId r alarm kind change releaseOnly a =
     emitCoreEvent unixNow ''rules'' (if releaseOnly then ''release'' else ''trigger'') SevInfo
       (''rule='' @ decimal (unat ruleId) @ (if releaseOnly then '' release'' else []))
       (a\<lparr>ga_scheduled := fold (scheduleAction nowMs ruleId alarm kind change releaseOnly)
            (enumerate 0 (take 3 (drop 1 (rr_frames r)))) (ga_scheduled a)\<rparr>)"

text \<open>The call without an alarm context, as the other triggers make it.\<close>

definition triggerRule :: "u32 \<Rightarrow> int \<Rightarrow> u8 \<Rightarrow> RuleRecord \<Rightarrow> 's application \<Rightarrow> 's application" where
  "triggerRule nowMs unixNow ruleId r =
     scheduleRuleActions nowMs unixNow ruleId r None AlarmThreshold 0 False"

section \<open>Execution\<close>

definition executeAction :: "ScheduledRuleAction \<Rightarrow> 's application \<Rightarrow> 's application" where
  "executeAction x a =
     (case sa_action x of
        ServerMessage \<Rightarrow> snd (app_send kCompatibilityFPort (sa_payload x) a)
      | UploadData \<Rightarrow> a\<lparr>ga_scheduler := requestImmediateReport (ga_scheduler a)\<rparr>
      | RawRs485 \<Rightarrow> a\<lparr>ga_modbus := snd (queueRuleRawRequest (Some (sa_payload x)) (ga_modbus a))\<rparr>
      | UploadAlarm \<Rightarrow>
          if \<not> sa_alarmContextValid x then a
          else (case encodeAlarm (sa_alarmChannel x) 0 (sa_alarmValue x) (sa_alarmKind x)
                  (sa_alarmChangeValue x) (Some 32) of
              Inl _ \<Rightarrow> a
            | Inr payload \<Rightarrow> if payload = [] then a else snd (app_send kCompatibilityFPort payload a))
      | ActReboot \<Rightarrow> a\<lparr>ga_rebootRequested := True\<rparr>
      | ActNone \<Rightarrow> a
      | ActUnsupported \<Rightarrow> a)"

definition executeSlot :: "u32 \<Rightarrow> nat \<Rightarrow> 's application \<Rightarrow> 's application" where
  "executeSlot nowMs i a =
     (let x = ga_scheduled a ! i
      in if \<not> sa_pending x \<or> \<not> time_reached nowMs (sa_dueAtMs x) then a
         else
           let a' = (case rule (sa_ruleId x) (ga_rules a) of
                 None \<Rightarrow> a | Some r \<Rightarrow> if \<not> rr_enabled r then a else executeAction x a)
           in a'\<lparr>ga_scheduled := (ga_scheduled a')[i := no_action]\<rparr>)"

definition executeDueRuleActions :: "u32 \<Rightarrow> 's application \<Rightarrow> 's application" where
  "executeDueRuleActions nowMs a = fold (executeSlot nowMs) [0..<kScheduledActions] a"

section \<open>Triggers\<close>

text \<open>The enabled rules in order, as every loop over the ids visits them.\<close>

definition forEnabledRules ::
    "(u8 \<Rightarrow> RuleRecord \<Rightarrow> 's application \<Rightarrow> 's application) \<Rightarrow> 's application \<Rightarrow> 's application" where
  "forEnabledRules f a =
     fold (\<lambda>k a. case rule (of_nat k) (ga_rules a) of
         None \<Rightarrow> a | Some r \<Rightarrow> if rr_enabled r then f (of_nat k) r a else a) [1..<Suc kRuleCount] a"

definition bootTriggers :: "u32 \<Rightarrow> int \<Rightarrow> 's application \<Rightarrow> 's application" where
  "bootTriggers nowMs unixNow a =
     (if \<not> ga_ruleBootEvaluationPending a then a
      else forEnabledRules (\<lambda>i r a. if isDeviceRestartCondition (rr_frames r ! 0)
             then triggerRule nowMs unixNow i r a else a)
           (a\<lparr>ga_ruleBootEvaluationPending := False\<rparr>))"

definition timeTriggers :: "u32 \<Rightarrow> int \<Rightarrow> 's application \<Rightarrow> 's application" where
  "timeTriggers nowMs unixNow a =
     (if unixNow \<le> 0 then a
      else
        let local = localDateTime (word_of_int unixNow) (ga_time a); minuteKey = localMinuteKey local
        in forEnabledRules (\<lambda>i r a.
             if \<not> matchesTimeCondition (rr_frames r ! 0) local then a
             else if ga_lastRuleMinuteKey a ! (unat i - 1) = minuteKey then a
             else triggerRule nowMs unixNow i r (a\<lparr>ga_lastRuleMinuteKey :=
               (ga_lastRuleMinuteKey a)[unat i - 1 := minuteKey]\<rparr>)) a)"

definition processRuleExecution :: "u32 \<Rightarrow> int \<Rightarrow> 's application \<Rightarrow> 's application" where
  "processRuleExecution nowMs unixNow a =
     executeDueRuleActions nowMs (timeTriggers nowMs unixNow (bootTriggers nowMs unixNow a))"

text \<open>A completed poll against the condition of one rule.\<close>

definition change_mode :: "ChannelThresholdMode \<Rightarrow> bool" where
  "change_mode m = (m = ChangeRecent \<or> m = ChangeInterval)"

definition evaluateChannelRule ::
    "u32 \<Rightarrow> int \<Rightarrow> PollCompletion \<Rightarrow> u8 \<Rightarrow> RuleRecord \<Rightarrow> 's application \<Rightarrow> 's application" where
  "evaluateChannelRule nowMs unixNow completion i r a =
     (case decodeChannelCondition (rr_frames r ! 0) of
        None \<Rightarrow> a
      | Some plan \<Rightarrow>
          if cp_channelId plan \<noteq> ch_slot (po_channel completion) + 1 then a
          else
            let prior = ga_channelRuleRuntime a ! (unat i - 1);
                value = po_values completion ! 0;
                (triggered, runtime) = evaluateChannelCondition plan value nowMs prior;
                a = a\<lparr>ga_channelRuleRuntime := (ga_channelRuleRuntime a)[unat i - 1 := runtime]\<rparr>;
                changeValue = (case scalarToDouble value of
                    Some current \<Rightarrow> if cr_havePrevious prior
                      then f64_abs_diff current (cr_previousValue prior) else 0
                  | None \<Rightarrow> 0);
                context = Some (po_channel completion, value);
                a = (if triggered
                     then scheduleRuleActions nowMs unixNow i r context
                       (if change_mode (cp_mode plan) then AlarmChange else AlarmThreshold)
                       changeValue False a
                     else a);
                released = (cr_firedForActive prior \<and> \<not> cr_active runtime \<and> \<not> change_mode (cp_mode plan))
            in if released
               then scheduleRuleActions nowMs unixNow i r context AlarmThresholdRelease 0 True a
               else a)"

definition evaluateChannelRules :: "u32 \<Rightarrow> int \<Rightarrow> PollCompletion \<Rightarrow> 's application \<Rightarrow> 's application" where
  "evaluateChannelRules nowMs unixNow completion a =
     (if \<not> po_success completion \<or> po_valueCount completion = 0 then a
      else forEnabledRules (evaluateChannelRule nowMs unixNow completion) a)"

text \<open>A frame heard on the bus: the rules it triggers, then the two-way pass-through.\<close>

definition processPassiveRs485Frame :: "u32 \<Rightarrow> int \<Rightarrow> 's application \<Rightarrow> 's application" where
  "processPassiveRs485Frame nowMs unixNow a =
     (let (taken, m) = takePassiveFrame (ga_modbus a); a = a\<lparr>ga_modbus := m\<rparr>
      in case taken of
           None \<Rightarrow> a
         | Some frame \<Rightarrow>
             if pv_payload frame = [] then a
             else
               let a = forEnabledRules (\<lambda>i r a.
                     if matchesRs485CommandCondition (rr_frames r ! 0) (Some (pv_payload frame))
                     then triggerRule nowMs unixNow i r a else a) a
               in if ms_passThroughMode (mc_masterSettings (ga_modbus a)) \<noteq> passthrough_code PtTwoWay then a
                  else if ga_twoWayFramePending a then a
                  else a\<lparr>ga_twoWayFramePending := True, ga_twoWayFrame := pv_payload frame\<rparr>)"

section \<open>Replies\<close>

text \<open>The reply queue is the list of its \<^verbatim>\<open>ruleReplyCount_\<close> frames.\<close>

definition clearRuleReplyQueue :: "'s application \<Rightarrow> 's application" where
  "clearRuleReplyQueue a = a\<lparr>ga_ruleReplyFrames := [], ga_ruleReplyCursor := 0\<rparr>"

definition advanceRuleReply :: "'s application \<Rightarrow> 's application" where
  "advanceRuleReply a =
     (let a = a\<lparr>ga_ruleReplyCursor := ga_ruleReplyCursor a + 1\<rparr>
      in if ga_ruleReplyCursor a \<ge> length (ga_ruleReplyFrames a) then clearRuleReplyQueue a else a)"

definition processRuleReply :: "'s application \<Rightarrow> bool \<times> 's application" where
  "processRuleReply a =
     (if ga_ruleReplyCursor a \<ge> length (ga_ruleReplyFrames a) \<or> \<not> lora_connected a then (False, a)
      else
        let frame = ga_ruleReplyFrames a ! ga_ruleReplyCursor a
        in if \<not> frame_present frame then (True, advanceRuleReply a)
           else
             let (ok, a) = app_send kCompatibilityFPort (take (unat (sf_length frame)) (sf_data frame)) a
             in if \<not> ok then (True, a) else (True, advanceRuleReply a))"

definition stageRuleEnquiryReply :: "u8 \<Rightarrow> 's application \<Rightarrow> bool \<times> 's application" where
  "stageRuleEnquiryReply ruleId a =
     (case rule ruleId (ga_rules a) of
        None \<Rightarrow> (False, a)
      | Some r \<Rightarrow> (True, (clearRuleReplyQueue a)
          \<lparr>ga_ruleReplyFrames := filter frame_present (take kRuleFrameSlots (rr_frames r))\<rparr>))"

fun slot_index :: "RuleFrameSlot \<Rightarrow> nat" where
  "slot_index SlotCondition = 0" | "slot_index SlotAction1 = 1"
| "slot_index SlotAction2 = 2" | "slot_index SlotAction3 = 3"

definition stageRuleConfigurationAck ::
    "RuleConfigurationCommand \<Rightarrow> u8 \<Rightarrow> 's application \<Rightarrow> bool \<times> 's application" where
  "stageRuleConfigurationAck command status a =
     (let n = length (rc_frame command)
      in if n < 4 \<or> n + 1 > kMaxRuleFrameLength then (False, a)
         else if length (ga_ruleReplyFrames a) \<ge> kRuleFrameSlots then (False, a)
         else
           let reply = [0xf8, kRuleConfigurationType] @ drop 2 (rc_frame command) @ [status]
           in (True, a\<lparr>ga_ruleReplyFrames := ga_ruleReplyFrames a @
                [\<lparr>sf_length = of_nat (n + 1), sf_data = reply @ replicate (kMaxRuleFrameLength - length reply) 0\<rparr>]\<rparr>))"

section \<open>Commands\<close>

definition applyRuleConfigurationCommand ::
    "'s prefs \<Rightarrow> RuleConfigurationCommand \<Rightarrow> 's application \<Rightarrow> bool \<times> 's application" where
  "applyRuleConfigurationCommand P command a =
     (case rule (rc_ruleId command) (ga_rules a) of
        None \<Rightarrow> (False, a)
      | Some current \<Rightarrow>
          let i = slot_index (rc_slot command);
              (set_ok, frame) = frame_set (Some (rc_frame command)) (rr_frames current ! i);
              updated = current\<lparr>rr_enabled := rc_enabled command, rr_frames := (rr_frames current)[i := frame]\<rparr>
          in if \<not> set_ok then (False, a)
             else
               let (saved, ns) = ruleStore_saveRule P (rc_ruleId command) updated (ga_ruleNs a);
                   a = a\<lparr>ga_ruleNs := ns\<rparr>
               in if \<not> saved then (False, a)
                  else
                    let a = a\<lparr>ga_rules := (ga_rules a)[unat (rc_ruleId command) - 1 := updated]\<rparr>;
                        a = (if \<not> rr_enabled updated
                             then cancelScheduledRuleActions (rc_ruleId command) a else a)
                    in stageRuleConfigurationAck command 0x00 a)"

text \<open>
  The rollback: the rules changed so far are saved again and put back, in order.
\<close>

fun rollbackRules :: "'s prefs \<Rightarrow> (nat \<times> RuleRecord) list \<Rightarrow> 's application \<Rightarrow> 's application" where
  "rollbackRules P [] a = a"
| "rollbackRules P ((k, original) # rest) a =
     (let (_, ns) = ruleStore_saveRule P (of_nat (k + 1)) original (ga_ruleNs a)
      in rollbackRules P rest (a\<lparr>ga_ruleNs := ns, ga_rules := (ga_rules a)[k := original]\<rparr>))"

definition updated_rule :: "RuleStatusOperation \<Rightarrow> RuleRecord \<Rightarrow> RuleRecord" where
  "updated_rule operation r = (case operation of
       RuleEnable \<Rightarrow> r\<lparr>rr_enabled := True\<rparr>
     | RuleDisable \<Rightarrow> r\<lparr>rr_enabled := False\<rparr>
     | RuleDelete \<Rightarrow> rule_clear r)"

text \<open>The loop over the remaining bits, with the originals of the rules already changed.\<close>

fun applyRuleStatusBits ::
    "'s prefs \<Rightarrow> RuleStatusCommand \<Rightarrow> nat list \<Rightarrow> (nat \<times> RuleRecord) list \<Rightarrow> 's application \<Rightarrow>
       bool \<times> 's application" where
  "applyRuleStatusBits P command [] originals a = (True, a)"
| "applyRuleStatusBits P command (k # ks) originals a =
     (if rsc_ruleMask command AND push_bit k 1 = 0 then applyRuleStatusBits P command ks originals a
      else case rule (of_nat (k + 1)) (ga_rules a) of
        None \<Rightarrow> (False, a)
      | Some current \<Rightarrow>
          let updated = updated_rule (rsc_operation command) current;
              (saved, ns) = ruleStore_saveRule P (of_nat (k + 1)) updated (ga_ruleNs a);
              a = a\<lparr>ga_ruleNs := ns\<rparr>
          in if \<not> saved then (False, rollbackRules P originals a)
             else
               let a = a\<lparr>ga_rules := (ga_rules a)[k := updated]\<rparr>;
                   a = (if \<not> rr_enabled updated then cancelScheduledRuleActions (of_nat (k + 1)) a else a)
               in applyRuleStatusBits P command ks (originals @ [(k, current)]) a)"

definition applyRuleStatusCommand ::
    "'s prefs \<Rightarrow> RuleStatusCommand \<Rightarrow> 's application \<Rightarrow> bool \<times> 's application" where
  "applyRuleStatusCommand P command a = applyRuleStatusBits P command [0..<kRuleCount] [] a"

end
