(* ===== verification/ApplicationDownlink.thy ===== *)
theory ApplicationDownlink
  imports ApplicationRules
begin

text \<open>
  The downlink handler of \<^verbatim>\<open>include/core/Application.h\<close>: a payload is first offered to the
  pass-through and to the rules waiting for a server message, then parsed as a sequence of commands,
  all of them before the first is executed, and then executed in order up to the first failure.
  \<open>None\<close> as the result of an operation is the access outside of an array that the channel store
  makes for a name of full length.
\<close>

section \<open>Parsing\<close>

text \<open>A parsed command: the kind with the one member of the structure that it fills.\<close>

datatype ParsedCommand =
    PcReportInterval u16
  | PcBasicControl BasicControlCommand
  | PcPeriodicReportEnquiry
  | PcUtcTimezone u16
  | PcLnsTimeSync
  | PcDstSettings DstSettingsCommand
  | PcDataStorage bool
  | PcDataRetransmission bool
  | PcRetransmissionInterval u16
  | PcRetrievabilityInterval u16
  | PcHistoryQuery HistoryQueryCommand
  | PcRuleStatus RuleStatusCommand
  | PcRuleEnquiry u8
  | PcRuleConfiguration RuleConfigurationCommand
  | PcModbusChannel ModbusChannelCommand
  | PcRs485Settings Rs485SerialSettings
  | PcModbusMasterSettings ModbusMasterSettings
  | PcRs485SettingsEnquiry EnquiryKind

text \<open>\<^verbatim>\<open>decode(...) != Ok || consumed == 0\<close>, as every branch of the chain tests it.\<close>

definition accept :: "('c \<Rightarrow> ParsedCommand) \<Rightarrow> 'c decoded \<Rightarrow> ParsedCommand decoded" where
  "accept kind d = (case d of Inl e \<Rightarrow> Inl e
     | Inr (c, n) \<Rightarrow> if n = 0 then Inl DecodeInvalid else Inr (kind c, n))"

definition accept_if :: "('c \<Rightarrow> bool) \<Rightarrow> ('c \<Rightarrow> ParsedCommand) \<Rightarrow> 'c decoded \<Rightarrow> ParsedCommand decoded" where
  "accept_if supported kind d = (case accept kind d of Inl e \<Rightarrow> Inl e
     | Inr r \<Rightarrow> (case d of Inr (c, _) \<Rightarrow> if supported c then Inr r else Inl DecodeInvalid | Inl e \<Rightarrow> Inl e))"

text \<open>The chain of conditions on the header of the command.\<close>

definition decodeBranch :: "u8 \<times> u8 \<Rightarrow> bytes ptr \<Rightarrow> ParsedCommand decoded" where
  "decodeBranch header p =
     (let (channelId, type) = header
      in if channelId = kSystemChannel \<and> (type = kRejoinType \<or> type = kRebootType)
          then accept PcBasicControl (decodeBasicControlCommand p)
          else if channelId = kSystemChannel \<and> type = kUtcTimezoneType
          then accept PcUtcTimezone (decodeUtcTimezoneCommand p)
          else if channelId = kSystemChannel \<and> type = kLnsTimeSyncType
          then accept (\<lambda>_. PcLnsTimeSync) (decodeLnsTimeSyncCommand p)
          else if channelId = kModbusChannel \<and> type = kDstSettingsType
          then accept PcDstSettings (decodeDstSettingsCommand p)
          else if channelId = kSystemChannel \<and> type = kDataStorageType
          then accept PcDataStorage (decodeHistoryToggleCommand kDataStorageType p)
          else if channelId = kSystemChannel \<and> type = kDataRetransmissionType
          then accept PcDataRetransmission (decodeHistoryToggleCommand kDataRetransmissionType p)
          else if channelId = kModbusChannel \<and> type = kRetransmissionIntervalType
          then accept PcRetransmissionInterval (decodeRetransmissionIntervalCommand p)
          else if channelId = kModbusChannel \<and> type = kRetrievabilityIntervalType
          then accept PcRetrievabilityInterval (decodeRetrievabilityIntervalCommand p)
          else if channelId = kHistoryQueryChannel \<and>
            (type = kHistoryPointType \<or> type = kHistoryRangeType \<or> type = kHistoryStopType)
          then accept PcHistoryQuery (decodeHistoryQueryCommand p)
          else if channelId = kModbusChannel \<and> type = kRuleStatusType
          then accept PcRuleStatus (decodeRuleStatusCommand p)
          else if channelId = kModbusChannel \<and> type = kRuleEnquiryType
          then accept PcRuleEnquiry (decodeRuleEnquiryCommand p)
          else if channelId = kModbusChannel \<and> type = kRuleConfigurationType
          then accept PcRuleConfiguration (decodeRuleConfigurationCommand p)
          else if channelId = kSystemChannel \<and> type = kPeriodicReportEnquiryType
          then accept (\<lambda>_. PcPeriodicReportEnquiry) (decodePeriodicReportEnquiryCommand p)
          else if channelId = kSystemChannel \<and> type = kReportIntervalType
          then (case decodeReportIntervalCommand p of
              None \<Rightarrow> Inl DecodeInvalid | Some d \<Rightarrow> accept PcReportInterval (Inr d))
          else if channelId = kSystemChannel \<and> type = kModbusChannelConfigType
          then accept PcModbusChannel (decodeModbusChannelCommand p)
          else if channelId = kModbusChannel \<and> type = kRs485ConfigType
          then accept_if esp32SupportsRs485SerialSettings PcRs485Settings (decodeRs485SettingsCommand p)
          else if channelId = kModbusChannel \<and> type = kModbusGlobalConfigType
          then accept_if runtimeSupportsModbusMasterSettings PcModbusMasterSettings
                 (decodeModbusMasterSettingsCommand p)
          else if channelId = kModbusChannel \<and> type = kRs485SettingsEnquiryType
          then accept PcRs485SettingsEnquiry (decodeRs485SettingsEnquiryCommand p)
          else Inl DecodeUnsupported)"

definition parseCommand :: "bytes ptr \<Rightarrow> ParsedCommand decoded" where
  "parseCommand p = (case readHeader p of
       None \<Rightarrow> Inl DecodeTruncated | Some header \<Rightarrow> decodeBranch header p)"

lemma accepted_progress: "parseCommand p = Inr (c, n) \<Longrightarrow> 0 < n"
  by (auto simp: parseCommand_def decodeBranch_def accept_if_def accept_def split: if_splits option.splits sum.splits prod.splits)

text \<open>The parsing loop, from the current offset on; every round consumes bytes.\<close>

function parseCommands :: "bytes \<Rightarrow> ParsedCommand list option" where
  "parseCommands payload =
     (if payload = [] then Some []
      else case parseCommand (Some payload) of
        Inl _ \<Rightarrow> None
      | Inr (command, consumed) \<Rightarrow>
          (case parseCommands (drop consumed payload) of
             None \<Rightarrow> None | Some commands \<Rightarrow> Some (command # commands)))"
  by auto
termination
  by (relation "measure length") (auto dest: accepted_progress)

declare parseCommands.simps [simp del]

section \<open>Channels\<close>

definition bindCompatibilityChannel :: "ChannelConfig \<Rightarrow> 's application \<Rightarrow> bool \<times> 's application" where
  "bindCompatibilityChannel channel a =
     (let binding = default_binding\<lparr>bd_channelId := ucast (ch_slot channel) + 1, bd_sourceId := ''modbus'',
            bd_pointId := pointIdForSlot (ch_slot channel) 0, bd_enabled := True,
            bd_writable := writableType (ch_dataType channel), bd_compatibilityMapped := True,
            bd_compatibilitySlot := ch_slot channel\<rparr>
      in case registry_upsert binding (ga_channels a) of
           Inl _ \<Rightarrow> (False, a) | Inr channels \<Rightarrow> (True, a\<lparr>ga_channels := channels\<rparr>))"

definition saveChannel :: "'s prefs \<Rightarrow> ChannelConfig \<Rightarrow> 's application \<Rightarrow> (bool \<times> 's application) option" where
  "saveChannel P channel a =
     map_option (\<lambda>(ok, ns). (ok, a\<lparr>ga_channelNs := ns\<rparr>)) (channelStore_save P channel (ga_channelNs a))"

definition app_upsert :: "ChannelConfig \<Rightarrow> 's application \<Rightarrow> bool \<times> 's application" where
  "app_upsert channel a = (let (ok, m) = upsertChannel channel (ga_modbus a) in (ok, a\<lparr>ga_modbus := m\<rparr>))"

definition app_clearSlot :: "u8 \<Rightarrow> 's application \<Rightarrow> 's application" where
  "app_clearSlot slot a = a\<lparr>ga_scheduler := scheduler_clearSlot slot (ga_scheduler a)\<rparr>"

definition applyModbusChannelCommand ::
    "'s prefs \<Rightarrow> ModbusChannelCommand \<Rightarrow> 's application \<Rightarrow> (bool \<times> 's application) option" where
  "applyModbusChannelCommand P command a =
     (let channel = mc_channel command; slot = ch_slot channel
      in case mc_operation command of
        OpUpsert \<Rightarrow> (case saveChannel P channel a of
            None \<Rightarrow> None
          | Some (saved, a) \<Rightarrow>
              if \<not> saved then Some (False, a)
              else
                let (ok, a) = app_upsert channel a
                in if \<not> ok then Some (False, a)
                   else Some (bindCompatibilityChannel channel (app_clearSlot slot a)))
      | OpRemove \<Rightarrow>
          (let (removed, ns) = channelStore_remove P slot (ga_channelNs a); a = a\<lparr>ga_channelNs := ns\<rparr>
           in if \<not> removed then Some (False, a)
              else
                let a = app_clearSlot slot (a\<lparr>ga_modbus := snd (removeChannel slot (ga_modbus a))\<rparr>)
                in Some (True, a\<lparr>ga_channels := snd (removeCompatibilitySlot slot (ga_channels a))\<rparr>))
      | OpSetName \<Rightarrow>
          (case channelForSlot slot (ga_modbus a) of
             None \<Rightarrow> Some (False, a)
           | Some current \<Rightarrow>
               let nameLength = strnlen (ch_name channel) kMaxChannelNameLength
               in (case setChannelName current (Some (take nameLength (ch_name channel))) of
                 None \<Rightarrow> Some (False, a)
               | Some updated \<Rightarrow> (case saveChannel P updated a of
                   None \<Rightarrow> None
                 | Some (saved, a) \<Rightarrow> if \<not> saved then Some (False, a) else Some (app_upsert updated a)))))"

section \<open>Settings\<close>

definition applyReportIntervalCommand ::
    "'s prefs \<Rightarrow> u32 \<Rightarrow> u16 \<Rightarrow> 's application \<Rightarrow> bool \<times> 's application" where
  "applyReportIntervalCommand P nowMs seconds a =
     (if \<not> validReportIntervalSeconds seconds then (False, a)
      else
        let previous = rp_settings (ga_scheduler a);
            (saved, ns) = reportStore_save P seconds (ga_reportNs a); a = a\<lparr>ga_reportNs := ns\<rparr>
        in if \<not> saved then (False, a)
           else
             let (ok, s) = scheduler_applySettings seconds nowMs (ga_scheduler a); a = a\<lparr>ga_scheduler := s\<rparr>
             in if ok then (True, a\<lparr>ga_history := (ga_history a)
                    \<lparr>hp_nextSnapshotAtMs := nowMs + intervalMs seconds\<rparr>\<rparr>)
                else (False, a\<lparr>ga_reportNs := snd (reportStore_save P previous (ga_reportNs a))\<rparr>))"

definition applyRs485SettingsCommand ::
    "'s prefs \<Rightarrow> serial_constants \<Rightarrow> u32 \<Rightarrow> Rs485SerialSettings \<Rightarrow> 's application \<Rightarrow> bool \<times> 's application" where
  "applyRs485SettingsCommand P SER nowMs settings a =
     (if \<not> esp32SupportsRs485SerialSettings settings then (False, a)
      else
        let previous = mc_rs485Settings (ga_modbus a);
            (applied, m) = applyRs485SerialSettings SER nowMs settings (ga_modbus a); a = a\<lparr>ga_modbus := m\<rparr>
        in if \<not> applied then (False, a)
           else
             let (saved, ns) = rs485Store_save P settings (ga_rs485Ns a); a = a\<lparr>ga_rs485Ns := ns\<rparr>
             in if saved then (True, a)
                else (False, a\<lparr>ga_modbus := snd (applyRs485SerialSettings SER nowMs previous (ga_modbus a))\<rparr>))"

definition applyModbusMasterSettingsCommand ::
    "'s prefs \<Rightarrow> serial_constants \<Rightarrow> u32 \<Rightarrow> ModbusMasterSettings \<Rightarrow> 's application \<Rightarrow> bool \<times> 's application" where
  "applyModbusMasterSettingsCommand P SER nowMs settings a =
     (if \<not> runtimeSupportsModbusMasterSettings settings then (False, a)
      else
        let previous = mc_masterSettings (ga_modbus a);
            (applied, m) = applyModbusMasterSettings SER nowMs settings (ga_modbus a); a = a\<lparr>ga_modbus := m\<rparr>
        in if \<not> applied then (False, a)
           else
             let (saved, ns) = masterStore_save P settings (ga_masterNs a); a = a\<lparr>ga_masterNs := ns\<rparr>
             in if \<not> saved
                then (False, a\<lparr>ga_modbus := snd (applyModbusMasterSettings SER nowMs previous (ga_modbus a))\<rparr>)
                else if ms_passThroughMode settings = passthrough_code PtTwoWay
                then (True, a\<lparr>ga_scheduler := fold (\<lambda>slot. scheduler_clearSlot (of_nat slot))
                          [0..<kCompatibilitySlotCount] (abortReport (ga_scheduler a)),
                        ga_history := (ga_history a)
                          \<lparr>hp_samples := replicate kCompatibilitySlotCount default_sample\<rparr>\<rparr>)
                else (True, a\<lparr>ga_twoWayFramePending := False, ga_twoWayFrame := []\<rparr>))"

definition saveTimeSettings :: "'s prefs \<Rightarrow> TimeSettings \<Rightarrow> 's application \<Rightarrow> bool \<times> 's application" where
  "saveTimeSettings P updated a =
     (let (saved, ns) = timeStore_save P updated (ga_timeNs a); a = a\<lparr>ga_timeNs := ns\<rparr>
      in if \<not> saved then (False, a) else (True, a\<lparr>ga_time := updated\<rparr>))"

definition applyDstSettingsCommand ::
    "'s prefs \<Rightarrow> DstSettingsCommand \<Rightarrow> 's application \<Rightarrow> bool \<times> 's application" where
  "applyDstSettingsCommand P c a =
     (let dst = \<lparr>ds_enabled = dst_enabled c, ds_biasMinutes = dst_biasMinutes c,
            ds_start = \<lparr>dt_month = dst_startMonth c, dt_week = dst_startWeek c,
              dt_weekday = dst_startWeekday c, dt_minuteOfDay = dst_startMinuteOfDay c\<rparr>,
            ds_end = \<lparr>dt_month = dst_endMonth c, dt_week = dst_endWeek c,
              dt_weekday = dst_endWeekday c, dt_minuteOfDay = dst_endMinuteOfDay c\<rparr>\<rparr>
      in if \<not> validDstSettings dst then (False, a)
         else saveTimeSettings P ((ga_time a)\<lparr>ts_dst := dst\<rparr>) a)"

definition applyUtcTimezoneCommand :: "'s prefs \<Rightarrow> u16 \<Rightarrow> 's application \<Rightarrow> bool \<times> 's application" where
  "applyUtcTimezoneCommand P minutes a =
     (if \<not> validUtcOffsetMinutes minutes then (False, a)
      else saveTimeSettings P ((ga_time a)\<lparr>ts_utcOffsetMinutes := minutes\<rparr>) a)"

definition replyToRs485SettingsEnquiry :: "EnquiryKind \<Rightarrow> 's application \<Rightarrow> bool \<times> 's application" where
  "replyToRs485SettingsEnquiry kind a =
     (case encodeRs485SettingsEnquiryReply kind (mc_rs485Settings (ga_modbus a))
             (mc_masterSettings (ga_modbus a)) (Some 16) of
        Inl _ \<Rightarrow> (False, a)
      | Inr payload \<Rightarrow> if payload = [] then (False, a) else app_send kCompatibilityFPort payload a)"

section \<open>Execution\<close>

text \<open>The history handlers work on their part of the state.\<close>

definition on_history ::
    "('s history_part \<Rightarrow> bool \<times> 's history_part) \<Rightarrow> 's application \<Rightarrow> bool \<times> 's application" where
  "on_history f a = (let (ok, h) = f (ga_history a) in (ok, a\<lparr>ga_history := h\<rparr>))"

definition on_link :: "(lora_link \<Rightarrow> bool \<times> lora_link) \<Rightarrow> 's application \<Rightarrow> bool \<times> 's application" where
  "on_link f a = (let (ok, l) = f (ga_link a) in (ok, a\<lparr>ga_link := l\<rparr>))"

definition app_historyQuery :: "u32 \<Rightarrow> HistoryQueryCommand \<Rightarrow> 's application \<Rightarrow> bool \<times> 's application" where
  "app_historyQuery nowMs command a =
     (let (ok, t, h) = applyHistoryQueryCommand command nowMs (rp_settings (ga_scheduler a))
            (lk_transport (ga_link a)) (ga_history a)
      in (ok, a\<lparr>ga_link := (ga_link a)\<lparr>lk_transport := t\<rparr>, ga_history := h\<rparr>))"

definition executeCommand ::
    "'s prefs \<Rightarrow> serial_constants \<Rightarrow> u32 \<Rightarrow> ParsedCommand \<Rightarrow> 's application \<Rightarrow> (bool \<times> 's application) option" where
  "executeCommand P SER nowMs command a = (case command of
       PcBasicControl Rejoin \<Rightarrow> Some (on_link requestRejoin a)
     | PcBasicControl Reboot \<Rightarrow> Some (True, a\<lparr>ga_rebootRequested := True\<rparr>)
     | PcPeriodicReportEnquiry \<Rightarrow>
         Some (True, a\<lparr>ga_scheduler := requestImmediateReport (ga_scheduler a)\<rparr>)
     | PcUtcTimezone minutes \<Rightarrow> Some (applyUtcTimezoneCommand P minutes a)
     | PcLnsTimeSync \<Rightarrow> Some (on_link requestNetworkTimeSync a)
     | PcDstSettings c \<Rightarrow> Some (applyDstSettingsCommand P c a)
     | PcDataStorage enabled \<Rightarrow> Some (on_history (applyHistoryStorageCommand P enabled) a)
     | PcDataRetransmission enabled \<Rightarrow> Some (on_history (applyHistoryRetransmissionCommand P enabled) a)
     | PcRetransmissionInterval seconds \<Rightarrow> Some (on_history (applyRetransmissionIntervalCommand P seconds) a)
     | PcRetrievabilityInterval seconds \<Rightarrow> Some (on_history (applyRetrievabilityIntervalCommand P seconds) a)
     | PcHistoryQuery c \<Rightarrow> Some (app_historyQuery nowMs c a)
     | PcRuleStatus c \<Rightarrow> Some (applyRuleStatusCommand P c a)
     | PcRuleEnquiry ruleId \<Rightarrow> Some (stageRuleEnquiryReply ruleId a)
     | PcRuleConfiguration c \<Rightarrow> Some (applyRuleConfigurationCommand P c a)
     | PcReportInterval seconds \<Rightarrow> Some (applyReportIntervalCommand P nowMs seconds a)
     | PcModbusChannel c \<Rightarrow> applyModbusChannelCommand P c a
     | PcRs485Settings settings \<Rightarrow> Some (applyRs485SettingsCommand P SER nowMs settings a)
     | PcModbusMasterSettings settings \<Rightarrow> Some (applyModbusMasterSettingsCommand P SER nowMs settings a)
     | PcRs485SettingsEnquiry kind \<Rightarrow> Some (replyToRs485SettingsEnquiry kind a))"

fun executeCommands ::
    "'s prefs \<Rightarrow> serial_constants \<Rightarrow> u32 \<Rightarrow> ParsedCommand list \<Rightarrow> 's application \<Rightarrow>
       (bool \<times> 's application) option" where
  "executeCommands P SER nowMs [] a = Some (True, a)"
| "executeCommands P SER nowMs (c # cs) a = (case executeCommand P SER nowMs c a of
       None \<Rightarrow> None
     | Some (ok, a) \<Rightarrow> if \<not> ok then Some (False, a) else executeCommands P SER nowMs cs a)"

text \<open>Offering a message to the rules: whether one matched.\<close>

definition offerServerMessage :: "u32 \<Rightarrow> int \<Rightarrow> bytes \<Rightarrow> 's application \<Rightarrow> bool \<times> 's application" where
  "offerServerMessage nowMs unixNow payload a =
     (let matches = (\<lambda>r. rr_enabled r \<and> matchesServerMessageCondition (rr_frames r ! 0) (Some payload))
      in (list_ex (\<lambda>k. case rule (of_nat k) (ga_rules a) of None \<Rightarrow> False | Some r \<Rightarrow> matches r) [1..<Suc kRuleCount],
          forEnabledRules (\<lambda>i r a. if matches r then triggerRule nowMs unixNow i r a else a) a))"

definition handleLoRaDownlink ::
    "'s prefs \<Rightarrow> serial_constants \<Rightarrow> u32 \<Rightarrow> int \<Rightarrow> u8 \<Rightarrow> bytes ptr \<Rightarrow> 's application \<Rightarrow>
       (bool \<times> 's application) option" where
  "handleLoRaDownlink P SER nowMs unixNow fport p a =
     (case p of None \<Rightarrow> Some (False, a) | Some payload \<Rightarrow>
        if payload = [] then Some (False, a)
        else if fport \<noteq> kCompatibilityFPort then
          (let settings = mc_masterSettings (ga_modbus a)
           in if ga_modbusMode a = ModbusMaster \<and>
                 ms_passThroughMode settings \<noteq> passthrough_code PtDisabled \<and>
                 fport = ms_passThroughPort settings
              then (let (ok, m) = queueRawRequest (Some payload) (ga_modbus a) in Some (ok, a\<lparr>ga_modbus := m\<rparr>))
              else Some (False, a))
        else
          let (matched, a') = (if validServerMessage (Some payload)
                 then offerServerMessage nowMs unixNow payload a else (False, a))
          in if matched then Some (True, a')
             else (case parseCommands payload of
               None \<Rightarrow> Some (False, a') | Some commands \<Rightarrow> executeCommands P SER nowMs commands a'))"

end
