(* ===== verification/ApplicationLoop.thy ===== *)
theory ApplicationLoop
  imports ApplicationDownlink
begin

text \<open>
  The rest of \<^verbatim>\<open>include/core/Application.h\<close>: the commands of the core command bus and the bound
  channels behind them, the steps of the main loop in their order, and the part of \<^verbatim>\<open>begin\<close> that
  restores the persisted state. The sources other than the Modbus component are the stubs of
  \<^verbatim>\<open>Components.h\<close>, which have no points. The JSON library is a parameter.
\<close>

section \<open>Bound channels\<close>

text \<open>\<^verbatim>\<open>dataSourceForId\<close>: whether the id is that of the Modbus component, of a stub, or unknown.\<close>

datatype source_ref = SourceModbus | SourceStub

definition dataSourceForId :: "string \<Rightarrow> source_ref option" where
  "dataSourceForId sourceId =
     (if sourceId = ''victron:vebus'' then Some SourceStub
      else if sourceId = ''modbus'' then Some SourceModbus
      else if sourceId = ''gnss:primary'' then Some SourceStub else None)"

definition describeBoundChannel :: "ChannelBinding \<Rightarrow> 's application \<Rightarrow> DataPointDescriptor option" where
  "describeBoundChannel binding a = (case dataSourceForId (bd_sourceId binding) of
       None \<Rightarrow> None
     | Some SourceStub \<Rightarrow> None
     | Some SourceModbus \<Rightarrow>
         (case List.map_filter (\<lambda>i. describePoint i (ga_modbus a)) [0..<pointCount (ga_modbus a)] of ds \<Rightarrow>
            (case find (\<lambda>d. dp_id d = bd_pointId binding) ds of
               None \<Rightarrow> None
             | Some d \<Rightarrow> Some (if dp_unit d = [] then d\<lparr>dp_unit := bd_unit binding\<rparr> else d))))"

definition readBoundChannel :: "ChannelBinding \<Rightarrow> 's application \<Rightarrow> DataValue option" where
  "readBoundChannel binding a = (case dataSourceForId (bd_sourceId binding) of
       Some SourceModbus \<Rightarrow> readPoint (bd_pointId binding) (ga_modbus a) | _ \<Rightarrow> None)"

text \<open>
  A JSON value as the code asks it: what \<^verbatim>\<open>is<T>()\<close> answers, with the value \<^verbatim>\<open>as<T>()\<close> gives then.
  The parser is the parameter; \<open>None\<close> is an error or a missing or null \<^verbatim>\<open>value\<close>.
\<close>

record json_value =
  jv_bool :: "bool option"
  jv_int64 :: "u64 option"
  jv_uint64 :: "u64 option"
  jv_isDouble :: bool
  jv_double :: u64
  jv_text :: "bytes option"

definition command_of_json :: "DataType \<Rightarrow> json_value \<Rightarrow> ChannelWriteCommand \<Rightarrow> ChannelWriteCommand option" where
  "command_of_json type j command = (case type of
       DtBoolean \<Rightarrow> map_option (\<lambda>b. command\<lparr>cw_valueType := CvBoolean, cw_booleanValue := b\<rparr>) (jv_bool j)
     | DtInt64 \<Rightarrow> map_option (\<lambda>i. command\<lparr>cw_valueType := CvInt64, cw_intValue := i\<rparr>) (jv_int64 j)
     | DtUInt64 \<Rightarrow> map_option (\<lambda>i. command\<lparr>cw_valueType := CvUInt64, cw_uintValue := i\<rparr>) (jv_uint64 j)
     | DtFloat64 \<Rightarrow>
         if \<not> jv_isDouble j \<and> jv_int64 j = None \<and> jv_uint64 j = None then None
         else Some (command\<lparr>cw_valueType := CvFloat64, cw_floatValue := jv_double j\<rparr>)
     | DtText \<Rightarrow> (case jv_text j of None \<Rightarrow> None
         | Some t \<Rightarrow> map_option (\<lambda>v. command\<lparr>cw_valueType := CvText, cw_textValue := v\<rparr>)
             (setCommandText kCommandTextLength (Some t) True)))"

definition writeBoundChannelFromMqtt ::
    "(bytes \<Rightarrow> json_value option) \<Rightarrow> int \<Rightarrow> ChannelBinding \<Rightarrow> bytes ptr \<Rightarrow> 's application \<Rightarrow>
       bool \<times> 's application" where
  "writeBoundChannelFromMqtt parse unixNow binding p a =
     (case p of None \<Rightarrow> (False, a) | Some payload \<Rightarrow>
        if \<not> bd_writable binding \<or> payload = [] \<or> length payload > 512 then (False, a)
        else (case describeBoundChannel binding a of
          None \<Rightarrow> (False, a)
        | Some descriptor \<Rightarrow>
            if \<not> dp_writable descriptor then (False, a)
            else (case parse payload of
              None \<Rightarrow> (False, a)
            | Some j \<Rightarrow> (case setCommandText kCommandOriginLength (Some (text_bytes ''mqtt'')) False of
                None \<Rightarrow> (False, a)
              | Some origin \<Rightarrow>
                  (case command_of_json (dp_type descriptor) j
                     (default_command\<lparr>cw_channelId := bd_channelId binding, cw_origin := origin\<rparr>) of
                    None \<Rightarrow> (False, a)
                  | Some command \<Rightarrow>
                      let (ok, b) = commandBus_enqueue kCommandCapacity command (ga_commands a);
                          a = a\<lparr>ga_commands := b\<rparr>
                      in if ok then (True, a)
                         else (False, emitCoreEvent unixNow ''commands'' ''queue-full'' SevWarning
                                 ''origin=mqtt'' a))))))"

section \<open>The command bus\<close>

text \<open>The characters of a terminated text array.\<close>

definition c_text :: "bytes \<Rightarrow> string" where
  "c_text bs = map (\<lambda>b. char_of (unat b)) (takeWhile (\<lambda>b. b \<noteq> 0) bs)"

definition command_value :: "ChannelWriteCommand \<Rightarrow> DataValue" where
  "command_value c = (let v = default_value\<lparr>dv_valid := True\<rparr> in case cw_valueType c of
       CvBoolean \<Rightarrow> v\<lparr>dv_type := DtBoolean, dv_booleanValue := cw_booleanValue c\<rparr>
     | CvInt64 \<Rightarrow> v\<lparr>dv_type := DtInt64, dv_intValue := cw_intValue c\<rparr>
     | CvUInt64 \<Rightarrow> v\<lparr>dv_type := DtUInt64, dv_uintValue := cw_uintValue c\<rparr>
     | CvFloat64 \<Rightarrow> v\<lparr>dv_type := DtFloat64, dv_floatValue := cw_floatValue c\<rparr>
     | CvText \<Rightarrow> v\<lparr>dv_type := DtText, dv_textValue := c_text (cw_textValue c)\<rparr>)"

definition command_detail :: "ChannelWriteCommand \<Rightarrow> string \<Rightarrow> string" where
  "command_detail c rest = ''seq='' @ decimal (unat (cw_sequence c)) @ '' channel='' @
     decimal (unat (cw_channelId c)) @ rest"

definition origin_text :: "ChannelWriteCommand \<Rightarrow> string" where
  "origin_text c = '' origin='' @ c_text (cw_origin c)"

definition executeCoreCommand :: "int \<Rightarrow> ChannelWriteCommand \<Rightarrow> 's application \<Rightarrow> 's application" where
  "executeCoreCommand unixNow c a =
     (let missing = emitCoreEvent unixNow ''commands'' ''rejected'' SevWarning (command_detail c '' missing'') a;
          refused = emitCoreEvent unixNow ''commands'' ''rejected'' SevWarning ''target-not-writable'' a
      in case registry_find (cw_channelId c) (ga_channels a) of
        None \<Rightarrow> missing
      | Some binding \<Rightarrow>
          if \<not> bd_enabled binding \<or> \<not> bd_writable binding then missing
          else (case describeBoundChannel binding a of
            None \<Rightarrow> refused
          | Some descriptor \<Rightarrow>
              if \<not> dp_writable descriptor then refused
              else
                let value = command_value c;
                    (written, m) = (if dp_type descriptor \<noteq> dv_type value then (False, ga_modbus a)
                      else writePoint (bd_pointId binding) value (ga_modbus a));
                    a = a\<lparr>ga_modbus := m\<rparr>
                in if \<not> written
                   then emitCoreEvent unixNow ''commands'' ''execution-failed'' SevWarning
                     (command_detail c (origin_text c)) a
                   else emitCoreEvent unixNow ''commands'' ''executed'' SevInfo
                     (command_detail c (origin_text c)) a))"

fun processCommands :: "nat \<Rightarrow> int \<Rightarrow> 's application \<Rightarrow> 's application" where
  "processCommands 0 unixNow a = a"
| "processCommands (Suc n) unixNow a =
     (case commandBus_dequeue kCommandCapacity (ga_commands a) of
        (None, _) \<Rightarrow> a
      | (Some c, b) \<Rightarrow> processCommands n unixNow (executeCoreCommand unixNow c (a\<lparr>ga_commands := b\<rparr>)))"

definition processCoreCommands :: "int \<Rightarrow> 's application \<Rightarrow> 's application" where
  "processCoreCommands unixNow a = processCommands 4 unixNow a"

section \<open>Uplinks\<close>

definition updateCompatibilityConnectionState :: "int \<Rightarrow> 's application \<Rightarrow> 's application" where
  "updateCompatibilityConnectionState unixNow a =
     (let connected = lora_connected a;
          greet = (\<lambda>a. emitCoreEvent unixNow ''lorawan'' ''connected'' SevInfo [] (a\<lparr>ga_basicInfoPending := True\<rparr>))
      in if \<not> ga_connectionInitialized a then
           (let a = a\<lparr>ga_connectionInitialized := True, ga_wasConnected := connected\<rparr>
            in if connected then greet a else a)
         else if ga_wasConnected a = connected then a
         else (if connected then greet a
               else emitCoreEvent unixNow ''lorawan'' ''disconnected'' SevWarning [] a)
                \<lparr>ga_wasConnected := connected\<rparr>)"

text \<open>\<open>mac\<close> is \<^verbatim>\<open>hardwareMac48()\<close>.\<close>

definition processCompatibilityBasicInfo :: "u64 \<Rightarrow> 's application \<Rightarrow> bool \<times> 's application" where
  "processCompatibilityBasicInfo mac a =
     (if \<not> ga_basicInfoPending a \<or> \<not> lora_connected a then (False, a)
      else
        let info = \<lparr>bi_serialNumber = [0x02, byte_of 5 mac, byte_of 4 mac, byte_of 3 mac, byte_of 2 mac,
                byte_of 1 mac, byte_of 0 mac, 0x01],
              bi_protocolVersion = 0x01, bi_tslMajor = 0x01, bi_tslMinor = 0x00, bi_hardwareMajor = 0x04,
              bi_hardwareMinor = 0x20, bi_softwareMajor = 0x00, bi_softwareMinor = 0x00,
              bi_deviceType = (if ga_classC a then 0x02 else 0x00)\<rparr>
        in case encodeBasicInfo info (ga_resetEventPending a) (Some 34) of
             Inl _ \<Rightarrow> (True, a)
           | Inr payload \<Rightarrow>
               if payload = [] then (True, a)
               else
                 let (ok, a) = app_send kCompatibilityFPort payload a
                 in if \<not> ok then (True, a)
                    else (True, a\<lparr>ga_basicInfoPending := False, ga_resetEventPending := False\<rparr>))"

definition processTwoWayPassThroughUplink :: "'s application \<Rightarrow> bool \<times> 's application" where
  "processTwoWayPassThroughUplink a =
     (if \<not> ga_twoWayFramePending a then (False, a)
      else if \<not> lora_connected a then (True, a)
      else
        let settings = mc_masterSettings (ga_modbus a)
        in if ms_passThroughMode settings \<noteq> passthrough_code PtTwoWay
           then (False, a\<lparr>ga_twoWayFramePending := False, ga_twoWayFrame := []\<rparr>)
           else
             let (ok, a) = app_send (ms_passThroughPort settings) (ga_twoWayFrame a) a
             in if \<not> ok then (True, a)
                else (True, a\<lparr>ga_twoWayFramePending := False, ga_twoWayFrame := []\<rparr>))"

definition processModbusPassThroughResponse :: "'s application \<Rightarrow> bool \<times> 's application" where
  "processModbusPassThroughResponse a =
     (let (taken, m) = takeRawCompletion (ga_modbus a); a = a\<lparr>ga_modbus := m\<rparr>
      in case taken of
           None \<Rightarrow> (False, a)
         | Some completion \<Rightarrow>
             if rw_origin completion = OriginRule then (True, a)
             else if \<not> rw_success completion \<or> rw_payload completion = [] then (True, a)
             else (True, snd (app_send (ms_passThroughPort (mc_masterSettings (ga_modbus a)))
                     (rw_payload completion) a)))"

text \<open>\<^verbatim>\<open>%u\<close> of the status of a failed poll.\<close>

fun rtu_status_code :: "RtuDecodeStatus \<Rightarrow> nat" where
  "rtu_status_code RtuOk = 0" | "rtu_status_code RtuInvalidConfig = 1"
| "rtu_status_code RtuBufferTooSmall = 2" | "rtu_status_code RtuTruncated = 3"
| "rtu_status_code RtuCrcMismatch = 4" | "rtu_status_code RtuSlaveMismatch = 5"
| "rtu_status_code RtuFunctionMismatch = 6" | "rtu_status_code RtuExceptionResponse = 7"
| "rtu_status_code RtuLengthMismatch = 8"

definition captureModbusCompatibilitySample :: "u32 \<Rightarrow> int \<Rightarrow> 's application \<Rightarrow> 's application" where
  "captureModbusCompatibilitySample nowMs unixNow a =
     (let (taken, m) = takeCompletedPoll (ga_modbus a); a = a\<lparr>ga_modbus := m\<rparr>
      in case taken of
           None \<Rightarrow> a
         | Some completion \<Rightarrow>
             let a = evaluateChannelRules nowMs unixNow completion a;
                 channel = po_channel completion;
                 a = (if po_success completion then a
                      else emitCoreEvent unixNow ''modbus'' ''poll-failure'' SevWarning
                        (''slot='' @ decimal (unat (ch_slot channel)) @ '' status='' @
                         decimal (rtu_status_code (po_status completion)) @ '' exception='' @
                         decimal (unat (po_exceptionCode completion))) a)
             in a\<lparr>ga_scheduler := recordPoll channel (po_success completion) (Some (po_values completion))
                      (po_valueCount completion) (ga_scheduler a),
                  ga_history := captureHistorySample channel (po_success completion) (po_values completion)
                      (po_valueCount completion) (ga_history a)\<rparr>)"

definition processModbusCompatibilityReport :: "u32 \<Rightarrow> 's application \<Rightarrow> 's application" where
  "processModbusCompatibilityReport nowMs a =
     (if ga_loraMode a \<noteq> LoRaLoRaWAN \<or> \<not> lk_active (ga_link a) then a
      else
        let (status, payload, s) = preparePacket nowMs (Some kCompatibilityReportPayloadLimit) (ga_scheduler a);
            a = a\<lparr>ga_scheduler := s\<rparr>
        in if status = NotDue \<or> status = EmptyReport then a
           else if status = EncodeError \<or> status = BufferTooSmall then a\<lparr>ga_scheduler := abortReport s\<rparr>
           else if payload = [] then a\<lparr>ga_scheduler := abortReport s\<rparr>
           else
             let (ok, a) = app_send kCompatibilityFPort payload a
             in if ok then a\<lparr>ga_scheduler := markPacketSent nowMs (ga_scheduler a)\<rparr>
                else a\<lparr>ga_scheduler := markPacketFailed nowMs (ga_scheduler a)\<rparr>)"

section \<open>The main loop\<close>

text \<open>
  What one turn of the loop meets: the clocks, the serial port, and what the services that are not
  modelled hand over (commands from MQTT, the radio's new state with the downlinks it dispatches).
\<close>

record loop_inputs =
  li_nowMs :: u32
  li_nowUs :: u32
  li_unixNow :: int
  li_sent :: nat
  li_rx :: rx
  li_mac :: u64
  li_mqtt :: "(ChannelBinding \<times> bytes) list"
  li_radio :: "lora_link \<Rightarrow> lora_link"
  li_downlinks :: "(u8 \<times> bytes) list"

fun dispatchDownlinks ::
    "'s prefs \<Rightarrow> serial_constants \<Rightarrow> u32 \<Rightarrow> int \<Rightarrow> (u8 \<times> bytes) list \<Rightarrow> 's application \<Rightarrow>
       's application option" where
  "dispatchDownlinks P SER nowMs unixNow [] a = Some a"
| "dispatchDownlinks P SER nowMs unixNow ((fport, payload) # rest) a =
     (case handleLoRaDownlink P SER nowMs unixNow fport (Some payload) a of
        None \<Rightarrow> None | Some (_, a) \<Rightarrow> dispatchDownlinks P SER nowMs unixNow rest a)"

definition app_historyQueryTurn :: "u32 \<Rightarrow> 's application \<Rightarrow> bool \<times> 's application" where
  "app_historyQueryTurn nowMs a =
     (let (active, t, h) = processHistoryQuery nowMs (lk_transport (ga_link a)) (ga_history a)
      in (active, a\<lparr>ga_link := (ga_link a)\<lparr>lk_transport := t\<rparr>, ga_history := h\<rparr>))"

definition app_retransmissionTurn :: "'s prefs \<Rightarrow> u32 \<Rightarrow> 's application \<Rightarrow> bool \<times> 's application" where
  "app_retransmissionTurn P nowMs a =
     (let (active, t, h) = processHistoryRetransmission P nowMs (lk_transport (ga_link a)) (ga_history a)
      in (active, a\<lparr>ga_link := (ga_link a)\<lparr>lk_transport := t\<rparr>, ga_history := h\<rparr>))"

text \<open>
  The three pass-through and information uplinks in their order, each only if none before it was
  active: whether one was. (A raw completion is taken in any case.)
\<close>

definition directUplinks :: "u64 \<Rightarrow> 's application \<Rightarrow> bool \<times> 's application" where
  "directUplinks mac a =
     (let (handled, a) = processModbusPassThroughResponse a
      in if handled then (True, a)
         else let (handled, a) = processCompatibilityBasicInfo mac a
           in if handled then (True, a) else processTwoWayPassThroughUplink a)"

text \<open>The replies and reports, when no direct uplink was active.\<close>

definition queuedUplinks :: "'s prefs \<Rightarrow> u32 \<Rightarrow> 's application \<Rightarrow> 's application" where
  "queuedUplinks P nowMs a =
     (let (active, a) = processRuleReply a
      in if active then a
         else let (active, a) = app_historyQueryTurn nowMs a
           in if active then a
              else let (active, a) = app_retransmissionTurn P nowMs a
                in if active then a else processModbusCompatibilityReport nowMs a)"

definition application_turn ::
    "'s prefs \<Rightarrow> serial_constants \<Rightarrow> (bytes \<Rightarrow> json_value option) \<Rightarrow> loop_inputs \<Rightarrow> 's application \<Rightarrow>
       's application option" where
  "application_turn P SER parse i a =
     (let nowMs = li_nowMs i; unixNow = li_unixNow i;
          a = fold (\<lambda>(b, payload) a. snd (writeBoundChannelFromMqtt parse unixNow b (Some payload) a)) (li_mqtt i) a;
          a = processCoreCommands unixNow a
      in case dispatchDownlinks P SER nowMs unixNow (li_downlinks i)
              (a\<lparr>ga_link := li_radio i (ga_link a)\<rparr>) of
        None \<Rightarrow> None
      | Some a \<Rightarrow>
          let a = updateCompatibilityConnectionState unixNow a;
              a = a\<lparr>ga_history := processHistoryNetworkState P (lora_connected a) nowMs unixNow (ga_history a)\<rparr>;
              a = a\<lparr>ga_modbus := component_loop (li_sent i) (li_rx i) (li_nowUs i) nowMs (ga_modbus a)\<rparr>;
              a = processPassiveRs485Frame nowMs unixNow a;
              (direct, a) = directUplinks (li_mac i) a;
              a = captureModbusCompatibilitySample nowMs unixNow a;
              a = processRuleExecution nowMs unixNow a;
              a = a\<lparr>ga_history := processHistoryStorage P nowMs unixNow (rp_settings (ga_scheduler a)) (ga_history a)\<rparr>
          in Some (if direct then a else queuedUplinks P nowMs a))"

section \<open>Restoring the persisted state\<close>

text \<open>A chain of steps of \<^verbatim>\<open>begin\<close>, which returns false at the first that fails.\<close>

definition and_then ::
    "(bool \<times> 'a) option \<Rightarrow> ('a \<Rightarrow> (bool \<times> 'a) option) \<Rightarrow> (bool \<times> 'a) option" where
  "and_then r f = (case r of None \<Rightarrow> None | Some (ok, a) \<Rightarrow> if \<not> ok then Some (False, a) else f a)"

definition loadRs485Settings ::
    "'s prefs \<Rightarrow> serial_constants \<Rightarrow> u32 \<Rightarrow> 's application \<Rightarrow> (bool \<times> 's application) option" where
  "loadRs485Settings P SER nowMs a = Some (case rs485Store_load P (ga_rs485Ns a) of
       None \<Rightarrow> (False, a)
     | Some settings \<Rightarrow> (case applyRs485SerialSettings SER nowMs settings (ga_modbus a) of
           (ok, m) \<Rightarrow> (ok, a\<lparr>ga_modbus := m\<rparr>)))"

definition loadModbusMasterSettings ::
    "'s prefs \<Rightarrow> serial_constants \<Rightarrow> u32 \<Rightarrow> 's application \<Rightarrow> (bool \<times> 's application) option" where
  "loadModbusMasterSettings P SER nowMs a = Some (case masterStore_load P (ga_masterNs a) of
       None \<Rightarrow> (False, a)
     | Some settings \<Rightarrow> (case applyModbusMasterSettings SER nowMs settings (ga_modbus a) of
           (ok, m) \<Rightarrow> (ok, a\<lparr>ga_modbus := m\<rparr>)))"

definition loadReportSettings :: "'s prefs \<Rightarrow> u32 \<Rightarrow> 's application \<Rightarrow> (bool \<times> 's application) option" where
  "loadReportSettings P nowMs a = Some (case reportStore_load P (ga_reportNs a) of
       None \<Rightarrow> (False, a)
     | Some seconds \<Rightarrow> (True, a\<lparr>ga_scheduler := scheduler_begin seconds nowMs (ga_scheduler a),
           ga_history := (ga_history a)\<lparr>hp_nextSnapshotAtMs := nowMs + intervalMs seconds\<rparr>\<rparr>))"

definition loadTimeSettings :: "'s prefs \<Rightarrow> 's application \<Rightarrow> (bool \<times> 's application) option" where
  "loadTimeSettings P a = Some (case timeStore_load P (ga_timeNs a) of
       None \<Rightarrow> (False, a) | Some t \<Rightarrow> (True, a\<lparr>ga_time := t\<rparr>))"

definition loadHistoryState :: "'s prefs \<Rightarrow> 's application \<Rightarrow> (bool \<times> 's application) option" where
  "loadHistoryState P a = (let h = ga_history a in
     case historySettings_load P (hp_settingsNs h) of
       None \<Rightarrow> Some (False, a)
     | Some settings \<Rightarrow>
         let h = h\<lparr>hp_settings := settings\<rparr>;
             (loaded, ring, generation) = history_load P (hp_dataNs h) (hp_ring h);
             h = h\<lparr>hp_ring := ring, hp_generation := generation\<rparr>
         in if \<not> loaded then Some (False, a\<lparr>ga_history := h\<rparr>)
            else
              let (ok, rt) = retransmission_load P (hp_retxNs h)
              in Some (ok, a\<lparr>ga_history := h\<lparr>hp_retx := rt\<rparr>\<rparr>))"

definition loadRuleState :: "'s prefs \<Rightarrow> 's application \<Rightarrow> (bool \<times> 's application) option" where
  "loadRuleState P a = (let (ok, rules) = ruleStore_load P (ga_ruleNs a); a = a\<lparr>ga_rules := rules\<rparr>
     in if \<not> ok then Some (False, a) else Some (True, a\<lparr>ga_ruleBootEvaluationPending := True\<rparr>))"

fun restoreChannels :: "ChannelConfig list \<Rightarrow> 's application \<Rightarrow> bool \<times> 's application" where
  "restoreChannels [] a = (True, a)"
| "restoreChannels (channel # channels) a =
     (let (ok, a) = app_upsert channel a
      in if \<not> ok then (False, a)
         else let (bound, a) = bindCompatibilityChannel channel a
           in if \<not> bound then (False, a) else restoreChannels channels a)"

definition loadModbusChannels :: "'s prefs \<Rightarrow> 's application \<Rightarrow> (bool \<times> 's application) option" where
  "loadModbusChannels P a = (case channelStore_load P (ga_channelNs a) of
       None \<Rightarrow> None
     | Some (ok, stored) \<Rightarrow> if \<not> ok then Some (False, a) else Some (restoreChannels stored a))"

definition application_restore ::
    "'s prefs \<Rightarrow> serial_constants \<Rightarrow> u32 \<Rightarrow> 's application \<Rightarrow> (bool \<times> 's application) option" where
  "application_restore P SER nowMs a =
     and_then (loadRs485Settings P SER nowMs
       (a\<lparr>ga_modbus := component_setMode (ga_modbusMode a) (ga_modbus a)\<rparr>)) (\<lambda>a.
     and_then (loadModbusMasterSettings P SER nowMs a) (\<lambda>a.
     and_then (loadReportSettings P nowMs a) (\<lambda>a.
     and_then (loadTimeSettings P a) (\<lambda>a.
     and_then (loadHistoryState P a) (\<lambda>a.
     and_then (loadRuleState P a) (loadModbusChannels P))))))"

end
