(* ===== verification/DownlinkProperties.thy ===== *)
theory DownlinkProperties
  imports ApplicationLoop StoreProperties
begin

text \<open>
  What the downlink handler promises the network: a payload of command frames is read as exactly
  those commands, and nothing of a payload with a malformed command is carried out.
\<close>

section \<open>The parser of one command\<close>

lemma accept_Inr [simp]: "accept kind d = Inr (p, n) \<longleftrightarrow> (\<exists>c. d = Inr (c, n) \<and> 0 < n \<and> p = kind c)"
  by (auto simp: accept_def split: sum.splits)

lemma accept_if_Inr [simp]:
  "accept_if ok kind d = Inr (p, n) \<longleftrightarrow> (\<exists>c. d = Inr (c, n) \<and> 0 < n \<and> p = kind c \<and> ok c)"
  by (auto simp: accept_if_def accept_def split: sum.splits)

interpretation reportInterval: command_decoder
  "\<lambda>p. case decodeReportIntervalCommand p of None \<Rightarrow> Inl DecodeInvalid | Some d \<Rightarrow> Inr d"
  by (rule command_decoderI)
     (auto simp: decodeReportIntervalCommand_def decoder_proof split: if_splits)

lemma accept_Inl: "\<exists>e. d = Inl e \<Longrightarrow> (\<exists>e. accept kind d = Inl e) \<and> (\<exists>e. accept_if ok kind d = Inl e)"
  by (auto simp: accept_def accept_if_def)

text \<open>A decoder that keeps the contract keeps it behind \<open>accept\<close>.\<close>

lemma accept_decoder:
  assumes "command_decoder d"
  shows "command_decoder (\<lambda>p. accept kind (d p))" "command_decoder (\<lambda>p. accept_if ok kind (d p))"
  using accept_Inl [OF command_decoder.null [OF assms]]
  by unfold_locales (auto dest: command_decoder.consumed [OF assms] command_decoder.verified [OF assms]
      command_decoder.framed [OF assms])

lemma rejecting_decoder: "command_decoder (\<lambda>p. Inl e)"
  by unfold_locales simp_all

lemmas branch_decoders =
  accept_decoder [OF basicControl.command_decoder_axioms] accept_decoder [OF periodicEnquiry.command_decoder_axioms]
  accept_decoder [OF utcTimezone.command_decoder_axioms] accept_decoder [OF lnsTimeSync.command_decoder_axioms]
  accept_decoder [OF dstSettings.command_decoder_axioms] accept_decoder [OF dataStorage.command_decoder_axioms]
  accept_decoder [OF dataRetransmission.command_decoder_axioms]
  accept_decoder [OF retransmissionInterval.command_decoder_axioms]
  accept_decoder [OF retrievabilityInterval.command_decoder_axioms]
  accept_decoder [OF historyQuery.command_decoder_axioms] accept_decoder [OF ruleStatus.command_decoder_axioms]
  accept_decoder [OF ruleEnquiry.command_decoder_axioms] accept_decoder [OF ruleConfiguration.command_decoder_axioms]
  accept_decoder [OF rs485Settings.command_decoder_axioms] accept_decoder [OF masterSettings.command_decoder_axioms]
  accept_decoder [OF settingsEnquiry.command_decoder_axioms] accept_decoder [OF modbusChannel.command_decoder_axioms]
  accept_decoder [OF reportInterval.command_decoder_axioms] rejecting_decoder

lemma accept_interval:
  "(case r of None \<Rightarrow> Inl DecodeInvalid | Some d \<Rightarrow> accept kind (Inr d)) =
     accept kind (case r of None \<Rightarrow> Inl DecodeInvalid | Some d \<Rightarrow> Inr d)"
  by (simp add: accept_def split: option.splits)

lemma branch_decoder: "command_decoder (decodeBranch h)"
proof -
  obtain i t where h: "h = (i, t)" by fastforce
  have pick: "command_decoder (\<lambda>p. if b then d p else d' p)"
    if "command_decoder d" "command_decoder d'" for b and d d' :: "bytes ptr \<Rightarrow> ParsedCommand decoded"
    using that by (cases b) simp_all
  show ?thesis
    unfolding decodeBranch_def [abs_def] h Let_def case_prod_conv accept_interval
    by (intro pick branch_decoders)
qed

interpretation downlink: command_decoder parseCommand
proof
  show "\<exists>e. parseCommand None = Inl e" by (simp add: parseCommand_def readHeader_def short_def)
next
  fix bs :: bytes and c n assume d: "parseCommand (Some bs) = Inr (c, n)"
  then have h: "decodeBranch (bs ! 0, bs ! 1) (Some bs) = Inr (c, n)"
    by (auto simp: parseCommand_def readHeader_def split: if_splits)
  show n: "3 \<le> n \<and> n \<le> length bs" by (rule command_decoder.consumed [OF branch_decoder h])
  show "isVerifiedCommandPrefix (bs ! 0, bs ! 1)" by (rule command_decoder.verified [OF branch_decoder h])
  fix ds assume ds: "n \<le> length ds" "take n ds = take n bs"
  then have "ds ! 0 = bs ! 0" "ds ! 1 = bs ! 1" using n by (auto intro: frame_nth [OF ds(2)])
  moreover have "\<not> short (Some ds) 2" using n ds(1) by (simp add: short_def)
  ultimately show "parseCommand (Some ds) = Inr (c, n)"
    using command_decoder.framed [OF branch_decoder h ds] by (simp add: parseCommand_def readHeader_def)
qed

section \<open>Sequences of commands\<close>

lemma parseCommands_stream: "parseCommands bs = downlink.stream bs"
proof (induction bs rule: parseCommands.induct)
  case (1 bs)
  then show ?case
    by (subst parseCommands.simps, subst downlink.stream.simps)
       (auto split: sum.splits option.splits simp: map_option_case)
qed

lemma parseCommands_append:
  "parseCommands xs = Some cs \<Longrightarrow> parseCommands (xs @ ys) = map_option ((@) cs) (parseCommands ys)"
proof (induction xs arbitrary: cs rule: parseCommands.induct)
  case (1 xs)
  show ?case
  proof (cases "xs = []")
    case True
    with 1(2) show ?thesis by (simp add: parseCommands.simps option.map_ident)
  next
    case False
    with 1(2) obtain c n ds where c: "parseCommand (Some xs) = Inr (c, n)" and
      ds: "parseCommands (drop n xs) = Some ds" "cs = c # ds"
      by (subst (asm) parseCommands.simps) (auto split: sum.splits option.splits)
    have n: "n \<le> length xs" using downlink.consumed [OF c] by simp
    have "parseCommands (drop n xs @ ys) = map_option ((@) ds) (parseCommands ys)"
      using 1(1) [OF False c refl ds(1)] .
    then show ?thesis
      using False downlink.extended [OF c, of ys] n ds(2)
      by (subst parseCommands.simps) (auto split: option.splits)
  qed
qed

section \<open>The handler\<close>

text \<open>No command begins with a character of a server message.\<close>

lemma command_is_no_message:
  assumes "parseCommands xs = Some cs" "xs \<noteq> []"
  shows "\<not> validServerMessage (Some (xs @ ys))"
proof -
  obtain c n where "parseCommand (Some xs) = Inr (c, n)"
    using assms by (subst (asm) parseCommands.simps) (auto split: sum.splits)
  then have "isVerifiedCommandPrefix (xs ! 0, xs ! 1)" by (rule downlink.verified)
  then have "\<not> allowedServerMessageByte (xs ! 0)"
    by (auto simp: isVerifiedCommandPrefix_def allowedServerMessageByte_def kSystemChannel_def
        kModbusChannel_def kHistoryQueryChannel_def)
  with assms(2) show ?thesis by (cases xs) (auto simp: validServerMessage_def)
qed

lemma handle_commands:
  assumes "parseCommands xs = Some cs" "xs \<noteq> []"
  shows "handleLoRaDownlink P SER t u kCompatibilityFPort (Some (xs @ ys)) a =
    (case parseCommands (xs @ ys) of None \<Rightarrow> Some (False, a) | Some ds \<Rightarrow> executeCommands P SER t ds a)"
  using assms(2) command_is_no_message [OF assms] by (simp add: handleLoRaDownlink_def)

text \<open>
  C14. A downlink carries any number of commands: the concatenation of the frames of a sequence of
  commands has the effect and the result of executing these commands one after the other, up to the
  first that fails.
\<close>

theorem downlink_concatenates:
  assumes "list_all2 (\<lambda>f c. parseCommand (Some f) = Inr (c, length f)) fs cs" "cs \<noteq> []"
  shows "handleLoRaDownlink P SER nowMs unixNow kCompatibilityFPort (Some (concat fs)) a =
    executeCommands P SER nowMs cs a"
proof -
  have p: "parseCommands (concat fs) = Some cs"
    using downlink.stream_frames [OF assms(1)] by (simp add: parseCommands_stream)
  moreover have "concat fs \<noteq> []" using p assms(2) by (metis downlink.stream_Nil parseCommands_stream option.inject)
  ultimately show ?thesis using handle_commands [of "concat fs" cs P SER nowMs unixNow "[]"] by simp
qed

text \<open>
  C15. A downlink is all or nothing as far as its form goes: when anything behind some well-formed
  commands is malformed, not even these commands are executed and the state stays as it was.
\<close>

theorem malformed_downlink_ignored:
  assumes "parseCommands xs = Some cs" "xs \<noteq> []" "parseCommands bad = None"
  shows "handleLoRaDownlink P SER nowMs unixNow kCompatibilityFPort (Some (xs @ bad)) a = Some (False, a)"
  by (simp only: handle_commands [OF assms(1,2)] parseCommands_append [OF assms(1)] assms(3) option.map option.case)

definition sample_application :: "(string \<Rightarrow> PrefValue option) application" where
  "sample_application = initial_application (\<lambda>_ _ _. 1) ModbusMaster LoRaLoRaWAN Map.empty"

text \<open>Rebooting and asking for a report.\<close>

lemmas branch_simps = parseCommand_def readHeader_def decodeBranch_def accept_def Let_def

lemma reboot_frame: "parseCommand (Some [0xff, 0x10, 0xff]) = Inr (PcBasicControl Reboot, 3)"
  by (simp add: branch_simps decodeBasicControlCommand_def)

lemma enquiry_frame: "parseCommand (Some [0xff, 0x28, 0xff]) = Inr (PcPeriodicReportEnquiry, 3)"
  by (simp add: branch_simps decodePeriodicReportEnquiryCommand_def)

lemma cut_interval_frame: "parseCommands [0xff, 0x03, 0x3c] = None"
  by (subst parseCommands.simps)
    (simp add: branch_simps decodeReportIntervalCommand_def)

lemma downlink_concatenates_witness:
  "map_option (\<lambda>(ok, a). (ok, ga_rebootRequested a))
     (handleLoRaDownlink map_prefs (\<lambda>_ _ _. 1) 0 0 85 (Some [0xff, 0x28, 0xff, 0xff, 0x10, 0xff])
       sample_application) = Some (True, True)"
  using downlink_concatenates [of "[[0xff, 0x28, 0xff], [0xff, 0x10, 0xff]]"
      "[PcPeriodicReportEnquiry, PcBasicControl Reboot]" map_prefs "\<lambda>_ _ _. 1" 0 0]
  by (simp add: reboot_frame enquiry_frame kCompatibilityFPort_def executeCommand_def)

lemma malformed_downlink_ignored_witness:
  "handleLoRaDownlink map_prefs (\<lambda>_ _ _. 1) 0 0 85 (Some [0xff, 0x10, 0xff, 0xff, 0x03, 0x3c])
     sample_application =
   Some (False, sample_application)"
  using malformed_downlink_ignored [of "[0xff, 0x10, 0xff]" "[PcBasicControl Reboot]" "[0xff, 0x03, 0x3c]"
      map_prefs "\<lambda>_ _ _. 1" 0 0]
  by (simp add: reboot_frame cut_interval_frame parseCommands.simps [of "[255, 16, 255]"]
      parseCommands.simps [of "[]"] kCompatibilityFPort_def)

end
