(* ===== verification/Persistence.thy ===== *)
theory Persistence
  imports DownlinkProperties RuleProperties ComponentProperties
begin

text \<open>
  Durability of the configuration: what the application runs with is what its stores hold, and a
  downlink that is acknowledged keeps it that way.
\<close>

section \<open>The channel table as a map\<close>

lemma find_replace_first:
  "replace_first (\<lambda>x. f x = f y) y xs = Some ys \<Longrightarrow>
    find (\<lambda>x. f x = a) ys = (if f y = a then Some y else find (\<lambda>x. f x = a) xs)"
proof (induction xs arbitrary: ys)
  case (Cons x xs)
  then show ?case by (cases "f x = f y") auto
qed simp

lemma find_unreplaced: "replace_first p y xs = None \<Longrightarrow> find p xs = None"
  by (simp add: replace_first_None find_None_iff)

lemma find_snoc: "find p (xs @ [y]) = (case find p xs of None \<Rightarrow> if p y then Some y else None | Some x \<Rightarrow> Some x)"
  by (induction xs) simp_all

lemma find_erase_first:
  "distinct (map f xs) \<Longrightarrow> erase_first (\<lambda>x. f x = b) xs = Some ys \<Longrightarrow>
    find (\<lambda>x. f x = a) ys = (if a = b then None else find (\<lambda>x. f x = a) xs)"
proof (induction xs arbitrary: ys)
  case (Cons x xs)
  then show ?case by (cases "f x = b") (auto simp: find_None_iff image_iff)
qed simp

lemma erase_first_None: "erase_first p xs = None \<Longrightarrow> find p xs = None"
  by (induction xs) (auto split: if_splits)

lemma interruptBus_settings [simp]:
  "mc_channels (interruptBus c) = mc_channels c" "mc_mode (interruptBus c) = mc_mode c"
  "mc_rs485Settings (interruptBus c) = mc_rs485Settings c"
  "mc_masterSettings (interruptBus c) = mc_masterSettings c"
  by (simp_all add: interruptBus_def clearPendingWrite_def)

lemma channelForSlot_upsert:
  assumes "upsertChannel x c = (True, c')"
  shows "channelForSlot slot c' = (if slot = ch_slot x then Some x else channelForSlot slot c)"
proof (cases "replace_first (\<lambda>y. ch_slot y = ch_slot x) x (mc_channels c)")
  case None
  with assms find_unreplaced [OF None] show ?thesis
    by (auto simp: upsertChannel_def channelForSlot_def Let_def find_snoc split: if_splits option.splits)
next
  case (Some ys)
  with assms find_replace_first [OF Some, of slot] show ?thesis
    by (auto simp: upsertChannel_def channelForSlot_def Let_def split: if_splits)
qed

lemma channelForSlot_remove:
  assumes "table_ok (mc_channels c)"
  shows "channelForSlot s (snd (removeChannel slot c)) = (if s = slot then None else channelForSlot s c)"
  using assms erase_first_None [of "\<lambda>x. ch_slot x = slot" "mc_channels c"]
  by (auto simp: removeChannel_def channelForSlot_def table_ok_def Let_def find_erase_first split: option.splits)

lemma upsert_settings:
  "mc_rs485Settings (snd (upsertChannel x c)) = mc_rs485Settings c"
  "mc_masterSettings (snd (upsertChannel x c)) = mc_masterSettings c"
  "mc_rs485Settings (snd (removeChannel slot c)) = mc_rs485Settings c"
  "mc_masterSettings (snd (removeChannel slot c)) = mc_masterSettings c"
  by (simp_all add: upsertChannel_def removeChannel_def Let_def split: option.splits)

section \<open>What is persisted\<close>

definition persisted :: "'s prefs \<Rightarrow> 's application \<Rightarrow> bool" where
  "persisted P a =
     (bookkeeping_ok (ga_modbus a) \<and>
      rs485Store_load P (ga_rs485Ns a) = Some (mc_rs485Settings (ga_modbus a)) \<and>
      masterStore_load P (ga_masterNs a) = Some (mc_masterSettings (ga_modbus a)) \<and>
      reportStore_load P (ga_reportNs a) = Some (rp_settings (ga_scheduler a)) \<and>
      timeStore_load P (ga_timeNs a) = Some (ga_time a) \<and>
      historySettings_load P (hp_settingsNs (ga_history a)) = Some (hp_settings (ga_history a)) \<and>
      retransmission_load P (hp_retxNs (ga_history a)) = (True, hp_retx (ga_history a)) \<and>
      holds_rules P (ga_ruleNs a) (ga_rules a) \<and>
      stores P (ga_channelNs a)
        (\<lambda>n. if n < 32 then channelForSlot (of_nat n) (ga_modbus a) else None))"

lemma persistedD:
  assumes "persisted P a"
  shows "bookkeeping_ok (ga_modbus a)" "holds_rules P (ga_ruleNs a) (ga_rules a)"
    "stores P (ga_channelNs a) (\<lambda>n. if n < 32 then channelForSlot (of_nat n) (ga_modbus a) else None)"
  using assms by (simp_all add: persisted_def)

text \<open>The parts of the state it reads.\<close>

definition config_view :: "'s application \<Rightarrow> _" where
  "config_view a = (ga_modbus a, rp_settings (ga_scheduler a), ga_time a, hp_settingsNs (ga_history a),
     hp_settings (ga_history a), hp_retxNs (ga_history a), hp_retx (ga_history a), ga_rules a,
     (ga_rs485Ns a, ga_masterNs a, ga_reportNs a, ga_timeNs a, ga_ruleNs a, ga_channelNs a))"

lemma persisted_view: "config_view a' = config_view a \<Longrightarrow> persisted P a' = persisted P a"
  by (simp add: config_view_def persisted_def cong: if_cong)

lemma stores_cong: "stores P s m \<Longrightarrow> (\<And>n. n < 32 \<Longrightarrow> m' n = m n) \<Longrightarrow> stores P s m'"
  by (simp add: stores_def)

section \<open>The commands\<close>

lemma emit_view [simp]: "config_view (emitCoreEvent u s t v d a) = config_view a"
  by (simp add: emitCoreEvent_def config_view_def)

lemma trigger_view [simp]: "config_view (triggerRule t u i r a) = config_view a"
  by (simp add: triggerRule_def scheduleRuleActions_def config_view_def emitCoreEvent_def)

lemma app_send_view [simp]: "config_view (snd (app_send p d a)) = config_view a"
  by (simp add: app_send_def config_view_def split: prod.splits)

lemma forEnabledRules_view:
  "(\<And>i r a. config_view (f i r a) = config_view a) \<Longrightarrow> config_view (forEnabledRules f a) = config_view a"
  unfolding forEnabledRules_def
  by (rule fold_invariant [where Q = "\<lambda>_. True" and P = "\<lambda>b. config_view b = config_view a"])
    (auto split: option.splits)

lemma offer_view [simp]: "config_view (snd (offerServerMessage t u p a)) = config_view a"
  by (simp add: offerServerMessage_def forEnabledRules_view)

lemmas persisted_ops = persisted_def emitCoreEvent_def Let_def

lemma rs485_persisted:
  assumes "prefs_laws P" "persisted P a" "applyRs485SettingsCommand P SER t s a = (True, a')"
  shows "persisted P a'"
proof -
  obtain m ns where m: "applyRs485SerialSettings SER t s (ga_modbus a) = (True, m)"
    and ns: "rs485Store_save P s (ga_rs485Ns a) = (True, ns)" and a': "a' = a\<lparr>ga_modbus := m, ga_rs485Ns := ns\<rparr>"
    using assms(3) by (auto simp: applyRs485SettingsCommand_def Let_def split: if_splits prod.splits)
  have "bookkeeping_ok m" using settings_ok(1) [OF persistedD(1) [OF assms(2)], of SER t s] m by simp
  moreover have "mc_rs485Settings m = s" "mc_masterSettings m = mc_masterSettings (ga_modbus a)"
    "mc_channels m = mc_channels (ga_modbus a)"
    using m by (auto simp: applyRs485SerialSettings_def reconfigure_bus_def clearPendingWrite_def Let_def
        split: option.splits if_splits prod.splits)
  ultimately show ?thesis
    using assms(2) line_saved [OF assms(1) ns] a' by (simp add: persisted_def channelForSlot_def cong: if_cong)
qed

lemma master_persisted:
  assumes "prefs_laws P" "persisted P a" "applyModbusMasterSettingsCommand P SER t s a = (True, a')"
  shows "persisted P a'"
proof -
  obtain m ns where m: "applyModbusMasterSettings SER t s (ga_modbus a) = (True, m)"
    and ns: "masterStore_save P s (ga_masterNs a) = (True, ns)"
    and a': "config_view a' = config_view (a\<lparr>ga_modbus := m, ga_masterNs := ns\<rparr>)"
  proof -
    have clear: "rp_settings (fold (\<lambda>slot. scheduler_clearSlot (of_nat slot)) xs x) = rp_settings x" for xs x
      by (induction xs arbitrary: x) (simp_all add: scheduler_clearSlot_def)
    show ?thesis
      using assms(3) that
      by (auto simp: applyModbusMasterSettingsCommand_def Let_def config_view_def clear abortReport_def
          split: if_splits prod.splits)
  qed
  have "bookkeeping_ok m" using settings_ok(2) [OF persistedD(1) [OF assms(2)], of SER t s] m by simp
  moreover have "mc_masterSettings m = s" "mc_rs485Settings m = mc_rs485Settings (ga_modbus a)"
    "mc_channels m = mc_channels (ga_modbus a)"
    using m by (auto simp: applyModbusMasterSettings_def reconfigure_bus_def clearPendingWrite_def Let_def
        split: option.splits if_splits prod.splits)
  ultimately show ?thesis
    using assms(2) master_saved [OF assms(1) ns] unfolding persisted_view [OF a']
    by (simp add: persisted_def channelForSlot_def cong: if_cong)
qed

lemma report_persisted:
  assumes "prefs_laws P" "persisted P a" "applyReportIntervalCommand P t s a = (True, a')"
  shows "persisted P a'"
proof -
  obtain ns where ns: "reportStore_save P s (ga_reportNs a) = (True, ns)"
    and a': "config_view a' = config_view (a\<lparr>ga_reportNs := ns, ga_scheduler := (ga_scheduler a)\<lparr>rp_settings := s\<rparr>\<rparr>)"
    using assms(3) by (auto simp: applyReportIntervalCommand_def scheduler_applySettings_def Let_def config_view_def
        split: if_splits prod.splits)
  then show ?thesis
    using assms(2) report_saved [OF assms(1) ns] unfolding persisted_view [OF a']
    by (simp add: persisted_def cong: if_cong)
qed

lemma time_persisted:
  assumes "prefs_laws P" "persisted P a" "saveTimeSettings P s a = (True, a')"
  shows "persisted P a'"
  using assms(2,3) timeStore_saved [OF assms(1)]
  by (auto simp: saveTimeSettings_def persisted_def Let_def split: if_splits prod.splits cong: if_cong)

lemma history_saved:
  assumes "prefs_laws P" "saveHistorySettings P s h = (True, h')"
  shows "historySettings_load P (hp_settingsNs h') = Some (hp_settings h')"
    "hp_retxNs h' = hp_retxNs h" "hp_retx h' = hp_retx h"
  using assms(2) history_settings_saved(2) [OF assms(1)]
  by (auto simp: saveHistorySettings_def Let_def split: if_splits prod.splits)

lemma drop_saved:
  assumes "prefs_laws P" "dropPendingRetransmission P e h = (True, h')"
    "retransmission_load P (hp_retxNs h) = (True, hp_retx h)"
  shows "retransmission_load P (hp_retxNs h') = (True, hp_retx h')"
    "hp_settingsNs h' = hp_settingsNs h" "hp_settings h' = hp_settings h"
proof -
  have d: "retransmission_save P default_retransmission ns = (True, ns') \<Longrightarrow>
      retransmission_load P ns' = (True, default_retransmission)" for ns ns'
    by (rule retransmission_saved [OF assms(1)]) (simp_all add: default_retransmission_def)
  show "retransmission_load P (hp_retxNs h') = (True, hp_retx h')"
    using assms(2,3) d by (auto simp: dropPendingRetransmission_def finishRetransmission_def Let_def
        split: if_splits prod.splits)
  show "hp_settingsNs h' = hp_settingsNs h" "hp_settings h' = hp_settings h"
    using assms(2) by (auto simp: dropPendingRetransmission_def finishRetransmission_def Let_def
        split: if_splits prod.splits)
qed

lemma history_commands_saved:
  assumes "prefs_laws P" "retransmission_load P (hp_retxNs h) = (True, hp_retx h)"
    "applyHistoryStorageCommand P e h = (True, h') \<or> applyHistoryRetransmissionCommand P e h = (True, h') \<or>
     applyRetrievabilityIntervalCommand P n h = (True, h') \<or> applyRetransmissionIntervalCommand P n h = (True, h')"
  shows "historySettings_load P (hp_settingsNs h') = Some (hp_settings h') \<and>
    retransmission_load P (hp_retxNs h') = (True, hp_retx h')"
proof -
  obtain s h1 where s: "saveHistorySettings P s h = (True, h1)"
    and h': "h' = h1 \<or> dropPendingRetransmission P e h1 = (True, h')"
    using assms(3) by (auto simp: applyHistoryStorageCommand_def applyHistoryRetransmissionCommand_def
        applyRetrievabilityIntervalCommand_def applyRetransmissionIntervalCommand_def Let_def split: if_splits prod.splits)
  show ?thesis
    using h' assms(2) history_saved [OF assms(1) s] drop_saved [OF assms(1), of e h1 h'] by auto
qed

lemma on_history_persisted:
  assumes "prefs_laws P" "persisted P a" "on_history f a = (True, a')"
    "\<And>h. f (ga_history a) = (True, h) \<Longrightarrow> historySettings_load P (hp_settingsNs h) = Some (hp_settings h) \<and>
       retransmission_load P (hp_retxNs h) = (True, hp_retx h)"
  shows "persisted P a'"
  using assms(2,3,4) by (auto simp: on_history_def persisted_def split: prod.splits cong: if_cong)

section \<open>Rule commands\<close>

lemma rule_Some: "rule i st = Some r \<Longrightarrow> 1 \<le> unat i \<and> unat i \<le> 16 \<and> r = st ! (unat i - 1)"
  by (auto simp: rule_def kRuleCount_def Suc_le_eq unat_gt_0 split: if_splits)

lemma rule_Some_ok: "holds_rules P s st \<Longrightarrow> rule i st = Some r \<Longrightarrow> rule_ok r"
  using rule_Some [of i st r] by (auto simp: holds_rules_def)

lemma frame_set_ok:
  "frame_set p f = (True, f') \<Longrightarrow> length (sf_data f) = 58 \<Longrightarrow> length (sf_data f') = 58 \<and> unat (sf_length f') \<le> 58"
  by (auto simp: frame_set_def kMaxRuleFrameLength_def unat_of_nat split: option.splits if_splits)

lemma updated_rule_ok: "rule_ok r \<Longrightarrow> rule_ok (updated_rule op r)"
  by (cases op) (auto simp: updated_rule_def rule_ok_def rule_clear_def frame_clear_def)

lemma rule_with_frame_ok:
  assumes "rule_ok r" "i < 4" "frame_set p (rr_frames r ! i) = (True, f)"
  shows "rule_ok (r\<lparr>rr_enabled := e, rr_frames := (rr_frames r)[i := f]\<rparr>)"
  using assms frame_set_ok [OF assms(3)] set_update_subset_insert [of "rr_frames r" i f]
  by (auto simp: rule_ok_def)

lemma slot_index_bound: "slot_index s < 4"
  by (cases s) simp_all

lemma cancel_view [simp]: "config_view (cancelScheduledRuleActions i a) = config_view a"
  by (simp add: cancelScheduledRuleActions_def config_view_def)

lemma ack_view: "stageRuleConfigurationAck c s a = (ok, a') \<Longrightarrow> config_view a' = config_view a"
  by (auto simp: stageRuleConfigurationAck_def config_view_def Let_def split: if_splits)

lemma rule_stored:
  assumes "prefs_laws P" "persisted P a" "rule i (ga_rules a) = Some r" "rule_ok r'"
    "ruleStore_saveRule P i r' (ga_ruleNs a) = (True, ns)"
  shows "persisted P (a\<lparr>ga_ruleNs := ns, ga_rules := (ga_rules a)[unat i - 1 := r']\<rparr>)"
  using assms(2) rule_saved [OF assms(1) persistedD(2) [OF assms(2)] assms(4,5)]
  by (simp add: persisted_def cong: if_cong)

lemma rule_configuration_persisted:
  assumes "prefs_laws P" "persisted P a" "applyRuleConfigurationCommand P c a = (True, a')"
  shows "persisted P a'"
proof -
  let ?i = "rc_ruleId c" and ?s = "slot_index (rc_slot c)"
  obtain r f ns where r: "rule ?i (ga_rules a) = Some r"
    and f: "frame_set (Some (rc_frame c)) (rr_frames r ! ?s) = (True, f)"
    and ns: "ruleStore_saveRule P ?i (r\<lparr>rr_enabled := rc_enabled c, rr_frames := (rr_frames r)[?s := f]\<rparr>)
        (ga_ruleNs a) = (True, ns)"
    and a': "config_view a' = config_view (a\<lparr>ga_ruleNs := ns, ga_rules := (ga_rules a)[unat ?i - 1 :=
        r\<lparr>rr_enabled := rc_enabled c, rr_frames := (rr_frames r)[?s := f]\<rparr>]\<rparr>)"
    using assms(3)
    by (auto simp: applyRuleConfigurationCommand_def Let_def dest!: ack_view split: option.splits if_splits prod.splits)
  show ?thesis
    unfolding persisted_view [OF a']
    using rule_stored [OF assms(1,2) r _ ns]
      rule_with_frame_ok [OF rule_Some_ok [OF persistedD(2) [OF assms(2)] r] slot_index_bound f] by simp
qed

lemma rule_status_persisted:
  assumes "prefs_laws P" "persisted P a" "applyRuleStatusBits P c ks originals a = (True, a')" "set ks \<subseteq> {..<16}"
  shows "persisted P a'"
  using assms(2,3,4)
proof (induction ks arbitrary: originals a)
  case (Cons k ks)
  show ?case
  proof (cases "rsc_ruleMask c AND push_bit k 1 = 0")
    case True
    with Cons show ?thesis by simp
  next
    case False
    let ?i = "of_nat (k + 1) :: u8"
    have i: "unat ?i = k + 1" using Cons.prems(3) by (intro unat_of_nat_small) simp
    obtain r ns where r: "rule ?i (ga_rules a) = Some r"
      and ns: "ruleStore_saveRule P ?i (updated_rule (rsc_operation c) r) (ga_ruleNs a) = (True, ns)"
      using Cons.prems(2) False by (auto simp: Let_def split: option.splits if_splits prod.splits)
    let ?b = "a\<lparr>ga_ruleNs := ns, ga_rules := (ga_rules a)[k := updated_rule (rsc_operation c) r]\<rparr>"
    let ?c = "if rr_enabled (updated_rule (rsc_operation c) r) then ?b else cancelScheduledRuleActions ?i ?b"
    have b: "persisted P ?b"
      using rule_stored [OF assms(1) Cons.prems(1) r _ ns]
        updated_rule_ok [OF rule_Some_ok [OF persistedD(2) [OF Cons.prems(1)] r]] i by simp
    have "persisted P ?c" using b persisted_view [OF cancel_view, of P ?i ?b] by simp
    moreover have "applyRuleStatusBits P c ks (originals @ [(k, r)]) ?c = (True, a')"
      using Cons.prems(2) False r ns by (simp add: Let_def split: if_splits)
    ultimately show ?thesis using Cons.IH Cons.prems(3) by simp
  qed
qed simp

section \<open>Channel commands\<close>

definition well_named :: "ParsedCommand \<Rightarrow> bool" where
  "well_named c = (case c of PcModbusChannel m \<Rightarrow>
       (mc_operation m = OpUpsert \<longrightarrow> plain_name (mc_channel m)) \<and> unat (ch_slot (mc_channel m)) < 32
     | _ \<Rightarrow> True)"

lemma default_plain [simp]: "plain_name (default_channel\<lparr>ch_slot := a, ch_slaveId := b, ch_address := d,
    ch_dataType := e, ch_quantity := f, ch_signed := g\<rparr>)"
  by (auto simp: plain_name_def default_channel_def kMaxChannelNameLength_def intro!: exI [of _ "[]"])

lemma channel_command_named:
  assumes "decodeModbusChannelCommand (Some bs) = Inr (m, n)"
  shows "well_named (PcModbusChannel m)"
  using channel_command_valid [OF assms] assms
  by (auto simp: well_named_def decodeModbusChannelCommand_def Let_def split: if_splits option.splits)

lemma parseCommand_named:
  assumes "parseCommand (Some bs) = Inr (c, n)"
  shows "well_named c"
proof (cases "\<exists>m. decodeModbusChannelCommand (Some bs) = Inr (m, n) \<and> c = PcModbusChannel m")
  case True
  then show ?thesis using channel_command_named by auto
next
  case False
  then show ?thesis
    using assms by (auto simp: parseCommand_def decodeBranch_def readHeader_def Let_def well_named_def
        split: if_splits option.splits ParsedCommand.splits)
qed

lemma parseCommands_named: "parseCommands bs = Some cs \<Longrightarrow> list_all well_named cs"
proof (induction bs arbitrary: cs rule: parseCommands.induct)
  case (1 bs)
  show ?case
  proof (cases "bs = []")
    case False
    with 1(2) obtain c n ds where c: "parseCommand (Some bs) = Inr (c, n)"
      and ds: "parseCommands (drop n bs) = Some ds" "cs = c # ds"
      by (subst (asm) parseCommands.simps) (auto split: sum.splits option.splits)
    with 1(1) [OF False c refl] parseCommand_named [OF c] show ?thesis by simp
  qed (use 1(2) in \<open>simp add: parseCommands.simps\<close>)
qed

lemma bind_view: "bindCompatibilityChannel c a = (ok, a') \<Longrightarrow> config_view a' = config_view a"
  by (auto simp: bindCompatibilityChannel_def config_view_def Let_def split: sum.splits)

lemma clearSlot_view [simp]: "config_view (app_clearSlot s a) = config_view a"
  by (simp add: app_clearSlot_def config_view_def scheduler_clearSlot_def)

lemma encoded_short: "encodeChannelRecord c = Some r \<Longrightarrow> strnlen (ch_name c) 16 \<le> 15"
  by (auto simp: encodeChannelRecord_def Let_def kMaxChannelNameLength_def kChannelRecordSize_def split: if_splits)

lemma channel_put_persisted:
  assumes "prefs_laws P" "persisted P a" "plain_name c"
    "channelStore_save P c (ga_channelNs a) = Some (True, ns)" "upsertChannel c (ga_modbus a) = (True, m)"
  shows "persisted P (a\<lparr>ga_channelNs := ns, ga_modbus := m\<rparr>)"
proof -
  have v: "validChannelConfig c" "\<exists>r. encodeChannelRecord c = Some r"
    using assms(4) by (auto simp: channelStore_save_def split: if_splits)
  then have slot: "unat (ch_slot c) < 32" by (simp add: validChannelConfig_def kCompatibilitySlotCount_def)
  from v(2) have short: "strnlen (ch_name c) 16 \<le> 15" using encoded_short by blast
  have m: "m = snd (upsertChannel c (ga_modbus a))" using assms(5) by simp
  have "stores P ns (\<lambda>n. if n < 32 then channelForSlot (of_nat n) m else None)"
  proof (rule stores_cong [OF channel_saved [OF assms(1) persistedD(3) [OF assms(2)] assms(3) short assms(4)]])
    fix n :: nat assume n: "n < 32"
    then have "(of_nat n = ch_slot c) = (n = unat (ch_slot c))"
      using unat_of_nat_small [of n, where 'a = 8] by (auto simp: word_nat_id)
    then show "(if n < 32 then channelForSlot (of_nat n) m else None) =
      ((\<lambda>n. if n < 32 then channelForSlot (of_nat n) (ga_modbus a) else None)(unat (ch_slot c) \<mapsto> c)) n"
      using n by (simp add: channelForSlot_upsert [OF assms(5)])
  qed
  then show ?thesis
    using assms(2) upsertChannel_ok [OF persistedD(1) [OF assms(2)], of c]
    by (simp add: persisted_def m upsert_settings cong: if_cong)
qed

lemma channel_remove_persisted:
  assumes "prefs_laws P" "persisted P a" "channelStore_remove P slot (ga_channelNs a) = (True, ns)"
  shows "persisted P (a\<lparr>ga_channelNs := ns, ga_modbus := snd (removeChannel slot (ga_modbus a))\<rparr>)"
proof -
  note ok = persistedD(1) [OF assms(2)]
  have t: "table_ok (mc_channels (ga_modbus a))" using ok by (simp add: bookkeeping_ok_def)
  have "stores P ns (\<lambda>n. if n < 32 then channelForSlot (of_nat n) (snd (removeChannel slot (ga_modbus a))) else None)"
  proof (rule stores_cong [OF channel_removed [OF assms(1) persistedD(3) [OF assms(2)] assms(3)]])
    fix n :: nat assume n: "n < 32"
    then have "(of_nat n = slot) = (n = unat slot)"
      using unat_of_nat_small [of n, where 'a = 8] by (auto simp: word_nat_id)
    then show "(if n < 32 then channelForSlot (of_nat n) (snd (removeChannel slot (ga_modbus a))) else None) =
      ((\<lambda>n. if n < 32 then channelForSlot (of_nat n) (ga_modbus a) else None)(unat slot := None)) n"
      using n by (simp add: channelForSlot_remove [OF t])
  qed
  then show ?thesis
    using assms(2) removeChannel_ok [OF ok, of slot]
    by (simp add: persisted_def upsert_settings cong: if_cong)
qed

lemma cut_name_plain:
  assumes "setChannelName c (Some (take (strnlen s 16) s)) = Some u"
  shows "plain_name u"
proof -
  have len: "length (takeWhile (\<lambda>b. b \<noteq> 0) (take 16 s)) \<le> 16"
    using length_takeWhile_le [of "\<lambda>b. b \<noteq> 0" "take 16 s"] by simp
  have "takeWhile (\<lambda>b. b \<noteq> 0) (take 16 s) =
      take (length (takeWhile (\<lambda>b. b \<noteq> 0) (take 16 s))) (take 16 s)" by (rule takeWhile_eq_take)
  then have cut: "take (strnlen s 16) s = takeWhile (\<lambda>b. b \<noteq> 0) (take 16 s)"
    using len by (simp add: strnlen_def min_absorb1)
  have "0 \<notin> set (takeWhile (\<lambda>b. b \<noteq> 0) (take 16 s))" by (auto dest: set_takeWhileD)
  with len show ?thesis
    using assms by (auto simp: setChannelName_def plain_name_def cut kMaxChannelNameLength_def split: if_splits)
qed

lemma channel_command_persisted:
  assumes "prefs_laws P" "persisted P a" "applyModbusChannelCommand P c a = Some (True, a')"
    "well_named (PcModbusChannel c)"
  shows "persisted P a'"
proof (cases "mc_operation c")
  case OpUpsert
  then obtain ns m where s: "channelStore_save P (mc_channel c) (ga_channelNs a) = Some (True, ns)"
    and m: "upsertChannel (mc_channel c) (ga_modbus a) = (True, m)"
    and a': "config_view a' = config_view (a\<lparr>ga_channelNs := ns, ga_modbus := m\<rparr>)"
    using assms(3)
    by (auto simp: applyModbusChannelCommand_def saveChannel_def app_upsert_def Let_def
        dest!: bind_view split: option.splits if_splits prod.splits)
  show ?thesis
    unfolding persisted_view [OF a']
    by (rule channel_put_persisted [OF assms(1,2) _ s m]) (use assms(4) OpUpsert in \<open>simp add: well_named_def\<close>)
next
  case OpRemove
  then obtain ns where s: "channelStore_remove P (ch_slot (mc_channel c)) (ga_channelNs a) = (True, ns)"
    and a': "config_view a' = config_view (a\<lparr>ga_channelNs := ns,
        ga_modbus := snd (removeChannel (ch_slot (mc_channel c)) (ga_modbus a))\<rparr>)"
    using assms(3)
    by (auto simp: applyModbusChannelCommand_def app_clearSlot_def scheduler_clearSlot_def config_view_def Let_def
        split: if_splits prod.splits)
  show ?thesis
    unfolding persisted_view [OF a'] by (rule channel_remove_persisted [OF assms(1,2) s])
next
  case OpSetName
  let ?nm = "take (strnlen (ch_name (mc_channel c)) 16) (ch_name (mc_channel c))"
  from OpSetName obtain current updated ns m where
    u: "setChannelName current (Some ?nm) = Some updated"
    and s: "channelStore_save P updated (ga_channelNs a) = Some (True, ns)"
    and m: "upsertChannel updated (ga_modbus a) = (True, m)"
    and a': "a' = a\<lparr>ga_channelNs := ns, ga_modbus := m\<rparr>"
    using assms(3)
    by (auto simp: applyModbusChannelCommand_def saveChannel_def app_upsert_def Let_def kMaxChannelNameLength_def
        split: option.splits if_splits prod.splits)
  show ?thesis
    unfolding a' by (rule channel_put_persisted [OF assms(1,2) cut_name_plain [OF u] s m])
qed

section \<open>Downlinks\<close>

lemma link_view: "on_link f a = (ok, a') \<Longrightarrow> config_view a' = config_view a"
  by (auto simp: on_link_def config_view_def split: prod.splits)

lemma reply_view: "replyToRs485SettingsEnquiry k a = (ok, a') \<Longrightarrow> config_view a' = config_view a"
  by (auto simp: replyToRs485SettingsEnquiry_def split: sum.splits if_splits)
    (metis app_send_view snd_conv)

lemma enquiry_view: "stageRuleEnquiryReply i a = (ok, a') \<Longrightarrow> config_view a' = config_view a"
  by (auto simp: stageRuleEnquiryReply_def clearRuleReplyQueue_def config_view_def split: option.splits)

lemma query_view: "app_historyQuery t c a = (ok, a') \<Longrightarrow> config_view a' = config_view a"
  by (auto simp: app_historyQuery_def applyHistoryQueryCommand_def config_view_def Let_def
      split: prod.splits if_splits)

lemma executeCommand_persisted:
  assumes "prefs_laws P" "persisted P a" "executeCommand P SER t c a = Some (True, a')" "well_named c"
  shows "persisted P a'"
proof -
  have r: "retransmission_load P (hp_retxNs (ga_history a)) = (True, hp_retx (ga_history a))"
    using assms(2) by (simp add: persisted_def)
  have hist: "persisted P a'" if "on_history f a = (True, a')"
    "f = applyHistoryStorageCommand P e \<or> f = applyHistoryRetransmissionCommand P e \<or>
     f = applyRetrievabilityIntervalCommand P n \<or> f = applyRetransmissionIntervalCommand P n" for f e n
  proof (rule on_history_persisted [OF assms(1,2) that(1)])
    fix h assume "f (ga_history a) = (True, h)"
    with that(2) show "historySettings_load P (hp_settingsNs h) = Some (hp_settings h) \<and>
        retransmission_load P (hp_retxNs h) = (True, hp_retx h)"
      by (intro history_commands_saved [OF assms(1) r, of e h n]) auto
  qed
  have view: "persisted P a'" if "config_view a' = config_view a"
    using persisted_view [OF that] assms(2) by simp
  note ex = assms(3) [unfolded executeCommand_def]
  show ?thesis
  proof (cases c)
    case (PcBasicControl k)
    with ex view link_view show ?thesis
      by (cases k) (auto simp: config_view_def)
  next
    case PcPeriodicReportEnquiry
    with ex view show ?thesis by (auto simp: config_view_def requestImmediateReport_def)
  next
    case (PcUtcTimezone x)
    with ex show ?thesis
      by (auto simp: applyUtcTimezoneCommand_def dest: time_persisted [OF assms(1,2)] split: if_splits)
  next
    case (PcDstSettings x)
    with ex show ?thesis
      by (auto simp: applyDstSettingsCommand_def Let_def dest: time_persisted [OF assms(1,2)] split: if_splits)
  next
    case (PcRuleStatus x)
    with ex rule_status_persisted [OF assms(1,2), of x "[0..<16]" "[]" a'] show ?thesis
      by (auto simp: applyRuleStatusCommand_def kRuleCount_def atLeast0LessThan)
  next
    case (PcModbusChannel x)
    with ex assms(4) show ?thesis by (auto intro: channel_command_persisted [OF assms(1,2)])
  next
    case (PcDataStorage x)
    with ex show ?thesis by (auto intro: hist)
  next
    case (PcDataRetransmission x)
    with ex show ?thesis by (auto intro: hist)
  next
    case (PcRetransmissionInterval x)
    with ex show ?thesis by (auto intro: hist)
  next
    case (PcRetrievabilityInterval x)
    with ex show ?thesis by (auto intro: hist)
  next
    case (PcRuleConfiguration x)
    with ex rule_configuration_persisted [OF assms(1,2)] show ?thesis by simp
  next
    case (PcReportInterval x)
    with ex report_persisted [OF assms(1,2)] show ?thesis by simp
  next
    case (PcRs485Settings x)
    with ex rs485_persisted [OF assms(1,2)] show ?thesis by simp
  next
    case (PcModbusMasterSettings x)
    with ex master_persisted [OF assms(1,2)] show ?thesis by simp
  next
    case PcLnsTimeSync
    with ex view link_view [of requestNetworkTimeSync a True a'] show ?thesis by simp
  next
    case (PcHistoryQuery x)
    with ex view query_view [of t x a True a'] show ?thesis by simp
  next
    case (PcRuleEnquiry x)
    with ex view enquiry_view [of x a True a'] show ?thesis by simp
  next
    case (PcRs485SettingsEnquiry x)
    with ex view reply_view [of x a True a'] show ?thesis by simp
  qed
qed

lemma executeCommands_persisted:
  assumes "prefs_laws P"
  shows "persisted P a \<Longrightarrow> executeCommands P SER t cs a = Some (True, a') \<Longrightarrow> list_all well_named cs \<Longrightarrow> persisted P a'"
proof (induction cs arbitrary: a)
  case (Cons c cs)
  then obtain b where b: "executeCommand P SER t c a = Some (True, b)" "executeCommands P SER t cs b = Some (True, a')"
    by (auto split: option.splits if_splits)
  with Cons executeCommand_persisted [OF assms Cons.prems(1) b(1)] show ?case by simp
qed simp

lemma handle_persisted:
  assumes "prefs_laws P" "persisted P a" "handleLoRaDownlink P SER t u port p a = Some (True, a')"
  shows "persisted P a'"
proof -
  obtain payload where p: "p = Some payload" "payload \<noteq> []"
    using assms(3) by (auto simp: handleLoRaDownlink_def split: option.splits if_splits)
  show ?thesis
  proof (cases "port = kCompatibilityFPort")
    case False
    with assms(3) p obtain m where m: "queueRawRequest (Some payload) (ga_modbus a) = (True, m)" "a' = a\<lparr>ga_modbus := m\<rparr>"
      by (auto simp: handleLoRaDownlink_def Let_def split: if_splits prod.splits)
    moreover have "bookkeeping_ok m" using mailbox_ok [OF persistedD(1) [OF assms(2)]] m(1) by (metis snd_conv)
    ultimately show ?thesis
      using assms(2) by (auto simp: persisted_def queueRawRequest_def queueRawRequestInternal_def channelForSlot_def
          split: if_splits option.splits cong: if_cong)
  next
    case True
    define b where "b = (if validServerMessage p then snd (offerServerMessage t u payload a) else a)"
    have b: "persisted P b" using assms(2) persisted_view [OF offer_view, of P t u payload a] by (simp add: b_def)
    have "a' = b \<or> (\<exists>cs. parseCommands payload = Some cs \<and> executeCommands P SER t cs b = Some (True, a'))"
      using assms(3) p True by (auto simp: handleLoRaDownlink_def b_def Let_def split: option.splits if_splits prod.splits)
    then show ?thesis using b executeCommands_persisted [OF assms(1) b] parseCommands_named by blast
  qed
qed

text \<open>
  C1. What a downlink acknowledges is durable: if the stores hold the running configuration (line,
  master, report interval, time, history and retransmission settings, all rules and all channels) and
  the handler of a downlink reports success, then the stores hold the new running configuration.
\<close>

theorem acknowledged_downlink_persisted:
  assumes "prefs_laws P" "persisted P a"
    "handleLoRaDownlink P SER nowMs unixNow fport p a = Some (True, a')"
  shows "persisted P a'"
  using assms by (rule handle_persisted)

lemma sample_persisted: "persisted map_prefs sample_application"
proof -
  have c: "bookkeeping_ok (initial_component (\<lambda>_ _ _. 1))"
    using bookkeeping_ok_initial [of ModbusDisabled "\<lambda>_ _ _. 1"]
    by (simp add: component_setMode_def initial_component_def)
  have r: "holds_rules map_prefs Map.empty initial_rules"
    by (auto simp: holds_rules_def initial_rules_def kRuleCount_def rule_ok_def empty_rule_def empty_frame_def
        kRuleFrameSlots_def kMaxRuleFrameLength_def)
  have n: "channelForSlot k (initial_component (\<lambda>_ _ _. 1)) = None" for k
    by (simp add: channelForSlot_def initial_component_def)
  show ?thesis
    using c r timeStore_fresh [of map_prefs Map.empty]
    by (simp add: persisted_def sample_application_def initial_application_def initial_history_def n stores_def)
       (simp add: initial_component_def initial_scheduler_def rs485Store_load_def masterStore_load_def
         reportStore_load_def historySettings_load_def retransmission_load_def pf_typed map_prefs_def
         default_retransmission_def default_history_settings_def validHistorySettings_def kDefaultRetransmissionIntervalSeconds_def
         kDefaultRetrievabilityIntervalSeconds_def Let_def)
qed

lemma interval_frame: "parseCommands [0xff, 0x03, 0x3c, 0x00] = Some [PcReportInterval 60]"
  by (simp add: parseCommands.simps [of "[255, 3, 60, 0]"] parseCommands.simps [of "[]"] branch_simps decodeReportIntervalCommand_def validReportIntervalSeconds_def
      kMinReportIntervalSeconds_def kMaxReportIntervalSeconds_def le16_def)

lemma acknowledged_downlink_persisted_witness:
  "\<exists>a'. handleLoRaDownlink map_prefs (\<lambda>_ _ _. 1) 0 0 85 (Some [0xff, 0x03, 0x3c, 0x00]) sample_application =
     Some (True, a') \<and> rp_settings (ga_scheduler a') = 60 \<and> persisted map_prefs a'"
proof -
  obtain a' where a': "handleLoRaDownlink map_prefs (\<lambda>_ _ _. 1) 0 0 85 (Some [0xff, 0x03, 0x3c, 0x00]) sample_application =
     Some (True, a')" "rp_settings (ga_scheduler a') = 60"
    by (simp add: handleLoRaDownlink_def validServerMessage_def allowedServerMessageByte_def interval_frame
        executeCommand_def applyReportIntervalCommand_def reportStore_save_def validReportIntervalSeconds_def
        scheduler_applySettings_def kMinReportIntervalSeconds_def kMaxReportIntervalSeconds_def
        kCompatibilityFPort_def Let_def)
  with acknowledged_downlink_persisted [OF map_prefs_laws sample_persisted a'(1)] show ?thesis by blast
qed

end
