(* ===== verification/Restart.thy ===== *)
theory Restart
  imports Persistence
begin

text \<open>
  Restoring the configuration when the application starts again over the storage it left.
\<close>

text \<open>The application as it is constructed again over the same storage.\<close>

definition restarted :: "serial_constants \<Rightarrow> 's application \<Rightarrow> 's application" where
  "restarted SER a = (let h = ga_history a in
     (initial_application SER (ga_modbusMode a) (ga_loraMode a) (ga_channelNs a))
       \<lparr>ga_classC := ga_classC a, ga_rs485Ns := ga_rs485Ns a, ga_masterNs := ga_masterNs a,
         ga_reportNs := ga_reportNs a, ga_timeNs := ga_timeNs a, ga_ruleNs := ga_ruleNs a,
         ga_history := initial_history (hp_settingsNs h) (hp_dataNs h) (hp_retxNs h)\<rparr>)"

definition same_configuration :: "'s application \<Rightarrow> 's application \<Rightarrow> bool" where
  "same_configuration a b =
     (mc_rs485Settings (ga_modbus b) = mc_rs485Settings (ga_modbus a) \<and>
      mc_masterSettings (ga_modbus b) = mc_masterSettings (ga_modbus a) \<and>
      rp_settings (ga_scheduler b) = rp_settings (ga_scheduler a) \<and> ga_time b = ga_time a \<and>
      hp_settings (ga_history b) = hp_settings (ga_history a) \<and>
      hp_retx (ga_history b) = hp_retx (ga_history a) \<and> ga_rules b = ga_rules a \<and>
      (\<forall>n < 32. channelForSlot (of_nat n) (ga_modbus b) = channelForSlot (of_nat n) (ga_modbus a)))"

lemma any_timeout:
  "makeRtuSerialConfig SER s r \<noteq> None \<Longrightarrow> r' \<noteq> 0 \<Longrightarrow> \<exists>config. makeRtuSerialConfig SER s r' = Some config"
  by (auto simp: makeRtuSerialConfig_def Let_def split: if_splits)

lemma decimal_point_id: "pointIdForSlot s 0 \<noteq> []"
  by (simp add: pointIdForSlot_def)

lemma bind_fresh:
  assumes "validChannelConfig c"
    "\<forall>b \<in> set (ga_channels a). bd_channelId b = ucast (bd_compatibilitySlot b) + 1"
  shows "\<exists>rs. bindCompatibilityChannel c a = (True, a\<lparr>ga_channels := rs\<rparr>) \<and>
    (\<forall>b \<in> set rs. bd_channelId b = ucast (bd_compatibilitySlot b) + 1)"
proof -
  have slot: "ch_slot c < kRegistryCompatibilitySlots"
    using assms(1) by (simp add: validChannelConfig_def kCompatibilitySlotCount_def kRegistryCompatibilitySlots_def
        word_less_nat_alt)
  have up: "unat (ucast w :: u16) = unat w" for w :: u8
    using unat_bound [of w] by (simp add: unsigned_ucast_eq take_bit_nat_eq_self)
  have "unat (ucast (ch_slot c) :: u16) < 32" using slot by (simp add: up kRegistryCompatibilitySlots_def word_less_nat_alt)
  then have "(ucast (ch_slot c) :: u16) \<noteq> 65535" by auto
  moreover have "(65535 :: u16) = - 1" by simp
  ultimately have id: "(ucast (ch_slot c) :: u16) + 1 \<noteq> 0" by (metis add_eq_0_iff2)
  define b where "b = default_binding\<lparr>bd_channelId := ucast (ch_slot c) + 1, bd_sourceId := ''modbus'',
      bd_pointId := pointIdForSlot (ch_slot c) 0, bd_enabled := True,
      bd_writable := writableType (ch_dataType c), bd_compatibilityMapped := True,
      bd_compatibilitySlot := ch_slot c\<rparr>"
  have "bd_channelId b = ucast (bd_compatibilitySlot b) + 1" by (simp add: b_def)
  moreover have "\<exists>rs. registry_upsert b (ga_channels a) = Inr rs \<and> set rs \<subseteq> insert b (set (ga_channels a))"
  proof (cases "replace_first (\<lambda>c. bd_channelId c = bd_channelId b) b (ga_channels a)")
    case None
    with id slot assms(2) show ?thesis
      by (auto simp: registry_upsert_def b_def default_binding_def decimal_point_id)
  next
    case (Some rs)
    with id slot assms(2) have "registry_upsert b (ga_channels a) = Inr rs"
      by (auto simp: registry_upsert_def b_def default_binding_def decimal_point_id)
    moreover have "set rs \<subseteq> insert b (set (ga_channels a))"
      using replace_first_nth [OF Some] set_update_subset_insert [of "ga_channels a"] by auto
    ultimately show ?thesis by blast
  qed
  then obtain rs where "registry_upsert b (ga_channels a) = Inr rs" "set rs \<subseteq> insert b (set (ga_channels a))"
    by blast
  ultimately show ?thesis
    using assms(2) unfolding bindCompatibilityChannel_def b_def [symmetric] Let_def
    by (intro exI [of _ rs]) auto
qed

text \<open>The channels of a list over those that were there.\<close>

definition overlay ::
    "ChannelConfig list \<Rightarrow> (u8 \<Rightarrow> ChannelConfig option) \<Rightarrow> u8 \<Rightarrow> ChannelConfig option" where
  "overlay cs f s = (case find (\<lambda>c. ch_slot c = s) cs of None \<Rightarrow> f s | Some c \<Rightarrow> Some c)"

lemma overlay_Cons:
  assumes "ch_slot c \<notin> ch_slot ` set cs" "\<And>s. g s = (if s = ch_slot c then Some c else f s)"
  shows "overlay cs g s = overlay (c # cs) f s"
proof (cases "s = ch_slot c")
  case True
  then have "find (\<lambda>x. ch_slot x = s) cs = None" using assms(1) by (simp add: find_None_iff) (metis image_eqI)
  with True show ?thesis by (simp add: overlay_def assms(2))
next
  case False
  then show ?thesis by (simp add: overlay_def assms(2) split: option.splits)
qed

lemma restoreChannels_all:
  assumes "\<forall>c \<in> set cs. validChannelConfig c" "distinct (map ch_slot cs)" "bookkeeping_ok (ga_modbus a)"
    "\<forall>b \<in> set (ga_channels a). bd_channelId b = ucast (bd_compatibilitySlot b) + 1"
  shows "\<exists>m rs. restoreChannels cs a = (True, a\<lparr>ga_modbus := m, ga_channels := rs\<rparr>) \<and> bookkeeping_ok m \<and>
    mc_rs485Settings m = mc_rs485Settings (ga_modbus a) \<and> mc_masterSettings m = mc_masterSettings (ga_modbus a) \<and>
    (\<forall>s. channelForSlot s m = overlay cs (\<lambda>s. channelForSlot s (ga_modbus a)) s)"
  using assms
proof (induction cs arbitrary: a)
  case Nil
  then show ?case by (intro exI [of _ "ga_modbus a"] exI [of _ "ga_channels a"]) (simp add: overlay_def)
next
  case (Cons c cs)
  define m where "m = snd (upsertChannel c (ga_modbus a))"
  have up: "upsertChannel c (ga_modbus a) = (True, m)" using Cons.prems(1) by (simp add: upsertChannel_def m_def Let_def)
  obtain rs where rs: "bindCompatibilityChannel c (a\<lparr>ga_modbus := m\<rparr>) = (True, a\<lparr>ga_modbus := m, ga_channels := rs\<rparr>)"
    "\<forall>b \<in> set rs. bd_channelId b = ucast (bd_compatibilitySlot b) + 1"
    using bind_fresh [of c "a\<lparr>ga_modbus := m\<rparr>"] Cons.prems(1,4) by auto
  have ok: "bookkeeping_ok m" using upsertChannel_ok [OF Cons.prems(3), of c] by (simp add: m_def)
  have same: "mc_rs485Settings m = mc_rs485Settings (ga_modbus a)" "mc_masterSettings m = mc_masterSettings (ga_modbus a)"
    by (simp_all add: m_def upsert_settings)
  obtain m' rs' where r: "restoreChannels cs (a\<lparr>ga_modbus := m, ga_channels := rs\<rparr>) =
      (True, a\<lparr>ga_modbus := m', ga_channels := rs'\<rparr>)" "bookkeeping_ok m'"
    "mc_rs485Settings m' = mc_rs485Settings m" "mc_masterSettings m' = mc_masterSettings m"
    "\<forall>s. channelForSlot s m' = overlay cs (\<lambda>s. channelForSlot s m) s"
    using Cons.IH [of "a\<lparr>ga_modbus := m, ga_channels := rs\<rparr>"] Cons.prems(1,2) ok rs(2) by auto
  have "channelForSlot s m' = overlay (c # cs) (\<lambda>s. channelForSlot s (ga_modbus a)) s" for s
    using r(5) Cons.prems(2) overlay_Cons [of c cs "\<lambda>s. channelForSlot s m" "\<lambda>s. channelForSlot s (ga_modbus a)" s]
    by (simp add: channelForSlot_upsert [OF up])
  moreover have "restoreChannels (c # cs) a = (True, a\<lparr>ga_modbus := m', ga_channels := rs'\<rparr>)"
    using r(1) rs(1) up by (simp add: app_upsert_def)
  ultimately show ?case using r(2-4) same by metis
qed

lemma restore_settings:
  assumes "makeRtuSerialConfig SER s 1 \<noteq> None" "validModbusMasterSettings ms" "bookkeeping_ok c"
    "mc_mode c = ModbusDisabled \<or> \<not> mc_active c" "mc_masterSettings c = default_master"
  shows "\<exists>c1 c2. applyRs485SerialSettings SER t s c = (True, c1) \<and>
    applyModbusMasterSettings SER t ms c1 = (True, c2) \<and> bookkeeping_ok c2 \<and>
    mc_rs485Settings c2 = s \<and> mc_masterSettings c2 = ms \<and> mc_channels c2 = mc_channels c"
proof -
  obtain f1 where f1: "makeRtuSerialConfig SER s (ucast (ms_maxResponseTimeMs default_master)) = Some f1"
    using any_timeout [OF assms(1), of "ucast (ms_maxResponseTimeMs default_master)"] by (auto simp: default_master_def)
  have "ms_maxResponseTimeMs ms \<noteq> 0" using assms(2) by (auto simp: validModbusMasterSettings_def)
  then have "(ucast (ms_maxResponseTimeMs ms) :: u32) \<noteq> 0"
    by (fastforce simp: bit_eq_iff bit_simps)
  then obtain f2 where f2: "makeRtuSerialConfig SER s (ucast (ms_maxResponseTimeMs ms)) = Some f2"
    using any_timeout [OF assms(1)] by blast
  define c1 where "c1 = snd (applyRs485SerialSettings SER t s c)"
  have c1: "applyRs485SerialSettings SER t s c = (True, c1)" "mc_mode c1 = mc_mode c" "mc_active c1 = mc_active c"
    "mc_rs485Settings c1 = s" "mc_channels c1 = mc_channels c"
    using f1 assms(4,5) by (auto simp: c1_def applyRs485SerialSettings_def reconfigure_bus_def clearPendingWrite_def Let_def)
  define c2 where "c2 = snd (applyModbusMasterSettings SER t ms c1)"
  have c2: "applyModbusMasterSettings SER t ms c1 = (True, c2)" "mc_rs485Settings c2 = s" "mc_masterSettings c2 = ms"
    "mc_channels c2 = mc_channels c"
    using f2 c1 assms(2,4) by (auto simp: c2_def applyModbusMasterSettings_def reconfigure_bus_def
        runtimeSupportsModbusMasterSettings_def clearPendingWrite_def Let_def)
  have "bookkeeping_ok c2"
    using settings_ok(2) [OF settings_ok(1) [OF assms(3), of SER t s], of SER t ms] by (simp add: c1_def c2_def)
  with c1(1) c2 show ?thesis by blast
qed

lemma stored_channels:
  assumes "bookkeeping_ok c"
  defines "m \<equiv> \<lambda>n. if n < 32 then channelForSlot (of_nat n) c else None"
  shows "\<forall>x \<in> set (List.map_filter m [0..<32]). validChannelConfig x"
    "distinct (map ch_slot (List.map_filter m [0..<32]))"
    "n < 32 \<Longrightarrow> find (\<lambda>x. ch_slot x = of_nat n) (List.map_filter m [0..<32]) = channelForSlot (of_nat n) c"
proof -
  have m: "m n = Some x \<Longrightarrow> validChannelConfig x \<and> ch_slot x = of_nat n" for n x
    using assms(1) by (auto simp: m_def channelForSlot_def bookkeeping_ok_def table_ok_def find_Some_iff split: if_splits)
  have sub: "set ns \<subseteq> {..<32} \<Longrightarrow> distinct ns \<Longrightarrow>
      (\<forall>x \<in> set (List.map_filter m ns). validChannelConfig x \<and> unat (ch_slot x) \<in> set ns) \<and>
      distinct (map ch_slot (List.map_filter m ns)) \<and>
      (n < 32 \<longrightarrow> find (\<lambda>x. ch_slot x = of_nat n) (List.map_filter m ns) = (if n \<in> set ns then m n else None))" for ns n
  proof (induction ns)
    case (Cons k ns)
    have u: "j < 32 \<Longrightarrow> unat (of_nat j :: u8) = j" for j :: nat by (intro unat_of_nat_small) simp
    then have inj: "j < 32 \<Longrightarrow> (of_nat k :: u8) = of_nat j \<longleftrightarrow> k = j" for j using Cons.prems(1) by (metis insert_subset lessThan_iff list.simps(15))
    show ?case
      using Cons m [of k] u [of k]
      by (cases "m k") (auto simp: map_filter_simps inj)
  qed (simp add: map_filter_simps)
  from sub [of "[0..<32]" n] show "\<forall>x \<in> set (List.map_filter m [0..<32]). validChannelConfig x"
    "distinct (map ch_slot (List.map_filter m [0..<32]))"
    "n < 32 \<Longrightarrow> find (\<lambda>x. ch_slot x = of_nat n) (List.map_filter m [0..<32]) = channelForSlot (of_nat n) c"
    by (auto simp: m_def atLeast0LessThan)
qed

lemma loaded_valid:
  "masterStore_load P s = Some ms \<Longrightarrow> validModbusMasterSettings ms"
  "reportStore_load P s = Some n \<Longrightarrow> validReportIntervalSeconds n"
proof -
  have "validModbusMasterSettings default_master"
    by (simp add: validModbusMasterSettings_def default_master_def validPassThroughMode_def validPassThroughPort_def)
  then show "masterStore_load P s = Some ms \<Longrightarrow> validModbusMasterSettings ms"
    by (auto simp: masterStore_load_def Let_def split: if_splits)
  have "validReportIntervalSeconds kDefaultReportIntervalSeconds"
    by (simp add: validReportIntervalSeconds_def kDefaultReportIntervalSeconds_def
        kMinReportIntervalSeconds_def kMaxReportIntervalSeconds_def)
  then show "reportStore_load P s = Some n \<Longrightarrow> validReportIntervalSeconds n"
    by (auto simp: reportStore_load_def Let_def split: if_splits)
qed

lemma restart:
  assumes "persisted P a" "makeRtuSerialConfig SER (mc_rs485Settings (ga_modbus a)) 1 \<noteq> None"
    "fst (history_load P (hp_dataNs (ga_history a)) (ring_empty kPersistentHistoryCapacity))"
  shows "\<exists>b. application_restore P SER t (restarted SER a) = Some (True, b) \<and> same_configuration a b \<and>
    hp_ring (ga_history b) = fst (snd (history_load P (hp_dataNs (ga_history a)) (ring_empty kPersistentHistoryCapacity)))"
proof -
  let ?r = "restarted SER a" and ?c = "component_setMode (ga_modbusMode a) (initial_component SER)"
  have p: "rs485Store_load P (ga_rs485Ns a) = Some (mc_rs485Settings (ga_modbus a))"
    "masterStore_load P (ga_masterNs a) = Some (mc_masterSettings (ga_modbus a))"
    "reportStore_load P (ga_reportNs a) = Some (rp_settings (ga_scheduler a))"
    "timeStore_load P (ga_timeNs a) = Some (ga_time a)"
    "historySettings_load P (hp_settingsNs (ga_history a)) = Some (hp_settings (ga_history a))"
    "retransmission_load P (hp_retxNs (ga_history a)) = (True, hp_retx (ga_history a))"
    using assms(1) by (simp_all add: persisted_def)
  note v = loaded_valid(1) [OF p(2)] loaded_valid(2) [OF p(3)]
  note rules = ruleStore_load_holds [OF persistedD(2) [OF assms(1)]]
  note chans = channelStore_load_stores [OF persistedD(3) [OF assms(1)]]
  obtain ring gen where h: "history_load P (hp_dataNs (ga_history a)) (ring_empty kPersistentHistoryCapacity) = (True, ring, gen)"
    using assms(3) by (cases "history_load P (hp_dataNs (ga_history a)) (ring_empty kPersistentHistoryCapacity)") auto
  obtain c1 c2 where c: "applyRs485SerialSettings SER t (mc_rs485Settings (ga_modbus a)) ?c = (True, c1)"
    "applyModbusMasterSettings SER t (mc_masterSettings (ga_modbus a)) c1 = (True, c2)" "bookkeeping_ok c2"
    "mc_rs485Settings c2 = mc_rs485Settings (ga_modbus a)" "mc_masterSettings c2 = mc_masterSettings (ga_modbus a)"
    "mc_channels c2 = []"
    using restore_settings [OF assms(2) v(1) bookkeeping_ok_initial [of "ga_modbusMode a" SER], of t]
    by (auto simp: component_setMode_def initial_component_def)
  define h' where "h' = (initial_history (hp_settingsNs (ga_history a)) (hp_dataNs (ga_history a)) (hp_retxNs (ga_history a)))
    \<lparr>hp_nextSnapshotAtMs := t + intervalMs (rp_settings (ga_scheduler a)), hp_settings := hp_settings (ga_history a),
      hp_ring := ring, hp_generation := gen, hp_retx := hp_retx (ga_history a)\<rparr>"
  define x where "x = ?r\<lparr>ga_modbus := c2, ga_scheduler := scheduler_begin (rp_settings (ga_scheduler a)) t initial_scheduler,
      ga_time := ga_time a, ga_history := h', ga_rules := ga_rules a, ga_ruleBootEvaluationPending := True\<rparr>"
  have x: "application_restore P SER t ?r = loadModbusChannels P x"
    using p c(1,2) h rules
    by (simp add: application_restore_def and_then_def loadRs485Settings_def loadModbusMasterSettings_def
        loadReportSettings_def loadTimeSettings_def loadHistoryState_def loadRuleState_def restarted_def
        initial_application_def initial_history_def x_def h'_def Let_def)
  let ?cs = "List.map_filter (\<lambda>n. if n < 32 then channelForSlot (of_nat n) (ga_modbus a) else None) [0..<32]"
  note st = stored_channels [OF persistedD(1) [OF assms(1)]]
  have x1: "ga_modbus x = c2" "ga_channels x = []"
    by (simp_all add: x_def restarted_def initial_application_def Let_def)
  obtain m rs where m: "restoreChannels ?cs x = (True, x\<lparr>ga_modbus := m, ga_channels := rs\<rparr>)"
    "mc_rs485Settings m = mc_rs485Settings (ga_modbus a)" "mc_masterSettings m = mc_masterSettings (ga_modbus a)"
    "\<forall>s. channelForSlot s m = overlay ?cs (\<lambda>s. channelForSlot s c2) s"
    using restoreChannels_all [OF st(1,2), of x] c(3-5) by (auto simp: x1)
  have "channelForSlot (of_nat n) m = channelForSlot (of_nat n) (ga_modbus a)" if "n < 32" for n
    using m(4) st(3) [OF that] c(6) by (simp add: overlay_def channelForSlot_def [of _ c2] split: option.splits)
  then have "same_configuration a (x\<lparr>ga_modbus := m, ga_channels := rs\<rparr>)"
    using m(2,3) v(2) by (simp add: same_configuration_def x_def h'_def scheduler_begin_def initial_history_def Let_def)
  moreover have "application_restore P SER t ?r = Some (True, x\<lparr>ga_modbus := m, ga_channels := rs\<rparr>)"
    using x chans m(1) by (simp add: loadModbusChannels_def x_def restarted_def initial_application_def Let_def)
  moreover have "hp_ring (ga_history (x\<lparr>ga_modbus := m, ga_channels := rs\<rparr>)) = ring" by (simp add: x_def h'_def)
  ultimately show ?thesis unfolding h by (intro exI [of _ "x\<lparr>ga_modbus := m, ga_channels := rs\<rparr>"]) simp
qed

text \<open>
  C2. A restart restores the configuration: over stores that hold the running configuration, with a
  line the serial driver knows and a readable history, a freshly constructed application restores the
  line, master, report interval, time, history and retransmission settings, all rules, and the channel
  of every slot.
\<close>

theorem restart_restores:
  assumes "persisted P a" "makeRtuSerialConfig SER (mc_rs485Settings (ga_modbus a)) 1 \<noteq> None"
    "fst (history_load P (hp_dataNs (ga_history a)) (ring_empty kPersistentHistoryCapacity))"
  shows "\<exists>b. application_restore P SER nowMs (restarted SER a) = Some (True, b) \<and> same_configuration a b"
  using restart [OF assms] by blast

lemma restart_restores_witness:
  "\<exists>b. application_restore map_prefs (\<lambda>_ _ _. 1) 5 (restarted (\<lambda>_ _ _. 1) sample_application) = Some (True, b) \<and>
     same_configuration sample_application b"
proof (rule restart_restores [OF sample_persisted])
  show "makeRtuSerialConfig (\<lambda>_ _ _. 1) (mc_rs485Settings (ga_modbus sample_application)) 1 \<noteq> None"
    by (simp add: sample_application_def initial_application_def initial_component_def makeRtuSerialConfig_def
        default_rs485_def esp32SupportsRs485SerialSettings_def validRs485SerialSettings_def validRs485BaudRate_def Let_def)
  show "fst (history_load map_prefs (hp_dataNs (ga_history sample_application)) (ring_empty kPersistentHistoryCapacity))"
    by (simp add: sample_application_def initial_application_def initial_history_def history_load_def
        history_loadKey_def pf_typed)
qed

end
