(* ===== verification/ApplicationInvariant.thy ===== *)
theory ApplicationInvariant
  imports DownlinkProperties RuleProperties TransferProperties ReportProperties ComponentProperties
begin

text \<open>
  The invariant of the application: the tables have their sizes, every index that is computed from a
  rule id or a slot is inside of them, every buffer holds what is copied into it, and whatever is
  handed to the radio is a non-empty frame that fits the largest payload.
\<close>

section \<open>The invariant\<close>

definition kMaxUplinkLength :: nat where "kMaxUplinkLength = 242"

definition uplinks_ok :: "transport \<Rightarrow> bool" where
  "uplinks_ok t = (\<forall>(port, payload) \<in> set (tp_sent t). payload \<noteq> [] \<and> length payload \<le> kMaxUplinkLength)"

text \<open>
  The slot of an action is given by the id of its rule and its number; the second half of the table
  holds the alarms of released thresholds.
\<close>

definition slot_ok :: "nat \<Rightarrow> ScheduledRuleAction \<Rightarrow> bool" where
  "slot_ok i x = (length (sa_payload x) \<le> 48 \<and> (sa_pending x \<longrightarrow>
     unat (sa_ruleId x) = i mod 48 div 3 + 1 \<and> unat (sa_actionSlot x) = i mod 3 \<and>
     (sa_action x = RawRs485 \<or> sa_action x = ServerMessage \<longrightarrow> 2 \<le> length (sa_payload x)) \<and>
     (sa_action x = UploadAlarm \<longrightarrow> sa_alarmContextValid x) \<and> (48 \<le> i \<longrightarrow> sa_action x = UploadAlarm)))"

definition schedule_ok :: "ScheduledRuleAction list \<Rightarrow> bool" where
  "schedule_ok xs = (length xs = kScheduledActions \<and> (\<forall>i < kScheduledActions. slot_ok i (xs ! i)))"

definition rules_ok :: "RuleState \<Rightarrow> bool" where
  "rules_ok st = (length st = kRuleCount \<and> (\<forall>r \<in> set st. rule_ok r))"

definition replies_ok :: "StoredFrame list \<Rightarrow> bool" where
  "replies_ok fs = (length fs \<le> kRuleFrameSlots \<and>
     (\<forall>f \<in> set fs. length (sf_data f) = kMaxRuleFrameLength \<and> unat (sf_length f) \<le> kMaxRuleFrameLength))"

definition history_ok :: "'s history_part \<Rightarrow> bool" where
  "history_ok h = (length (hp_samples h) = kCompatibilitySlotCount \<and>
     length (hp_queryRecords h) \<le> kPersistentHistoryCapacity \<and>
     (\<forall>x \<in> set (hp_queryRecords h) \<union> set (hr_records (hp_ring h)) \<union> set (hr_records (hp_snapshot h)).
        length x = kHistoricalModbusRecordLength) \<and>
     ring_ok kPersistentHistoryCapacity (hp_ring h) \<and> ring_ok kPersistentHistoryCapacity (hp_snapshot h))"

definition app_ok :: "'s application \<Rightarrow> bool" where
  "app_ok a = (bookkeeping_ok (ga_modbus a) \<and> mail_ok (ga_modbus a) \<and> scheduler_ok (ga_scheduler a) \<and>
     history_ok (ga_history a) \<and> rules_ok (ga_rules a) \<and> schedule_ok (ga_scheduled a) \<and>
     replies_ok (ga_ruleReplyFrames a) \<and> length (ga_lastRuleMinuteKey a) = kRuleCount \<and>
     length (ga_channelRuleRuntime a) = kRuleCount \<and> registry_ok (ga_channels a) \<and>
     command_bus_ok kCommandCapacity (ga_commands a) \<and>
     (ga_twoWayFramePending a \<longrightarrow> ga_twoWayFrame a \<noteq> []) \<and> length (ga_twoWayFrame a) \<le> kRawCapacity \<and>
     uplinks_ok (lk_transport (ga_link a)))"

lemma send_ok:
  assumes "transport_send port payload t = (ok, t')" "uplinks_ok t" "payload \<noteq> []" "length payload \<le> kMaxUplinkLength"
  shows "uplinks_ok t'"
  using transport_send_cases(1) [OF assms(1)] assms(2-4) by (auto simp: uplinks_ok_def)

lemma app_send_ok:
  assumes "app_ok a" "payload \<noteq> []" "length payload \<le> kMaxUplinkLength"
  shows "app_ok (snd (app_send port payload a))"
  using assms send_ok [where port = port and payload = payload and t = "lk_transport (ga_link a)"]
  by (auto simp: app_send_def app_ok_def split: prod.splits)

lemma app_send_okD: "app_send port payload a = (ok, a') \<Longrightarrow> app_ok a \<Longrightarrow> payload \<noteq> [] \<Longrightarrow>
    length payload \<le> kMaxUplinkLength \<Longrightarrow> app_ok a'"
  using app_send_ok [of a payload port] by simp

lemma core_event_ok [simp]: "app_ok (emitCoreEvent u s t v d a) = app_ok a"
  by (simp add: emitCoreEvent_def app_ok_def)

lemma rule_in: "rules_ok st \<Longrightarrow> rule i st = Some r \<Longrightarrow> rule_ok r \<and> 1 \<le> unat i \<and> unat i \<le> 16"
  using nth_mem [of "unat i - 1" st]
  by (auto simp: rules_ok_def rule_def kRuleCount_def Suc_le_eq unat_gt_0 split: if_splits)

section \<open>Scheduling\<close>

lemma no_action_ok [simp]: "slot_ok i no_action"
  by (simp add: slot_ok_def no_action_def)

lemma planned_payload:
  assumes "length (sf_data f) = 58" "unat (sf_length f) \<le> 58"
    "decodeExecutableAction f = plan" "ap_payload plan = Some payload"
  shows "length payload = unat (ap_payloadLength plan)"
  using assms by (auto simp: decodeExecutableAction_def message_action_def default_plan_def Let_def split: if_splits)

lemma scheduledAction_ok:
  assumes "length (sf_data f) = 58" "unat (sf_length f) \<le> 58" "1 \<le> unat k" "unat k \<le> 16" "n < 3"
    "slot_ok i old" "i = (unat k - 1) * 3 + n + (if release then 48 else 0)"
    "release \<longrightarrow> ap_action (decodeExecutableAction f) = UploadAlarm"
  shows "slot_ok i (scheduledAction t k n (decodeExecutableAction f) alarm kind change release old)"
proof -
  have "i mod 48 = (unat k - 1) * 3 + n" using assms(3-5,7) by auto
  moreover have "i = n + 3 * (unat k - 1 + (if release then 16 else 0))" using assms(7) by simp
  ultimately have i: "i mod 48 div 3 + 1 = unat k" "i mod 3 = n" "\<not> release \<Longrightarrow> i < 48"
    using assms(3-5) by auto
  have n: "unat (of_nat n :: u8) = n" using assms(5) by (intro unat_of_nat_small) simp
  let ?p = "decodeExecutableAction f"
  have old: "length (sa_payload old) \<le> 48" using assms(6) by (simp add: slot_ok_def)
  show ?thesis
  proof (cases "(ap_action ?p = RawRs485 \<or> ap_action ?p = ServerMessage) \<and> ap_payload ?p \<noteq> None \<and>
      \<not> (ap_payloadLength ?p < 2 \<or> ap_payloadLength ?p > 48)")
    case True
    then obtain payload where p: "ap_payload ?p = Some payload" by auto
    have "2 \<le> unat (ap_payloadLength ?p)" "unat (ap_payloadLength ?p) \<le> 48"
      using True by (simp_all add: not_less word_le_nat_alt)
    then show ?thesis
      using True p i n assms(8) planned_payload [OF assms(1,2) refl p]
      by (auto simp: scheduledAction_def slot_ok_def Let_def)
  next
    case False
    then show ?thesis
      using i n assms(8) old
      by (cases alarm; cases "ap_payload ?p"; cases "ap_action ?p")
        (simp_all add: scheduledAction_def slot_ok_def Let_def no_action_def split: prod.splits)
  qed
qed

lemma scheduleAction_ok:
  assumes "schedule_ok xs" "length (sf_data f) = 58" "unat (sf_length f) \<le> 58" "1 \<le> unat k" "unat k \<le> 16" "n < 3"
  shows "schedule_ok (scheduleAction t k alarm kind change release (n, f) xs)"
proof -
  let ?p = "decodeExecutableAction f"
  let ?i = "(unat k - 1) * 3 + n + (if release then 48 else 0)"
  have i: "?i < kScheduledActions" using assms(4-6) by (auto simp: kScheduledActions_def kRuleCount_def)
  have "schedule_ok (xs[?i := scheduledAction t k n ?p alarm kind change release (xs ! ?i)])"
    if "release \<longrightarrow> ap_action ?p = UploadAlarm"
    using scheduledAction_ok [OF assms(2-6) _ refl that, of "xs ! ?i" t alarm kind change] assms(1) i
    by (auto simp: schedule_ok_def nth_list_update)
  then show ?thesis
    using assms(1) by (auto simp: scheduleAction_def Let_def kRuleCount_def)
qed

lemma scheduleRuleActions_ok:
  assumes "app_ok a" "rule_ok r" "1 \<le> unat k" "unat k \<le> 16"
  shows "app_ok (scheduleRuleActions t u k r alarm kind change release a)"
proof -
  have frames: "\<forall>(n, f) \<in> set (enumerate 0 (take 3 (drop 1 (rr_frames r)))).
      n < 3 \<and> length (sf_data f) = 58 \<and> unat (sf_length f) \<le> 58"
    using assms(2) by (auto simp: rule_ok_def in_set_enumerate_eq dest!: in_set_takeD in_set_dropD nth_mem)
  have "schedule_ok (fold (scheduleAction t k alarm kind change release) es xs)"
    if "schedule_ok xs" "\<forall>(n, f) \<in> set es. n < 3 \<and> length (sf_data f) = 58 \<and> unat (sf_length f) \<le> 58" for es xs
    using that by (induction es arbitrary: xs) (auto intro!: scheduleAction_ok assms(3,4))
  with frames assms(1) show ?thesis unfolding scheduleRuleActions_def core_event_ok by (simp add: app_ok_def)
qed

lemma triggerRule_ok: "app_ok a \<Longrightarrow> rule_ok r \<Longrightarrow> 1 \<le> unat k \<Longrightarrow> unat k \<le> 16 \<Longrightarrow> app_ok (triggerRule t u k r a)"
  by (simp add: triggerRule_def scheduleRuleActions_ok)

lemma forEnabledRules_ok:
  assumes "\<And>k r a. app_ok a \<Longrightarrow> rule_ok r \<Longrightarrow> 1 \<le> unat k \<Longrightarrow> unat k \<le> 16 \<Longrightarrow> app_ok (f k r a)" "app_ok a"
  shows "app_ok (forEnabledRules f a)"
proof -
  have "app_ok (fold (\<lambda>k a. case rule (of_nat k) (ga_rules a) of
      None \<Rightarrow> a | Some r \<Rightarrow> if rr_enabled r then f (of_nat k) r a else a) ks a)" for ks
    using assms(2)
  proof (induction ks arbitrary: a)
    case (Cons k ks)
    have "rule (of_nat k) (ga_rules a) = Some r \<Longrightarrow> app_ok (f (of_nat k) r a)" for r
      using Cons.prems rule_in [of "ga_rules a" "of_nat k" r] assms(1) by (auto simp: app_ok_def)
    with Cons show ?case by (auto split: option.splits)
  qed simp
  then show ?thesis by (simp add: forEnabledRules_def)
qed

section \<open>Execution\<close>

lemma encodeAlarm_bounds: "encodeAlarm c i v k d (Some n) = Inr payload \<Longrightarrow> length payload \<le> n"
  by (auto simp: encodeAlarm_def Let_def split: if_splits sum.splits)

lemma executeAction_ok:
  assumes "app_ok a" "slot_ok i x" "sa_pending x"
  shows "app_ok (executeAction x a)"
proof (cases "sa_action x")
  case ServerMessage
  then have "sa_payload x \<noteq> []" "length (sa_payload x) \<le> kMaxUplinkLength"
    using assms(2,3) by (auto simp: slot_ok_def kMaxUplinkLength_def)
  then show ?thesis using ServerMessage app_send_ok [OF assms(1)] by (simp add: executeAction_def)
next
  case UploadAlarm
  then show ?thesis
    using assms(1) encodeAlarm_bounds [of "sa_alarmChannel x" 0 "sa_alarmValue x" "sa_alarmKind x" "sa_alarmChangeValue x" 32]
    by (auto simp: executeAction_def kMaxUplinkLength_def intro!: app_send_ok split: sum.splits)
next
  case UploadData
  then show ?thesis
    using assms(1) scheduler_step_ok [of "ga_scheduler a" DoImmediate] by (simp add: executeAction_def app_ok_def)
next
  case RawRs485
  then show ?thesis
    using assms(1) mailbox_ok(6) [of "ga_modbus a"] configuration_mail(7) [of "ga_modbus a"]
    by (simp add: executeAction_def app_ok_def)
qed (use assms(1) in \<open>simp_all add: executeAction_def app_ok_def\<close>)

lemma executeAction_scheduled [simp]: "ga_scheduled (executeAction x a) = ga_scheduled a"
  by (simp add: executeAction_def app_send_def split: ExecutableAction.splits prod.splits sum.splits)

lemma executeSlot_ok:
  assumes "app_ok a" "i < kScheduledActions"
  shows "app_ok (executeSlot t i a)"
proof -
  let ?x = "ga_scheduled a ! i"
  have x: "slot_ok i ?x" using assms by (simp add: app_ok_def schedule_ok_def)
  have clear: "app_ok b \<Longrightarrow> app_ok (b\<lparr>ga_scheduled := (ga_scheduled b)[i := no_action]\<rparr>)" for b :: "'a application"
    using assms(2) by (auto simp: app_ok_def schedule_ok_def nth_list_update)
  show ?thesis
    using assms(1) executeAction_ok [OF assms(1) x] clear [OF assms(1)] clear [of "executeAction ?x a"]
    by (auto simp: executeSlot_def Let_def split: option.splits)
qed

lemma executeDueRuleActions_ok:
  assumes "app_ok a"
  shows "app_ok (executeDueRuleActions t a)"
proof -
  have "\<forall>i \<in> set is. i < kScheduledActions \<Longrightarrow> app_ok a \<Longrightarrow> app_ok (fold (executeSlot t) is a)"
    for "is" and a :: "'a application"
    by (induction "is" arbitrary: a) (auto intro: executeSlot_ok)
  then show ?thesis using assms by (simp add: executeDueRuleActions_def)
qed

lemma processRuleExecution_ok:
  assumes "app_ok a"
  shows "app_ok (processRuleExecution t u a)"
proof -
  have boot: "app_ok (bootTriggers t u a)"
    using assms by (auto simp: bootTriggers_def intro!: forEnabledRules_ok triggerRule_ok) (simp add: app_ok_def)
  have "app_ok (timeTriggers t u a)" if "app_ok a" for a :: "'a application"
    using that by (auto simp: timeTriggers_def Let_def intro!: forEnabledRules_ok triggerRule_ok)
      (simp add: app_ok_def)
  with boot show ?thesis unfolding processRuleExecution_def by (intro executeDueRuleActions_ok) simp
qed

lemma evaluateChannelRules_ok:
  assumes "app_ok a"
  shows "app_ok (evaluateChannelRules t u c a)"
proof -
  have set_runtime: "app_ok a \<Longrightarrow> app_ok (a\<lparr>ga_channelRuleRuntime := (ga_channelRuleRuntime a)[i := x]\<rparr>)" for a :: "'a application" and i x
    by (simp add: app_ok_def)
  show ?thesis
    using assms by (auto simp: evaluateChannelRules_def evaluateChannelRule_def Let_def
        intro!: forEnabledRules_ok scheduleRuleActions_ok set_runtime split: option.splits prod.splits)
qed

lemma taken_ok:
  assumes "app_ok a"
  shows "app_ok (a\<lparr>ga_modbus := snd (takePassiveFrame (ga_modbus a))\<rparr>)"
    "app_ok (a\<lparr>ga_modbus := snd (takeRawCompletion (ga_modbus a))\<rparr>)"
    "app_ok (a\<lparr>ga_modbus := snd (takeCompletedPoll (ga_modbus a))\<rparr>)"
  using assms mailbox_ok [of "ga_modbus a"] configuration_mail [of "ga_modbus a"] by (simp_all add: app_ok_def)

lemma processPassiveRs485Frame_ok:
  assumes "app_ok a"
  shows "app_ok (processPassiveRs485Frame t u a)"
proof (cases "takePassiveFrame (ga_modbus a)")
  case (Pair taken m)
  let ?a = "a\<lparr>ga_modbus := m\<rparr>"
  have a: "app_ok ?a" using taken_ok(1) [OF assms] Pair by simp
  show ?thesis
  proof (cases taken)
    case (Some f)
    then have f: "length (pv_payload f) \<le> kRawCapacity"
      using Pair assms by (auto simp: takePassiveFrame_def app_ok_def mail_ok_def split: if_splits)
    let ?b = "forEnabledRules (\<lambda>i r a. if matchesRs485CommandCondition (rr_frames r ! 0) (Some (pv_payload f))
      then triggerRule t u i r a else a) ?a"
    have "app_ok ?b" using a by (auto intro!: forEnabledRules_ok triggerRule_ok)
    then show ?thesis
      using a f Pair Some by (auto simp: processPassiveRs485Frame_def Let_def app_ok_def)
  qed (use a Pair in \<open>simp add: processPassiveRs485Frame_def\<close>)
qed

section \<open>Uplinks\<close>

lemma reply_frame_ok:
  assumes "length (sf_data f) = kMaxRuleFrameLength" "frame_present f"
  shows "take (unat (sf_length f)) (sf_data f) \<noteq> []" "length (take (unat (sf_length f)) (sf_data f)) \<le> kMaxUplinkLength"
  using assms by (auto simp: frame_present_def kMaxRuleFrameLength_def kMaxUplinkLength_def unat_gt_0)

lemma advance_ok: "app_ok a \<Longrightarrow> app_ok (advanceRuleReply a)"
  by (simp add: advanceRuleReply_def clearRuleReplyQueue_def app_ok_def replies_ok_def Let_def)

lemma processRuleReply_ok:
  assumes "app_ok a"
  shows "app_ok (snd (processRuleReply a))"
proof (cases "ga_ruleReplyCursor a \<ge> length (ga_ruleReplyFrames a) \<or> \<not> lora_connected a")
  case True
  then show ?thesis using assms by (auto simp: processRuleReply_def)
next
  case False
  let ?f = "ga_ruleReplyFrames a ! ga_ruleReplyCursor a"
  have f: "length (sf_data ?f) = kMaxRuleFrameLength"
    using assms False by (simp add: app_ok_def replies_ok_def)
  show ?thesis
  proof (cases "frame_present ?f")
    case True
    note send = app_send_okD [OF _ assms reply_frame_ok [OF f True]]
    show ?thesis
      using True False send advance_ok by (auto simp: processRuleReply_def Let_def split: prod.splits)
  qed (use assms False advance_ok in \<open>auto simp: processRuleReply_def\<close>)
qed

lemma history_uplink_ok:
  assumes "app_ok a" "history_ok h" "uplinks_ok t"
  shows "app_ok (a\<lparr>ga_link := (ga_link a)\<lparr>lk_transport := t\<rparr>, ga_history := h\<rparr>)"
  using assms by (simp add: app_ok_def)

lemma packed_ok:
  assumes "\<And>x. x \<in> set rs \<Longrightarrow> length x = 25" "packRecords rs [] 0 = (payload, n)"
  shows "length payload \<le> kMaxUplinkLength \<and> (n \<noteq> 0 \<longrightarrow> payload \<noteq> [])"
proof -
  obtain k where k: "n = k" "k \<le> length rs" "payload = concat (take k rs)" "length payload \<le> 51"
    using packRecords_spec [OF assms] by auto
  have "payload \<noteq> []" if n: "n \<noteq> 0"
  proof -
    obtain r where "r \<in> set (take k rs)" using n k by (cases rs; cases k) auto
    moreover from this have "length r = 25" using assms(1) by (auto dest: in_set_takeD)
    ultimately have "r \<noteq> [] \<and> r \<in> set (take k rs)" by auto
    then show ?thesis using k(3) by (auto simp: concat_eq_Nil_conv)
  qed
  with k(4) show ?thesis by (simp add: kMaxUplinkLength_def)
qed

lemma ring_records:
  "ring_ok cap r \<Longrightarrow> x \<in> set (ring_list cap r) \<Longrightarrow> x \<in> set (hr_records r)"
  by (auto simp: ring_list_def ring_ok_def)

lemma ring_from_records:
  assumes "ring_ok kPersistentHistoryCapacity r" "x \<in> set (ring_from i r)"
  shows "x \<in> set (hr_records r)"
  using assms(2) ring_records [OF assms(1)] by (auto simp: ring_from_list dest: in_set_dropD)

lemma processHistoryQuery_ok:
  assumes "history_ok h" "uplinks_ok t" "processHistoryQuery now t h = (active, t', h')"
  shows "history_ok h' \<and> uplinks_ok t'"
proof -
  obtain payload n where p: "packRecords (drop (hp_queryCursor h) (hp_queryRecords h)) [] 0 = (payload, n)" by fastforce
  have "\<And>x. x \<in> set (drop (hp_queryCursor h) (hp_queryRecords h)) \<Longrightarrow> length x = 25"
    using assms(1) by (auto simp: history_ok_def kHistoricalModbusRecordLength_def dest: in_set_dropD)
  note packed = packed_ok [OF this p]
  show ?thesis
    using assms packed send_ok [OF _ assms(2), where port = kCompatibilityFPort and payload = payload]
    by (auto simp: processHistoryQuery_def p history_ok_def Let_def split: if_splits prod.splits)
qed

lemma finish_ok: "history_ok h \<Longrightarrow> history_ok (snd (finishRetransmission P h))"
  by (simp add: finishRetransmission_def history_ok_def Let_def split: prod.splits)

lemma processHistoryRetransmission_ok:
  assumes "history_ok h" "uplinks_ok t" "processHistoryRetransmission P now t h = (active, t', h')"
  shows "history_ok h' \<and> uplinks_ok t'"
proof -
  let ?h = "initRetransmissionCursor h"
  have h: "history_ok ?h" using assms(1) by (auto simp: initRetransmissionCursor_def history_ok_def)
  obtain payload n where p: "packRecords (ring_from (hp_cursor ?h) (hp_snapshot ?h)) [] 0 = (payload, n)" by fastforce
  have "\<And>x. x \<in> set (ring_from (hp_cursor ?h) (hp_snapshot ?h)) \<Longrightarrow> length x = 25"
    using h ring_from_records [of "hp_snapshot ?h" _ "hp_cursor ?h"]
    by (auto simp: history_ok_def kHistoricalModbusRecordLength_def)
  note packed = packed_ok [OF this p]
  have time: "history_ok (x\<lparr>hp_nextRetransmissionAtMs := w\<rparr>) = history_ok x"
    "history_ok (x\<lparr>hp_cursor := c\<rparr>) = history_ok x" for x :: "'a history_part" and w c
    by (simp_all add: history_ok_def)
  show ?thesis
    using assms h packed send_ok [OF _ assms(2), where port = kCompatibilityFPort and payload = payload]
      finish_ok [OF h, of P] finish_ok [of "?h\<lparr>hp_nextRetransmissionAtMs := retryAt now ?h, hp_cursor := hp_cursor ?h + n\<rparr>" P]
    by (auto simp: processHistoryRetransmission_def p time Let_def split: if_splits prod.splits)
qed

lemma preparePacket_payload:
  assumes "scheduler_ok s" "preparePacket now out s = (st, payload, s')"
  shows "length payload \<le> 51"
proof (cases "rp_pending s")
  case True
  then show ?thesis using assms by (auto simp: preparePacket_def scheduler_ok_def split: if_splits)
next
  case False
  show ?thesis
  proof (cases "startReport now s")
    case None
    with False assms(2) show ?thesis by (auto simp: preparePacket_def split: if_splits)
  next
    case (Some s1)
    note ok = startReport_ok [OF assms(1) Some]
    show ?thesis
    proof (cases "fillPacket (rp_reportSamples s1) (rp_cursor s1) []")
      case (Inr r)
      then obtain body scan where r: "fillPacket (rp_reportSamples s1) (rp_cursor s1) [] = Inr (body, scan)"
        by (cases r) auto
      have "length body \<le> 51" using fillPacket_bounds [OF r] ok by (simp add: scheduler_ok_def)
      with False Some r assms(2) show ?thesis by (auto simp: preparePacket_def split: if_splits)
    qed (use False Some assms(2) in \<open>auto simp: preparePacket_def split: if_splits\<close>)
  qed
qed

lemma processModbusCompatibilityReport_ok:
  assumes "app_ok a"
  shows "app_ok (processModbusCompatibilityReport t a)"
proof -
  obtain st payload s where p: "preparePacket t (Some 51) (ga_scheduler a) = (st, payload, s)"
    by (metis prod_cases3)
  have s: "scheduler_ok s" "length payload \<le> kMaxUplinkLength"
    using preparePacket_ok [OF _ p] preparePacket_payload [OF _ p] assms
    by (simp_all add: app_ok_def kMaxUplinkLength_def)
  then have a: "app_ok (a\<lparr>ga_scheduler := s\<rparr>)" using assms by (simp add: app_ok_def)
  have op: "app_ok b \<Longrightarrow> app_ok (b\<lparr>ga_scheduler := scheduler_step op (ga_scheduler b)\<rparr>)" for b :: "'a application" and op
    using scheduler_step_ok by (auto simp: app_ok_def)
  note ops = op [where op = "DoSent t", simplified] op [where op = "DoFailed t", simplified]
    op [OF a, where op = DoAbort, simplified]
  show ?thesis
    using assms a s(2) ops app_send_okD [OF _ a]
    by (auto simp: processModbusCompatibilityReport_def p Let_def split: prod.splits)
qed

lemma basic_info_bounds: "encodeBasicInfo i e (Some n) = Inr payload \<Longrightarrow> length payload \<le> n"
  by (auto simp: encodeBasicInfo_def Let_def split: if_splits)

lemma direct_uplinks_ok:
  assumes "app_ok a"
  shows "app_ok (snd (directUplinks mac a))"
proof -
  have raw: "app_ok (snd (processModbusPassThroughResponse a))"
  proof (cases "takeRawCompletion (ga_modbus a)")
    case (Pair taken m)
    have a: "app_ok (a\<lparr>ga_modbus := m\<rparr>)" using taken_ok(2) [OF assms] Pair by simp
    have "length (rw_payload c) \<le> kMaxUplinkLength" if "taken = Some c" for c
      using Pair assms that
      by (auto simp: takeRawCompletion_def app_ok_def mail_ok_def kRawCapacity_def kMaxUplinkLength_def split: if_splits)
    then show ?thesis
      using a Pair by (auto simp: processModbusPassThroughResponse_def Let_def intro!: app_send_ok split: option.splits)
  qed
  have info: "app_ok (snd (processCompatibilityBasicInfo mac a))" if "app_ok a" for a :: "'a application"
  proof -
    have sent: "app_ok b \<Longrightarrow> app_ok (b\<lparr>ga_basicInfoPending := x, ga_resetEventPending := y\<rparr>)" for b :: "'a application" and x y
      by (simp add: app_ok_def)
    show ?thesis
      using that app_send_okD [OF _ that]
      by (auto simp: processCompatibilityBasicInfo_def kMaxUplinkLength_def Let_def intro!: sent
          dest!: basic_info_bounds split: sum.splits prod.splits)
  qed
  have twoway: "app_ok (snd (processTwoWayPassThroughUplink a))" if "app_ok a" for a :: "'a application"
  proof -
    have sent: "app_ok b \<Longrightarrow> app_ok (b\<lparr>ga_twoWayFramePending := False, ga_twoWayFrame := []\<rparr>)" for b :: "'a application"
      by (simp add: app_ok_def)
    have f: "ga_twoWayFramePending a \<Longrightarrow> ga_twoWayFrame a \<noteq> []" "length (ga_twoWayFrame a) \<le> kMaxUplinkLength"
      using that by (simp_all add: app_ok_def kRawCapacity_def kMaxUplinkLength_def)
    show ?thesis
      using that f app_send_okD [OF _ that]
      by (auto simp: processTwoWayPassThroughUplink_def Let_def intro!: sent split: prod.splits)
  qed
  obtain h b where b: "processModbusPassThroughResponse a = (h, b)" by fastforce
  obtain h' c where c: "processCompatibilityBasicInfo mac b = (h', c)" by fastforce
  have "app_ok b" "app_ok c" using raw info [of b] b c by simp_all
  then show ?thesis using twoway [of c] by (simp add: directUplinks_def b c)
qed

lemma queuedUplinks_ok:
  assumes "app_ok a"
  shows "app_ok (queuedUplinks P t a)"
proof -
  obtain x b where b: "processRuleReply a = (x, b)" by fastforce
  have b_ok: "app_ok b" using processRuleReply_ok [OF assms] b by simp
  obtain y tp h where q: "processHistoryQuery t (lk_transport (ga_link b)) (ga_history b) = (y, tp, h)" by (metis prod_cases3)
  define c where "c = b\<lparr>ga_link := (ga_link b)\<lparr>lk_transport := tp\<rparr>, ga_history := h\<rparr>"
  have c_ok: "app_ok c"
    using processHistoryQuery_ok [OF _ _ q] history_uplink_ok [OF b_ok] b_ok by (simp add: c_def app_ok_def)
  obtain z tp' h' where r: "processHistoryRetransmission P t (lk_transport (ga_link c)) (ga_history c) = (z, tp', h')"
    by (metis prod_cases3)
  define d where "d = c\<lparr>ga_link := (ga_link c)\<lparr>lk_transport := tp'\<rparr>, ga_history := h'\<rparr>"
  have d_ok: "app_ok d"
    using processHistoryRetransmission_ok [OF _ _ r] history_uplink_ok [OF c_ok] c_ok by (simp add: d_def app_ok_def)
  show ?thesis
    using b_ok c_ok d_ok processModbusCompatibilityReport_ok [OF d_ok]
    by (simp add: queuedUplinks_def b app_historyQueryTurn_def q c_def [symmetric] app_retransmissionTurn_def r
        d_def [symmetric])
qed

section \<open>Commands\<close>

lemma component_op_ok:
  assumes "app_ok a" "bookkeeping_ok m" "mail_ok m"
  shows "app_ok (a\<lparr>ga_modbus := m\<rparr>)"
  using assms by (simp add: app_ok_def)

lemma scheduler_op_ok: "app_ok a \<Longrightarrow> app_ok (a\<lparr>ga_scheduler := scheduler_step op (ga_scheduler a)\<rparr>)"
  using scheduler_step_ok by (auto simp: app_ok_def)

lemma namespace_ok [simp]:
  "app_ok (a\<lparr>ga_channelNs := n\<rparr>) = app_ok a" "app_ok (a\<lparr>ga_rs485Ns := n\<rparr>) = app_ok a"
  "app_ok (a\<lparr>ga_masterNs := n\<rparr>) = app_ok a" "app_ok (a\<lparr>ga_reportNs := n\<rparr>) = app_ok a"
  "app_ok (a\<lparr>ga_timeNs := n\<rparr>) = app_ok a" "app_ok (a\<lparr>ga_ruleNs := n\<rparr>) = app_ok a"
  "app_ok (a\<lparr>ga_time := tm\<rparr>) = app_ok a" "app_ok (a\<lparr>ga_rebootRequested := b\<rparr>) = app_ok a"
  by (simp_all add: app_ok_def)

lemma bind_ok:
  assumes "bindCompatibilityChannel c a = (ok, a')" "app_ok a"
  shows "app_ok a'"
  using assms registry_ok_upsert by (auto simp: bindCompatibilityChannel_def app_ok_def Let_def split: sum.splits)

lemma app_upsert_ok:
  assumes "app_upsert c a = (ok, a')" "app_ok a"
  shows "app_ok a'"
proof -
  have "bookkeeping_ok (ga_modbus a)" "mail_ok (ga_modbus a)" using assms(2) by (simp_all add: app_ok_def)
  note ok = upsertChannel_ok [OF this(1), of c] configuration_mail(1) [OF this(2), of c]
  have "a' = a\<lparr>ga_modbus := snd (upsertChannel c (ga_modbus a))\<rparr>"
    using assms(1) by (auto simp: app_upsert_def split: prod.splits)
  then show ?thesis using component_op_ok [OF assms(2) ok] by simp
qed

lemma clearSlot_ok: "app_ok a \<Longrightarrow> app_ok (app_clearSlot slot a)"
  using scheduler_op_ok [of a "DoClear slot"] by (simp add: app_clearSlot_def)

lemma clear_bind_ok: "bindCompatibilityChannel c (app_clearSlot slot a) = (ok, a') \<Longrightarrow> app_ok a \<Longrightarrow> app_ok a'"
  by (rule bind_ok [OF _ clearSlot_ok])

lemma saveChannel_ok: "saveChannel P c a = Some (ok, a') \<Longrightarrow> app_ok a \<Longrightarrow> app_ok a'"
  by (auto simp: saveChannel_def)

lemma channel_command_ok:
  assumes "app_ok a" "applyModbusChannelCommand P c a = Some (ok, a')"
  shows "app_ok a'"
proof (cases "mc_operation c")
  case OpUpsert
  then show ?thesis
    using assms by (auto simp: applyModbusChannelCommand_def Let_def split: option.splits prod.splits if_splits
        dest: saveChannel_ok app_upsert_ok clear_bind_ok)
next
  case OpSetName
  then show ?thesis
    using assms by (auto simp: applyModbusChannelCommand_def Let_def split: option.splits prod.splits if_splits
        dest: saveChannel_ok app_upsert_ok)
next
  case OpRemove
  let ?slot = "ch_slot (mc_channel c)"
  have reg: "app_ok b \<Longrightarrow> app_ok (b\<lparr>ga_channels := snd (removeCompatibilitySlot s (ga_channels b))\<rparr>)" for b :: "'a application" and s
    by (auto simp: app_ok_def removeCompatibilitySlot_def dest: registry_ok_erase split: option.splits)
  obtain x ns where ns: "channelStore_remove P ?slot (ga_channelNs a) = (x, ns)" by fastforce
  have m: "bookkeeping_ok (snd (removeChannel ?slot (ga_modbus a)))" "mail_ok (snd (removeChannel ?slot (ga_modbus a)))"
    using assms(1) removeChannel_ok configuration_mail(2) by (auto simp: app_ok_def)
  have "app_ok (a\<lparr>ga_channelNs := ns, ga_modbus := snd (removeChannel ?slot (ga_modbus a))\<rparr>)"
    using component_op_ok [of "a\<lparr>ga_channelNs := ns\<rparr>", OF _ m] assms(1) by simp
  from reg [OF clearSlot_ok [OF this], of ?slot ?slot] show ?thesis
    using OpRemove assms ns by (auto simp: applyModbusChannelCommand_def Let_def split: if_splits)
qed

lemma rs485_command_ok:
  assumes "app_ok a" "applyRs485SettingsCommand P SER t s a = (ok, a')"
  shows "app_ok a'"
proof -
  have m: "bookkeeping_ok (snd (applyRs485SerialSettings SER t x c))" "mail_ok (snd (applyRs485SerialSettings SER t x c))"
    if "bookkeeping_ok c" "mail_ok c" for x c
    using settings_ok(1) configuration_mail(3) that by auto
  have ok: "bookkeeping_ok (ga_modbus a)" "mail_ok (ga_modbus a)" using assms(1) by (simp_all add: app_ok_def)
  show ?thesis
    using assms m [OF ok, of s] m [OF m [OF ok, of s], of "mc_rs485Settings (ga_modbus a)"]
    by (auto simp: applyRs485SettingsCommand_def Let_def intro!: component_op_ok split: if_splits prod.splits)
qed

lemma clear_all_ok: "scheduler_ok s \<Longrightarrow> scheduler_ok (fold (\<lambda>slot. scheduler_clearSlot (of_nat slot)) xs (abortReport s))"
proof -
  have "scheduler_ok s \<Longrightarrow> scheduler_ok (fold (\<lambda>slot. scheduler_clearSlot (of_nat slot)) xs s)" for s
  proof (induction xs arbitrary: s)
    case (Cons x xs)
    then show ?case using scheduler_step_ok [of s "DoClear (of_nat x)"] by simp
  qed simp
  then show "scheduler_ok s \<Longrightarrow> ?thesis" using scheduler_step_ok [of s DoAbort] by simp
qed

lemma master_command_ok:
  assumes "app_ok a" "applyModbusMasterSettingsCommand P SER t s a = (ok, a')"
  shows "app_ok a'"
proof -
  have m: "bookkeeping_ok (snd (applyModbusMasterSettings SER t x c))" "mail_ok (snd (applyModbusMasterSettings SER t x c))"
    if "bookkeeping_ok c" "mail_ok c" for x c
    using settings_ok(2) configuration_mail(4) that by auto
  have ok: "bookkeeping_ok (ga_modbus a)" "mail_ok (ga_modbus a)" using assms(1) by (simp_all add: app_ok_def)
  have quiet: "app_ok b \<Longrightarrow> app_ok (b\<lparr>ga_scheduler := fold (\<lambda>slot. scheduler_clearSlot (of_nat slot)) xs (abortReport (ga_scheduler b)),
      ga_history := (ga_history b)\<lparr>hp_samples := replicate kCompatibilitySlotCount default_sample\<rparr>\<rparr>)"
    "app_ok b \<Longrightarrow> app_ok (b\<lparr>ga_twoWayFramePending := False, ga_twoWayFrame := []\<rparr>)" for b :: "'a application" and xs
    using clear_all_ok by (auto simp: app_ok_def history_ok_def)
  obtain x m' where s: "applyModbusMasterSettings SER t s (ga_modbus a) = (x, m')" by fastforce
  obtain y ns where ns: "masterStore_save P s (ga_masterNs a) = (y, ns)" by fastforce
  have a1: "app_ok (a\<lparr>ga_modbus := m', ga_masterNs := ns\<rparr>)"
    using component_op_ok [OF assms(1) m [OF ok, of s]] s by simp
  have restored: "app_ok (a\<lparr>ga_masterNs := ns, ga_modbus := snd (applyModbusMasterSettings SER t p m')\<rparr>)" for p
    using component_op_ok [OF _ m [OF m [OF ok, of s], of p], of "a\<lparr>ga_masterNs := ns\<rparr>"] s assms(1) by simp
  show ?thesis
    using assms(1,2) a1 restored [of "mc_masterSettings (ga_modbus a)"] quiet(1) [OF a1, of "[0..<kCompatibilitySlotCount]"]
      quiet(2) [OF a1]
      component_op_ok [OF assms(1) m [OF ok, of s]]
    by (auto simp: applyModbusMasterSettingsCommand_def s ns Let_def split: if_splits)
qed

lemma report_command_ok:
  assumes "app_ok a" "applyReportIntervalCommand P t s a = (ok, a')"
  shows "app_ok a'"
proof -
  obtain x ns where ns: "reportStore_save P s (ga_reportNs a) = (x, ns)" by fastforce
  let ?b = "a\<lparr>ga_reportNs := ns, ga_scheduler := snd (scheduler_applySettings s t (ga_scheduler a))\<rparr>"
  have b: "app_ok ?b" using scheduler_op_ok [of "a\<lparr>ga_reportNs := ns\<rparr>" "DoSettings s t"] assms(1) by simp
  then have "app_ok (?b\<lparr>ga_history := (ga_history a)\<lparr>hp_nextSnapshotAtMs := n\<rparr>\<rparr>)" for n
    by (simp add: app_ok_def history_ok_def)
  with b assms show ?thesis
    by (auto simp: applyReportIntervalCommand_def scheduler_applySettings_def ns Let_def split: if_splits prod.splits)
qed

lemma history_keeps:
  assumes "history_ok h"
  shows "saveHistorySettings P s h = (ok, h') \<Longrightarrow> history_ok h'"
    "dropPendingRetransmission P e h = (ok, h') \<Longrightarrow> history_ok h'"
  using assms finish_ok [OF assms, of P]
  by (auto simp: saveHistorySettings_def dropPendingRetransmission_def history_ok_def Let_def
      split: prod.splits if_splits)

lemma history_commands_ok:
  assumes "history_ok h"
  shows "history_ok (snd (applyHistoryStorageCommand P e h))" "history_ok (snd (applyHistoryRetransmissionCommand P e h))"
    "history_ok (snd (applyRetrievabilityIntervalCommand P n h))" "history_ok (snd (applyRetransmissionIntervalCommand P n h))"
  using assms
  by (auto simp: applyHistoryStorageCommand_def applyHistoryRetransmissionCommand_def
      applyRetrievabilityIntervalCommand_def applyRetransmissionIntervalCommand_def Let_def
      dest: history_keeps split: prod.splits) (metis history_keeps snd_conv surj_pair)+

lemma on_history_ok:
  assumes "app_ok a" "history_ok (snd (f (ga_history a)))"
  shows "app_ok (snd (on_history f a))"
  using assms by (auto simp: on_history_def app_ok_def split: prod.splits)

lemma query_reply_ok:
  assumes "sendHistoryQueryReply ty st t = (ok, t')" "uplinks_ok t"
  shows "uplinks_ok t'"
proof -
  have "encodeHistoryQueryReply ty st (Some 3) = Inr payload \<Longrightarrow> length payload = 3" for payload
    by (auto simp: encodeHistoryQueryReply_def split: if_splits)
  then show ?thesis
    using assms send_ok by (fastforce simp: sendHistoryQueryReply_def kMaxUplinkLength_def split: sum.splits if_splits)
qed

lemma queryRecords_ok:
  assumes "ring_ok kPersistentHistoryCapacity r" "\<forall>x \<in> set (hr_records r). length x = n" "x \<in> set (queryRecords c s r)"
  shows "length x = n"
proof -
  have "x \<in> set (ring_from 0 r)"
    using assms(3) by (auto simp: queryRecords_def split: if_splits option.splits dest!: in_set_takeD)
  then show ?thesis using ring_from_records [OF assms(1)] assms(2) by blast
qed

lemma historyQuery_ok:
  assumes "app_ok a" "app_historyQuery t c a = (ok, a')"
  shows "app_ok a'"
proof -
  obtain ok t' h where q: "applyHistoryQueryCommand c t (rp_settings (ga_scheduler a)) (lk_transport (ga_link a)) (ga_history a) =
      (ok, t', h)" by (metis prod_cases3)
  have h: "history_ok (ga_history a)" "uplinks_ok (lk_transport (ga_link a))" using assms(1) by (simp_all add: app_ok_def)
  let ?rs = "queryRecords c (rp_settings (ga_scheduler a)) (hp_ring (ga_history a))"
  have rs: "\<forall>x \<in> set ?rs. length x = kHistoricalModbusRecordLength" "length ?rs \<le> kPersistentHistoryCapacity"
    using queryRecords_ok [of "hp_ring (ga_history a)" kHistoricalModbusRecordLength _ c "rp_settings (ga_scheduler a)"] h(1)
    by (simp add: history_ok_def) (simp add: queryRecords_def)
  have "history_ok h \<and> uplinks_ok t'"
    using q h rs query_reply_ok [OF _ h(2)]
    by (auto simp: applyHistoryQueryCommand_def history_ok_def Let_def split: if_splits prod.splits)
  then show ?thesis
    using assms q history_uplink_ok [OF assms(1)] by (auto simp: app_historyQuery_def)
qed

end
