(* ===== verification/ApplicationSafety.thy ===== *)
theory ApplicationSafety
  imports ApplicationInvariant Persistence
begin

text \<open>
  The rest of the invariant of the application: the rule commands, the whole downlink handler, the
  command bus and the main loop, and the two properties it gives.
\<close>

section \<open>Rule commands\<close>

lemma rules_update_ok: "rules_ok st \<Longrightarrow> rule_ok r \<Longrightarrow> rules_ok (st[k := r])"
  using set_update_subset_insert [of st k r] by (auto simp: rules_ok_def)

lemma app_rule_ok: "app_ok a \<Longrightarrow> rule_ok r \<Longrightarrow> app_ok (a\<lparr>ga_ruleNs := ns, ga_rules := (ga_rules a)[k := r]\<rparr>)"
  by (simp add: app_ok_def rules_update_ok)

lemma app_cancel_ok: "app_ok a \<Longrightarrow> app_ok (cancelScheduledRuleActions i a)"
  by (auto simp: cancelScheduledRuleActions_def app_ok_def schedule_ok_def)

lemma rule_frames_fit: "rule_ok r \<Longrightarrow> f \<in> set (rr_frames r) \<Longrightarrow>
    length (sf_data f) = kMaxRuleFrameLength \<and> unat (sf_length f) \<le> kMaxRuleFrameLength"
  by (simp add: rule_ok_def kMaxRuleFrameLength_def)

lemma enquiry_reply_ok:
  assumes "app_ok a" "stageRuleEnquiryReply k a = (ok, a')"
  shows "app_ok a'"
proof (cases "rule k (ga_rules a)")
  case (Some r)
  let ?fs = "filter frame_present (take kRuleFrameSlots (rr_frames r))"
  have r: "rule_ok r" using Some rule_in assms(1) by (auto simp: app_ok_def)
  have "length ?fs \<le> kRuleFrameSlots"
    by (rule order_trans [OF length_filter_le]) simp
  then have "replies_ok ?fs"
    using rule_frames_fit [OF r] by (auto simp: replies_ok_def dest: in_set_takeD)
  moreover have "a' = (clearRuleReplyQueue a)\<lparr>ga_ruleReplyFrames := ?fs\<rparr>"
    using assms(2) Some by (simp add: stageRuleEnquiryReply_def)
  ultimately show ?thesis using assms(1) by (simp add: app_ok_def clearRuleReplyQueue_def)
qed (use assms in \<open>simp add: stageRuleEnquiryReply_def\<close>)

lemma ack_ok:
  assumes "app_ok a" "stageRuleConfigurationAck c s a = (ok, a')"
  shows "app_ok a'"
proof -
  let ?n = "length (rc_frame c)"
  let ?reply = "[0xf8, kRuleConfigurationType] @ drop 2 (rc_frame c) @ [s]"
  let ?f = "\<lparr>sf_length = of_nat (?n + 1), sf_data = ?reply @ replicate (kMaxRuleFrameLength - length ?reply) 0\<rparr>"
  consider "a' = a" | "4 \<le> ?n" "?n + 1 \<le> kMaxRuleFrameLength" "length (ga_ruleReplyFrames a) < kRuleFrameSlots"
      "a' = a\<lparr>ga_ruleReplyFrames := ga_ruleReplyFrames a @ [?f]\<rparr>"
    using assms(2) by (fastforce simp: stageRuleConfigurationAck_def Let_def split: if_splits)
  then show ?thesis
  proof cases
    case 2
    have "unat (of_nat (?n + 1) :: u8) \<le> ?n + 1" by (simp add: unat_of_nat del: of_nat_Suc of_nat_add)
    then have "length (sf_data ?f) = kMaxRuleFrameLength \<and> unat (sf_length ?f) \<le> kMaxRuleFrameLength"
      using 2(1,2) by simp
    then have "replies_ok (ga_ruleReplyFrames a @ [?f])"
      using 2(3) assms(1) by (auto simp: app_ok_def replies_ok_def)
    with assms(1) 2(4) show ?thesis by (simp add: app_ok_def)
  qed (use assms(1) in simp)
qed

lemma rule_configuration_ok:
  assumes "app_ok a" "applyRuleConfigurationCommand P c a = (ok, a')"
  shows "app_ok a'"
proof (cases "rule (rc_ruleId c) (ga_rules a)")
  case (Some r)
  let ?i = "slot_index (rc_slot c)"
  have r: "rule_ok r" using Some rule_in assms(1) by (auto simp: app_ok_def)
  obtain set_ok f where f: "frame_set (Some (rc_frame c)) (rr_frames r ! ?i) = (set_ok, f)" by fastforce
  define u where "u = r\<lparr>rr_enabled := rc_enabled c, rr_frames := (rr_frames r)[?i := f]\<rparr>"
  obtain saved ns where s: "ruleStore_saveRule P (rc_ruleId c) u (ga_ruleNs a) = (saved, ns)" by fastforce
  define b where "b = a\<lparr>ga_ruleNs := ns, ga_rules := (ga_rules a)[unat (rc_ruleId c) - 1 := u]\<rparr>"
  define d where "d = (if \<not> rr_enabled u then cancelScheduledRuleActions (rc_ruleId c) b else b)"
  have "rule_ok u" if set_ok
    using rule_with_frame_ok [OF r slot_index_bound, of "Some (rc_frame c)" "rc_slot c" f "rc_enabled c"] f that
    by (simp add: u_def)
  then have d: "app_ok d" if set_ok
    using that app_rule_ok [OF assms(1), where r = u] app_cancel_ok [of b] by (simp add: d_def b_def)
  have "(ok, a') = (if \<not> set_ok then (False, a) else if \<not> saved then (False, a\<lparr>ga_ruleNs := ns\<rparr>)
      else stageRuleConfigurationAck c 0 d)"
    using assms(2) by (simp add: applyRuleConfigurationCommand_def Some f s [unfolded u_def] d_def b_def u_def Let_def cong: if_cong)
  with d assms(1) show ?thesis by (auto intro: ack_ok dest: sym split: if_splits)
qed (use assms in \<open>auto simp: applyRuleConfigurationCommand_def\<close>)

lemma rollback_ok: "app_ok a \<Longrightarrow> \<forall>(k, r) \<in> set os. rule_ok r \<Longrightarrow> app_ok (rollbackRules P os a)"
  by (induction P os a rule: rollbackRules.induct) (auto simp: app_rule_ok split: prod.splits)

lemma rule_status_ok:
  assumes "app_ok a" "\<forall>(k, r) \<in> set os. rule_ok r" "applyRuleStatusBits P c ks os a = (ok, a')"
  shows "app_ok a'"
  using assms
proof (induction ks arbitrary: os a)
  case (Cons k ks)
  show ?case
  proof (cases "rsc_ruleMask c AND push_bit k 1 = 0")
    case False
    show ?thesis
    proof (cases "rule (of_nat (k + 1)) (ga_rules a)")
      case (Some r)
      have r: "rule_ok r" using Some rule_in Cons.prems(1) by (auto simp: app_ok_def)
      let ?r = "updated_rule (rsc_operation c) r"
      obtain saved ns where s: "ruleStore_saveRule P (of_nat (k + 1)) ?r (ga_ruleNs a) = (saved, ns)" by fastforce
      let ?a = "a\<lparr>ga_ruleNs := ns, ga_rules := (ga_rules a)[k := ?r]\<rparr>"
      let ?b = "if \<not> rr_enabled ?r then cancelScheduledRuleActions (of_nat (k + 1)) ?a else ?a"
      have "app_ok ?a" using app_rule_ok [OF Cons.prems(1) updated_rule_ok [OF r]] .
      then have "app_ok ?b" using app_cancel_ok [of ?a "of_nat (k + 1)"] by simp
      moreover have "app_ok (rollbackRules P os (a\<lparr>ga_ruleNs := ns\<rparr>))"
        using Cons.prems by (intro rollback_ok) simp_all
      moreover have "\<forall>(k, r) \<in> set (os @ [(k, r)]). rule_ok r" using Cons.prems(2) r by auto
      ultimately show ?thesis
        using Cons.prems(3) Cons.IH [of ?b "os @ [(k, r)]"] False Some s
        by (cases saved) (simp_all add: Let_def)
    qed (use Cons.prems False in auto)
  qed (use Cons in auto)
qed simp

section \<open>The downlink handler\<close>

lemma link_op_ok:
  assumes "app_ok a" "\<And>l. lk_transport (snd (f l)) = lk_transport l"
  shows "app_ok (snd (on_link f a))"
  using assms by (simp add: on_link_def app_ok_def split: prod.splits) (metis snd_conv)

lemma time_ok: "saveTimeSettings P s a = (ok, a') \<Longrightarrow> app_ok a \<Longrightarrow> app_ok a'"
  by (auto simp: saveTimeSettings_def Let_def split: prod.splits if_splits)

lemma settings_reply_bounds:
  "encodeRs485SettingsEnquiryReply k s m (Some 16) = Inr payload \<Longrightarrow> length payload \<le> 16"
  by (auto simp: encodeRs485SettingsEnquiryReply_def Let_def split: if_splits EnquiryKind.splits sum.splits)

lemma settings_reply_ok:
  assumes "app_ok a" "replyToRs485SettingsEnquiry k a = (ok, a')"
  shows "app_ok a'"
  using assms app_send_okD [OF _ assms(1)]
  by (auto simp: replyToRs485SettingsEnquiry_def kMaxUplinkLength_def dest!: settings_reply_bounds split: sum.splits if_splits)

lemma executeCommand_ok:
  assumes "app_ok a" "executeCommand P SER t c a = Some (ok, a')"
  shows "app_ok a'"
proof -
  have h: "history_ok (ga_history a)" using assms(1) by (simp add: app_ok_def)
  have hist: "app_ok a'" if "on_history f a = (ok, a')" "history_ok (snd (f (ga_history a)))" for f
    using on_history_ok [of a f, OF assms(1) that(2)] that(1) by simp
  have link: "app_ok a'" if "on_link f a = (ok, a')" "\<And>l. lk_transport (snd (f l)) = lk_transport l" for f
    using link_op_ok [of a f, OF assms(1) that(2)] that(1) by simp
  note ex = assms(2) [unfolded executeCommand_def]
  show ?thesis
  proof (cases c)
    case (PcBasicControl k)
    with ex assms(1) show ?thesis by (cases k) (auto intro: link simp: requestRejoin_def)
  next
    case PcPeriodicReportEnquiry
    with ex scheduler_op_ok [OF assms(1), of DoImmediate] show ?thesis by auto
  next
    case (PcUtcTimezone x)
    with ex assms(1) show ?thesis by (auto simp: applyUtcTimezoneCommand_def dest: time_ok split: if_splits)
  next
    case PcLnsTimeSync
    with ex show ?thesis by (auto intro: link simp: requestNetworkTimeSync_def)
  next
    case (PcDstSettings x)
    with ex assms(1) show ?thesis
      by (auto simp: applyDstSettingsCommand_def Let_def dest: time_ok split: if_splits)
  next
    case (PcDataStorage e)
    with ex history_commands_ok(1) [OF h] show ?thesis by (auto intro: hist)
  next
    case (PcDataRetransmission e)
    with ex history_commands_ok(2) [OF h] show ?thesis by (auto intro: hist)
  next
    case (PcRetransmissionInterval n)
    with ex history_commands_ok(4) [OF h] show ?thesis by (auto intro: hist)
  next
    case (PcRetrievabilityInterval n)
    with ex history_commands_ok(3) [OF h] show ?thesis by (auto intro: hist)
  next
    case (PcRuleStatus x)
    with ex show ?thesis
      by (auto simp: applyRuleStatusCommand_def intro: rule_status_ok [OF assms(1), of "[]"])
  qed (use ex in \<open>auto intro: historyQuery_ok [OF assms(1)] enquiry_reply_ok [OF assms(1)]
      rule_configuration_ok [OF assms(1)] report_command_ok [OF assms(1)] channel_command_ok [OF assms(1)]
      rs485_command_ok [OF assms(1)] master_command_ok [OF assms(1)] settings_reply_ok [OF assms(1)]\<close>)
qed

lemma executeCommands_ok: "app_ok a \<Longrightarrow> executeCommands P SER t cs a = Some (ok, a') \<Longrightarrow> app_ok a'"
proof (induction cs arbitrary: a)
  case (Cons c cs)
  then show ?case by (auto dest: executeCommand_ok split: option.splits if_splits)
qed simp

lemma offer_ok: "app_ok a \<Longrightarrow> app_ok (snd (offerServerMessage t u payload a))"
  by (auto simp: offerServerMessage_def Let_def intro!: forEnabledRules_ok triggerRule_ok)

lemma handleLoRaDownlink_ok:
  assumes "app_ok a" "handleLoRaDownlink P SER t u port p a = Some (ok, a')"
  shows "app_ok a'"
proof -
  have raw: "app_ok (a\<lparr>ga_modbus := snd (queueRawRequest x (ga_modbus a))\<rparr>)" for x
    using assms(1) by (intro component_op_ok mailbox_ok configuration_mail) (simp_all add: app_ok_def)
  have "app_ok a'" if "p = Some payload" "payload \<noteq> []" "port = kCompatibilityFPort" for payload
  proof -
    define r where "r = (if validServerMessage (Some payload) then offerServerMessage t u payload a else (False, a))"
    have r: "app_ok (snd r)" using assms(1) by (simp add: r_def offer_ok)
    then show ?thesis
      using assms(2) that executeCommands_ok [of "snd r"]
      by (auto simp: handleLoRaDownlink_def r_def [symmetric] split: option.splits if_splits prod.splits)
  qed
  moreover have "app_ok a'" if "p = Some payload" "port \<noteq> kCompatibilityFPort" for payload
    using assms that raw [of "Some payload"]
    by (auto simp: handleLoRaDownlink_def Let_def split: if_splits prod.splits)
  ultimately show ?thesis
    using assms by (cases p) (auto simp: handleLoRaDownlink_def split: if_splits)
qed

lemma dispatchDownlinks_ok: "app_ok a \<Longrightarrow> dispatchDownlinks P SER t u ds a = Some a' \<Longrightarrow> app_ok a'"
proof (induction ds arbitrary: a)
  case (Cons d ds)
  then show ?case
    by (cases d) (auto dest: handleLoRaDownlink_ok split: option.splits)
qed simp

section \<open>The main loop\<close>

lemma command_queue_ok:
  assumes "app_ok a"
  shows "app_ok (a\<lparr>ga_commands := snd (commandBus_enqueue kCommandCapacity c (ga_commands a))\<rparr>)"
    "app_ok (a\<lparr>ga_commands := snd (commandBus_dequeue kCommandCapacity (ga_commands a))\<rparr>)"
  using assms command_step_ok [of kCommandCapacity "ga_commands a" "Enqueue c"]
    command_step_ok [of kCommandCapacity "ga_commands a" Dequeue]
  by (simp_all add: app_ok_def split: prod.splits)

lemma mqtt_write_ok: "app_ok a \<Longrightarrow> app_ok (snd (writeBoundChannelFromMqtt parse u b p a))"
  using command_queue_ok(1) [of a]
  by (auto simp: writeBoundChannelFromMqtt_def Let_def split: option.splits prod.splits) (metis snd_conv)+

lemma mqtt_writes_ok: "app_ok a \<Longrightarrow>
    app_ok (fold (\<lambda>(b, payload) a. snd (writeBoundChannelFromMqtt parse u b (Some payload) a)) ws a)"
  by (induction ws arbitrary: a) (auto intro: mqtt_write_ok)

lemma executeCoreCommand_ok:
  assumes "app_ok a"
  shows "app_ok (executeCoreCommand u c a)"
proof -
  have "app_ok (a\<lparr>ga_modbus := snd (writePoint p v (ga_modbus a))\<rparr>)" for p v
    using assms by (intro component_op_ok writePoint_ok configuration_mail) (simp_all add: app_ok_def)
  then show ?thesis
    using assms by (auto simp: executeCoreCommand_def Let_def split: option.splits prod.splits) (metis snd_conv)+
qed

lemma processCommands_ok: "app_ok a \<Longrightarrow> app_ok (processCommands n u a)"
proof (induction n arbitrary: a)
  case (Suc n)
  show ?case
  proof (cases "commandBus_dequeue kCommandCapacity (ga_commands a)")
    case (Pair taken b)
    then have "app_ok (a\<lparr>ga_commands := b\<rparr>)" using command_queue_ok(2) [OF Suc.prems] by simp
    with Suc.prems Pair show ?thesis
      by (cases taken) (simp_all only: processCommands.simps Pair prod.case option.case Suc.IH executeCoreCommand_ok)
  qed
qed simp

lemma connection_ok: "app_ok a \<Longrightarrow> app_ok (updateCompatibilityConnectionState u a)"
proof -
  have flags: "app_ok (b\<lparr>ga_basicInfoPending := x\<rparr>) = app_ok b" "app_ok (b\<lparr>ga_wasConnected := x\<rparr>) = app_ok b"
    "app_ok (b\<lparr>ga_connectionInitialized := x\<rparr>) = app_ok b" for b :: "'a application" and x
    by (simp_all add: app_ok_def)
  show "app_ok a \<Longrightarrow> ?thesis" by (simp add: updateCompatibilityConnectionState_def flags Let_def)
qed

lemma app_history_ok: "app_ok a \<Longrightarrow> history_ok h \<Longrightarrow> app_ok (a\<lparr>ga_history := h\<rparr>)"
  by (simp add: app_ok_def)

lemma network_state_ok: "history_ok h \<Longrightarrow> history_ok (processHistoryNetworkState P c t u h)"
  by (auto simp: processHistoryNetworkState_def history_ok_def Let_def split: prod.splits)

lemma push_ok:
  assumes "ring_ok 64 r" "\<forall>x \<in> set (hr_records r). length x = n" "\<forall>x \<in> set xs. length x = n"
  shows "ring_ok 64 (fold (ring_push 64) xs r) \<and> (\<forall>x \<in> set (hr_records (fold (ring_push 64) xs r)). length x = n)"
  using assms
proof (induction xs arbitrary: r)
  case (Cons x xs)
  have "set (hr_records (ring_push 64 x r)) \<subseteq> insert x (set (hr_records r))"
    by (simp add: ring_push_def set_update_subset_insert)
  then have "\<forall>y \<in> set (hr_records (ring_push 64 x r)). length y = n" using Cons.prems(2,3) by auto
  with Cons.IH [OF ring_push_ok [OF Cons.prems(1)]] Cons.prems(3) show ?case by simp
qed simp

lemma storage_ok:
  assumes "history_ok h"
  shows "history_ok (processHistoryStorage P t u s h)"
proof -
  let ?rs = "List.map_filter (snapshot_record (word_of_int u)) (hp_samples h)"
  have "\<forall>x \<in> set ?rs. length x = kHistoricalModbusRecordLength"
    by (auto simp: map_filter_def snapshot_record_def split: if_splits sum.splits)
  from push_ok [OF _ _ this, of "hp_ring h"] assms
  have "ring_ok kPersistentHistoryCapacity (fold (ring_push kPersistentHistoryCapacity) ?rs (hp_ring h)) \<and>
      (\<forall>x \<in> set (hr_records (fold (ring_push kPersistentHistoryCapacity) ?rs (hp_ring h))). length x = kHistoricalModbusRecordLength)"
    by (auto simp: history_ok_def kPersistentHistoryCapacity_def)
  with assms show ?thesis
    by (auto simp: processHistoryStorage_def history_ok_def Let_def split: prod.splits)
qed

lemma sample_ok_history: "history_ok h \<Longrightarrow> history_ok (captureHistorySample c s vs n h)"
  by (simp add: captureHistorySample_def history_ok_def Let_def)

lemma capture_ok:
  assumes "app_ok a"
  shows "app_ok (captureModbusCompatibilitySample t u a)"
proof (cases "takeCompletedPoll (ga_modbus a)")
  case (Pair taken m)
  then have a: "app_ok (a\<lparr>ga_modbus := m\<rparr>)" using taken_ok(3) [OF assms] by simp
  show ?thesis
  proof (cases taken)
    case (Some c)
    let ?b = "evaluateChannelRules t u c (a\<lparr>ga_modbus := m\<rparr>)"
    have recorded: "app_ok b \<Longrightarrow> app_ok (b\<lparr>ga_scheduler := recordPoll x s v n (ga_scheduler b),
        ga_history := captureHistorySample x s vs n (ga_history b)\<rparr>)" for b :: "'a application" and x s v vs n
      using scheduler_step_ok [of "ga_scheduler b" "DoRecord x s v n"] by (simp add: app_ok_def sample_ok_history)
    have "app_ok ?b" by (rule evaluateChannelRules_ok [OF a])
    then show ?thesis
      using recorded by (simp add: captureModbusCompatibilitySample_def Pair Some Let_def)
  qed (use a Pair in \<open>simp add: captureModbusCompatibilitySample_def\<close>)
qed

lemma app_loop_ok: "app_ok a \<Longrightarrow> app_ok (a\<lparr>ga_modbus := component_loop sent rx us ms (ga_modbus a)\<rparr>)"
  by (intro component_op_ok component_loop_ok component_loop_mail) (simp_all add: app_ok_def)

text \<open>The radio may do anything to the link but to hand over payloads of its own.\<close>

definition radio_keeps_sent :: "loop_inputs \<Rightarrow> bool" where
  "radio_keeps_sent i = (\<forall>l. tp_sent (lk_transport (li_radio i l)) = tp_sent (lk_transport l))"

lemma application_turn_ok:
  assumes "app_ok a" "radio_keeps_sent i" "application_turn P SER parse i a = Some b"
  shows "app_ok b"
proof -
  let ?t = "li_nowMs i" and ?u = "li_unixNow i"
  define a1 where "a1 = processCoreCommands ?u (fold (\<lambda>(b, payload) a.
      snd (writeBoundChannelFromMqtt parse ?u b (Some payload) a)) (li_mqtt i) a)"
  have a1: "app_ok a1" unfolding a1_def processCoreCommands_def by (intro processCommands_ok mqtt_writes_ok assms(1))
  have "app_ok (a1\<lparr>ga_link := li_radio i (ga_link a1)\<rparr>)"
    using a1 assms(2) by (simp add: app_ok_def uplinks_ok_def radio_keeps_sent_def)
  moreover obtain a2 where a2: "dispatchDownlinks P SER ?t ?u (li_downlinks i) (a1\<lparr>ga_link := li_radio i (ga_link a1)\<rparr>) = Some a2"
    using assms(3) by (auto simp: application_turn_def a1_def [symmetric] Let_def split: option.splits)
  ultimately have a2_ok: "app_ok a2" using dispatchDownlinks_ok by blast
  define a3 where "a3 = updateCompatibilityConnectionState ?u a2"
  define a4 where "a4 = a3\<lparr>ga_history := processHistoryNetworkState P (lora_connected a3) ?t ?u (ga_history a3)\<rparr>"
  define a5 where "a5 = a4\<lparr>ga_modbus := component_loop (li_sent i) (li_rx i) (li_nowUs i) ?t (ga_modbus a4)\<rparr>"
  define a6 where "a6 = processPassiveRs485Frame ?t ?u a5"
  obtain d a7 where a7: "directUplinks (li_mac i) a6 = (d, a7)" by fastforce
  define a8 where "a8 = processRuleExecution ?t ?u (captureModbusCompatibilitySample ?t ?u a7)"
  define a9 where "a9 = a8\<lparr>ga_history := processHistoryStorage P ?t ?u (rp_settings (ga_scheduler a8)) (ga_history a8)\<rparr>"
  have a3: "app_ok a3" unfolding a3_def by (rule connection_ok [OF a2_ok])
  then have "app_ok a4"
    unfolding a4_def by (intro app_history_ok network_state_ok) (simp_all add: app_ok_def)
  then have "app_ok a6" unfolding a6_def a5_def by (intro processPassiveRs485Frame_ok app_loop_ok)
  then have "app_ok a7" using direct_uplinks_ok [of a6 "li_mac i"] a7 by simp
  then have "app_ok a8" unfolding a8_def by (intro processRuleExecution_ok capture_ok)
  then have "app_ok a9" unfolding a9_def by (intro app_history_ok storage_ok) (simp_all add: app_ok_def)
  moreover have "b = (if d then a9 else queuedUplinks P ?t a9)"
    using assms(3) by (simp only: application_turn_def a1_def [symmetric] a2 a3_def [symmetric] a4_def [symmetric]
        a5_def [symmetric] a6_def [symmetric] a7 a8_def [symmetric] a9_def [symmetric] Let_def option.case prod.case option.inject)
  ultimately show ?thesis using queuedUplinks_ok [of a9] by simp
qed

section \<open>Start\<close>

lemma initial_ok: "app_ok (initial_application SER mode lora ns)"
proof -
  have "bookkeeping_ok (initial_component SER)"
    using bookkeeping_ok_initial [of ModbusDisabled SER] by (simp add: component_setMode_def initial_component_def)
  moreover have "mail_ok (initial_component SER)" by (rule mail_ok_initial)
  moreover have "rules_ok initial_rules"
    by (auto simp: rules_ok_def initial_rules_def rule_ok_def empty_rule_def empty_frame_def kRuleFrameSlots_def)
  moreover have "command_bus_ok kCommandCapacity (commandBus_empty kCommandCapacity)"
    by (simp add: command_bus_ok_def commandBus_empty_def kCommandCapacity_def)
  moreover have "history_ok (initial_history ns ns ns)"
    by (auto simp: history_ok_def initial_history_def ring_empty_def ring_ok_def kPersistentHistoryCapacity_def)
  moreover have "registry_ok []" by (simp add: registry_ok_def mapped_slots_def)
  ultimately show ?thesis
    using initial_scheduler_ok
    by (simp add: app_ok_def initial_application_def schedule_ok_def replies_ok_def uplinks_ok_def initial_link_def)
qed

lemma begin_ok_app: "app_ok a \<Longrightarrow> app_ok (a\<lparr>ga_modbus := fst (snd (component_begin t (ga_modbus a) caps))\<rparr>)"
  by (intro component_op_ok begin_component_ok configuration_mail) (simp_all add: app_ok_def)

lemma decodeRecords_ok:
  assumes "decodeRecords 64 n area r = Some r'" "ring_ok 64 r" "\<forall>x \<in> set (hr_records r). length x = 25" "25 * n \<le> length area"
  shows "ring_ok 64 r' \<and> (\<forall>x \<in> set (hr_records r'). length x = 25)"
  using assms
proof (induction n arbitrary: area r)
  case (Suc n)
  define x where "x = take 25 area"
  have "\<forall>y \<in> set [x]. length y = 25" using Suc.prems(4) by (simp add: x_def)
  note pushed = push_ok [OF Suc.prems(2,3) this, simplified fold_simps comp_def id_def]
  note r = pushed [THEN conjunct1] pushed [THEN conjunct2]
  have "decodeRecords 64 n (drop 25 area) (ring_push 64 x r) = Some r'"
    using Suc.prems(1) unfolding decodeRecords.simps Let_def kHistoricalModbusRecordLength_def x_def [symmetric]
    by (simp only: option.distinct split: if_split_asm)
  moreover have "25 * n \<le> length (drop 25 area)" using Suc.prems(4) unfolding length_drop mult_Suc_right by arith
  ultimately show ?case using Suc.IH [OF _ r] by blast
qed simp

lemma history_load_ok:
  assumes "history_load P s r = (True, r', g)" "ring_ok 64 r" "\<forall>x \<in> set (hr_records r). length x = 25"
  shows "ring_ok 64 r' \<and> (\<forall>x \<in> set (hr_records r'). length x = 25)"
proof -
  have key: "ring_ok 64 x \<and> (\<forall>y \<in> set (hr_records x). length y = 25)" if k: "history_loadKey P s key = Some (x, g)" for key x g
  proof -
    obtain bs where bs: "length bs = kImageLength 64" "decodeImage 64 (Some bs) = Some (x, g)"
      using k by (auto simp: history_loadKey_def kPersistentHistoryCapacity_def Let_def split: if_splits)
    then obtain n where n: "decodeRecords 64 n (drop kHeaderLength bs) (ring_empty 64) = Some x" "n \<le> 64"
      by (auto simp: decodeImage_def Let_def not_less split: if_splits)
    show ?thesis
      by (rule decodeRecords_ok [OF n(1)])
        (use n(2) bs(1) in \<open>auto simp: ring_empty_def ring_ok_def kHistoricalModbusRecordLength_def kImageLength_def kHeaderLength_def\<close>)
  qed
  show ?thesis
    using assms by (auto simp: history_load_def ring_clear_def ring_ok_def dest!: key split: option.splits if_splits)
qed

lemma image_frames_sizes:
  "n * 59 \<le> length bs \<Longrightarrow> length (image_frames n bs) = n \<and> (\<forall>f \<in> set (image_frames n bs). length (sf_data f) = 58)"
proof (induction n arbitrary: bs)
  case (Suc n)
  from Suc.IH [of "drop 58 (tl bs)"] Suc.prems show ?case by (auto simp: kMaxRuleFrameLength_def)
qed simp

lemma loadRules_ok:
  assumes "loadRules P s ks st = (True, st')" "rules_ok st"
  shows "rules_ok st'"
  using assms
proof (induction ks arbitrary: st)
  case (Cons k ks)
  show ?case
  proof (cases "pf_getBytesLength P s (rule_key k) = 0")
    case False
    define bs where "bs = pf_getBytes P s (rule_key k) kRuleRecordSize"
    have run: "length bs = kRuleRecordSize" "\<forall>f \<in> set (rr_frames (image_rule bs)). unat (sf_length f) \<le> kMaxRuleFrameLength"
      "loadRules P s ks (st[k - 1 := image_rule bs]) = (True, st')"
      using Cons.prems(1) False by (auto simp: Let_def bs_def [symmetric] list_ex_iff not_less split: if_splits)
    have "4 * 59 \<le> length (tl bs)" using run(1) by (simp add: kRuleRecordSize_def kRuleFrameSlots_def kMaxRuleFrameLength_def)
    from image_frames_sizes [OF this] run(2) have "rule_ok (image_rule bs)"
      by (simp add: rule_ok_def image_rule_def kRuleFrameSlots_def kMaxRuleFrameLength_def)
    with Cons.IH [OF run(3)] Cons.prems(2) show ?thesis by (simp add: rules_update_ok)
  qed (use Cons in simp)
qed simp

lemma restoreChannels_ok: "restoreChannels cs a = (True, b) \<Longrightarrow> app_ok a \<Longrightarrow> app_ok b"
  by (induction cs arbitrary: a) (auto simp: Let_def dest: app_upsert_ok bind_ok split: prod.splits if_splits)

lemma and_thenE:
  assumes "and_then r f = Some (True, b)"
  obtains a where "r = Some (True, a)" "f a = Some (True, b)"
  using assms by (auto simp: and_then_def split: option.splits if_splits)

lemma loadHistoryState_ok:
  assumes "app_ok a" "loadHistoryState P a = Some (True, b)"
  shows "app_ok b"
proof -
  let ?h = "ga_history a"
  have h: "history_ok ?h" using assms(1) by (simp add: app_ok_def)
  obtain settings r g rt where l: "history_load P (hp_dataNs ?h) (hp_ring ?h) = (True, r, g)"
      "b = a\<lparr>ga_history := ?h\<lparr>hp_settings := settings, hp_ring := r, hp_generation := g, hp_retx := rt\<rparr>\<rparr>"
    using assms(2) by (auto simp: loadHistoryState_def Let_def split: option.splits prod.splits if_splits)
  have "history_ok (?h\<lparr>hp_settings := settings, hp_ring := r, hp_generation := g, hp_retx := rt\<rparr>)"
    using history_load_ok [OF l(1)] h
    by (auto simp: history_ok_def kPersistentHistoryCapacity_def kHistoricalModbusRecordLength_def)
  with assms(1) show ?thesis unfolding l(2) by (rule app_history_ok)
qed

lemma loads_ok:
  assumes "app_ok a"
  shows "loadRs485Settings P SER t a = Some (True, b) \<Longrightarrow> app_ok b"
    "loadModbusMasterSettings P SER t a = Some (True, b) \<Longrightarrow> app_ok b"
    "loadReportSettings P t a = Some (True, b) \<Longrightarrow> app_ok b"
    "loadTimeSettings P a = Some (True, b) \<Longrightarrow> app_ok b"
    "loadHistoryState P a = Some (True, b) \<Longrightarrow> app_ok b"
    "loadRuleState P a = Some (True, b) \<Longrightarrow> app_ok b"
    "loadModbusChannels P a = Some (True, b) \<Longrightarrow> app_ok b"
proof -
  have m: "bookkeeping_ok (ga_modbus a)" "mail_ok (ga_modbus a)" using assms by (simp_all add: app_ok_def)
  note line = component_op_ok [OF assms settings_ok(1) [OF m(1)] configuration_mail(3) [OF m(2)]]
    and master = component_op_ok [OF assms settings_ok(2) [OF m(1)] configuration_mail(4) [OF m(2)]]
  show "loadRs485Settings P SER t a = Some (True, b) \<Longrightarrow> app_ok b"
    using line by (auto simp: loadRs485Settings_def split: option.splits prod.splits) (metis snd_conv)
  show "loadModbusMasterSettings P SER t a = Some (True, b) \<Longrightarrow> app_ok b"
    using master by (auto simp: loadModbusMasterSettings_def split: option.splits prod.splits) (metis snd_conv)
  have "app_ok (a\<lparr>ga_scheduler := scheduler_begin s t (ga_scheduler a), ga_history := (ga_history a)\<lparr>hp_nextSnapshotAtMs := n\<rparr>\<rparr>)" for s n
    using scheduler_op_ok [OF assms, of "DoBegin s t"] by (simp add: app_ok_def history_ok_def)
  then show "loadReportSettings P t a = Some (True, b) \<Longrightarrow> app_ok b"
    by (auto simp: loadReportSettings_def split: option.splits)
  show "loadTimeSettings P a = Some (True, b) \<Longrightarrow> app_ok b"
    using assms by (auto simp: loadTimeSettings_def split: option.splits)
  show "loadHistoryState P a = Some (True, b) \<Longrightarrow> app_ok b" by (rule loadHistoryState_ok [OF assms])
  have "rules_ok initial_rules"
    by (auto simp: rules_ok_def initial_rules_def rule_ok_def empty_rule_def empty_frame_def kRuleFrameSlots_def)
  then show "loadRuleState P a = Some (True, b) \<Longrightarrow> app_ok b"
    using assms loadRules_ok [of P "ga_ruleNs a" "[1..<Suc kRuleCount]" initial_rules]
    by (auto simp: loadRuleState_def ruleStore_load_def app_ok_def Let_def simp del: upt_Suc split: prod.splits if_splits)
  show "loadModbusChannels P a = Some (True, b) \<Longrightarrow> app_ok b"
    using assms by (auto simp: loadModbusChannels_def dest: restoreChannels_ok split: option.splits if_splits)
qed

lemma restore_ok:
  assumes "application_restore P SER t (initial_application SER mode lora ns) = Some (True, b)"
  shows "app_ok b"
proof -
  let ?a = "initial_application SER mode lora ns"
  have "mail_ok (component_setMode (ga_modbusMode ?a) (ga_modbus ?a))"
    by (simp add: initial_application_def mail_ok_initial)
  moreover have "bookkeeping_ok (component_setMode (ga_modbusMode ?a) (ga_modbus ?a))"
    using bookkeeping_ok_initial by (simp add: initial_application_def)
  ultimately have "app_ok (?a\<lparr>ga_modbus := component_setMode (ga_modbusMode ?a) (ga_modbus ?a)\<rparr>)"
    by (intro component_op_ok initial_ok)
  with assms show ?thesis unfolding application_restore_def
    by (elim and_thenE) (iprover intro: loads_ok)
qed

section \<open>Reachable states\<close>

text \<open>
  A state is reachable if it is the constructed one, what a successful restore makes of that, or
  follows from a reachable one by the begin of the Modbus component or by a turn of the main loop.
\<close>

inductive app_reachable ::
    "'s prefs \<Rightarrow> serial_constants \<Rightarrow> (bytes \<Rightarrow> json_value option) \<Rightarrow> 's application \<Rightarrow> bool" for P SER parse where
  constructed: "app_reachable P SER parse (initial_application SER mode lora ns)"
| restored: "application_restore P SER t (initial_application SER mode lora ns) = Some (True, b) \<Longrightarrow>
    app_reachable P SER parse b"
| begun: "app_reachable P SER parse a \<Longrightarrow>
    app_reachable P SER parse (a\<lparr>ga_modbus := fst (snd (component_begin t (ga_modbus a) caps))\<rparr>)"
| turned: "app_reachable P SER parse a \<Longrightarrow> radio_keeps_sent i \<Longrightarrow> application_turn P SER parse i a = Some b \<Longrightarrow>
    app_reachable P SER parse b"

lemma reachable_ok: "app_reachable P SER parse a \<Longrightarrow> app_ok a"
  by (induction rule: app_reachable.induct) (auto intro: initial_ok restore_ok begin_ok_app application_turn_ok)

text \<open>
  C3. Every reachable state of the application is well typed: the tables have their sizes and every
  index computed from a rule id or a slot is inside of them, every buffer holds what is copied into it
  (scheduled actions, reply frames, mailboxes, history records), an action waits only in the slot of its
  rule and number, and the components keep their own invariants.
\<close>

theorem application_always_ok:
  assumes "app_reachable P SER parse a"
  shows "app_ok a"
  using assms by (rule reachable_ok)

text \<open>
  C13. Every uplink the application hands over is a non-empty frame of at most 242 bytes, the most the
  radio accepts, whatever is configured, received and scheduled.
\<close>

theorem uplinks_fit:
  assumes "app_reachable P SER parse a" "(port, payload) \<in> set (tp_sent (lk_transport (ga_link a)))"
  shows "payload \<noteq> [] \<and> length payload \<le> 242"
  using reachable_ok [OF assms(1)] assms(2) by (auto simp: app_ok_def uplinks_ok_def kMaxUplinkLength_def)

section \<open>A greeting\<close>

text \<open>The radio joins and will accept one uplink.\<close>

definition joining :: loop_inputs where
  "joining = \<lparr>li_nowMs = 0, li_nowUs = 0, li_unixNow = 0, li_sent = 0, li_rx = [], li_mac = 0, li_mqtt = [],
     li_radio = (\<lambda>l. l\<lparr>lk_transport := (lk_transport l)\<lparr>tp_connected := True, tp_answers := [True]\<rparr>\<rparr>),
     li_downlinks = []\<rparr>"

lemma joining_keeps: "radio_keeps_sent joining"
  by (simp add: radio_keeps_sent_def joining_def)

definition quiet_application :: "(string \<Rightarrow> PrefValue option) application" where
  "quiet_application = initial_application (\<lambda>_ _ _. 1) ModbusDisabled LoRaLoRaWAN Map.empty"

lemma idle_slots:
  assumes "ga_scheduled a = replicate n no_action" "\<forall>i \<in> set is. i < n"
  shows "fold (executeSlot t) is a = a"
proof -
  have "i < n \<Longrightarrow> executeSlot t i a = a" for i
    using assms(1) by (simp add: executeSlot_def no_action_def Let_def)
  with assms(2) show ?thesis by (induction "is") simp_all
qed

lemma quiet_rules:
  assumes "ga_scheduled a = replicate kScheduledActions no_action" "\<not> ga_ruleBootEvaluationPending a"
  shows "processRuleExecution t 0 a = a"
  using assms(2) idle_slots [OF assms(1), of "[0..<kScheduledActions]" t]
  by (simp add: processRuleExecution_def executeDueRuleActions_def bootTriggers_def timeTriggers_def)

lemma no_commands: "cb_count (ga_commands a) = 0 \<Longrightarrow> processCommands n u a = a"
  by (cases n) (simp_all add: commandBus_dequeue_def)

lemma joining_turn:
  "\<exists>b. application_turn map_prefs (\<lambda>_ _ _. 1) (\<lambda>_. None) joining quiet_application = Some b \<and>
     tp_sent (lk_transport (ga_link b)) = [(85, [255, 11, 255, 255, 1, 1, 255, 255, 1, 0, 255, 22, 2, 0, 0, 0, 0, 0, 0,
       1, 255, 9, 4, 32, 255, 10, 0, 0, 255, 15, 2, 255, 254, 255])]"
proof -
  let ?q = quiet_application
  have core: "processCoreCommands 0 ?q = ?q"
    by (simp add: processCoreCommands_def no_commands quiet_application_def initial_application_def commandBus_empty_def)
  define q1 where "q1 = ?q\<lparr>ga_link := li_radio joining (ga_link ?q)\<rparr>"
  define q2 where "q2 = updateCompatibilityConnectionState 0 q1"
  have q2: "ga_modbus q2 = initial_component (\<lambda>_ _ _. 1)" "ga_history q2 = initial_history Map.empty Map.empty Map.empty"
    "ga_scheduled q2 = replicate kScheduledActions no_action" "ga_ruleBootEvaluationPending q2 = False"
    "lk_transport (ga_link q2) = \<lparr>tp_connected = True, tp_answers = [True], tp_sent = []\<rparr>" "ga_basicInfoPending q2"
    "ga_resetEventPending q2" "ga_classC q2"
    by (simp_all add: q2_def q1_def updateCompatibilityConnectionState_def emitCoreEvent_def quiet_application_def initial_application_def
        joining_def initial_link_def Let_def)
  have loop: "component_loop n r us ms (initial_component SER) = initial_component SER" for n r us ms SER
    by (simp add: component_loop_def initial_component_def)
  have taken: "takePassiveFrame (initial_component SER) = (None, initial_component SER)"
     "takeRawCompletion (initial_component SER) = (None, initial_component SER)"
     "takeCompletedPoll (initial_component SER) = (None, initial_component SER)" for SER
    by (simp_all add: initial_component_def takePassiveFrame_def takeRawCompletion_def takeCompletedPoll_def)
  define h where "h = processHistoryNetworkState map_prefs True 0 0 (initial_history Map.empty Map.empty Map.empty)"
  have storage: "processHistoryStorage map_prefs 0 0 s h = h" for s
    by (simp add: h_def q2 processHistoryStorage_def processHistoryNetworkState_def initial_history_def
        default_history_settings_def default_retransmission_def Let_def)
  define q3 where "q3 = q2\<lparr>ga_history := h, ga_modbus := initial_component (\<lambda>_ _ _. 1)\<rparr>"
  have q3: "processPassiveRs485Frame 0 0 q3 = q3" "processModbusPassThroughResponse q3 = (False, q3)"
    by (simp_all add: q3_def q2 processPassiveRs485Frame_def processModbusPassThroughResponse_def taken Let_def)
  obtain d b where p: "processCompatibilityBasicInfo 0 q3 = (d, b)" by fastforce
  have b: "d \<and> tp_sent (lk_transport (ga_link b)) = [(85, [255, 11, 255, 255, 1, 1, 255, 255, 1, 0, 255, 22, 2, 0, 0, 0, 0, 0, 0,
       1, 255, 9, 4, 32, 255, 10, 0, 0, 255, 15, 2, 255, 254, 255])] \<and> ga_modbus b = initial_component (\<lambda>_ _ _. 1) \<and> ga_history b = h \<and>
       ga_scheduled b = replicate kScheduledActions no_action \<and> ga_ruleBootEvaluationPending b = False"
    using p by (auto simp: processCompatibilityBasicInfo_def encodeBasicInfo_def q3_def q2
        app_send_def transport_send_def byte_of_def kCompatibilityFPort_def Let_def)
  then have d: "directUplinks 0 q3 = (d, b)" by (simp add: directUplinks_def q3 p)
  from b have rest: "captureModbusCompatibilitySample 0 0 b = b" "processRuleExecution 0 0 b = b"
    by (simp_all add: captureModbusCompatibilitySample_def taken quiet_rules Let_def)
  have "application_turn map_prefs (\<lambda>_ _ _. 1) (\<lambda>_. None) joining ?q = Some b"
    using b storage d
    by (simp add: application_turn_def core joining_def q1_def [unfolded joining_def, simplified, symmetric] q2_def [symmetric] q2 loop h_def [symmetric] q3_def [symmetric] q3 rest Let_def)
  with b show ?thesis by blast
qed

lemma application_always_ok_witness:
  "\<exists>b. application_turn map_prefs (\<lambda>_ _ _. 1) (\<lambda>_. None) joining quiet_application = Some b \<and> app_ok b"
proof -
  obtain b where b: "application_turn map_prefs (\<lambda>_ _ _. 1) (\<lambda>_. None) joining quiet_application = Some b"
    using joining_turn by blast
  have "app_reachable map_prefs (\<lambda>_ _ _. 1) (\<lambda>_. None) b"
    by (rule turned [OF _ joining_keeps b]) (simp only: quiet_application_def constructed)
  from application_always_ok [OF this] b show ?thesis by blast
qed

lemma uplinks_fit_witness:
  "\<exists>b port payload. application_turn map_prefs (\<lambda>_ _ _. 1) (\<lambda>_. None) joining quiet_application = Some b \<and>
     (port, payload) \<in> set (tp_sent (lk_transport (ga_link b))) \<and> payload \<noteq> [] \<and> length payload \<le> 242"
proof -
  from joining_turn obtain b port payload where
    b: "application_turn map_prefs (\<lambda>_ _ _. 1) (\<lambda>_. None) joining quiet_application = Some b"
      "(port, payload) \<in> set (tp_sent (lk_transport (ga_link b)))" by fastforce
  have "app_reachable map_prefs (\<lambda>_ _ _. 1) (\<lambda>_. None) b"
    by (rule turned [OF _ joining_keeps b(1)]) (simp only: quiet_application_def constructed)
  from uplinks_fit [OF this b(2)] b show ?thesis by blast
qed

end
