(* ===== verification/RuleActionProperties.thy ===== *)
theory RuleActionProperties
  imports ApplicationInvariant
begin

text \<open>
  What becomes of the action of a rule: from the downlink that configures it, through the slot it waits in
  once its rule is triggered, to the turn of the loop that executes it (\<^verbatim>\<open>include/lorawan/FPort85.h\<close>,
  \<^verbatim>\<open>include/rules/RuleExecution.h\<close> and \<^verbatim>\<open>include/core/Application.h\<close>).
\<close>

section \<open>What a frame says\<close>

text \<open>The action a frame of the extension says, with the channel and value of the alarm if there is one.\<close>

definition said_effect ::
    "u8 \<Rightarrow> bytes \<Rightarrow> (ChannelConfig \<times> DecodedScalar) option \<Rightarrow> AlarmKind \<Rightarrow> u64 \<Rightarrow> 's application \<Rightarrow> 's application" where
  "said_effect kind message alarm alarmKind change a =
     (if kind = 1 then snd (app_send kCompatibilityFPort message a)
      else if kind = 3 then a\<lparr>ga_modbus := snd (queueRuleRawRequest (Some message) (ga_modbus a))\<rparr>
      else if kind = 4 then a\<lparr>ga_scheduler := requestImmediateReport (ga_scheduler a)\<rparr>
      else if kind = 5 then
        (case alarm of None \<Rightarrow> a
         | Some (channel, v) \<Rightarrow> (case encodeAlarm channel 0 v alarmKind change (Some 32) of
             Inl _ \<Rightarrow> a | Inr payload \<Rightarrow> if payload = [] then a else snd (app_send kCompatibilityFPort payload a)))
      else a\<lparr>ga_rebootRequested := True\<rparr>)"

section \<open>Scheduling\<close>

lemma scheduleAction_slot:
  assumes "i = (unat ruleId - 1) * 3 + n" "i < length xs"
  shows "scheduleAction t ruleId alarm kind change False (n, f) xs ! i =
     (let plan = decodeExecutableAction f in
      if ap_action plan = ActNone \<or> ap_action plan = ActUnsupported then xs ! i
      else scheduledAction t ruleId n plan alarm kind change False (xs ! i))"
  using assms by (simp add: scheduleAction_def Let_def)

lemma scheduleAction_other:
  assumes "i \<noteq> (unat ruleId - 1) * 3 + n"
  shows "scheduleAction t ruleId alarm kind change False (n, f) xs ! i = xs ! i"
    "length (scheduleAction t ruleId alarm kind change False (n, f) xs) = length xs"
  using assms by (simp_all add: scheduleAction_def Let_def)

lemma scheduleAction_length [simp]: "length (scheduleAction t k alarm kind change r e xs) = length xs"
  by (simp add: scheduleAction_def Let_def split: prod.splits)

text \<open>Triggering a rule fills the slots of its three actions, each from its own frame.\<close>

lemma triggered_slot:
  assumes "length (rr_frames r) = kRuleFrameSlots" "n < 3" "i = (unat ruleId - 1) * 3 + n" "i < length (ga_scheduled a)"
  shows "ga_scheduled (scheduleRuleActions t u ruleId r alarm kind change False a) ! i =
     (let plan = decodeExecutableAction (rr_frames r ! Suc n) in
      if ap_action plan = ActNone \<or> ap_action plan = ActUnsupported then ga_scheduled a ! i
      else scheduledAction t ruleId n plan alarm kind change False (ga_scheduled a ! i))"
proof -
  obtain f0 f1 f2 f3 where fs: "rr_frames r = [f0, f1, f2, f3]"
    using assms(1) by (auto simp: kRuleFrameSlots_def length_Suc_conv eval_nat_numeral)
  have ev: "ga_scheduled (emitCoreEvent u e1 e2 e3 e4 b) = ga_scheduled b" for e1 e2 e3 e4 b
    by (simp add: emitCoreEvent_def)
  have n: "n = 0 \<or> n = 1 \<or> n = 2" using assms(2) by auto
  show ?thesis
    unfolding scheduleRuleActions_def ev
    using n assms(3,4)
    by (elim disjE) (simp_all add: fs scheduleAction_slot scheduleAction_other numeral_2_eq_2 Let_def)
qed

section \<open>Execution\<close>

lemma executed_slot:
  assumes "ga_scheduled b ! i = x" "sa_pending x" "rule (sa_ruleId x) (ga_rules b) = Some r"
  shows "executeSlot now i b = (if \<not> time_reached now (sa_dueAtMs x) then b
    else let b' = (if rr_enabled r then executeAction x b else b) in b'\<lparr>ga_scheduled := (ga_scheduled b')[i := no_action]\<rparr>)"
  using assms by (simp add: executeSlot_def Let_def)

lemma raw_message_length: "ap_action (decodeExecutableAction f) = RawRs485 \<Longrightarrow> 2 \<le> unat (ap_payloadLength (decodeExecutableAction f))"
  by (auto simp: decodeExecutableAction_def message_action_def default_plan_def Let_def word_less_nat_alt split: if_splits)

text \<open>A plan that was made is in its slot with its time, and executing it has the effect the frame says.\<close>

lemma scheduled_effect:
  assumes "decodeExecutableAction f = plan" "x = scheduledAction t k n plan alarm alarmKind change False old"
    and "ap_action plan = (if kind = 1 then ServerMessage else if kind = 3 then RawRs485
      else if kind = 4 then UploadData else if kind = 5 then UploadAlarm else ActReboot)"
    and "ap_payload plan = (if ap_action plan \<in> {ServerMessage, RawRs485} then Some message else None)"
    and "ap_payload plan \<noteq> None \<Longrightarrow> unat (ap_payloadLength plan) = length message \<and> length message \<le> 48 \<and> 2 \<le> length message"
    and "kind = 5 \<Longrightarrow> alarm \<noteq> None"
  shows "sa_pending x \<and> sa_ruleId x = k \<and> sa_dueAtMs x = t + ap_delayMs plan \<and>
    executeAction x b = said_effect kind message alarm alarmKind change b"
proof -
  have bounds: "\<not> (ap_payloadLength plan < 2 \<or> 48 < ap_payloadLength plan)" if "ap_payload plan \<noteq> None"
    using assms(5) [OF that] by (simp add: word_less_nat_alt)
  show ?thesis
    using assms(2-6) bounds
    by (auto simp: scheduledAction_def executeAction_def said_effect_def Let_def split: if_splits)
qed

text \<open>The plan of an accepted frame that is none of the exceptions.\<close>

lemma accepted_plan:
  assumes "decodeRuleConfigurationCommand (Some bs) = Inr (c, used)" "rc_slot c \<noteq> SlotCondition"
    and "frame_set (Some (rc_frame c)) old = (True, f)"
    and "plan = decodeExecutableAction f" "kind = rc_subtype c AND 0x0f" "delay = readU32Le bs 4" "message = drop 9 (rc_frame c)"
    and "\<not> (kind = 0 \<or> 86400000 < delay \<or> kind = 5 \<and> 1 < bs ! 8)" "\<not> (kind = 1 \<and> length message < 2)"
  shows "ap_action plan = (if kind = 1 then ServerMessage else if kind = 3 then RawRs485
      else if kind = 4 then UploadData else if kind = 5 then UploadAlarm else ActReboot)" (is "?action")
    "ap_payload plan = (if ap_action plan \<in> {ServerMessage, RawRs485} then Some message else None)" (is "?payload")
    "ap_delayMs plan = delay"
    "ap_payload plan \<noteq> None \<Longrightarrow> unat (ap_payloadLength plan) = length message \<and> length message \<le> 48 \<and> 2 \<le> length message"
proof -
  note decoded = accepted_action_decoded [OF assms(1-3), folded assms(4-7), simplified]
  show action: ?action and payload: ?payload and "ap_delayMs plan = delay" using assms(8) decoded by auto
  show "unat (ap_payloadLength plan) = length message \<and> length message \<le> 48 \<and> 2 \<le> length message"
    if "ap_payload plan \<noteq> None"
  proof -
    have len: "unat (ap_payloadLength plan) = length message \<and> length message \<le> 48" using that decoded by auto
    have "kind = 1 \<or> kind = 3" using that action payload by (auto split: if_splits)
    then have "2 \<le> length message"
      using assms(9) action len raw_message_length [of f, folded assms(4)] by auto
    then show ?thesis using len by simp
  qed
qed

text \<open>
  C29. An action frame the downlink decoder accepts is executed as it says. Once it is stored in a rule of
  four frames and the rule is triggered, its slot holds the action, and when a later turn looks at the slot
  as it was filled, it waits until the delay of the frame has passed and is then emptied, after exactly the
  effect the frame says if the rule is still enabled: the message sent, the bytes put into the queue of the
  bus, a report requested, the alarm of the triggering channel sent, or a restart requested. Excepted are an
  empty action, a delay of more than a day and an undefined release flag, for which the slot stays as it is,
  and a message of one byte and an alarm without a triggering channel, which are dropped.
\<close>

theorem accepted_action_executed:
  assumes "decodeRuleConfigurationCommand (Some bs) = Inr (c, used)" "rc_slot c \<noteq> SlotCondition"
    and "frame_set (Some (rc_frame c)) old = (True, f)" "length (rr_frames r) = kRuleFrameSlots"
      "rr_frames r ! slot_index (rc_slot c) = f" "length (ga_scheduled a) = kScheduledActions"
    and "kind = rc_subtype c AND 0x0f" "delay = readU32Le bs 4" "message = drop 9 (rc_frame c)"
    and "i = (unat (rc_ruleId c) - 1) * 3 + (slot_index (rc_slot c) - 1)"
      "ga_scheduled b ! i = ga_scheduled (scheduleRuleActions t u (rc_ruleId c) r alarm alarmKind change False a) ! i"
      "rule (rc_ruleId c) (ga_rules b) = Some r'"
  shows "if kind = 0 \<or> 86400000 < delay \<or> kind = 5 \<and> 1 < bs ! 8 then ga_scheduled b ! i = ga_scheduled a ! i
    else if kind = 1 \<and> length message < 2 \<or> kind = 5 \<and> alarm = None then ga_scheduled b ! i = no_action \<and> executeSlot now i b = b
    else executeSlot now i b = (if \<not> time_reached now (t + delay) then b
      else let b' = (if rr_enabled r' then said_effect kind message alarm alarmKind change b else b)
        in b'\<lparr>ga_scheduled := (ga_scheduled b')[i := no_action]\<rparr>)"
proof -
  define plan n where "plan = decodeExecutableAction f" and "n = slot_index (rc_slot c) - 1"
  have n: "n < 3" "slot_index (rc_slot c) = Suc n" using assms(2) by (cases "rc_slot c"; simp add: n_def)+
  have "1 \<le> unat (rc_ruleId c)" "unat (rc_ruleId c) \<le> kRuleCount"
    using assms(12) by (auto simp: rule_def word_less_nat_alt split: if_splits)
  then have i: "i = (unat (rc_ruleId c) - 1) * 3 + n" "i < length (ga_scheduled a)"
    using assms(6,10) n by (auto simp: kScheduledActions_def kRuleCount_def)
  have slot: "ga_scheduled b ! i = (if ap_action plan = ActNone \<or> ap_action plan = ActUnsupported then ga_scheduled a ! i
      else scheduledAction t (rc_ruleId c) n plan alarm alarmKind change False (ga_scheduled a ! i))"
    unfolding assms(11) triggered_slot [OF assms(4) n(1) i] using assms(5) n(2) by (simp add: plan_def Let_def)
  note decoded = accepted_action_decoded [OF assms(1-3), folded plan_def assms(7-9), simplified]
  show ?thesis
  proof (cases "kind = 0 \<or> 86400000 < delay \<or> kind = 5 \<and> 1 < bs ! 8")
    case True
    then show ?thesis using decoded slot by auto
  next
    case False
    show ?thesis
    proof (cases "kind = 1 \<and> length message < 2 \<or> kind = 5 \<and> alarm = None")
      case True
      then have "ga_scheduled b ! i = no_action"
        using False decoded slot by (auto simp: scheduledAction_def word_less_nat_alt Let_def)
      moreover from this have "executeSlot now i b = b" by (simp add: executeSlot_def no_action_def Let_def)
      ultimately show ?thesis using True False by auto
    next
      case live: False
      define x where "x = scheduledAction t (rc_ruleId c) n plan alarm alarmKind change False (ga_scheduled a ! i)"
      have x: "ga_scheduled b ! i = x" using False decoded slot by (auto simp: x_def split: if_splits)
      have "\<not> (kind = 1 \<and> length message < 2)" and alarmed: "kind = 5 \<Longrightarrow> alarm \<noteq> None" using live by auto
      note plan = accepted_plan [OF assms(1-3) plan_def assms(7-9) False this(1)]
      note eff = scheduled_effect [OF plan_def [symmetric] x_def plan(1,2,4) alarmed, of b]
      have "sa_pending x" "rule (sa_ruleId x) (ga_rules b) = Some r'" using eff assms(12) by simp_all
      from executed_slot [OF x this, of now] eff plan(3) show ?thesis
        unfolding if_not_P [OF False] if_not_P [OF live] by simp
    qed
  qed
qed

definition triggered_rule :: RuleRecord where
  "triggered_rule = empty_rule\<lparr>rr_enabled := True,
     rr_frames := [empty_frame, snd (frame_set (Some sample_action) empty_frame), empty_frame, empty_frame]\<rparr>"

definition ruled_application :: "(string \<Rightarrow> PrefValue option) application" where
  "ruled_application =
     (initial_application (\<lambda>_ _ _. 1) ModbusMaster LoRaDisabled Map.empty)\<lparr>ga_rules := initial_rules[0 := triggered_rule]\<rparr>"

definition triggered_application :: "(string \<Rightarrow> PrefValue option) application" where
  "triggered_application = scheduleRuleActions 100 0 1 triggered_rule None AlarmThreshold 0 False ruled_application"

lemma accepted_action_executed_witness:
  "executeSlot 1099 0 triggered_application = triggered_application \<and>
   executeSlot 1100 0 triggered_application = (let b = triggered_application\<lparr>ga_modbus :=
       snd (queueRuleRawRequest (Some [0x41, 0x42]) (ga_modbus triggered_application))\<rparr>
     in b\<lparr>ga_scheduled := (ga_scheduled b)[0 := no_action]\<rparr>)"
proof -
  obtain c where c: "decodeRuleConfigurationCommand (Some sample_action) = Inr (c, 11)"
    and s: "rc_slot c = SlotAction1" "rc_frame c = sample_action" "rc_subtype c = 0x93" "rc_ruleId c = 1"
    by (simp add: decodeRuleConfigurationCommand_def ruleContentLength_def ruleActionLength_def
        sample_action_def Let_def)
  have set: "frame_set (Some (rc_frame c)) empty_frame = (True, snd (frame_set (Some sample_action) empty_frame))"
    by (simp add: frame_set_def s sample_action_def)
  have rule: "rule (rc_ruleId c) (ga_rules triggered_application) = Some triggered_rule"
    by (simp add: triggered_application_def ruled_application_def scheduleRuleActions_def emitCoreEvent_def rule_def s
        initial_rules_def kRuleCount_def)
  have says: "rc_subtype c AND 0x0f = 3" "readU32Le sample_action 4 = 1000" "drop 9 (rc_frame c) = [0x41, 0x42]"
    by (simp_all add: s sample_action_def readU32Le_def le32_def)
  have enabled: "rr_enabled triggered_rule" by (simp add: triggered_rule_def)
  have given: "length (rr_frames triggered_rule) = kRuleFrameSlots"
    "rr_frames triggered_rule ! slot_index (rc_slot c) = snd (frame_set (Some sample_action) empty_frame)"
    "length (ga_scheduled ruled_application) = kScheduledActions"
    "0 = (unat (rc_ruleId c) - 1) * 3 + (slot_index (rc_slot c) - 1)"
    "ga_scheduled triggered_application ! 0 =
       ga_scheduled (scheduleRuleActions 100 0 (rc_ruleId c) triggered_rule None AlarmThreshold 0 False ruled_application) ! 0"
    by (simp_all add: s triggered_rule_def ruled_application_def initial_application_def kRuleFrameSlots_def kScheduledActions_def
        triggered_application_def)
  have turn: "executeSlot now 0 triggered_application = (if \<not> time_reached now 1100 then triggered_application
      else let b = said_effect 3 [0x41, 0x42] None AlarmThreshold 0 triggered_application
        in b\<lparr>ga_scheduled := (ga_scheduled b)[0 := no_action]\<rparr>)" for now
    using accepted_action_executed [OF c _ set given(1,2,3) says(1) [symmetric] says(2) [symmetric] says(3) [symmetric] given(4,5) rule,
        of now]
    by (simp add: s enabled)
  show ?thesis
    using turn [of 1099] turn [of 1100] by (simp add: time_reached_iff said_effect_def unsigned_minus_1_eq_mask mask_eq_exp_minus_1)
qed

end
