(* ===== verification/MqttProtocol.thy ===== *)
theory MqttProtocol
  imports ComponentProperties
begin

text \<open>
  The topics of \<^verbatim>\<open>include/mqtt/MqttProtocol.h\<close>. A C string is the list of its characters
  without the terminator, \<open>None\<close> for a null pointer; the output buffer of a printing function is its
  capacity, \<open>None\<close> for a null pointer, and the result is the text that is printed, \<open>None\<close> for
  \<^verbatim>\<open>false\<close>.
\<close>

section \<open>Prefixes and identifiers\<close>

definition forbidden_char :: "char \<Rightarrow> bool" where
  "forbidden_char c = (c = CHR ''#'' \<or> c = CHR ''+'' \<or> c = CHR 0x5c \<or> c = CHR '' '')"

text \<open>The scan: how many characters have been counted, whether this is the first, the last a slash.\<close>

fun prefix_scan :: "nat \<Rightarrow> bool \<Rightarrow> bool \<Rightarrow> string \<Rightarrow> bool" where
  "prefix_scan n first lastSlash [] = (\<not> lastSlash)"
| "prefix_scan n first lastSlash (c # cs) =
     (if n + 1 > 64 then False
      else if forbidden_char c then False
      else if c = CHR ''/'' then (if first \<or> lastSlash then False else prefix_scan (n + 1) False True cs)
      else prefix_scan (n + 1) False False cs)"

definition validTopicPrefix :: "string option \<Rightarrow> bool" where
  "validTopicPrefix p = (case p of None \<Rightarrow> False
     | Some prefix \<Rightarrow> if prefix = [] then False else prefix_scan 0 True False prefix)"

definition device_char :: "char \<Rightarrow> bool" where
  "device_char c =
     (let n = of_char c :: nat
      in (97 \<le> n \<and> n \<le> 122) \<or> (65 \<le> n \<and> n \<le> 90) \<or> (48 \<le> n \<and> n \<le> 57) \<or> c = CHR ''-'' \<or> c = CHR ''_'')"

fun device_scan :: "nat \<Rightarrow> string \<Rightarrow> bool" where
  "device_scan n [] = True"
| "device_scan n (c # cs) =
     (if n + 1 > 64 then False else if \<not> device_char c then False else device_scan (n + 1) cs)"

definition validDeviceId :: "string option \<Rightarrow> bool" where
  "validDeviceId d = (case d of None \<Rightarrow> False
     | Some deviceId \<Rightarrow> if deviceId = [] then False else device_scan 0 deviceId)"

section \<open>Printing\<close>

text \<open>\<^verbatim>\<open>snprintf(output, capacity, ...) > 0 && written < capacity\<close>.\<close>

definition print_into :: "nat option \<Rightarrow> string \<Rightarrow> string option" where
  "print_into output s = (case output of None \<Rightarrow> None
     | Some capacity \<Rightarrow> if capacity = 0 then None
         else if 0 < length s \<and> length s < capacity then Some s else None)"

definition makeChannelStateTopic :: "string option \<Rightarrow> string option \<Rightarrow> u16 \<Rightarrow> nat option \<Rightarrow> string option" where
  "makeChannelStateTopic prefix deviceId channelId output =
     (if \<not> validTopicPrefix prefix \<or> \<not> validDeviceId deviceId \<or> channelId = 0 then None
      else print_into output (the prefix @ ''/'' @ the deviceId @ ''/channels/'' @
        decimal (unat channelId) @ ''/state''))"

definition makeChannelCommandTopic :: "string option \<Rightarrow> string option \<Rightarrow> u16 \<Rightarrow> nat option \<Rightarrow> string option" where
  "makeChannelCommandTopic prefix deviceId channelId output =
     (if \<not> validTopicPrefix prefix \<or> \<not> validDeviceId deviceId \<or> channelId = 0 then None
      else print_into output (the prefix @ ''/'' @ the deviceId @ ''/channels/'' @
        decimal (unat channelId) @ ''/set''))"

definition makeChannelCommandWildcard :: "string option \<Rightarrow> string option \<Rightarrow> nat option \<Rightarrow> string option" where
  "makeChannelCommandWildcard prefix deviceId output =
     (if \<not> validTopicPrefix prefix \<or> \<not> validDeviceId deviceId then None
      else print_into output (the prefix @ ''/'' @ the deviceId @ ''/channels/+/set''))"

definition validHomeAssistantComponent :: "string option \<Rightarrow> bool" where
  "validHomeAssistantComponent c = (case c of None \<Rightarrow> False
     | Some x \<Rightarrow> x = ''sensor'' \<or> x = ''binary_sensor'' \<or> x = ''number'' \<or> x = ''switch'')"

definition makeHomeAssistantDiscoveryTopic ::
    "string option \<Rightarrow> string option \<Rightarrow> string option \<Rightarrow> u16 \<Rightarrow> nat option \<Rightarrow> string option" where
  "makeHomeAssistantDiscoveryTopic discoveryPrefix component deviceId channelId output =
     (if \<not> validTopicPrefix discoveryPrefix \<or> \<not> validHomeAssistantComponent component \<or>
         \<not> validDeviceId deviceId \<or> channelId = 0 then None
      else print_into output (the discoveryPrefix @ ''/'' @ the component @ ''/'' @ the deviceId @
        ''_ch'' @ decimal (unat channelId) @ ''/config''))"

definition makeEventTopic :: "string option \<Rightarrow> string option \<Rightarrow> nat option \<Rightarrow> string option" where
  "makeEventTopic prefix deviceId output =
     (if \<not> validTopicPrefix prefix \<or> \<not> validDeviceId deviceId then None
      else print_into output (the prefix @ ''/'' @ the deviceId @ ''/events''))"

definition makeAvailabilityTopic :: "string option \<Rightarrow> string option \<Rightarrow> nat option \<Rightarrow> string option" where
  "makeAvailabilityTopic prefix deviceId output =
     (if \<not> validTopicPrefix prefix \<or> \<not> validDeviceId deviceId then None
      else print_into output (the prefix @ ''/'' @ the deviceId @ ''/status''))"

section \<open>Parsing\<close>

text \<open>The digit loop: the number and the rest, \<open>None\<close> when the number exceeds 16 bits.\<close>

definition is_digit :: "char \<Rightarrow> bool" where
  "is_digit c = (48 \<le> (of_char c :: nat) \<and> of_char c \<le> (57 :: nat))"

fun topic_digits :: "nat \<Rightarrow> string \<Rightarrow> (nat \<times> string) option" where
  "topic_digits n [] = Some (n, [])"
| "topic_digits n (c # cs) =
     (if \<not> is_digit c then Some (n, c # cs)
      else if n * 10 + (of_char c - 48) > 65535 then None
      else topic_digits (n * 10 + (of_char c - 48)) cs)"

definition strip_prefix :: "string \<Rightarrow> string \<Rightarrow> string option" where
  "strip_prefix p s = (if take (length p) s = p then Some (drop (length p) s) else None)"

definition parseChannelCommandTopic :: "string option \<Rightarrow> string option \<Rightarrow> string option \<Rightarrow> u16 option" where
  "parseChannelCommandTopic prefix deviceId topic =
     (if \<not> validTopicPrefix prefix \<or> \<not> validDeviceId deviceId \<or> topic = None then None
      else
        let base = the prefix @ ''/'' @ the deviceId @ ''/channels/''
        in if length base \<ge> 160 then None
           else case strip_prefix base (the topic) of
             None \<Rightarrow> None
           | Some p \<Rightarrow>
               if p = [] \<or> \<not> is_digit (hd p) then None
               else case topic_digits 0 p of
                 None \<Rightarrow> None
               | Some (n, rest) \<Rightarrow> if n = 0 \<or> rest \<noteq> ''/set'' then None else Some (of_nat n))"

section \<open>Lengths\<close>

lemma prefix_scan_length: "prefix_scan n first slash cs \<Longrightarrow> n \<le> 64 \<Longrightarrow> n + length cs \<le> 64"
  by (induction cs arbitrary: n first slash) (fastforce split: if_splits)+

lemma device_scan_length: "device_scan n cs \<Longrightarrow> n \<le> 64 \<Longrightarrow> n + length cs \<le> 64"
  by (induction cs arbitrary: n) (fastforce split: if_splits)+

lemma valid_lengths:
  "validTopicPrefix (Some p) \<Longrightarrow> p \<noteq> [] \<and> length p \<le> 64"
  "validDeviceId (Some d) \<Longrightarrow> d \<noteq> [] \<and> length d \<le> 64"
  using prefix_scan_length [of 0 True False p] device_scan_length [of 0 d]
  by (auto simp: validTopicPrefix_def validDeviceId_def split: if_splits)

lemma device_scan_chars: "device_scan n cs \<Longrightarrow> c \<in> set cs \<Longrightarrow> device_char c"
  by (induction cs arbitrary: n) (auto split: if_splits)

lemma strip_prefix_append [simp]: "strip_prefix p (p @ s) = Some s"
  by (simp add: strip_prefix_def)

lemma strip_prefix_iff: "strip_prefix p s = Some r \<longleftrightarrow> s = p @ r"
  by (auto simp: strip_prefix_def) (metis append_take_drop_id)

section \<open>Decimal numbers\<close>

text \<open>The number a string of digits stands for.\<close>

definition digits_value :: "nat \<Rightarrow> string \<Rightarrow> nat" where
  "digits_value a ds = foldl (\<lambda>n c. n * 10 + (of_char c - 48)) a ds"

lemma digits_value_simps [simp]:
  "digits_value a [] = a" "digits_value a (c # ds) = digits_value (a * 10 + (of_char c - 48)) ds"
  "digits_value a (ds @ [c]) = digits_value a ds * 10 + (of_char c - 48)"
  by (simp_all add: digits_value_def)

lemma digits_value_grows: "a \<le> digits_value a ds"
proof (induction ds arbitrary: a)
  case (Cons c ds)
  have "a \<le> a * 10 + (of_char c - 48)" by simp
  with Cons show ?case by (simp only: digits_value_simps) (metis order_trans)
qed simp

lemma topic_digits_run:
  assumes "\<forall>c \<in> set ds. is_digit c" "digits_value a ds \<le> 65535" "rest = [] \<or> \<not> is_digit (hd rest)"
  shows "topic_digits a (ds @ rest) = Some (digits_value a ds, rest)"
  using assms
proof (induction ds arbitrary: a)
  case Nil
  then show ?case by (cases rest) simp_all
next
  case (Cons c ds)
  with digits_value_grows [of "a * 10 + (of_char c - 48)" ds] show ?case by simp
qed

lemma topic_digits_split:
  "topic_digits a s = Some (n, rest) \<Longrightarrow> \<exists>ds. s = ds @ rest \<and> (\<forall>c \<in> set ds. is_digit c) \<and> n = digits_value a ds \<and>
     (a \<le> 65535 \<longrightarrow> n \<le> 65535)"
proof (induction s arbitrary: a)
  case (Cons c s)
  show ?case
  proof (cases "is_digit c")
    case True
    with Cons.prems have a: "a * 10 + (of_char c - 48) \<le> 65535" "topic_digits (a * 10 + (of_char c - 48)) s = Some (n, rest)"
      by (auto split: if_splits)
    from Cons.IH [OF a(2)] a(1) True obtain ds where "s = ds @ rest" "\<forall>c \<in> set ds. is_digit c"
      "n = digits_value (a * 10 + (of_char c - 48)) ds" "n \<le> 65535" by blast
    then show ?thesis using True by (intro exI [of _ "c # ds"]) simp
  qed (use Cons.prems in \<open>intro exI [of _ "[]"]; simp\<close>)
qed simp

lemma digit_char:
  fixes d :: nat
  shows "d < 10 \<Longrightarrow> is_digit (char_of (48 + d))" "d < 10 \<Longrightarrow> of_char (char_of (48 + d) :: char) - 48 = d"
  by (simp_all add: is_digit_def of_char_of)

lemma decimal_digits: "(\<forall>c \<in> set (decimal n). is_digit c) \<and> digits_value 0 (decimal n) = n"
proof (induction n rule: decimal.induct)
  case (1 n)
  show ?case
  proof (cases "n < 10")
    case False
    with 1 have "(\<forall>c \<in> set (decimal (n div 10)). is_digit c) \<and> digits_value 0 (decimal (n div 10)) = n div 10" by simp
    then show ?thesis using False digit_char [of "n mod 10"] by (subst decimal.simps, subst (2) decimal.simps) auto
  qed (use digit_char in \<open>simp add: decimal.simps [of n]\<close>)
qed

lemma char_numbers: "char_of (48 :: nat) = CHR ''0''" "char_of (55 :: nat) = CHR ''7''"
  by (code_simp, code_simp)

lemma digits_decimal:
  assumes "\<forall>c \<in> set ds. is_digit c" "0 < digits_value 0 ds"
  shows "\<exists>k. ds = replicate k (CHR ''0'') @ decimal (digits_value 0 ds)"
  using assms
proof (induction ds rule: rev_induct)
  case (snoc c ds)
  define d where "d = (of_char c - 48 :: nat)"
  have c: "d < 10" "c = char_of (48 + d)"
    using snoc.prems(1) by (auto simp: d_def is_digit_def)
  show ?case
  proof (cases "digits_value 0 ds = 0")
    case True
    have zeros: "\<forall>c \<in> set ds. is_digit c \<Longrightarrow> digits_value 0 ds = 0 \<Longrightarrow> ds = replicate (length ds) (CHR ''0'')" for ds
    proof (induction ds)
      case (Cons x ds)
      have "of_char x - 48 \<le> digits_value (of_char x - 48) ds" by (rule digits_value_grows)
      then have "of_char x = (48 :: nat)" using Cons.prems by (auto simp: is_digit_def)
      then have "x = char_of (48 :: nat)" by (metis char_of_char)
      then have "x = CHR ''0''" by (simp only: char_numbers)
      with Cons show ?case by (simp add: of_char_of)
    qed simp
    from True snoc.prems(1) have "ds = replicate (length ds) (CHR ''0'')" by (intro zeros) auto
    then show ?thesis using True c by (intro exI [of _ "length ds"]) (simp add: decimal.simps [of d] d_def [symmetric])
  next
    case False
    with snoc obtain k where k: "ds = replicate k (CHR ''0'') @ decimal (digits_value 0 ds)" by auto
    let ?v = "digits_value 0 ds"
    have "decimal (?v * 10 + d) = decimal ?v @ [c]" using False c by (simp add: decimal.simps [of "?v * 10 + d"])
    then show ?thesis using k d_def by (intro exI [of _ k]) simp
  qed
qed simp

section \<open>The command topic\<close>

text \<open>
  The command topics that are accepted are the topics made for the channels, but for leading zeros
  of the number: for a valid prefix and device, a topic is parsed as a command for a channel if and
  only if it is prefix/device/channels/N/set where N is the channel's number, not zero.
\<close>

theorem command_topic_exact:
  assumes "validTopicPrefix (Some p)" "validDeviceId (Some d)"
  shows "parseChannelCommandTopic (Some p) (Some d) (Some t) = Some i \<longleftrightarrow>
    i \<noteq> 0 \<and> (\<exists>k. t = p @ ''/'' @ d @ ''/channels/'' @ replicate k (CHR ''0'') @ decimal (unat i) @ ''/set'')"
    (is "?parse \<longleftrightarrow> ?topic")
proof
  let ?base = "p @ ''/'' @ d @ ''/channels/''"
  have base: "length ?base < 160" using valid_lengths(1) [OF assms(1)] valid_lengths(2) [OF assms(2)] by simp
  {
    assume ?parse
    then obtain q n where q: "strip_prefix ?base t = Some q" "topic_digits 0 q = Some (n, ''/set'')" "n \<noteq> 0" "i = of_nat n"
      by (auto simp: parseChannelCommandTopic_def Let_def split: option.splits if_splits)
    from topic_digits_split [OF q(2)] obtain ds where ds: "q = ds @ ''/set''" "\<forall>c \<in> set ds. is_digit c"
      "n = digits_value 0 ds" "n \<le> 65535" by auto
    obtain k where "ds = replicate k (CHR ''0'') @ decimal n" using digits_decimal [OF ds(2)] ds(3) q(3) by auto
    moreover have "unat i = n" using q(4) ds(4) by (simp add: unat_of_nat_small)
    ultimately show ?topic using q(1,3) ds(1) by (auto simp: strip_prefix_iff)
  }
  assume ?topic
  then obtain k where k: "i \<noteq> 0" "t = ?base @ (replicate k (CHR ''0'') @ decimal (unat i)) @ ''/set''" by auto
  let ?ds = "replicate k (CHR ''0'') @ decimal (unat i)"
  have v: "digits_value 0 (replicate k (CHR ''0'') @ xs) = digits_value 0 xs" for xs
    by (induction k) (simp_all add: of_char_of)
  have ds: "\<forall>c \<in> set ?ds. is_digit c" "digits_value 0 ?ds = unat i"
    using decimal_digits [of "unat i"] by (auto simp: v is_digit_def)
  moreover have "unat i \<le> 65535" using unat_bound [of i] by simp
  ultimately have "topic_digits 0 (?ds @ ''/set'') = Some (unat i, ''/set'')"
    by (subst topic_digits_run) (simp_all add: is_digit_def)
  moreover have "?ds \<noteq> []" by simp
  ultimately show ?parse
    using assms base k ds by (cases ?ds) (simp_all add: parseChannelCommandTopic_def Let_def unat_eq_0 del: append_assoc)
qed

lemma command_topic_exact_witness:
  "parseChannelCommandTopic (Some ''multibus'') (Some ''gw-1'') (Some ''multibus/gw-1/channels/007/set'') = Some 7"
proof -
  have v: "validTopicPrefix (Some ''multibus'')" "validDeviceId (Some ''gw-1'')"
    by (simp_all add: validTopicPrefix_def forbidden_char_def validDeviceId_def device_char_def Let_def)
  show ?thesis
    by (rule command_topic_exact [OF v, THEN iffD2]) (intro conjI exI [of _ "Suc (Suc 0)"]; simp add: decimal.simps char_numbers)
qed

end
