(* ===== verification/DeviceConfig.thy ===== *)
theory DeviceConfig
  imports MqttProtocol StoreProperties
begin

text \<open>
  The configuration of the device: \<^verbatim>\<open>include/core/AppConfig.h\<close>, \<^verbatim>\<open>DeviceConfig.h\<close>,
  \<^verbatim>\<open>LoRaWanIdentity.h\<close>, \<^verbatim>\<open>DeviceIdentity.h\<close> and \<^verbatim>\<open>ConfigStore.h\<close>. A mode is kept as its byte,
  because the store casts whatever byte it reads to the enumeration. A \<^verbatim>\<open>String\<close> is the list of its
  characters.
\<close>

section \<open>Modes\<close>

record AppConfig =
  ac_victron :: u8
  ac_lora :: u8
  ac_modbus :: u8
  ac_gnss :: u8

definition default_app_config :: AppConfig where
  "default_app_config = \<lparr>ac_victron = 0, ac_lora = 0, ac_modbus = 0, ac_gnss = 0\<rparr>"

text \<open>The codes \<^verbatim>\<open>'W'\<close>, \<^verbatim>\<open>'M'\<close> and \<^verbatim>\<open>'S'\<close> of the enumerators.\<close>

definition kLoRaWanMode :: u8 where "kLoRaWanMode = 0x57"
definition kMeshtasticMode :: u8 where "kMeshtasticMode = 0x4d"
definition kMasterMode :: u8 where "kMasterMode = 0x4d"
definition kSlaveMode :: u8 where "kSlaveMode = 0x53"

datatype ConfigValidationResult = ConfigOk | MeshtasticNotImplemented

definition validateConfig :: "AppConfig \<Rightarrow> ConfigValidationResult" where
  "validateConfig c = (if ac_lora c = kMeshtasticMode then MeshtasticNotImplemented else ConfigOk)"

section \<open>The configuration\<close>

record NetworkConfig =
  nc_ssid :: string
  nc_password :: string
  nc_hostname :: string
  nc_friendlyName :: string

record LoRaWanConfig =
  lc_joinEui :: string
  lc_appKey :: string
  lc_classC :: bool
  lc_extensionFPort :: u8

record MqttConfig =
  mq_enabled :: bool
  mq_host :: string
  mq_port :: u16
  mq_username :: string
  mq_password :: string
  mq_topicPrefix :: string
  mq_publishIntervalSeconds :: u16
  mq_retainState :: bool
  mq_homeAssistantDiscovery :: bool
  mq_homeAssistantPrefix :: string
  mq_tlsEnabled :: bool
  mq_caCertificate :: string

record DeviceConfig =
  dc_schemaVersion :: u32
  dc_components :: AppConfig
  dc_network :: NetworkConfig
  dc_lorawan :: LoRaWanConfig
  dc_mqtt :: MqttConfig

definition kDeviceConfigSchemaVersion :: u32 where "kDeviceConfigSchemaVersion = 3"
definition kCompatibilityPort :: u8 where "kCompatibilityPort = 85"
definition kDefaultExtensionFPort :: u8 where "kDefaultExtensionFPort = 86"
definition kDefaultJoinEui :: string where "kDefaultJoinEui = ''024D554C54494255''"

definition configured :: "NetworkConfig \<Rightarrow> bool" where "configured n = (nc_ssid n \<noteq> [])"

definition default_network_config :: NetworkConfig where
  "default_network_config = \<lparr>nc_ssid = [], nc_password = [], nc_hostname = [], nc_friendlyName = []\<rparr>"

definition default_lorawan_config :: LoRaWanConfig where
  "default_lorawan_config = \<lparr>lc_joinEui = kDefaultJoinEui, lc_appKey = [], lc_classC = True,
     lc_extensionFPort = kDefaultExtensionFPort\<rparr>"

definition default_mqtt_config :: MqttConfig where
  "default_mqtt_config = \<lparr>mq_enabled = False, mq_host = [], mq_port = 1883, mq_username = [], mq_password = [],
     mq_topicPrefix = ''multibus'', mq_publishIntervalSeconds = 30, mq_retainState = True,
     mq_homeAssistantDiscovery = False, mq_homeAssistantPrefix = ''homeassistant'', mq_tlsEnabled = False,
     mq_caCertificate = []\<rparr>"

definition default_device_config :: DeviceConfig where
  "default_device_config = \<lparr>dc_schemaVersion = kDeviceConfigSchemaVersion, dc_components = default_app_config,
     dc_network = default_network_config, dc_lorawan = default_lorawan_config, dc_mqtt = default_mqtt_config\<rparr>"

text \<open>\<^verbatim>\<open>c_str()\<close>: the characters up to the first that is null.\<close>

definition c_str :: "string \<Rightarrow> string" where
  "c_str s = takeWhile (\<lambda>c. c \<noteq> CHR 0x00) s"

definition mqtt_valid :: "MqttConfig \<Rightarrow> bool" where
  "mqtt_valid c =
     (if mq_port c = 0 \<or> mq_publishIntervalSeconds c < 1 \<or> mq_publishIntervalSeconds c > 3600 then False
      else if mq_topicPrefix c = [] \<or> length (mq_topicPrefix c) > 64 \<or>
        \<not> validTopicPrefix (Some (c_str (mq_topicPrefix c))) then False
      else if mq_homeAssistantPrefix c = [] \<or> length (mq_homeAssistantPrefix c) > 64 \<or>
        \<not> validTopicPrefix (Some (c_str (mq_homeAssistantPrefix c))) then False
      else if mq_enabled c \<and> mq_host c = [] then False
      else if length (mq_caCertificate c) > 4095 then False
      else if mq_enabled c \<and> mq_tlsEnabled c \<and> mq_caCertificate c = [] then False
      else True)"

section \<open>Identity\<close>

definition hex_char :: "char \<Rightarrow> bool" where
  "hex_char c = (let n = of_char c :: nat in (48 \<le> n \<and> n \<le> 57) \<or> (97 \<le> n \<and> n \<le> 102) \<or> (65 \<le> n \<and> n \<le> 70))"

definition isHexString :: "string \<Rightarrow> nat \<Rightarrow> bool" where
  "isHexString s n = (length s = n \<and> list_all hex_char s)"

text \<open>The digits of a byte, upper case; the random bytes of a key are an argument.\<close>

definition hex_digit :: "nat \<Rightarrow> char" where
  "hex_digit n = ''0123456789ABCDEF'' ! n"

definition hex_byte :: "u8 \<Rightarrow> string" where
  "hex_byte b = [hex_digit (unat (drop_bit 4 b)), hex_digit (unat (b AND 0x0f))]"

definition generateAppKey :: "bytes \<Rightarrow> string" where
  "generateAppKey key = concat (map hex_byte key)"

definition validateLoRaWanConfig :: "LoRaWanConfig \<Rightarrow> bool" where
  "validateLoRaWanConfig c =
     (if \<not> isHexString (lc_joinEui c) 16 then False
      else if \<not> isHexString (lc_appKey c) 32 then False
      else if lc_extensionFPort c = 0 \<or> lc_extensionFPort c = kCompatibilityPort then False
      else True)"

definition ensureLoRaWanConfig :: "bytes \<Rightarrow> LoRaWanConfig \<Rightarrow> bool \<times> LoRaWanConfig" where
  "ensureLoRaWanConfig random c =
     (let (changed, c) = (if \<not> isHexString (lc_joinEui c) 16
            then (True, c\<lparr>lc_joinEui := kDefaultJoinEui\<rparr>) else (False, c));
          (changed, c) = (if \<not> isHexString (lc_appKey c) 32
            then (True, c\<lparr>lc_appKey := generateAppKey random\<rparr>) else (changed, c))
      in if lc_extensionFPort c = 0 \<or> lc_extensionFPort c = kCompatibilityPort
         then (True, c\<lparr>lc_extensionFPort := kDefaultExtensionFPort\<rparr>) else (changed, c))"

text \<open>\<open>efuse\<close> is what \<^verbatim>\<open>ESP.getEfuseMac()\<close> returns.\<close>

definition hardwareMac48 :: "u64 \<Rightarrow> u64" where
  "hardwareMac48 efuse = efuse AND 0x0000FFFFFFFFFFFF"

definition deviceSuffix :: "u64 \<Rightarrow> string" where
  "deviceSuffix efuse = (let mac = hardwareMac48 efuse in
     hex_byte (byte_of 2 mac) @ hex_byte (byte_of 1 mac) @ hex_byte (byte_of 0 mac))"

definition devEui_bytes :: "u64 \<Rightarrow> bytes" where
  "devEui_bytes mac = [0x02, byte_of 5 mac, byte_of 4 mac, byte_of 3 mac, byte_of 2 mac, byte_of 1 mac, byte_of 0 mac, 0x01]"

definition devEui :: "u64 \<Rightarrow> string" where
  "devEui efuse = concat (map hex_byte (devEui_bytes (hardwareMac48 efuse)))"

definition toLower :: "char \<Rightarrow> char" where
  "toLower c = (let n = of_char c :: nat in if 65 \<le> n \<and> n \<le> 90 then char_of (n + 32) else c)"

definition defaultHostname :: "u64 \<Rightarrow> string" where
  "defaultHostname efuse = map toLower (''multibus-'' @ deviceSuffix efuse)"

definition defaultApSsid :: "u64 \<Rightarrow> string" where
  "defaultApSsid efuse = ''MultiBus-'' @ deviceSuffix efuse"

section \<open>The store\<close>

text \<open>The result of loading, the configuration and whether it needs to be saved again.\<close>

definition configStore_load :: "'s prefs \<Rightarrow> 's \<Rightarrow> DeviceConfig \<Rightarrow> bool \<Rightarrow> bool \<times> DeviceConfig \<times> bool" where
  "configStore_load P s config needsSave =
     (if \<not> pf_isKey P s ''schema'' then (False, config, needsSave)
      else
        let storedSchema = pf_getUInt P s ''schema'' 0
        in if storedSchema < 1 \<or> storedSchema > kDeviceConfigSchemaVersion then (False, config, needsSave)
           else
             let components = \<lparr>ac_victron = pf_getUChar P s ''victron'' 0, ac_lora = pf_getUChar P s ''lora'' 0,
                   ac_modbus = pf_getUChar P s ''modbus'' 0, ac_gnss = pf_getUChar P s ''gnss'' 0\<rparr>;
                 network = \<lparr>nc_ssid = pf_getString P s ''wifi_ssid'' [], nc_password = pf_getString P s ''wifi_pass'' [],
                   nc_hostname = pf_getString P s ''hostname'' [], nc_friendlyName = pf_getString P s ''friendly'' []\<rparr>;
                 lorawan = (if storedSchema \<ge> 2
                   then \<lparr>lc_joinEui = pf_getString P s ''lw_join_eui'' kDefaultJoinEui,
                     lc_appKey = pf_getString P s ''lw_app_key'' [], lc_classC = pf_getBool P s ''lw_class_c'' True,
                     lc_extensionFPort = pf_getUChar P s ''lw_ext_port'' kDefaultExtensionFPort\<rparr>
                   else default_lorawan_config);
                 mqtt = (if storedSchema \<ge> 3
                   then \<lparr>mq_enabled = pf_getBool P s ''mq_en'' False, mq_host = pf_getString P s ''mq_host'' [],
                     mq_port = pf_getUShort P s ''mq_port'' 1883, mq_username = pf_getString P s ''mq_user'' [],
                     mq_password = pf_getString P s ''mq_pass'' [], mq_topicPrefix = pf_getString P s ''mq_prefix'' ''multibus'',
                     mq_publishIntervalSeconds = pf_getUShort P s ''mq_pub_s'' 30,
                     mq_retainState = pf_getBool P s ''mq_retain'' True,
                     mq_homeAssistantDiscovery = pf_getBool P s ''mq_ha'' False,
                     mq_homeAssistantPrefix = pf_getString P s ''mq_ha_pref'' ''homeassistant'',
                     mq_tlsEnabled = pf_getBool P s ''mq_tls'' False, mq_caCertificate = pf_getString P s ''mq_ca'' []\<rparr>
                   else default_mqtt_config)
             in (validateConfig components = ConfigOk \<and> mqtt_valid mqtt,
                 \<lparr>dc_schemaVersion = kDeviceConfigSchemaVersion, dc_components = components, dc_network = network,
                  dc_lorawan = lorawan, dc_mqtt = mqtt\<rparr>,
                 storedSchema \<noteq> kDeviceConfigSchemaVersion))"

text \<open>The writes of \<^verbatim>\<open>save\<close>, whose results are not looked at.\<close>

definition config_entries :: "DeviceConfig \<Rightarrow> (string \<times> PrefValue) list" where
  "config_entries c = (let a = dc_components c; n = dc_network c; l = dc_lorawan c; m = dc_mqtt c in
     [(''schema'', PvU32 (dc_schemaVersion c)), (''victron'', PvU8 (ac_victron a)), (''lora'', PvU8 (ac_lora a)),
      (''modbus'', PvU8 (ac_modbus a)), (''gnss'', PvU8 (ac_gnss a)), (''wifi_ssid'', PvString (nc_ssid n)),
      (''wifi_pass'', PvString (nc_password n)), (''hostname'', PvString (nc_hostname n)),
      (''friendly'', PvString (nc_friendlyName n)), (''lw_join_eui'', PvString (lc_joinEui l)),
      (''lw_app_key'', PvString (lc_appKey l)), (''lw_class_c'', PvBool (lc_classC l)),
      (''lw_ext_port'', PvU8 (lc_extensionFPort l)), (''mq_en'', PvBool (mq_enabled m)),
      (''mq_host'', PvString (mq_host m)), (''mq_port'', PvU16 (mq_port m)), (''mq_user'', PvString (mq_username m)),
      (''mq_pass'', PvString (mq_password m)), (''mq_prefix'', PvString (mq_topicPrefix m)),
      (''mq_pub_s'', PvU16 (mq_publishIntervalSeconds m)), (''mq_retain'', PvBool (mq_retainState m)),
      (''mq_ha'', PvBool (mq_homeAssistantDiscovery m)), (''mq_ha_pref'', PvString (mq_homeAssistantPrefix m)),
      (''mq_tls'', PvBool (mq_tlsEnabled m)), (''mq_ca'', PvString (mq_caCertificate m))])"

definition configStore_save :: "'s prefs \<Rightarrow> DeviceConfig \<Rightarrow> 's \<Rightarrow> bool \<Rightarrow> bool \<times> 's \<times> bool" where
  "configStore_save P config s needsSave =
     (if dc_schemaVersion config \<noteq> kDeviceConfigSchemaVersion \<or> validateConfig (dc_components config) \<noteq> ConfigOk \<or>
         \<not> mqtt_valid (dc_mqtt config) then (False, s, needsSave)
      else
        let s = fold (\<lambda>(k, v) s. snd (pf_put P k v s)) (config_entries config) s
        in (pf_getUInt P s ''schema'' 0 = kDeviceConfigSchemaVersion, s, False))"

definition configStore_clear :: "'s prefs \<Rightarrow> 's \<Rightarrow> 's \<times> bool" where
  "configStore_clear P s = (snd (pf_clear P s), False)"

section \<open>Hexadecimal texts\<close>

lemma nibble_bounds: "unat (drop_bit 4 b) < 16" "unat (b AND 0x0f) < 16" for b :: u8
proof -
  show "unat (drop_bit 4 b) < 16" using unat_bound [of b] unfolding unat_drop_bit_eq by (simp add: drop_bit_eq_div)
  have "unat (b AND 0x0f) \<le> unat (0x0f :: u8)" using word_and_le1 [of b "0x0f"] unfolding word_le_nat_alt .
  then show "unat (b AND 0x0f) < 16" by simp
qed

lemma hex_char_digit: "n < 16 \<Longrightarrow> hex_char (hex_digit n)"
  by (auto simp: hex_char_def hex_digit_def less_Suc_eq numeral_eq_Suc Let_def)

lemma hex_byte_text: "length (hex_byte b) = 2" "list_all hex_char (hex_byte b)"
  using hex_char_digit nibble_bounds by (simp_all add: hex_byte_def)

lemma hex_bytes_text: "isHexString (concat (map hex_byte bs)) (2 * length bs)"
  by (induction bs) (simp_all add: isHexString_def hex_byte_text)

section \<open>Repairing the configuration\<close>

text \<open>
  Provisioning repairs what is invalid and nothing else: whatever LoRaWAN configuration is stored,
  what ensureLoRaWanConfig makes of it with sixteen random bytes is valid; it reports a change exactly
  when the configuration was not valid, and keeps every part that was, the class always.
\<close>

theorem provisioning_repaired:
  assumes "length random = 16" "ensureLoRaWanConfig random c = (changed, c')"
  shows "validateLoRaWanConfig c' \<and> changed = (\<not> validateLoRaWanConfig c) \<and> (\<not> changed \<longrightarrow> c' = c) \<and>
    lc_classC c' = lc_classC c \<and> (isHexString (lc_appKey c) 32 \<longrightarrow> lc_appKey c' = lc_appKey c) \<and>
    (isHexString (lc_joinEui c) 16 \<longrightarrow> lc_joinEui c' = lc_joinEui c)"
proof -
  have "isHexString (generateAppKey random) 32"
    using hex_bytes_text [of random] assms(1) by (simp add: generateAppKey_def)
  moreover have "isHexString kDefaultJoinEui 16"
    by (simp add: isHexString_def kDefaultJoinEui_def hex_char_def Let_def)
  ultimately show ?thesis
    using assms(2)
    by (auto simp: ensureLoRaWanConfig_def validateLoRaWanConfig_def kDefaultExtensionFPort_def
        kCompatibilityPort_def Let_def split: if_splits)
qed

lemma provisioning_repaired_witness:
  "validateLoRaWanConfig (snd (ensureLoRaWanConfig (replicate 16 0xa7) default_lorawan_config)) \<and>
   fst (ensureLoRaWanConfig (replicate 16 0xa7) default_lorawan_config)"
proof -
  obtain ch c where e: "ensureLoRaWanConfig (replicate 16 0xa7) default_lorawan_config = (ch, c)" by fastforce
  have "\<not> validateLoRaWanConfig default_lorawan_config"
    by (simp add: validateLoRaWanConfig_def default_lorawan_config_def isHexString_def)
  with provisioning_repaired [OF _ e] e show ?thesis by simp
qed

section \<open>Saving and loading\<close>

lemma config_keys: "distinct (map fst (config_entries c))"
  by (simp add: config_entries_def Let_def)

lemma configStore_saved:
  assumes "prefs_laws P" "writes_stored P (config_entries c) s" "dc_schemaVersion c = kDeviceConfigSchemaVersion"
    "validateConfig (dc_components c) = ConfigOk" "mqtt_valid (dc_mqtt c)"
    "configStore_save P c s needs = (ok, s', needs')"
  shows "ok \<and> configStore_load P s' old b = (True, c, False)"
proof -
  have s': "s' = fold (\<lambda>(k, v) s. snd (pf_put P k v s)) (config_entries c) s"
    using assms(3-6) by (simp add: configStore_save_def Let_def)
  note get = put_all [OF assms(1,2) config_keys, folded s']
  have "pf_get P s' ''schema'' = Some (PvU32 (dc_schemaVersion c))"
    by (simp add: get config_entries_def Let_def)
  then have ok using assms(3-6) s' by (simp add: configStore_save_def pf_getUInt_def Let_def)
  moreover have "configStore_load P s' old b = (True, c, False)"
    using assms(3-5)
    by (cases c; cases "dc_components c"; cases "dc_network c"; cases "dc_lorawan c"; cases "dc_mqtt c")
      (simp add: configStore_load_def pf_typed get config_entries_def kDeviceConfigSchemaVersion_def Let_def)
  ultimately show ?thesis by simp
qed

text \<open>
  C23. A saved configuration is what the next start loads. Saving refuses an invalid configuration and
  then changes nothing; for a valid one it reports success exactly if the schema is read back. When each of
  the writes of the save took effect, that is the case, and loading then gives the same configuration, field
  by field, as valid and with nothing to be saved again. When a write was refused nothing is promised: the
  results of the writes are not looked at.
\<close>

theorem configuration_survives:
  assumes "prefs_laws P" "configStore_save P c s needs = (ok, s', needs')"
    "valid = (dc_schemaVersion c = kDeviceConfigSchemaVersion \<and> validateConfig (dc_components c) = ConfigOk \<and> mqtt_valid (dc_mqtt c))"
  shows "(\<not> valid \<longrightarrow> \<not> ok \<and> s' = s) \<and> (valid \<longrightarrow> ok = (pf_getUInt P s' ''schema'' 0 = kDeviceConfigSchemaVersion)) \<and>
    (valid \<and> writes_stored P (config_entries c) s \<longrightarrow> ok \<and> configStore_load P s' old b = (True, c, False))"
proof (intro conjI impI)
  show "ok" "configStore_load P s' old b = (True, c, False)" if "valid \<and> writes_stored P (config_entries c) s"
    using configStore_saved [OF assms(1) _ _ _ _ assms(2)] that assms(3) by simp_all
qed (use assms(2,3) in \<open>auto simp: configStore_save_def Let_def\<close>)

lemma default_config_valid: "mqtt_valid default_mqtt_config"
  by (simp add: mqtt_valid_def default_mqtt_config_def validTopicPrefix_def forbidden_char_def c_str_def)

lemma configuration_survives_witness:
  "configStore_load map_prefs (fst (snd (configStore_save map_prefs default_device_config Map.empty True)))
     default_device_config True = (True, default_device_config, False)"
proof -
  obtain ok s' n where s: "configStore_save map_prefs default_device_config Map.empty True = (ok, s', n)"
    by (metis prod_cases3)
  have "dc_schemaVersion default_device_config = kDeviceConfigSchemaVersion"
    "validateConfig (dc_components default_device_config) = ConfigOk" "mqtt_valid (dc_mqtt default_device_config)"
    using default_config_valid by (simp_all add: default_device_config_def default_app_config_def validateConfig_def kMeshtasticMode_def)
  with configuration_survives [OF map_prefs_laws s refl] map_prefs_stores s show ?thesis by simp
qed

section \<open>A storage that is full\<close>

text \<open>
  The results of the writes are not looked at: over a storage that has no room for the key of the
  network server, saving reports success and the next start loads a configuration without it.
\<close>

definition full_prefs :: "(string \<Rightarrow> PrefValue option) prefs" where
  "full_prefs = map_prefs\<lparr>pf_put := (\<lambda>k v s. if k = ''lw_app_key'' then (0, s) else pf_put map_prefs k v s)\<rparr>"

lemma full_prefs_laws: "prefs_laws full_prefs"
  by (auto simp: prefs_laws_def full_prefs_def map_prefs_def split: if_splits)

lemma save_reports_success_without_key:
  "\<exists>s'. configStore_save full_prefs (default_device_config\<lparr>dc_lorawan := default_lorawan_config\<lparr>lc_appKey := ''00''\<rparr>\<rparr>)
      Map.empty True = (True, s', False) \<and>
    lc_appKey (dc_lorawan (fst (snd (configStore_load full_prefs s' default_device_config True)))) = []"
  using default_config_valid
  by (simp add: configStore_save_def configStore_load_def config_entries_def full_prefs_def map_prefs_def pf_typed
      default_device_config_def default_app_config_def validateConfig_def kMeshtasticMode_def
      kDeviceConfigSchemaVersion_def Let_def)

end
