(* ===== verification/LoRaWanRadio.thy ===== *)
theory LoRaWanRadio
  imports DeviceConfig ApplicationState
begin

text \<open>
  The LoRaWAN radio of \<^verbatim>\<open>include/lorawan/LoRaWanRadio.h\<close> and the component around it
  (\<^verbatim>\<open>LoRaComponent\<close> of \<^verbatim>\<open>include/components/Components.h\<close>). RadioLib is a parameter: a
  record of its codes and of its operations on an opaque node state. The pins and the SPI bus, which
  \<^verbatim>\<open>begin\<close> sets up without looking at a result, are left out. A downlink that is dispatched to the
  handler is appended to \<open>rd_dispatched\<close>, and the clock that is set is kept in \<open>rd_clock\<close>;
  \<open>nowMs\<close> is \<^verbatim>\<open>millis()\<close>.
\<close>

section \<open>RadioLib\<close>

record 'n radiolib =
  rl_ERR_NONE :: int
  rl_SESSION_RESTORED :: int
  rl_NEW_SESSION :: int
  rl_NETWORK_NOT_JOINED :: int
  rl_SESSION_DISCARDED :: int
  rl_CLASS_A :: u8
  rl_CLASS_C :: u8
  rl_noncesSize :: nat
  rl_sessionSize :: nat
  rl_begin :: "'n \<Rightarrow> int \<times> 'n"
  rl_setDio2AsRfSwitch :: "'n \<Rightarrow> int \<times> 'n"
  rl_beginOTAA :: "u64 \<Rightarrow> u64 \<Rightarrow> bytes \<Rightarrow> 'n \<Rightarrow> 'n"
  rl_setADR :: "'n \<Rightarrow> 'n"
  rl_setDutyCycle :: "'n \<Rightarrow> 'n"
  rl_setBufferNonces :: "bytes \<Rightarrow> 'n \<Rightarrow> int \<times> 'n"
  rl_setBufferSession :: "bytes \<Rightarrow> 'n \<Rightarrow> int \<times> 'n"
  rl_getBufferNonces :: "'n \<Rightarrow> bytes"
  rl_getBufferSession :: "'n \<Rightarrow> bytes"
  rl_clearSession :: "'n \<Rightarrow> 'n"
  rl_activateOTAA :: "'n \<Rightarrow> int \<times> 'n"
  rl_setClass :: "u8 \<Rightarrow> 'n \<Rightarrow> int \<times> 'n"
  rl_sendMacCommandReq :: "'n \<Rightarrow> int \<times> 'n"
  rl_sendReceive :: "bytes ptr \<Rightarrow> u8 \<Rightarrow> bool \<Rightarrow> 'n \<Rightarrow> int \<times> (bytes \<times> u8) \<times> 'n"
  rl_getMacDeviceTimeAns :: "'n \<Rightarrow> int \<times> u32 \<times> u16 \<times> 'n"
  rl_getDownlinkClassC :: "'n \<Rightarrow> int \<times> (bytes \<times> u8) \<times> 'n"
  rl_getDevAddr :: "'n \<Rightarrow> u32"
  rl_settimeofday :: "u32 \<Rightarrow> u16 \<Rightarrow> bool"

section \<open>State\<close>

record ('n, 's) radio =
  rd_config :: LoRaWanConfig
  rd_devEuiText :: string
  rd_joinEui :: u64
  rd_devEui :: u64
  rd_appKey :: bytes
  rd_stateIdentity :: u32
  rd_node :: 'n
  rd_ns :: 's
  rd_store :: lorawan_state
  rd_handler :: bool
  rd_provisioned :: bool
  rd_radioReady :: bool
  rd_joined :: bool
  rd_persistenceHealthy :: bool
  rd_rejoinRequested :: bool
  rd_networkTimeSyncRequested :: bool
  rd_lastState :: int
  rd_lastClassCState :: int
  rd_lastTimeSyncState :: int
  rd_lastNetworkTimeUnix :: u32
  rd_lastNetworkTimeMilliseconds :: u16
  rd_nextJoinAtMs :: u32
  rd_dispatched :: "(u8 \<times> bytes) list"
  rd_clock :: "(u32 \<times> u16) option"

definition initial_radio :: "'n radiolib \<Rightarrow> 'n \<Rightarrow> 's \<Rightarrow> ('n, 's) radio" where
  "initial_radio R node ns = \<lparr>rd_config = default_lorawan_config, rd_devEuiText = [], rd_joinEui = 0, rd_devEui = 0,
     rd_appKey = replicate 16 0, rd_stateIdentity = 0, rd_node = node, rd_ns = ns,
     rd_store = \<lparr>ls_open = False, ls_lastSession = None\<rparr>, rd_handler = False, rd_provisioned = False,
     rd_radioReady = False, rd_joined = False, rd_persistenceHealthy = False, rd_rejoinRequested = False,
     rd_networkTimeSyncRequested = False, rd_lastState = rl_ERR_NONE R, rd_lastClassCState = rl_ERR_NONE R,
     rd_lastTimeSyncState = rl_ERR_NONE R, rd_lastNetworkTimeUnix = 0, rd_lastNetworkTimeMilliseconds = 0,
     rd_nextJoinAtMs = 0, rd_dispatched = [], rd_clock = None\<rparr>"

definition kJoinRetryMs :: u32 where "kJoinRetryMs = 60000"

section \<open>Provisioning\<close>

definition hexNibble :: "char \<Rightarrow> u8 option" where
  "hexNibble c =
     (let n = of_char c :: nat
      in if 48 \<le> n \<and> n \<le> 57 then Some (of_nat (n - 48))
         else if 97 \<le> n \<and> n \<le> 102 then Some (of_nat (n - 97 + 10))
         else if 65 \<le> n \<and> n \<le> 70 then Some (of_nat (n - 65 + 10))
         else None)"

text \<open>The loops, with the value so far; the result is false at the first character that is no digit.\<close>

fun eui_digits :: "string \<Rightarrow> u64 \<Rightarrow> bool \<times> u64" where
  "eui_digits [] v = (True, v)"
| "eui_digits (c # cs) v = (case hexNibble c of
       None \<Rightarrow> (False, v) | Some nibble \<Rightarrow> eui_digits cs (push_bit 4 v OR ucast nibble))"

definition parseEui :: "string \<Rightarrow> u64 \<Rightarrow> bool \<times> u64" where
  "parseEui t v = (if \<not> isHexString t 16 then (False, v) else eui_digits t 0)"

fun key_digits :: "string \<Rightarrow> nat \<Rightarrow> bytes \<Rightarrow> bool \<times> bytes" where
  "key_digits (h # l # cs) i key = (case (hexNibble h, hexNibble l) of
       (Some high, Some low) \<Rightarrow> key_digits cs (i + 1) (key[i := push_bit 4 high OR low])
     | _ \<Rightarrow> (False, key))"
| "key_digits _ i key = (True, key)"

definition parseKey :: "string \<Rightarrow> bytes \<Rightarrow> bool \<times> bytes" where
  "parseKey t key = (if \<not> isHexString t 32 then (False, key) else key_digits t 0 key)"

definition parseProvisioning :: "('n, 's) radio \<Rightarrow> bool \<times> ('n, 's) radio" where
  "parseProvisioning r =
     (if \<not> validateLoRaWanConfig (rd_config r) \<or> \<not> isHexString (rd_devEuiText r) 16 then (False, r)
      else
        let (ok, join) = parseEui (lc_joinEui (rd_config r)) (rd_joinEui r); r = r\<lparr>rd_joinEui := join\<rparr>
        in if \<not> ok then (False, r)
           else
             let (ok, dev) = parseEui (rd_devEuiText r) (rd_devEui r); r = r\<lparr>rd_devEui := dev\<rparr>
             in if \<not> ok then (False, r)
                else
                  let (ok, key) = parseKey (lc_appKey (rd_config r)) (rd_appKey r)
                  in (ok, r\<lparr>rd_appKey := key\<rparr>))"

definition radio_configure :: "LoRaWanConfig \<Rightarrow> string \<Rightarrow> ('n, 's) radio \<Rightarrow> ('n, 's) radio" where
  "radio_configure config devEuiValue r =
     (let r = r\<lparr>rd_config := config, rd_devEuiText := devEuiValue,
            rd_stateIdentity := identityFingerprint (text_bytes devEuiValue) (text_bytes (lc_joinEui config))
              (text_bytes (lc_appKey config))\<rparr>;
          (ok, r) = parseProvisioning r
      in r\<lparr>rd_provisioned := ok\<rparr>)"

definition setDownlinkHandler :: "bool \<Rightarrow> ('n, 's) radio \<Rightarrow> ('n, 's) radio" where
  "setDownlinkHandler handler r = r\<lparr>rd_handler := handler\<rparr>"

section \<open>Persistence\<close>

definition persistSession :: "'s prefs \<Rightarrow> 'n radiolib \<Rightarrow> ('n, 's) radio \<Rightarrow> bool \<times> ('n, 's) radio" where
  "persistSession P R r =
     (let (ok, ns, st) = saveSessionIfChanged P (rd_stateIdentity r) (Some (rl_getBufferSession R (rd_node r)))
            (rd_ns r) (rd_store r);
          r = r\<lparr>rd_ns := ns, rd_store := st\<rparr>
      in if \<not> ok then (False, r\<lparr>rd_persistenceHealthy := False\<rparr>) else (True, r))"

definition persistJoinState :: "'s prefs \<Rightarrow> 'n radiolib \<Rightarrow> ('n, 's) radio \<Rightarrow> bool \<times> ('n, 's) radio" where
  "persistJoinState P R r =
     (let (ok, ns, st) = saveNonces P (rd_stateIdentity r) (Some (rl_getBufferNonces R (rd_node r))) (rd_ns r) (rd_store r);
          r = r\<lparr>rd_ns := ns, rd_store := st\<rparr>
      in if \<not> ok then (False, r)
         else if \<not> rd_joined r then (True, r)
         else
           let (ok, ns, st) = saveSessionIfChanged P (rd_stateIdentity r) (Some (rl_getBufferSession R (rd_node r)))
                 (rd_ns r) (rd_store r)
           in (ok, r\<lparr>rd_ns := ns, rd_store := st\<rparr>))"

text \<open>The two clears of the session, as the failure paths and a rejoin make them.\<close>

definition clearStoredSession :: "'s prefs \<Rightarrow> ('n, 's) radio \<Rightarrow> bool \<times> ('n, 's) radio" where
  "clearStoredSession P r =
     (let (ok, ns, st) = clearSession P (rd_stateIdentity r) (rd_ns r) (rd_store r)
      in (ok, r\<lparr>rd_ns := ns, rd_store := st\<rparr>))"

section \<open>Joining\<close>

definition applyConfiguredClass :: "'n radiolib \<Rightarrow> ('n, 's) radio \<Rightarrow> bool \<times> ('n, 's) radio" where
  "applyConfiguredClass R r =
     (if \<not> rd_joined r then (False, r)
      else
        let (state, node) = rl_setClass R (if lc_classC (rd_config r) then rl_CLASS_C R else rl_CLASS_A R) (rd_node r);
            r = r\<lparr>rd_lastState := state, rd_node := node\<rparr>
        in if state \<noteq> rl_ERR_NONE R then (False, r\<lparr>rd_joined := False\<rparr>) else (True, r))"

definition tryJoin :: "'s prefs \<Rightarrow> 'n radiolib \<Rightarrow> u32 \<Rightarrow> ('n, 's) radio \<Rightarrow> bool \<times> ('n, 's) radio" where
  "tryJoin P R nowMs r =
     (if \<not> rd_radioReady r \<or> \<not> rd_provisioned r \<or> \<not> rd_persistenceHealthy r then (False, r)
      else
        let (state, node) = rl_activateOTAA R (rd_node r);
            r = r\<lparr>rd_lastState := state, rd_node := node,
              rd_joined := (state = rl_NEW_SESSION R \<or> state = rl_SESSION_RESTORED R)\<rparr>;
            r = (if rd_joined r
                 then (case applyConfiguredClass R r of
                     (ok, r) \<Rightarrow> if \<not> ok then r\<lparr>rd_nextJoinAtMs := nowMs + kJoinRetryMs\<rparr> else r)
                 else r);
            (ok, r) = persistJoinState P R r
        in if \<not> ok then (False, r\<lparr>rd_persistenceHealthy := False, rd_joined := False\<rparr>)
           else if \<not> rd_joined r then (False, r\<lparr>rd_nextJoinAtMs := nowMs + kJoinRetryMs\<rparr>)
           else (True, r))"

definition joinFresh :: "'s prefs \<Rightarrow> 'n radiolib \<Rightarrow> u32 \<Rightarrow> ('n, 's) radio \<Rightarrow> bool \<times> ('n, 's) radio" where
  "joinFresh P R nowMs r =
     (let r = snd (tryJoin P R nowMs (r\<lparr>rd_persistenceHealthy := True\<rparr>)) in (rd_persistenceHealthy r, r))"

text \<open>A session that the node has accepted: it must turn out to be restored.\<close>

definition resumeSession :: "'s prefs \<Rightarrow> 'n radiolib \<Rightarrow> ('n, 's) radio \<Rightarrow> bool \<times> ('n, 's) radio" where
  "resumeSession P R r =
     (let (state, node) = rl_activateOTAA R (rd_node r); r = r\<lparr>rd_lastState := state, rd_node := node\<rparr>
      in if state = rl_SESSION_RESTORED R then
           (let (ok, r) = applyConfiguredClass R (r\<lparr>rd_joined := True, rd_persistenceHealthy := True\<rparr>)
            in if \<not> ok then (False, r) else persistSession P R r)
         else (False, r))"

text \<open>The second half of \<^verbatim>\<open>begin\<close>, from the load of the persisted state on.\<close>

definition restoreState :: "'s prefs \<Rightarrow> 'n radiolib \<Rightarrow> u32 \<Rightarrow> ('n, 's) radio \<Rightarrow> bool \<times> ('n, 's) radio" where
  "restoreState P R nowMs r =
     (let (ok, nonces, session, st) = lorawanState_load P (rl_noncesSize R) (rl_sessionSize R) (rd_stateIdentity r)
            (rd_ns r) (rd_store r);
          r = r\<lparr>rd_store := st\<rparr>
      in if \<not> ok then (False, r)
         else case nonces of
           None \<Rightarrow> joinFresh P R nowMs r
         | Some persistedNonces \<Rightarrow>
             let (state, node) = rl_setBufferNonces R persistedNonces (rd_node r);
                 r = r\<lparr>rd_lastState := state, rd_node := node\<rparr>
             in if state \<noteq> rl_ERR_NONE R then (False, r)
                else case session of
                  None \<Rightarrow> joinFresh P R nowMs r
                | Some persistedSession \<Rightarrow>
                    let (state, node) = rl_setBufferSession R persistedSession (rd_node r);
                        r = r\<lparr>rd_lastState := state, rd_node := node\<rparr>
                    in if state = rl_ERR_NONE R then resumeSession P R r
                       else
                         let (ok, r) = clearStoredSession P r
                         in if \<not> ok then (False, r)
                            else joinFresh P R nowMs (r\<lparr>rd_node := rl_clearSession R (rd_node r)\<rparr>))"

text \<open>\<open>opened\<close> is what opening the namespace returns.\<close>

definition radio_begin :: "'s prefs \<Rightarrow> 'n radiolib \<Rightarrow> bool \<Rightarrow> u32 \<Rightarrow> ('n, 's) radio \<Rightarrow> bool \<times> ('n, 's) radio" where
  "radio_begin P R opened nowMs r =
     (let r = r\<lparr>rd_joined := False, rd_radioReady := False, rd_persistenceHealthy := False,
            rd_lastState := rl_ERR_NONE R, rd_lastClassCState := rl_ERR_NONE R\<rparr>
      in if \<not> rd_provisioned r then (False, r)
         else
           let r = r\<lparr>rd_store := (rd_store r)\<lparr>ls_open := opened\<rparr>\<rparr>
           in if \<not> opened then (False, r)
              else
                let (state, node) = rl_begin R (rd_node r); r = r\<lparr>rd_lastState := state, rd_node := node\<rparr>
                in if state \<noteq> rl_ERR_NONE R then (False, r)
                   else
                     let (state, node) = rl_setDio2AsRfSwitch R (rd_node r); r = r\<lparr>rd_lastState := state, rd_node := node\<rparr>
                     in if state \<noteq> rl_ERR_NONE R then (False, r)
                        else restoreState P R nowMs (r\<lparr>rd_radioReady := True,
                          rd_node := rl_setDutyCycle R (rl_setADR R
                            (rl_beginOTAA R (rd_joinEui r) (rd_devEui r) (rd_appKey r) (rd_node r)))\<rparr>))"

section \<open>Traffic\<close>

definition dispatchApplicationDownlink :: "bytes \<times> u8 \<Rightarrow> ('n, 's) radio \<Rightarrow> ('n, 's) radio" where
  "dispatchApplicationDownlink d r =
     (let (payload, fport) = d
      in if payload = [] \<or> \<not> rd_handler r \<or> fport = 0 then r
         else r\<lparr>rd_dispatched := rd_dispatched r @ [(fport, payload)]\<rparr>)"

definition pollClassCDownlink :: "'s prefs \<Rightarrow> 'n radiolib \<Rightarrow> ('n, 's) radio \<Rightarrow> ('n, 's) radio" where
  "pollClassCDownlink P R r =
     (let (state, downlink, node) = rl_getDownlinkClassC R (rd_node r);
          r = r\<lparr>rd_lastClassCState := state, rd_node := node\<rparr>
      in if state \<le> rl_ERR_NONE R then r
         else
           let (ok, r) = persistSession P R r
           in if \<not> ok then r else dispatchApplicationDownlink downlink r)"

definition performNetworkTimeSync :: "'s prefs \<Rightarrow> 'n radiolib \<Rightarrow> ('n, 's) radio \<Rightarrow> bool \<times> ('n, 's) radio" where
  "performNetworkTimeSync P R r =
     (let (state, node) = rl_sendMacCommandReq R (rd_node r); r = r\<lparr>rd_lastState := state, rd_node := node\<rparr>
      in if state \<noteq> rl_ERR_NONE R then (False, r)
         else
           let (state, downlink, node) = rl_sendReceive R None 0 False (rd_node r);
               (ok, r) = persistSession P R (r\<lparr>rd_lastState := state, rd_node := node\<rparr>)
           in if \<not> ok then (False, r)
              else if rd_lastState r < rl_ERR_NONE R then (False, r)
              else
                let (state, unixSeconds, milliseconds, node) = rl_getMacDeviceTimeAns R (rd_node r);
                    r = r\<lparr>rd_lastTimeSyncState := state, rd_node := node\<rparr>
                in if state \<noteq> rl_ERR_NONE R then (False, r)
                   else if \<not> rl_settimeofday R unixSeconds milliseconds then (False, r)
                   else (True, dispatchApplicationDownlink downlink (r\<lparr>rd_clock := Some (unixSeconds, milliseconds),
                     rd_lastNetworkTimeUnix := unixSeconds, rd_lastNetworkTimeMilliseconds := milliseconds\<rparr>)))"

definition radio_loop :: "'s prefs \<Rightarrow> 'n radiolib \<Rightarrow> u32 \<Rightarrow> ('n, 's) radio \<Rightarrow> ('n, 's) radio" where
  "radio_loop P R nowMs r =
     (if \<not> rd_radioReady r \<or> \<not> rd_provisioned r \<or> \<not> rd_persistenceHealthy r then r
      else
        let (go, r) = (if rd_rejoinRequested r then
              (let (ok, r) = clearStoredSession P (r\<lparr>rd_rejoinRequested := False, rd_joined := False,
                     rd_node := rl_clearSession R (rd_node r)\<rparr>)
               in if \<not> ok then (False, r\<lparr>rd_persistenceHealthy := False\<rparr>)
                  else (True, r\<lparr>rd_nextJoinAtMs := nowMs\<rparr>))
            else (True, r))
        in if \<not> go then r
           else if rd_joined r then
             (let r = (if rd_networkTimeSyncRequested r
                       then snd (performNetworkTimeSync P R (r\<lparr>rd_networkTimeSyncRequested := False\<rparr>)) else r)
              in if lc_classC (rd_config r) then pollClassCDownlink P R r else r)
           else if \<not> time_reached nowMs (rd_nextJoinAtMs r) then r
           else snd (tryJoin P R nowMs r))"

definition radio_send :: "'s prefs \<Rightarrow> 'n radiolib \<Rightarrow> u32 \<Rightarrow> u8 \<Rightarrow> bytes ptr \<Rightarrow> bool \<Rightarrow> ('n, 's) radio \<Rightarrow> bool \<times> ('n, 's) radio" where
  "radio_send P R nowMs endpoint p confirmed r =
     (if \<not> rd_joined r \<or> \<not> rd_persistenceHealthy r \<or> p = None \<or> p = Some [] \<or> endpoint = 0 \<or> endpoint > 223 \<or>
         length (the p) > 242 then (False, r)
      else
        let (state, downlink, node) = rl_sendReceive R p endpoint confirmed (rd_node r);
            (ok, r) = persistSession P R (r\<lparr>rd_lastState := state, rd_node := node\<rparr>)
        in if \<not> ok then (False, r)
           else if state < rl_ERR_NONE R then
             (if state = rl_NETWORK_NOT_JOINED R \<or> state = rl_SESSION_DISCARDED R then
                (let (ok, r) = clearStoredSession P (r\<lparr>rd_joined := False, rd_node := rl_clearSession R (rd_node r)\<rparr>)
                 in if \<not> ok then (False, r\<lparr>rd_persistenceHealthy := False\<rparr>)
                    else (False, r\<lparr>rd_nextJoinAtMs := nowMs + kJoinRetryMs\<rparr>))
              else (False, r))
           else (True, dispatchApplicationDownlink downlink r))"

definition radio_requestRejoin :: "('n, 's) radio \<Rightarrow> bool \<times> ('n, 's) radio" where
  "radio_requestRejoin r =
     (if \<not> rd_radioReady r \<or> \<not> rd_provisioned r \<or> \<not> rd_persistenceHealthy r then (False, r)
      else (True, r\<lparr>rd_rejoinRequested := True\<rparr>))"

definition radio_requestNetworkTimeSync :: "('n, 's) radio \<Rightarrow> bool \<times> ('n, 's) radio" where
  "radio_requestNetworkTimeSync r =
     (if \<not> rd_joined r \<or> \<not> rd_persistenceHealthy r then (False, r)
      else (True, r\<lparr>rd_networkTimeSyncRequested := True\<rparr>))"

definition radio_devAddr :: "'n radiolib \<Rightarrow> ('n, 's) radio \<Rightarrow> u32" where
  "radio_devAddr R r = (if rd_joined r then rl_getDevAddr R (rd_node r) else 0)"

definition classCActive :: "('n, 's) radio \<Rightarrow> bool" where
  "classCActive r = (rd_joined r \<and> lc_classC (rd_config r))"

section \<open>The component\<close>

record ('n, 's) lora_component =
  lo_mode :: LoRaMode
  lo_radio :: "('n, 's) radio"
  lo_active :: bool
  lo_provisioned :: bool

definition lora_setMode :: "LoRaMode \<Rightarrow> ('n, 's) lora_component \<Rightarrow> ('n, 's) lora_component" where
  "lora_setMode mode c = c\<lparr>lo_mode := mode, lo_active := False\<rparr>"

definition setProvisioning :: "LoRaWanConfig \<Rightarrow> string \<Rightarrow> ('n, 's) lora_component \<Rightarrow> ('n, 's) lora_component" where
  "setProvisioning config devEuiValue c = c\<lparr>lo_radio := radio_configure config devEuiValue (lo_radio c)\<rparr>"

definition lora_begin ::
    "'s prefs \<Rightarrow> 'n radiolib \<Rightarrow> bool \<Rightarrow> u32 \<Rightarrow> ('n, 's) lora_component \<Rightarrow> string list \<Rightarrow>
       bool \<times> ('n, 's) lora_component \<times> string list" where
  "lora_begin P R opened nowMs c capabilities =
     (case lo_mode c of
        LoRaDisabled \<Rightarrow> (True, c, capabilities)
      | LoRaMeshtastic \<Rightarrow> (False, c, capabilities)
      | LoRaLoRaWAN \<Rightarrow>
          let capabilities = add_capabilities [''transport.lora'', ''lora.lorawan'', ''lora.uplink'', ''lora.downlink'',
                ''lora.compat.fport85'', ''lora.extensions'', ''lora.otaa'', ''lora.eu868'', ''lora.sx1262''] capabilities;
              c = c\<lparr>lo_provisioned := rd_provisioned (lo_radio c)\<rparr>
          in if \<not> lo_provisioned c then (False, c, capabilities)
             else
               let (active, r) = radio_begin P R opened nowMs (lo_radio c)
               in (active, c\<lparr>lo_active := active, lo_radio := r\<rparr>, capabilities))"

definition lora_loop :: "'s prefs \<Rightarrow> 'n radiolib \<Rightarrow> u32 \<Rightarrow> ('n, 's) lora_component \<Rightarrow> ('n, 's) lora_component" where
  "lora_loop P R nowMs c = c\<lparr>lo_radio := radio_loop P R nowMs (lo_radio c)\<rparr>"

definition lora_connected_now :: "('n, 's) lora_component \<Rightarrow> bool" where
  "lora_connected_now c = (lo_active c \<and> rd_joined (lo_radio c))"

definition lora_requestRejoin :: "('n, 's) lora_component \<Rightarrow> bool \<times> ('n, 's) lora_component" where
  "lora_requestRejoin c = (if \<not> lo_active c then (False, c)
     else let (ok, r) = radio_requestRejoin (lo_radio c) in (ok, c\<lparr>lo_radio := r\<rparr>))"

definition lora_requestNetworkTimeSync :: "('n, 's) lora_component \<Rightarrow> bool \<times> ('n, 's) lora_component" where
  "lora_requestNetworkTimeSync c = (if \<not> lo_active c then (False, c)
     else let (ok, r) = radio_requestNetworkTimeSync (lo_radio c) in (ok, c\<lparr>lo_radio := r\<rparr>))"

definition lora_send ::
    "'s prefs \<Rightarrow> 'n radiolib \<Rightarrow> u32 \<Rightarrow> u8 \<Rightarrow> bytes ptr \<Rightarrow> bool \<Rightarrow> ('n, 's) lora_component \<Rightarrow> bool \<times> ('n, 's) lora_component" where
  "lora_send P R nowMs endpoint p confirmed c = (if \<not> lo_active c then (False, c)
     else let (ok, r) = radio_send P R nowMs endpoint p confirmed (lo_radio c) in (ok, c\<lparr>lo_radio := r\<rparr>))"

end
