(* ===== verification/RadioProperties.thy ===== *)
theory RadioProperties
  imports LoRaWanRadio
begin

text \<open>
  What the radio keeps in the storage: the nonces of the node whenever it may transmit, the session
  after every frame that was sent, and the texts that provision it.
\<close>

section \<open>Provisioning\<close>

lemma hexNibble_digit: "n < 16 \<Longrightarrow> hexNibble (hex_digit n) = Some (of_nat n)"
proof -
  assume "n < 16"
  then have "n \<in> set [0..<16]" by simp
  moreover have "list_all (\<lambda>n. hexNibble (hex_digit n) = Some (of_nat n)) [0..<16]"
    by (simp add: hexNibble_def hex_digit_def upt_rec Let_def)
  ultimately show ?thesis by (simp add: list_all_iff)
qed

lemma low_nibble: "b AND 0x0f = (take_bit 4 b :: u8)"
  by (simp add: take_bit_eq_mask mask_eq_exp_minus_1)

lemma byte_nibbles: "push_bit 4 (drop_bit 4 b) OR (b AND 0x0f) = (b :: u8)"
  unfolding low_nibble by (intro bit_eqI) (auto simp: bit_simps)

lemma value_nibbles:
  "(push_bit 8 v OR push_bit 4 (ucast (drop_bit 4 b))) OR ucast (b AND 0x0f) = push_bit 8 v OR ucast b"
  for b :: u8 and v :: u64
  unfolding low_nibble by (intro bit_eqI) (auto simp: bit_simps)

lemma key_digits_generated:
  "i + length bs \<le> length key \<Longrightarrow>
     key_digits (concat (map hex_byte bs)) i key = (True, take i key @ bs @ drop (i + length bs) key)"
proof (induction bs arbitrary: i key)
  case (Cons b bs)
  then show ?case
    using nibble_bounds [of b] by (simp add: hex_byte_def hexNibble_digit byte_nibbles)
      (simp add: take_Suc_conv_app_nth)
qed simp

lemma parseKey_generated:
  assumes "length random = 16" "length key = 16"
  shows "parseKey (generateAppKey random) key = (True, random)"
  using key_digits_generated [of 0 random key] hex_bytes_text [of random] assms
  by (simp add: parseKey_def generateAppKey_def)

lemma eui_digits_printed:
  "eui_digits (concat (map hex_byte bs)) v = (True, foldl (\<lambda>v b. push_bit 8 v OR ucast b) v bs)"
proof (induction bs arbitrary: v)
  case (Cons b bs)
  then show ?case
    using nibble_bounds [of b] by (simp add: hex_byte_def hexNibble_digit value_nibbles)
qed simp

lemma eui_digits_hex: "list_all hex_char t \<Longrightarrow> \<exists>w. eui_digits t v = (True, w)"
proof (induction t arbitrary: v)
  case (Cons c t)
  then show ?case by (auto simp: hex_char_def hexNibble_def Let_def)
qed simp

lemma be_bytes_of_list:
  assumes "length bs = 8"
  shows "be_bytes 8 (foldl (\<lambda>v b. push_bit 8 v OR ucast b) 0 bs :: u64) = bs"
proof -
  obtain a b c d e f g h where "bs = [a, b, c, d, e, f, g, h]"
    using assms by (auto simp: length_Suc_conv numeral_eq_Suc)
  then show ?thesis
    by (simp add: be_bytes_def upt_rec) (intro conjI bit_eqI; auto simp: bit_simps dest: bit_imp_le_length)
qed

lemma parseEui_printed:
  assumes "length bs = 8"
  shows "parseEui (concat (map hex_byte bs)) v = (True, foldl (\<lambda>v b. push_bit 8 v OR ucast b) 0 bs)"
  using assms hex_bytes_text [of bs] by (simp add: parseEui_def eui_digits_printed)

text \<open>
  The identity that is printed is the one the radio uses: with the device identifier printed from the
  hardware address, any application key generated from sixteen random bytes and a configuration that is
  valid otherwise, the radio is provisioned with exactly these bytes: the key is the random bytes, and the
  device EUI is 02, the six bytes of the hardware address and 01 in this order.
\<close>

theorem identity_roundtrip:
  assumes "length random = 16" "length (rd_appKey r) = 16" "validateLoRaWanConfig (config\<lparr>lc_appKey := generateAppKey random\<rparr>)"
    "r' = radio_configure (config\<lparr>lc_appKey := generateAppKey random\<rparr>) (devEui efuse) r"
  shows "rd_provisioned r' \<and> rd_appKey r' = random \<and> be_bytes 8 (rd_devEui r') = devEui_bytes (hardwareMac48 efuse)"
proof -
  let ?c = "config\<lparr>lc_appKey := generateAppKey random\<rparr>"
  let ?bs = "devEui_bytes (hardwareMac48 efuse)"
  have bs: "length ?bs = 8" by (simp add: devEui_bytes_def)
  have dev: "isHexString (devEui efuse) 16" "parseEui (devEui efuse) v = (True, foldl (\<lambda>v b. push_bit 8 v OR ucast b) 0 ?bs)" for v
    using hex_bytes_text [of ?bs] parseEui_printed [OF bs] bs by (simp_all add: devEui_def)
  have "isHexString (lc_joinEui config) 16" using assms(3) by (simp add: validateLoRaWanConfig_def split: if_splits)
  then obtain v where "eui_digits (lc_joinEui config) 0 = (True, v)"
    using eui_digits_hex by (auto simp: isHexString_def)
  then have join: "fst (parseEui (lc_joinEui config) w)" for w
    using \<open>isHexString (lc_joinEui config) 16\<close> by (simp add: parseEui_def)
  have "be_bytes 8 (foldl (\<lambda>v b. push_bit 8 v OR ucast b) 0 ?bs :: u64) = ?bs"
    by (rule be_bytes_of_list [OF bs])
  then show ?thesis
    using assms join [of "rd_joinEui r"] dev parseKey_generated [OF assms(1,2)]
    by (simp add: radio_configure_def parseProvisioning_def Let_def split: prod.splits)
qed

section \<open>RadioLib\<close>

text \<open>
  What the library promises: the sizes of its buffers; a nonces buffer that is accepted is the node's;
  only an attempt to join changes the nonces, and restoring a session is none.
\<close>

definition radiolib_laws :: "'n radiolib \<Rightarrow> bool" where
  "radiolib_laws R = (0 < rl_noncesSize R \<and> 0 < rl_sessionSize R \<and>
     (\<forall>n. length (rl_getBufferNonces R n) = rl_noncesSize R \<and> length (rl_getBufferSession R n) = rl_sessionSize R) \<and>
     (\<forall>b n n'. rl_setBufferNonces R b n = (rl_ERR_NONE R, n') \<longrightarrow> rl_getBufferNonces R n' = b) \<and>
     (\<forall>b n. rl_getBufferNonces R (snd (rl_setBufferSession R b n)) = rl_getBufferNonces R n) \<and>
     (\<forall>n n'. rl_activateOTAA R n = (rl_SESSION_RESTORED R, n') \<longrightarrow> rl_getBufferNonces R n' = rl_getBufferNonces R n) \<and>
     (\<forall>c n. rl_getBufferNonces R (snd (rl_setClass R c n)) = rl_getBufferNonces R n) \<and>
     (\<forall>n. rl_getBufferNonces R (rl_clearSession R n) = rl_getBufferNonces R n) \<and>
     (\<forall>n. rl_getBufferNonces R (snd (rl_sendMacCommandReq R n)) = rl_getBufferNonces R n) \<and>
     (\<forall>p e c n. rl_getBufferNonces R (snd (snd (rl_sendReceive R p e c n))) = rl_getBufferNonces R n) \<and>
     (\<forall>n. rl_getBufferNonces R (snd (snd (snd (rl_getMacDeviceTimeAns R n)))) = rl_getBufferNonces R n) \<and>
     (\<forall>n. rl_getBufferNonces R (snd (snd (rl_getDownlinkClassC R n))) = rl_getBufferNonces R n))"

lemma radiolib_keeps:
  assumes "radiolib_laws R"
  shows "rl_setBufferSession R b n = (e, n') \<Longrightarrow> rl_getBufferNonces R n' = rl_getBufferNonces R n"
    "rl_setClass R c n = (e, n') \<Longrightarrow> rl_getBufferNonces R n' = rl_getBufferNonces R n"
    "rl_getBufferNonces R (rl_clearSession R n) = rl_getBufferNonces R n"
    "rl_sendMacCommandReq R n = (e, n') \<Longrightarrow> rl_getBufferNonces R n' = rl_getBufferNonces R n"
    "rl_sendReceive R p port conf n = (e, d, n') \<Longrightarrow> rl_getBufferNonces R n' = rl_getBufferNonces R n"
    "rl_getMacDeviceTimeAns R n = (e, t, m, n') \<Longrightarrow> rl_getBufferNonces R n' = rl_getBufferNonces R n"
    "rl_getDownlinkClassC R n = (e, d, n') \<Longrightarrow> rl_getBufferNonces R n' = rl_getBufferNonces R n"
    "rl_activateOTAA R n = (rl_SESSION_RESTORED R, n') \<Longrightarrow> rl_getBufferNonces R n' = rl_getBufferNonces R n"
    "rl_setBufferNonces R b n = (rl_ERR_NONE R, n') \<Longrightarrow> rl_getBufferNonces R n' = b"
    "length (rl_getBufferNonces R n) = rl_noncesSize R" "length (rl_getBufferSession R n) = rl_sessionSize R"
    "0 < rl_noncesSize R" "0 < rl_sessionSize R"
  using assms unfolding radiolib_laws_def by (metis snd_conv)+

section \<open>The stored state\<close>

definition cached :: "'s prefs \<Rightarrow> 's \<Rightarrow> lorawan_state \<Rightarrow> bool" where
  "cached P s st = (\<forall>b. ls_lastSession st = Some b \<longrightarrow> pf_get P s ''lw_session'' = Some (PvBytes b))"

definition holds_nonces :: "'s prefs \<Rightarrow> u32 \<Rightarrow> bytes \<Rightarrow> 's \<Rightarrow> lorawan_state \<Rightarrow> bool" where
  "holds_nonces P identity nonces s st = (ls_open st \<and> pf_getUInt P s ''lw_state_id'' 0 = identity \<and>
     pf_get P s ''lw_nonces'' = Some (PvBytes nonces) \<and> cached P s st)"

lemma saveNonces_holds:
  assumes "prefs_laws P" "pf_getUInt P s ''lw_state_id'' 0 = identity \<longrightarrow> cached P s st" "nonces \<noteq> []"
    "saveNonces P identity (Some nonces) s st = (True, s', st')"
  shows "holds_nonces P identity nonces s' st'"
proof -
  obtain s1 st1 where e: "ensureIdentity P identity s st = (True, s1, st1)" and o: "ls_open st"
    and w: "pf_store P ''lw_nonces'' (PvBytes nonces) s1 = (True, s')" "st' = st1"
    using assms(4) by (auto simp: saveNonces_def Let_def split: prod.splits if_splits)
  have "ls_open st1 \<and> pf_getUInt P s1 ''lw_state_id'' 0 = identity \<and> cached P s1 st1"
  proof (cases "pf_getUInt P s ''lw_state_id'' 0 = identity")
    case False
    then obtain s2 where "pf_store P ''lw_state_id'' (PvU32 identity) s2 = (True, s1)" "st1 = st\<lparr>ls_lastSession := None\<rparr>"
      using e by (auto simp: ensureIdentity_def Let_def split: prod.splits)
    then show ?thesis using o pf_store_True [OF assms(1)] by (auto simp: cached_def pf_getUInt_def)
  qed (use e assms(2) o in \<open>auto simp: ensureIdentity_def\<close>)
  moreover note pf_store_True [OF assms(1) w(1)]
  ultimately show ?thesis using assms(3) w(2) by (simp add: holds_nonces_def cached_def pf_getUInt_def)
qed

lemma saveSession_holds:
  assumes "prefs_laws P" "holds_nonces P identity nonces s st" "session \<noteq> []"
    "saveSessionIfChanged P identity (Some session) s st = (True, s', st')"
  shows "holds_nonces P identity nonces s' st' \<and> pf_get P s' ''lw_session'' = Some (PvBytes session)"
proof (cases "ls_lastSession st = Some session")
  case True
  then show ?thesis using assms(2,4) by (auto simp: saveSessionIfChanged_def holds_nonces_def cached_def)
next
  case False
  then have w: "pf_store P ''lw_session'' (PvBytes session) s = (True, s')" "st' = st\<lparr>ls_lastSession := Some session\<rparr>"
    using assms(2,4) by (auto simp: saveSessionIfChanged_def ensureIdentity_def holds_nonces_def Let_def split: prod.splits if_splits)
  from pf_store_True [OF assms(1) w(1)] show ?thesis
    using assms(2,3) w(2) by (simp add: holds_nonces_def cached_def pf_getUInt_def)
qed

lemma clearSession_holds:
  assumes "prefs_laws P" "holds_nonces P identity nonces s st" "clearSession P identity s st = (True, s', st')"
  shows "holds_nonces P identity nonces s' st'"
proof (cases "pf_isKey P s ''lw_session''")
  case True
  then have "pf_remove P ''lw_session'' s = (True, s')" "st' = st\<lparr>ls_lastSession := None\<rparr>"
    using assms(2,3) by (auto simp: clearSession_def holds_nonces_def Let_def split: prod.splits if_splits)
  then show ?thesis
    using assms(2) pf_remove_law(2) [OF assms(1)] by (auto simp: holds_nonces_def cached_def pf_getUInt_def)
qed (use assms(2,3) in \<open>auto simp: clearSession_def holds_nonces_def cached_def split: if_splits\<close>)

section \<open>The invariant of the radio\<close>

definition stored :: "'s prefs \<Rightarrow> 'n radiolib \<Rightarrow> ('n, 's) radio \<Rightarrow> bool" where
  "stored P R r = (rd_radioReady r \<and> rd_provisioned r \<and>
     holds_nonces P (rd_stateIdentity r) (rl_getBufferNonces R (rd_node r)) (rd_ns r) (rd_store r))"

definition radio_ok :: "'s prefs \<Rightarrow> 'n radiolib \<Rightarrow> ('n, 's) radio \<Rightarrow> bool" where
  "radio_ok P R r = (rd_persistenceHealthy r \<longrightarrow> stored P R r)"

lemma sick_ok: "\<not> rd_persistenceHealthy r \<Longrightarrow> radio_ok P R r"
  by (simp add: radio_ok_def)

lemma stored_node:
  "stored P R r \<Longrightarrow> rl_getBufferNonces R n = rl_getBufferNonces R (rd_node r) \<Longrightarrow> stored P R (r\<lparr>rd_node := n\<rparr>)"
  by (simp add: stored_def)

lemma persistSession_ok:
  assumes "prefs_laws P" "radiolib_laws R" "stored P R r" "persistSession P R r = (ok, r')"
  shows "(ok \<longrightarrow> stored P R r' \<and> pf_get P (rd_ns r') ''lw_session'' = Some (PvBytes (rl_getBufferSession R (rd_node r')))) \<and>
    (\<not> ok \<longrightarrow> \<not> rd_persistenceHealthy r') \<and> rd_node r' = rd_node r \<and> rd_stateIdentity r' = rd_stateIdentity r"
proof -
  let ?b = "rl_getBufferSession R (rd_node r)"
  have b: "?b \<noteq> []" using radiolib_keeps(11,13) [OF assms(2)] by (metis length_greater_0_conv)
  obtain ok' s' st' where s: "saveSessionIfChanged P (rd_stateIdentity r) (Some ?b) (rd_ns r) (rd_store r) = (ok', s', st')"
    by (metis prod_cases3)
  show ?thesis
    using assms(3,4) s saveSession_holds [OF assms(1) _ b, of "rd_stateIdentity r" _ "rd_ns r" "rd_store r" s' st']
    by (cases ok') (auto simp: persistSession_def stored_def)
qed

lemma cleared_ok:
  assumes "prefs_laws P" "stored P R r" "clearStoredSession P r = (True, r')"
  shows "stored P R r'"
  using assms clearSession_holds [OF assms(1)]
  by (auto simp: clearStoredSession_def stored_def split: prod.splits)

definition ready_to_join :: "'s prefs \<Rightarrow> ('n, 's) radio \<Rightarrow> bool" where
  "ready_to_join P r = (rd_radioReady r \<and> rd_provisioned r \<and>
     (pf_getUInt P (rd_ns r) ''lw_state_id'' 0 = rd_stateIdentity r \<longrightarrow> cached P (rd_ns r) (rd_store r)))"

lemma stored_ready: "stored P R r \<Longrightarrow> ready_to_join P r"
  by (simp add: stored_def ready_to_join_def holds_nonces_def)

lemma class_keeps:
  assumes "radiolib_laws R" "applyConfiguredClass R r = (ok, r')"
  shows "rl_getBufferNonces R (rd_node r') = rl_getBufferNonces R (rd_node r) \<and> rd_ns r' = rd_ns r \<and>
    rd_store r' = rd_store r \<and> rd_stateIdentity r' = rd_stateIdentity r \<and> rd_radioReady r' = rd_radioReady r \<and>
    rd_provisioned r' = rd_provisioned r \<and> rd_persistenceHealthy r' = rd_persistenceHealthy r"
  using assms(2) radiolib_keeps(2) [OF assms(1)]
  by (auto simp: applyConfiguredClass_def Let_def split: prod.splits if_splits)

lemma persistJoinState_ok:
  assumes "prefs_laws P" "radiolib_laws R" "ready_to_join P r" "persistJoinState P R r = (True, r')"
  shows "stored P R r'"
proof -
  let ?n = "rl_getBufferNonces R (rd_node r)" and ?b = "rl_getBufferSession R (rd_node r)"
  have b: "?b \<noteq> []" "?n \<noteq> []" using radiolib_keeps(10-13) [OF assms(2)] by (metis length_greater_0_conv)+
  obtain ok s1 st1 where n: "saveNonces P (rd_stateIdentity r) (Some ?n) (rd_ns r) (rd_store r) = (ok, s1, st1)"
    by (metis prod_cases3)
  obtain ok2 s2 st2 where s: "saveSessionIfChanged P (rd_stateIdentity r) (Some ?b) s1 st1 = (ok2, s2, st2)"
    by (metis prod_cases3)
  have run: "ok" "if rd_joined r then ok2 \<and> r' = r\<lparr>rd_ns := s2, rd_store := st2\<rparr> else r' = r\<lparr>rd_ns := s1, rd_store := st1\<rparr>"
    using assms(4) s by (auto simp: persistJoinState_def n Let_def split: if_splits)
  have h: "holds_nonces P (rd_stateIdentity r) ?n s1 st1"
  proof (rule saveNonces_holds [OF assms(1) _ b(2)])
    show "saveNonces P (rd_stateIdentity r) (Some ?n) (rd_ns r) (rd_store r) = (True, s1, st1)" using n run(1) by simp
  qed (use assms(3) in \<open>simp add: ready_to_join_def\<close>)
  show ?thesis
    using run(2) h s saveSession_holds [OF assms(1) h b(1)] assms(3)
    by (auto simp: stored_def ready_to_join_def split: if_splits)
qed

lemma tryJoin_ok:
  assumes "prefs_laws P" "radiolib_laws R" "ready_to_join P r" "tryJoin P R t r = (ok, r')"
  shows "radio_ok P R r'"
proof (cases "rd_persistenceHealthy r")
  case True
  obtain state n where a: "rl_activateOTAA R (rd_node r) = (state, n)" by fastforce
  define r1 where "r1 = r\<lparr>rd_lastState := state, rd_node := n,
      rd_joined := (state = rl_NEW_SESSION R \<or> state = rl_SESSION_RESTORED R)\<rparr>"
  define r2 where "r2 = (if rd_joined r1 then (case applyConfiguredClass R r1 of
      (ok, r) \<Rightarrow> if \<not> ok then r\<lparr>rd_nextJoinAtMs := t + kJoinRetryMs\<rparr> else r) else r1)"
  have r1: "ready_to_join P r1" using assms(3) by (simp add: r1_def ready_to_join_def)
  obtain okc rc where k: "applyConfiguredClass R r1 = (okc, rc)" by fastforce
  have "ready_to_join P rc" using class_keeps [OF assms(2) k] r1 by (simp add: ready_to_join_def)
  then have r2: "ready_to_join P r2" using r1 by (simp add: r2_def k) (simp add: ready_to_join_def)
  obtain ok' r3 where j: "persistJoinState P R r2 = (ok', r3)" by fastforce
  have c: "\<not> (\<not> rd_radioReady r \<or> \<not> rd_provisioned r \<or> \<not> rd_persistenceHealthy r)"
    using assms(3) True by (simp add: ready_to_join_def)
  have "tryJoin P R t r = (if \<not> ok' then (False, r3\<lparr>rd_persistenceHealthy := False, rd_joined := False\<rparr>)
      else if \<not> rd_joined r3 then (False, r3\<lparr>rd_nextJoinAtMs := t + kJoinRetryMs\<rparr>) else (True, r3))"
    unfolding tryJoin_def if_not_P [OF c] a Let_def prod.case r1_def [symmetric] r2_def [symmetric] j ..
  then have "r' = (if \<not> ok' then r3\<lparr>rd_persistenceHealthy := False, rd_joined := False\<rparr>
      else if \<not> rd_joined r3 then r3\<lparr>rd_nextJoinAtMs := t + kJoinRetryMs\<rparr> else r3)"
    using assms(4) by (simp split: if_splits)
  moreover have "ok' \<Longrightarrow> stored P R r3" using persistJoinState_ok [OF assms(1,2) r2] j by simp
  ultimately show ?thesis by (auto simp: radio_ok_def stored_def)
next
  case False
  then have "r' = r" using assms(4) by (simp add: tryJoin_def)
  with False show ?thesis by (simp add: sick_ok)
qed

lemma joinFresh_ok:
  assumes "prefs_laws P" "radiolib_laws R" "ready_to_join P r" "joinFresh P R t r = (ok, r')"
  shows "radio_ok P R r'"
proof -
  obtain x r1 where "tryJoin P R t (r\<lparr>rd_persistenceHealthy := True\<rparr>) = (x, r1)" by fastforce
  with assms tryJoin_ok [OF assms(1,2) _ this] show ?thesis by (auto simp: joinFresh_def ready_to_join_def Let_def)
qed

lemma resumeSession_ok:
  assumes "prefs_laws P" "radiolib_laws R" "stored P R r" "\<not> rd_persistenceHealthy r" "resumeSession P R r = (ok, r')"
  shows "radio_ok P R r'"
proof -
  obtain state n where a: "rl_activateOTAA R (rd_node r) = (state, n)" by fastforce
  let ?r = "r\<lparr>rd_lastState := state, rd_node := n\<rparr>"
  show ?thesis
  proof (cases "state = rl_SESSION_RESTORED R")
    case True
    obtain ok1 r1 where c: "applyConfiguredClass R (?r\<lparr>rd_joined := True, rd_persistenceHealthy := True\<rparr>) = (ok1, r1)" by fastforce
    have r1: "stored P R r1"
      using class_keeps [OF assms(2) c] radiolib_keeps(8) [OF assms(2)] a True assms(3) by (simp add: stored_def)
    show ?thesis
      using assms(5) r1 True persistSession_ok [OF assms(1,2) r1]
      by (cases ok1; cases ok) (auto simp: resumeSession_def a c [unfolded True] radio_ok_def Let_def)
  qed (use assms(4,5) in \<open>auto simp: resumeSession_def a sick_ok Let_def\<close>)
qed

lemma load_holds:
  assumes "lorawanState_load P nsize ssize identity s st = (True, nonces, session, st')" "0 < nsize" "0 < ssize"
  shows "ls_open st' \<and> (pf_getUInt P s ''lw_state_id'' 0 = identity \<longrightarrow> cached P s st') \<and>
    (\<forall>b. nonces = Some b \<longrightarrow> pf_getUInt P s ''lw_state_id'' 0 = identity \<and> pf_get P s ''lw_nonces'' = Some (PvBytes b))"
proof -
  define buffer where "buffer = (\<lambda>key size. if pf_getBytesLength P s key = size
    then let b = pf_getBytes P s key size in if length b = size then Some b else None else None)"
  have buffer: "buffer key size = Some b \<Longrightarrow> 0 < size \<Longrightarrow> pf_get P s key = Some (PvBytes b)" for key size b
    by (cases "pf_get P s key"; cases "the (pf_get P s key)")
      (auto simp: buffer_def pf_getBytesLength_def pf_getBytes_def Let_def split: if_splits)
  show ?thesis
    using assms buffer [of "''lw_nonces''" nsize] buffer [of "''lw_session''" ssize]
    by (auto simp: lorawanState_load_def buffer_def [symmetric] cached_def Let_def split: if_splits)
qed

lemma restoreState_ok:
  assumes "prefs_laws P" "radiolib_laws R" "rd_radioReady r" "rd_provisioned r" "\<not> rd_persistenceHealthy r"
    "restoreState P R t r = (ok, r')"
  shows "radio_ok P R r'"
proof -
  obtain ok0 nonces session st where l: "lorawanState_load P (rl_noncesSize R) (rl_sessionSize R) (rd_stateIdentity r)
      (rd_ns r) (rd_store r) = (ok0, nonces, session, st)" by (metis prod_cases4)
  let ?r = "r\<lparr>rd_store := st\<rparr>"
  have ready: "ready_to_join P ?r" if ok0
    using load_holds [of P _ _ _ _ _ nonces session st] l that radiolib_keeps(12,13) [OF assms(2)] assms(3,4)
    by (auto simp: ready_to_join_def)
  have loaded: "holds_nonces P (rd_stateIdentity r) b (rd_ns r) st" if ok0 "nonces = Some b" for b
    using load_holds [of P _ _ _ _ _ nonces session st] l that radiolib_keeps(12,13) [OF assms(2)]
    by (auto simp: holds_nonces_def)
  show ?thesis
  proof (cases "ok0 \<and> nonces \<noteq> None")
    case False
    then show ?thesis
      using assms(5,6) joinFresh_ok [OF assms(1,2) ready]
      by (auto simp: restoreState_def l sick_ok Let_def split: if_splits)
  next
    case True
    then obtain b where b: "nonces = Some b" and ok0: ok0 by auto
    obtain state n where n: "rl_setBufferNonces R b (rd_node r) = (state, n)" by fastforce
    let ?r1 = "?r\<lparr>rd_lastState := state, rd_node := n\<rparr>"
    show ?thesis
    proof (cases "state = rl_ERR_NONE R")
      case True
      then have r1: "stored P R ?r1"
        using loaded [OF ok0 b] n radiolib_keeps(9) [OF assms(2)] assms(3,4) by (simp add: stored_def)
      show ?thesis
      proof (cases session)
        case None
        then show ?thesis
          using assms(6) True joinFresh_ok [OF assms(1,2) stored_ready [OF r1]]
          by (simp add: restoreState_def l b ok0 n Let_def)
      next
        case (Some sb)
        obtain state2 m where m: "rl_setBufferSession R sb n = (state2, m)" by fastforce
        let ?r2 = "?r1\<lparr>rd_lastState := state2, rd_node := m\<rparr>"
        have r2: "stored P R ?r2" using r1 radiolib_keeps(1) [OF assms(2) m] by (simp add: stored_def)
        obtain ok3 r3 where c: "clearStoredSession P ?r2 = (ok3, r3)" by fastforce
        show ?thesis
        proof (cases "state2 = rl_ERR_NONE R")
          case True
          with \<open>state = _\<close> show ?thesis
            using assms(5,6) resumeSession_ok [OF assms(1,2) r2] by (simp add: restoreState_def l b ok0 n Some m Let_def)
        next
          case False
          have same: "rd_persistenceHealthy r3 = rd_persistenceHealthy r"
            using c by (auto simp: clearStoredSession_def split: prod.splits)
          have "ready_to_join P (r3\<lparr>rd_node := rl_clearSession R (rd_node r3)\<rparr>)" if ok3
            using stored_ready [OF cleared_ok [OF assms(1) r2]] c that by (simp add: ready_to_join_def)
          then show ?thesis
            using assms(5,6) False \<open>state = _\<close> same joinFresh_ok [OF assms(1,2)] c
            by (cases ok3) (auto simp: restoreState_def l b ok0 n Some m sick_ok Let_def)
        qed
      qed
    qed (use assms(5,6) in \<open>auto simp: restoreState_def l b ok0 n sick_ok Let_def\<close>)
  qed
qed

lemma radio_begin_ok:
  assumes "prefs_laws P" "radiolib_laws R"
  shows "radio_ok P R (snd (radio_begin P R opened t r))"
proof -
  obtain ok r' where b: "radio_begin P R opened t r = (ok, r')" by fastforce
  obtain s1 n1 where n1: "rl_begin R (rd_node r) = (s1, n1)" by fastforce
  obtain s2 n2 where n2: "rl_setDio2AsRfSwitch R n1 = (s2, n2)" by fastforce
  show ?thesis
    using b by (auto simp: radio_begin_def n1 n2 Let_def split: if_splits intro: sick_ok dest: restoreState_ok [OF assms, rotated -1])
qed

lemma dispatch_keeps: "stored P R (dispatchApplicationDownlink d r) = stored P R r"
  by (simp add: dispatchApplicationDownlink_def stored_def split: prod.splits)

lemma persisted_dispatch:
  assumes "prefs_laws P" "radiolib_laws R" "stored P R r" "persistSession P R r = (ok, r')"
  shows "radio_ok P R r'" "ok \<Longrightarrow> radio_ok P R (dispatchApplicationDownlink d r')"
  using persistSession_ok [OF assms] by (auto simp: radio_ok_def dispatch_keeps)

lemma classC_ok:
  assumes "prefs_laws P" "radiolib_laws R" "stored P R r"
  shows "radio_ok P R (pollClassCDownlink P R r)"
proof -
  obtain state d n where g: "rl_getDownlinkClassC R (rd_node r) = (state, d, n)" by (metis prod_cases3)
  let ?r = "r\<lparr>rd_lastClassCState := state, rd_node := n\<rparr>"
  have r: "stored P R ?r" using assms(3) radiolib_keeps(7) [OF assms(2) g] by (simp add: stored_def)
  obtain ok r' where p: "persistSession P R ?r = (ok, r')" by fastforce
  show ?thesis
    using r persisted_dispatch [OF assms(1,2) r p]
    by (auto simp: pollClassCDownlink_def g p radio_ok_def Let_def)
qed

lemma classC_sick: "\<not> rd_persistenceHealthy r \<Longrightarrow> \<not> rd_persistenceHealthy (pollClassCDownlink P R r)"
  by (auto simp: pollClassCDownlink_def persistSession_def dispatchApplicationDownlink_def Let_def split: prod.splits)

lemma timeSync_ok:
  assumes "prefs_laws P" "radiolib_laws R" "stored P R r" "performNetworkTimeSync P R r = (ok, r')"
  shows "radio_ok P R r'"
proof -
  obtain s1 n1 where n1: "rl_sendMacCommandReq R (rd_node r) = (s1, n1)" by fastforce
  obtain s2 d n2 where n2: "rl_sendReceive R None 0 False n1 = (s2, d, n2)" by (metis prod_cases3)
  let ?r1 = "r\<lparr>rd_lastState := s1, rd_node := n1\<rparr>" and ?r2 = "r\<lparr>rd_lastState := s2, rd_node := n2\<rparr>"
  have r: "stored P R ?r1" "stored P R ?r2"
    using assms(3) radiolib_keeps(4) [OF assms(2) n1] radiolib_keeps(5) [OF assms(2) n2] by (simp_all add: stored_def)
  obtain ok3 r3 where p: "persistSession P R ?r2 = (ok3, r3)" by fastforce
  obtain s4 u m n4 where n4: "rl_getMacDeviceTimeAns R (rd_node r3) = (s4, u, m, n4)" by (metis prod_cases4)
  have r3: "radio_ok P R r3" by (rule persisted_dispatch(1) [OF assms(1,2) r(2) p])
  have r4: "radio_ok P R (r3\<lparr>rd_lastTimeSyncState := x, rd_node := n4\<rparr>)" for x
    using r3 radiolib_keeps(6) [OF assms(2) n4] by (simp add: radio_ok_def stored_def)
  have clocked: "radio_ok P R x \<Longrightarrow> radio_ok P R (dispatchApplicationDownlink d (x\<lparr>rd_clock := c,
      rd_lastNetworkTimeUnix := v, rd_lastNetworkTimeMilliseconds := w\<rparr>))" for x c v w
    by (simp add: radio_ok_def dispatch_keeps) (auto simp: stored_def dispatchApplicationDownlink_def split: prod.splits)
  show ?thesis
    using assms(4) r(1) r3 r4 clocked [OF r4]
    by (auto simp: performNetworkTimeSync_def n1 n2 p n4 radio_ok_def Let_def split: if_splits)
qed

lemma radio_loop_ok:
  assumes "prefs_laws P" "radiolib_laws R" "radio_ok P R r"
  shows "radio_ok P R (radio_loop P R t r)"
proof (cases "rd_radioReady r \<and> rd_provisioned r \<and> rd_persistenceHealthy r")
  case False
  then show ?thesis using assms(3) by (auto simp: radio_loop_def)
next
  case True
  then have st: "stored P R r" using assms(3) by (simp add: radio_ok_def)
  let ?c = "r\<lparr>rd_rejoinRequested := False, rd_joined := False, rd_node := rl_clearSession R (rd_node r)\<rparr>"
  have c: "stored P R ?c" using st radiolib_keeps(3) [OF assms(2)] by (simp add: stored_def)
  obtain okc rc where k: "clearStoredSession P ?c = (okc, rc)" by fastforce
  define go r1 where "go = (rd_rejoinRequested r \<longrightarrow> okc)"
    and "r1 = (if rd_rejoinRequested r then if \<not> okc then rc\<lparr>rd_persistenceHealthy := False\<rparr>
       else rc\<lparr>rd_nextJoinAtMs := t\<rparr> else r)"
  have r1: "go \<Longrightarrow> stored P R r1" "\<not> go \<Longrightarrow> \<not> rd_persistenceHealthy r1"
    using st cleared_ok [OF assms(1) c] k by (auto simp: go_def r1_def stored_def)
  define r2 where "r2 = (if rd_networkTimeSyncRequested r1
    then snd (performNetworkTimeSync P R (r1\<lparr>rd_networkTimeSyncRequested := False\<rparr>)) else r1)"
  have "radio_loop P R t r = (if \<not> go then r1 else if rd_joined r1 then
       (if lc_classC (rd_config r2) then pollClassCDownlink P R r2 else r2)
     else if \<not> time_reached t (rd_nextJoinAtMs r1) then r1 else snd (tryJoin P R t r1))"
    using True by (simp add: radio_loop_def k go_def r1_def r2_def)
  moreover have "radio_ok P R r2" if go
  proof -
    have "stored P R (r1\<lparr>rd_networkTimeSyncRequested := False\<rparr>)" using r1(1) [OF that] by (simp add: stored_def)
    from timeSync_ok [OF assms(1,2) this prod.collapse [symmetric]] r1(1) [OF that]
    show ?thesis by (simp only: r2_def radio_ok_def split: if_split) blast
  qed
  moreover have "radio_ok P R (snd (tryJoin P R t r1))" if go
    by (rule tryJoin_ok [OF assms(1,2) stored_ready [OF r1(1) [OF that]] prod.collapse [symmetric]])
  moreover have "radio_ok P R (pollClassCDownlink P R r2)" if "radio_ok P R r2"
    using that classC_ok [OF assms(1,2), of r2] classC_sick [of r2 P R] by (auto simp: radio_ok_def)
  ultimately show ?thesis
    using r1 sick_ok [of r1] by (cases go) (simp_all add: radio_ok_def)
qed

lemma radio_send_ok:
  assumes "prefs_laws P" "radiolib_laws R" "radio_ok P R r" "radio_send P R t port p confirmed r = (ok, r')"
  shows "radio_ok P R r'"
    "ok \<Longrightarrow> stored P R r' \<and> pf_get P (rd_ns r') ''lw_session'' = Some (PvBytes (rl_getBufferSession R (rd_node r')))"
proof -
  let ?guard = "\<not> rd_joined r \<or> \<not> rd_persistenceHealthy r \<or> p = None \<or> p = Some [] \<or> port = 0 \<or> port > 223 \<or>
      length (the p) > 242"
  obtain state d n where s: "rl_sendReceive R p port confirmed (rd_node r) = (state, d, n)" by (metis prod_cases3)
  let ?r1 = "r\<lparr>rd_lastState := state, rd_node := n\<rparr>"
  obtain ok2 r2 where p: "persistSession P R ?r1 = (ok2, r2)" by fastforce
  let ?c = "r2\<lparr>rd_joined := False, rd_node := rl_clearSession R (rd_node r2)\<rparr>"
  obtain ok3 r3 where c: "clearStoredSession P ?c = (ok3, r3)" by fastforce
  have run: "radio_send P R t port p confirmed r = (if ?guard then (False, r) else if \<not> ok2 then (False, r2)
      else if state < rl_ERR_NONE R then
        if state = rl_NETWORK_NOT_JOINED R \<or> state = rl_SESSION_DISCARDED R then
          if \<not> ok3 then (False, r3\<lparr>rd_persistenceHealthy := False\<rparr>) else (False, r3\<lparr>rd_nextJoinAtMs := t + kJoinRetryMs\<rparr>)
        else (False, r2)
      else (True, dispatchApplicationDownlink d r2))"
    unfolding radio_send_def s Let_def prod.case p c ..
  have r1: "stored P R ?r1" if "\<not> ?guard"
    using assms(3) that radiolib_keeps(5) [OF assms(2) s] by (simp add: radio_ok_def stored_def)
  have r2: "ok2 \<Longrightarrow> stored P R r2 \<and> pf_get P (rd_ns r2) ''lw_session'' = Some (PvBytes (rl_getBufferSession R (rd_node r2)))"
    "radio_ok P R r2" if "\<not> ?guard"
    using persistSession_ok [OF assms(1,2) r1 p] that by (auto simp: radio_ok_def)
  have r3: "stored P R r3" if "\<not> ?guard" ok2 ok3
  proof -
    have "stored P R (r2\<lparr>rd_node := rl_clearSession R (rd_node r2)\<rparr>)"
      by (rule stored_node [OF conjunct1 [OF r2(1) [OF that(1,2)]] radiolib_keeps(3) [OF assms(2)]])
    then have "stored P R ?c" by (simp add: stored_def)
    from cleared_ok [OF assms(1) this] c that(3) show ?thesis by simp
  qed
  have node: "rd_ns (dispatchApplicationDownlink d r2) = rd_ns r2" "rd_node (dispatchApplicationDownlink d r2) = rd_node r2"
    by (simp_all add: dispatchApplicationDownlink_def split: prod.splits)
  show "radio_ok P R r'"
  proof (cases ?guard)
    case True
    then show ?thesis using run assms(3,4) by (simp del: not_None_eq)
  next
    case False
    have "radio_ok P R (r3\<lparr>rd_persistenceHealthy := False\<rparr>)" by (simp add: sick_ok)
    moreover have "radio_ok P R (r3\<lparr>rd_nextJoinAtMs := t + kJoinRetryMs\<rparr>)" if ok2 ok3
      using r3 [OF False that] by (simp add: radio_ok_def stored_def)
    moreover have "radio_ok P R (dispatchApplicationDownlink d r2)" if ok2
      using r2(1) [OF False that] by (simp add: radio_ok_def dispatch_keeps)
    ultimately show ?thesis
      using run [unfolded if_not_P [OF False]] assms(4) r2(2) [OF False] by (simp split: if_splits)
  qed
  show "ok \<Longrightarrow> stored P R r' \<and> pf_get P (rd_ns r') ''lw_session'' = Some (PvBytes (rl_getBufferSession R (rd_node r')))"
    using assms(4) run r2(1) node by (auto simp: dispatch_keeps split: if_splits)
qed

section \<open>Runs of the radio\<close>

datatype RadioOp =
    RoBegin bool u32
  | RoLoop u32
  | RoSend u32 u8 "bytes ptr" bool
  | RoRejoin
  | RoTimeSync

fun radio_step :: "'s prefs \<Rightarrow> 'n radiolib \<Rightarrow> RadioOp \<Rightarrow> ('n, 's) radio \<Rightarrow> ('n, 's) radio" where
  "radio_step P R (RoBegin opened t) r = snd (radio_begin P R opened t r)"
| "radio_step P R (RoLoop t) r = radio_loop P R t r"
| "radio_step P R (RoSend t port p confirmed) r = snd (radio_send P R t port p confirmed r)"
| "radio_step P R RoRejoin r = snd (radio_requestRejoin r)"
| "radio_step P R RoTimeSync r = snd (radio_requestNetworkTimeSync r)"

lemma request_ok:
  "radio_ok P R r \<Longrightarrow> radio_ok P R (snd (radio_requestRejoin r))"
  "radio_ok P R r \<Longrightarrow> radio_ok P R (snd (radio_requestNetworkTimeSync r))"
  by (auto simp: radio_requestRejoin_def radio_requestNetworkTimeSync_def radio_ok_def stored_def)

interpretation radio_runs: step_machine "radio_step P R" "\<lambda>r. prefs_laws P \<longrightarrow> radiolib_laws R \<longrightarrow> radio_ok P R r" for P R
proof
  fix r :: "('b, 'a) radio" and op
  assume r: "prefs_laws P \<longrightarrow> radiolib_laws R \<longrightarrow> radio_ok P R r"
  show "prefs_laws P \<longrightarrow> radiolib_laws R \<longrightarrow> radio_ok P R (radio_step P R op r)"
  proof (cases op)
    case (RoSend t port p confirmed)
    then show ?thesis using r radio_send_ok(1) [of P R r t port p confirmed] by (auto simp: prod_eq_iff)
  qed (use r radio_begin_ok [of P R] radio_loop_ok [of P R] request_ok [of P R r] in simp_all)
qed

lemma radio_run_ok:
  assumes "prefs_laws P" "radiolib_laws R"
  shows "radio_ok P R (fold (radio_step P R) ops (radio_configure config devEuiValue (initial_radio R node ns)))"
proof -
  have "\<not> rd_persistenceHealthy (radio_configure config devEuiValue (initial_radio R node ns))"
    by (simp add: radio_configure_def parseProvisioning_def initial_radio_def Let_def split: prod.splits)
  then show ?thesis using radio_runs.run_inv [of P R, rule_format, OF sick_ok] assms by blast
qed

text \<open>What a restart finds: the namespace opened anew, nothing cached.\<close>

definition reloaded :: "'s prefs \<Rightarrow> 'n radiolib \<Rightarrow> ('n, 's) radio \<Rightarrow> bytes option \<times> bytes option" where
  "reloaded P R r = (case lorawanState_load P (rl_noncesSize R) (rl_sessionSize R) (rd_stateIdentity r) (rd_ns r)
       \<lparr>ls_open = True, ls_lastSession = None\<rparr> of (ok, nonces, session, st) \<Rightarrow> (nonces, session))"

lemma stored_reloaded:
  assumes "radiolib_laws R" "stored P R r"
  shows "fst (reloaded P R r) = Some (rl_getBufferNonces R (rd_node r))"
    "pf_get P (rd_ns r) ''lw_session'' = Some (PvBytes (rl_getBufferSession R (rd_node r))) \<Longrightarrow>
       snd (reloaded P R r) = Some (rl_getBufferSession R (rd_node r))"
  using assms(2) radiolib_keeps(10,11) [OF assms(1)]
  by (auto simp: reloaded_def lorawanState_load_def stored_def holds_nonces_def pf_getBytesLength_def pf_getBytes_def Let_def)

text \<open>A node that fulfils the laws: a nonce that every join increments, a counter that every frame does.\<close>

definition counter_radio :: "(u8 \<times> u8) radiolib" where
  "counter_radio = \<lparr>rl_ERR_NONE = 0, rl_SESSION_RESTORED = -1117, rl_NEW_SESSION = -1118, rl_NETWORK_NOT_JOINED = -1101,
     rl_SESSION_DISCARDED = -1120, rl_CLASS_A = 0, rl_CLASS_C = 2, rl_noncesSize = 1, rl_sessionSize = 1,
     rl_begin = (\<lambda>n. (0, n)), rl_setDio2AsRfSwitch = (\<lambda>n. (0, n)), rl_beginOTAA = (\<lambda>_ _ _ n. n), rl_setADR = (\<lambda>n. n),
     rl_setDutyCycle = (\<lambda>n. n),
     rl_setBufferNonces = (\<lambda>b n. if length b = 1 then (0, (b ! 0, snd n)) else (-1, n)),
     rl_setBufferSession = (\<lambda>b n. if length b = 1 then (0, (fst n, b ! 0)) else (-1, n)),
     rl_getBufferNonces = (\<lambda>n. [fst n]), rl_getBufferSession = (\<lambda>n. [snd n]), rl_clearSession = (\<lambda>n. (fst n, 0)),
     rl_activateOTAA = (\<lambda>n. if snd n = 0 then (-1118, (fst n + 1, 1)) else (-1117, n)),
     rl_setClass = (\<lambda>_ n. (0, n)), rl_sendMacCommandReq = (\<lambda>n. (0, n)),
     rl_sendReceive = (\<lambda>_ _ _ n. (0, ([], 0), (fst n, snd n + 1))),
     rl_getMacDeviceTimeAns = (\<lambda>n. (0, 1753142400, 0, n)), rl_getDownlinkClassC = (\<lambda>n. (0, ([], 0), n)),
     rl_getDevAddr = (\<lambda>_. 0), rl_settimeofday = (\<lambda>_ _. True)\<rparr>"

lemma counter_radio_laws: "radiolib_laws counter_radio"
  by (auto simp: radiolib_laws_def counter_radio_def length_Suc_conv split: if_splits)

definition sample_lorawan :: LoRaWanConfig where
  "sample_lorawan = default_lorawan_config\<lparr>lc_appKey := generateAppKey (replicate 16 0x5a)\<rparr>"

lemma sample_lorawan_valid: "validateLoRaWanConfig sample_lorawan"
  using hex_bytes_text [of "replicate 16 0x5a"]
  by (simp add: sample_lorawan_def validateLoRaWanConfig_def default_lorawan_config_def generateAppKey_def isHexString_def
      kDefaultJoinEui_def kDefaultExtensionFPort_def kCompatibilityPort_def hex_char_def Let_def)

definition joined_radio :: "(u8 \<times> u8, string \<Rightarrow> PrefValue option) radio" where
  "joined_radio = fold (radio_step map_prefs counter_radio) [RoBegin True 1000]
     (radio_configure sample_lorawan (devEui 0x0000A1B2C3D4E5F6) (initial_radio counter_radio (0, 0) Map.empty))"

lemma identity_roundtrip_witness:
  "be_bytes 8 (rd_devEui (radio_configure sample_lorawan (devEui 0x0000A1B2C3D4E5F6)
     (initial_radio counter_radio (0, 0) (Map.empty :: string \<Rightarrow> PrefValue option)))) = [0x02, 0xa1, 0xb2, 0xc3, 0xd4, 0xe5, 0xf6, 0x01]"
proof -
  have "validateLoRaWanConfig sample_lorawan" by (rule sample_lorawan_valid)
  moreover have "length (rd_appKey (initial_radio counter_radio (0, 0) (Map.empty :: string \<Rightarrow> PrefValue option))) = 16" by (simp add: initial_radio_def)
  moreover have "devEui_bytes (hardwareMac48 0x0000A1B2C3D4E5F6) = [0x02, 0xa1, 0xb2, 0xc3, 0xd4, 0xe5, 0xf6, 0x01]" by code_simp
  ultimately show ?thesis
    using identity_roundtrip [of "replicate 16 0x5a" "initial_radio counter_radio (0, 0) (Map.empty :: string \<Rightarrow> PrefValue option)" default_lorawan_config
        _ "0x0000A1B2C3D4E5F6", OF _ _ _ refl] by (simp add: sample_lorawan_def)
qed

text \<open>
  C7. A join nonce is never used twice: after any sequence of begins, loops, sends and requests, in which
  every access to the storage and every call of the radio library may fail, a radio that is allowed to
  join or to transmit has the nonces of its node in the storage under its own identity, so that a restart
  at this moment loads exactly them.
\<close>

theorem nonces_durable:
  assumes "prefs_laws P" "radiolib_laws R"
    "r = fold (radio_step P R) ops (radio_configure config devEuiValue (initial_radio R node ns))"
    "rd_persistenceHealthy r"
  shows "fst (reloaded P R r) = Some (rl_getBufferNonces R (rd_node r))"
  using radio_run_ok [OF assms(1,2)] stored_reloaded(1) [OF assms(2)] assms(3,4) by (metis radio_ok_def)

lemma nonces_durable_witness: "fst (reloaded map_prefs counter_radio joined_radio) = Some [1]"
proof -
  have "rd_persistenceHealthy joined_radio" "fst (rd_node joined_radio) = 1" by code_simp+
  then show ?thesis
    using nonces_durable [OF map_prefs_laws counter_radio_laws joined_radio_def] by (simp add: counter_radio_def)
qed

text \<open>
  C16. A frame counter is never used twice: when a send succeeds, at any point of any run, the payload was
  one of 1 to 242 bytes on a port from 1 to 223, and a restart right after it loads the node's nonces and the
  session with the counter of the frame that was just sent.
\<close>

theorem session_durable:
  assumes "prefs_laws P" "radiolib_laws R"
    "r = fold (radio_step P R) ops (radio_configure config devEuiValue (initial_radio R node ns))"
    "radio_send P R t port p confirmed r = (True, r')"
  shows "reloaded P R r' = (Some (rl_getBufferNonces R (rd_node r')), Some (rl_getBufferSession R (rd_node r'))) \<and>
    (\<exists>payload. p = Some payload \<and> length payload \<in> {1..242} \<and> unat port \<in> {1..223})"
proof -
  have ok: "radio_ok P R r" using radio_run_ok [OF assms(1,2)] assms(3) by simp
  have "reloaded P R r' = (Some (rl_getBufferNonces R (rd_node r')), Some (rl_getBufferSession R (rd_node r')))"
    using radio_send_ok(2) [OF assms(1,2) ok assms(4)] stored_reloaded [OF assms(2), of P r'] by (simp add: prod_eq_iff)
  moreover have "p \<noteq> None" "p \<noteq> Some []" "length (the p) \<le> 242" "port \<noteq> 0" "port \<le> 223"
    using assms(4) by (auto simp: radio_send_def Let_def split: if_splits)
  ultimately show ?thesis
    by (auto simp: Suc_le_eq word_le_nat_alt unat_gt_0)
qed

lemma session_durable_witness:
  "reloaded map_prefs counter_radio (snd (radio_send map_prefs counter_radio 2000 85 (Some [1, 2]) False joined_radio)) =
     (Some [1], Some [2])"
proof -
  let ?s = "radio_send map_prefs counter_radio 2000 85 (Some [1, 2]) False joined_radio"
  have "fst ?s" "rd_node (snd ?s) = (1, 2)" by code_simp+
  then obtain r' where "?s = (True, r')" "rd_node r' = (1, 2)" by (cases ?s) auto
  with session_durable [OF map_prefs_laws counter_radio_laws joined_radio_def this(1)]
  show ?thesis by (simp add: counter_radio_def)
qed

end
