(* ===== verification/MqttService.thy ===== *)
theory MqttService
  imports DeviceConfig ApplicationLoop
begin

text \<open>
  The MQTT service of \<^verbatim>\<open>include/services/MqttService.h\<close>: connecting, the state of the
  channels, Home Assistant discovery, the events and the commands. The MQTT client
  (\<^verbatim>\<open>PubSubClient\<close> over the Wi-Fi sockets) and the serializer of JSON documents are
  parameters; the documents themselves are built as the code builds them. The handlers
  \<^verbatim>\<open>begin\<close> is given are a record of functions on the state of their context, which is part of
  the service's state here: \<^verbatim>\<open>begin\<close> sets them together with the configuration, so that the
  null checks are those of the configuration. The clock is read once in a call.
\<close>

section \<open>The client, documents and handlers\<close>

datatype json =
    JsText string
  | JsBool bool
  | JsNumber int
  | JsDouble u64
  | JsArray "json list"
  | JsObject "(string \<times> json) list"

record 'c mqtt_client =
  mc_setTls :: "string option \<Rightarrow> 'c \<Rightarrow> 'c"
  mc_setServer :: "string \<Rightarrow> u16 \<Rightarrow> 'c \<Rightarrow> 'c"
  mc_setBufferSize :: "u16 \<Rightarrow> 'c \<Rightarrow> 'c"
  mc_connected :: "'c \<Rightarrow> bool"
  mc_connect :: "string \<Rightarrow> (string \<times> string) option \<Rightarrow> string \<Rightarrow> string \<Rightarrow> 'c \<Rightarrow> bool \<times> 'c"
  mc_publish :: "string \<Rightarrow> string \<Rightarrow> bool \<Rightarrow> 'c \<Rightarrow> bool \<times> 'c"
  mc_subscribe :: "string \<Rightarrow> 'c \<Rightarrow> 'c"
  mc_loop :: "'c \<Rightarrow> (string \<times> bytes) list \<times> 'c"
  mc_serialize :: "json \<Rightarrow> string"

record 'x mqtt_handlers =
  mh_channels :: "'x \<Rightarrow> ChannelBinding list"
  mh_read :: "ChannelBinding \<Rightarrow> 'x \<Rightarrow> DataValue option"
  mh_describe :: "ChannelBinding \<Rightarrow> 'x \<Rightarrow> DataPointDescriptor option"
  mh_command :: "ChannelBinding \<Rightarrow> bytes \<Rightarrow> 'x \<Rightarrow> bool \<times> 'x"
  mh_eventNext :: "'x \<Rightarrow> u64 \<Rightarrow> (u64 \<times> EventRecord) option"
  mh_eventMissed :: "'x \<Rightarrow> u64 \<Rightarrow> u64"

section \<open>State\<close>

record DiscoveryEntry =
  de_channelId :: u16
  de_component :: string

record ('c, 'x) mqtt_service =
  mqs_config :: "MqttConfig option"
  mqs_deviceId :: string
  mqs_client :: 'c
  mqs_context :: 'x
  mqs_nextReconnectAtMs :: u32
  mqs_nextPublishAtMs :: u32
  mqs_publishes :: u32
  mqs_publishFailures :: u32
  mqs_commandMessages :: u32
  mqs_commandFailures :: u32
  mqs_discoveryPublishes :: u32
  mqs_discoveryFailures :: u32
  mqs_eventPublishes :: u32
  mqs_eventPublishFailures :: u32
  mqs_eventMissed :: u64
  mqs_eventCursor :: u64
  mqs_discoverySignature :: u32
  mqs_discovered :: "DiscoveryEntry list"
  mqs_connected :: bool

definition initial_mqtt :: "'c \<Rightarrow> 'x \<Rightarrow> ('c, 'x) mqtt_service" where
  "initial_mqtt client context = \<lparr>mqs_config = None, mqs_deviceId = [], mqs_client = client, mqs_context = context,
     mqs_nextReconnectAtMs = 0, mqs_nextPublishAtMs = 0, mqs_publishes = 0, mqs_publishFailures = 0, mqs_commandMessages = 0,
     mqs_commandFailures = 0, mqs_discoveryPublishes = 0, mqs_discoveryFailures = 0, mqs_eventPublishes = 0,
     mqs_eventPublishFailures = 0, mqs_eventMissed = 0, mqs_eventCursor = 0, mqs_discoverySignature = 0, mqs_discovered = [],
     mqs_connected = False\<rparr>"

definition kReconnectIntervalMs :: u32 where "kReconnectIntervalMs = 5000"
definition kMaxEventsPerLoop :: nat where "kMaxEventsPerLoop = 4"
definition kRecommendedMaxChannels :: nat where "kRecommendedMaxChannels = 64"

text \<open>\<^verbatim>\<open>*config_\<close>, where the code has checked the pointer.\<close>

abbreviation mqtt_conf :: "('c, 'x) mqtt_service \<Rightarrow> MqttConfig" where
  "mqtt_conf s \<equiv> the (mqs_config s)"

abbreviation mqtt_prefix :: "('c, 'x) mqtt_service \<Rightarrow> string option" where
  "mqtt_prefix s \<equiv> Some (c_str (mq_topicPrefix (mqtt_conf s)))"

abbreviation mqtt_device :: "('c, 'x) mqtt_service \<Rightarrow> string option" where
  "mqtt_device s \<equiv> Some (c_str (mqs_deviceId s))"

text \<open>\<^verbatim>\<open>client_.publish\<close>.\<close>

definition client_publish :: "'c mqtt_client \<Rightarrow> string \<Rightarrow> string \<Rightarrow> bool \<Rightarrow> ('c, 'x) mqtt_service \<Rightarrow> bool \<times> ('c, 'x) mqtt_service" where
  "client_publish M topic payload retained s =
     (let (ok, c) = mc_publish M topic payload retained (mqs_client s) in (ok, s\<lparr>mqs_client := c\<rparr>))"

section \<open>Begin\<close>

definition mqtt_begin ::
    "'c mqtt_client \<Rightarrow> u32 \<Rightarrow> MqttConfig \<Rightarrow> string \<Rightarrow> ('c, 'x) mqtt_service \<Rightarrow> bool \<times> ('c, 'x) mqtt_service" where
  "mqtt_begin M nowMs config deviceId s =
     (let s = s\<lparr>mqs_config := Some config, mqs_deviceId := deviceId\<rparr>
      in if \<not> mqtt_valid config then (False, s)
         else if \<not> mq_enabled config then (True, s)
         else if \<not> validTopicPrefix (mqtt_prefix s) \<or> \<not> validDeviceId (mqtt_device s) then (False, s)
         else
           let c = mc_setTls M (if mq_tlsEnabled config then Some (c_str (mq_caCertificate config)) else None) (mqs_client s);
               c = mc_setBufferSize M 768 (mc_setServer M (c_str (mq_host config)) (mq_port config) c)
           in (True, s\<lparr>mqs_client := c, mqs_nextReconnectAtMs := nowMs, mqs_nextPublishAtMs := nowMs\<rparr>))"

section \<open>Discovery\<close>

definition hashBytes :: "u32 \<Rightarrow> bytes \<Rightarrow> u32" where
  "hashBytes hash bs = foldl (\<lambda>h b. (h XOR ucast b) * 16777619) hash bs"

definition hashString :: "u32 \<Rightarrow> string \<Rightarrow> u32" where
  "hashString hash value = hashBytes hash (text_bytes value)"

definition type_code :: "DataType \<Rightarrow> u8" where
  "type_code t = (case t of DtBoolean \<Rightarrow> 0 | DtInt64 \<Rightarrow> 1 | DtUInt64 \<Rightarrow> 2 | DtFloat64 \<Rightarrow> 3 | DtText \<Rightarrow> 4)"

text \<open>The enabled bindings that are described, in the order of the registry.\<close>

definition described :: "'x mqtt_handlers \<Rightarrow> 'x \<Rightarrow> (ChannelBinding \<times> DataPointDescriptor) list" where
  "described H x = List.map_filter (\<lambda>b. if \<not> bd_enabled b then None else map_option (Pair b) (mh_describe H b x)) (mh_channels H x)"

definition hash_binding :: "u32 \<Rightarrow> ChannelBinding \<times> DataPointDescriptor \<Rightarrow> u32" where
  "hash_binding hash bd =
     (let (b, d) = bd;
          hash = hashBytes hash [byte_of 0 (bd_channelId b), byte_of 1 (bd_channelId b)];
          hash = hashBytes hash [if bd_writable b then 1 else 0, type_code (dp_type d)]
      in hashString (hashString (hashString hash (bd_sourceId b)) (bd_pointId b)) (bd_unit b))"

definition discoverySignature :: "'x mqtt_handlers \<Rightarrow> 'x \<Rightarrow> u32" where
  "discoverySignature H x = foldl hash_binding 2166136261 (described H x)"

definition discoveryComponent :: "ChannelBinding \<Rightarrow> DataPointDescriptor \<Rightarrow> string" where
  "discoveryComponent b d =
     (if bd_writable b \<and> dp_writable d \<and> dp_type d = DtBoolean then ''switch''
      else if bd_writable b \<and> dp_writable d \<and> dp_type d \<in> {DtInt64, DtUInt64, DtFloat64} then ''number''
      else if dp_type d = DtBoolean then ''binary_sensor'' else ''sensor'')"

definition discovery_entry :: "ChannelBinding \<times> DataPointDescriptor \<Rightarrow> DiscoveryEntry" where
  "discovery_entry bd = (let (b, d) = bd in \<lparr>de_channelId = bd_channelId b, de_component = take 15 (discoveryComponent b d)\<rparr>)"

definition discovery_failed :: "('c, 'x) mqtt_service \<Rightarrow> bool \<times> ('c, 'x) mqtt_service" where
  "discovery_failed s = (False, s\<lparr>mqs_discoveryFailures := mqs_discoveryFailures s + 1\<rparr>)"

definition clearHomeAssistantDiscovery :: "'c mqtt_client \<Rightarrow> DiscoveryEntry \<Rightarrow> ('c, 'x) mqtt_service \<Rightarrow> bool \<times> ('c, 'x) mqtt_service" where
  "clearHomeAssistantDiscovery M e s =
     (case makeHomeAssistantDiscoveryTopic (Some (c_str (mq_homeAssistantPrefix (mqtt_conf s)))) (Some (de_component e))
             (mqtt_device s) (de_channelId e) (Some 224) of
        None \<Rightarrow> discovery_failed s
      | Some topic \<Rightarrow>
          let (ok, s) = client_publish M topic [] True s in if \<not> ok then discovery_failed s else (True, s))"

definition discovery_members :: "string \<Rightarrow> string \<Rightarrow> (string \<times> json) list" where
  "discovery_members component commandTopic =
     (if component = ''binary_sensor'' then
        [(''value_template'', JsText ''{{ value_json.value | string | lower }}''),
         (''payload_on'', JsText ''true''), (''payload_off'', JsText ''false'')]
      else if component = ''switch'' then
        [(''value_template'', JsText ''{{ value_json.value | string | lower }}''),
         (''state_on'', JsText ''true''), (''state_off'', JsText ''false''), (''command_topic'', JsText commandTopic),
         (''payload_on'', JsText (''{'' @ [CHR 0x22] @ ''value'' @ [CHR 0x22] @ '':true}'')),
         (''payload_off'', JsText (''{'' @ [CHR 0x22] @ ''value'' @ [CHR 0x22] @ '':false}''))]
      else if component = ''number'' then
        [(''value_template'', JsText ''{{ value_json.value }}''), (''command_topic'', JsText commandTopic),
         (''command_template'', JsText (''{'' @ [CHR 0x22] @ ''value'' @ [CHR 0x22] @ '': {{ value }}}''))]
      else [(''value_template'', JsText ''{{ value_json.value }}'')])"

definition discovery_document ::
    "string \<Rightarrow> ChannelBinding \<Rightarrow> string \<Rightarrow> string \<Rightarrow> string \<Rightarrow> string \<Rightarrow> json" where
  "discovery_document deviceId b component stateTopic availabilityTopic commandTopic = JsObject
     ([(''name'', JsText (if bd_pointId b = [] then ''Channel '' @ decimal (unat (bd_channelId b)) else bd_pointId b)),
       (''unique_id'', JsText (deviceId @ ''_ch'' @ decimal (unat (bd_channelId b)))),
       (''state_topic'', JsText stateTopic), (''availability_topic'', JsText availabilityTopic)] @
      (if bd_unit b \<noteq> [] then [(''unit_of_measurement'', JsText (bd_unit b))] else []) @
      discovery_members component commandTopic @
      [(''device'', JsObject [(''identifiers'', JsArray [JsText deviceId]), (''name'', JsText deviceId),
         (''manufacturer'', JsText ''MultiBus''), (''model'', JsText ''ESP32 MultiBus Gateway'')])])"

definition publishHomeAssistantDiscovery ::
    "'c mqtt_client \<Rightarrow> ChannelBinding \<times> DataPointDescriptor \<Rightarrow> ('c, 'x) mqtt_service \<Rightarrow> bool \<times> ('c, 'x) mqtt_service" where
  "publishHomeAssistantDiscovery M bd s =
     (let (b, d) = bd; component = discoveryComponent b d
      in case (makeHomeAssistantDiscoveryTopic (Some (c_str (mq_homeAssistantPrefix (mqtt_conf s)))) (Some component)
                 (mqtt_device s) (bd_channelId b) (Some 224),
               makeChannelStateTopic (mqtt_prefix s) (mqtt_device s) (bd_channelId b) (Some 192),
               makeAvailabilityTopic (mqtt_prefix s) (mqtt_device s) (Some 192)) of
           (Some discoveryTopic, Some stateTopic, Some availabilityTopic) \<Rightarrow>
             (case (if component = ''switch'' \<or> component = ''number''
                    then makeChannelCommandTopic (mqtt_prefix s) (mqtt_device s) (bd_channelId b) (Some 192) else Some []) of
                None \<Rightarrow> discovery_failed s
              | Some commandTopic \<Rightarrow>
                  let (ok, s) = client_publish M discoveryTopic (c_str (mc_serialize M (discovery_document (mqs_deviceId s) b
                        component stateTopic availabilityTopic commandTopic))) True s
                  in if \<not> ok then discovery_failed s
                     else (True, s\<lparr>mqs_discoveryPublishes := mqs_discoveryPublishes s + 1\<rparr>))
         | _ \<Rightarrow> discovery_failed s)"

definition refreshHomeAssistantDiscovery ::
    "'c mqtt_client \<Rightarrow> 'x mqtt_handlers \<Rightarrow> bool \<Rightarrow> ('c, 'x) mqtt_service \<Rightarrow> ('c, 'x) mqtt_service" where
  "refreshHomeAssistantDiscovery M H force s =
     (if mqs_config s = None \<or> \<not> mq_homeAssistantDiscovery (mqtt_conf s) \<or> \<not> mc_connected M (mqs_client s) then s
      else
        let signature = discoverySignature H (mqs_context s)
        in if \<not> force \<and> signature = mqs_discoverySignature s then s
           else
             let all = described H (mqs_context s);
                 shown = take kRecommendedMaxChannels all;
                 desired = map discovery_entry shown;
                 s = (if length all > kRecommendedMaxChannels then snd (discovery_failed s) else s);
                 s = fold (\<lambda>e s. if e \<in> set desired then s else snd (clearHomeAssistantDiscovery M e s)) (mqs_discovered s) s;
                 s = fold (\<lambda>bd s. snd (publishHomeAssistantDiscovery M bd s)) shown s
             in s\<lparr>mqs_discovered := desired, mqs_discoverySignature := signature\<rparr>)"

section \<open>Events\<close>

definition severityName :: "EventSeverity \<Rightarrow> string" where
  "severityName severity = (case severity of SevInfo \<Rightarrow> ''info'' | SevWarning \<Rightarrow> ''warning'' | SevError \<Rightarrow> ''error'')"

definition event_document :: "EventRecord \<Rightarrow> u64 \<Rightarrow> json" where
  "event_document event missedBefore = JsObject
     ([(''sequence'', JsNumber (uint (ev_sequence event))), (''timestamp'', JsNumber (uint (ev_timestampUnix event))),
       (''severity'', JsText (severityName (ev_severity event))), (''source'', JsText (c_text (ev_source event))),
       (''type'', JsText (c_text (ev_type event)))] @
      (if ev_detail event ! 0 \<noteq> 0 then [(''detail'', JsText (c_text (ev_detail event)))] else []) @
      (if missedBefore > 0 then [(''missed_before'', JsNumber (uint missedBefore))] else []))"

definition publishEvent :: "'c mqtt_client \<Rightarrow> EventRecord \<Rightarrow> u64 \<Rightarrow> ('c, 'x) mqtt_service \<Rightarrow> bool \<times> ('c, 'x) mqtt_service" where
  "publishEvent M event missedBefore s =
     (let failed = (\<lambda>s. (False, s\<lparr>mqs_eventPublishFailures := mqs_eventPublishFailures s + 1\<rparr>))
      in if mqs_config s = None then (False, s)
         else case makeEventTopic (mqtt_prefix s) (mqtt_device s) (Some 192) of
           None \<Rightarrow> failed s
         | Some topic \<Rightarrow>
             let (ok, s) = client_publish M topic (c_str (mc_serialize M (event_document event missedBefore))) False s
             in if \<not> ok then failed s else (True, s\<lparr>mqs_eventPublishes := mqs_eventPublishes s + 1\<rparr>))"

fun publish_events :: "'c mqtt_client \<Rightarrow> 'x mqtt_handlers \<Rightarrow> nat \<Rightarrow> ('c, 'x) mqtt_service \<Rightarrow> ('c, 'x) mqtt_service" where
  "publish_events M H 0 s = s"
| "publish_events M H (Suc left) s =
     (case mh_eventNext H (mqs_context s) (mqs_eventCursor s) of
        None \<Rightarrow> s
      | Some (candidateCursor, event) \<Rightarrow>
          let missedBefore = mh_eventMissed H (mqs_context s) (mqs_eventCursor s);
              (ok, s) = publishEvent M event missedBefore s
          in if \<not> ok then s
             else publish_events M H left (s\<lparr>mqs_eventCursor := candidateCursor, mqs_eventMissed := mqs_eventMissed s + missedBefore\<rparr>))"

definition publishPendingEvents :: "'c mqtt_client \<Rightarrow> 'x mqtt_handlers \<Rightarrow> ('c, 'x) mqtt_service \<Rightarrow> ('c, 'x) mqtt_service" where
  "publishPendingEvents M H s =
     (if mqs_config s = None \<or> \<not> mc_connected M (mqs_client s) then s else publish_events M H kMaxEventsPerLoop s)"

section \<open>Channels\<close>

definition value_members :: "DataValue \<Rightarrow> (string \<times> json) list" where
  "value_members v = (case dv_type v of
       DtBoolean \<Rightarrow> [(''value'', JsBool (dv_booleanValue v)), (''type'', JsText ''bool'')]
     | DtInt64 \<Rightarrow> [(''value'', JsNumber (sint (dv_intValue v))), (''type'', JsText ''int64'')]
     | DtUInt64 \<Rightarrow> [(''value'', JsNumber (uint (dv_uintValue v))), (''type'', JsText ''uint64'')]
     | DtFloat64 \<Rightarrow> [(''value'', JsDouble (dv_floatValue v)), (''type'', JsText ''float64'')]
     | DtText \<Rightarrow> [(''value'', JsText (dv_textValue v)), (''type'', JsText ''text'')])"

definition channel_document :: "ChannelBinding \<Rightarrow> DataValue \<Rightarrow> json" where
  "channel_document b v = JsObject
     ([(''channel_id'', JsNumber (uint (bd_channelId b))), (''source'', JsText (bd_sourceId b)),
       (''point'', JsText (bd_pointId b)), (''unit'', JsText (bd_unit b)), (''valid'', JsBool (dv_valid v))] @ value_members v)"

definition publishChannel :: "'c mqtt_client \<Rightarrow> ChannelBinding \<Rightarrow> DataValue \<Rightarrow> ('c, 'x) mqtt_service \<Rightarrow> bool \<times> ('c, 'x) mqtt_service" where
  "publishChannel M b v s =
     (let failed = (\<lambda>s. (False, s\<lparr>mqs_publishFailures := mqs_publishFailures s + 1\<rparr>))
      in case makeChannelStateTopic (mqtt_prefix s) (mqtt_device s) (bd_channelId b) (Some 192) of
           None \<Rightarrow> failed s
         | Some topic \<Rightarrow>
             let (ok, s) = client_publish M topic (c_str (mc_serialize M (channel_document b v))) (mq_retainState (mqtt_conf s)) s
             in if \<not> ok then failed s else (True, s\<lparr>mqs_publishes := mqs_publishes s + 1\<rparr>))"

definition publishAll :: "'c mqtt_client \<Rightarrow> 'x mqtt_handlers \<Rightarrow> ('c, 'x) mqtt_service \<Rightarrow> ('c, 'x) mqtt_service" where
  "publishAll M H s =
     (if mqs_config s = None then s
      else fold (\<lambda>b s. if \<not> bd_enabled b then s
                 else case mh_read H b (mqs_context s) of
                     None \<Rightarrow> s
                   | Some v \<Rightarrow> if \<not> dv_valid v then s else snd (publishChannel M b v s))
             (mh_channels H (mqs_context s)) s)"

section \<open>Commands\<close>

definition handleMessage :: "'x mqtt_handlers \<Rightarrow> string \<Rightarrow> bytes \<Rightarrow> ('c, 'x) mqtt_service \<Rightarrow> ('c, 'x) mqtt_service" where
  "handleMessage H topic payload s =
     (if mqs_config s = None then s
      else case parseChannelCommandTopic (mqtt_prefix s) (mqtt_device s) (Some topic) of
        None \<Rightarrow> s
      | Some channelId \<Rightarrow>
          let failed = (\<lambda>s. s\<lparr>mqs_commandFailures := mqs_commandFailures s + 1\<rparr>)
          in case registry_find channelId (mh_channels H (mqs_context s)) of
               None \<Rightarrow> failed s
             | Some b \<Rightarrow>
                 if \<not> bd_enabled b \<or> \<not> bd_writable b then failed s
                 else
                   let s = s\<lparr>mqs_commandMessages := mqs_commandMessages s + 1\<rparr>;
                       (ok, x) = mh_command H b payload (mqs_context s); s = s\<lparr>mqs_context := x\<rparr>
                   in if \<not> ok then failed s else s)"

section \<open>The loop\<close>

definition subscribeCommandTopics :: "'c mqtt_client \<Rightarrow> ('c, 'x) mqtt_service \<Rightarrow> ('c, 'x) mqtt_service" where
  "subscribeCommandTopics M s =
     (if mqs_config s = None then s
      else case makeChannelCommandWildcard (mqtt_prefix s) (mqtt_device s) (Some 192) of
        None \<Rightarrow> s | Some topic \<Rightarrow> s\<lparr>mqs_client := mc_subscribe M topic (mqs_client s)\<rparr>)"

definition publish_due :: "u32 \<Rightarrow> ('c, 'x) mqtt_service \<Rightarrow> ('c, 'x) mqtt_service" where
  "publish_due nowMs s = s\<lparr>mqs_nextPublishAtMs := nowMs + ucast (mq_publishIntervalSeconds (mqtt_conf s)) * 1000\<rparr>"

definition mqtt_connect ::
    "'c mqtt_client \<Rightarrow> 'x mqtt_handlers \<Rightarrow> u32 \<Rightarrow> ('c, 'x) mqtt_service \<Rightarrow> bool \<times> ('c, 'x) mqtt_service" where
  "mqtt_connect M H nowMs s =
     (if mqs_config s = None \<or> \<not> mq_enabled (mqtt_conf s) \<or> mq_host (mqtt_conf s) = [] then (False, s)
      else case makeAvailabilityTopic (mqtt_prefix s) (mqtt_device s) (Some 192) of
        None \<Rightarrow> (False, s)
      | Some statusTopic \<Rightarrow>
          let (ok, c) = mc_connect M (c_str (mqs_deviceId s @ ''-mqtt''))
                (if mq_username (mqtt_conf s) = [] then None
                 else Some (c_str (mq_username (mqtt_conf s)), c_str (mq_password (mqtt_conf s)))) statusTopic ''offline'' (mqs_client s);
              s = s\<lparr>mqs_client := c\<rparr>
          in if \<not> ok then (False, s)
             else
               let s = s\<lparr>mqs_connected := True\<rparr>;
                   s = snd (client_publish M statusTopic ''online'' True s);
                   s = subscribeCommandTopics M s;
                   s = refreshHomeAssistantDiscovery M H True (s\<lparr>mqs_discoverySignature := 0\<rparr>)
               in (True, publish_due nowMs (publishAll M H s)))"

text \<open>\<open>wifi\<close>: whether the station is connected.\<close>

definition mqtt_loop ::
    "'c mqtt_client \<Rightarrow> 'x mqtt_handlers \<Rightarrow> bool \<Rightarrow> u32 \<Rightarrow> ('c, 'x) mqtt_service \<Rightarrow> ('c, 'x) mqtt_service" where
  "mqtt_loop M H wifi nowMs s =
     (if mqs_config s = None \<or> \<not> mq_enabled (mqtt_conf s) then s
      else if \<not> wifi then s\<lparr>mqs_connected := False\<rparr>
      else if \<not> mc_connected M (mqs_client s) then
        (let s = s\<lparr>mqs_connected := False\<rparr>
         in if \<not> time_reached nowMs (mqs_nextReconnectAtMs s) then s
            else snd (mqtt_connect M H nowMs (s\<lparr>mqs_nextReconnectAtMs := nowMs + kReconnectIntervalMs\<rparr>)))
      else
        let (messages, c) = mc_loop M (mqs_client s);
            s = fold (\<lambda>(topic, payload). handleMessage H topic payload) messages (s\<lparr>mqs_client := c\<rparr>);
            s = refreshHomeAssistantDiscovery M H False (s\<lparr>mqs_connected := True\<rparr>);
            s = publishPendingEvents M H s
        in if time_reached nowMs (mqs_nextPublishAtMs s) then publish_due nowMs (publishAll M H s) else s)"

definition mqtt_connected_now :: "('c, 'x) mqtt_service \<Rightarrow> bool" where
  "mqtt_connected_now s = (mqs_config s \<noteq> None \<and> mq_enabled (mqtt_conf s) \<and> mqs_connected s)"

section \<open>The handlers of the application\<close>

definition app_handlers :: "(bytes \<Rightarrow> json_value option) \<Rightarrow> int \<Rightarrow> 's application mqtt_handlers" where
  "app_handlers parse unixNow = \<lparr>mh_channels = ga_channels, mh_read = readBoundChannel, mh_describe = describeBoundChannel,
     mh_command = (\<lambda>b payload. writeBoundChannelFromMqtt parse unixNow b (Some payload)),
     mh_eventNext = (\<lambda>a cursor. eventBus_next kEventCapacity cursor (ga_events a)),
     mh_eventMissed = (\<lambda>a cursor. missedSince cursor (ga_events a))\<rparr>"

end
