(* ===== verification/MqttProperties.thy ===== *)
theory MqttProperties
  imports MqttService ApplicationSafety
begin

text \<open>
  What the MQTT service does: the commands that reach the application, the account of the events, the
  buffers of the topics, and the discovery topics the broker retains.
\<close>

section \<open>The topics\<close>

lemma decimal_length: "n < 10 ^ Suc k \<Longrightarrow> length (decimal n) \<le> Suc k"
proof (induction k arbitrary: n)
  case (Suc k)
  have "length (decimal (n div 10)) \<le> Suc k" by (rule Suc.IH) (use Suc.prems in simp)
  then show ?case by (subst decimal.simps) simp
qed (simp add: decimal.simps)

lemma channel_number_length: "length (decimal (unat (i :: u16))) \<le> 5"
  using unat_bound [of i] decimal_length [of "unat i" 4] by simp

lemma mqtt_topics:
  assumes "validTopicPrefix (Some p)" "validTopicPrefix (Some h)" "validDeviceId (Some d)" "i \<noteq> 0"
    "validHomeAssistantComponent (Some c)"
  shows "makeChannelStateTopic (Some p) (Some d) i (Some 192) \<noteq> None \<and> makeChannelCommandTopic (Some p) (Some d) i (Some 192) \<noteq> None \<and>
    makeChannelCommandWildcard (Some p) (Some d) (Some 192) \<noteq> None \<and> makeEventTopic (Some p) (Some d) (Some 192) \<noteq> None \<and>
    makeAvailabilityTopic (Some p) (Some d) (Some 192) \<noteq> None \<and>
    makeHomeAssistantDiscoveryTopic (Some h) (Some c) (Some d) i (Some 224) \<noteq> None"
proof -
  have "length c \<le> 13" using assms(5) by (auto simp: validHomeAssistantComponent_def)
  then show ?thesis
    using assms valid_lengths(1) [OF assms(1)] valid_lengths(1) [OF assms(2)] valid_lengths(2) [OF assms(3)]
      channel_number_length [of i]
    by (simp add: makeChannelStateTopic_def makeChannelCommandTopic_def makeChannelCommandWildcard_def makeEventTopic_def
        makeAvailabilityTopic_def makeHomeAssistantDiscoveryTopic_def print_into_def)
qed

text \<open>
  No topic is ever cut: for a valid prefix, discovery prefix and device identifier and any channel
  number but zero, every topic the service makes fits the buffer it makes it in.
\<close>

theorem mqtt_topics_fit:
  assumes "validTopicPrefix (Some p)" "validTopicPrefix (Some h)" "validDeviceId (Some d)" "i \<noteq> 0"
    "validHomeAssistantComponent (Some c)"
  shows "makeChannelStateTopic (Some p) (Some d) i (Some 192) \<noteq> None \<and> makeChannelCommandTopic (Some p) (Some d) i (Some 192) \<noteq> None \<and>
    makeChannelCommandWildcard (Some p) (Some d) (Some 192) \<noteq> None \<and> makeEventTopic (Some p) (Some d) (Some 192) \<noteq> None \<and>
    makeAvailabilityTopic (Some p) (Some d) (Some 192) \<noteq> None \<and>
    makeHomeAssistantDiscoveryTopic (Some h) (Some c) (Some d) i (Some 224) \<noteq> None"
  using mqtt_topics [OF assms] .

lemma mqtt_topics_fit_witness:
  "makeHomeAssistantDiscoveryTopic (Some ''homeassistant'') (Some ''binary_sensor'') (Some ''gw-1'') 65535 (Some 224) \<noteq> None"
  by (rule mqtt_topics_fit [of "''multibus''", THEN conjunct2, THEN conjunct2, THEN conjunct2, THEN conjunct2, THEN conjunct2])
    (simp_all add: validTopicPrefix_def forbidden_char_def validDeviceId_def device_char_def validHomeAssistantComponent_def Let_def)

section \<open>Commands\<close>

text \<open>Everything but a message leaves the context alone, everything but an event the account of the events.\<close>

definition event_account :: "('c, 'x) mqtt_service \<Rightarrow> u32 \<times> u64 \<times> u64" where
  "event_account s = (mqs_eventPublishes s, mqs_eventCursor s, mqs_eventMissed s)"

lemma event_account_update [simp]:
  "event_account (s\<lparr>mqs_client := c\<rparr>) = event_account s" "event_account (s\<lparr>mqs_context := x\<rparr>) = event_account s"
  "event_account (s\<lparr>mqs_discoveryFailures := n\<rparr>) = event_account s" "event_account (s\<lparr>mqs_discoveryPublishes := n\<rparr>) = event_account s"
  "event_account (s\<lparr>mqs_publishes := n\<rparr>) = event_account s" "event_account (s\<lparr>mqs_publishFailures := n\<rparr>) = event_account s"
  "event_account (s\<lparr>mqs_commandMessages := n\<rparr>) = event_account s" "event_account (s\<lparr>mqs_commandFailures := n\<rparr>) = event_account s"
  "event_account (s\<lparr>mqs_connected := b\<rparr>) = event_account s" "event_account (s\<lparr>mqs_discoverySignature := n\<rparr>) = event_account s"
  "event_account (s\<lparr>mqs_discovered := es\<rparr>) = event_account s"
  "event_account (s\<lparr>mqs_discovered := es, mqs_discoverySignature := n\<rparr>) = event_account s"
  "event_account (s\<lparr>mqs_nextPublishAtMs := n\<rparr>) = event_account s" "event_account (s\<lparr>mqs_nextReconnectAtMs := n\<rparr>) = event_account s"
  "event_account (s\<lparr>mqs_eventPublishFailures := n\<rparr>) = event_account s"
  "event_account (s\<lparr>mqs_config := k, mqs_deviceId := d\<rparr>) = event_account s"
  by (simp_all add: event_account_def)

lemma client_publish_context [simp]: "mqs_context (snd (client_publish M t m r s)) = mqs_context s"
  "mqs_config (snd (client_publish M t m r s)) = mqs_config s"
  "event_account (snd (client_publish M t m r s)) = event_account s"
  by (simp_all add: client_publish_def split: prod.splits)

lemma client_publish_keeps:
  "client_publish M t m r s = (ok, s') \<Longrightarrow> mqs_context s' = mqs_context s \<and> mqs_config s' = mqs_config s \<and>
     event_account s' = event_account s"
  using client_publish_context [of M t m r s] by simp

lemma clear_keeps [simp]: "mqs_context (snd (clearHomeAssistantDiscovery M e s)) = mqs_context s"
  "mqs_config (snd (clearHomeAssistantDiscovery M e s)) = mqs_config s"
  "event_account (snd (clearHomeAssistantDiscovery M e s)) = event_account s"
  by (auto simp: clearHomeAssistantDiscovery_def discovery_failed_def Let_def dest!: client_publish_keeps split: option.splits prod.splits)

lemma publish_discovery_keeps [simp]: "mqs_context (snd (publishHomeAssistantDiscovery M bd s)) = mqs_context s"
  "mqs_config (snd (publishHomeAssistantDiscovery M bd s)) = mqs_config s"
  "event_account (snd (publishHomeAssistantDiscovery M bd s)) = event_account s"
  by (auto simp: publishHomeAssistantDiscovery_def discovery_failed_def Let_def dest!: client_publish_keeps split: option.splits prod.splits)

lemma fold_keeps: "(\<And>x s. f (g x s) = f s) \<Longrightarrow> f (fold g xs s) = f s"
  by (induction xs arbitrary: s) simp_all

lemma refresh_keeps [simp]: "mqs_context (refreshHomeAssistantDiscovery M H force s) = mqs_context s"
  "mqs_config (refreshHomeAssistantDiscovery M H force s) = mqs_config s"
  "event_account (refreshHomeAssistantDiscovery M H force s) = event_account s"
  by (simp_all add: refreshHomeAssistantDiscovery_def discovery_failed_def Let_def fold_keeps [where f = mqs_context] fold_keeps [where f = mqs_config]
      fold_keeps [where f = event_account])

lemma publishEvent_keeps [simp]: "mqs_context (snd (publishEvent M e n s)) = mqs_context s"
  "mqs_config (snd (publishEvent M e n s)) = mqs_config s"
  by (auto simp: publishEvent_def Let_def dest!: client_publish_keeps split: option.splits prod.splits)

lemma publishEvent_dest:
  "publishEvent M e m s = (ok, s') \<Longrightarrow> mqs_context s' = mqs_context s \<and> mqs_config s' = mqs_config s"
  using publishEvent_keeps [of M e m s] by simp

lemma publish_events_keeps [simp]: "mqs_context (publish_events M H n s) = mqs_context s"
  "mqs_config (publish_events M H n s) = mqs_config s"
  by (induction n arbitrary: s) (auto simp: Let_def dest: publishEvent_dest split: option.split prod.split)

lemma publishChannel_keeps [simp]: "mqs_context (snd (publishChannel M b v s)) = mqs_context s"
  "mqs_config (snd (publishChannel M b v s)) = mqs_config s"
  "event_account (snd (publishChannel M b v s)) = event_account s"
  by (auto simp: publishChannel_def Let_def dest!: client_publish_keeps split: option.splits prod.splits)

lemma publishAll_keeps [simp]: "mqs_context (publishAll M H s) = mqs_context s" "mqs_config (publishAll M H s) = mqs_config s"
  "event_account (publishAll M H s) = event_account s"
  by (auto simp: publishAll_def intro!: fold_keeps [where f = mqs_context] fold_keeps [where f = mqs_config]
      fold_keeps [where f = event_account] split: option.splits)

lemma connect_keeps [simp]: "mqs_context (snd (mqtt_connect M H t s)) = mqs_context s"
  "event_account (snd (mqtt_connect M H t s)) = event_account s"
  by (auto simp: mqtt_connect_def subscribeCommandTopics_def publish_due_def Let_def split: option.splits prod.splits)

text \<open>The command a message stands for, when its binding is enabled and writable.\<close>

definition accepted_command ::
    "ChannelBinding list \<Rightarrow> string option \<Rightarrow> string option \<Rightarrow> string \<times> bytes \<Rightarrow> (ChannelBinding \<times> bytes) option" where
  "accepted_command channels prefix deviceId m =
     (case parseChannelCommandTopic prefix deviceId (Some (fst m)) of
        None \<Rightarrow> None
      | Some channelId \<Rightarrow> (case registry_find channelId channels of
            None \<Rightarrow> None
          | Some b \<Rightarrow> if bd_enabled b \<and> bd_writable b then Some (b, snd m) else None))"

lemma accepted_commandD:
  assumes "accepted_command channels prefix dev m = Some (b, payload)"
  shows "b \<in> set channels \<and> bd_enabled b \<and> bd_writable b \<and> payload = snd m \<and>
    parseChannelCommandTopic prefix dev (Some (fst m)) = Some (bd_channelId b)"
  using assms by (auto simp: accepted_command_def registry_find_def find_Some_iff split: option.splits if_splits)

lemma set_map_filter: "set (List.map_filter f xs) = {y. \<exists>x \<in> set xs. f x = Some y}"
  by (induction xs) (auto simp: map_filter_simps split: option.splits)

lemma handleMessage_context:
  assumes "mqs_config s = Some config"
  shows "mqs_config (handleMessage H topic payload s) = Some config \<and>
    mqs_deviceId (handleMessage H topic payload s) = mqs_deviceId s \<and>
    mqs_context (handleMessage H topic payload s) =
      (case accepted_command (mh_channels H (mqs_context s)) (mqtt_prefix s) (mqtt_device s) (topic, payload) of
         None \<Rightarrow> mqs_context s | Some (b, p) \<Rightarrow> snd (mh_command H b p (mqs_context s)))"
  using assms by (auto simp: handleMessage_def accepted_command_def Let_def split: option.splits prod.splits)

lemma write_keeps_channels [simp]: "ga_channels (snd (writeBoundChannelFromMqtt parse unixNow b p a)) = ga_channels a"
  by (simp add: writeBoundChannelFromMqtt_def emitCoreEvent_def Let_def split: option.splits prod.splits)

definition mqtt_write :: "(bytes \<Rightarrow> json_value option) \<Rightarrow> int \<Rightarrow> ChannelBinding \<times> bytes \<Rightarrow> 's application \<Rightarrow> 's application" where
  "mqtt_write parse unixNow = (\<lambda>(b, payload) a. snd (writeBoundChannelFromMqtt parse unixNow b (Some payload) a))"

lemma messages_context:
  assumes "mqs_config s = Some config" "prefix = mqtt_prefix s" "dev = mqtt_device s"
  shows "mqs_context (fold (\<lambda>(topic, payload). handleMessage (app_handlers parse unixNow) topic payload) ms s) =
    fold (mqtt_write parse unixNow)
      (List.map_filter (accepted_command (ga_channels (mqs_context s)) prefix dev) ms) (mqs_context s)"
  using assms
proof (induction ms arbitrary: s)
  case (Cons m ms)
  obtain topic payload where m: "m = (topic, payload)" by fastforce
  let ?s = "handleMessage (app_handlers parse unixNow) topic payload s"
  have s: "mqs_config ?s = Some config" "prefix = mqtt_prefix ?s" "dev = mqtt_device ?s"
    using handleMessage_context [OF Cons.prems(1)] Cons.prems by simp_all
  have ctx: "mqs_context ?s = (case accepted_command (ga_channels (mqs_context s)) prefix dev m of
      None \<Rightarrow> mqs_context s | Some c \<Rightarrow> mqtt_write parse unixNow c (mqs_context s))"
    using handleMessage_context [OF Cons.prems(1), of "app_handlers parse unixNow" topic payload] Cons.prems(2,3)
    by (simp add: app_handlers_def m mqtt_write_def split: option.splits)
  then have "ga_channels (mqs_context ?s) = ga_channels (mqs_context s)"
    by (auto simp: mqtt_write_def split: option.splits)
  then show ?case using Cons.IH [OF s] ctx
    by (simp add: m map_filter_simps split: option.splits)
qed (simp add: map_filter_simps)

text \<open>
  C6. What MQTT does to the application is what the main loop assumes of it: one call of the service's loop
  changes the application exactly as the writes of a list of commands do, in the order the messages came
  in; the list has one command for each message whose topic is the command topic of a channel that is
  configured, enabled and writable, and no other, and there is none while the service is off or offline.
\<close>

theorem mqtt_commands_exact:
  assumes "mqs_config s = Some config"
    "calls = (if mq_enabled config \<and> wifi \<and> mc_connected M (mqs_client s)
       then List.map_filter (accepted_command (ga_channels (mqs_context s)) (mqtt_prefix s) (mqtt_device s))
              (fst (mc_loop M (mqs_client s)))
       else [])"
  shows "mqs_context (mqtt_loop M (app_handlers parse unixNow) wifi nowMs s) =
      fold (\<lambda>(b, payload) a. snd (writeBoundChannelFromMqtt parse unixNow b (Some payload) a)) calls (mqs_context s) \<and>
    (\<forall>(b, payload) \<in> set calls. b \<in> set (ga_channels (mqs_context s)) \<and> bd_enabled b \<and> bd_writable b \<and>
       (\<exists>topic. (topic, payload) \<in> set (fst (mc_loop M (mqs_client s))) \<and>
          parseChannelCommandTopic (mqtt_prefix s) (mqtt_device s) (Some topic) = Some (bd_channelId b)))"
proof
  obtain ms c where l: "mc_loop M (mqs_client s) = (ms, c)" by fastforce
  show "mqs_context (mqtt_loop M (app_handlers parse unixNow) wifi nowMs s) =
      fold (\<lambda>(b, payload) a. snd (writeBoundChannelFromMqtt parse unixNow b (Some payload) a)) calls (mqs_context s)"
    using assms messages_context [of "s\<lparr>mqs_client := c\<rparr>" config "mqtt_prefix s" "mqtt_device s" parse unixNow ms]
    by (auto simp: mqtt_loop_def l publishPendingEvents_def publish_due_def mqtt_write_def [symmetric] Let_def map_filter_simps)
  show "\<forall>(b, payload) \<in> set calls. b \<in> set (ga_channels (mqs_context s)) \<and> bd_enabled b \<and> bd_writable b \<and>
       (\<exists>topic. (topic, payload) \<in> set (fst (mc_loop M (mqs_client s))) \<and>
          parseChannelCommandTopic (mqtt_prefix s) (mqtt_device s) (Some topic) = Some (bd_channelId b))"
  proof clarify
    fix b payload
    assume "(b, payload) \<in> set calls"
    then obtain topic data where "(topic, data) \<in> set ms"
      "accepted_command (ga_channels (mqs_context s)) (mqtt_prefix s) (mqtt_device s) (topic, data) = Some (b, payload)"
      using assms(2) by (auto simp: l set_map_filter split: if_splits)
    with accepted_commandD [OF this(2)] show "b \<in> set (ga_channels (mqs_context s)) \<and> bd_enabled b \<and> bd_writable b \<and>
       (\<exists>topic. (topic, payload) \<in> set (fst (mc_loop M (mqs_client s))) \<and>
          parseChannelCommandTopic (mqtt_prefix s) (mqtt_device s) (Some topic) = Some (bd_channelId b))"
      by (auto simp: l)
  qed
qed

text \<open>A client with the messages that wait and the topics the broker retains.\<close>

type_synonym broker = "(string \<times> bytes) list \<times> (string \<Rightarrow> string option)"

definition broker_client :: "broker mqtt_client" where
  "broker_client = \<lparr>mc_setTls = (\<lambda>_ c. c), mc_setServer = (\<lambda>_ _ c. c), mc_setBufferSize = (\<lambda>_ c. c), mc_connected = (\<lambda>_. True),
     mc_connect = (\<lambda>_ _ _ _ c. (True, c)),
     mc_publish = (\<lambda>t m retained (inbox, ret). (True, (inbox, if retained then ret(t := if m = [] then None else Some m) else ret))),
     mc_subscribe = (\<lambda>_ c. c), mc_loop = (\<lambda>(inbox, ret). (inbox, ([], ret))), mc_serialize = (\<lambda>_. ''{}'')\<rparr>"

definition mqtt_binding :: ChannelBinding where
  "mqtt_binding = default_binding\<lparr>bd_channelId := 7, bd_sourceId := ''modbus'', bd_pointId := ''slot00.0'', bd_writable := True\<rparr>"

definition mqtt_application :: "(string \<Rightarrow> PrefValue option) application" where
  "mqtt_application = (initial_application (\<lambda>_ _ _. 1) ModbusMaster LoRaDisabled Map.empty)\<lparr>ga_channels := [mqtt_binding]\<rparr>"

definition mqtt_sample :: "'x \<Rightarrow> (broker, 'x) mqtt_service" where
  "mqtt_sample x = (initial_mqtt ([(''multibus/gw-1/channels/7/set'', [0x7b, 0x7d]), (''multibus/gw-1/channels/8/set'', [0x7b, 0x7d])], Map.empty) x)
     \<lparr>mqs_config := Some (default_mqtt_config\<lparr>mq_enabled := True, mq_host := ''broker'', mq_homeAssistantDiscovery := True\<rparr>),
      mqs_deviceId := ''gw-1''\<rparr>"

lemma mqtt_commands_exact_witness:
  "mqs_context (mqtt_loop broker_client (app_handlers (\<lambda>_. None) 0) True 1000 (mqtt_sample mqtt_application)) =
     snd (writeBoundChannelFromMqtt (\<lambda>_. None) 0 mqtt_binding (Some [0x7b, 0x7d]) mqtt_application)"
proof -
  let ?s = "mqtt_sample mqtt_application"
  have calls: "accepted_command [mqtt_binding] (Some ''multibus'') (Some ''gw-1'') (''multibus/gw-1/channels/7/set'', p) = Some (mqtt_binding, p)"
    "accepted_command [mqtt_binding] (Some ''multibus'') (Some ''gw-1'') (''multibus/gw-1/channels/8/set'', p) = None" for p
    by (simp_all add: accepted_command_def parseChannelCommandTopic_def strip_prefix_def is_digit_def
        validTopicPrefix_def forbidden_char_def validDeviceId_def device_char_def registry_find_def mqtt_binding_def
        default_binding_def Let_def)
  have "mqs_config ?s = Some (default_mqtt_config\<lparr>mq_enabled := True, mq_host := ''broker'', mq_homeAssistantDiscovery := True\<rparr>)"
    by (simp add: mqtt_sample_def)
  from mqtt_commands_exact [OF this refl, of broker_client "\<lambda>_. None" 0 True 1000, THEN conjunct1]
  show ?thesis
    by (simp add: mqtt_sample_def initial_mqtt_def broker_client_def mqtt_application_def default_mqtt_config_def c_str_def calls map_filter_simps)
qed

section \<open>Events\<close>

text \<open>
  A source of numbered events: an event's number is one past the cursor and the events missed before it.
  The numbers published and missed then add up to the cursor.
\<close>

definition accounted :: "u32 \<times> u64 \<times> u64 \<Rightarrow> bool" where
  "accounted k = (case k of (published, cursor, missed) \<Rightarrow> \<exists>n. published = of_nat n \<and> cursor = missed + of_nat n)"

lemma accounted_next:
  "accounted (p, c, m) \<Longrightarrow> accounted (p + 1, m' + c + 1, m + m')"
  by (auto simp: accounted_def) (metis of_nat_Suc add.commute)

lemma publishEvent_account:
  "publishEvent M e m s = (ok, s') \<Longrightarrow> event_account s' =
     (if ok then (mqs_eventPublishes s + 1, mqs_eventCursor s, mqs_eventMissed s) else event_account s)"
  by (auto simp: publishEvent_def client_publish_def event_account_def Let_def split: option.splits prod.splits if_splits)

locale event_source =
  fixes event_next :: "'x \<Rightarrow> u64 \<Rightarrow> (u64 \<times> EventRecord) option"
    and event_missed :: "'x \<Rightarrow> u64 \<Rightarrow> u64"
  assumes next_accounts: "event_next x cursor = Some (cursor', event) \<Longrightarrow> cursor' = event_missed x cursor + cursor + 1"
begin

lemma publish_accounted:
  assumes "mh_eventNext H = event_next" "mh_eventMissed H = event_missed"
  shows "accounted (event_account s) \<Longrightarrow> accounted (event_account (publish_events M H n s))"
proof (induction n arbitrary: s)
  case (Suc n)
  show ?case
  proof (cases "event_next (mqs_context s) (mqs_eventCursor s)")
    case (Some ce)
    obtain cursor event where ce: "ce = (cursor, event)" by fastforce
    let ?m = "event_missed (mqs_context s) (mqs_eventCursor s)"
    obtain ok s1 where p: "publishEvent M event ?m s = (ok, s1)" by fastforce
    let ?s = "s1\<lparr>mqs_eventCursor := cursor, mqs_eventMissed := mqs_eventMissed s1 + ?m\<rparr>"
    have "accounted (event_account ?s)" if ok
      using accounted_next [of "mqs_eventPublishes s" "mqs_eventCursor s" "mqs_eventMissed s" ?m] Suc.prems that
        publishEvent_account [OF p] next_accounts [OF Some [unfolded ce]] by (simp add: event_account_def)
    then show ?thesis
      using Suc assms Some ce p publishEvent_account [OF p] by (cases ok) (simp_all add: Let_def)
  qed (use Suc.prems assms in simp)
qed simp

end

interpretation core_events: event_source "\<lambda>b cursor. eventBus_next cap cursor b" "\<lambda>b cursor. missedSince cursor b" for cap
proof
  fix b :: event_bus and cursor cursor' and event
  assume "eventBus_next cap cursor b = Some (cursor', event)"
  then show "cursor' = missedSince cursor b + cursor + 1"
    by (auto simp: eventBus_next_def missedSince_def Let_def split: if_splits option.splits)
qed

interpretation application_events: event_source "\<lambda>a cursor. eventBus_next kEventCapacity cursor (ga_events a)"
  "\<lambda>a cursor. missedSince cursor (ga_events a)"
  by unfold_locales (rule core_events.next_accounts)

lemma messages_account [simp]:
  "event_account (fold (\<lambda>(topic, payload). handleMessage H topic payload) ms s) = event_account s"
  by (rule fold_keeps) (auto simp: handleMessage_def Let_def split: option.splits prod.splits)

lemma loop_accounted:
  assumes "accounted (event_account s)"
  shows "accounted (event_account (mqtt_loop M (app_handlers parse unixNow) wifi nowMs s))"
proof -
  have pending: "accounted (event_account (publishPendingEvents M (app_handlers parse unixNow) s))" if "accounted (event_account s)" for s
    using application_events.publish_accounted [of "app_handlers parse unixNow" s M kMaxEventsPerLoop] that
    by (simp add: publishPendingEvents_def app_handlers_def)
  show ?thesis
    using assms by (auto simp: mqtt_loop_def publish_due_def Let_def intro!: pending split: prod.split)
qed

lemma begin_account: "event_account (snd (mqtt_begin M t config deviceId s)) = event_account s"
  by (simp add: mqtt_begin_def event_account_def Let_def)

text \<open>The life of the service: it is begun, its loop is called, and the application runs between.\<close>

datatype 's MqttOp =
    MoBegin MqttConfig string u32
  | MoLoop bool u32 int
  | MoApplication "'s application \<Rightarrow> 's application"

fun mqtt_step ::
    "'c mqtt_client \<Rightarrow> (bytes \<Rightarrow> json_value option) \<Rightarrow> 's MqttOp \<Rightarrow> ('c, 's application) mqtt_service \<Rightarrow> ('c, 's application) mqtt_service" where
  "mqtt_step M parse (MoBegin config deviceId nowMs) s = snd (mqtt_begin M nowMs config deviceId s)"
| "mqtt_step M parse (MoLoop wifi nowMs unixNow) s = mqtt_loop M (app_handlers parse unixNow) wifi nowMs s"
| "mqtt_step M parse (MoApplication f) s = s\<lparr>mqs_context := f (mqs_context s)\<rparr>"

interpretation mqtt_runs: step_machine "mqtt_step M parse" "\<lambda>s. accounted (event_account s)" for M parse
proof
  fix s :: "('a, 'b application) mqtt_service" and op
  assume "accounted (event_account s)"
  then show "accounted (event_account (mqtt_step M parse op s))"
    by (cases op) (simp_all add: loop_accounted begin_account)
qed

text \<open>
  C36. Every event is accounted for: whatever the client accepts or refuses, however the application
  emits events in between and whenever the service is begun again, the number of the last event taken
  is the number of events published plus the number reported as missed. An event that could not be
  published is offered again.
\<close>

theorem mqtt_events_accounted:
  "\<exists>n. mqs_eventPublishes (fold (mqtt_step M parse) ops (initial_mqtt client a)) = of_nat n \<and>
     mqs_eventCursor (fold (mqtt_step M parse) ops (initial_mqtt client a)) =
       mqs_eventMissed (fold (mqtt_step M parse) ops (initial_mqtt client a)) + of_nat n"
proof -
  have "accounted (event_account (initial_mqtt client a))"
    by (auto simp: accounted_def event_account_def initial_mqtt_def intro: exI [of _ 0])
  from mqtt_runs.run_inv [OF this] show ?thesis by (simp add: accounted_def event_account_def)
qed

end
