(* ===== verification/MqttDiscovery.thy ===== *)
theory MqttDiscovery
  imports MqttProperties
begin

text \<open>
  The discovery topics the broker retains: after a refresh that counts no failure they are those of the
  channels, if before it they were those of the entries the service knows.
\<close>

section \<open>The topics of the entries\<close>

definition entry_topic :: "string \<Rightarrow> string \<Rightarrow> DiscoveryEntry \<Rightarrow> string" where
  "entry_topic h d e = h @ ''/'' @ de_component e @ ''/'' @ d @ ''_ch'' @ decimal (unat (de_channelId e)) @ ''/config''"

definition entry_ok :: "DiscoveryEntry \<Rightarrow> bool" where
  "entry_ok e = (de_channelId e \<noteq> 0 \<and> validHomeAssistantComponent (Some (de_component e)))"

lemma discovery_topic_entry:
  assumes "validTopicPrefix (Some h)" "validDeviceId (Some d)" "entry_ok e"
  shows "makeHomeAssistantDiscoveryTopic (Some h) (Some (de_component e)) (Some d) (de_channelId e) (Some 224) =
    Some (entry_topic h d e)"
proof -
  have "length (de_component e) \<le> 13" using assms(3) by (auto simp: entry_ok_def validHomeAssistantComponent_def)
  then show ?thesis
    using assms valid_lengths(1) [OF assms(1)] valid_lengths(2) [OF assms(2)] channel_number_length [of "de_channelId e"]
    by (simp add: makeHomeAssistantDiscoveryTopic_def print_into_def entry_topic_def entry_ok_def)
qed

lemma decimal_inj: "decimal a = decimal b \<Longrightarrow> a = b"
  by (metis decimal_digits)

lemma entry_topic_inj:
  assumes "entry_ok e" "entry_ok e'" "entry_topic h d e = entry_topic h d e'"
  shows "e = e'"
proof -
  have split: "takeWhile (\<lambda>c. c \<noteq> CHR ''/'') (x @ ''/'' @ y) = x" if "validHomeAssistantComponent (Some x)" for x y
  proof -
    have "c \<in> set x \<Longrightarrow> c \<noteq> CHR ''/''" for c using that by (auto simp: validHomeAssistantComponent_def)
    then show ?thesis by (subst takeWhile_append2) auto
  qed
  have comps: "validHomeAssistantComponent (Some (de_component e))" "validHomeAssistantComponent (Some (de_component e'))"
    using assms(1,2) by (simp_all add: entry_ok_def)
  from assms(3) have rest: "de_component e @ ''/'' @ d @ ''_ch'' @ decimal (unat (de_channelId e)) @ ''/config'' =
      de_component e' @ ''/'' @ d @ ''_ch'' @ decimal (unat (de_channelId e')) @ ''/config''"
    by (simp add: entry_topic_def)
  from arg_cong [OF this, of "takeWhile (\<lambda>c. c \<noteq> CHR ''/'')"] have c: "de_component e = de_component e'"
    by (simp only: split [OF comps(1)] split [OF comps(2)])
  with rest have "decimal (unat (de_channelId e)) = decimal (unat (de_channelId e'))" by simp
  then have "de_channelId e = de_channelId e'" using decimal_inj by (simp add: word_unat_eq_iff)
  with c show ?thesis by simp
qed

lemma component_valid: "validHomeAssistantComponent (Some (discoveryComponent b d))" "take 15 (discoveryComponent b d) = discoveryComponent b d"
  by (simp_all add: validHomeAssistantComponent_def discoveryComponent_def)

lemma described_ok:
  assumes "\<forall>b \<in> set (mh_channels H x). bd_channelId b \<noteq> 0" "bd \<in> set (described H x)"
  shows "entry_ok (discovery_entry bd)"
  using assms component_valid by (auto simp: described_def set_map_filter entry_ok_def discovery_entry_def split: if_splits prod.splits)

section \<open>A client that retains\<close>

text \<open>
  A publication that is accepted replaces the retained message of its topic and no other; of one that is
  refused, because it does not fit the client's buffer or the connection is lost, nothing is assumed. The
  serialization of a document is not empty.
\<close>

definition retaining :: "'c mqtt_client \<Rightarrow> ('c \<Rightarrow> string \<Rightarrow> string option) \<Rightarrow> bool" where
  "retaining M ret = ((\<forall>t m c c'. mc_publish M t m True c = (True, c') \<longrightarrow>
       ret c' = (ret c)(t := if m = [] then None else Some m)) \<and>
     (\<forall>j. c_str (mc_serialize M j) \<noteq> []))"

lemma client_publish_step:
  assumes "client_publish M t m True s = (ok, s')" "retaining M ret"
  shows "mqs_config s' = mqs_config s \<and> mqs_deviceId s' = mqs_deviceId s \<and> mqs_discoveryFailures s' = mqs_discoveryFailures s \<and>
    (ok \<longrightarrow> ret (mqs_client s') = (ret (mqs_client s))(t := if m = [] then None else Some m))"
  using assms by (auto simp: client_publish_def retaining_def split: prod.splits)

text \<open>The discovery prefix and the identifier the service uses.\<close>

definition ha_names :: "('c, 'x) mqtt_service \<Rightarrow> string \<times> string" where
  "ha_names s = (c_str (mq_homeAssistantPrefix (mqtt_conf s)), c_str (mqs_deviceId s))"

definition names_ok :: "('c, 'x) mqtt_service \<Rightarrow> bool" where
  "names_ok s = (mqs_config s \<noteq> None \<and> mqtt_valid (mqtt_conf s) \<and> validDeviceId (mqtt_device s))"

lemma names_valid:
  assumes "names_ok s" "ha_names s = (h, d)"
  shows "validTopicPrefix (Some h)" "validDeviceId (Some d)" "validTopicPrefix (mqtt_prefix s)"
  using assms by (auto simp: names_ok_def ha_names_def mqtt_valid_def split: if_splits)

text \<open>
  A step of the refresh that either did its part or counted a failure, and the number of failures of several.
\<close>

definition same_names :: "('c, 'x) mqtt_service \<Rightarrow> ('c, 'x) mqtt_service \<Rightarrow> bool" where
  "same_names s s' = (names_ok s' \<and> ha_names s' = ha_names s)"

definition counted :: "nat \<Rightarrow> ('c, 'x) mqtt_service \<Rightarrow> ('c, 'x) mqtt_service \<Rightarrow> bool" where
  "counted k s s' = (mqs_discoveryFailures s' = mqs_discoveryFailures s + of_nat k)"

lemma counted_trans: "counted j s s1 \<Longrightarrow> counted k s1 s2 \<Longrightarrow> counted (j + k) s s2"
  by (simp add: counted_def add.assoc)

lemma counted_none: "counted k s s' \<Longrightarrow> mqs_discoveryFailures s' = mqs_discoveryFailures s \<Longrightarrow> k < 2 ^ 32 \<Longrightarrow> k = 0"
  using unat_of_nat_small [of k, where 'a = 32] by (simp add: counted_def)

lemma clear_step:
  assumes "retaining M ret" "names_ok s" "ha_names s = (h, d)" "entry_ok e" "s' = snd (clearHomeAssistantDiscovery M e s)"
  shows "same_names s s' \<and> (counted 1 s s' \<or> counted 0 s s' \<and> ret (mqs_client s') = (ret (mqs_client s))(entry_topic h d e := None))"
proof -
  obtain ok s1 where p: "client_publish M (entry_topic h d e) [] True s = (ok, s1)" by fastforce
  show ?thesis
    using client_publish_step [OF p assms(1)] assms p discovery_topic_entry [OF names_valid(1,2) [OF assms(2,3)] assms(4)]
    by (auto simp: clearHomeAssistantDiscovery_def discovery_failed_def same_names_def ha_names_def names_ok_def counted_def)
qed

lemma publish_step:
  assumes "retaining M ret" "names_ok s" "ha_names s = (h, d)" "entry_ok (discovery_entry bd)"
    "s' = snd (publishHomeAssistantDiscovery M bd s)"
  shows "same_names s s' \<and> (counted 1 s s' \<or> counted 0 s s' \<and>
    (\<exists>m. ret (mqs_client s') = (ret (mqs_client s))(entry_topic h d (discovery_entry bd) \<mapsto> m)))"
proof -
  obtain b dp where bd: "bd = (b, dp)" by fastforce
  let ?c = "discoveryComponent b dp" and ?e = "discovery_entry bd"
  have e: "de_component ?e = ?c" "de_channelId ?e = bd_channelId b" by (simp_all add: bd discovery_entry_def component_valid)
  have ne: "bd_channelId b \<noteq> 0" using assms(4) e by (simp add: entry_ok_def)
  note valid = names_valid [OF assms(2,3)]
  have dev: "mqtt_device s = Some d" and ha: "c_str (mq_homeAssistantPrefix (mqtt_conf s)) = h" using assms(3) by (simp_all add: ha_names_def)
  have t: "makeHomeAssistantDiscoveryTopic (Some h) (Some ?c) (Some d) (bd_channelId b) (Some 224) = Some (entry_topic h d ?e)"
    using discovery_topic_entry [OF valid(1,2) assms(4)] e by simp
  note fits = mqtt_topics [OF valid(3,1,2) ne component_valid(1) [of b dp]]
  have "\<exists>ct. (if ?c = ''switch'' \<or> ?c = ''number'' then makeChannelCommandTopic (mqtt_prefix s) (Some d) (bd_channelId b) (Some 192)
      else Some []) = Some ct" using fits by (simp split: if_split)
  then obtain st av ct where p: "makeChannelStateTopic (mqtt_prefix s) (Some d) (bd_channelId b) (Some 192) = Some st"
    "makeAvailabilityTopic (mqtt_prefix s) (Some d) (Some 192) = Some av"
    "(if ?c = ''switch'' \<or> ?c = ''number'' then makeChannelCommandTopic (mqtt_prefix s) (Some d) (bd_channelId b) (Some 192)
      else Some []) = Some ct"
    using fits by blast
  let ?doc = "c_str (mc_serialize M (discovery_document (mqs_deviceId s) b ?c st av ct))"
  have doc: "?doc \<noteq> []" using assms(1) by (simp add: retaining_def)
  obtain ok s1 where s1: "client_publish M (entry_topic h d ?e) ?doc True s = (ok, s1)" by fastforce
  have "s' = (if ok then s1\<lparr>mqs_discoveryPublishes := mqs_discoveryPublishes s1 + 1\<rparr> else snd (discovery_failed s1))"
    unfolding assms(5) publishHomeAssistantDiscovery_def bd Let_def prod.case dev ha t [unfolded bd] p s1 [unfolded bd]
      option.case by simp
  then show ?thesis
    using client_publish_step [OF s1 assms(1)] assms(2,3) doc
    by (auto simp: same_names_def ha_names_def names_ok_def counted_def discovery_failed_def)
qed

lemma clear_fold:
  assumes "retaining M ret" "\<forall>e \<in> set es. entry_ok e" "names_ok s" "ha_names s = (h, d)"
    "s' = fold (\<lambda>e s. if e \<in> keep then s else snd (clearHomeAssistantDiscovery M e s)) es s"
  shows "\<exists>k \<le> length es. same_names s s' \<and> counted k s s' \<and> (k = 0 \<longrightarrow>
    (\<forall>t. ret (mqs_client s') t = (if t \<in> entry_topic h d ` (set es - keep) then None else ret (mqs_client s) t)))"
  using assms(2-5)
proof (induction es arbitrary: s)
  case (Cons e es)
  define s1 where "s1 = (if e \<in> keep then s else snd (clearHomeAssistantDiscovery M e s))"
  obtain j where j: "j \<le> 1" "same_names s s1" "counted j s s1" "j = 0 \<Longrightarrow>
      ret (mqs_client s1) = (if e \<in> keep then ret (mqs_client s) else (ret (mqs_client s))(entry_topic h d e := None))"
  proof (cases "e \<in> keep")
    case True
    with Cons.prems that [of 0] show ?thesis by (simp add: s1_def same_names_def counted_def)
  next
    case False
    with clear_step [OF assms(1) Cons.prems(2,3) _ refl, of e] Cons.prems(1) that [of 0] that [of 1] show ?thesis
      by (auto simp: s1_def)
  qed
  obtain k where k: "k \<le> length es" "same_names s1 s'" "counted k s1 s'" "k = 0 \<Longrightarrow>
      \<forall>t. ret (mqs_client s') t = (if t \<in> entry_topic h d ` (set es - keep) then None else ret (mqs_client s1) t)"
    using Cons.IH [of s1] Cons.prems j(2) by (auto simp: s1_def same_names_def)
  show ?case
    by (rule exI [of _ "j + k"])
      (use j k counted_trans [OF j(3) k(3)] in \<open>auto simp: same_names_def insert_Diff_if\<close>)
qed (simp add: same_names_def counted_def)

lemma publish_fold:
  assumes "retaining M ret" "\<forall>bd \<in> set bds. entry_ok (discovery_entry bd)" "names_ok s" "ha_names s = (h, d)"
    "s' = fold (\<lambda>bd s. snd (publishHomeAssistantDiscovery M bd s)) bds s"
  shows "\<exists>k \<le> length bds. counted k s s' \<and> (k = 0 \<longrightarrow> (\<forall>t. (ret (mqs_client s') t \<noteq> None \<longleftrightarrow>
    t \<in> entry_topic h d ` discovery_entry ` set bds \<or> ret (mqs_client s) t \<noteq> None)))"
  using assms(2-5)
proof (induction bds arbitrary: s)
  case (Cons bd bds)
  let ?s = "snd (publishHomeAssistantDiscovery M bd s)"
  obtain j where j: "j \<le> 1" "same_names s ?s" "counted j s ?s" "j = 0 \<Longrightarrow>
      \<exists>m. ret (mqs_client ?s) = (ret (mqs_client s))(entry_topic h d (discovery_entry bd) \<mapsto> m)"
    using publish_step [OF assms(1) Cons.prems(2,3) _ refl, of bd] Cons.prems(1) that [of 0] that [of 1] by auto
  obtain k where k: "k \<le> length bds" "counted k ?s s'" "k = 0 \<Longrightarrow> \<forall>t. (ret (mqs_client s') t \<noteq> None \<longleftrightarrow>
      t \<in> entry_topic h d ` discovery_entry ` set bds \<or> ret (mqs_client ?s) t \<noteq> None)"
    using Cons.IH [of ?s] Cons.prems j(2) by (auto simp: same_names_def)
  show ?case
    by (rule exI [of _ "j + k"])
      (use j k counted_trans [OF j(3) k(2)] in \<open>auto split: if_splits\<close>)
qed (simp add: counted_def)

text \<open>
  C37. The broker shows exactly the channels, as far as the service knows what it retains and the client
  accepts what is published. When a refresh is forced or the channels' signature has changed, every
  discovery topic the broker retains for this device belongs to an entry the service remembers (which holds
  from the first connection on, but not after a restart), and the refresh counts no failure, except the one
  it counts for having more than 64 channels to show, then the topics retained afterwards are those of the
  enabled channels that are described, the first 64 of them: what was removed, disabled or has become
  another kind of entity is gone, the rest is there.
\<close>

theorem discovery_in_sync:
  assumes "retaining M ret" "names_ok s" "mq_homeAssistantDiscovery (mqtt_conf s)" "mc_connected M (mqs_client s)"
    "force \<or> discoverySignature H (mqs_context s) \<noteq> mqs_discoverySignature s" "ha_names s = (h, d)"
    "\<forall>b \<in> set (mh_channels H (mqs_context s)). bd_channelId b \<noteq> 0"
    "length (mqs_discovered s) \<le> kRecommendedMaxChannels" "\<forall>e \<in> set (mqs_discovered s). entry_ok e"
    "\<forall>e. entry_ok e \<longrightarrow> ret (mqs_client s) (entry_topic h d e) \<noteq> None \<longrightarrow> e \<in> set (mqs_discovered s)"
    "s' = refreshHomeAssistantDiscovery M H force s"
    "mqs_discoveryFailures s' = mqs_discoveryFailures s +
       (if kRecommendedMaxChannels < length (described H (mqs_context s)) then 1 else 0)"
  shows "\<forall>e. entry_ok e \<longrightarrow> (ret (mqs_client s') (entry_topic h d e) \<noteq> None \<longleftrightarrow>
      e \<in> discovery_entry ` set (take kRecommendedMaxChannels (described H (mqs_context s)))) \<and> mqs_discovered s' =
      map discovery_entry (take kRecommendedMaxChannels (described H (mqs_context s)))"
proof -
  let ?all = "described H (mqs_context s)"
  let ?shown = "take kRecommendedMaxChannels ?all"
  let ?keep = "set (map discovery_entry ?shown)"
  have shown: "\<forall>bd \<in> set ?shown. entry_ok (discovery_entry bd)"
    using described_ok [OF assms(7)] by (meson in_set_takeD)
  define s0 where "s0 = (if length ?all > kRecommendedMaxChannels then snd (discovery_failed s) else s)"
  have s0: "names_ok s0" "ha_names s0 = (h, d)" "mqs_client s0 = mqs_client s" "mqs_discovered s0 = mqs_discovered s"
    "mqs_discoveryFailures s0 = mqs_discoveryFailures s'"
    using assms(2,6,12) by (simp_all add: s0_def discovery_failed_def names_ok_def ha_names_def)
  define s1 where "s1 = fold (\<lambda>e s. if e \<in> ?keep then s else snd (clearHomeAssistantDiscovery M e s)) (mqs_discovered s0) s0"
  define s2 where "s2 = fold (\<lambda>bd s. snd (publishHomeAssistantDiscovery M bd s)) ?shown s1"
  have known: "\<forall>e \<in> set (mqs_discovered s0). entry_ok e" using assms(9) s0(4) by simp
  from clear_fold [OF assms(1) this s0(1,2) s1_def, unfolded s0(3,4)]
  obtain j where s1: "j \<le> length (mqs_discovered s)" "same_names s0 s1" "counted j s0 s1" "j = 0 \<Longrightarrow> \<forall>t. ret (mqs_client s1) t =
      (if t \<in> entry_topic h d ` (set (mqs_discovered s) - ?keep) then None else ret (mqs_client s) t)"
    by blast
  have "names_ok s1" "ha_names s1 = (h, d)" using s1(2) s0(2) by (simp_all add: same_names_def)
  from publish_fold [OF assms(1) shown this s2_def]
  obtain k where s2: "k \<le> length ?shown" "counted k s1 s2" "k = 0 \<Longrightarrow> \<forall>t. (ret (mqs_client s2) t \<noteq> None \<longleftrightarrow>
      t \<in> entry_topic h d ` discovery_entry ` set ?shown \<or> ret (mqs_client s1) t \<noteq> None)"
    by blast
  have "mqs_config s \<noteq> None" using assms(2) by (auto simp: names_ok_def)
  then have s': "s' = s2\<lparr>mqs_discovered := map discovery_entry ?shown, mqs_discoverySignature := discoverySignature H (mqs_context s)\<rparr>"
    using assms(3-5) unfolding assms(11) refreshHomeAssistantDiscovery_def Let_def s0_def [symmetric] s1_def [symmetric]
      s2_def [symmetric] by auto
  have "j + k = 0"
    by (rule counted_none [OF counted_trans [OF s1(3) s2(2)]]) (use s0(5) s' s1(1) s2(1) assms(8) in \<open>simp_all add: kRecommendedMaxChannels_def\<close>)
  then have j: "j = 0" and k: "k = 0" by simp_all
  have inj: "entry_topic h d e \<in> entry_topic h d ` E \<longleftrightarrow> e \<in> E" if "entry_ok e" "\<forall>e \<in> E. entry_ok e" for e E
    using that entry_topic_inj by blast
  show ?thesis
  proof (intro allI impI conjI)
    fix e
    assume e: "entry_ok e"
    have "entry_topic h d e \<in> entry_topic h d ` discovery_entry ` set ?shown \<longleftrightarrow> e \<in> discovery_entry ` set ?shown"
      using shown by (intro inj e) auto
    moreover have "entry_topic h d e \<in> entry_topic h d ` (set (mqs_discovered s) - ?keep) \<longleftrightarrow> e \<in> set (mqs_discovered s) - ?keep"
      using assms(9) by (intro inj e) auto
    ultimately show "ret (mqs_client s') (entry_topic h d e) \<noteq> None \<longleftrightarrow> e \<in> discovery_entry ` set ?shown"
      using s1(4) [OF j] s2(3) [OF k] s' assms(10) e by auto
  qed (simp add: s')
qed

lemma broker_retaining: "retaining broker_client snd"
  by (auto simp: retaining_def broker_client_def c_str_def)

definition one_channel :: "unit mqtt_handlers" where
  "one_channel = \<lparr>mh_channels = (\<lambda>_. [mqtt_binding]), mh_read = (\<lambda>_ _. None),
     mh_describe = (\<lambda>_ _. Some (default_descriptor\<lparr>dp_type := DtBoolean, dp_writable := True\<rparr>)),
     mh_command = (\<lambda>_ _ x. (False, x)), mh_eventNext = (\<lambda>_ _. None), mh_eventMissed = (\<lambda>_ _. 0)\<rparr>"

lemma discovery_in_sync_witness:
  "snd (mqs_client (refreshHomeAssistantDiscovery broker_client one_channel True (mqtt_sample ())))
     ''homeassistant/switch/gw-1_ch7/config'' \<noteq> None"
proof -
  let ?e = "\<lparr>de_channelId = 7, de_component = ''switch''\<rparr>" and ?s = "mqtt_sample ()"
  have described: "described one_channel () = [(mqtt_binding, default_descriptor\<lparr>dp_type := DtBoolean, dp_writable := True\<rparr>)]"
    by (simp add: described_def one_channel_def map_filter_simps mqtt_binding_def default_binding_def)
  have names: "names_ok ?s" "ha_names ?s = (''homeassistant'', ''gw-1'')" by code_simp+
  have topic: "entry_topic ''homeassistant'' ''gw-1'' ?e = ''homeassistant/switch/gw-1_ch7/config''" by code_simp
  have "mqs_context ?s = ()" "mqs_discovered ?s = []" "snd (mqs_client ?s) = Map.empty" "mc_connected broker_client (mqs_client ?s)"
    "mq_homeAssistantDiscovery (mqtt_conf ?s)"
    by (simp_all add: mqtt_sample_def initial_mqtt_def broker_client_def)
  moreover have "mqs_discoveryFailures (refreshHomeAssistantDiscovery broker_client one_channel True ?s) = mqs_discoveryFailures ?s"
    by code_simp
  ultimately have "entry_ok ?e \<longrightarrow> (snd (mqs_client (refreshHomeAssistantDiscovery broker_client one_channel True ?s)) (entry_topic ''homeassistant'' ''gw-1'' ?e) \<noteq> None \<longleftrightarrow>
      ?e \<in> discovery_entry ` set (take kRecommendedMaxChannels (described one_channel ())))"
    using discovery_in_sync [OF broker_retaining names(1) _ _ _ names(2) _ _ _ _ refl, of True one_channel]
    by (simp add: described kRecommendedMaxChannels_def) (simp add: one_channel_def mqtt_binding_def)
  moreover have "entry_ok ?e" by (simp add: entry_ok_def validHomeAssistantComponent_def)
  moreover have "discovery_entry (mqtt_binding, default_descriptor\<lparr>dp_type := DtBoolean, dp_writable := True\<rparr>) = ?e"
    by code_simp
  ultimately show ?thesis by (simp add: described topic kRecommendedMaxChannels_def)
qed

end
