(* ===== verification/Security.thy ===== *)
theory Security
  imports DeviceConfig ApplicationState
begin

text \<open>
  The access policies of the administration: \<^verbatim>\<open>LoginThrottle.h\<close>, \<^verbatim>\<open>WebSessionPolicy.h\<close>,
  \<^verbatim>\<open>WebTransportPolicy.h\<close>, \<^verbatim>\<open>PasswordKdfPolicy.h\<close> and \<^verbatim>\<open>SecurityStore.h\<close>
  under \<^verbatim>\<open>include/core\<close>. The cryptography of mbedTLS is a parameter; random numbers are
  arguments. A C string is the list of its characters, \<open>None\<close> the null pointer.
\<close>

section \<open>The login throttle\<close>

record login_throttle =
  th_failureCount :: u8
  th_lockTier :: u8
  th_lockUntilMs :: u32

definition initial_throttle :: login_throttle where
  "initial_throttle = \<lparr>th_failureCount = 0, th_lockTier = 0, th_lockUntilMs = 0\<rparr>"

definition kFailuresBeforeLock :: u8 where "kFailuresBeforeLock = 5"
definition kMaxLockTier :: u8 where "kMaxLockTier = 5"
definition kInitialLockMs :: u32 where "kInitialLockMs = 30000"
definition kMaximumLockMs :: u32 where "kMaximumLockMs = 900000"

definition throttle_allowed :: "login_throttle \<Rightarrow> u32 \<Rightarrow> bool" where
  "throttle_allowed l nowMs = (th_lockUntilMs l = 0 \<or> time_reached nowMs (th_lockUntilMs l))"

definition retryAfterSeconds :: "login_throttle \<Rightarrow> u32 \<Rightarrow> u32" where
  "retryAfterSeconds l nowMs =
     (if throttle_allowed l nowMs then 0
      else let remainingMs = th_lockUntilMs l - nowMs in (remainingMs + 999) div 1000)"

definition lock_duration :: "u8 \<Rightarrow> u32" where
  "lock_duration lockTier =
     (let tier = (if lockTier < kMaxLockTier then lockTier else kMaxLockTier);
          lockMs = push_bit (unat tier) kInitialLockMs
      in if lockMs > kMaximumLockMs then kMaximumLockMs else lockMs)"

definition recordFailure :: "u32 \<Rightarrow> login_throttle \<Rightarrow> login_throttle" where
  "recordFailure nowMs l =
     (if \<not> throttle_allowed l nowMs then l
      else
        let l = (if th_failureCount l < 255 then l\<lparr>th_failureCount := th_failureCount l + 1\<rparr> else l)
        in if th_failureCount l < kFailuresBeforeLock then l
           else \<lparr>th_failureCount = 0,
                  th_lockTier = (if th_lockTier l < kMaxLockTier then th_lockTier l + 1 else th_lockTier l),
                  th_lockUntilMs = nowMs + lock_duration (th_lockTier l)\<rparr>)"

definition recordSuccess :: "login_throttle \<Rightarrow> login_throttle" where
  "recordSuccess l = l\<lparr>th_failureCount := 0, th_lockTier := 0, th_lockUntilMs := 0\<rparr>"

section \<open>Sessions\<close>

definition kIdleTimeoutMs :: u32 where "kIdleTimeoutMs = 30 * 60 * 1000"
definition kMaxLifetimeMs :: u32 where "kMaxLifetimeMs = 12 * 60 * 60 * 1000"

definition session_expired :: "u32 \<Rightarrow> u32 \<Rightarrow> u32 \<Rightarrow> bool" where
  "session_expired createdAt lastActivityAt t = (t - createdAt > kMaxLifetimeMs \<or> t - lastActivityAt > kIdleTimeoutMs)"

text \<open>The loop over the differences, on as many characters as the second string has.\<close>

definition constantTimeEquals :: "string \<Rightarrow> string \<Rightarrow> bool" where
  "constantTimeEquals a b = (fold (\<lambda>(x, y) diff. diff OR (of_char x XOR of_char y)) (zip a b) (0 :: u8) = 0)"

definition blank :: "char \<Rightarrow> bool" where "blank c = (c = CHR '' '' \<or> c = CHR 0x09)"

definition trim_right :: "string \<Rightarrow> string" where
  "trim_right s = rev (dropWhile blank (rev s))"

definition kSessionCookie :: string where "kSessionCookie = ''MBSESSION''"

lemma dropWhile_length_le: "length (dropWhile p xs) \<le> length xs"
  by (induction xs) auto

lemma dropWhile_head: "dropWhile p xs = x # ys \<Longrightarrow> \<not> p x"
  by (induction xs) (auto split: if_splits)

text \<open>The outer loop, at its cursor.\<close>

function cookie_scan :: "string \<Rightarrow> string \<Rightarrow> bool" where
  "cookie_scan token cursor =
     (case dropWhile (\<lambda>c. c = CHR '';'' \<or> blank c) cursor of
        [] \<Rightarrow> False
      | start # more_chars \<Rightarrow>
          let in_name = (\<lambda>c. c \<noteq> CHR ''='' \<and> c \<noteq> CHR '';'');
              name = trim_right (takeWhile in_name (start # more_chars));
              rest = dropWhile in_name (start # more_chars)
          in if rest = [] \<or> hd rest \<noteq> CHR ''='' then cookie_scan token (dropWhile (\<lambda>c. c \<noteq> CHR '';'') rest)
             else
               let cur = dropWhile blank (tl rest);
                   val = trim_right (takeWhile (\<lambda>c. c \<noteq> CHR '';'') cur)
               in if name = kSessionCookie \<and> length val = length token \<and> constantTimeEquals val token then True
                  else cookie_scan token (dropWhile (\<lambda>c. c \<noteq> CHR '';'') cur))"
  by pat_completeness auto

termination
proof (relation "measure (\<lambda>(token, cursor). length cursor)", goal_cases)
  case (2 token cursor start more_chars in_name name rest)
  have "length (start # more_chars) \<le> length cursor" using 2(1) by (metis dropWhile_length_le)
  moreover have "length rest < length (start # more_chars)"
  proof -
    have "start \<noteq> CHR '';''" using dropWhile_head [OF 2(1)] by simp
    show ?thesis
    proof (cases "start = CHR ''=''")
      case True
      then have "rest = start # more_chars" using 2(2,4) by simp
      then show ?thesis using 2(5) True by simp
    next
      case False
      then have "rest = dropWhile in_name more_chars" using 2(2,4) \<open>start \<noteq> CHR '';''\<close> by simp
      then show ?thesis using dropWhile_length_le [of in_name more_chars] by simp
    qed
  qed
  ultimately show ?case using dropWhile_length_le [of "\<lambda>c. c \<noteq> CHR '';''" rest] by simp
next
  case (3 token cursor start more_chars in_name name rest cur val)
  have "length (start # more_chars) \<le> length cursor" using 3(1) by (metis dropWhile_length_le)
  moreover have "length rest \<le> length (start # more_chars)" using dropWhile_length_le 3(4) by blast
  moreover have "length (tl rest) < length rest" using 3(5) by (cases rest) auto
  moreover have "length cur \<le> length (tl rest)" using dropWhile_length_le 3(6) by blast
  ultimately show ?case using dropWhile_length_le [of "\<lambda>c. c \<noteq> CHR '';''" cur] by simp
qed simp

declare cookie_scan.simps [simp del]

definition hasSessionCookie :: "string option \<Rightarrow> string option \<Rightarrow> bool" where
  "hasSessionCookie cookieHeader expectedToken =
     (if cookieHeader = None \<or> expectedToken = None \<or> expectedToken = Some [] then False
      else cookie_scan (the expectedToken) (the cookieHeader))"

definition csrfMatches :: "string option \<Rightarrow> string option \<Rightarrow> bool" where
  "csrfMatches supplied expected =
     (if supplied = None \<or> expected = None then False
      else if the supplied = [] \<or> length (the supplied) \<noteq> length (the expected) then False
      else constantTimeEquals (the supplied) (the expected))"

section \<open>The transport of the administration\<close>

datatype WebTransportMode = CommissioningHttp | StationHttpLegacy | StationHttps

definition authenticatedAdministrationAllowed :: "WebTransportMode \<Rightarrow> bool" where
  "authenticatedAdministrationAllowed m = (m = CommissioningHttp \<or> m = StationHttps)"

definition redirectToHttps :: "WebTransportMode \<Rightarrow> bool" where
  "redirectToHttps m = (m = StationHttpLegacy)"

definition secureSessionCookie :: "WebTransportMode \<Rightarrow> bool" where
  "secureSessionCookie m = (m = StationHttps)"

definition administrationPort :: "WebTransportMode \<Rightarrow> u16" where
  "administrationPort m = (if m = StationHttps then 443 else 80)"

definition mdnsService :: "WebTransportMode \<Rightarrow> string" where
  "mdnsService m = (if m = StationHttps then ''https'' else ''http'')"

section \<open>Key derivation\<close>

record crypto =
  cy_sha256 :: bool
  cy_hmac :: "bytes \<Rightarrow> bytes \<Rightarrow> bytes option"
  cy_gcm_encrypt :: "bytes \<Rightarrow> bytes \<Rightarrow> bytes \<Rightarrow> bytes \<Rightarrow> (bytes \<times> bytes) option"
  cy_gcm_decrypt :: "bytes \<Rightarrow> bytes \<Rightarrow> bytes \<Rightarrow> bytes \<Rightarrow> bytes \<Rightarrow> bytes option"
  cy_base64_encode :: "nat \<Rightarrow> bytes \<Rightarrow> string option"
  cy_base64_decode :: "nat \<Rightarrow> string \<Rightarrow> bytes option"

text \<open>The loop, with the rounds that are left, the last block and the sum so far.\<close>

fun pbkdf2_rounds :: "crypto \<Rightarrow> bytes \<Rightarrow> nat \<Rightarrow> bytes \<Rightarrow> bytes \<Rightarrow> bytes option" where
  "pbkdf2_rounds C password 0 u t = Some t"
| "pbkdf2_rounds C password (Suc left) u t = (case cy_hmac C password u of
       None \<Rightarrow> None | Some nxt \<Rightarrow> pbkdf2_rounds C password left nxt (map2 (XOR) t nxt))"

definition kKdfAlgorithm :: string where "kKdfAlgorithm = ''pbkdf2-sha256''"
definition kCurrentIterations :: u32 where "kCurrentIterations = 120000"
definition kLegacyIterations :: u32 where "kLegacyIterations = 120000"
definition kMinAcceptedIterations :: u32 where "kMinAcceptedIterations = 10000"
definition kMaxAcceptedIterations :: u32 where "kMaxAcceptedIterations = 500000"

definition kdf_isSupported :: "string option \<Rightarrow> u32 \<Rightarrow> bool" where
  "kdf_isSupported algorithm iterations =
     (algorithm = Some kKdfAlgorithm \<and> iterations \<ge> kMinAcceptedIterations \<and> iterations \<le> kMaxAcceptedIterations)"

definition storedOrLegacyIterations :: "u32 \<Rightarrow> u32" where
  "storedOrLegacyIterations stored = (if stored = 0 then kLegacyIterations else stored)"

definition storedOrLegacyAlgorithm :: "string option \<Rightarrow> string option" where
  "storedOrLegacyAlgorithm stored = (if stored = None \<or> stored = Some [] then Some kKdfAlgorithm else stored)"

definition lower_digit :: "nat \<Rightarrow> char" where
  "lower_digit n = ''0123456789abcdef'' ! n"

definition lower_byte :: "u8 \<Rightarrow> string" where
  "lower_byte b = [lower_digit (unat (drop_bit 4 b)), lower_digit (unat (b AND 0x0f))]"

definition pbkdf2Sha256 :: "crypto \<Rightarrow> string \<Rightarrow> string \<Rightarrow> u32 \<Rightarrow> string" where
  "pbkdf2Sha256 C password salt iterations =
     (if \<not> cy_sha256 C then []
      else if length salt > 64 then []
      else case cy_hmac C (text_bytes password) (text_bytes salt @ [0, 0, 0, 1]) of
        None \<Rightarrow> []
      | Some u \<Rightarrow> (case pbkdf2_rounds C (text_bytes password) (unat iterations - 1) u u of
            None \<Rightarrow> [] | Some t \<Rightarrow> concat (map lower_byte t)))"

section \<open>The security store\<close>

text \<open>The namespace, and \<^verbatim>\<open>initialAdminPassword_\<close>.\<close>

record 's security_store =
  se_ns :: 's
  se_initialAdminPassword :: string

definition kSecretAlphabet :: string where
  "kSecretAlphabet = ''ABCDEFGHJKLMNPQRSTUVWXYZabcdefghijkmnopqrstuvwxyz23456789''"

text \<open>The random numbers the loops draw are arguments.\<close>

definition generateSecret :: "u32 list \<Rightarrow> string" where
  "generateSecret randoms = map (\<lambda>r. kSecretAlphabet ! unat (r mod of_nat (length kSecretAlphabet))) randoms"

definition generateHex :: "u32 list \<Rightarrow> string" where
  "generateHex randoms = concat (map (\<lambda>r. lower_byte (ucast (r AND 0xff))) randoms)"

definition put_ignored :: "'s prefs \<Rightarrow> string \<Rightarrow> PrefValue \<Rightarrow> 's \<Rightarrow> 's" where
  "put_ignored P k v s = snd (pf_put P k v s)"

definition store_admin :: "'s prefs \<Rightarrow> string \<Rightarrow> string \<Rightarrow> bool \<Rightarrow> 's \<Rightarrow> 's" where
  "store_admin P salt hash initialized s =
     put_ignored P ''admin_init'' (PvBool initialized) (put_ignored P ''admin_iter'' (PvU32 kCurrentIterations)
       (put_ignored P ''admin_kdf'' (PvString kKdfAlgorithm) (put_ignored P ''admin_hash'' (PvString hash)
          (put_ignored P ''admin_salt'' (PvString salt) s))))"

definition securityStore_begin ::
    "'s prefs \<Rightarrow> crypto \<Rightarrow> bool \<Rightarrow> u32 list \<Rightarrow> u32 list \<Rightarrow> u32 list \<Rightarrow> 's security_store \<Rightarrow> bool \<times> 's security_store" where
  "securityStore_begin P C opened apRandom adminRandom saltRandom s =
     (if \<not> opened then (False, s)
      else
        let s = (if \<not> pf_isKey P (se_ns s) ''ap_pass''
                 then s\<lparr>se_ns := put_ignored P ''ap_pass'' (PvString (generateSecret apRandom)) (se_ns s)\<rparr> else s)
        in if pf_isKey P (se_ns s) ''admin_hash'' then (True, s)
           else
             let s = s\<lparr>se_initialAdminPassword := generateSecret adminRandom\<rparr>;
                 salt = generateHex saltRandom;
                 hash = pbkdf2Sha256 C (se_initialAdminPassword s) salt kCurrentIterations
             in if hash = [] then (False, s)
                else (True, s\<lparr>se_ns := store_admin P salt hash False (se_ns s)\<rparr>))"

definition apPassword :: "'s prefs \<Rightarrow> 's security_store \<Rightarrow> string" where
  "apPassword P s = pf_getString P (se_ns s) ''ap_pass'' []"

definition adminInitialized :: "'s prefs \<Rightarrow> 's security_store \<Rightarrow> bool" where
  "adminInitialized P s = pf_getBool P (se_ns s) ''admin_init'' False"

definition hasInitialAdminPasswordForDisplay :: "'s prefs \<Rightarrow> 's security_store \<Rightarrow> bool" where
  "hasInitialAdminPasswordForDisplay P s = (se_initialAdminPassword s \<noteq> [] \<and> \<not> adminInitialized P s)"

definition verifyAdminPassword :: "'s prefs \<Rightarrow> crypto \<Rightarrow> string \<Rightarrow> 's security_store \<Rightarrow> bool" where
  "verifyAdminPassword P C password s =
     (let salt = pf_getString P (se_ns s) ''admin_salt'' []; expected = pf_getString P (se_ns s) ''admin_hash'' [];
          storedAlgorithm = pf_getString P (se_ns s) ''admin_kdf'' []; storedIterations = pf_getUInt P (se_ns s) ''admin_iter'' 0
      in if salt = [] \<or> expected = [] then False
         else
           let algorithm = storedOrLegacyAlgorithm (Some (c_str storedAlgorithm));
               iterations = storedOrLegacyIterations storedIterations
           in if \<not> kdf_isSupported algorithm iterations then False
              else
                let actual = pbkdf2Sha256 C password salt iterations
                in length actual = length expected \<and> constantTimeEquals actual expected)"

definition setAdminPassword :: "'s prefs \<Rightarrow> crypto \<Rightarrow> u32 list \<Rightarrow> string \<Rightarrow> 's security_store \<Rightarrow> bool \<times> 's security_store" where
  "setAdminPassword P C saltRandom password s =
     (if length password < 10 then (False, s)
      else
        let salt = generateHex saltRandom; hash = pbkdf2Sha256 C password salt kCurrentIterations
        in if hash = [] then (False, s)
           else (True, s\<lparr>se_ns := store_admin P salt hash True (se_ns s), se_initialAdminPassword := []\<rparr>))"

definition securityStore_clear :: "'s prefs \<Rightarrow> 's security_store \<Rightarrow> 's security_store" where
  "securityStore_clear P s = \<lparr>se_ns = snd (pf_clear P (se_ns s)), se_initialAdminPassword = []\<rparr>"

end
