(* ===== verification/Backup.thy ===== *)
theory Backup
  imports Security MqttService
begin

text \<open>
  Backups of the configuration: \<^verbatim>\<open>include/core/BackupService.h\<close>, which exports the
  configuration to a JSON document and imports it, and \<^verbatim>\<open>include/core/BackupCrypto.h\<close>, which
  encrypts and decrypts it. The JSON library is a parameter with its parser and its printer; the
  documents, and what \<^verbatim>\<open>operator|\<close> with a default answers on them, are definitions. A key
  that is overwritten with zeros is not read again.
\<close>

section \<open>Documents\<close>

text \<open>The parser gives the message of its error or the document.\<close>

record json_library =
  jl_parse :: "string \<Rightarrow> string + json"
  jl_pretty :: "json \<Rightarrow> string"

fun member :: "json \<Rightarrow> string \<Rightarrow> json option" where
  "member (JsObject kvs) k = map_of kvs k"
| "member _ k = None"

definition text_or :: "json option \<Rightarrow> string \<Rightarrow> string" where
  "text_or j d = (case j of Some (JsText s) \<Rightarrow> c_str s | _ \<Rightarrow> d)"

definition bool_or :: "json option \<Rightarrow> bool \<Rightarrow> bool" where
  "bool_or j d = (case j of Some (JsBool b) \<Rightarrow> b | _ \<Rightarrow> d)"

text \<open>A number as an integer type with the given range.\<close>

definition number_or :: "int \<Rightarrow> int \<Rightarrow> json option \<Rightarrow> int \<Rightarrow> int" where
  "number_or lo hi j d = (case j of Some (JsNumber n) \<Rightarrow> if lo \<le> n \<and> n \<le> hi then n else d | _ \<Rightarrow> d)"

definition as_object :: "json option \<Rightarrow> json option" where
  "as_object j = (case j of Some (JsObject kvs) \<Rightarrow> Some (JsObject kvs) | _ \<Rightarrow> None)"

definition section_of :: "json option \<Rightarrow> json" where
  "section_of j = (case j of Some o' \<Rightarrow> o' | None \<Rightarrow> JsObject [])"

section \<open>Export\<close>

definition kBackupSchemaVersion :: u32 where "kBackupSchemaVersion = 3"
definition kBackupFormat :: string where "kBackupFormat = ''multibus-backup''"
definition kDeviceFamily :: string where "kDeviceFamily = ''esp32-multibus-gateway''"
definition kBoard :: string where "kBoard = ''HTIT-WB32LAF-V4.2''"

definition switchValue :: "u8 \<Rightarrow> string" where
  "switchValue mode = (if mode = 1 then ''1'' else ''0'')"

definition loraValue :: "u8 \<Rightarrow> string" where
  "loraValue mode = (if mode = kLoRaWanMode then ''W'' else if mode = kMeshtasticMode then ''M'' else ''0'')"

definition modbusValue :: "u8 \<Rightarrow> string" where
  "modbusValue mode = (if mode = kMasterMode then ''M'' else if mode = kSlaveMode then ''S'' else ''0'')"

definition components_document :: "AppConfig \<Rightarrow> json" where
  "components_document c = JsObject [(''victron'', JsText (switchValue (ac_victron c))), (''lora'', JsText (loraValue (ac_lora c))),
     (''modbus'', JsText (modbusValue (ac_modbus c))), (''gnss'', JsText (switchValue (ac_gnss c)))]"

definition network_document :: "NetworkConfig \<Rightarrow> json" where
  "network_document n = JsObject [(''ssid'', JsText (nc_ssid n)), (''password'', JsText (nc_password n)),
     (''hostname'', JsText (nc_hostname n)), (''friendly_name'', JsText (nc_friendlyName n))]"

definition lorawan_document :: "LoRaWanConfig \<Rightarrow> json" where
  "lorawan_document l = JsObject [(''join_eui'', JsText (lc_joinEui l)), (''app_key'', JsText (lc_appKey l)),
     (''class_c'', JsBool (lc_classC l)), (''extension_fport'', JsNumber (uint (lc_extensionFPort l)))]"

definition mqtt_document :: "MqttConfig \<Rightarrow> json" where
  "mqtt_document m = JsObject [(''enabled'', JsBool (mq_enabled m)), (''host'', JsText (mq_host m)),
     (''port'', JsNumber (uint (mq_port m))), (''username'', JsText (mq_username m)), (''password'', JsText (mq_password m)),
     (''topic_prefix'', JsText (mq_topicPrefix m)), (''publish_interval_seconds'', JsNumber (uint (mq_publishIntervalSeconds m))),
     (''retain_state'', JsBool (mq_retainState m)), (''home_assistant_discovery'', JsBool (mq_homeAssistantDiscovery m)),
     (''home_assistant_prefix'', JsText (mq_homeAssistantPrefix m)), (''tls_enabled'', JsBool (mq_tlsEnabled m)),
     (''ca_certificate'', JsText (mq_caCertificate m))]"

definition backup_document :: "DeviceConfig \<Rightarrow> json" where
  "backup_document c = JsObject [(''format'', JsText kBackupFormat), (''backup_schema'', JsNumber (uint kBackupSchemaVersion)),
     (''config_schema'', JsNumber (uint (dc_schemaVersion c))), (''device_family'', JsText kDeviceFamily), (''board'', JsText kBoard),
     (''contains_secrets'', JsBool True), (''encrypted'', JsBool False),
     (''components'', components_document (dc_components c)), (''network'', network_document (dc_network c)),
     (''lorawan'', lorawan_document (dc_lorawan c)), (''mqtt'', mqtt_document (dc_mqtt c))]"

definition exportConfig :: "json_library \<Rightarrow> DeviceConfig \<Rightarrow> string option" where
  "exportConfig J c = (let output = jl_pretty J (backup_document c) in if output = [] then None else Some output)"

section \<open>Import\<close>

definition parseSwitch :: "string \<Rightarrow> u8 option" where
  "parseSwitch v = (if v = ''0'' then Some 0 else if v = ''1'' then Some 1 else None)"

definition parseLoRa :: "string \<Rightarrow> u8 option" where
  "parseLoRa v = (if v = ''0'' then Some 0 else if v = ''W'' then Some kLoRaWanMode
     else if v = ''M'' then Some kMeshtasticMode else None)"

definition parseModbus :: "string \<Rightarrow> u8 option" where
  "parseModbus v = (if v = ''0'' then Some 0 else if v = ''M'' then Some kMasterMode
     else if v = ''S'' then Some kSlaveMode else None)"

definition import_components :: "json \<Rightarrow> AppConfig option" where
  "import_components j = (case (parseSwitch (text_or (member j ''victron'') ''0''), parseLoRa (text_or (member j ''lora'') ''0''),
       parseModbus (text_or (member j ''modbus'') ''0''), parseSwitch (text_or (member j ''gnss'') ''0'')) of
       (Some v, Some l, Some m, Some g) \<Rightarrow> Some \<lparr>ac_victron = v, ac_lora = l, ac_modbus = m, ac_gnss = g\<rparr>
     | _ \<Rightarrow> None)"

definition import_network :: "json \<Rightarrow> NetworkConfig" where
  "import_network j = \<lparr>nc_ssid = text_or (member j ''ssid'') [], nc_password = text_or (member j ''password'') [],
     nc_hostname = text_or (member j ''hostname'') [], nc_friendlyName = text_or (member j ''friendly_name'') []\<rparr>"

definition import_lorawan :: "json \<Rightarrow> LoRaWanConfig" where
  "import_lorawan j = \<lparr>lc_joinEui = text_or (member j ''join_eui'') [], lc_appKey = text_or (member j ''app_key'') [],
     lc_classC = bool_or (member j ''class_c'') True,
     lc_extensionFPort = word_of_int (number_or 0 255 (member j ''extension_fport'') (uint kDefaultExtensionFPort))\<rparr>"

text \<open>The port and the interval are read as \<^verbatim>\<open>int\<close> and then cut to 16 bits.\<close>

definition import_mqtt :: "json \<Rightarrow> MqttConfig" where
  "import_mqtt j = \<lparr>mq_enabled = bool_or (member j ''enabled'') False, mq_host = text_or (member j ''host'') [],
     mq_port = word_of_int (number_or (- (2 ^ 31)) (2 ^ 31 - 1) (member j ''port'') 1883),
     mq_username = text_or (member j ''username'') [], mq_password = text_or (member j ''password'') [],
     mq_topicPrefix = text_or (member j ''topic_prefix'') ''multibus'',
     mq_publishIntervalSeconds = word_of_int (number_or (- (2 ^ 31)) (2 ^ 31 - 1) (member j ''publish_interval_seconds'') 30),
     mq_retainState = bool_or (member j ''retain_state'') True,
     mq_homeAssistantDiscovery = bool_or (member j ''home_assistant_discovery'') False,
     mq_homeAssistantPrefix = text_or (member j ''home_assistant_prefix'') ''homeassistant'',
     mq_tlsEnabled = bool_or (member j ''tls_enabled'') False, mq_caCertificate = text_or (member j ''ca_certificate'') []\<rparr>"

text \<open>Reading the sections, once the head of the document is accepted.\<close>

definition import_sections :: "u32 \<Rightarrow> json \<Rightarrow> string + DeviceConfig" where
  "import_sections backupSchema doc =
     (let components = as_object (member doc ''components''); network = as_object (member doc ''network'');
          lorawan = as_object (member doc ''lorawan''); mqtt = as_object (member doc ''mqtt'')
      in if components = None \<or> network = None \<or> lorawan = None \<or> (backupSchema \<ge> 3 \<and> mqtt = None)
         then Inl ''missing-configuration-section''
         else case import_components (section_of components) of
           None \<Rightarrow> Inl ''invalid-component-mode''
         | Some app \<Rightarrow>
             let nxt = \<lparr>dc_schemaVersion = kDeviceConfigSchemaVersion, dc_components = app,
                   dc_network = import_network (section_of network), dc_lorawan = import_lorawan (section_of lorawan),
                   dc_mqtt = (if backupSchema \<ge> 3 then import_mqtt (section_of mqtt) else default_mqtt_config)\<rparr>
             in if validateConfig app \<noteq> ConfigOk then Inl ''meshtastic-not-implemented''
                else if \<not> validateLoRaWanConfig (dc_lorawan nxt) then Inl ''invalid-lorawan-config''
                else if \<not> mqtt_valid (dc_mqtt nxt) then Inl ''invalid-mqtt-config''
                else Inr nxt)"

definition importConfig :: "json_library \<Rightarrow> string \<Rightarrow> string + DeviceConfig" where
  "importConfig J input =
     (case jl_parse J input of
        Inl message \<Rightarrow> Inl (''invalid-json: '' @ message)
      | Inr doc \<Rightarrow>
          let backupSchema = word_of_int (number_or 0 (2 ^ 32 - 1) (member doc ''backup_schema'') 0) :: u32;
              configSchema = word_of_int (number_or 0 (2 ^ 32 - 1) (member doc ''config_schema'') 0) :: u32
          in if text_or (member doc ''format'') [] \<noteq> kBackupFormat then Inl ''unsupported-format''
             else if backupSchema < 2 \<or> backupSchema > kBackupSchemaVersion then Inl ''unsupported-backup-schema''
             else if configSchema < 2 \<or> configSchema > kDeviceConfigSchemaVersion then Inl ''unsupported-config-schema''
             else if text_or (member doc ''device_family'') [] \<noteq> kDeviceFamily then Inl ''wrong-device-family''
             else if text_or (member doc ''board'') [] \<noteq> kBoard then Inl ''unsupported-board''
             else import_sections backupSchema doc)"

section \<open>Encryption\<close>

definition kBackupIterations :: u32 where "kBackupIterations = 150000"
definition kSaltLength :: nat where "kSaltLength = 16"
definition kNonceLength :: nat where "kNonceLength = 12"
definition kTagLength :: nat where "kTagLength = 16"
definition kMinimumPassphraseLength :: nat where "kMinimumPassphraseLength = 12"
definition kAad :: bytes where "kAad = text_bytes ''esp32-multibus-gateway:backup:v1''"

definition deriveKey :: "crypto \<Rightarrow> string \<Rightarrow> bytes \<Rightarrow> u32 \<Rightarrow> bytes option" where
  "deriveKey C passphrase salt iterations =
     (if salt = [] \<or> iterations = 0 then None
      else if \<not> cy_sha256 C then None
      else case cy_hmac C (text_bytes passphrase) (salt @ [0, 0, 0, 1]) of
        None \<Rightarrow> None
      | Some u \<Rightarrow> pbkdf2_rounds C (text_bytes passphrase) (unat iterations - 1) u u)"

definition encodeBase64 :: "crypto \<Rightarrow> bytes \<Rightarrow> string option" where
  "encodeBase64 C input =
     (if input = [] then None else cy_base64_encode C ((length input + 2) div 3 * 4 + 1) input)"

definition decodeBase64 :: "crypto \<Rightarrow> string \<Rightarrow> bytes option" where
  "decodeBase64 C input =
     (if input = [] then None
      else case cy_base64_decode C (length input div 4 * 3 + 3) input of
        None \<Rightarrow> None | Some bs \<Rightarrow> if bs = [] then None else Some bs)"

definition kEncryptedFormat :: string where "kEncryptedFormat = ''multibus-backup-encrypted''"
definition kEnvelopeKdf :: string where "kEnvelopeKdf = ''pbkdf2-hmac-sha256''"
definition kEnvelopeCipher :: string where "kEnvelopeCipher = ''aes-256-gcm''"

text \<open>\<open>salt\<close> and \<open>nonce\<close> are drawn at random.\<close>

definition backup_encrypt :: "crypto \<Rightarrow> json_library \<Rightarrow> bytes \<Rightarrow> bytes \<Rightarrow> string \<Rightarrow> string \<Rightarrow> string + string" where
  "backup_encrypt C J salt nonce plaintext passphrase =
     (if plaintext = [] then Inl ''empty-backup''
      else if length passphrase < kMinimumPassphraseLength then Inl ''passphrase-too-short''
      else case deriveKey C passphrase salt kBackupIterations of
        None \<Rightarrow> Inl ''key-derivation-failed''
      | Some key \<Rightarrow> (case cy_gcm_encrypt C key nonce kAad (text_bytes plaintext) of
          None \<Rightarrow> Inl ''encryption-failed''
        | Some (ciphertext, tag) \<Rightarrow>
            (case (encodeBase64 C salt, encodeBase64 C nonce, encodeBase64 C tag, encodeBase64 C ciphertext) of
               (Some salt64, Some nonce64, Some tag64, Some ciphertext64) \<Rightarrow>
                 let output = jl_pretty J (JsObject [(''format'', JsText kEncryptedFormat), (''version'', JsNumber 1),
                       (''kdf'', JsText kEnvelopeKdf), (''iterations'', JsNumber (uint kBackupIterations)),
                       (''cipher'', JsText kEnvelopeCipher), (''salt'', JsText salt64), (''nonce'', JsText nonce64),
                       (''tag'', JsText tag64), (''ciphertext'', JsText ciphertext64)])
                 in if output = [] then Inl [] else Inr output
             | _ \<Rightarrow> Inl ''base64-encode-failed'')))"

definition backup_decrypt :: "crypto \<Rightarrow> json_library \<Rightarrow> string \<Rightarrow> string \<Rightarrow> string + string" where
  "backup_decrypt C J input passphrase =
     (if length passphrase < kMinimumPassphraseLength then Inl ''passphrase-too-short''
      else case jl_parse J input of
        Inl _ \<Rightarrow> Inl ''invalid-encrypted-json''
      | Inr doc \<Rightarrow>
          let iterations = word_of_int (number_or 0 (2 ^ 32 - 1) (member doc ''iterations'') 0) :: u32
          in if text_or (member doc ''format'') [] \<noteq> kEncryptedFormat \<or>
                number_or 0 (2 ^ 32 - 1) (member doc ''version'') 0 \<noteq> 1 \<or>
                text_or (member doc ''kdf'') [] \<noteq> kEnvelopeKdf \<or> text_or (member doc ''cipher'') [] \<noteq> kEnvelopeCipher
             then Inl ''unsupported-encrypted-backup''
             else if iterations < 100000 \<or> iterations > 1000000 then Inl ''invalid-kdf-iterations''
             else (case (decodeBase64 C (text_or (member doc ''salt'') []), decodeBase64 C (text_or (member doc ''nonce'') []),
                         decodeBase64 C (text_or (member doc ''tag'') []), decodeBase64 C (text_or (member doc ''ciphertext'') [])) of
                 (Some salt, Some nonce, Some tag, Some ciphertext) \<Rightarrow>
                   if length salt \<noteq> kSaltLength \<or> length nonce \<noteq> kNonceLength \<or> length tag \<noteq> kTagLength
                   then Inl ''invalid-encrypted-fields''
                   else (case deriveKey C passphrase salt iterations of
                       None \<Rightarrow> Inl ''key-derivation-failed''
                     | Some key \<Rightarrow> (case cy_gcm_decrypt C key nonce kAad tag ciphertext of
                           None \<Rightarrow> Inl ''authentication-failed''
                         | Some decoded \<Rightarrow>
                             let plaintext = map (\<lambda>b. char_of (unat b)) decoded
                             in if plaintext = [] then Inl [] else Inr plaintext))
               | _ \<Rightarrow> Inl ''invalid-encrypted-fields''))"

definition occurs :: "string \<Rightarrow> string \<Rightarrow> bool" where
  "occurs pattern s = (\<exists>i \<le> length s. take (length pattern) (drop i s) = pattern)"

definition isEncryptedEnvelope :: "string \<Rightarrow> bool" where
  "isEncryptedEnvelope input = (occurs ([CHR 0x22] @ ''format'' @ [CHR 0x22]) input \<and> occurs kEncryptedFormat input)"

end
