(* ===== verification/WebPages.thy ===== *)
theory WebPages
  imports DeviceConfig
begin

text \<open>
  The pages of the administration, built by \<^verbatim>\<open>include/services/WebService.h\<close>: the login form, the
  form that sets the password and the administration page with its script, as the strings the code
  concatenates. The apostrophe that opens or closes an attribute beside a value is written as its code.
\<close>

section \<open>Escaping\<close>

text \<open>\<^verbatim>\<open>value.replace(c, text)\<close> for one character.\<close>

definition replace_char :: "char \<Rightarrow> string \<Rightarrow> string \<Rightarrow> string" where
  "replace_char c text s = concat (map (\<lambda>x. if x = c then text else [x]) s)"

definition escape :: "string \<Rightarrow> string" where
  "escape s = replace_char (CHR ''>'') ''&gt;'' (replace_char (CHR ''<'') ''&lt;'' (replace_char (CHR 0x27) ''&#39;''
     (replace_char (CHR 0x22) ''&quot;'' (replace_char (CHR ''&'') ''&amp;'' s))))"

definition jsonEscape :: "string \<Rightarrow> string" where
  "jsonEscape s = replace_char (CHR 0x0a) [CHR 0x5c, CHR ''n''] (replace_char (CHR 0x0d) [CHR 0x5c, CHR ''r'']
     (replace_char (CHR 0x22) [CHR 0x5c, CHR 0x22] (replace_char (CHR 0x5c) [CHR 0x5c, CHR 0x5c] s)))"

section \<open>Parts\<close>

definition htmlHead :: "string \<Rightarrow> string" where
  "htmlHead title =
     ''<!doctype html><html><head><meta charset='utf-8'>'' @
     ''<meta name='viewport' content='width=device-width,initial-scale=1'>'' @ ''<title>'' @ title @ ''</title>'' @
     ''<style>body{font-family:sans-serif;max-width:760px;margin:2rem auto;padding:0 1rem}'' @
     ''fieldset{margin:1rem 0;padding:1rem}label{display:block;margin:.6rem 0}'' @
     ''input,select,button{font:inherit;padding:.45rem}code{background:#eee;padding:.15rem .3rem}'' @
     ''.warning{background:#fff3cd;padding:.7rem;border-radius:.3rem}</style>'' @ ''</head><body>''"

definition csrfField :: "string \<Rightarrow> string" where
  "csrfField csrf =
     ''<input type='hidden' name='csrf' value='' @ [CHR 0x27] @ csrf @ [CHR 0x27] @ ''>''"

definition option_tag :: "string \<Rightarrow> string \<times> string \<Rightarrow> string" where
  "option_tag selected opt =
     ''<option value='' @ [CHR 0x27] @ fst opt @ [CHR 0x27] @ (if selected = fst opt then '' selected'' else []) @
     ''>'' @ snd opt @ ''</option>''"

definition select :: "string \<Rightarrow> string \<Rightarrow> (string \<times> string) list \<Rightarrow> string \<Rightarrow> string" where
  "select name label options selected =
     ''<label>'' @ label @ '' <select name='' @ [CHR 0x27] @ name @ [CHR 0x27] @ ''>'' @
     concat (map (option_tag selected) options) @ ''</select></label>''"

definition lora_value :: "u8 \<Rightarrow> string" where
  "lora_value mode = (if mode = kLoRaWanMode then ''W'' else if mode = kMeshtasticMode then ''M'' else ''0'')"

definition modbus_value :: "u8 \<Rightarrow> string" where
  "modbus_value mode = (if mode = kMasterMode then ''M'' else if mode = kSlaveMode then ''S'' else ''0'')"

definition mark :: "bool \<Rightarrow> string" where
  "mark b = (if b then '' checked'' else [])"

section \<open>Pages\<close>

definition login_page :: string where
  "login_page =
     htmlHead ''MultiBus Login'' @ ''<h1>MultiBus Gateway</h1><form method='post' action='/login'>'' @
     ''<label>Administrator password <input type='password' name='password' required autofocus></label>'' @
     ''<button type='submit'>Login</button></form></body></html>''"

definition change_password_page :: "string \<Rightarrow> string" where
  "change_password_page csrf =
     htmlHead ''Change password'' @ ''<h1>Set administrator password</h1>'' @
     ''<form method='post' action='/change-password'>'' @ csrfField csrf @
     ''<label>New password <input type='password' name='password' minlength='10' required></label>'' @
     ''<label>Repeat password <input type='password' name='confirm' minlength='10' required></label>'' @
     ''<button type='submit'>Save password</button></form></body></html>''"

definition component_form :: "bool \<Rightarrow> string \<Rightarrow> string \<Rightarrow> AppConfig \<Rightarrow> string" where
  "component_form ap address csrf k =
     htmlHead ''MultiBus Gateway'' @ ''<h1>MultiBus Gateway</h1>'' @ ''<p>Network: <code>'' @
     (if ap then ''AP'' else ''client'') @ ''</code> &nbsp; '' @ ''Address: <code>'' @ address @ ''</code></p>'' @
     ''<fieldset><legend>Components</legend><form method='post' action='/api/config/components'>'' @ csrfField csrf @
     select ''victron'' ''Victron'' [(''0'', ''Disabled''), (''1'', ''Enabled'')] (if ac_victron k = 1 then ''1'' else ''0'') @
     select ''lora'' ''LoRa'' [(''0'', ''Disabled''), (''W'', ''LoRaWAN'')] (lora_value (ac_lora k)) @
     select ''modbus'' ''Modbus'' [(''0'', ''Disabled''), (''M'', ''Master''), (''S'', ''Slave'')] (modbus_value (ac_modbus k)) @
     select ''gnss'' ''GNSS'' [(''0'', ''Disabled''), (''1'', ''Enabled'')] (if ac_gnss k = 1 then ''1'' else ''0'') @
     ''<button type='submit'>Save components</button></form></fieldset>''"

definition network_form :: "string \<Rightarrow> NetworkConfig \<Rightarrow> string" where
  "network_form csrf n =
     ''<fieldset><legend>Wi-Fi client</legend><form method='post' action='/api/config/network'>'' @ csrfField csrf @
     ''<label>SSID <input name='ssid' value='' @ [CHR 0x27] @ escape (nc_ssid n) @ [CHR 0x27] @
     '' required></label>'' @
     ''<label>Password <input type='password' name='password' placeholder='leave empty to keep current'></label>'' @
     ''<label>Hostname <input name='hostname' value='' @ [CHR 0x27] @ escape (nc_hostname n) @ [CHR 0x27] @
     ''></label>'' @ ''<label>Friendly name <input name='friendly' value='' @ [CHR 0x27] @ escape (nc_friendlyName n) @
     [CHR 0x27] @ ''></label>'' @ ''<button type='submit'>Save network and reboot</button></form></fieldset>''"

definition mqtt_form :: "string \<Rightarrow> MqttConfig \<Rightarrow> string" where
  "mqtt_form csrf m =
     ''<fieldset><legend>MQTT</legend><form method='post' action='/api/config/mqtt'>'' @ csrfField csrf @
     ''<label><input type='checkbox' name='enabled' value='1'' @ [CHR 0x27] @ mark (mq_enabled m) @
     ''> Enable MQTT</label>'' @ ''<label>Broker host <input name='host' value='' @ [CHR 0x27] @ escape (mq_host m) @
     [CHR 0x27] @ ''></label>'' @ ''<label>Broker port <input type='number' min='1' max='65535' name='port' value='' @
     [CHR 0x27] @ decimal (unat (mq_port m)) @ [CHR 0x27] @ '' required></label>'' @
     ''<label>Username <input name='username' value='' @ [CHR 0x27] @ escape (mq_username m) @ [CHR 0x27] @
     ''></label>'' @
     ''<label>Password <input type='password' name='password' placeholder='leave empty to keep current'></label>'' @
     ''<label>Topic prefix <input name='topic_prefix' value='' @ [CHR 0x27] @ escape (mq_topicPrefix m) @ [CHR 0x27] @
     '' required></label>'' @
     ''<label>Publish interval (seconds) <input type='number' min='1' max='3600' name='publish_interval' value='' @
     [CHR 0x27] @ decimal (unat (mq_publishIntervalSeconds m)) @ [CHR 0x27] @ '' required></label>'' @
     ''<label><input type='checkbox' name='retain_state' value='1'' @ [CHR 0x27] @ mark (mq_retainState m) @
     ''> Retain channel state</label>'' @ ''<label><input type='checkbox' name='ha_discovery' value='1'' @ [CHR 0x27] @
     mark (mq_homeAssistantDiscovery m) @ ''> Enable Home Assistant discovery</label>'' @
     ''<label>Home Assistant discovery prefix <input name='ha_prefix' value='' @ [CHR 0x27] @
     escape (mq_homeAssistantPrefix m) @ [CHR 0x27] @ '' required></label>'' @
     ''<label><input type='checkbox' name='tls_enabled' value='1'' @ [CHR 0x27] @ mark (mq_tlsEnabled m) @
     ''> Enable TLS with CA verification</label>'' @
     ''<label>CA certificate (PEM)<br><textarea name='ca_certificate' rows='10' cols='72'>'' @
     escape (mq_caCertificate m) @ ''</textarea></label>'' @
     ''<button type='submit'>Save MQTT and reboot</button></form></fieldset>''"

definition maintenance_forms :: "string \<Rightarrow> string" where
  "maintenance_forms csrf =
     ''<fieldset><legend>Recent Events</legend>'' @
     ''<div id='eventNotice'></div><pre id='eventList'>Loading...</pre></fieldset>'' @
     ''<fieldset><legend>Backup / Restore</legend>'' @
     ''<p>New backups are encrypted with a passphrase using AES-256-GCM.</p>'' @
     ''<label>Backup passphrase <input id='backupPassphrase' type='password' minlength='12'></label>'' @
     ''<label>Repeat passphrase <input id='backupPassphrase2' type='password' minlength='12'></label>'' @
     ''<button type='button' onclick='downloadBackup()'>Download encrypted backup</button>'' @ ''<hr>'' @
     ''<label>Restore backup <input id='restoreFile' type='file' accept='application/json,.json'></label>'' @
     ''<label>Restore passphrase <input id='restorePassphrase' type='password' minlength='12'></label>'' @
     ''<button type='button' onclick='restoreBackup()'>Upload and restore</button>'' @
     ''<pre id='restoreStatus'></pre></fieldset>'' @
     ''<form method='get' action='/change-password'><button>Change admin password</button></form> '' @
     ''<form method='post' action='/logout' style='display:inline'>'' @ csrfField csrf @
     ''<button>Logout</button></form> '' @ ''<form method='post' action='/api/reboot' style='display:inline'>'' @
     csrfField csrf @ ''<button>Reboot</button></form>''"

text \<open>The script that polls the events and transfers backups.\<close>

definition page_script :: "string \<Rightarrow> string" where
  "page_script csrf =
     ''<script>'' @ ''const csrfToken='' @ [CHR 0x27] @ csrf @ [CHR 0x27] @ '';'' @
     ''let eventAfter=0,eventLines=[];'' @ ''async function loadEvents(){'' @
     ''try{const r=await fetch('/api/events?after='+eventAfter,{cache:'no-store'});'' @
     ''if(!r.ok)return;const d=await r.json();'' @
     ''if(d.missed_before>0)document.getElementById('eventNotice').textContent='' @ [CHR 0x27] @
     ''Missed '+d.missed_before+' event(s) before the current ring.';'' @ ''for(const e of d.events){'' @
     ''eventAfter=Math.max(eventAfter,Number(e.sequence)||0);'' @
     ''const ts=e.timestamp?new Date(e.timestamp*1000).toISOString():'no-time';'' @
     ''eventLines.push('#'+e.sequence+' '+ts+' ['+e.severity+'] '+e.source+'/'+e.type+(e.detail?' '+e.detail:'' @
     [CHR 0x27] @ [CHR 0x27] @ ''));'' @ ''}if(eventLines.length>32)eventLines=eventLines.slice(-32);'' @
     ''document.getElementById('eventList').textContent=eventLines.length?eventLines.join('' @ [CHR 0x27] @
     [CHR 0x5c] @ ''n'):'No events';'' @
     ''}catch(e){document.getElementById('eventNotice').textContent='Event API unavailable';}}'' @
     ''async function downloadBackup(){'' @
     ''const p=document.getElementById('backupPassphrase').value,p2=document.getElementById('backupPassphrase2').value;'' @
     ''const s=document.getElementById('restoreStatus');'' @
     ''if(p.length<12){s.textContent='Backup passphrase must contain at least 12 characters.';return;}'' @
     ''if(p!==p2){s.textContent='Backup passphrases do not match.';return;}'' @
     ''s.textContent='Encrypting backup...';'' @
     ''const r=await fetch('/api/system/backup',{method:'POST',headers:{'X-CSRF-Token':csrfToken,'X-Backup-Passphrase':p}});'' @
     ''if(!r.ok){s.textContent=await r.text();return;}'' @
     ''const b=await r.blob(),a=document.createElement('a');a.href=URL.createObjectURL(b);a.download='multibus-backup-encrypted.json';a.click();URL.revokeObjectURL(a.href);'' @
     ''s.textContent='Encrypted backup created.';}'' @
     ''async function restoreBackup(){const f=document.getElementById('restoreFile').files[0];'' @
     ''if(!f)return;const p=document.getElementById('restorePassphrase').value;'' @
     ''const s=document.getElementById('restoreStatus');s.textContent='Uploading...';'' @
     ''const r=await fetch('/api/system/restore',{method:'POST',headers:{'Content-Type':'application/json','X-CSRF-Token':csrfToken,'X-Backup-Passphrase':p},body:await f.text()});'' @
     ''s.textContent=await r.text();}'' @ ''loadEvents();setInterval(loadEvents,5000);'' @ ''</script></body></html>''"

definition administration_page :: "bool \<Rightarrow> string \<Rightarrow> string \<Rightarrow> DeviceConfig \<Rightarrow> string" where
  "administration_page ap address csrf c =
     component_form ap address csrf (dc_components c) @ network_form csrf (dc_network c) @
     mqtt_form csrf (dc_mqtt c) @ maintenance_forms csrf @ page_script csrf"

end
