(* ===== verification/WebService.thy ===== *)
theory WebService
  imports Backup WebPages
begin

text \<open>
  The administration over HTTP: \<^verbatim>\<open>include/services/WebService.h\<close>. A request is its method, path,
  headers and arguments with the time it arrives at and the random numbers drawn while it is handled
  (\<^verbatim>\<open>esp_random\<close>, in order, and the salt and nonce of an encryption); a response is its status,
  headers and body. The web server, which parses requests and looks routes up, is part of the environment.
\<close>

section \<open>Requests, responses and state\<close>

record web_request =
  wr_get :: bool
  wr_path :: string
  wr_header :: "string \<Rightarrow> string"
  wr_arg :: "string \<Rightarrow> string option"
  wr_nowMs :: u32
  wr_random :: "nat \<Rightarrow> u32"
  wr_backupSalt :: bytes
  wr_backupNonce :: bytes

datatype web_body = WbText string | WbJson string | WbDocument json | WbHtml string

record web_response =
  wp_status :: nat
  wp_headers :: "(string \<times> string) list"
  wp_body :: web_body

record 's web_service =
  we_config :: DeviceConfig
  we_configNs :: 's
  we_needsSave :: bool
  we_security :: "'s security_store"
  we_events :: event_bus
  we_apActive :: bool
  we_address :: string
  we_sessionToken :: string
  we_csrfToken :: string
  we_sessionCreatedAt :: u32
  we_sessionLastActivityAt :: u32
  we_throttle :: login_throttle
  we_rebootAt :: u32

definition initial_web :: "DeviceConfig \<Rightarrow> 's \<Rightarrow> 's security_store \<Rightarrow> event_bus \<Rightarrow> bool \<Rightarrow> string \<Rightarrow> 's web_service" where
  "initial_web config ns security events ap address = \<lparr>we_config = config, we_configNs = ns, we_needsSave = False,
     we_security = security, we_events = events, we_apActive = ap, we_address = address, we_sessionToken = [],
     we_csrfToken = [], we_sessionCreatedAt = 0, we_sessionLastActivityAt = 0, we_throttle = initial_throttle,
     we_rebootAt = 0\<rparr>"

definition arg :: "web_request \<Rightarrow> string \<Rightarrow> string" where
  "arg r k = (case wr_arg r k of None \<Rightarrow> [] | Some v \<Rightarrow> v)"

definition hasArg :: "web_request \<Rightarrow> string \<Rightarrow> bool" where
  "hasArg r k = (wr_arg r k \<noteq> None)"

definition reply :: "nat \<Rightarrow> string \<Rightarrow> web_response" where
  "reply status text = \<lparr>wp_status = status, wp_headers = [], wp_body = WbText text\<rparr>"

text \<open>Redirects; \<^verbatim>\<open>sendHeader\<close> adds a header to the response.\<close>

definition redirect :: "nat \<Rightarrow> string \<Rightarrow> string \<Rightarrow> (string \<times> string) list \<Rightarrow> web_response" where
  "redirect status location text headers =
     \<lparr>wp_status = status, wp_headers = headers @ [(''Location'', location)], wp_body = WbText text\<rparr>"

definition page :: "string \<Rightarrow> web_response" where
  "page html = \<lparr>wp_status = 200, wp_headers = [(''Cache-Control'', ''no-store'')], wp_body = WbHtml html\<rparr>"

section \<open>Sessions\<close>

definition invalidateSession :: "'s web_service \<Rightarrow> 's web_service" where
  "invalidateSession s = s\<lparr>we_sessionToken := [], we_csrfToken := [], we_sessionCreatedAt := 0, we_sessionLastActivityAt := 0\<rparr>"

text \<open>The 16 random numbers from the given position on.\<close>

definition drawn :: "web_request \<Rightarrow> nat \<Rightarrow> u32 list" where
  "drawn r start = map (wr_random r) [start ..< start + 16]"

definition randomToken :: "u32 list \<Rightarrow> string" where
  "randomToken randoms = concat (map (\<lambda>n. lower_byte (ucast (n AND 0xff))) randoms)"

definition createSession :: "web_request \<Rightarrow> nat \<Rightarrow> 's web_service \<Rightarrow> 's web_service" where
  "createSession r start s = s\<lparr>we_sessionToken := randomToken (drawn r start), we_csrfToken := randomToken (drawn r (start + 16)),
     we_sessionCreatedAt := wr_nowMs r, we_sessionLastActivityAt := wr_nowMs r\<rparr>"

definition authenticated :: "web_request \<Rightarrow> 's web_service \<Rightarrow> bool \<times> 's web_service" where
  "authenticated r s =
     (if we_sessionToken s = [] then (False, s)
      else if session_expired (we_sessionCreatedAt s) (we_sessionLastActivityAt s) (wr_nowMs r)
      then (False, invalidateSession s)
      else if \<not> hasSessionCookie (Some (c_str (wr_header r ''Cookie''))) (Some (c_str (we_sessionToken s))) then (False, s)
      else (True, s\<lparr>we_sessionLastActivityAt := wr_nowMs r\<rparr>))"

text \<open>A handler behind \<^verbatim>\<open>if (!requireAuth()) return\<close> and \<^verbatim>\<open>if (!requireCsrf()) return\<close>.\<close>

definition requireAuth :: "web_request \<Rightarrow> ('s web_service \<Rightarrow> web_response \<times> 's web_service) \<Rightarrow> 's web_service \<Rightarrow> web_response \<times> 's web_service" where
  "requireAuth r handler s =
     (let (ok, s) = authenticated r s in if ok then handler s else (reply 401 ''Authentication required'', s))"

definition suppliedCsrf :: "web_request \<Rightarrow> string" where
  "suppliedCsrf r =
     (let supplied = wr_header r ''X-CSRF-Token'' in if supplied = [] \<and> hasArg r ''csrf'' then arg r ''csrf'' else supplied)"

definition requireCsrf :: "web_request \<Rightarrow> ('s web_service \<Rightarrow> web_response \<times> 's web_service) \<Rightarrow> 's web_service \<Rightarrow> web_response \<times> 's web_service" where
  "requireCsrf r handler = requireAuth r (\<lambda>s.
     if we_csrfToken s = [] \<or> \<not> csrfMatches (Some (c_str (suppliedCsrf r))) (Some (c_str (we_csrfToken s)))
     then (reply 403 ''CSRF validation failed'', s) else handler s)"

definition sessionCookie :: "'s web_service \<Rightarrow> string \<times> string" where
  "sessionCookie s = (''Set-Cookie'', ''MBSESSION='' @ we_sessionToken s @ ''; HttpOnly; SameSite=Strict; Path=/'')"

definition clearedCookie :: "string \<times> string" where
  "clearedCookie = (''Set-Cookie'', ''MBSESSION=; Max-Age=0; HttpOnly; SameSite=Strict; Path=/'')"

definition scheduleReboot :: "web_request \<Rightarrow> 's web_service \<Rightarrow> 's web_service" where
  "scheduleReboot r s = s\<lparr>we_rebootAt := wr_nowMs r + 750\<rparr>"

text \<open>The restart of \<^verbatim>\<open>loop\<close>.\<close>

definition web_restart_due :: "u32 \<Rightarrow> 's web_service \<Rightarrow> bool" where
  "web_restart_due nowMs s = (we_rebootAt s \<noteq> 0 \<and> time_reached nowMs (we_rebootAt s))"

section \<open>Logging in and out\<close>

definition handleRoot :: "'s prefs \<Rightarrow> web_request \<Rightarrow> 's web_service \<Rightarrow> web_response \<times> 's web_service" where
  "handleRoot P r s =
     (let (ok, s) = authenticated r s
      in if \<not> ok then (page login_page, s)
         else if \<not> adminInitialized P (we_security s) then (redirect 303 ''/change-password'' ''Password change required'' [], s)
         else (page (administration_page (we_apActive s) (we_address s) (we_csrfToken s) (we_config s)), s))"

definition handleLogin :: "'s prefs \<Rightarrow> crypto \<Rightarrow> web_request \<Rightarrow> 's web_service \<Rightarrow> web_response \<times> 's web_service" where
  "handleLogin P C r s =
     (if \<not> throttle_allowed (we_throttle s) (wr_nowMs r) then
        (\<lparr>wp_status = 429, wp_headers = [(''Retry-After'', decimal (unat (retryAfterSeconds (we_throttle s) (wr_nowMs r))))],
           wp_body = WbText ''Too many attempts; try again later.''\<rparr>, s)
      else if \<not> hasArg r ''password'' \<or> \<not> verifyAdminPassword P C (arg r ''password'') (we_security s) then
        (reply 401 ''Invalid credentials'', s\<lparr>we_throttle := recordFailure (wr_nowMs r) (we_throttle s)\<rparr>)
      else
        let s = createSession r 0 (s\<lparr>we_throttle := recordSuccess (we_throttle s)\<rparr>)
        in (redirect 303 (if adminInitialized P (we_security s) then ''/'' else ''/change-password'') ''OK'' [sessionCookie s], s))"

definition handleLogout :: "web_request \<Rightarrow> 's web_service \<Rightarrow> web_response \<times> 's web_service" where
  "handleLogout r = requireCsrf r (\<lambda>s. (redirect 303 ''/'' ''Logged out'' [clearedCookie], invalidateSession s))"

definition handleChangePassword :: "'s prefs \<Rightarrow> crypto \<Rightarrow> web_request \<Rightarrow> 's web_service \<Rightarrow> web_response \<times> 's web_service" where
  "handleChangePassword P C r = requireCsrf r (\<lambda>s.
     let refused = (reply 400 ''Password must match and contain at least 10 characters.'', s)
     in if \<not> hasArg r ''password'' \<or> \<not> hasArg r ''confirm'' \<or> arg r ''password'' \<noteq> arg r ''confirm'' then refused
        else
          let (ok, security) = setAdminPassword P C (drawn r 0) (arg r ''password'') (we_security s)
          in if \<not> ok then (fst refused, s\<lparr>we_security := security\<rparr>)
             else
               let s = createSession r 16 (s\<lparr>we_security := security\<rparr>)
               in (redirect 303 ''/'' ''Password changed'' [sessionCookie s], s))"

definition handleChangePasswordPage :: "web_request \<Rightarrow> 's web_service \<Rightarrow> web_response \<times> 's web_service" where
  "handleChangePasswordPage r = requireAuth r (\<lambda>s. (page (change_password_page (we_csrfToken s)), s))"

section \<open>Status and events\<close>

definition switch_name :: "u8 \<Rightarrow> string" where
  "switch_name mode = (if mode = 1 then ''enabled'' else ''disabled'')"

definition lora_name :: "u8 \<Rightarrow> string" where
  "lora_name mode = (if mode = kLoRaWanMode then ''lorawan'' else if mode = kMeshtasticMode then ''meshtastic'' else ''disabled'')"

definition modbus_name :: "u8 \<Rightarrow> string" where
  "modbus_name mode = (if mode = kMasterMode then ''master'' else if mode = kSlaveMode then ''slave'' else ''disabled'')"

definition quoted :: "string \<Rightarrow> string" where
  "quoted s = [CHR 0x22] @ s @ [CHR 0x22]"

definition status_body :: "'s web_service \<Rightarrow> string" where
  "status_body s =
     ''{'' @ quoted ''network_mode'' @ '':'' @ quoted (if we_apActive s then ''ap'' else ''client'') @ '','' @
     quoted ''ip'' @ '':'' @ quoted (we_address s) @ '','' @
     quoted ''hostname'' @ '':'' @ quoted (jsonEscape (nc_hostname (dc_network (we_config s)))) @ '','' @
     quoted ''victron'' @ '':'' @ quoted (switch_name (ac_victron (dc_components (we_config s)))) @ '','' @
     quoted ''lora'' @ '':'' @ quoted (lora_name (ac_lora (dc_components (we_config s)))) @ '','' @
     quoted ''modbus'' @ '':'' @ quoted (modbus_name (ac_modbus (dc_components (we_config s)))) @ '','' @
     quoted ''gnss'' @ '':'' @ quoted (switch_name (ac_gnss (dc_components (we_config s)))) @ '','' @
     quoted ''mqtt_enabled'' @ '':'' @ (if mq_enabled (dc_mqtt (we_config s)) then ''true'' else ''false'') @ '','' @
     quoted ''mqtt_host'' @ '':'' @ quoted (jsonEscape (mq_host (dc_mqtt (we_config s)))) @ ''}''"

definition handleStatus :: "web_request \<Rightarrow> 's web_service \<Rightarrow> web_response \<times> 's web_service" where
  "handleStatus r = requireAuth r (\<lambda>s.
     (\<lparr>wp_status = 200, wp_headers = [(''Cache-Control'', ''no-store'')], wp_body = WbJson (status_body s)\<rparr>, s))"

text \<open>The digit loop, with the value so far.\<close>

fun uint64_digits :: "nat \<Rightarrow> string \<Rightarrow> nat option" where
  "uint64_digits parsed [] = Some parsed"
| "uint64_digits parsed (ch # cs) =
     (if \<not> is_digit ch then None
      else let digit = of_char ch - 48 in
        if parsed > (2 ^ 64 - 1 - digit) div 10 then None else uint64_digits (parsed * 10 + digit) cs)"

definition parseUint64 :: "string \<Rightarrow> u64 option" where
  "parseUint64 v = (if v = [] then Some 0 else map_option of_nat (uint64_digits 0 v))"

definition kWebEventCapacity :: nat where "kWebEventCapacity = 32"

definition event_item :: "EventRecord \<Rightarrow> json" where
  "event_item e = JsObject
     ([(''sequence'', JsNumber (uint (ev_sequence e))), (''timestamp'', JsNumber (uint (ev_timestampUnix e))),
       (''severity'', JsText (severityName (ev_severity e))), (''source'', JsText (c_text (ev_source e))),
       (''type'', JsText (c_text (ev_type e)))] @
      (if ev_detail e ! 0 \<noteq> 0 then [(''detail'', JsText (c_text (ev_detail e)))] else []))"

text \<open>The loop, with the numbers that are left up to the latest.\<close>

fun event_items :: "event_bus \<Rightarrow> nat \<Rightarrow> u64 \<Rightarrow> json list \<Rightarrow> json list" where
  "event_items b 0 sequence items = items"
| "event_items b (Suc left) sequence items =
     (if length items \<ge> kWebEventCapacity then items
      else event_items b left (sequence + 1) (case eventBus_read kWebEventCapacity sequence b of
          None \<Rightarrow> items | Some e \<Rightarrow> items @ [event_item e]))"

definition events_document :: "u64 \<Rightarrow> event_bus \<Rightarrow> json" where
  "events_document after b =
     (let oldest = oldestSequence b; latest = eb_latestSequence b;
          items = (if oldest \<noteq> 0 \<and> after < latest then
              (let sequence = (if after + 1 < oldest then oldest else after + 1)
               in if sequence \<le> latest then event_items b (unat latest - unat sequence + 1) sequence [] else [])
            else [])
      in JsObject [(''oldest_sequence'', JsNumber (uint oldest)), (''latest_sequence'', JsNumber (uint latest)),
           (''missed_before'', JsNumber (uint (missedSince after b))), (''events'', JsArray items)])"

definition handleEvents :: "web_request \<Rightarrow> 's web_service \<Rightarrow> web_response \<times> 's web_service" where
  "handleEvents r = requireAuth r (\<lambda>s.
     case (if hasArg r ''after'' then parseUint64 (arg r ''after'') else Some 0) of
       None \<Rightarrow> (reply 400 ''Invalid after sequence'', s)
     | Some after \<Rightarrow> (\<lparr>wp_status = 200, wp_headers = [(''Cache-Control'', ''no-store'')],
         wp_body = WbDocument (events_document after (we_events s))\<rparr>, s))"

section \<open>Configuration\<close>

definition web_save :: "'s prefs \<Rightarrow> DeviceConfig \<Rightarrow> 's web_service \<Rightarrow> bool \<times> 's web_service" where
  "web_save P c s =
     (let (ok, ns, needs) = configStore_save P c (we_configNs s) (we_needsSave s)
      in (ok, s\<lparr>we_configNs := ns, we_needsSave := needs\<rparr>))"

definition handleComponentConfig :: "'s prefs \<Rightarrow> web_request \<Rightarrow> 's web_service \<Rightarrow> web_response \<times> 's web_service" where
  "handleComponentConfig P r = requireCsrf r (\<lambda>s.
     let nxt = \<lparr>ac_victron = (if arg r ''victron'' = ''1'' then 1 else 0), ac_lora = (if arg r ''lora'' = ''W'' then kLoRaWanMode else 0),
           ac_modbus = (if arg r ''modbus'' = ''M'' then kMasterMode else if arg r ''modbus'' = ''S'' then kSlaveMode else 0),
           ac_gnss = (if arg r ''gnss'' = ''1'' then 1 else 0)\<rparr>
     in if validateConfig nxt \<noteq> ConfigOk then (reply 400 ''Invalid component configuration'', s)
        else
          let s = s\<lparr>we_config := (we_config s)\<lparr>dc_components := nxt\<rparr>\<rparr>; (ok, s) = web_save P (we_config s) s
          in if \<not> ok then (reply 500 ''Failed to persist configuration'', s)
             else (reply 200 ''Saved. Reboot required to activate component changes.'', s))"

definition handleNetworkConfig :: "'s prefs \<Rightarrow> web_request \<Rightarrow> 's web_service \<Rightarrow> web_response \<times> 's web_service" where
  "handleNetworkConfig P r = requireCsrf r (\<lambda>s.
     if \<not> hasArg r ''ssid'' \<or> arg r ''ssid'' = [] then (reply 400 ''SSID is required'', s)
     else
       let n = dc_network (we_config s);
           n = n\<lparr>nc_ssid := arg r ''ssid''\<rparr>;
           n = (if hasArg r ''password'' \<and> arg r ''password'' \<noteq> [] then n\<lparr>nc_password := arg r ''password''\<rparr> else n);
           n = (if hasArg r ''hostname'' then n\<lparr>nc_hostname := arg r ''hostname''\<rparr> else n);
           n = (if hasArg r ''friendly'' then n\<lparr>nc_friendlyName := arg r ''friendly''\<rparr> else n);
           s = s\<lparr>we_config := (we_config s)\<lparr>dc_network := n\<rparr>\<rparr>;
           (ok, s) = web_save P (we_config s) s
       in if \<not> ok then (reply 500 ''Failed to persist network configuration'', s)
          else (reply 200 ''Saved. Rebooting...'', scheduleReboot r s))"

fun uint16_digits :: "nat \<Rightarrow> nat \<Rightarrow> string \<Rightarrow> nat option" where
  "uint16_digits maximum parsed [] = Some parsed"
| "uint16_digits maximum parsed (ch # cs) =
     (if \<not> is_digit ch then None
      else let parsed = parsed * 10 + (of_char ch - 48)
        in if parsed > maximum then None else uint16_digits maximum parsed cs)"

definition parseUint16Arg :: "string \<Rightarrow> nat \<Rightarrow> nat \<Rightarrow> u16 option" where
  "parseUint16Arg v minimum maximum =
     (if v = [] then None
      else case uint16_digits maximum 0 v of
        None \<Rightarrow> None | Some n \<Rightarrow> if n < minimum \<or> n > maximum then None else Some (of_nat n))"

definition checked :: "web_request \<Rightarrow> string \<Rightarrow> bool" where
  "checked r k = (hasArg r k \<and> arg r k = ''1'')"

definition mqtt_from_form :: "web_request \<Rightarrow> MqttConfig \<Rightarrow> MqttConfig option" where
  "mqtt_from_form r m =
     (let m = m\<lparr>mq_enabled := checked r ''enabled'', mq_host := arg r ''host'', mq_username := arg r ''username''\<rparr>;
          m = (if hasArg r ''password'' \<and> arg r ''password'' \<noteq> [] then m\<lparr>mq_password := arg r ''password''\<rparr> else m);
          m = m\<lparr>mq_topicPrefix := arg r ''topic_prefix'', mq_retainState := checked r ''retain_state'',
            mq_homeAssistantDiscovery := checked r ''ha_discovery'', mq_homeAssistantPrefix := arg r ''ha_prefix'',
            mq_tlsEnabled := checked r ''tls_enabled''\<rparr>;
          m = (if hasArg r ''ca_certificate'' then m\<lparr>mq_caCertificate := arg r ''ca_certificate''\<rparr> else m)
      in case (parseUint16Arg (arg r ''port'') 1 65535, parseUint16Arg (arg r ''publish_interval'') 1 3600) of
           (Some port, Some interval) \<Rightarrow> Some (m\<lparr>mq_port := port, mq_publishIntervalSeconds := interval\<rparr>)
         | _ \<Rightarrow> None)"

definition handleMqttConfig :: "'s prefs \<Rightarrow> web_request \<Rightarrow> 's web_service \<Rightarrow> web_response \<times> 's web_service" where
  "handleMqttConfig P r = requireCsrf r (\<lambda>s.
     case mqtt_from_form r (dc_mqtt (we_config s)) of
       None \<Rightarrow> (reply 400 ''Invalid MQTT port or publish interval'', s)
     | Some nxt \<Rightarrow>
         if \<not> mqtt_valid nxt then (reply 400 ''Invalid MQTT configuration'', s)
         else
           let s = s\<lparr>we_config := (we_config s)\<lparr>dc_mqtt := nxt\<rparr>\<rparr>; (ok, s) = web_save P (we_config s) s
           in if \<not> ok then (reply 500 ''Failed to persist MQTT configuration'', s)
              else (reply 200 ''Saved. Rebooting...'', scheduleReboot r s))"

section \<open>Backup and restart\<close>

definition handleBackupDownload :: "crypto \<Rightarrow> json_library \<Rightarrow> web_request \<Rightarrow> 's web_service \<Rightarrow> web_response \<times> 's web_service" where
  "handleBackupDownload C J r = requireCsrf r (\<lambda>s.
     let passphrase = wr_header r ''X-Backup-Passphrase''
     in if length passphrase < kMinimumPassphraseLength then
          (reply 400 ''Backup passphrase must contain at least 12 characters'', s)
        else case exportConfig J (we_config s) of
            None \<Rightarrow> (reply 500 ''Failed to generate backup'', s)
          | Some plaintext \<Rightarrow>
              (case backup_encrypt C J (wr_backupSalt r) (wr_backupNonce r) plaintext passphrase of
                 Inl error \<Rightarrow> (reply 500 (''Failed to encrypt backup: '' @ error), s)
               | Inr encrypted \<Rightarrow>
                   (\<lparr>wp_status = 200, wp_headers = [(''Content-Disposition'', ''attachment; filename=multibus-backup-encrypted.json''),
                        (''Cache-Control'', ''no-store'')], wp_body = WbJson encrypted\<rparr>, s)))"

definition restore_plaintext :: "crypto \<Rightarrow> json_library \<Rightarrow> web_request \<Rightarrow> string \<Rightarrow> string + string" where
  "restore_plaintext C J r body =
     (if isEncryptedEnvelope body then backup_decrypt C J body (wr_header r ''X-Backup-Passphrase'') else Inr body)"

definition handleBackupRestore :: "'s prefs \<Rightarrow> crypto \<Rightarrow> json_library \<Rightarrow> web_request \<Rightarrow> 's web_service \<Rightarrow> web_response \<times> 's web_service" where
  "handleBackupRestore P C J r = requireCsrf r (\<lambda>s.
     let body = arg r ''plain''
     in if body = [] then (reply 400 ''Backup payload is empty'', s)
        else case restore_plaintext C J r body of
            Inl error \<Rightarrow> (reply 400 (''Encrypted backup rejected: '' @ error), s)
          | Inr plaintext \<Rightarrow>
              (case importConfig J plaintext of
                 Inl error \<Rightarrow> (reply 400 (''Backup rejected: '' @ error), s)
               | Inr restored \<Rightarrow>
                   let (ok, s) = web_save P restored s
                   in if \<not> ok then (reply 500 ''Validated backup could not be persisted'', s)
                      else
                        let s = createSession r 0 (s\<lparr>we_config := restored\<rparr>)
                        in (\<lparr>wp_status = 200, wp_headers = [sessionCookie s],
                              wp_body = WbText ''Backup restored successfully. Rebooting...''\<rparr>, scheduleReboot r s)))"

definition handleReboot :: "web_request \<Rightarrow> 's web_service \<Rightarrow> web_response \<times> 's web_service" where
  "handleReboot r = requireCsrf r (\<lambda>s. (reply 200 ''Rebooting...'', scheduleReboot r s))"

definition handleNotFound :: "'s web_service \<Rightarrow> web_response \<times> 's web_service" where
  "handleNotFound s = (if we_apActive s then (redirect 302 ''/'' [] [], s) else (reply 404 ''Not found'', s))"

section \<open>Routes\<close>

definition serve :: "'s prefs \<Rightarrow> crypto \<Rightarrow> json_library \<Rightarrow> web_request \<Rightarrow> 's web_service \<Rightarrow> web_response \<times> 's web_service" where
  "serve P C J r s =
     (if wr_get r then
        (if wr_path r = ''/'' then handleRoot P r s
         else if wr_path r = ''/change-password'' then handleChangePasswordPage r s
         else if wr_path r = ''/api/status'' then handleStatus r s
         else if wr_path r = ''/api/events'' then handleEvents r s
         else handleNotFound s)
      else
        (if wr_path r = ''/login'' then handleLogin P C r s
         else if wr_path r = ''/logout'' then handleLogout r s
         else if wr_path r = ''/change-password'' then handleChangePassword P C r s
         else if wr_path r = ''/api/config/components'' then handleComponentConfig P r s
         else if wr_path r = ''/api/config/network'' then handleNetworkConfig P r s
         else if wr_path r = ''/api/config/mqtt'' then handleMqttConfig P r s
         else if wr_path r = ''/api/system/backup'' then handleBackupDownload C J r s
         else if wr_path r = ''/api/system/restore'' then handleBackupRestore P C J r s
         else if wr_path r = ''/api/reboot'' then handleReboot r s
         else handleNotFound s))"

end
