(* ===== verification/SecurityProperties.thy ===== *)
theory SecurityProperties
  imports Security
begin

text \<open>
  What the access policies promise: the session cookie is recognised exactly where the header has it,
  passwords cannot be guessed faster than the locks allow in the first 24 days of uptime, and a password
  that was set and stored is the one that is verified.
\<close>

section \<open>Comparing\<close>

lemma or_zero: "a OR b = 0 \<longleftrightarrow> a = 0 \<and> b = (0 :: u8)"
  by (auto simp: bit_eq_iff bit_simps)

lemma xor_zero: "a XOR b = 0 \<longleftrightarrow> a = (b :: u8)"
  by (auto simp: bit_eq_iff bit_simps)

lemma of_char_byte: "of_char x = (of_char y :: u8) \<longleftrightarrow> x = y"
proof
  assume "of_char x = (of_char y :: u8)"
  then have "of_nat (of_char x) = (of_nat (of_char y) :: u8)" unfolding of_nat_of_char .
  then have "unat (of_nat (of_char x) :: u8) = unat (of_nat (of_char y) :: u8)" by simp
  then show "x = y" by (simp add: unat_of_nat_small)
qed simp

lemma constantTimeEquals_iff: "length a = length b \<Longrightarrow> constantTimeEquals a b \<longleftrightarrow> a = b"
proof -
  have "fold (\<lambda>(x, y) diff. diff OR (of_char x XOR of_char y)) ps d = 0 \<longleftrightarrow> d = (0 :: u8) \<and> (\<forall>(x, y) \<in> set ps. x = y)" for ps d
  proof (induction ps arbitrary: d)
    case (Cons p ps)
    then show ?case by (auto simp: or_zero xor_zero of_char_byte split: prod.splits)
  qed simp
  then have "constantTimeEquals a b \<longleftrightarrow> (\<forall>(x, y) \<in> set (zip a b). x = y)" by (simp add: constantTimeEquals_def)
  moreover assume "length a = length b"
  then have "(\<forall>(x, y) \<in> set (zip a b). x = y) \<longleftrightarrow> a = b" by (induction rule: list_induct2) auto
  ultimately show ?thesis by simp
qed

section \<open>The session cookie\<close>

text \<open>The parts of the header between the semicolons, and a part that holds the cookie.\<close>

fun segments :: "string \<Rightarrow> string list" where
  "segments [] = [[]]"
| "segments (c # cs) = (if c = CHR '';'' then [] # segments cs
     else (case segments cs of [] \<Rightarrow> [[c]] | part # parts \<Rightarrow> (c # part) # parts))"

definition trim :: "string \<Rightarrow> string" where "trim s = trim_right (dropWhile blank s)"

definition holds_cookie :: "string \<Rightarrow> string \<Rightarrow> bool" where
  "holds_cookie token part = (CHR ''='' \<in> set part \<and> trim (takeWhile (\<lambda>c. c \<noteq> CHR ''='') part) = kSessionCookie \<and>
     trim (tl (dropWhile (\<lambda>c. c \<noteq> CHR ''='') part)) = token)"

definition has_cookie :: "string \<Rightarrow> string \<Rightarrow> bool" where
  "has_cookie token s = (\<exists>part \<in> set (segments s). holds_cookie token part)"

lemma segments_nonempty [simp]: "segments s \<noteq> []"
  by (cases s) (auto split: list.split)

lemma holds_cookie_simps [simp]:
  "\<not> holds_cookie token []" "blank c \<Longrightarrow> holds_cookie token (c # part) = holds_cookie token part"
  by (auto simp: holds_cookie_def trim_def blank_def)

lemma has_cookie_skip: "has_cookie token (dropWhile (\<lambda>c. c = CHR '';'' \<or> blank c) s) = has_cookie token s"
proof (induction s)
  case (Cons c s)
  have "has_cookie token (c # s) = has_cookie token s" if "c = CHR '';'' \<or> blank c"
    using that by (cases "segments s") (auto simp: has_cookie_def blank_def)
  with Cons show ?case by simp
qed simp

lemma has_cookie_parts:
  "has_cookie token s \<longleftrightarrow> holds_cookie token (takeWhile (\<lambda>c. c \<noteq> CHR '';'') s) \<or>
     has_cookie token (dropWhile (\<lambda>c. c \<noteq> CHR '';'') s)"
proof -
  have "\<exists>ps. segments s = takeWhile (\<lambda>c. c \<noteq> CHR '';'') s # ps \<and>
      (\<exists>qs. segments (dropWhile (\<lambda>c. c \<noteq> CHR '';'') s) = [] # qs \<and> set qs = set ps)"
    by (induction s) (auto split: list.split)
  then show ?thesis by (auto simp: has_cookie_def)
qed

lemma name_scan:
  fixes s :: string
  defines "in_name \<equiv> \<lambda>c. c \<noteq> CHR ''='' \<and> c \<noteq> CHR '';''"
  defines "part \<equiv> takeWhile (\<lambda>c. c \<noteq> CHR '';'') s"
  shows "dropWhile (\<lambda>c. c \<noteq> CHR '';'') (dropWhile in_name s) = dropWhile (\<lambda>c. c \<noteq> CHR '';'') s"
    "CHR ''='' \<in> set part \<longleftrightarrow> (\<exists>r. dropWhile in_name s = CHR ''='' # r)"
    "CHR ''='' \<in> set part \<Longrightarrow> takeWhile (\<lambda>c. c \<noteq> CHR ''='') part = takeWhile in_name s"
    "CHR ''='' \<in> set part \<Longrightarrow> tl (dropWhile (\<lambda>c. c \<noteq> CHR ''='') part) = takeWhile (\<lambda>c. c \<noteq> CHR '';'') (tl (dropWhile in_name s))"
  unfolding in_name_def part_def by (induction s) auto

lemma blank_before_semicolon:
  "takeWhile (\<lambda>c. c \<noteq> CHR '';'') (dropWhile blank s) = dropWhile blank (takeWhile (\<lambda>c. c \<noteq> CHR '';'') s)"
  "dropWhile (\<lambda>c. c \<noteq> CHR '';'') (dropWhile blank s) = dropWhile (\<lambda>c. c \<noteq> CHR '';'') s"
  by (induction s) (auto simp: blank_def)

lemma cookie_scan_exact: "cookie_scan token cursor \<longleftrightarrow> has_cookie token cursor"
proof (induction token cursor rule: cookie_scan.induct)
  case (1 token cursor)
  let ?skipped = "dropWhile (\<lambda>c. c = CHR '';'' \<or> blank c) cursor"
  show ?case
  proof (cases ?skipped)
    case Nil
    moreover have "\<not> has_cookie token []" by (simp add: has_cookie_def)
    ultimately have "\<not> has_cookie token cursor" using has_cookie_skip [of token cursor] by metis
    moreover have "\<not> cookie_scan token cursor" unfolding cookie_scan.simps [of token cursor] Nil list.case by simp
    ultimately show ?thesis by simp
  next
    case (Cons start rest_chars)
    define s where "s = start # rest_chars"
    define in_name where "in_name = (\<lambda>c. c \<noteq> CHR ''='' \<and> c \<noteq> CHR '';'')"
    define rest where "rest = dropWhile in_name s"
    have start: "start \<noteq> CHR '';''" "\<not> blank start" using dropWhile_head [OF Cons] by auto
    have h: "has_cookie token cursor = has_cookie token s" using has_cookie_skip [of token cursor] by (simp add: Cons s_def)
    note scan = name_scan [of s, folded in_name_def, folded rest_def]
    show ?thesis
    proof (cases "rest = [] \<or> hd rest \<noteq> CHR ''=''")
      case True
      then have "CHR ''='' \<notin> set (takeWhile (\<lambda>c. c \<noteq> CHR '';'') s)" using scan(2) by auto
      then have "\<not> holds_cookie token (takeWhile (\<lambda>c. c \<noteq> CHR '';'') s)" by (simp add: holds_cookie_def)
      moreover have "cookie_scan token cursor = cookie_scan token (dropWhile (\<lambda>c. c \<noteq> CHR '';'') rest)"
        unfolding cookie_scan.simps [of token cursor] Cons list.case Let_def
        unfolding in_name_def [symmetric] s_def [symmetric]
          rest_def [symmetric] using True by simp
      ultimately show ?thesis
        using "1.IH"(1) [OF Cons refl refl refl] True has_cookie_parts [of token s] scan(1) h
        by (simp add: in_name_def [symmetric] s_def [symmetric] rest_def [symmetric])
    next
      case False
      define cur where "cur = dropWhile blank (tl rest)"
      define val where "val = trim_right (takeWhile (\<lambda>c. c \<noteq> CHR '';'') cur)"
      let ?part = "takeWhile (\<lambda>c. c \<noteq> CHR '';'') s"
      have eq: "CHR ''='' \<in> set ?part" using scan(2) False by (cases rest) auto
      have name: "trim (takeWhile in_name s) = trim_right (takeWhile in_name s)"
        using start by (simp add: trim_def s_def)
      have val: "trim (takeWhile (\<lambda>c. c \<noteq> CHR '';'') (tl rest)) = val"
        by (simp add: val_def cur_def trim_def blank_before_semicolon)
      have part: "holds_cookie token ?part \<longleftrightarrow> trim_right (takeWhile in_name s) = kSessionCookie \<and> val = token"
        unfolding holds_cookie_def scan(3) [OF eq] scan(4) [OF eq] name val using eq by simp
      have drop: "dropWhile (\<lambda>c. c \<noteq> CHR '';'') cur = dropWhile (\<lambda>c. c \<noteq> CHR '';'') s"
        using False scan(1) by (cases rest) (simp_all add: cur_def blank_before_semicolon)
      have step: "cookie_scan token cursor = (if trim_right (takeWhile in_name s) = kSessionCookie \<and> length val = length token \<and>
          constantTimeEquals val token then True else cookie_scan token (dropWhile (\<lambda>c. c \<noteq> CHR '';'') cur))"
        unfolding cookie_scan.simps [of token cursor] Cons list.case Let_def
        unfolding in_name_def [symmetric] s_def [symmetric]
          rest_def [symmetric] cur_def [symmetric] val_def [symmetric] using False by simp
      have same: "length val = length token \<and> constantTimeEquals val token \<longleftrightarrow> val = token"
        using constantTimeEquals_iff by auto
      show ?thesis
        using "1.IH"(2) [OF Cons refl refl refl _ refl refl] False part step h has_cookie_parts [of token s] drop same
        by (simp add: in_name_def [symmetric] s_def [symmetric] rest_def [symmetric] cur_def [symmetric] val_def [symmetric])
          metis
    qed
  qed
qed

text \<open>
  The session is recognised exactly by its cookie: the scanner accepts a header for a token if and
  only if one of the parts of the header between semicolons has the form of a name, an equals sign and a
  value where the name, without blanks around it, is MBSESSION and the value, without blanks around it,
  is the token.
\<close>

theorem session_cookie_exact:
  assumes "token \<noteq> []"
  shows "hasSessionCookie (Some header) (Some token) \<longleftrightarrow>
    (\<exists>part \<in> set (segments header). CHR ''='' \<in> set part \<and>
       trim (takeWhile (\<lambda>c. c \<noteq> CHR ''='') part) = kSessionCookie \<and> trim (tl (dropWhile (\<lambda>c. c \<noteq> CHR ''='') part)) = token)"
  using assms cookie_scan_exact [of token header] by (simp add: hasSessionCookie_def has_cookie_def holds_cookie_def)

lemma session_cookie_exact_witness:
  "hasSessionCookie (Some ''theme=dark; MBSESSION = 0a1b ;x'') (Some ''0a1b'')"
proof (rule session_cookie_exact [THEN iffD2])
  have "'' MBSESSION = 0a1b '' \<in> set (segments ''theme=dark; MBSESSION = 0a1b ;x'')"
    "holds_cookie ''0a1b'' '' MBSESSION = 0a1b ''" by code_simp+
  then show "\<exists>part \<in> set (segments ''theme=dark; MBSESSION = 0a1b ;x''). CHR ''='' \<in> set part \<and>
      trim (takeWhile (\<lambda>c. c \<noteq> CHR ''='') part) = kSessionCookie \<and> trim (tl (dropWhile (\<lambda>c. c \<noteq> CHR ''='') part)) = ''0a1b''"
    unfolding holds_cookie_def by blast
qed simp

section \<open>Guessing the password\<close>

text \<open>Attempts with a wrong password at given times, counting those that are let through.\<close>

definition attempt :: "nat \<Rightarrow> nat \<times> login_throttle \<Rightarrow> nat \<times> login_throttle" where
  "attempt t = (\<lambda>(n, l). (if throttle_allowed l (of_nat t) then n + 1 else n, recordFailure (of_nat t) l))"

text \<open>The time the first \<open>k\<close> locks take: 30, 60, 120, 240 and 480 seconds, and 15 minutes each from then on.\<close>

definition total_lock :: "nat \<Rightarrow> nat" where
  "total_lock k = (\<Sum>j < k. unat (lock_duration (of_nat (min j 5))))"

lemma lock_durations:
  "lock_duration 0 = 30000" "lock_duration 1 = 60000" "lock_duration 2 = 120000" "lock_duration 3 = 240000"
  "lock_duration 4 = 480000" "lock_duration 5 = 900000"
  by (simp_all add: lock_duration_def kMaxLockTier_def kInitialLockMs_def kMaximumLockMs_def push_bit_eq_mult)

lemma lock_range: "0 < unat (lock_duration (of_nat (min k 5))) \<and> unat (lock_duration (of_nat (min k 5))) \<le> 900000"
proof -
  have "min k 5 \<in> set [0, 1, 2, 3, 4, 5]" by auto
  moreover have "\<forall>j \<in> set [0, 1, 2, 3, 4, 5]. 0 < unat (lock_duration (of_nat j)) \<and> unat (lock_duration (of_nat j)) \<le> 900000"
    by (simp add: lock_durations)
  ultimately show ?thesis by blast
qed

definition throttle_inv :: "nat \<Rightarrow> nat \<times> login_throttle \<Rightarrow> bool" where
  "throttle_inv t s = (case s of (n, l) \<Rightarrow> (n = 0 \<or> total_lock ((n - 1) div 5) \<le> t) \<and>
     th_failureCount l = of_nat (n mod 5) \<and> th_lockTier l = of_nat (min (n div 5) 5) \<and>
     (if n < 5 then th_lockUntilMs l = 0
      else \<exists>u. th_lockUntilMs l = of_nat u \<and> 0 < u \<and> u < 2 ^ 31 \<and> total_lock (n div 5) \<le> u))"

lemma nat_time:
  assumes "t < 2 ^ 31" "u < 2 ^ 31"
  shows "time_reached (of_nat t) (of_nat u) \<longleftrightarrow> u \<le> t"
proof -
  have "unat (of_nat u :: u32) = u" by (rule unat_of_nat_small) (use assms in simp)
  then show ?thesis using deadline_exact [of "of_nat u" t 0] assms by simp
qed

lemma attempt_inv:
  assumes "throttle_inv t s" "t \<le> t'" "t' < 2 ^ 31 - 900000"
  shows "throttle_inv t' (attempt t' s)"
proof -
  obtain n l where s: "s = (n, l)" by fastforce
  have l: "n = 0 \<or> total_lock ((n - 1) div 5) \<le> t" "th_failureCount l = of_nat (n mod 5)" "th_lockTier l = of_nat (min (n div 5) 5)"
    using assms(1) by (auto simp: throttle_inv_def s)
  show ?thesis
  proof (cases "throttle_allowed l (of_nat t')")
    case False
    then have "attempt t' s = s" by (simp add: attempt_def s recordFailure_def)
    then show ?thesis using assms(1,2) by (auto simp: throttle_inv_def s)
  next
    case True
    have reached: "total_lock (n div 5) \<le> t'"
    proof (cases "n < 5")
      case False
      then obtain u where u: "th_lockUntilMs l = of_nat u" "0 < u" "u < 2 ^ 31" "total_lock (n div 5) \<le> u"
        using assms(1) by (auto simp: throttle_inv_def s)
      have "unat (of_nat u :: u32) = u" by (rule unat_of_nat_small) (use u(3) in simp)
      then have "(of_nat u :: u32) \<noteq> 0" using u(2) by (metis less_irrefl unat_0)
      then have "u \<le> t'" using True nat_time [of t' u] u(1,3) assms(3) by (simp add: throttle_allowed_def)
      with u(4) show ?thesis by simp
    qed (simp add: total_lock_def)
    have f: "unat (th_failureCount l) = n mod 5" using l(2) by (simp add: unat_of_nat_small)
    then have f5: "th_failureCount l < 255" by (simp add: word_less_nat_alt)
    have plus: "th_failureCount l + 1 = of_nat (Suc (n mod 5))" using l(2) by simp
    have below: "th_failureCount l + 1 < kFailuresBeforeLock \<longleftrightarrow> n mod 5 < 4"
    proof -
      have "unat (of_nat (Suc (n mod 5)) :: u8) = Suc (n mod 5)" by (rule unat_of_nat_small) (simp add: less_Suc_eq_le mod_less_divisor [THEN less_imp_le])
      then show ?thesis unfolding plus word_less_nat_alt by (simp add: kFailuresBeforeLock_def)
    qed
    show ?thesis
    proof (cases "n mod 5 < 4")
      case True
      have "attempt t' s = (n + 1, l\<lparr>th_failureCount := th_failureCount l + 1\<rparr>)"
        using \<open>throttle_allowed l _\<close> f5 below True by (simp add: attempt_def s recordFailure_def Let_def)
      moreover have "Suc n div 5 = n div 5" "Suc n mod 5 = Suc (n mod 5)" "Suc n < 5 \<longleftrightarrow> n < 5" using True by presburger+
      ultimately show ?thesis using assms(1) reached l plus by (auto simp: throttle_inv_def s)
    next
      case False
      have m: "n mod 5 = 4" using False by presburger
      then have d: "Suc n div 5 = Suc (n div 5)" "Suc n mod 5 = 0" "\<not> Suc n < 5" by presburger+
      let ?lock = "lock_duration (of_nat (min (n div 5) 5))"
      let ?u = "t' + unat ?lock"
      have a: "attempt t' s = (n + 1, \<lparr>th_failureCount = 0,
          th_lockTier = (if th_lockTier l < kMaxLockTier then th_lockTier l + 1 else th_lockTier l), th_lockUntilMs = of_nat t' + ?lock\<rparr>)"
        using \<open>throttle_allowed l _\<close> f5 below False l(3) by (simp add: attempt_def s recordFailure_def Let_def)
      have tier: "(if th_lockTier l < kMaxLockTier then th_lockTier l + 1 else th_lockTier l) = of_nat (min (Suc (n div 5)) 5)"
        unfolding l(3) by (auto simp: kMaxLockTier_def word_less_nat_alt unat_of_nat_small min_def)
      have "of_nat t' + ?lock = (of_nat ?u :: u32)" by simp
      moreover have "0 < ?u \<and> ?u < 2 ^ 31"
        using assms(3) lock_range [of "n div 5"] by simp
      moreover have "total_lock (Suc (n div 5)) \<le> ?u" using reached by (simp add: total_lock_def)
      ultimately have "\<exists>u. of_nat t' + ?lock = (of_nat u :: u32) \<and> 0 < u \<and> u < 2 ^ 31 \<and> total_lock (Suc (n div 5)) \<le> u" by blast
      moreover have "\<not> n < 4" using d(3) by simp
      ultimately show ?thesis using reached by (simp add: throttle_inv_def a d(1,2) tier)
    qed
  qed
qed

text \<open>
  C33. The password cannot be guessed faster than the locks allow: whatever wrong attempts are made, at
  whatever rate, of the attempts that are let through the one after every fifth comes no earlier than
  all the locks before it take together: 30, 60, 120, 240 and 480 seconds and 15 minutes each from then
  on. This holds in the first 24 days of uptime.
\<close>

theorem guessing_bounded:
  assumes "sorted (earlier @ [t])" "t < 2 ^ 31 - 900000" "fold attempt (earlier @ [t]) (0, initial_throttle) = (n, l)" "0 < n"
  shows "total_lock ((n - 1) div 5) \<le> t"
proof -
  have "sorted ts \<Longrightarrow> \<forall>x \<in> set ts. x \<le> u \<and> v \<le> x \<Longrightarrow> u < 2 ^ 31 - 900000 \<Longrightarrow> v \<le> u \<Longrightarrow> throttle_inv v s \<Longrightarrow>
      throttle_inv u (fold attempt ts s)" for ts u v s
  proof (induction ts arbitrary: v s)
    case Nil
    then show ?case by (auto simp: throttle_inv_def)
  next
    case (Cons x ts)
    then show ?case by (auto intro!: Cons.IH [of x] attempt_inv [of v])
  qed
  moreover have "throttle_inv 0 (0, initial_throttle)" by (simp add: throttle_inv_def initial_throttle_def)
  moreover have "\<forall>x \<in> set (earlier @ [t]). x \<le> t \<and> 0 \<le> x" using assms(1) by (auto simp: sorted_append)
  ultimately have "throttle_inv t (fold attempt (earlier @ [t]) (0, initial_throttle))"
    using assms(1,2) by blast
  then show ?thesis using assms(3,4) by (simp add: throttle_inv_def)
qed

lemma guessing_bounded_witness:
  "fst (fold attempt ([0, 0, 0, 0, 0, 29999] @ [30000]) (0, initial_throttle)) = 6 \<and> total_lock 1 \<le> 30000"
proof
  show six: "fst (fold attempt ([0, 0, 0, 0, 0, 29999] @ [30000]) (0, initial_throttle)) = 6"
    by (simp add: attempt_def recordFailure_def initial_throttle_def throttle_allowed_def kFailuresBeforeLock_def
        kMaxLockTier_def lock_durations time_reached_iff unsigned_minus_1_eq_mask mask_eq_exp_minus_1 Let_def)
  obtain n l where r: "fold attempt ([0, 0, 0, 0, 0, 29999] @ [30000]) (0, initial_throttle) = (n, l)" by fastforce
  with six have "n = 6" by simp
  with guessing_bounded [OF _ _ r] show "total_lock 1 \<le> 30000" by simp
qed

section \<open>Setting the password\<close>

text \<open>The writes of \<^verbatim>\<open>store_admin\<close> in their order.\<close>

definition admin_entries :: "string \<Rightarrow> string \<Rightarrow> bool \<Rightarrow> (string \<times> PrefValue) list" where
  "admin_entries salt hash initialized =
     [(''admin_salt'', PvString salt), (''admin_hash'', PvString hash), (''admin_kdf'', PvString kKdfAlgorithm),
      (''admin_iter'', PvU32 kCurrentIterations), (''admin_init'', PvBool initialized)]"

lemma store_admin_fold:
  "store_admin P salt hash initialized s = fold (\<lambda>(k, v) s. snd (pf_put P k v s)) (admin_entries salt hash initialized) s"
  by (simp add: store_admin_def put_ignored_def admin_entries_def)

lemma admin_stored:
  assumes "prefs_laws P" "writes_stored P (admin_entries salt hash i) s"
  shows "pf_get P (store_admin P salt hash i s) j =
    (case map_of (admin_entries salt hash i) j of Some v \<Rightarrow> Some v | None \<Rightarrow> pf_get P s j)"
  unfolding store_admin_fold using assms by (rule put_all) (simp add: admin_entries_def)

lemma verify_after_set:
  assumes "prefs_laws P" "length saltRandom = 16" "salt = generateHex saltRandom" "hash = pbkdf2Sha256 C password salt kCurrentIterations"
    "setAdminPassword P C saltRandom password s = (True, s')" "writes_stored P (admin_entries salt hash True) (se_ns s)"
  shows "verifyAdminPassword P C x s' \<longleftrightarrow> pbkdf2Sha256 C x salt kCurrentIterations = hash" "adminInitialized P s'"
proof -
  have s': "hash \<noteq> []" "s' = s\<lparr>se_ns := store_admin P salt hash True (se_ns s), se_initialAdminPassword := []\<rparr>"
    using assms(3-5) by (auto simp: setAdminPassword_def Let_def split: if_splits)
  note get = admin_stored [OF assms(1,6)]
  have salt: "salt \<noteq> []" using assms(2,3) by (cases saltRandom) (auto simp: generateHex_def lower_byte_def)
  have "kdf_isSupported (storedOrLegacyAlgorithm (Some (c_str kKdfAlgorithm))) (storedOrLegacyIterations kCurrentIterations)"
    "storedOrLegacyIterations kCurrentIterations = kCurrentIterations"
    by (simp_all add: kdf_isSupported_def storedOrLegacyAlgorithm_def storedOrLegacyIterations_def c_str_def kKdfAlgorithm_def
        kCurrentIterations_def kMinAcceptedIterations_def kMaxAcceptedIterations_def)
  then show "verifyAdminPassword P C x s' \<longleftrightarrow> pbkdf2Sha256 C x salt kCurrentIterations = hash"
    using s' salt constantTimeEquals_iff [of "pbkdf2Sha256 C x salt kCurrentIterations" hash]
    by (auto simp: verifyAdminPassword_def pf_getString_def pf_getUInt_def get admin_entries_def Let_def)
  show "adminInitialized P s'"
    by (simp add: s' adminInitialized_def pf_getBool_def get admin_entries_def)
qed

text \<open>
  C34. The password that was set is the one that is verified. Setting it succeeds exactly for ten
  characters or more with a key that can be derived, whatever becomes of the writes, and otherwise changes
  nothing. When it succeeds the initial password is no longer displayed; and when each of its five writes
  took effect, a text is accepted exactly if its derived key under the new salt is that of the password, so
  the password itself is. When a write was refused nothing is promised.
\<close>

theorem password_set:
  assumes "prefs_laws P" "length saltRandom = 16" "salt = generateHex saltRandom" "hash = pbkdf2Sha256 C password salt kCurrentIterations"
    "setAdminPassword P C saltRandom password s = (ok, s')"
  shows "(ok \<longleftrightarrow> 10 \<le> length password \<and> hash \<noteq> []) \<and> (\<not> ok \<longrightarrow> s' = s) \<and> (ok \<longrightarrow> \<not> hasInitialAdminPasswordForDisplay P s') \<and>
    (ok \<and> writes_stored P (admin_entries salt hash True) (se_ns s) \<longrightarrow>
       (verifyAdminPassword P C x s' \<longleftrightarrow> pbkdf2Sha256 C x salt kCurrentIterations = hash) \<and>
       verifyAdminPassword P C password s' \<and> adminInitialized P s')"
proof -
  have "ok \<longleftrightarrow> 10 \<le> length password \<and> hash \<noteq> []" "\<not> ok \<longrightarrow> s' = s" "ok \<longrightarrow> \<not> hasInitialAdminPasswordForDisplay P s'"
    using assms(3-5) by (auto simp: setAdminPassword_def hasInitialAdminPasswordForDisplay_def Let_def split: if_splits)
  moreover have "verifyAdminPassword P C y s' \<longleftrightarrow> pbkdf2Sha256 C y salt kCurrentIterations = hash" "adminInitialized P s'"
    if "ok" "writes_stored P (admin_entries salt hash True) (se_ns s)" for y
    using verify_after_set [OF assms(1-4), of s s'] assms(5) that by simp_all
  ultimately show ?thesis using assms(4) by blast
qed

text \<open>A toy digest of 32 bytes that depends on every byte of its input.\<close>

definition sum_hmac :: "bytes \<Rightarrow> bytes \<Rightarrow> bytes" where
  "sum_hmac key message = replicate 32 (sum_list key * 31 + sum_list message)"

definition sum_crypto :: crypto where
  "sum_crypto = \<lparr>cy_sha256 = True, cy_hmac = (\<lambda>k m. Some (sum_hmac k m)),
     cy_gcm_encrypt = (\<lambda>k n a p. Some (p, replicate 16 0)), cy_gcm_decrypt = (\<lambda>k n a t c. Some c),
     cy_base64_encode = (\<lambda>_ bs. Some (map (\<lambda>b. char_of (unat b)) bs)), cy_base64_decode = (\<lambda>_ s. Some (text_bytes s))\<rparr>"

lemma rounds_total:
  assumes "\<And>k m. cy_hmac C k m = Some (f k m)" "\<And>k m. length (f k m) = len" "length t = len"
  shows "\<exists>r. pbkdf2_rounds C pw n u t = Some r \<and> length r = len"
  using assms(3) by (induction n arbitrary: u t) (simp_all add: assms(1,2))

lemma derived_total:
  assumes "cy_sha256 C" "\<And>k m. cy_hmac C k m = Some (f k m)" "\<And>k m. length (f k m) = 32" "length salt \<le> 64"
  shows "pbkdf2Sha256 C password salt iterations \<noteq> []"
proof -
  obtain r where "pbkdf2_rounds C (text_bytes password) (unat iterations - 1) (f (text_bytes password) (text_bytes salt @ [0, 0, 0, 1]))
      (f (text_bytes password) (text_bytes salt @ [0, 0, 0, 1])) = Some r" "length r = 32"
    using rounds_total [of C f 32, OF assms(2,3,3)] by blast
  moreover have "concat (map lower_byte r) \<noteq> []" if "length r = 32" for r
    using that by (cases r) (simp_all add: lower_byte_def)
  ultimately show ?thesis using assms(1,2,4) by (simp add: pbkdf2Sha256_def)
qed

lemma password_set_witness:
  "verifyAdminPassword map_prefs sum_crypto ''correct horse''
     (snd (setAdminPassword map_prefs sum_crypto (replicate 16 7) ''correct horse'' \<lparr>se_ns = Map.empty, se_initialAdminPassword = ''first''\<rparr>))"
proof -
  have "length (generateHex (replicate 16 7)) \<le> 64"
    by (simp add: generateHex_def lower_byte_def length_concat sum_list_replicate)
  then have "pbkdf2Sha256 sum_crypto ''correct horse'' (generateHex (replicate 16 7)) kCurrentIterations \<noteq> []"
    by (intro derived_total [where f = sum_hmac]) (simp_all add: sum_crypto_def sum_hmac_def)
  then obtain s' where "setAdminPassword map_prefs sum_crypto (replicate 16 7) ''correct horse''
      \<lparr>se_ns = Map.empty, se_initialAdminPassword = ''first''\<rparr> = (True, s')"
    by (simp add: setAdminPassword_def Let_def)
  with password_set [OF map_prefs_laws _ refl refl this] map_prefs_stores show ?thesis by simp
qed

end
