(* ===== verification/BackupProperties.thy ===== *)
theory BackupProperties
  imports Backup SecurityProperties RadioProperties
begin

text \<open>
  What the backups promise: the keys are those of PBKDF2, and a backup that was made restores the
  configuration it was made from.
\<close>

section \<open>Key derivation\<close>

text \<open>
  PBKDF2 with one block, as RFC 8018 defines it: the sum of the iterates of the pseudorandom function,
  the first of them on the salt and the number of the block.
\<close>

definition prf_iterate :: "(bytes \<Rightarrow> bytes \<Rightarrow> bytes) \<Rightarrow> bytes \<Rightarrow> bytes \<Rightarrow> nat \<Rightarrow> bytes" where
  "prf_iterate f password salt i = ((f password) ^^ (i - 1)) (f password (salt @ [0, 0, 0, 1]))"

definition pbkdf2_block :: "(bytes \<Rightarrow> bytes \<Rightarrow> bytes) \<Rightarrow> bytes \<Rightarrow> bytes \<Rightarrow> nat \<Rightarrow> bytes" where
  "pbkdf2_block f password salt c =
     foldl (map2 (XOR)) (prf_iterate f password salt 1) (map (prf_iterate f password salt) [2..<Suc c])"

lemma rounds_iterate:
  assumes "\<And>k m. cy_hmac C k m = Some (f k m)"
  shows "pbkdf2_rounds C pw n u t = Some (foldl (map2 (XOR)) t (map (\<lambda>i. (f pw ^^ i) u) [1..<Suc n]))"
proof (induction n arbitrary: u t)
  case (Suc n)
  have "map (\<lambda>i. (f pw ^^ i) u) [1..<Suc (Suc n)] = f pw u # map (\<lambda>i. (f pw ^^ i) (f pw u)) [1..<Suc n]"
    by (subst upt_conv_Cons, simp, simp only: map_Suc_upt [symmetric] One_nat_def list.map map_map)
      (simp add: funpow_swap1 o_def)
  with Suc assms show ?case by simp
qed simp

lemma rounds_block:
  assumes "\<And>k m. cy_hmac C k m = Some (f k m)" "0 < c"
  shows "pbkdf2_rounds C pw (c - 1) (prf_iterate f pw salt 1) (prf_iterate f pw salt 1) = Some (pbkdf2_block f pw salt c)"
proof -
  have "map (prf_iterate f pw salt) [2..<Suc c] = map (\<lambda>i. (f pw ^^ i) (prf_iterate f pw salt 1)) [1..<Suc (c - 1)]"
    using assms(2) by (intro nth_equalityI) (auto simp: prf_iterate_def nth_append simp del: upt_Suc)
  then show ?thesis by (simp add: rounds_iterate [OF assms(1)] pbkdf2_block_def del: upt_Suc)
qed

text \<open>
  C35. Both key derivations are PBKDF2: where the keyed digest never fails, the key of a backup and the
  stored hash of a password, which is written in hexadecimal digits, are the block PBKDF2 defines for the
  passphrase, the salt and the number of iterations.
\<close>

theorem kdf_is_pbkdf2:
  assumes "cy_sha256 C" "\<And>k m. cy_hmac C k m = Some (f k m)" "iterations \<noteq> 0"
  shows "(salt \<noteq> [] \<longrightarrow> deriveKey C password salt iterations = Some (pbkdf2_block f (text_bytes password) salt (unat iterations))) \<and>
    (length salt' \<le> 64 \<longrightarrow> pbkdf2Sha256 C password salt' iterations =
       concat (map lower_byte (pbkdf2_block f (text_bytes password) (text_bytes salt') (unat iterations))))"
proof -
  have "0 < unat iterations" using assms(3) by (simp add: unat_gt_0)
  moreover have "f pw (salt @ [0, 0, 0, 1]) = prf_iterate f pw salt 1" for pw salt by (simp add: prf_iterate_def)
  ultimately show ?thesis
    using assms(1,3) rounds_block [OF assms(2)] by (simp add: deriveKey_def pbkdf2Sha256_def assms(2))
qed

lemma kdf_is_pbkdf2_witness:
  "deriveKey sum_crypto ''secret'' [1, 2] 3 = Some (pbkdf2_block sum_hmac (text_bytes ''secret'') [1, 2] 3)"
  using kdf_is_pbkdf2 [of sum_crypto sum_hmac 3 "[1, 2]" "''secret''" "[]"] by (simp add: sum_crypto_def)

section \<open>Import and export\<close>

text \<open>
  The documents the code writes: texts, truth values, unsigned 32-bit numbers and objects of them, two
  levels deep, with distinct names. The library reads back what it has printed of these.
\<close>

fun plain_scalar :: "json \<Rightarrow> bool" where
  "plain_scalar (JsText _) = True"
| "plain_scalar (JsBool _) = True"
| "plain_scalar (JsNumber n) = (0 \<le> n \<and> n < 2 ^ 32)"
| "plain_scalar _ = False"

fun plain_object :: "(json \<Rightarrow> bool) \<Rightarrow> json \<Rightarrow> bool" where
  "plain_object p (JsObject kvs) = (distinct (map fst kvs) \<and> (\<forall>kv \<in> set kvs. p (snd kv)))"
| "plain_object p _ = False"

definition plain_document :: "json \<Rightarrow> bool" where
  "plain_document = plain_object (\<lambda>j. plain_scalar j \<or> plain_object plain_scalar j)"

definition json_laws :: "json_library \<Rightarrow> bool" where
  "json_laws J = (\<forall>j. plain_document j \<longrightarrow> jl_parse J (jl_pretty J j) = Inr j \<and> jl_pretty J j \<noteq> [])"

text \<open>A configuration in the range of its types, without a zero character in its texts.\<close>

definition exportable :: "DeviceConfig \<Rightarrow> bool" where
  "exportable c = (dc_schemaVersion c = kDeviceConfigSchemaVersion \<and>
     ac_victron (dc_components c) \<in> {0, 1} \<and> ac_gnss (dc_components c) \<in> {0, 1} \<and>
     ac_lora (dc_components c) \<in> {0, kLoRaWanMode} \<and> ac_modbus (dc_components c) \<in> {0, kMasterMode, kSlaveMode} \<and>
     validateLoRaWanConfig (dc_lorawan c) \<and> mqtt_valid (dc_mqtt c) \<and>
     (\<forall>t \<in> {nc_ssid (dc_network c), nc_password (dc_network c), nc_hostname (dc_network c), nc_friendlyName (dc_network c),
        lc_joinEui (dc_lorawan c), lc_appKey (dc_lorawan c), mq_host (dc_mqtt c), mq_username (dc_mqtt c),
        mq_password (dc_mqtt c), mq_topicPrefix (dc_mqtt c), mq_homeAssistantPrefix (dc_mqtt c), mq_caCertificate (dc_mqtt c)}.
        c_str t = t))"

lemma uint_ranges: "uint (b :: u8) \<le> 255" "uint (w :: u16) \<le> 65535" "uint (d :: u32) < 4294967296"
  using uint_lt2p [of b] uint_lt2p [of w] uint_lt2p [of d] by simp_all

lemma document_plain:
  "plain_document (backup_document c)"
proof -
  have "uint (lc_extensionFPort (dc_lorawan c)) < 4294967296" "uint (mq_port (dc_mqtt c)) < 4294967296"
    "uint (mq_publishIntervalSeconds (dc_mqtt c)) < 4294967296"
    using uint_ranges(1) [of "lc_extensionFPort (dc_lorawan c)"] uint_ranges(2) [of "mq_port (dc_mqtt c)"]
      uint_ranges(2) [of "mq_publishIntervalSeconds (dc_mqtt c)"] by linarith+
  then show ?thesis
    by (simp add: plain_document_def backup_document_def components_document_def network_document_def lorawan_document_def
        mqtt_document_def uint_ranges(3) kBackupSchemaVersion_def)
qed

lemma components_back:
  assumes "ac_victron c \<in> {0, 1}" "ac_gnss c \<in> {0, 1}" "ac_lora c \<in> {0, kLoRaWanMode}" "ac_modbus c \<in> {0, kMasterMode, kSlaveMode}"
  shows "import_components (components_document c) = Some c"
  using assms by (cases c) (auto simp: import_components_def components_document_def text_or_def c_str_def switchValue_def loraValue_def
      modbusValue_def parseSwitch_def parseLoRa_def parseModbus_def kLoRaWanMode_def kMasterMode_def kSlaveMode_def kMeshtasticMode_def)

lemma sections_back:
  assumes "exportable c"
  shows "import_network (network_document (dc_network c)) = dc_network c"
    "import_lorawan (lorawan_document (dc_lorawan c)) = dc_lorawan c"
    "import_mqtt (mqtt_document (dc_mqtt c)) = dc_mqtt c"
proof -
  have range: "uint (w :: u16) \<le> 2147483647" "- 2147483648 \<le> uint w" for w
    using uint_ranges(2) [of w] uint_ge_0 [of w] by linarith+
  show "import_network (network_document (dc_network c)) = dc_network c"
    using assms by (cases "dc_network c") (simp add: import_network_def network_document_def text_or_def exportable_def)
  show "import_lorawan (lorawan_document (dc_lorawan c)) = dc_lorawan c"
    using assms by (cases "dc_lorawan c") (simp add: import_lorawan_def lorawan_document_def text_or_def bool_or_def number_or_def
        exportable_def uint_ranges)
  show "import_mqtt (mqtt_document (dc_mqtt c)) = dc_mqtt c"
    using assms by (cases "dc_mqtt c") (simp add: import_mqtt_def mqtt_document_def text_or_def bool_or_def number_or_def
        exportable_def range)
qed

lemma import_export:
  assumes "json_laws J" "exportable c" "exportConfig J c = Some t"
  shows "importConfig J t = Inr c"
proof -
  have t: "jl_parse J t = Inr (backup_document c)"
    using assms(1,3) document_plain [of c] by (auto simp: json_laws_def exportConfig_def Let_def split: if_splits)
  have "validateConfig (dc_components c) = ConfigOk" "dc_schemaVersion c = kDeviceConfigSchemaVersion"
    "validateLoRaWanConfig (dc_lorawan c)" "mqtt_valid (dc_mqtt c)"
    using assms(2) by (auto simp: exportable_def validateConfig_def kMeshtasticMode_def kLoRaWanMode_def)
  moreover have "import_components (components_document (dc_components c)) = Some (dc_components c)"
    using assms(2) by (intro components_back) (simp_all add: exportable_def)
  moreover have "as_object (Some (components_document a)) = Some (components_document a)" "as_object (Some (network_document b)) = Some (network_document b)"
    "as_object (Some (lorawan_document l)) = Some (lorawan_document l)" "as_object (Some (mqtt_document m)) = Some (mqtt_document m)" for a b l m
    by (simp_all add: as_object_def components_document_def network_document_def lorawan_document_def mqtt_document_def)
  moreover note sections_back [OF assms(2)]
  ultimately have "import_sections 3 (backup_document c) = Inr c"
    by (cases c) (simp add: import_sections_def backup_document_def section_of_def)
  then show ?thesis
    using t \<open>dc_schemaVersion c = _\<close>
    by (simp add: importConfig_def backup_document_def text_or_def number_or_def c_str_def kBackupSchemaVersion_def
        kDeviceConfigSchemaVersion_def kBackupFormat_def kDeviceFamily_def kBoard_def)
qed

section \<open>Encryption\<close>

text \<open>
  What the cryptography promises: a text that was encrypted is decrypted under the same key, nonce and
  additional data, with a tag of 16 bytes; base64 is read back into a buffer that is large enough.
\<close>

definition crypto_laws :: "crypto \<Rightarrow> bool" where
  "crypto_laws C = ((\<forall>key nonce aad p c t. cy_gcm_encrypt C key nonce aad p = Some (c, t) \<longrightarrow>
       length c = length p \<and> length t = kTagLength \<and> cy_gcm_decrypt C key nonce aad t c = Some p) \<and>
     (\<forall>cap bs e. bs \<noteq> [] \<longrightarrow> cy_base64_encode C cap bs = Some e \<longrightarrow> length bs \<le> length e div 4 * 3 + 3 \<and> c_str e = e \<and> e \<noteq> [] \<and>
       (\<forall>cap'. length bs \<le> cap' \<longrightarrow> cy_base64_decode C cap' e = Some bs)))"

lemma base64_back:
  assumes "crypto_laws C" "encodeBase64 C bs = Some e"
  shows "decodeBase64 C e = Some bs \<and> c_str e = e"
proof -
  have e: "bs \<noteq> []" "cy_base64_encode C ((length bs + 2) div 3 * 4 + 1) bs = Some e"
    using assms(2) by (auto simp: encodeBase64_def split: if_splits)
  then have l: "length bs \<le> length e div 4 * 3 + 3" "c_str e = e" "e \<noteq> []" "\<forall>cap'. length bs \<le> cap' \<longrightarrow> cy_base64_decode C cap' e = Some bs"
    using assms(1) unfolding crypto_laws_def by blast+
  then show ?thesis using e(1) by (simp add: decodeBase64_def)
qed

lemma text_bytes_back: "map (\<lambda>b. char_of (unat b)) (text_bytes t) = t"
proof -
  have "char_of (unat (of_char c :: u8)) = c" for c :: char
  proof -
    have "unat (of_nat (of_char c) :: u8) = of_char c" by (rule unat_of_nat_small) simp
    then show ?thesis by (simp only: of_nat_of_char) simp
  qed
  then show ?thesis by (simp add: text_bytes_def comp_def)
qed

lemma decrypt_encrypt:
  assumes "json_laws J" "crypto_laws C" "length salt = kSaltLength" "length nonce = kNonceLength"
    "backup_encrypt C J salt nonce plaintext passphrase = Inr output"
  shows "backup_decrypt C J output passphrase = Inr plaintext"
proof -
  from assms(5) obtain key ciphertext tag salt64 nonce64 tag64 ciphertext64 doc where
    e: "plaintext \<noteq> []" "\<not> length passphrase < kMinimumPassphraseLength" "deriveKey C passphrase salt kBackupIterations = Some key"
      "cy_gcm_encrypt C key nonce kAad (text_bytes plaintext) = Some (ciphertext, tag)"
      "encodeBase64 C salt = Some salt64" "encodeBase64 C nonce = Some nonce64" "encodeBase64 C tag = Some tag64"
      "encodeBase64 C ciphertext = Some ciphertext64" and
    doc: "doc = JsObject [(''format'', JsText kEncryptedFormat), (''version'', JsNumber 1),
       (''kdf'', JsText kEnvelopeKdf), (''iterations'', JsNumber (uint kBackupIterations)),
       (''cipher'', JsText kEnvelopeCipher), (''salt'', JsText salt64), (''nonce'', JsText nonce64),
       (''tag'', JsText tag64), (''ciphertext'', JsText ciphertext64)]" "output = jl_pretty J doc"
    unfolding backup_encrypt_def Let_def by (auto split: if_splits option.splits)
  have "plain_document doc" by (simp add: doc plain_document_def kBackupIterations_def)
  then have parse: "jl_parse J output = Inr doc" using assms(1) by (simp add: json_laws_def doc(2))
  note b = base64_back [OF assms(2)]
  have gcm: "length tag = kTagLength" "cy_gcm_decrypt C key nonce kAad tag ciphertext = Some (text_bytes plaintext)"
    using assms(2) e(4) unfolding crypto_laws_def by blast+
  have fields: "text_or (member doc ''salt'') [] = salt64" "text_or (member doc ''nonce'') [] = nonce64"
    "text_or (member doc ''tag'') [] = tag64" "text_or (member doc ''ciphertext'') [] = ciphertext64"
    using b [OF e(5)] b [OF e(6)] b [OF e(7)] b [OF e(8)] by (simp_all add: doc(1) text_or_def)
  have head: "text_or (member doc ''format'') [] = kEncryptedFormat" "number_or 0 4294967295 (member doc ''version'') 0 = 1"
    "text_or (member doc ''kdf'') [] = kEnvelopeKdf" "text_or (member doc ''cipher'') [] = kEnvelopeCipher"
    "number_or 0 4294967295 (member doc ''iterations'') 0 = uint kBackupIterations"
    by (simp_all add: doc(1) text_or_def number_or_def c_str_def kEncryptedFormat_def kEnvelopeKdf_def kEnvelopeCipher_def
        kBackupIterations_def)
  have it: "\<not> (kBackupIterations < 100000 \<or> kBackupIterations > 1000000)" by (simp add: kBackupIterations_def)
  show ?thesis
    using e(1-3) b [OF e(5)] b [OF e(6)] b [OF e(7)] b [OF e(8)] gcm it
    by (simp add: backup_decrypt_def parse head fields assms(3,4) text_bytes_back Let_def)
qed

text \<open>
  C12. A backup restores the configuration: whatever configuration in the range of its types, valid and
  without a zero character in its texts is exported and encrypted with a passphrase, decrypting it with the
  same passphrase gives the exported text, and importing that gives the configuration, field by field.
\<close>

theorem backup_restores:
  assumes "json_laws J" "crypto_laws C" "exportable c" "exportConfig J c = Some t"
    "length salt = kSaltLength" "length nonce = kNonceLength" "backup_encrypt C J salt nonce t passphrase = Inr output"
  shows "backup_decrypt C J output passphrase = Inr t \<and> importConfig J t = Inr c"
  using decrypt_encrypt [OF assms(1,2,5-7)] import_export [OF assms(1,3,4)] by simp

section \<open>A library and a cryptography that fulfil the laws\<close>

definition enc_text :: "string \<Rightarrow> string" where
  "enc_text s = concat (map (\<lambda>c. [CHR ''c'', c]) s) @ ''.''"

fun dec_text :: "string \<Rightarrow> (string \<times> string) option" where
  "dec_text (t # r) = (if t = CHR ''.'' then Some ([], r)
     else (case r of [] \<Rightarrow> None | c # r' \<Rightarrow> (case dec_text r' of None \<Rightarrow> None | Some (s, q) \<Rightarrow> Some (c # s, q))))"
| "dec_text [] = None"

lemma dec_enc_text [simp]: "dec_text (enc_text s @ r) = Some (s, r)"
  by (induction s) (simp_all add: enc_text_def)

fun enc_scalar :: "json \<Rightarrow> string" where
  "enc_scalar (JsText s) = CHR ''t'' # enc_text s"
| "enc_scalar (JsBool b) = [CHR ''b'', if b then CHR ''1'' else CHR ''0'']"
| "enc_scalar (JsNumber n) = CHR ''n'' # enc_text (replicate (nat n) CHR ''1'')"
| "enc_scalar _ = ''x''"

definition dec_scalar :: "string \<Rightarrow> (json \<times> string) option" where
  "dec_scalar s = (case s of [] \<Rightarrow> None | t # r \<Rightarrow>
     if t = CHR ''t'' then map_option (apfst JsText) (dec_text r)
     else if t = CHR ''n'' then map_option (apfst (\<lambda>u. JsNumber (int (length u)))) (dec_text r)
     else if t = CHR ''b'' \<and> r \<noteq> [] then Some (JsBool (hd r = CHR ''1''), tl r) else None)"

lemma dec_enc_scalar: "plain_scalar j \<Longrightarrow> dec_scalar (enc_scalar j @ r) = Some (j, r)"
  by (cases j) (simp_all add: dec_scalar_def)

definition enc_members :: "(json \<Rightarrow> string) \<Rightarrow> (string \<times> json) list \<Rightarrow> string" where
  "enc_members e kvs = concat (map (\<lambda>(k, v). CHR ''m'' # enc_text k @ e v) kvs) @ '')''"

fun dec_members :: "(string \<Rightarrow> (json \<times> string) option) \<Rightarrow> nat \<Rightarrow> string \<Rightarrow> ((string \<times> json) list \<times> string) option" where
  "dec_members d (Suc n) (t # r) = (if t = CHR '')'' then Some ([], r)
     else (case dec_text r of None \<Rightarrow> None | Some (k, r) \<Rightarrow> (case d r of None \<Rightarrow> None | Some (v, r) \<Rightarrow>
       (case dec_members d n r of None \<Rightarrow> None | Some (kvs, r) \<Rightarrow> Some ((k, v) # kvs, r)))))"
| "dec_members d _ _ = None"

lemma dec_enc_members:
  assumes "\<And>v r. v \<in> snd ` set kvs \<Longrightarrow> d (e v @ r) = Some (v, r)" "length kvs < n"
  shows "dec_members d n (enc_members e kvs @ r) = Some (kvs, r)"
  using assms
proof (induction kvs arbitrary: n)
  case Nil
  then show ?case by (cases n) (simp_all add: enc_members_def)
next
  case (Cons kv kvs)
  obtain k v where kv: "kv = (k, v)" by fastforce
  obtain m where n: "n = Suc m" "length kvs < m" using Cons.prems(2) by (cases n) auto
  have "dec_members d m (enc_members e kvs @ r) = Some (kvs, r)" using Cons n(2) by auto
  moreover have "enc_members e (kv # kvs) @ r = CHR ''m'' # enc_text k @ e v @ enc_members e kvs @ r"
    by (simp add: enc_members_def kv)
  ultimately show ?case using Cons.prems(1) [of v] by (simp add: n(1) kv)
qed

lemma members_long: "length kvs < length (enc_members e kvs)"
  by (induction kvs) (auto simp: enc_members_def)

definition enc_value :: "json \<Rightarrow> string" where
  "enc_value j = (case j of JsObject kvs \<Rightarrow> CHR ''o'' # enc_members enc_scalar kvs | _ \<Rightarrow> enc_scalar j)"

definition dec_value :: "string \<Rightarrow> (json \<times> string) option" where
  "dec_value s = (case s of t # r \<Rightarrow> if t = CHR ''o'' then map_option (apfst JsObject) (dec_members dec_scalar (length r) r) else dec_scalar s
     | [] \<Rightarrow> None)"

lemma dec_enc_value:
  assumes "plain_scalar j \<or> plain_object plain_scalar j"
  shows "dec_value (enc_value j @ r) = Some (j, r)"
proof (cases j)
  case (JsObject kvs)
  have "dec_members dec_scalar (length (enc_members enc_scalar kvs @ r)) (enc_members enc_scalar kvs @ r) = Some (kvs, r)"
    using assms JsObject members_long [of kvs enc_scalar] by (intro dec_enc_members) (auto intro: dec_enc_scalar)
  then show ?thesis by (simp add: enc_value_def dec_value_def JsObject)
qed (use assms dec_enc_scalar [of j r] in \<open>auto simp: enc_value_def dec_value_def\<close>)

definition tagged_json :: json_library where
  "tagged_json = \<lparr>jl_parse = (\<lambda>s. case dec_members dec_value (length s) s of Some (kvs, _) \<Rightarrow> Inr (JsObject kvs) | None \<Rightarrow> Inl []),
     jl_pretty = (\<lambda>j. case j of JsObject kvs \<Rightarrow> enc_members enc_value kvs | _ \<Rightarrow> ''x'')\<rparr>"

lemma tagged_json_laws: "json_laws tagged_json"
proof -
  have "dec_members dec_value (length (enc_members enc_value kvs)) (enc_members enc_value kvs) = Some (kvs, []) \<and> enc_members enc_value kvs \<noteq> []"
    if "plain_document (JsObject kvs)" for kvs
    using that members_long [of kvs enc_value] dec_enc_members [of kvs dec_value enc_value _ "[]"] dec_enc_value
    by (auto simp: plain_document_def)
  moreover have "\<exists>kvs. j = JsObject kvs" if "plain_document j" for j
    using that by (cases j) (simp_all add: plain_document_def)
  ultimately show ?thesis by (fastforce simp: json_laws_def tagged_json_def)
qed

definition hex_crypto :: crypto where
  "hex_crypto = sum_crypto\<lparr>cy_gcm_encrypt := (\<lambda>k n a p. Some (p, replicate kTagLength 0)),
     cy_base64_encode := (\<lambda>_ bs. Some (concat (map hex_byte bs))),
     cy_base64_decode := (\<lambda>_ s. Some (snd (key_digits s 0 (replicate (length s div 2) 0))))\<rparr>"

lemma hex_length: "length (concat (map hex_byte bs)) = 2 * length bs"
  by (induction bs) (simp_all add: hex_byte_def)

lemma hex_c_str: "c_str (concat (map hex_byte bs)) = concat (map hex_byte bs)"
proof -
  have "hex_char c \<Longrightarrow> c \<noteq> CHR 0x00" for c by (auto simp: hex_char_def Let_def)
  moreover have "list_all hex_char (concat (map hex_byte bs))" using hex_bytes_text [of bs] by (simp add: isHexString_def)
  ultimately show ?thesis
    unfolding c_str_def by (intro takeWhile_eq_all_conv [THEN iffD2]) (auto simp only: list_all_iff)
qed

lemma hex_crypto_laws: "crypto_laws hex_crypto"
proof -
  have "snd (key_digits (concat (map hex_byte bs)) 0 (replicate (length bs) 0)) = bs" for bs
    using key_digits_generated [of 0 bs "replicate (length bs) 0"] by simp
  moreover have "concat (map hex_byte bs) \<noteq> []" if "bs \<noteq> []" for bs
    using that by (cases bs) (simp_all add: hex_byte_def)
  moreover have "n \<le> n div 2 * 3 + 3" for n :: nat by presburger
  ultimately show ?thesis
    by (simp add: crypto_laws_def hex_crypto_def sum_crypto_def hex_length hex_c_str)
qed

definition sample_device :: DeviceConfig where
  "sample_device = default_device_config\<lparr>dc_lorawan := sample_lorawan,
     dc_network := \<lparr>nc_ssid = ''home'', nc_password = ''secret'', nc_hostname = ''gw-1'', nc_friendlyName = ''Gateway''\<rparr>\<rparr>"

lemma backup_restores_witness:
  "\<exists>t output. exportConfig tagged_json sample_device = Some t \<and>
     backup_encrypt hex_crypto tagged_json (replicate 16 7) (replicate 12 9) t ''a long passphrase'' = Inr output \<and>
     backup_decrypt hex_crypto tagged_json output ''a long passphrase'' = Inr t \<and> importConfig tagged_json t = Inr sample_device"
proof -
  have ok: "exportable sample_device"
    using sample_lorawan_valid default_config_valid hex_c_str [of "replicate 16 0x5a"]
    by (simp add: exportable_def sample_device_def default_device_config_def default_app_config_def sample_lorawan_def
        default_lorawan_config_def default_mqtt_config_def kDefaultJoinEui_def c_str_def generateAppKey_def)
  have "plain_document (backup_document sample_device)" by (rule document_plain)
  then obtain t where t: "exportConfig tagged_json sample_device = Some t" "t \<noteq> []"
    using tagged_json_laws by (auto simp: json_laws_def exportConfig_def Let_def)
  obtain key where key: "deriveKey hex_crypto ''a long passphrase'' (replicate 16 7) kBackupIterations = Some key"
    using rounds_total [of hex_crypto sum_hmac 32] by (force simp: deriveKey_def hex_crypto_def sum_crypto_def sum_hmac_def kBackupIterations_def)
  have "\<exists>output. backup_encrypt hex_crypto tagged_json (replicate 16 7) (replicate 12 9) t ''a long passphrase'' = Inr output"
    using key t(2)
    by (auto simp: backup_encrypt_def encodeBase64_def hex_crypto_def sum_crypto_def kMinimumPassphraseLength_def kTagLength_def
        text_bytes_def tagged_json_def enc_members_def Let_def)
  then obtain envelope where e: "backup_encrypt hex_crypto tagged_json (replicate 16 7) (replicate 12 9) t ''a long passphrase'' = Inr envelope" ..
  from backup_restores [OF tagged_json_laws hex_crypto_laws ok t(1) _ _ e] t(1) e
  show ?thesis by (auto simp: kSaltLength_def kNonceLength_def)
qed

end
