(* ===== verification/WebProperties.thy ===== *)
theory WebProperties
  imports WebService SecurityProperties BackupProperties
begin

text \<open>
  What the administration promises: without the password nothing is changed and nothing is disclosed,
  a change needs a session and its token, a login opens a session for the browser that logged in, and
  the numbers of the forms are read exactly.
\<close>

section \<open>Without a session\<close>

text \<open>What a request may change but for sessions and the throttle: the configuration, the stored
  configuration and whether it needs saving, the passwords, and the restart.\<close>

definition protected :: "'s web_service \<Rightarrow> DeviceConfig \<times> 's \<times> bool \<times> 's security_store \<times> u32" where
  "protected s = (we_config s, we_configNs s, we_needsSave s, we_security s, we_rebootAt s)"

definition is_login :: "web_request \<Rightarrow> bool" where
  "is_login r = (\<not> wr_get r \<and> wr_path r = ''/login'')"

text \<open>The bodies a visitor may see.\<close>

definition public_bodies :: "web_body list" where
  "public_bodies = [WbHtml login_page, WbText ''Authentication required'', WbText ''Invalid credentials'',
     WbText ''Too many attempts; try again later.'', WbText [], WbText ''Not found'']"

text \<open>The responses to a sequence of requests.\<close>

fun serve_all :: "'s prefs \<Rightarrow> crypto \<Rightarrow> json_library \<Rightarrow> web_request list \<Rightarrow> 's web_service \<Rightarrow> web_response list \<times> 's web_service" where
  "serve_all P C J [] s = ([], s)"
| "serve_all P C J (r # rs) s = (let (w, s) = serve P C J r s; (ws, s) = serve_all P C J rs s in (w # ws, s))"

text \<open>A device with no password stored, requests of a visitor, and a session.\<close>

definition sample_web :: "(string \<rightharpoonup> PrefValue) web_service" where
  "sample_web = initial_web default_device_config (\<lambda>_. None) \<lparr>se_ns = (\<lambda>_. None), se_initialAdminPassword = []\<rparr>
     (eventBus_empty kWebEventCapacity) False ''192.168.4.1''"

definition sample_request :: "bool \<Rightarrow> string \<Rightarrow> (string \<times> string) list \<Rightarrow> (string \<times> string) list \<Rightarrow> u32 \<Rightarrow> web_request" where
  "sample_request get path headers args t = \<lparr>wr_get = get, wr_path = path,
     wr_header = (\<lambda>k. case map_of headers k of None \<Rightarrow> [] | Some v \<Rightarrow> v), wr_arg = map_of args, wr_nowMs = t,
     wr_random = (\<lambda>_. 7), wr_backupSalt = [], wr_backupNonce = []\<rparr>"

lemma authenticated_anonymous: "we_sessionToken s = [] \<Longrightarrow> authenticated r s = (False, s)"
  by (simp add: authenticated_def)

lemma requireAuth_anonymous: "we_sessionToken s = [] \<Longrightarrow> requireAuth r h s = (reply 401 ''Authentication required'', s)"
  by (simp add: requireAuth_def authenticated_anonymous)

lemma requireCsrf_anonymous: "we_sessionToken s = [] \<Longrightarrow> requireCsrf r h s = (reply 401 ''Authentication required'', s)"
  by (simp add: requireCsrf_def requireAuth_anonymous)

lemmas anonymous = authenticated_anonymous requireAuth_anonymous requireCsrf_anonymous

lemmas guarded_handlers = handleLogout_def handleChangePassword_def handleComponentConfig_def handleNetworkConfig_def
  handleMqttConfig_def handleBackupDownload_def handleBackupRestore_def handleReboot_def

lemmas reading_handlers = handleChangePasswordPage_def handleStatus_def handleEvents_def

lemma guarded_anonymous:
  assumes "we_sessionToken s = []"
  shows "handleLogout r s = (reply 401 ''Authentication required'', s)"
    "handleChangePassword P C r s = (reply 401 ''Authentication required'', s)"
    "handleComponentConfig P r s = (reply 401 ''Authentication required'', s)"
    "handleNetworkConfig P r s = (reply 401 ''Authentication required'', s)"
    "handleMqttConfig P r s = (reply 401 ''Authentication required'', s)"
    "handleBackupDownload C J r s = (reply 401 ''Authentication required'', s)"
    "handleBackupRestore P C J r s = (reply 401 ''Authentication required'', s)"
    "handleReboot r s = (reply 401 ''Authentication required'', s)"
    "handleChangePasswordPage r s = (reply 401 ''Authentication required'', s)"
    "handleStatus r s = (reply 401 ''Authentication required'', s)"
    "handleEvents r s = (reply 401 ''Authentication required'', s)"
    "handleRoot P r s = (page login_page, s)"
  unfolding guarded_handlers reading_handlers handleRoot_def anonymous [OF assms] by simp_all

lemma serve_cases:
  assumes "wr_get r \<Longrightarrow> Q (handleRoot P r s)" "wr_get r \<Longrightarrow> Q (handleChangePasswordPage r s)"
    "wr_get r \<Longrightarrow> Q (handleStatus r s)" "wr_get r \<Longrightarrow> Q (handleEvents r s)" "Q (handleNotFound s)"
    "is_login r \<Longrightarrow> Q (handleLogin P C r s)" "\<not> wr_get r \<Longrightarrow> Q (handleLogout r s)" "\<not> wr_get r \<Longrightarrow> Q (handleChangePassword P C r s)"
    "\<not> wr_get r \<Longrightarrow> Q (handleComponentConfig P r s)" "\<not> wr_get r \<Longrightarrow> Q (handleNetworkConfig P r s)"
    "\<not> wr_get r \<Longrightarrow> Q (handleMqttConfig P r s)" "\<not> wr_get r \<Longrightarrow> Q (handleBackupDownload C J r s)"
    "\<not> wr_get r \<Longrightarrow> Q (handleBackupRestore P C J r s)" "\<not> wr_get r \<Longrightarrow> Q (handleReboot r s)"
  shows "Q (serve P C J r s)"
proof (cases "wr_get r")
  case True
  then show ?thesis using assms(1-5) by (simp only: serve_def if_True split: if_split) blast
next
  case False
  have "wr_path r = ''/login'' \<Longrightarrow> is_login r" using False by (simp add: is_login_def)
  then show ?thesis using False assms(5-) by (simp only: serve_def if_False not_False_eq_True split: if_split) blast
qed

lemma serve_other_anonymous:
  assumes "we_sessionToken s = []" "\<not> is_login r"
  shows "snd (serve P C J r s) = s \<and> wp_body (fst (serve P C J r s)) \<in> set public_bodies"
  by (rule serve_cases) (use assms(2) in \<open>simp_all add: guarded_anonymous [OF assms(1)] handleNotFound_def public_bodies_def
      reply_def redirect_def page_def\<close>)

lemma refused_login:
  assumes "we_sessionToken s = []" "\<not> (hasArg r ''password'' \<and> verifyAdminPassword P C (arg r ''password'') (we_security s))"
  shows "we_sessionToken (snd (handleLogin P C r s)) = [] \<and> protected (snd (handleLogin P C r s)) = protected s \<and>
    wp_body (fst (handleLogin P C r s)) \<in> set public_bodies"
  using assms by (auto simp: handleLogin_def protected_def public_bodies_def reply_def)

lemma serve_anonymous:
  assumes "we_sessionToken s = []"
    "is_login r \<Longrightarrow> hasArg r ''password'' \<Longrightarrow> \<not> verifyAdminPassword P C (arg r ''password'') (we_security s)"
  shows "we_sessionToken (snd (serve P C J r s)) = [] \<and> protected (snd (serve P C J r s)) = protected s \<and>
    wp_body (fst (serve P C J r s)) \<in> set public_bodies"
proof (cases "is_login r")
  case True
  then have "serve P C J r s = handleLogin P C r s" by (simp add: serve_def is_login_def)
  then show ?thesis using refused_login [OF assms(1), of r P C] assms(2) [OF True] by auto
next
  case False
  then show ?thesis using serve_other_anonymous [OF assms(1) False, of P C J] assms(1) by simp
qed

text \<open>
  C4. Without the administrator password nothing is changed and nothing is disclosed: while no session is
  open, whatever requests arrive, as long as no login among them carries a text the security store
  verifies, the configuration, the storage, the passwords and the scheduled restart stay as they are, no
  session is opened, and every response is the login page or one of five fixed texts.
\<close>

theorem web_requires_password:
  assumes "we_sessionToken s = []"
    "\<And>r. r \<in> set rs \<Longrightarrow> is_login r \<Longrightarrow> hasArg r ''password'' \<Longrightarrow> \<not> verifyAdminPassword P C (arg r ''password'') (we_security s)"
    "serve_all P C J rs s = (ws, s')"
  shows "protected s' = protected s \<and> we_sessionToken s' = [] \<and> (\<forall>w \<in> set ws. wp_body w \<in> set public_bodies)"
  using assms
proof (induction rs arbitrary: s ws)
  case (Cons r rs)
  obtain w s1 ws1 where step: "serve P C J r s = (w, s1)" "serve_all P C J rs s1 = (ws1, s')" "ws = w # ws1"
    using Cons.prems(3) by (auto split: prod.splits)
  have first: "we_sessionToken s1 = []" "protected s1 = protected s" "wp_body w \<in> set public_bodies"
    using serve_anonymous [OF Cons.prems(1), of r P C J] Cons.prems(2) [of r] step(1) by auto
  then have "we_security s1 = we_security s" by (simp add: protected_def)
  then have "protected s' = protected s1 \<and> we_sessionToken s' = [] \<and> (\<forall>w \<in> set ws1. wp_body w \<in> set public_bodies)"
    by (intro Cons.IH [OF first(1) _ step(2)]) (use Cons.prems(2) in auto)
  then show ?case using first step(3) by auto
qed simp

lemma web_requires_password_witness:
  "protected (snd (serve_all map_prefs sum_crypto tagged_json
     [sample_request False ''/login'' [] [(''password'', ''guess'')] 5, sample_request False ''/api/reboot'' [] [] 9] sample_web)) =
   protected sample_web"
proof -
  obtain ws s' where all: "serve_all map_prefs sum_crypto tagged_json
     [sample_request False ''/login'' [] [(''password'', ''guess'')] 5, sample_request False ''/api/reboot'' [] [] 9] sample_web = (ws, s')"
    by fastforce
  have "\<not> verifyAdminPassword map_prefs sum_crypto v (we_security sample_web)" for v
    by (simp add: verifyAdminPassword_def sample_web_def initial_web_def pf_getString_def map_prefs_def)
  moreover have "we_sessionToken sample_web = []" by (simp add: sample_web_def initial_web_def)
  ultimately show ?thesis using web_requires_password [OF _ _ all] by (simp only: all snd_conv simp_thms)
qed

section \<open>With a session\<close>

lemma authenticated_state: "authenticated r s = (ok, s') \<Longrightarrow> protected s' = protected s \<and> we_events s' = we_events s"
  by (auto simp: authenticated_def protected_def invalidateSession_def split: if_splits)

lemma authenticated_open:
  "authenticated r s = (True, s') \<Longrightarrow> we_sessionToken s \<noteq> [] \<and>
     \<not> session_expired (we_sessionCreatedAt s) (we_sessionLastActivityAt s) (wr_nowMs r) \<and>
     hasSessionCookie (Some (c_str (wr_header r ''Cookie''))) (Some (c_str (we_sessionToken s))) \<and>
     s' = s\<lparr>we_sessionLastActivityAt := wr_nowMs r\<rparr>"
  by (auto simp: authenticated_def split: if_splits)

lemma requireAuth_changes:
  assumes "protected (snd (requireAuth r h s)) \<noteq> protected s"
  shows "\<exists>s'. authenticated r s = (True, s') \<and> protected (snd (h s')) \<noteq> protected s'"
  using assms authenticated_state [of r s] by (auto simp: requireAuth_def split: prod.splits if_splits)

lemma requireCsrf_changes:
  assumes "protected (snd (requireCsrf r h s)) \<noteq> protected s"
  shows "(\<exists>s'. authenticated r s = (True, s')) \<and> we_csrfToken s \<noteq> [] \<and>
    csrfMatches (Some (c_str (suppliedCsrf r))) (Some (c_str (we_csrfToken s)))"
proof -
  obtain s' where "authenticated r s = (True, s')" "\<not> (we_csrfToken s' = [] \<or>
      \<not> csrfMatches (Some (c_str (suppliedCsrf r))) (Some (c_str (we_csrfToken s'))))"
    using requireAuth_changes [of r _ s] assms unfolding requireCsrf_def by (fastforce split: if_splits)
  then show ?thesis using authenticated_open by fastforce
qed

lemma requireAuth_keeps: "(\<And>s. protected (snd (h s)) = protected s) \<Longrightarrow> protected (snd (requireAuth r h s)) = protected s"
  using requireAuth_changes by metis

lemma readers_keep: "protected (snd (handleChangePasswordPage r s)) = protected s" "protected (snd (handleStatus r s)) = protected s"
  "protected (snd (handleEvents r s)) = protected s"
  unfolding reading_handlers by (rule requireAuth_keeps; simp split: option.split)+

lemma handleRoot_keeps: "protected (snd (handleRoot P r s)) = protected s"
  using authenticated_state [of r s] by (simp add: handleRoot_def split: prod.split)

lemma handleLogin_keeps: "protected (snd (handleLogin P C r s)) = protected s"
  by (simp add: handleLogin_def createSession_def protected_def Let_def)

lemma handleNotFound_keeps: "snd (handleNotFound s) = s"
  by (simp add: handleNotFound_def)

lemmas keeping = readers_keep handleRoot_keeps handleLogin_keeps handleNotFound_keeps

text \<open>Every request that changes something goes through the check of the token.\<close>

lemma change_is_guarded:
  fixes s :: "'a web_service"
  assumes "protected (snd (serve P C J r s)) \<noteq> protected s"
  shows "\<not> wr_get r \<and> (\<exists>h. serve P C J r s = requireCsrf r h s)"
proof -
  define guarded where "guarded = (\<lambda>f :: 'a web_service \<Rightarrow> web_response \<times> 'a web_service. \<exists>h. f = requireCsrf r h)"
  have "guarded (handleLogout r)" "guarded (handleChangePassword P C r)" "guarded (handleComponentConfig P r)"
    "guarded (handleNetworkConfig P r)" "guarded (handleMqttConfig P r)" "guarded (handleBackupDownload C J r)"
    "guarded (handleBackupRestore P C J r)" "guarded (handleReboot r)"
    unfolding guarded_def guarded_handlers by (rule exI, rule refl)+
  then have "protected (snd (serve P C J r s)) = protected s \<or> \<not> wr_get r \<and> (\<exists>f. guarded f \<and> serve P C J r s = f s)"
    by - (rule serve_cases; simp add: keeping; blast)
  then show ?thesis using assms unfolding guarded_def by blast
qed

text \<open>
  C5. A change needs an open session and its token: if serving a request changes the configuration, the
  storage, the passwords or the scheduled restart, then the request is not a GET, a session was open and
  neither idle for more than 30 minutes nor older than 12 hours, one part of the cookie header is the
  session cookie, and the request carried the CSRF token of the session in its header or its form.
\<close>

theorem web_change_authorised:
  assumes "protected (snd (serve P C J r s)) \<noteq> protected s"
  shows "\<not> wr_get r \<and> we_sessionToken s \<noteq> [] \<and> wr_nowMs r - we_sessionCreatedAt s \<le> 12 * 60 * 60 * 1000 \<and>
    wr_nowMs r - we_sessionLastActivityAt s \<le> 30 * 60 * 1000 \<and>
    (\<exists>part \<in> set (segments (c_str (wr_header r ''Cookie''))). holds_cookie (c_str (we_sessionToken s)) part) \<and>
    we_csrfToken s \<noteq> [] \<and> c_str (suppliedCsrf r) = c_str (we_csrfToken s)"
proof -
  obtain h where post: "\<not> wr_get r" and "serve P C J r s = requireCsrf r h s"
    using change_is_guarded [OF assms] by blast
  then have open_session: "\<exists>s'. authenticated r s = (True, s')" and csrf: "we_csrfToken s \<noteq> []"
      "csrfMatches (Some (c_str (suppliedCsrf r))) (Some (c_str (we_csrfToken s)))"
    using requireCsrf_changes [of r h s] assms by auto
  from open_session obtain s' where s': "authenticated r s = (True, s')" by blast
  have "has_cookie (c_str (we_sessionToken s)) (c_str (wr_header r ''Cookie''))"
    using authenticated_open [OF s'] by (simp add: hasSessionCookie_def cookie_scan_exact split: if_splits)
  then show ?thesis
    using post authenticated_open [OF s'] csrf constantTimeEquals_iff
    by (auto simp: has_cookie_def session_expired_def kMaxLifetimeMs_def kIdleTimeoutMs_def csrfMatches_def split: if_splits)
qed

lemma web_change_authorised_witness:
  "\<exists>part \<in> set (segments ''a=1; MBSESSION=ab''). holds_cookie ''ab'' part"
proof -
  let ?s = "sample_web\<lparr>we_sessionToken := ''ab'', we_csrfToken := ''cd''\<rparr>"
  let ?r = "sample_request False ''/api/reboot'' [(''Cookie'', ''a=1; MBSESSION=ab''), (''X-CSRF-Token'', ''cd'')] [] 1000"
  have "cookie_scan ''ab'' ''a=1; MBSESSION=ab''" by code_simp
  moreover have "csrfMatches (Some ''cd'') (Some ''cd'')" by (simp add: csrfMatches_def constantTimeEquals_iff)
  ultimately have "protected (snd (serve map_prefs sum_crypto tagged_json ?r ?s)) \<noteq> protected ?s"
    by (simp add: serve_def handleReboot_def requireCsrf_def requireAuth_def authenticated_def session_expired_def kMaxLifetimeMs_def
        kIdleTimeoutMs_def sample_request_def sample_web_def initial_web_def hasSessionCookie_def suppliedCsrf_def c_str_def
        scheduleReboot_def protected_def Let_def)
  from web_change_authorised [OF this] show ?thesis by (simp add: sample_request_def c_str_def)
qed

section \<open>Logging in\<close>

lemma lower_digit_plain: "n < 16 \<Longrightarrow> lower_digit n \<in> set ''0123456789abcdef''"
  unfolding lower_digit_def by (rule nth_mem) simp

lemma randomToken_plain: "set (randomToken ns) \<subseteq> set ''0123456789abcdef''"
proof -
  have "unat (drop_bit 4 b) < 16" "unat (b AND 0x0f) < 16" for b :: u8
  proof -
    show "unat (drop_bit 4 b) < 16" using unat_bound [of b] by (simp add: drop_bit_eq_div unat_div)
    have "b AND 0x0f \<le> 0x0f" by (rule word_and_le1)
    then show "unat (b AND 0x0f) < 16" by (simp add: word_le_nat_alt)
  qed
  then have "lower_digit (unat (drop_bit 4 b)) \<in> set ''0123456789abcdef''" "lower_digit (unat (b AND 0x0f)) \<in> set ''0123456789abcdef''" for b :: u8
    by (intro lower_digit_plain; blast)+
  then have "set (lower_byte b) \<subseteq> set ''0123456789abcdef''" for b :: u8
    unfolding lower_byte_def set_simps(2) set_simps(1) [where 'a = char] insert_subset by blast
  then show ?thesis unfolding randomToken_def set_concat set_map by blast
qed

lemma plain_token:
  assumes "set t \<subseteq> set ''0123456789abcdef''"
  shows "c_str t = t" "CHR '';'' \<notin> set t" "trim t = t"
proof -
  have plain: "c \<noteq> CHR 0x00" "c \<noteq> CHR '';''" "\<not> blank c" if "c \<in> set t" for c
    using that assms by (auto simp: blank_def)
  then show "c_str t = t" "CHR '';'' \<notin> set t" by (auto simp: c_str_def takeWhile_eq_all_conv)
  have "dropWhile blank xs = xs" if "set xs \<subseteq> set t" for xs using that plain(3) by (cases xs) auto
  then show "trim t = t" by (simp add: trim_def trim_right_def)
qed

lemma segments_plain: "CHR '';'' \<notin> set s \<Longrightarrow> segments s = [s]"
  by (induction s) auto

text \<open>The part of a \<^verbatim>\<open>Set-Cookie\<close> value that a browser sends back.\<close>

definition returned_cookie :: "string \<Rightarrow> string" where
  "returned_cookie v = takeWhile (\<lambda>c. c \<noteq> CHR '';'') v"

lemma own_cookie_recognised:
  assumes "set t \<subseteq> set ''0123456789abcdef''" "t \<noteq> []"
  shows "hasSessionCookie (Some (c_str (returned_cookie (''MBSESSION='' @ t @ ''; HttpOnly; SameSite=Strict; Path=/'')))) (Some (c_str t))"
proof -
  let ?c = "''MBSESSION='' @ t"
  note t = plain_token [OF assms(1)]
  have "takeWhile (\<lambda>c. c \<noteq> CHR '';'') t = t" using t(2) by (auto simp: takeWhile_eq_all_conv)
  then have returned: "returned_cookie (?c @ ''; HttpOnly; SameSite=Strict; Path=/'') = ?c"
    using t(2) by (simp add: returned_cookie_def takeWhile_append2)
  have "c_str ?c = ?c" using t(1) by (simp add: c_str_def)
  moreover have "segments ?c = [?c]" by (rule segments_plain) (use t(2) in auto)
  moreover have "holds_cookie t ?c"
    by (simp add: holds_cookie_def t(3)) (simp add: trim_def trim_right_def blank_def kSessionCookie_def)
  ultimately show ?thesis
    using assms(2) t(1) returned by (simp add: hasSessionCookie_def cookie_scan_exact has_cookie_def)
qed

lemma token_length: "length (randomToken ns) = 2 * length ns"
  by (induction ns) (auto simp: randomToken_def lower_byte_def)

text \<open>
  C11. A login opens a session for the browser that logged in: when the throttle lets a login with the
  password through, the answer is the redirect that sets the session cookie, to the page for changing the
  password as long as the initial one has not been changed and to the root page after that; the throttle
  starts afresh; and a later request that returns that cookie, within 30 minutes, is authenticated and, when
  it carries the CSRF token of the page, is handed to its handler. The last holds in both cases: the
  redirects of the login and of the root page are all that asks for the change of the initial password, and
  a session opened with it reaches every other handler, although the documentation of the provisioning demands the change before any administration.
\<close>

theorem login_opens_session:
  assumes "is_login r" "throttle_allowed (we_throttle s) (wr_nowMs r)" "hasArg r ''password''"
    "verifyAdminPassword P C (arg r ''password'') (we_security s)" "serve P C J r s = (w, s1)"
    "(''Set-Cookie'', cookie) \<in> set (wp_headers w)" "wr_header r2 ''Cookie'' = returned_cookie cookie"
    "wr_nowMs r2 - wr_nowMs r \<le> 30 * 60 * 1000" "suppliedCsrf r2 = we_csrfToken s1"
  shows "wp_status w = 303 \<and>
    (''Location'', if adminInitialized P (we_security s) then ''/'' else ''/change-password'') \<in> set (wp_headers w) \<and>
    length (we_sessionToken s1) = 32 \<and> length (we_csrfToken s1) = 32 \<and>
    th_failureCount (we_throttle s1) = 0 \<and> authenticated r2 s1 = (True, s1\<lparr>we_sessionLastActivityAt := wr_nowMs r2\<rparr>) \<and>
    requireCsrf r2 h s1 = h (s1\<lparr>we_sessionLastActivityAt := wr_nowMs r2\<rparr>)"
proof -
  have serve: "serve P C J r s = handleLogin P C r s" using assms(1) by (simp add: serve_def is_login_def)
  let ?t = "randomToken (drawn r 0)" and ?u = "randomToken (drawn r 16)"
  have s1: "s1 = createSession r 0 (s\<lparr>we_throttle := recordSuccess (we_throttle s)\<rparr>)"
    and w: "wp_status w = 303" "(''Location'', if adminInitialized P (we_security s) then ''/'' else ''/change-password'') \<in> set (wp_headers w)"
      "cookie = ''MBSESSION='' @ ?t @ ''; HttpOnly; SameSite=Strict; Path=/''"
    using assms(2-6) unfolding serve
    by (auto simp: handleLogin_def Let_def redirect_def sessionCookie_def createSession_def)
  have tokens: "we_sessionToken s1 = ?t" "we_csrfToken s1 = ?u" "we_sessionCreatedAt s1 = wr_nowMs r"
    "we_sessionLastActivityAt s1 = wr_nowMs r" "th_failureCount (we_throttle s1) = 0"
    by (simp_all add: s1 createSession_def recordSuccess_def)
  have lengths: "length ?t = 32" "length ?u = 32" by (simp_all add: token_length drawn_def)
  then have some: "?t \<noteq> []" "?u \<noteq> []" by auto
  have fresh: "\<not> session_expired (wr_nowMs r) (wr_nowMs r) (wr_nowMs r2)"
    using assms(8) order_trans [OF assms(8), of "12 * 60 * 60 * 1000"] by (auto simp: session_expired_def kMaxLifetimeMs_def kIdleTimeoutMs_def not_less)
  have auth: "authenticated r2 s1 = (True, s1\<lparr>we_sessionLastActivityAt := wr_nowMs r2\<rparr>)"
    using own_cookie_recognised [OF randomToken_plain some(1)] fresh some
    by (simp add: authenticated_def tokens assms(7) w(3))
  moreover have "csrfMatches (Some (c_str ?u)) (Some (c_str ?u))"
    using some(2) plain_token(1) [OF randomToken_plain] by (simp add: csrfMatches_def constantTimeEquals_iff)
  ultimately show ?thesis
    using lengths some w(1,2) by (simp add: requireCsrf_def requireAuth_def tokens assms(9))
qed

text \<open>A store with a password whose derived key is the one of the sample digest.\<close>

definition sample_secret :: "(string \<rightharpoonup> PrefValue) security_store" where
  "sample_secret = snd (setAdminPassword map_prefs sum_crypto (replicate 16 7) ''correct horse'' (we_security sample_web))"

lemma sample_secret_verified: "verifyAdminPassword map_prefs sum_crypto ''correct horse'' sample_secret"
proof -
  have "length (generateHex (replicate 16 7)) \<le> 64"
    by (simp add: generateHex_def lower_byte_def length_concat sum_list_replicate)
  then have "pbkdf2Sha256 sum_crypto ''correct horse'' (generateHex (replicate 16 7)) kCurrentIterations \<noteq> []"
    by (intro derived_total [where f = sum_hmac]) (simp_all add: sum_crypto_def sum_hmac_def)
  then have "setAdminPassword map_prefs sum_crypto (replicate 16 7) ''correct horse'' (we_security sample_web) = (True, sample_secret)"
    by (simp add: setAdminPassword_def sample_secret_def Let_def)
  from verify_after_set(1) [OF map_prefs_laws _ refl refl this map_prefs_stores] show ?thesis by simp
qed

lemma login_opens_session_witness:
  "fst (authenticated (sample_request True ''/'' [(''Cookie'', ''MBSESSION='' @ randomToken (replicate 16 7))]
      [(''csrf'', randomToken (replicate 16 7))] 61000)
     (snd (serve map_prefs sum_crypto tagged_json (sample_request False ''/login'' [] [(''password'', ''correct horse'')] 1000)
        (sample_web\<lparr>we_security := sample_secret\<rparr>))))"
proof -
  let ?r = "sample_request False ''/login'' [] [(''password'', ''correct horse'')] 1000"
  let ?s = "sample_web\<lparr>we_security := sample_secret\<rparr>"
  let ?t = "randomToken (replicate 16 7)"
  let ?r2 = "sample_request True ''/'' [(''Cookie'', ''MBSESSION='' @ ?t)] [(''csrf'', ?t)] 61000"
  have fields: "is_login ?r" "arg ?r ''password'' = ''correct horse''" "hasArg ?r ''password''" "wr_nowMs ?r = 1000" "wr_nowMs ?r2 = 61000"
    "wr_header ?r2 ''Cookie'' = ''MBSESSION='' @ ?t" "suppliedCsrf ?r2 = ?t" "drawn ?r k = replicate 16 7" for k
    by (simp_all add: sample_request_def is_login_def arg_def hasArg_def suppliedCsrf_def drawn_def map_replicate_const)
  have idle: "throttle_allowed (we_throttle ?s) (wr_nowMs ?r)" "verifyAdminPassword map_prefs sum_crypto (arg ?r ''password'') (we_security ?s)"
    using sample_secret_verified by (simp_all add: fields throttle_allowed_def sample_web_def initial_web_def initial_throttle_def)
  obtain w s1 where step: "serve map_prefs sum_crypto tagged_json ?r ?s = (w, s1)" by fastforce
  have serve: "serve map_prefs sum_crypto tagged_json ?r ?s = handleLogin map_prefs sum_crypto ?r ?s"
    using fields(1) by (simp add: serve_def is_login_def)
  have w: "(''Set-Cookie'', ''MBSESSION='' @ ?t @ ''; HttpOnly; SameSite=Strict; Path=/'') \<in> set (wp_headers w)" "we_csrfToken s1 = ?t"
    using step [unfolded serve] idle fields(3,8)
    by (auto simp: handleLogin_def Let_def redirect_def sessionCookie_def createSession_def)
  have "takeWhile (\<lambda>c. c \<noteq> CHR '';'') ?t = ?t"
    using plain_token(2) [OF randomToken_plain] by (auto simp: takeWhile_eq_all_conv)
  then have "wr_header ?r2 ''Cookie'' = returned_cookie (''MBSESSION='' @ ?t @ ''; HttpOnly; SameSite=Strict; Path=/'')"
    using plain_token(2) [OF randomToken_plain, of "replicate 16 7"] unfolding fields by (simp add: returned_cookie_def takeWhile_append2)
  moreover have "wr_nowMs ?r2 - wr_nowMs ?r \<le> 30 * 60 * 1000" "suppliedCsrf ?r2 = we_csrfToken s1"
    unfolding fields w(2) by simp_all
  ultimately have "authenticated ?r2 s1 = (True, s1\<lparr>we_sessionLastActivityAt := wr_nowMs ?r2\<rparr>)"
    using login_opens_session [OF fields(1) idle(1) fields(3) idle(2) step w(1), of ?r2] by blast
  then show ?thesis by (simp only: step snd_conv fst_conv)
qed

section \<open>Numbers\<close>

lemma uint16_digits_value:
  "n \<le> hi \<Longrightarrow> uint16_digits hi n v =
     (if list_all is_digit v \<and> digits_value n v \<le> hi then Some (digits_value n v) else None)"
proof (induction v arbitrary: n)
  case (Cons c v)
  show ?case
    using Cons.IH [of "n * 10 + (of_char c - 48)"] digits_value_grows [of "n * 10 + (of_char c - 48)" v]
    by (auto simp: Let_def)
qed simp

lemma uint64_digits_value:
  "n < 2 ^ 64 \<Longrightarrow> uint64_digits n v =
     (if list_all is_digit v \<and> digits_value n v < 2 ^ 64 then Some (digits_value n v) else None)"
proof (induction v arbitrary: n)
  case (Cons c v)
  define d where "d = (of_char c - 48 :: nat)"
  have step: "uint64_digits n (c # v) = (if \<not> is_digit c \<or> n > (2 ^ 64 - 1 - d) div 10 then None else uint64_digits (n * 10 + d) v)"
    "digits_value n (c # v) = digits_value (n * 10 + d) v"
    by (simp_all add: d_def Let_def)
  have exact: "n > (2 ^ 64 - 1 - d) div 10 \<longleftrightarrow> \<not> n * 10 + d < 2 ^ 64" if "is_digit c"
    using that by (simp add: is_digit_def d_def div_less_iff_less_mult) linarith
  show ?case
  proof (cases "is_digit c \<and> n * 10 + d < 2 ^ 64")
    case True
    then show ?thesis using Cons.IH [of "n * 10 + d"] exact by (simp add: step del: uint64_digits.simps digits_value_simps)
  next
    case False
    then show ?thesis using exact digits_value_grows [of "n * 10 + d" v] by (auto simp: step simp del: uint64_digits.simps digits_value_simps)
  qed
qed simp

text \<open>
  The numbers of requests are read exactly, at their width: the port and the interval of the MQTT
  form are accepted if and only if they are digits alone, at least one, that stand for a number within the
  bounds, and a sequence number if and only if it is empty or digits that stand for a number of 64 bits;
  what is accepted is the number the digits stand for, leading zeros or not.
\<close>

theorem form_numbers_exact:
  "parseUint16Arg v lo hi = (if v \<noteq> [] \<and> list_all is_digit v \<and> lo \<le> digits_value 0 v \<and> digits_value 0 v \<le> hi
     then Some (of_nat (digits_value 0 v)) else None) \<and>
   parseUint64 v = (if list_all is_digit v \<and> digits_value 0 v < 2 ^ 64 then Some (of_nat (digits_value 0 v)) else None)"
  using uint16_digits_value [of 0 hi v] uint64_digits_value [of 0 v]
  by (auto simp: parseUint16Arg_def parseUint64_def)

section \<open>Escaping\<close>

definition entity :: "char \<Rightarrow> string" where
  "entity c = (if c = CHR ''&'' then ''&amp;'' else if c = CHR 0x22 then ''&quot;'' else if c = CHR 0x27 then ''&#39;''
     else if c = CHR ''<'' then ''&lt;'' else if c = CHR ''>'' then ''&gt;'' else [c])"

lemma replace_chars: "replace_char c u (concat (map f s)) = concat (map (\<lambda>x. replace_char c u (f x)) s)"
  by (induction s) (simp_all add: replace_char_def)

text \<open>
  Escaping for HTML loses nothing and leaves nothing active: the five replacements one after the other
  replace every character by its entity in one pass, so no character is escaped twice, no quote and no angle
  bracket is left, and two texts are escaped alike only if they are the same.
\<close>

theorem escape_one_pass:
  "escape s = concat (map entity s) \<and> set (escape s) \<inter> {CHR 0x22, CHR 0x27, CHR ''<'', CHR ''>''} = {} \<and>
   (escape s = escape s2 \<longleftrightarrow> s = s2)"
proof -
  have pass: "escape s = concat (map entity s)" for s
  proof -
    have "escape s = escape (concat (map (\<lambda>x. [x]) s))" by simp
    also have "\<dots> = concat (map (\<lambda>x. escape [x]) s)" by (simp add: escape_def replace_chars del: concat_map_singleton)
    also have "(\<lambda>x. escape [x]) = entity" by (rule ext) (simp add: escape_def entity_def replace_char_def)
    finally show ?thesis .
  qed
  have clean: "set (concat (map entity s)) \<inter> {CHR 0x22, CHR 0x27, CHR ''<'', CHR ''>''} = {}"
    by (auto simp: entity_def split: if_splits)
  have prefix: "entity a @ x = entity b @ y \<Longrightarrow> a = b \<and> x = y" for a b x y
    by (auto simp: entity_def split: if_splits)
  have "concat (map entity a) = concat (map entity b) \<Longrightarrow> a = b" for a b
  proof (induction a arbitrary: b)
    case Nil
    then show ?case by (cases b) (auto simp: entity_def split: if_splits)
  next
    case (Cons c a)
    then obtain d b' where b: "b = d # b'" by (cases b) (auto simp: entity_def split: if_splits)
    with Cons.prems have "c = d \<and> concat (map entity a) = concat (map entity b')" by (intro prefix) simp
    with Cons.IH b show ?case by simp
  qed
  then show ?thesis using pass clean by auto
qed

section \<open>The events\<close>






end
