(* ===== verification/Startup.thy ===== *)
theory Startup
  imports Security Restart
begin

text \<open>
  Starting the device and resetting it to the state of delivery: the button of
  \<^verbatim>\<open>include/services/BoardService.h\<close>, the choice between client and access point of
  \<^verbatim>\<open>include/services/NetworkService.h\<close>, and the preparation of the configuration and the reset
  of the stores in \<^verbatim>\<open>include/core/Application.h\<close>. The level of the button, the clock and whether
  the Wi-Fi stack connects are arguments.
\<close>

section \<open>The configuration at start\<close>

text \<open>The part of \<^verbatim>\<open>begin\<close> that loads, provisions and saves the configuration.\<close>

definition prepareConfiguration ::
    "'s prefs \<Rightarrow> u64 \<Rightarrow> bytes \<Rightarrow> 's \<Rightarrow> bool \<Rightarrow> bool \<times> DeviceConfig \<times> 's \<times> bool" where
  "prepareConfiguration P efuse random ns needsSave =
     (let (loaded, config, needsSave) = configStore_load P ns default_device_config needsSave;
          config = (if loaded then config
            else default_device_config\<lparr>dc_network := (dc_network default_device_config)
              \<lparr>nc_hostname := defaultHostname efuse, nc_friendlyName := ''MultiBus Gateway''\<rparr>\<rparr>);
          (ensured, lorawan) = ensureLoRaWanConfig random (dc_lorawan config);
          config = config\<lparr>dc_lorawan := lorawan\<rparr>
      in if \<not> loaded \<or> ensured \<or> needsSave
         then (let (ok, ns, needsSave) = configStore_save P config ns needsSave in (ok, config, ns, needsSave))
         else (True, config, ns, needsSave))"

section \<open>The network\<close>

record network_service =
  nw_apActive :: bool
  nw_apSsid :: string

definition initial_network :: network_service where
  "initial_network = \<lparr>nw_apActive = False, nw_apSsid = []\<rparr>"

text \<open>\<open>softAp\<close> answers for the name and the password whether the access point starts.\<close>

definition startAccessPoint ::
    "'s prefs \<Rightarrow> u64 \<Rightarrow> (string \<Rightarrow> string \<Rightarrow> bool) \<Rightarrow> 's security_store \<Rightarrow> network_service \<Rightarrow> bool \<times> network_service" where
  "startAccessPoint P efuse softAp security n =
     (let n = n\<lparr>nw_apSsid := defaultApSsid efuse\<rparr>
      in if \<not> softAp (c_str (nw_apSsid n)) (c_str (apPassword P security)) then (False, n)
         else (True, n\<lparr>nw_apActive := True\<rparr>))"

text \<open>\<open>clientConnects\<close> is what waiting for the connection ends with.\<close>

definition network_begin ::
    "'s prefs \<Rightarrow> u64 \<Rightarrow> bool \<Rightarrow> (string \<Rightarrow> string \<Rightarrow> bool) \<Rightarrow> 's security_store \<Rightarrow> DeviceConfig \<Rightarrow> network_service \<Rightarrow>
       bool \<times> DeviceConfig \<times> network_service" where
  "network_begin P efuse clientConnects softAp security config n =
     (let net = dc_network config;
          net = (if nc_hostname net = [] then net\<lparr>nc_hostname := defaultHostname efuse\<rparr> else net);
          config = config\<lparr>dc_network := net\<rparr>
      in if configured net then
           (let n = n\<lparr>nw_apActive := False\<rparr>
            in if clientConnects then (True, config, n)
               else case startAccessPoint P efuse softAp security n of (ok, n) \<Rightarrow> (ok, config, n))
         else case startAccessPoint P efuse softAp security n of (ok, n) \<Rightarrow> (ok, config, n))"

section \<open>The reset button\<close>

record board =
  bo_resetArmed :: bool
  bo_resetWarning :: bool
  bo_pressStartedAt :: u32
  bo_led :: bool

definition kWarningAfterMs :: u32 where "kWarningAfterMs = 3000"
definition kFactoryResetAfterMs :: u32 where "kFactoryResetAfterMs = 10000"

text \<open>\<open>released\<close> is the level of the button that is read.\<close>

definition board_begin :: "bool \<Rightarrow> board" where
  "board_begin released = \<lparr>bo_resetArmed = released, bo_resetWarning = False, bo_pressStartedAt = 0, bo_led = False\<rparr>"

text \<open>The two times the clock is read are arguments; the result is whether the reset is performed.\<close>

definition board_loop :: "bool \<Rightarrow> u32 \<Rightarrow> u32 \<Rightarrow> board \<Rightarrow> bool \<times> board" where
  "board_loop pressed startMs nowMs b =
     (if \<not> bo_resetArmed b then (False, if \<not> pressed then b\<lparr>bo_resetArmed := True\<rparr> else b)
      else if \<not> pressed then (False, b\<lparr>bo_pressStartedAt := 0, bo_resetWarning := False, bo_led := False\<rparr>)
      else
        let b = (if bo_pressStartedAt b = 0 then b\<lparr>bo_pressStartedAt := startMs\<rparr> else b);
            held = nowMs - bo_pressStartedAt b;
            b = b\<lparr>bo_resetWarning := (held \<ge> kWarningAfterMs)\<rparr>;
            b = (if bo_resetWarning b then b\<lparr>bo_led := (held div 200 mod 2 = 0)\<rparr> else b)
        in (held \<ge> kFactoryResetAfterMs, if held \<ge> kFactoryResetAfterMs then b\<lparr>bo_led := True\<rparr> else b))"

definition factoryResetHoldMs :: "u32 \<Rightarrow> board \<Rightarrow> u32" where
  "factoryResetHoldMs nowMs b = (if bo_pressStartedAt b = 0 then 0 else nowMs - bo_pressStartedAt b)"

section \<open>The reset\<close>

definition clearSubsystemStores :: "'s prefs \<Rightarrow> 's application \<Rightarrow> 's application" where
  "clearSubsystemStores P a = a\<lparr>ga_channelNs := snd (pf_clear P (ga_channelNs a)), ga_rs485Ns := snd (pf_clear P (ga_rs485Ns a)),
     ga_masterNs := snd (pf_clear P (ga_masterNs a)), ga_reportNs := snd (pf_remove P ''lw_report_s'' (ga_reportNs a)),
     ga_timeNs := snd (pf_clear P (ga_timeNs a)),
     ga_history := (ga_history a)\<lparr>hp_settingsNs := snd (pf_clear P (hp_settingsNs (ga_history a))),
       hp_dataNs := snd (pf_clear P (hp_dataNs (ga_history a))), hp_generation := 0,
       hp_retxNs := snd (pf_clear P (hp_retxNs (ga_history a)))\<rparr>,
     ga_ruleNs := snd (pf_clear P (ga_ruleNs a))\<rparr>"

record 's device =
  dv_configNs :: 's
  dv_needsSave :: bool
  dv_security :: "'s security_store"
  dv_application :: "'s application"

definition performFactoryReset :: "'s prefs \<Rightarrow> 's device \<Rightarrow> 's device" where
  "performFactoryReset P d =
     (let (ns, needs) = configStore_clear P (dv_configNs d)
      in d\<lparr>dv_configNs := ns, dv_needsSave := needs, dv_security := securityStore_clear P (dv_security d),
           dv_application := clearSubsystemStores P (dv_application d)\<rparr>)"

end
