(* ===== verification/StartupProperties.thy ===== *)
theory StartupProperties
  imports Startup SecurityProperties
begin

text \<open>
  What starting and resetting promise: the configuration a start arrives at is the one every later
  start finds when its writes took effect, a reset needs the button held for ten seconds after it has been
  released, and nothing of the settings, secrets and rules is left after it where the storage performed the
  clears. The code looks at none of those results.
\<close>

section \<open>Starting\<close>

lemma ensured_valid:
  assumes "length random = 16"
  shows "validateLoRaWanConfig (snd (ensureLoRaWanConfig random c))"
    "validateLoRaWanConfig c \<Longrightarrow> ensureLoRaWanConfig random' c = (False, c)"
proof -
  have "isHexString (generateAppKey random) 32"
    using hex_bytes_text [of random] assms by (simp add: generateAppKey_def)
  moreover have "isHexString kDefaultJoinEui 16"
    by (simp add: isHexString_def kDefaultJoinEui_def hex_char_def Let_def)
  ultimately show "validateLoRaWanConfig (snd (ensureLoRaWanConfig random c))"
    by (simp add: ensureLoRaWanConfig_def validateLoRaWanConfig_def kDefaultExtensionFPort_def kCompatibilityPort_def Let_def)
  show "validateLoRaWanConfig c \<Longrightarrow> ensureLoRaWanConfig random' c = (False, c)"
    by (auto simp: ensureLoRaWanConfig_def validateLoRaWanConfig_def Let_def split: if_splits)
qed

lemma loaded_configuration:
  assumes "configStore_load P ns d needs = (True, c, needs')"
  shows "dc_schemaVersion c = kDeviceConfigSchemaVersion" "validateConfig (dc_components c) = ConfigOk" "mqtt_valid (dc_mqtt c)"
    "configStore_load P ns d2 needs2 = (True, c, needs')"
  using assms by (auto simp: configStore_load_def Let_def split: if_splits)

lemma default_configuration_valid:
  "dc_schemaVersion default_device_config = kDeviceConfigSchemaVersion"
  "validateConfig (dc_components default_device_config) = ConfigOk" "mqtt_valid (dc_mqtt default_device_config)"
  using default_config_valid by (simp_all add: default_device_config_def default_app_config_def validateConfig_def kMeshtasticMode_def)

text \<open>
  C38. The configuration is settled by the first start: whatever is stored, the start arrives at a
  configuration whose LoRaWAN part is valid. When each write of its save took effect, or when the store
  already holds that configuration so that nothing is saved, the start reports success and every later start
  arrives at the same configuration, with the same keys whatever random bytes it draws, and writes nothing.
  When a write was refused nothing is promised of the next start.
\<close>

theorem configuration_settled:
  assumes "prefs_laws P" "length random = 16" "prepareConfiguration P efuse random ns needs = (ok, c, ns', needs')"
    "settled = (writes_stored P (config_entries c) ns \<or> configStore_load P ns default_device_config needs = (True, c, False))"
  shows "validateLoRaWanConfig (dc_lorawan c) \<and>
    (settled \<longrightarrow> ok \<and> prepareConfiguration P efuse' random' ns' needs'' = (True, c, ns', False))"
proof -
  obtain loaded l n where load: "configStore_load P ns default_device_config needs = (loaded, l, n)" by (metis prod_cases3)
  define b where "b = (if loaded then l else default_device_config\<lparr>dc_network := (dc_network default_device_config)
      \<lparr>nc_hostname := defaultHostname efuse, nc_friendlyName := ''MultiBus Gateway''\<rparr>\<rparr>)"
  obtain ensured lw where e: "ensureLoRaWanConfig random (dc_lorawan b) = (ensured, lw)" by fastforce
  have c: "c = b\<lparr>dc_lorawan := lw\<rparr>" and saved: "\<not> loaded \<or> ensured \<or> n \<Longrightarrow> configStore_save P c ns n = (ok, ns', needs')"
    and kept: "loaded \<Longrightarrow> \<not> ensured \<Longrightarrow> \<not> n \<Longrightarrow> ok \<and> ns' = ns"
    using assms(3) e unfolding prepareConfiguration_def load b_def
    by (auto simp: Let_def split: if_splits prod.splits)
  have lw: "validateLoRaWanConfig (dc_lorawan c)" using ensured_valid(1) [OF assms(2), of "dc_lorawan b"] e by (simp add: c)
  have valid: "dc_schemaVersion c = kDeviceConfigSchemaVersion" "validateConfig (dc_components c) = ConfigOk" "mqtt_valid (dc_mqtt c)"
    using loaded_configuration(1-3) [of P ns default_device_config needs l n] load default_configuration_valid
    by (cases loaded; simp add: c b_def)+
  have held: "\<not> ensured" if "configStore_load P ns default_device_config needs = (True, c, False)"
  proof -
    have "b = c" using that load by (simp add: b_def)
    then show ?thesis using e ensured_valid(2) [OF assms(2) lw, of random] by simp
  qed
  have again: "ok \<and> configStore_load P ns' default_device_config needs'' = (True, c, False)" if settled
  proof (cases "\<not> loaded \<or> ensured \<or> n")
    case True
    then have "writes_stored P (config_entries c) ns" using that held load assms(4) by auto
    from configStore_saved [OF assms(1) this valid saved [OF True]] show ?thesis .
  next
    case False
    then have "c = l" "ok" "ns' = ns" using e kept by (auto simp: c b_def ensureLoRaWanConfig_def Let_def split: if_splits)
    then show ?thesis using loaded_configuration(4) [of P ns default_device_config needs l n] load False by simp
  qed
  then show ?thesis
    using lw ensured_valid(2) [OF assms(2) lw] by (simp add: prepareConfiguration_def)
qed

lemma configuration_settled_witness:
  "case prepareConfiguration map_prefs 7 (replicate 16 0xa7) (\<lambda>_. None) False of (ok, c, ns, needs) \<Rightarrow>
     ok \<and> prepareConfiguration map_prefs 7 (replicate 16 0x55) ns False = (True, c, ns, False)"
proof -
  obtain ok c ns n where p: "prepareConfiguration map_prefs 7 (replicate 16 0xa7) (\<lambda>_. None) False = (ok, c, ns, n)"
    by (metis prod_cases4)
  from configuration_settled [OF map_prefs_laws _ p refl] map_prefs_stores show ?thesis by (simp add: p)
qed

section \<open>The button\<close>

text \<open>The turns of the loop: whether the button is pressed and the times the clock shows in milliseconds.\<close>

fun board_turns :: "(bool \<times> nat \<times> nat) list \<Rightarrow> board \<Rightarrow> board" where
  "board_turns [] b = b"
| "board_turns ((pressed, t, u) # turns) b = board_turns turns (snd (board_loop pressed (of_nat t) (of_nat u) b))"

lemma board_turns_snoc:
  "board_turns (turns @ [(pressed, t, u)]) b = snd (board_loop pressed (of_nat t) (of_nat u) (board_turns turns b))"
  by (induction turns arbitrary: b) auto

text \<open>A press that goes on since a turn, and the state that knows of it.\<close>

definition pressed_since :: "bool \<Rightarrow> (bool \<times> nat \<times> nat) list \<Rightarrow> u32 \<Rightarrow> bool" where
  "pressed_since released turns s = (\<exists>before t u rest. turns = before @ (True, t, u) # rest \<and> s = of_nat t \<and>
     (\<forall>x \<in> set rest. fst x) \<and> (released \<or> (\<exists>x \<in> set before. \<not> fst x)))"

definition board_inv :: "bool \<Rightarrow> (bool \<times> nat \<times> nat) list \<Rightarrow> board \<Rightarrow> bool" where
  "board_inv released turns b = ((bo_resetArmed b \<longrightarrow> released \<or> (\<exists>x \<in> set turns. \<not> fst x)) \<and>
     (\<not> bo_resetArmed b \<longrightarrow> bo_pressStartedAt b = 0) \<and>
     (bo_pressStartedAt b \<noteq> 0 \<longrightarrow> pressed_since released turns (bo_pressStartedAt b)))"

lemma pressed_on: "pressed_since released turns s \<Longrightarrow> pressed_since released (turns @ [(True, t, u)]) s"
  unfolding pressed_since_def by (elim exE conjE, rule exI, rule exI, rule exI, rule exI [of _ "_ @ [(True, t, u)]"]) auto

lemma press_starts: "released \<or> (\<exists>x \<in> set turns. \<not> fst x) \<Longrightarrow> pressed_since released (turns @ [(True, t, u)]) (of_nat t)"
  unfolding pressed_since_def by (intro exI [of _ turns] exI [of _ t] exI [of _ u] exI [of _ "[]"]) simp

lemma board_inv_turn:
  assumes "board_inv released turns b"
  shows "board_inv released (turns @ [(pressed, t, u)]) (snd (board_loop pressed (of_nat t) (of_nat u) b))"
proof (cases "bo_resetArmed b \<and> pressed")
  case True
  then have "released \<or> (\<exists>x \<in> set turns. \<not> fst x)" using assms by (simp add: board_inv_def)
  then show ?thesis
    using assms True pressed_on [of released turns "bo_pressStartedAt b" t u] press_starts [of released turns t u]
    by (auto simp: board_inv_def board_loop_def Let_def)
next
  case False
  then show ?thesis
    using assms pressed_on [of released turns "bo_pressStartedAt b" t u]
    by (cases pressed) (auto simp: board_inv_def board_loop_def Let_def)
qed

lemma board_inv_turns: "board_inv released turns (board_turns turns (board_begin released))"
proof (induction turns rule: rev_induct)
  case Nil
  then show ?case by (simp add: board_inv_def board_begin_def)
next
  case (snoc x turns)
  then show ?case by (cases x) (simp add: board_turns_snoc board_inv_turn)
qed

lemma held_time:
  assumes "(of_nat u :: u32) - of_nat t \<ge> 10000" "t \<le> u"
  shows "t + 10000 \<le> u"
proof -
  have "unat (of_nat (u - t) :: u32) \<ge> 10000" using assms by (simp add: of_nat_diff word_le_nat_alt)
  moreover have "unat (of_nat (u - t) :: u32) \<le> u - t" by (simp add: unat_of_nat)
  ultimately show ?thesis by simp
qed

text \<open>
  C39. Resetting needs the button to be let go once and then held: whatever the button did since the start,
  when a turn performs the reset, the button has been pressed in every turn since one at least ten seconds
  ago, and before that turn it had been seen released, at the start or in a turn.
\<close>

theorem reset_needs_hold:
  assumes "fst (board_loop pressed (of_nat t) (of_nat u) (board_turns turns (board_begin released)))"
    "sorted (map (fst \<circ> snd) (turns @ [(pressed, t, u)]))" "t \<le> u"
  shows "\<exists>before t0 u0 rest. turns @ [(pressed, t, u)] = before @ (True, t0, u0) # rest \<and> (\<forall>x \<in> set rest. fst x) \<and>
    t0 + 10000 \<le> u \<and> (released \<or> (\<exists>x \<in> set before. \<not> fst x))"
proof -
  let ?b = "board_turns turns (board_begin released)"
  note inv = board_inv_turns [of released turns]
  define s where "s = (if bo_pressStartedAt ?b = 0 then of_nat t else bo_pressStartedAt ?b)"
  have fired: "pressed" "bo_resetArmed ?b" "of_nat u - s \<ge> 10000"
    using assms(1) by (auto simp: board_loop_def Let_def kFactoryResetAfterMs_def s_def split: if_splits)
  have "pressed_since released (turns @ [(True, t, u)]) s"
    using inv fired(2) pressed_on [of released turns s t u] press_starts [of released turns t u]
    by (auto simp: board_inv_def s_def)
  then obtain before t0 u0 rest where run: "turns @ [(pressed, t, u)] = before @ (True, t0, u0) # rest" "s = of_nat t0"
    "\<forall>x \<in> set rest. fst x" "released \<or> (\<exists>x \<in> set before. \<not> fst x)"
    unfolding pressed_since_def by (elim exE conjE) (rule that; simp add: fired(1))
  have "t0 \<in> set (map (fst \<circ> snd) (turns @ [(pressed, t, u)]))" unfolding run(1) by simp
  then have "t0 \<le> t" using assms(2) by (auto simp: sorted_append)
  then have "t0 + 10000 \<le> u" using held_time [of u t0] fired(3) assms(3) run(2) by simp
  then show ?thesis using run by blast
qed

lemma reset_needs_hold_witness:
  "\<exists>before t0 u0 rest. [(True, 1, 1), (False, 500, 500), (True, 900 :: nat, 901 :: nat)] @ [(True, 10900, 10901)] = before @ (True, t0, u0) # rest \<and>
     (\<forall>x \<in> set rest. fst x) \<and> t0 + 10000 \<le> (10901 :: nat) \<and> (False \<or> (\<exists>x \<in> set before. \<not> fst x))"
  by (rule reset_needs_hold) (simp_all add: board_begin_def board_loop_def kFactoryResetAfterMs_def kWarningAfterMs_def Let_def)

section \<open>The reset\<close>

definition blank_store :: "'s prefs \<Rightarrow> 's \<Rightarrow> bool" where
  "blank_store P s = (\<forall>k. pf_get P s k = None)"

lemma cleared_blank: "prefs_laws P \<Longrightarrow> fst (pf_clear P s) \<Longrightarrow> blank_store P (snd (pf_clear P s))"
  by (simp add: blank_store_def pf_clear_law)

text \<open>
  Whether the storage erases the namespaces of the subsystems and the key of the report interval: the reset
  looks at no result.
\<close>

definition subsystems_erased :: "'s prefs \<Rightarrow> 's application \<Rightarrow> bool" where
  "subsystems_erased P a = (let h = ga_history a in
     list_all (\<lambda>s. fst (pf_clear P s)) [ga_channelNs a, ga_rs485Ns a, ga_masterNs a, ga_timeNs a, hp_settingsNs h,
       hp_dataNs h, hp_retxNs h, ga_ruleNs a] \<and>
     \<not> pf_isKey P (snd (pf_remove P ''lw_report_s'' (ga_reportNs a))) ''lw_report_s'')"

lemma blank_application_persisted:
  assumes "blank_store P (ga_channelNs a)" "blank_store P (ga_rs485Ns a)" "blank_store P (ga_masterNs a)"
    "\<not> pf_isKey P (ga_reportNs a) ''lw_report_s''" "blank_store P (ga_timeNs a)" "blank_store P (ga_ruleNs a)"
    "blank_store P (hp_settingsNs (ga_history a))" "blank_store P (hp_dataNs (ga_history a))" "blank_store P (hp_retxNs (ga_history a))"
  shows "persisted P (restarted SER a)"
proof -
  have c: "bookkeeping_ok (initial_component SER)"
    using bookkeeping_ok_initial [of ModbusDisabled SER] by (simp add: component_setMode_def initial_component_def)
  have r: "holds_rules P (ga_ruleNs a) initial_rules"
    using assms(6) by (auto simp: blank_store_def holds_rules_def initial_rules_def kRuleCount_def rule_ok_def empty_rule_def empty_frame_def
        kRuleFrameSlots_def kMaxRuleFrameLength_def)
  have n: "channelForSlot k (initial_component SER) = None" for k
    by (simp add: channelForSlot_def initial_component_def)
  have t: "timeStore_load P (ga_timeNs a) = Some default_time_settings"
    using assms(5) by (intro timeStore_fresh) (simp add: blank_store_def)
  show ?thesis
    using c r t assms unfolding blank_store_def
    by (simp add: persisted_def restarted_def initial_application_def initial_history_def n stores_def Let_def)
       (simp add: initial_component_def initial_scheduler_def rs485Store_load_def masterStore_load_def
         reportStore_load_def historySettings_load_def retransmission_load_def pf_typed
         default_retransmission_def default_history_settings_def validHistorySettings_def kDefaultRetransmissionIntervalSeconds_def
         kDefaultRetrievabilityIntervalSeconds_def Let_def)
qed

lemma restarted_twice: "restarted SER (restarted SER a) = restarted SER a"
  by (simp add: restarted_def initial_application_def initial_history_def Let_def)

lemma erased_configuration:
  assumes "blank_store P ns"
  shows "fst (snd (prepareConfiguration P efuse random ns needs)) =
      default_device_config\<lparr>dc_network := \<lparr>nc_ssid = [], nc_password = [], nc_hostname = defaultHostname efuse,
         nc_friendlyName = ''MultiBus Gateway''\<rparr>, dc_lorawan := default_lorawan_config\<lparr>lc_appKey := generateAppKey random\<rparr>\<rparr>"
  using assms
  by (simp add: prepareConfiguration_def configStore_load_def pf_isKey_def blank_store_def default_device_config_def
      default_network_config_def default_lorawan_config_def ensureLoRaWanConfig_def isHexString_def kDefaultJoinEui_def
      hex_char_def kDefaultExtensionFPort_def kCompatibilityPort_def Let_def split: prod.split)

lemma erased_application:
  assumes "prefs_laws P" "subsystems_erased P a0" "a = clearSubsystemStores P a0" "makeRtuSerialConfig SER default_rs485 1 \<noteq> None"
  shows "\<exists>b. application_restore P SER nowMs (restarted SER a) = Some (True, b) \<and>
    same_configuration (initial_application SER m l ns) b \<and> hr_size (hp_ring (ga_history b)) = 0"
proof -
  have blank: "blank_store P (ga_channelNs a)" "blank_store P (ga_rs485Ns a)" "blank_store P (ga_masterNs a)"
    "\<not> pf_isKey P (ga_reportNs a) ''lw_report_s''" "blank_store P (ga_timeNs a)" "blank_store P (ga_ruleNs a)"
    "blank_store P (hp_settingsNs (ga_history a))" "blank_store P (hp_dataNs (ga_history a))" "blank_store P (hp_retxNs (ga_history a))"
    using assms(2) cleared_blank [OF assms(1)]
    by (simp_all add: assms(3) clearSubsystemStores_def subsystems_erased_def Let_def)
  have h: "history_load P (hp_dataNs (ga_history (restarted SER a))) (ring_empty kPersistentHistoryCapacity) =
      (True, ring_clear (ring_empty kPersistentHistoryCapacity), 0)"
    using blank(8)
    by (simp add: restarted_def initial_application_def initial_history_def history_load_def history_loadKey_def pf_typed
        blank_store_def Let_def)
  have "makeRtuSerialConfig SER (mc_rs485Settings (ga_modbus (restarted SER a))) 1 \<noteq> None"
    using assms(4) by (simp add: restarted_def initial_application_def initial_component_def Let_def)
  then obtain b where b: "application_restore P SER nowMs (restarted SER (restarted SER a)) = Some (True, b)"
    "same_configuration (restarted SER a) b" "hp_ring (ga_history b) = ring_clear (ring_empty kPersistentHistoryCapacity)"
    using restart [OF blank_application_persisted [OF blank, of SER], of SER nowMs] h by auto
  have "same_configuration (initial_application SER m l ns) b"
    using b(2) by (simp add: same_configuration_def restarted_def initial_application_def initial_history_def Let_def)
  with b(1,3) show ?thesis by (auto simp: restarted_twice ring_clear_def)
qed

text \<open>
  C40. What a reset erases, for each of its parts on the condition that the storage performed it, which the
  reset does not check. When the configuration could be cleared, the next start arrives at the default
  configuration with a fresh key, no network and the default host name. When the secrets could be cleared, no
  password is accepted until a new one is generated. When the namespaces of the subsystems could be cleared
  and the report interval is gone, the restarted application restores the line, master, report, time,
  history and retransmission settings of a fresh one, no rule, no channel and no record of the history,
  given a driver that knows the default line.
\<close>

theorem reset_erases_everything:
  assumes "prefs_laws P" "d' = performFactoryReset P d" "makeRtuSerialConfig SER default_rs485 1 \<noteq> None"
  shows "(fst (pf_clear P (dv_configNs d)) \<longrightarrow>
      fst (snd (prepareConfiguration P efuse random (dv_configNs d') (dv_needsSave d'))) =
      default_device_config\<lparr>dc_network := \<lparr>nc_ssid = [], nc_password = [], nc_hostname = defaultHostname efuse,
         nc_friendlyName = ''MultiBus Gateway''\<rparr>, dc_lorawan := default_lorawan_config\<lparr>lc_appKey := generateAppKey random\<rparr>\<rparr>) \<and>
    (fst (pf_clear P (se_ns (dv_security d))) \<longrightarrow>
      \<not> verifyAdminPassword P C password (dv_security d') \<and> apPassword P (dv_security d') = []) \<and>
    (subsystems_erased P (dv_application d) \<longrightarrow>
      (\<exists>b. application_restore P SER nowMs (restarted SER (dv_application d')) = Some (True, b) \<and>
         same_configuration (initial_application SER m l ns) b \<and> hr_size (hp_ring (ga_history b)) = 0))"
proof (intro conjI impI)
  have parts: "dv_configNs d' = snd (pf_clear P (dv_configNs d))" "dv_security d' = securityStore_clear P (dv_security d)"
    "dv_application d' = clearSubsystemStores P (dv_application d)"
    by (simp_all add: assms(2) performFactoryReset_def configStore_clear_def)
  show "fst (snd (prepareConfiguration P efuse random (dv_configNs d') (dv_needsSave d'))) =
      default_device_config\<lparr>dc_network := \<lparr>nc_ssid = [], nc_password = [], nc_hostname = defaultHostname efuse,
         nc_friendlyName = ''MultiBus Gateway''\<rparr>, dc_lorawan := default_lorawan_config\<lparr>lc_appKey := generateAppKey random\<rparr>\<rparr>"
    if "fst (pf_clear P (dv_configNs d))"
    unfolding parts(1) by (rule erased_configuration) (rule cleared_blank [OF assms(1) that])
  show "\<not> verifyAdminPassword P C password (dv_security d')" "apPassword P (dv_security d') = []"
    if "fst (pf_clear P (se_ns (dv_security d)))"
    using cleared_blank [OF assms(1) that]
    by (simp_all add: verifyAdminPassword_def apPassword_def parts(2) securityStore_clear_def pf_getString_def blank_store_def)
  show "\<exists>b. application_restore P SER nowMs (restarted SER (dv_application d')) = Some (True, b) \<and>
      same_configuration (initial_application SER m l ns) b \<and> hr_size (hp_ring (ga_history b)) = 0"
    if "subsystems_erased P (dv_application d)"
    by (rule erased_application [OF assms(1) that parts(3) assms(3)])
qed

lemma reset_erases_everything_witness:
  "let d = performFactoryReset map_prefs \<lparr>dv_configNs = (\<lambda>_. Some (PvU32 3)), dv_needsSave = True,
        dv_security = \<lparr>se_ns = (\<lambda>_. Some (PvString ''x'')), se_initialAdminPassword = []\<rparr>, dv_application = sample_application\<rparr>
   in \<not> verifyAdminPassword map_prefs sum_crypto ''correct horse'' (dv_security d) \<and>
      (\<exists>b. application_restore map_prefs (\<lambda>_ _ _. 1) 5 (restarted (\<lambda>_ _ _. 1) (dv_application d)) = Some (True, b))"
proof -
  have line: "makeRtuSerialConfig (\<lambda>_ _ _. 1) default_rs485 1 \<noteq> None"
    by (simp add: makeRtuSerialConfig_def default_rs485_def esp32SupportsRs485SerialSettings_def validRs485SerialSettings_def
        validRs485BaudRate_def Let_def)
  have cleared: "fst (pf_clear map_prefs s)" for s by (simp add: map_prefs_def)
  then have "subsystems_erased map_prefs a" for a by (simp add: subsystems_erased_def pf_isKey_def Let_def)
  with cleared reset_erases_everything [OF map_prefs_laws refl line, of "\<lparr>dv_configNs = (\<lambda>_. Some (PvU32 3)), dv_needsSave = True,
        dv_security = \<lparr>se_ns = (\<lambda>_. Some (PvString ''x'')), se_initialAdminPassword = []\<rparr>, dv_application = sample_application\<rparr>"]
  show ?thesis by (simp add: Let_def) blast
qed

end
