(* ===== verification/Spec2Isabelle.thy ===== *)
theory Spec2Isabelle
  imports ModbusMasterProperties FPort85Commands FPort85UplinkProperties HistoryProperties StoreProperties
    ReportProperties TimeProperties RuleProperties TransferProperties BusProperties ComponentPolling
    Restart ApplicationSafety RuleActionProperties RadioProperties MqttDiscovery WebProperties StartupProperties
begin

text \<open>
  The firmware of the ESP32 multi-bus gateway (\<^verbatim>\<open>src/include\<close>): a device that polls Modbus RTU
  slaves over RS485 and reports their values over LoRaWAN, in the frame format of a compatibility product on
  port 85, and over MQTT, with an administration over HTTP. \<^verbatim>\<open>core/Application.h\<close> owns everything
  and runs one cooperative loop; the components keep their state in objects and their settings in namespaces
  of the flash key-value storage. The model follows that structure: a record for the fields of each class, one
  definition for each method with the state passed in and returned, a sum, an option or a flag for every error
  branch, and machine integers at their width (\<open>u8\<close>, \<open>u16\<close>, \<open>u32\<close>,
  \<open>u64\<close> wrap as in C). Times, levels, received bytes and random numbers are arguments. Definitions
  compute.
\<close>

section \<open>Theories and source files\<close>

text \<open>
  \<^bold>\<open>Shared.\<close> \<open>Prelude\<close>: words, byte orders, the comparison of clock values by the sign of
  their difference (\<open>time_reached\<close>), null pointers, and the locale \<open>step_machine\<close> of operations
  that keep an invariant, which every stateful component interprets. \<open>Checksum\<close>: the locale
  \<open>byte_crc\<close>, interpreted by the 16-bit CRC of Modbus and the 32-bit CRC of the history image.
  \<open>SoftFloat\<close>: the part of IEEE 754 the firmware uses, on bit patterns.

  \<^bold>\<open>Modbus\<close> (\<^verbatim>\<open>modbus/\<close>). \<open>ModbusChannel\<close> (ModbusChannel.h, Rs485Settings.h,
  ModbusMasterSettings.h), \<open>ModbusRtuCodec\<close> with \<open>ModbusRtuProperties\<close> (ModbusRtuCodec.h),
  \<open>RtuPassive\<close> (RtuPassiveFrameCollector.h), \<open>ModbusRtuMaster\<close> with
  \<open>ModbusMasterProperties\<close> (ModbusRtuMaster.h: requests, the three kinds of transactions, their
  polling and cancellation). \<open>ModbusComponent\<close> with \<open>ComponentProperties\<close> and
  \<open>ComponentPolling\<close> (components/Components.h, ModbusComponent): queues, retries, cache and points.

  \<^bold>\<open>Compatibility protocol\<close> (\<^verbatim>\<open>lorawan/\<close>). \<open>FPort85Codec\<close> (FPort85Codec.h,
  FPort85ReportSettings.h), \<open>FPort85Commands\<close> (the locale \<open>command_decoder\<close>, interpreted by
  every decoder), \<open>FPort85Uplink\<close> with \<open>FPort85UplinkProperties\<close> (FPort85ModbusUplink.h,
  FPort85Alarm.h, FPort85BasicInfo.h), \<open>ReportScheduler\<close> with \<open>ReportProperties\<close>
  (FPort85ReportScheduler.h), \<open>History\<close> with \<open>HistoryProperties\<close> (FPort85History.h and
  history/HistoryImageCodec.h; locale \<open>bounded_log\<close>), \<open>HistoryTransfer\<close> with
  \<open>TransferProperties\<close> (the history handlers of core/Application.h).

  \<^bold>\<open>Radio.\<close> \<open>LoRaWanRadio\<close> with \<open>RadioProperties\<close> (lorawan/LoRaWanRadio.h and
  the LoRa component of components/Components.h): provisioning, joining, restoring and persisting, sending
  and receiving, over the record \<open>radiolib\<close> of the calls of the RadioLib node.

  \<^bold>\<open>Storage.\<close> \<open>Stores\<close> with \<open>StoreProperties\<close> (the stores of modbus/, lorawan/
  and history/), \<open>TimeStore\<close>, \<open>Rules\<close> (rules/RuleStore.h), \<open>DeviceConfig\<close>
  (core/AppConfig.h, DeviceConfig.h, LoRaWanIdentity.h, DeviceIdentity.h, ConfigStore.h), all over the record
  \<open>prefs\<close> of the calls of the Preferences library.

  \<^bold>\<open>Time and rules.\<close> \<open>LocalTime\<close> with \<open>TimeProperties\<close> (time/LocalTime.h),
  \<open>RuleExecution\<close> with \<open>RuleProperties\<close> (rules/RuleExecution.h, RuleState.h).

  \<^bold>\<open>Application\<close> (core/Application.h). \<open>Buses\<close> with \<open>BusProperties\<close> (EventBus.h,
  CommandBus.h, ChannelRegistry.h, CapabilityRegistry.h, DataSource.h; locale \<open>simulation\<close>),
  \<open>ApplicationState\<close>, \<open>ApplicationRules\<close>, \<open>ApplicationDownlink\<close> and
  \<open>ApplicationLoop\<close> (state, rule actions, the downlink handler, the turn of the main loop);
  \<open>DownlinkProperties\<close>, \<open>Persistence\<close>, \<open>Restart\<close>, \<open>RuleActionProperties\<close>,
  \<open>ApplicationInvariant\<close> and \<open>ApplicationSafety\<close> prove what spans the components.
  \<open>Startup\<close> with \<open>StartupProperties\<close>: the configuration at start, the factory reset and its
  button (services/BoardService.h), client or access point (services/NetworkService.h).

  \<^bold>\<open>MQTT.\<close> \<open>MqttProtocol\<close> (mqtt/MqttProtocol.h), \<open>MqttService\<close> with
  \<open>MqttProperties\<close> and \<open>MqttDiscovery\<close> (services/MqttService.h; locale
  \<open>event_source\<close>), over the record \<open>mqtt_client\<close>; the application's handlers are the record
  \<open>mqtt_handlers\<close>, which \<open>app_handlers\<close> fills with its definitions.

  \<^bold>\<open>Administration.\<close> \<open>Security\<close> with \<open>SecurityProperties\<close> (core/LoginThrottle.h,
  WebSessionPolicy.h, WebTransportPolicy.h, PasswordKdfPolicy.h, SecurityStore.h), \<open>Backup\<close> with
  \<open>BackupProperties\<close> (core/BackupService.h, BackupCrypto.h), \<open>WebPages\<close>,
  \<open>WebService\<close> and \<open>WebProperties\<close> (services/WebService.h).
\<close>

section \<open>What is proved\<close>

text \<open>
  Of the whole device: in every reachable state of the application all its tables, indices and buffers are in
  order and every uplink fits the radio; a downlink that is acknowledged is stored and a restart restores it;
  a payload is executed as exactly the commands it holds, or not at all when it is malformed.

  Of the radio and the storage: nonces and sessions are durable before they are relied on; saving the history
  is atomic. The configuration store, the password and the factory reset do not look at the results of
  their writes, so what is proved of them is under the condition that the storage performed those writes and
  clears: the configuration is then loaded as it was saved, the one the first start arrives at is that of
  every later start, and a reset, which takes a held button, leaves nothing.

  Of the bus: the master keeps its bookkeeping under every sequence of calls, every transaction ends, a
  corrupted or foreign answer is never taken for data, and the values a slave encodes are the values that are
  read, reported and recorded; what waits in a mailbox or queue of the component fits its buffer.

  Of the protocols: reports are sent whole, retransmissions (as long as the network stays) and queries send
  exactly the records due, the rules fire and act as their frames say, with the exceptions the properties name,
  MQTT passes on exactly the permitted commands, accounts for every event and, in a refresh that counts no
  failure, brings the discovery topics in step with the channels.

  Of the administration: without the password nothing changes and nothing is shown, a change needs the cookie
  and the token of an open session, a login gives both (before the initial password is changed, too), guessing
  is bounded, a password that is set and stored is the one that opens, key derivation is PBKDF2 and a backup
  restores what it was made from.
\<close>

section \<open>Parameters and their laws\<close>

text \<open>
  Code outside the repository is a parameter with its documented behaviour as a named predicate, each shown
  to be satisfiable by an instance: \<open>prefs_laws\<close> for the key-value storage (\<open>map_prefs\<close>), in
  which every write, removal and clear may fail and only one that reports success is known to have taken effect
  (\<open>writes_stored\<close> says of a chain of writes whose results the code drops that each was stored),
  \<open>radiolib_laws\<close> for the radio library (\<open>counter_radio\<close>),
  \<open>retaining\<close> for an MQTT client and its broker, of which only an accepted publication is known to be
  retained (\<open>broker_client\<close>),
  \<open>json_laws\<close> for the JSON library (\<open>tagged_json\<close>), \<open>crypto_laws\<close> for the
  cryptography (\<open>hex_crypto\<close>, and \<open>sum_crypto\<close> for the keyed digest). Namespaces of the storage
  are modelled apart from one another, as their keys are disjoint.
\<close>

section \<open>Bounds and fuel\<close>

text \<open>
  Loops are recursion on the data they walk; a loop over a counter carries the number of rounds that are left,
  which is the loop's own bound (the records of a ring, the iterations of a key derivation, the events per turn
  of the MQTT service), so no result depends on a chosen bound. A blocking read takes the list of its polls and
  returns when the list shows the timeout, and the cookie scanner is a function with a measure. The event feed
  counts the numbers between the first and the latest event, and stops at 32 items as the code does. Bounds of a
  property are in its statement: the throttle and the edges of a rule condition are followed for the first 24
  days of uptime, event numbers below the largest number of 64 bits, dates as far as the day number fits the 32
  bits the code cuts it to.
\<close>

section \<open>Not modelled\<close>

text \<open>
  Pins, buses and clocks of the hardware beyond the effects listed in a state; waiting for the Wi-Fi
  connection, the captive DNS server and mDNS (services/NetworkService.h); parsing HTTP (the web server); the
  order in which the application's begin opens its stores and starts its services, the core capabilities, the
  printed status and the counters (core/Application.h); the Victron and GNSS components, which have no behaviour
  yet; main.cpp, BoardPins.h and the abstract interfaces Component.h and Transport.h. The application sees the
  radio through \<open>lora_link\<close>: its connectivity does not change within a turn, and a downlink received
  by a send is handled after the turn's handlers rather than inside the call. A failed allocation is not
  modelled.
\<close>

end
